(* ===== verification/Prelude.thy ===== *)
theory Prelude
  imports "HOL-Library.Word"
begin

text \<open>
  Shared vocabulary of the development: the C++ integer types of
  \<open>include/vioavr/core/types.hpp\<close> as words, the bit tests the sources write as
  \<open>(x & mask) != 0\<close>, conversions between bits and arithmetic on bytes, and the
  lemmas on lists that the component theories share.  \<open>mask_bit\<close> collects the
  rewrites from mask tests to single bits, \<open>byte_arith\<close> the readings of a byte's
  bits as bounds on its value.
\<close>

unbundle bit_operations_syntax

type_synonym u8 = "8 word"
type_synonym u16 = "16 word"
type_synonym u32 = "32 word"
type_synonym u64 = "64 word"

named_theorems mask_bit
named_theorems byte_arith

text \<open>C++ converts an integer to \<open>bool\<close> by comparing it with zero.\<close>

definition to_bool :: "'a::len word \<Rightarrow> bool" where
  "to_bool w \<longleftrightarrow> w \<noteq> 0"

definition of_flag :: "bool \<Rightarrow> 'a::len word" where
  "of_flag b = (if b then 1 else 0)"

definition enum_index :: "u8 \<Rightarrow> nat" where
  "enum_index w = unat w"

section \<open>Mask tests\<close>

lemma and_mask_bit:
  fixes x :: "'a::len word"
  shows "(x AND 2 ^ n = 0) = (\<not> bit x n)"
  by (rule and_exp_eq_0_iff_not_bit)

lemma mask_bit_const [mask_bit]:
  fixes x :: "'a::len word"
  shows "(x AND 1 = 0) = (\<not> bit x 0)" and "(x AND 2 = 0) = (\<not> bit x 1)"
    and "(x AND 4 = 0) = (\<not> bit x 2)" and "(x AND 8 = 0) = (\<not> bit x 3)"
    and "(x AND 16 = 0) = (\<not> bit x 4)" and "(x AND 32 = 0) = (\<not> bit x 5)"
    and "(x AND 64 = 0) = (\<not> bit x 6)" and "(x AND 128 = 0) = (\<not> bit x 7)"
    and "(x AND 0x8000 = 0) = (\<not> bit x 15)"
  using and_mask_bit[of x 0] and_mask_bit[of x 1] and_mask_bit[of x 2] and_mask_bit[of x 3]
    and_mask_bit[of x 4] and_mask_bit[of x 5] and_mask_bit[of x 6] and_mask_bit[of x 7]
    and_mask_bit[of x 15]
  by simp_all

lemma to_bool_mask [mask_bit]:
  fixes x :: "'a::len word"
  shows "to_bool (x AND 8) = bit x 3" and "to_bool (x AND 128) = bit x 7"
    and "to_bool (x AND 1) = bit x 0"
  by (simp_all add: to_bool_def mask_bit_const)

text \<open>A mask test decides every other mask test that it contradicts.\<close>

lemma mask_conflict:
  fixes x :: "'a::len word"
  assumes "x AND M = P" and "P AND m \<noteq> p AND M"
  shows "x AND m \<noteq> p"
proof
  assume "x AND m = p"
  then have "p AND M = (x AND M) AND m" by (simp add: ac_simps)
  with assms show False by simp
qed

lemma word_and_le_bound:
  fixes x y :: "'a::len word"
  shows "y < b \<Longrightarrow> x AND y < b"
  by (meson le_less_trans word_and_le1)

section \<open>Bytes as numbers\<close>

lemma u8_less: "unat (w::u8) < 256"
  using unsigned_less[where 'a = nat, of w] by simp

lemma u16_less: "unat (w::u16) < 65536"
  using unsigned_less[where 'a = nat, of w] by simp

lemma u32_less: "unat (w::u32) < 2 ^ 32"
  using unsigned_less[where 'a = nat, of w] by simp

lemma u64_less: "unat (w::u64) < 2 ^ 64"
  using unsigned_less[where 'a = nat, of w] by simp

lemma bit_unat: "bit (w::'a::len word) n = odd (unat w div 2 ^ n)"
proof -
  have "bit w n = bit (unat w) n"
    using bit_imp_le_length[of w n] by (auto simp: bit_unsigned_iff)
  then show ?thesis by (simp add: bit_iff_odd)
qed

lemma odd_div_top:
  fixes n k :: nat
  assumes "n < 2 * k"
  shows "odd (n div k) \<longleftrightarrow> k \<le> n"
proof (cases "k \<le> n")
  case True
  with assms have "n div k = 1" by (intro div_nat_eqI) auto
  with True show ?thesis by simp
qed simp

lemma odd_div_8: "odd ((n::nat) div 8) \<longleftrightarrow> 8 \<le> n mod 16"
proof -
  have "n mod 16 = 8 * (n div 8 mod 2) + n mod 8"
    using mod_mult2_eq[of n 8 2] by simp
  moreover have "n mod 8 < 8" by simp
  ultimately show ?thesis by (cases "even (n div 8)") (auto simp: odd_iff_mod_2_eq_one)
qed

lemma bit7_unat [byte_arith]: "bit (w::u8) 7 \<longleftrightarrow> 128 \<le> unat w"
  using odd_div_top[of "unat w" 128] u8_less[of w] bit_unat[of w 7] by simp

lemma bit3_unat [byte_arith]: "bit (w::'a::len word) 3 \<longleftrightarrow> 8 \<le> unat w mod 16"
  using odd_div_8[of "unat w"] bit_unat[of w 3] by simp

lemma bit0_unat [byte_arith]: "bit (w::'a::len word) 0 \<longleftrightarrow> odd (unat w)"
  using bit_unat[of w 0] by simp

lemma bit15_unat [byte_arith]: "bit (w::u16) 15 \<longleftrightarrow> 32768 \<le> unat w"
  using odd_div_top[of "unat w" 32768] u16_less[of w] bit_unat[of w 15] by simp

lemma sint_eq_uint_diff:
  "sint (w::'a::len word) = uint w - (if bit w (LENGTH('a) - 1) then 2 ^ LENGTH('a) else 0)"
proof -
  obtain n where n: "LENGTH('a) = Suc n"
    using len_gt_0[where 'a = 'a] by (metis gr0_implies_Suc)
  have "take_bit (Suc n) (uint w) = uint w"
    using bintr_uint[where w = w and n = "Suc n"] n by simp
  then show ?thesis
    by (simp add: n sint_uint signed_take_bit_eq_take_bit_minus bit_uint_iff)
qed

lemma sint8: "sint (w::u8) = int (unat w) - (if bit w 7 then 256 else 0)"
  using sint_eq_uint_diff[of w] by simp

lemma sint16: "sint (w::u16) = int (unat w) - (if bit w 15 then 65536 else 0)"
  using sint_eq_uint_diff[of w] by simp

lemma unat_ucast_up:
  fixes w :: "'a::len word"
  assumes "LENGTH('a) \<le> LENGTH('b::len)"
  shows "unat (ucast w :: 'b word) = unat w"
proof -
  have "unat w < 2 ^ LENGTH('b)"
    using unsigned_less[where 'a = nat, of w] assms
    by (meson le_less_trans less_le_trans one_le_numeral power_increasing)
  then show ?thesis
    by (simp add: unsigned_ucast_eq take_bit_nat_eq_self_iff)
qed

lemmas unat_u8_to_u16 [simp] = unat_ucast_up[where 'a = 8 and 'b = 16, simplified]
lemmas unat_u16_to_u32 [simp] = unat_ucast_up[where 'a = 16 and 'b = 32, simplified]
lemmas unat_u8_to_u32 [simp] = unat_ucast_up[where 'a = 8 and 'b = 32, simplified]

end
