(* ===== verification/Device.thy ===== *)
theory Device
  imports Prelude
begin

text \<open>
  The part of \<open>DeviceDescriptor\<close> (\<open>include/vioavr/core/device.hpp\<close>) that the
  modelled components read, with the register maps of the peripherals modelled here.
  A descriptor is constant data: the generated headers under
  \<open>include/vioavr/core/devices/\<close> are values of it.  Descriptor fields keep their
  C++ names, those of the peripheral descriptors get the peripheral's prefix.
\<close>

record address_range =
  range_begin :: u16
  range_end :: u16

definition range_contains :: "address_range \<Rightarrow> u16 \<Rightarrow> bool" where
  "range_contains r address \<longleftrightarrow> address \<ge> range_begin r \<and> address \<le> range_end r"

record mapped_memory =
  data_start :: u16
  mapped_size :: u16

text \<open>
  \<open>address >= data_start && address < data_start + size\<close>: the sum is computed in
  \<open>int\<close>, so it does not wrap at 16 bits.
\<close>

definition in_mapped :: "mapped_memory \<Rightarrow> u16 \<Rightarrow> bool" where
  "in_mapped d address \<longleftrightarrow>
     mapped_size d > 0 \<and> address \<ge> data_start d \<and>
     unat address < unat (data_start d) + unat (mapped_size d)"

datatype nvm_family = MegaTiny | Dx | Ex

record xmem_descriptor =
  xmcra_address :: u16
  xmcrb_address :: u16
  xmem_mcucr_address :: u16
  sre_mask :: u8
  srl_mask :: u8
  srw0_mask :: u8
  srw1_mask :: u8
  xmm_mask :: u8
  xmbk_mask :: u8

record device =
  device_name :: string
  flash_words :: u32
  sram_bytes :: u16
  sram_start :: u16
  eeprom_bytes :: u16
  interrupt_vector_count :: u8
  interrupt_vector_size :: u8
  flash_page_size :: u16
  register_file_range :: address_range
  io_range :: address_range
  extended_io_range :: address_range
  mapped_flash :: mapped_memory
  mapped_eeprom :: mapped_memory
  mapped_fuses :: mapped_memory
  mapped_signatures :: mapped_memory
  mapped_user_signatures :: mapped_memory
  spl_address :: u16
  sph_address :: u16
  sreg_address :: u16
  rampz_address :: u16
  eind_address :: u16
  spmcsr_address :: u16
  sigrd_mask :: u8
  blbset_mask :: u8
  spmen_mask :: u8
  prr_address :: u16
  prr0_address :: u16
  prr1_address :: u16
  smcr_address :: u16
  mcusr_address :: u16
  mcucr_address :: u16
  clkpr_address :: u16
  osccal_address :: u16
  ccp_address :: u16
  pllcsr_address :: u16
  xmem_desc :: xmem_descriptor
  smcr_sm_mask :: u8
  smcr_se_mask :: u8
  mcucr_pud_mask :: u8
  flash_rww_end_word :: u32
  boot_start_address :: u32
  spl_reset :: u8
  sph_reset :: u8
  sreg_reset :: u8
  cpu_frequency_hz :: u64
  internal_rc_active :: bool
  nvm_ctrl_count :: u8
  signature :: "u8 list"
  device_fuses :: "u8 list"
  lockbit_reset :: u8

definition pc_width_bytes :: "device \<Rightarrow> u8" where
  "pc_width_bytes d = (if flash_words d > 65536 then 3 else 2)"

definition data_end_address :: "device \<Rightarrow> u16" where
  "data_end_address d =
     (if sram_start d \<noteq> 0 then sram_start d + sram_bytes d - 1
      else range_end (extended_io_range d) + sram_bytes d)"

definition sram_range :: "device \<Rightarrow> address_range" where
  "sram_range d =
     (if sram_start d \<noteq> 0
      then \<lparr>range_begin = sram_start d, range_end = data_end_address d\<rparr>
      else \<lparr>range_begin = range_end (extended_io_range d) + 1, range_end = data_end_address d\<rparr>)"

text \<open>
  \<open>nvm_family_for_name\<close>: the family of a device without an NVMCTRL descriptor, from
  its name (the letters after the flash size).
\<close>

fun drop_digits :: "string \<Rightarrow> string" where
  "drop_digits (c # cs) =
     (if (48::nat) \<le> of_char c \<and> of_char c \<le> (57::nat) then drop_digits cs else c # cs)"
| "drop_digits [] = []"

definition nvm_family_for_name :: "string \<Rightarrow> nvm_family" where
  "nvm_family_for_name nm =
     (if length nm > 3 \<and> take 3 nm = ''AVR''
      then let rest = drop_digits (drop 3 nm);
               starts_with = (\<lambda>p. length rest \<ge> 2 \<and> take 2 rest = p)
           in if starts_with ''DA'' \<or> starts_with ''DB'' \<or> starts_with ''DD''
                 \<or> starts_with ''DU'' \<or> starts_with ''SD'' then Dx
              else if starts_with ''EA'' \<or> starts_with ''EB'' then Ex
              else MegaTiny
      else MegaTiny)"

text \<open>
  A descriptor with the default member values of the C++ struct (every register address
  zero unless the struct gives one), the base from which concrete devices are built.
\<close>

definition no_mapped :: mapped_memory where
  "no_mapped = \<lparr>data_start = 0, mapped_size = 0\<rparr>"

definition no_xmem :: xmem_descriptor where
  "no_xmem = \<lparr>xmcra_address = 0, xmcrb_address = 0, xmem_mcucr_address = 0, sre_mask = 0x80,
     srl_mask = 0x70, srw0_mask = 0x03, srw1_mask = 0x0C, xmm_mask = 0x07, xmbk_mask = 0x80\<rparr>"

definition default_device :: device where
  "default_device = \<lparr>
     device_name = [], flash_words = 0, sram_bytes = 0, sram_start = 0, eeprom_bytes = 0,
     interrupt_vector_count = 0, interrupt_vector_size = 2, flash_page_size = 0x80,
     register_file_range = \<lparr>range_begin = 0, range_end = 0x1F\<rparr>,
     io_range = \<lparr>range_begin = 0x20, range_end = 0x5F\<rparr>,
     extended_io_range = \<lparr>range_begin = 0x60, range_end = 0xFF\<rparr>,
     mapped_flash = no_mapped, mapped_eeprom = no_mapped, mapped_fuses = no_mapped,
     mapped_signatures = no_mapped, mapped_user_signatures = no_mapped,
     spl_address = 0x5D, sph_address = 0x5E, sreg_address = 0x5F,
     rampz_address = 0, eind_address = 0, spmcsr_address = 0,
     sigrd_mask = 0, blbset_mask = 0, spmen_mask = 0,
     prr_address = 0, prr0_address = 0, prr1_address = 0,
     smcr_address = 0, mcusr_address = 0, mcucr_address = 0,
     clkpr_address = 0, osccal_address = 0, ccp_address = 0, pllcsr_address = 0,
     xmem_desc = no_xmem,
     smcr_sm_mask = 0x0E, smcr_se_mask = 0x01, mcucr_pud_mask = 0x10,
     flash_rww_end_word = 0, boot_start_address = 0,
     spl_reset = 0, sph_reset = 0, sreg_reset = 0,
     cpu_frequency_hz = 16000000, internal_rc_active = False, nvm_ctrl_count = 0,
     signature = [0xFF, 0xFF, 0xFF], device_fuses = replicate 16 0xFF, lockbit_reset = 0xFF\<rparr>"

end
