(* ===== verification/Periph.thy ===== *)
theory Periph
  imports Device
begin

text \<open>
  The register state of the peripherals modelled here, with the operations that touch
  nothing but that state: the interrupt controller \<open>CpuInt\<close>, the sleep, reset and
  clock controllers, the NVM controller, both watchdogs, the EEPROM, the external-memory
  interface and the interrupt requests.  Operations that call back into the bus, the
  scheduler or the CPU are in \<open>Machine\<close>.
\<close>

section \<open>Interrupt requests\<close>

datatype interrupt_request = Irq (vector_index: u8) (source_id: u8)

text \<open>The legacy priority: lowest vector first, then lowest source.\<close>

instantiation interrupt_request :: linorder
begin

definition less_eq_interrupt_request :: "interrupt_request \<Rightarrow> interrupt_request \<Rightarrow> bool" where
  "less_eq_interrupt_request a b \<longleftrightarrow>
     vector_index a < vector_index b \<or> vector_index a = vector_index b \<and> source_id a \<le> source_id b"

definition less_interrupt_request :: "interrupt_request \<Rightarrow> interrupt_request \<Rightarrow> bool" where
  "less_interrupt_request a b \<longleftrightarrow>
     vector_index a < vector_index b \<or> vector_index a = vector_index b \<and> source_id a < source_id b"

instance
  by standard (auto simp: less_eq_interrupt_request_def less_interrupt_request_def
      interrupt_request.expand intro: interrupt_request.expand)

end

section \<open>CpuInt\<close>

record cpu_int =
  ci_ctrla_address :: u16
  ci_status_address :: u16
  ci_lvl0pri_address :: u16
  ci_lvl1vec_address :: u16
  ci_ctrla :: u8
  ci_status :: u8
  ci_lvl0pri :: u8
  ci_lvl1vec :: u8
  ci_last_ack_vector :: u8

definition is_lvl1_vector :: "cpu_int \<Rightarrow> u8 \<Rightarrow> bool" where
  "is_lvl1_vector c v \<longleftrightarrow> v \<ge> ci_lvl1vec c \<and> ci_lvl1vec c < 255"

definition round_robin_enabled :: "cpu_int \<Rightarrow> bool" where
  "round_robin_enabled c \<longleftrightarrow> ci_ctrla c AND 0x01 \<noteq> 0"

definition compact_vector_table :: "cpu_int \<Rightarrow> bool" where
  "compact_vector_table c \<longleftrightarrow> ci_ctrla c AND 0x20 \<noteq> 0"

definition ivsel :: "cpu_int \<Rightarrow> bool" where
  "ivsel c \<longleftrightarrow> ci_ctrla c AND 0x40 \<noteq> 0"

definition highest_priority_vector :: "cpu_int \<Rightarrow> u8" where
  "highest_priority_vector c =
     (if round_robin_enabled c
      then let nxt = ci_last_ack_vector c + 1 in if nxt = 0 then 1 else nxt
      else ci_lvl0pri c)"

definition on_interrupt_acknowledged :: "u8 \<Rightarrow> cpu_int \<Rightarrow> cpu_int" where
  "on_interrupt_acknowledged v c = c\<lparr>ci_last_ack_vector := v\<rparr>"

definition cpu_int_on_reti :: "cpu_int \<Rightarrow> cpu_int" where
  "cpu_int_on_reti c =
     (if ci_status c AND 0x02 \<noteq> 0 then c\<lparr>ci_status := ci_status c AND NOT 0x02\<rparr>
      else if ci_status c AND 0x01 \<noteq> 0 then c\<lparr>ci_status := ci_status c AND NOT 0x01\<rparr>
      else c)"

definition set_executing_lvl0 :: "bool \<Rightarrow> cpu_int \<Rightarrow> cpu_int" where
  "set_executing_lvl0 active c =
     c\<lparr>ci_status := (if active then ci_status c OR 0x01 else ci_status c AND NOT 0x01)\<rparr>"

definition set_executing_lvl1 :: "bool \<Rightarrow> cpu_int \<Rightarrow> cpu_int" where
  "set_executing_lvl1 active c =
     c\<lparr>ci_status := (if active then ci_status c OR 0x02 else ci_status c AND NOT 0x02)\<rparr>"

definition cpu_int_read :: "cpu_int \<Rightarrow> u16 \<Rightarrow> u8" where
  "cpu_int_read c address =
     (if address = ci_ctrla_address c then ci_ctrla c
      else if address = ci_status_address c then ci_status c
      else if address = ci_lvl0pri_address c then ci_lvl0pri c
      else if address = ci_lvl1vec_address c then ci_lvl1vec c
      else 0)"

definition cpu_int_write :: "u16 \<Rightarrow> u8 \<Rightarrow> cpu_int \<Rightarrow> cpu_int" where
  "cpu_int_write address v c =
     (if address = ci_ctrla_address c then c\<lparr>ci_ctrla := v AND 0x61\<rparr>
      else if address = ci_status_address c then c
      else if address = ci_lvl0pri_address c then c\<lparr>ci_lvl0pri := v\<rparr>
      else if address = ci_lvl1vec_address c then c\<lparr>ci_lvl1vec := v\<rparr>
      else c)"

definition cpu_int_reset :: "cpu_int \<Rightarrow> cpu_int" where
  "cpu_int_reset c =
     c\<lparr>ci_ctrla := 0, ci_status := 0, ci_lvl0pri := 0, ci_lvl1vec := 0xFF, ci_last_ack_vector := 0\<rparr>"

section \<open>SlpCtrl and RstCtrl\<close>

record slp_ctrl =
  slp_ctrla_address :: u16
  slp_ctrla :: u8

definition slp_read :: "slp_ctrl \<Rightarrow> u16 \<Rightarrow> u8" where
  "slp_read c address = (if address = slp_ctrla_address c then slp_ctrla c else 0)"

definition slp_write :: "u16 \<Rightarrow> u8 \<Rightarrow> slp_ctrl \<Rightarrow> slp_ctrl" where
  "slp_write address v c = (if address = slp_ctrla_address c then c\<lparr>slp_ctrla := v\<rparr> else c)"

definition slp_sleep_enabled :: "slp_ctrl \<Rightarrow> bool" where
  "slp_sleep_enabled c \<longleftrightarrow> slp_ctrla c AND 0x01 \<noteq> 0"

definition slp_sleep_mode :: "slp_ctrl \<Rightarrow> u8" where
  "slp_sleep_mode c = drop_bit 1 (slp_ctrla c AND 0x0E)"

record rst_ctrl =
  rst_rstfr_address :: u16
  rst_swrr_address :: u16
  rst_rstfr :: u8
  rst_swrr :: u8
  rst_requested :: bool

definition rst_read :: "rst_ctrl \<Rightarrow> u16 \<Rightarrow> u8" where
  "rst_read c address =
     (if address = rst_rstfr_address c then rst_rstfr c
      else if address = rst_swrr_address c then rst_swrr c else 0)"

definition rst_write :: "u16 \<Rightarrow> u8 \<Rightarrow> rst_ctrl \<Rightarrow> rst_ctrl" where
  "rst_write address v c =
     (if address = rst_rstfr_address c then c\<lparr>rst_rstfr := rst_rstfr c AND NOT v\<rparr>
      else if address = rst_swrr_address c \<and> v \<noteq> 0
      then c\<lparr>rst_swrr := v, rst_rstfr := rst_rstfr c OR 0x10, rst_requested := True\<rparr>
      else c)"

definition rst_reset :: "rst_ctrl \<Rightarrow> rst_ctrl" where
  "rst_reset c = c\<lparr>rst_rstfr := 0x01, rst_swrr := 0, rst_requested := False\<rparr>"

section \<open>Clock controllers\<close>

datatype clock_source = Osc20m | Osculp32k | Xosc32k | Extclk

record clk_ctrl =
  clk_ctrla_address :: u16
  clk_ctrlb_address :: u16
  clk_mclklock_address :: u16
  clk_mclkstatus_address :: u16
  clk_osc20mctrla_address :: u16
  clk_osc20mcalib_address :: u16
  clk_osc32kctrla_address :: u16
  clk_xosc32kctrla_address :: u16
  clk_mclkctrla :: u8
  clk_mclkctrlb :: u8
  clk_mclklock :: u8
  clk_mclkstatus :: u8
  clk_osc20mctrla :: u8
  clk_osc20mcaliba :: u8
  clk_osc20mcalibb :: u8
  clk_osc32kctrla :: u8
  clk_xosc32kctrla :: u8
  clk_base_freq_hz :: u32
  clk_ext_clock_hz :: u32
  clk_effective_freq_hz :: u32

definition clk_clock_source :: "clk_ctrl \<Rightarrow> clock_source" where
  "clk_clock_source c =
     (let w = clk_mclkctrla c AND 0x03
      in if w = 0 then Osc20m else if w = 1 then Osculp32k else if w = 2 then Xosc32k else Extclk)"

definition clk_source_frequency_hz :: "clk_ctrl \<Rightarrow> u32" where
  "clk_source_frequency_hz c =
     (case clk_clock_source c of
        Osc20m \<Rightarrow> clk_base_freq_hz c | Osculp32k \<Rightarrow> 32768 | Xosc32k \<Rightarrow> 32768
      | Extclk \<Rightarrow> clk_ext_clock_hz c)"

definition pdiv_table :: "u32 list" where
  "pdiv_table = [2, 4, 8, 16, 32, 64, 1, 1, 6, 10, 12, 24, 48, 1, 1, 1]"

definition clk_recompute_freq :: "clk_ctrl \<Rightarrow> clk_ctrl" where
  "clk_recompute_freq c =
     (let src = clk_source_frequency_hz c
      in if clk_mclkctrlb c AND 0x01 \<noteq> 0
         then let pdiv_idx = drop_bit 1 (clk_mclkctrlb c AND 0x1E);
                  divisor = pdiv_table ! unat (pdiv_idx AND 0x0F)
              in c\<lparr>clk_effective_freq_hz := src div divisor\<rparr>
         else c\<lparr>clk_effective_freq_hz := src\<rparr>)"

definition clk_update_status :: "clk_ctrl \<Rightarrow> clk_ctrl" where
  "clk_update_status c =
     c\<lparr>clk_mclkstatus := (case clk_clock_source c of
        Osc20m \<Rightarrow> 0x10 | Osculp32k \<Rightarrow> 0x20 | Xosc32k \<Rightarrow> 0x40 | Extclk \<Rightarrow> 0x80)\<rparr>"

definition clk_reset :: "clk_ctrl \<Rightarrow> clk_ctrl" where
  "clk_reset c = clk_recompute_freq (clk_update_status
     (c\<lparr>clk_mclkctrla := 0, clk_mclkctrlb := 0x11, clk_mclklock := 0, clk_osc20mctrla := 0,
        clk_osc20mcaliba := 0, clk_osc20mcalibb := 0, clk_osc32kctrla := 0, clk_xosc32kctrla := 0\<rparr>))"

definition clk_read :: "clk_ctrl \<Rightarrow> u16 \<Rightarrow> u8" where
  "clk_read c address =
     (if address = clk_ctrla_address c then clk_mclkctrla c
      else if address = clk_ctrlb_address c then clk_mclkctrlb c
      else if address = clk_mclklock_address c then clk_mclklock c
      else if address = clk_mclkstatus_address c then clk_mclkstatus c
      else if address = clk_osc20mctrla_address c then clk_osc20mctrla c
      else if address = clk_osc20mcalib_address c then clk_osc20mcaliba c
      else if address = clk_osc20mcalib_address c + 1 then clk_osc20mcalibb c
      else if address = clk_osc32kctrla_address c then clk_osc32kctrla c
      else if address = clk_xosc32kctrla_address c then clk_xosc32kctrla c
      else 0)"

definition clk_write :: "u16 \<Rightarrow> u8 \<Rightarrow> clk_ctrl \<Rightarrow> clk_ctrl" where
  "clk_write address v c =
     (let locked = clk_mclklock c AND 0x01 \<noteq> 0
      in if address = clk_ctrla_address c \<and> \<not> locked
         then clk_recompute_freq (clk_update_status (c\<lparr>clk_mclkctrla := v\<rparr>))
         else if address = clk_ctrlb_address c \<and> \<not> locked
         then clk_recompute_freq (c\<lparr>clk_mclkctrlb := v\<rparr>)
         else if address = clk_mclklock_address c \<and> \<not> locked
         then c\<lparr>clk_mclklock := v AND 0x01\<rparr>
         else if address = clk_osc20mctrla_address c then c\<lparr>clk_osc20mctrla := v\<rparr>
         else if address = clk_osc20mcalib_address c then c\<lparr>clk_osc20mcaliba := v AND 0x7F\<rparr>
         else if address = clk_osc20mcalib_address c + 1 then c\<lparr>clk_osc20mcalibb := v\<rparr>
         else if address = clk_osc32kctrla_address c then c\<lparr>clk_osc32kctrla := v\<rparr>
         else if address = clk_xosc32kctrla_address c then c\<lparr>clk_xosc32kctrla := v\<rparr>
         else c)"

datatype xclock_source = Rc2mhz | Rc32mhz | Rc32khz | Xosc | Pll | Xclk_Reserved

record xclk_ctrl =
  xclk_ctrl_addr :: u16
  xclk_psctrl_addr :: u16
  xclk_lock_addr :: u16
  xclk_rtcctrl_addr :: u16
  xclk_clk_ctrl :: u8
  xclk_psctrl :: u8
  xclk_lock :: u8
  xclk_rtcctrl :: u8
  xclk_xosc_freq_hz :: u32
  xclk_pll_freq_hz :: u32
  xclk_effective_freq_hz :: u32

definition xclk_clock_source :: "xclk_ctrl \<Rightarrow> xclock_source" where
  "xclk_clock_source c =
     (let w = xclk_clk_ctrl c AND 0x07
      in if w = 0 then Rc2mhz else if w = 1 then Rc32mhz else if w = 2 then Rc32khz
         else if w = 3 then Xosc else if w = 4 then Pll else Xclk_Reserved)"

definition xclk_source_frequency_hz :: "xclk_ctrl \<Rightarrow> u32" where
  "xclk_source_frequency_hz c =
     (case xclk_clock_source c of
        Rc2mhz \<Rightarrow> 2000000 | Rc32mhz \<Rightarrow> 32000000 | Rc32khz \<Rightarrow> 32768
      | Xosc \<Rightarrow> if xclk_xosc_freq_hz c > 0 then xclk_xosc_freq_hz c else 32000000
      | Pll \<Rightarrow> if xclk_pll_freq_hz c > 0 then xclk_pll_freq_hz c else 48000000
      | Xclk_Reserved \<Rightarrow> 32000000)"

definition psadiv_table :: "u32 list" where
  "psadiv_table = [1, 2, 4, 8, 16, 32, 64, 128]"

definition xclk_recompute_freq :: "xclk_ctrl \<Rightarrow> xclk_ctrl" where
  "xclk_recompute_freq c =
     c\<lparr>xclk_effective_freq_hz :=
        xclk_source_frequency_hz c div (psadiv_table ! unat (xclk_psctrl c AND 0x07))\<rparr>"

definition xclk_reset :: "xclk_ctrl \<Rightarrow> xclk_ctrl" where
  "xclk_reset c = xclk_recompute_freq
     (c\<lparr>xclk_clk_ctrl := 1, xclk_psctrl := 0, xclk_lock := 0, xclk_rtcctrl := 0\<rparr>)"

definition xclk_read :: "xclk_ctrl \<Rightarrow> u16 \<Rightarrow> u8" where
  "xclk_read c address =
     (if address = xclk_ctrl_addr c then xclk_clk_ctrl c
      else if address = xclk_psctrl_addr c then xclk_psctrl c
      else if address = xclk_lock_addr c then xclk_lock c
      else if address = xclk_rtcctrl_addr c then xclk_rtcctrl c
      else 0)"

definition xclk_write :: "u16 \<Rightarrow> u8 \<Rightarrow> xclk_ctrl \<Rightarrow> xclk_ctrl" where
  "xclk_write address v c =
     (let locked = xclk_lock c AND 0x01 \<noteq> 0
      in if address = xclk_ctrl_addr c \<and> \<not> locked
         then xclk_recompute_freq (c\<lparr>xclk_clk_ctrl := v AND 0x07\<rparr>)
         else if address = xclk_psctrl_addr c \<and> \<not> locked
         then xclk_recompute_freq (c\<lparr>xclk_psctrl := v AND (0x07 OR 0x18)\<rparr>)
         else if address = xclk_lock_addr c then c\<lparr>xclk_lock := v AND 0x01\<rparr>
         else if address = xclk_rtcctrl_addr c then c\<lparr>xclk_rtcctrl := v\<rparr>
         else c)"

end
