(* ===== verification/Watchdog.thy ===== *)
theory Watchdog
  imports Periph
begin

text \<open>
  The register state of the two watchdogs: \<open>WatchdogTimer\<close>
  (\<open>src/core/watchdog_timer.cpp\<close>) and \<open>Wdt8x\<close> (\<open>src/core/wdt8x.cpp\<close>), with the
  operations local to it.  What schedules events, raises interrupts or resets the CPU is
  in \<open>Machine\<close>.
\<close>

section \<open>WatchdogTimer\<close>

record wdt =
  wdt_wdtcsr_address :: u16
  wdt_vector_index :: u8
  wdt_wdie_mask :: u8
  wdt_wde_mask :: u8
  wdt_wdtcsr :: u16
  wdt_cycles_left :: u32
  wdt_timed_active :: bool
  wdt_timed_cycles_left :: u8
  wdt_irq :: bool

definition wdt_ticks :: "u32 list" where
  "wdt_ticks = [2048, 4096, 8192, 16384, 32768, 65536, 131072, 262144, 524288, 1048576]"

definition wdt_timeout_cycles :: "wdt \<Rightarrow> u32" where
  "wdt_timeout_cycles w =
     (let p = drop_bit 2 (wdt_wdtcsr w AND 0x20) OR (wdt_wdtcsr w AND 0x07);
          p = (if p > 9 then 9 else p)
      in wdt_ticks ! unat p * 125)"

definition wdt_reset :: "wdt \<Rightarrow> wdt" where
  "wdt_reset w = w\<lparr>wdt_wdtcsr := 0, wdt_cycles_left := 0, wdt_irq := False\<rparr>"

definition wdt_tick :: "u64 \<Rightarrow> wdt \<Rightarrow> wdt" where
  "wdt_tick elapsed w =
     (if wdt_timed_active w
      then if elapsed \<ge> ucast (wdt_timed_cycles_left w)
           then w\<lparr>wdt_timed_active := False, wdt_timed_cycles_left := 0,
                  wdt_wdtcsr := wdt_wdtcsr w AND 0xEF\<rparr>
           else w\<lparr>wdt_timed_cycles_left := wdt_timed_cycles_left w - ucast elapsed\<rparr>
      else w)"

definition wdt_read :: "wdt \<Rightarrow> u16 \<Rightarrow> u8" where
  "wdt_read w address =
     (if address = wdt_wdtcsr_address w
      then ucast ((wdt_wdtcsr w AND 0x7F) OR (if wdt_irq w then 0x80 else 0))
      else 0)"

definition wdt_pending :: "wdt \<Rightarrow> interrupt_request option" where
  "wdt_pending w =
     (if wdt_irq w \<and> wdt_wdtcsr w AND ucast (wdt_wdie_mask w) \<noteq> 0
      then Some (Irq (wdt_vector_index w) 0) else None)"

text \<open>
  The register effect of \<open>WatchdogTimer::write\<close>: the new state, and whether the write
  goes on to \<open>reset_watchdog\<close> (the opening write of the timed sequence returns at once).
\<close>

datatype wdt_write_effect = Sequence_Opened | Restarted | Ignored

definition wdt_write_regs :: "u16 \<Rightarrow> u8 \<Rightarrow> wdt \<Rightarrow> wdt \<times> wdt_write_effect" where
  "wdt_write_regs address v w =
     (if address = wdt_wdtcsr_address w
      then if v AND 0x10 \<noteq> 0 \<and> v AND wdt_wde_mask w \<noteq> 0
           then (w\<lparr>wdt_timed_active := True, wdt_timed_cycles_left := 16,
                   wdt_wdtcsr := wdt_wdtcsr w OR 0x10\<rparr>, Sequence_Opened)
           else if wdt_timed_active w
           then (w\<lparr>wdt_wdtcsr := ucast (v AND NOT 0x10), wdt_timed_active := False,
                   wdt_timed_cycles_left := 0\<rparr>, Restarted)
           else let new_wdtcsr = (ucast (wdt_wdtcsr w) :: u8);
                    new_wdtcsr = (if v AND wdt_wdie_mask w \<noteq> 0
                                  then new_wdtcsr OR wdt_wdie_mask w
                                  else new_wdtcsr AND NOT (wdt_wdie_mask w));
                    new_wdtcsr = (if v AND wdt_wde_mask w \<noteq> 0
                                  then new_wdtcsr OR wdt_wde_mask w else new_wdtcsr);
                    w = (if v AND 0x80 \<noteq> 0 then w\<lparr>wdt_irq := False\<rparr> else w)
                in (w\<lparr>wdt_wdtcsr := ucast new_wdtcsr\<rparr>, Restarted)
      else (w, Ignored))"

section \<open>Wdt8x\<close>

record wdt8x =
  wdt8x_ctrla_address :: u16
  wdt8x_winctrla_address :: u16
  wdt8x_intctrl_address :: u16
  wdt8x_status_address :: u16
  wdt8x_vector_index :: u8
  wdt8x_ctrla :: u8
  wdt8x_winctrla :: u8
  wdt8x_intctrl :: u8
  wdt8x_status :: u8
  wdt8x_enabled :: bool
  wdt8x_timeout_cycles :: u64
  wdt8x_window_cycles :: u64
  wdt8x_elapsed_cycles :: u64

definition wdt8x_reset :: "wdt8x \<Rightarrow> wdt8x" where
  "wdt8x_reset w = w\<lparr>wdt8x_ctrla := 0, wdt8x_winctrla := 0, wdt8x_intctrl := 0,
     wdt8x_status := 0, wdt8x_enabled := False, wdt8x_elapsed_cycles := 0\<rparr>"

definition wdt8x_read :: "wdt8x \<Rightarrow> u16 \<Rightarrow> u8" where
  "wdt8x_read w address =
     (if address = wdt8x_ctrla_address w then wdt8x_ctrla w
      else if address = wdt8x_winctrla_address w then wdt8x_winctrla w
      else if address = wdt8x_intctrl_address w then wdt8x_intctrl w
      else if address = wdt8x_status_address w then wdt8x_status w
      else 0)"

definition wdt8x_window :: "wdt8x \<Rightarrow> u8" where
  "wdt8x_window w =
     (if wdt8x_winctrla_address w \<noteq> 0 then wdt8x_winctrla w AND 0x0F
      else drop_bit 4 (wdt8x_ctrla w) AND 0x0F)"

text \<open>\<open>period_cycles freq n\<close> is \<open>static_cast<u64>(freq) * (1ULL << (n - 1)) / 125ULL\<close>.\<close>

definition wdt8x_period_cycles :: "u32 \<Rightarrow> u8 \<Rightarrow> u64" where
  "wdt8x_period_cycles freq n = ucast freq * push_bit (unat (n - 1)) 1 div 125"

definition wdt8x_update_timeout :: "u32 \<Rightarrow> wdt8x \<Rightarrow> wdt8x" where
  "wdt8x_update_timeout freq w =
     (let period = wdt8x_ctrla w AND 0x0F; window = wdt8x_window w
      in if period = 0 then w\<lparr>wdt8x_enabled := False\<rparr>
         else w\<lparr>wdt8x_enabled := True,
                wdt8x_timeout_cycles := wdt8x_period_cycles freq period,
                wdt8x_window_cycles :=
                  (if window \<noteq> 0 then wdt8x_period_cycles freq window else 0)\<rparr>)"

definition wdt8x_write :: "bool \<Rightarrow> u32 \<Rightarrow> u16 \<Rightarrow> u8 \<Rightarrow> wdt8x \<Rightarrow> wdt8x" where
  "wdt8x_write ccp_unlocked freq address v w =
     (if address = wdt8x_ctrla_address w
      then if ccp_unlocked then wdt8x_update_timeout freq (w\<lparr>wdt8x_ctrla := v\<rparr>) else w
      else if address = wdt8x_winctrla_address w
      then if ccp_unlocked then wdt8x_update_timeout freq (w\<lparr>wdt8x_winctrla := v\<rparr>) else w
      else if address = wdt8x_intctrl_address w then w\<lparr>wdt8x_intctrl := v\<rparr>
      else if address = wdt8x_status_address w
      then if v AND 0x01 \<noteq> 0 then w\<lparr>wdt8x_status := wdt8x_status w AND NOT 0x01\<rparr> else w
      else w)"

text \<open>
  \<open>Wdt8x::tick\<close> up to the reset: the new state and whether the timeout was reached.
\<close>

definition wdt8x_tick :: "u64 \<Rightarrow> wdt8x \<Rightarrow> wdt8x \<times> bool" where
  "wdt8x_tick elapsed w =
     (if \<not> wdt8x_enabled w then (w, False)
      else let prev_elapsed = wdt8x_elapsed_cycles w;
               w = w\<lparr>wdt8x_elapsed_cycles := prev_elapsed + elapsed\<rparr>;
               half = wdt8x_timeout_cycles w div 2;
               w = (if prev_elapsed < half \<and> wdt8x_elapsed_cycles w \<ge> half
                    then w\<lparr>wdt8x_status := wdt8x_status w OR 0x01\<rparr> else w)
           in (w, wdt8x_elapsed_cycles w \<ge> wdt8x_timeout_cycles w))"

definition wdt8x_pending :: "wdt8x \<Rightarrow> interrupt_request option" where
  "wdt8x_pending w =
     (if wdt8x_intctrl w AND 0x01 \<noteq> 0 \<and> wdt8x_status w AND 0x01 \<noteq> 0
      then Some (Irq (wdt8x_vector_index w) 0) else None)"

text \<open>
  \<open>Wdt8x::reset_timer\<close> (the WDR instruction) up to the reset: the new state, and
  whether the window was violated.
\<close>

definition wdt8x_reset_timer :: "u32 \<Rightarrow> wdt8x \<Rightarrow> wdt8x \<times> bool" where
  "wdt8x_reset_timer freq w =
     (let window = wdt8x_window w
      in if wdt8x_enabled w \<and> window \<noteq> 0
         then if wdt8x_elapsed_cycles w < wdt8x_window_cycles w then (w, True)
              else (w\<lparr>wdt8x_elapsed_cycles := 0\<rparr>, False)
         else let w = (if \<not> wdt8x_enabled w
                       then let period = wdt8x_ctrla w AND 0x0F
                            in w\<lparr>wdt8x_enabled := True, wdt8x_timeout_cycles :=
                                   (if period \<noteq> 0 then wdt8x_period_cycles freq period
                                    else ucast freq div 125)\<rparr>
                       else w)
              in (w\<lparr>wdt8x_elapsed_cycles := 0\<rparr>, False))"

section \<open>Timeouts\<close>

lemma wdt_ticks_index:
  "p \<le> 9 \<Longrightarrow> wdt_ticks ! p = 2 ^ (11 + p)"
  unfolding wdt_ticks_def
  by (simp add: less_Suc_eq_le[symmetric] eval_nat_numeral less_Suc_eq) (elim disjE; simp)

end
