(* ===== verification/Nonvolatile.thy ===== *)
theory Nonvolatile
  imports Periph
begin

text \<open>
  The register state of \<open>Eeprom\<close> (\<open>src/core/eeprom.cpp\<close>) and \<open>NvmCtrl\<close>
  (\<open>src/core/nvm_ctrl.cpp\<close>) with their local operations.  The calls they make to the
  bus (stalls, scheduled completions, flash commands) are in \<open>Machine\<close>.
\<close>

section \<open>Eeprom\<close>

record eeprom =
  ee_eecr_address :: u16
  ee_eedr_address :: u16
  ee_eearl_address :: u16
  ee_eearh_address :: u16
  ee_vector_index :: u8
  ee_mapped_data :: mapped_memory
  ee_size :: u16
  ee_storage :: "u8 list"
  ee_eecr :: u8
  ee_eedr :: u8
  ee_eear :: u16
  ee_write_cycles_left :: u32
  ee_master_timeout :: u8
  ee_eepm_mode :: u8
  ee_mapped_pending :: bool
  ee_mapped_offset :: u16
  ee_mapped_value :: u8

definition ee_pending :: "eeprom \<Rightarrow> interrupt_request option" where
  "ee_pending e =
     (if ee_write_cycles_left e = 0 \<and> ee_eecr e AND 0x08 \<noteq> 0
      then Some (Irq (ee_vector_index e) 0) else None)"

definition ee_reset_regs :: "eeprom \<Rightarrow> eeprom" where
  "ee_reset_regs e = e\<lparr>ee_eecr := 0, ee_eedr := 0, ee_eear := 0, ee_write_cycles_left := 0,
     ee_master_timeout := 0, ee_mapped_pending := False, ee_mapped_offset := 0,
     ee_mapped_value := 0xFF, ee_eepm_mode := 0\<rparr>"

text \<open>\<open>on_master_timeout\<close>\<close>

definition ee_on_master_timeout :: "eeprom \<Rightarrow> eeprom" where
  "ee_on_master_timeout e =
     (if ee_master_timeout e > 0
      then e\<lparr>ee_master_timeout := 0, ee_eecr := ee_eecr e AND NOT 0x04\<rparr> else e)"

text \<open>The register part of \<open>start_write\<close>: the latched mode selects the duration.\<close>

definition ee_start_write :: "eeprom \<Rightarrow> eeprom" where
  "ee_start_write e =
     (let e = e\<lparr>ee_eecr := (ee_eecr e AND NOT 0x04) OR 0x02, ee_master_timeout := 0\<rparr>;
          mode = drop_bit 4 (ee_eecr e) AND 0x03
      in e\<lparr>ee_eepm_mode := mode,
           ee_write_cycles_left := (if mode = 0 then 54400 else if mode = 1 then 28800
                                    else if mode = 2 then 28800 else 54400)\<rparr>)"

text \<open>\<open>complete_write\<close> without its final interrupt update.\<close>

definition ee_complete_write :: "eeprom \<Rightarrow> eeprom" where
  "ee_complete_write e =
     (let e = (if ee_mapped_pending e
               then (if unat (ee_mapped_offset e) < length (ee_storage e)
                     then e\<lparr>ee_storage := (ee_storage e)[unat (ee_mapped_offset e) := ee_mapped_value e]\<rparr>
                     else e)\<lparr>ee_mapped_pending := False\<rparr>
               else let addr = unat (ee_eear e mod ee_size e)
                    in e\<lparr>ee_storage := (ee_storage e)[addr :=
                         (if ee_eepm_mode e = 0x01 then 0xFF
                          else if ee_eepm_mode e = 0x02 then ee_storage e ! addr AND ee_eedr e
                          else ee_eedr e)]\<rparr>)
      in e\<lparr>ee_eecr := ee_eecr e AND NOT 0x02\<rparr>)"

definition ee_commit_page :: "u32 \<Rightarrow> u8 list \<Rightarrow> eeprom \<Rightarrow> eeprom" where
  "ee_commit_page address bytes e =
     (let start = unat (ucast (address mod ucast (ee_size e)) :: u16);
          n = min (length bytes) (length (ee_storage e) - start)
      in e\<lparr>ee_storage := take start (ee_storage e) @ take n bytes @ drop (start + n) (ee_storage e)\<rparr>)"

definition ee_erase_all :: "eeprom \<Rightarrow> eeprom" where
  "ee_erase_all e = e\<lparr>ee_storage := replicate (length (ee_storage e)) 0xFF\<rparr>"

section \<open>NvmCtrl\<close>

record nvm_ctrl =
  nvm_ctrla_address :: u16
  nvm_ctrlb_address :: u16
  nvm_status_address :: u16
  nvm_intctrl_address :: u16
  nvm_intflags_address :: u16
  nvm_addr_address :: u16
  nvm_data_address :: u16
  nvm_vector_index :: u8
  nvm_family_field :: nvm_family
  nvm_ctrla :: u8
  nvm_ctrlb :: u8
  nvm_status :: u8
  nvm_intctrl :: u8
  nvm_intflags :: u8
  nvm_addr :: u16
  nvm_data :: u16
  nvm_busy_cycles :: u32

definition nvm_clear_command :: "nvm_ctrl \<Rightarrow> nvm_ctrl" where
  "nvm_clear_command n = n\<lparr>nvm_ctrla := nvm_ctrla n AND NOT 0x7F\<rparr>"

definition nvm_set_busy :: "bool \<Rightarrow> bool \<Rightarrow> nvm_ctrl \<Rightarrow> nvm_ctrl" where
  "nvm_set_busy fl ee n =
     n\<lparr>nvm_status := (nvm_status n AND NOT 0x03) OR (if fl then 0x01 else 0) OR (if ee then 0x02 else 0)\<rparr>"

definition nvm_set_done :: "nvm_ctrl \<Rightarrow> nvm_ctrl" where
  "nvm_set_done n = n\<lparr>nvm_intflags := nvm_intflags n OR 0x01\<rparr>"

definition nvm_set_address :: "u32 \<Rightarrow> nvm_ctrl \<Rightarrow> nvm_ctrl" where
  "nvm_set_address a n = n\<lparr>nvm_addr := ucast a\<rparr>"

definition nvm_pending :: "nvm_ctrl \<Rightarrow> interrupt_request option" where
  "nvm_pending n =
     (if nvm_intctrl n AND 0x01 \<noteq> 0 \<and> nvm_intflags n AND 0x01 \<noteq> 0
      then Some (Irq (nvm_vector_index n) 0) else None)"

definition nvm_reset :: "nvm_ctrl \<Rightarrow> nvm_ctrl" where
  "nvm_reset n = n\<lparr>nvm_ctrla := 0, nvm_ctrlb := 0, nvm_status := 0, nvm_intctrl := 0,
     nvm_intflags := 0, nvm_addr := 0, nvm_data := 0, nvm_busy_cycles := 0\<rparr>"

definition nvm_read :: "nvm_ctrl \<Rightarrow> u16 \<Rightarrow> u8" where
  "nvm_read n address =
     (if address = nvm_ctrla_address n then nvm_ctrla n
      else if address = nvm_ctrlb_address n then nvm_ctrlb n
      else if address = nvm_status_address n then nvm_status n
      else if address = nvm_intctrl_address n then nvm_intctrl n
      else if address = nvm_intflags_address n then nvm_intflags n
      else if address = nvm_data_address n then ucast (nvm_data n AND 0xFF)
      else if unat address = unat (nvm_data_address n) + 1 then ucast (drop_bit 8 (nvm_data n) AND 0xFF)
      else if address = nvm_addr_address n then ucast (nvm_addr n AND 0xFF)
      else if unat address = unat (nvm_addr_address n) + 1 then ucast (drop_bit 8 (nvm_addr n) AND 0xFF)
      else 0)"

text \<open>
  The busy model of a command written to CTRLA: flash busy, EEPROM busy and the number of
  busy cycles, by device family.
\<close>

definition nvm_command_timing :: "nvm_family \<Rightarrow> u8 \<Rightarrow> bool \<times> bool \<times> u32" where
  "nvm_command_timing fam cmd =
     (case fam of
        Dx \<Rightarrow>
          if cmd = 0x01 then (False, False, 1)
          else if cmd = 0x02 \<or> cmd = 0x08 then (True, False, 64000)
          else if cmd \<ge> 0x09 \<and> cmd \<le> 0x0D then (True, False, 64000 * push_bit (unat (cmd - 0x09 + 1)) 1)
          else if cmd = 0x12 \<or> cmd = 0x13 \<or> cmd = 0x18 \<or> (cmd \<ge> 0x19 \<and> cmd \<le> 0x1D)
          then (False, True, 64000)
          else if cmd = 0x20 then (True, True, 1600000)
          else if cmd = 0x30 then (False, True, 1600000)
          else (True, False, 64000)
      | Ex \<Rightarrow>
          if cmd = 0x01 \<or> cmd = 0x0F \<or> cmd = 0x1F then (False, False, 1)
          else if cmd = 0x04 \<or> cmd = 0x05 \<or> cmd = 0x08 then (True, False, 64000)
          else if cmd \<ge> 0x09 \<and> cmd \<le> 0x0D then (True, False, 64000 * push_bit (unat (cmd - 0x09 + 1)) 1)
          else if cmd = 0x14 \<or> cmd = 0x15 \<or> cmd = 0x17 then (False, True, 64000)
          else if cmd = 0x20 then (True, True, 1600000)
          else if cmd = 0x30 then (False, True, 1600000)
          else (True, False, 64000)
      | MegaTiny \<Rightarrow>
          (cmd \<ge> 1 \<and> cmd \<le> 5, cmd \<ge> 6 \<and> cmd \<le> 8,
           if cmd = 0x04 \<or> cmd = 0x09 then 1 else if cmd = 0x05 then 1600000 else 64000))"

text \<open>\<open>NvmCtrl::tick\<close> without the final interrupt update: the state and whether the command completed.\<close>

definition nvm_tick :: "u64 \<Rightarrow> nvm_ctrl \<Rightarrow> nvm_ctrl \<times> bool" where
  "nvm_tick elapsed n =
     (if nvm_busy_cycles n > 0
      then if elapsed \<ge> ucast (nvm_busy_cycles n)
           then (nvm_set_done (nvm_clear_command (nvm_set_busy False False (n\<lparr>nvm_busy_cycles := 0\<rparr>))), True)
           else (n\<lparr>nvm_busy_cycles := nvm_busy_cycles n - ucast elapsed\<rparr>, False)
      else (n, False))"

end
