(* ===== verification/Xmem.thy ===== *)
theory Xmem
  imports Device
begin

text \<open>
  External memory: the XMEM interface of the classic devices (\<open>src/core/xmem.cpp\<close>) and
  the chip-select windows of the XMEGA EBI (\<open>src/core/ebi.cpp\<close>; its register file and
  SDRAM controller are not modelled).
\<close>

section \<open>Field extraction\<close>

text \<open>
  \<open>while (!(mask & 1)) { mask >>= 1; val >>= 1; }\<close>, entered only with a non-zero mask.
  A byte mask has at most seven trailing zeros.
\<close>

function shift_down :: "u8 \<Rightarrow> u8 \<Rightarrow> u8" where
  "shift_down m v =
     (if m = 0 \<or> m AND 1 \<noteq> 0 then v else shift_down (drop_bit 1 m) (drop_bit 1 v))"
  by pat_completeness auto
termination
proof (relation "measure (\<lambda>(m, v). unat m)")
  fix m v :: u8
  assume "\<not> (m = 0 \<or> m AND 1 \<noteq> 0)"
  then have "unat m \<noteq> 0" by (simp add: unat_eq_0)
  then show "((drop_bit 1 m, drop_bit 1 v), (m, v)) \<in> measure (\<lambda>(m, v). unat m)"
    by (simp add: drop_bit_eq_div unat_div)
qed simp

declare shift_down.simps [simp del]

section \<open>Xmem\<close>

record xmem =
  xmem_xmcra :: u8
  xmem_xmcrb :: u8
  xmem_memory :: "u8 list"

text \<open>\<open>mcucr\<close> is the CPU control register that enables the interface on older parts.\<close>

definition xmem_enabled :: "xmem_descriptor \<Rightarrow> u8 \<Rightarrow> xmem \<Rightarrow> bool" where
  "xmem_enabled d mcucr x \<longleftrightarrow>
     xmem_xmcra x AND sre_mask d \<noteq> 0 \<or> xmem_mcucr_address d \<noteq> 0 \<and> mcucr AND sre_mask d \<noteq> 0"

definition xmem_address_mask :: "xmem_descriptor \<Rightarrow> xmem \<Rightarrow> u16" where
  "xmem_address_mask d x =
     (let bits = shift_down (xmm_mask d) (xmem_xmcrb x AND xmm_mask d)
      in if bits = 0 then 0xFFFF
         else drop_bit (unat (if bits > 8 then 8 else bits)) 0xFFFF)"

definition xmem_final_address :: "xmem_descriptor \<Rightarrow> xmem \<Rightarrow> u16 \<Rightarrow> nat" where
  "xmem_final_address d x address =
     unat (address AND xmem_address_mask d x) +
     (if xmem_xmcrb x AND xmbk_mask d \<noteq> 0 then 0x10000 else 0)"

definition read_external :: "device \<Rightarrow> u8 \<Rightarrow> xmem \<Rightarrow> u16 \<Rightarrow> u8" where
  "read_external dev mcucr x address =
     (if \<not> xmem_enabled (xmem_desc dev) mcucr x \<or> unat address \<ge> length (xmem_memory x)
         \<or> address \<le> data_end_address dev
      then 0
      else let final = xmem_final_address (xmem_desc dev) x address
           in if final \<ge> length (xmem_memory x) then 0 else xmem_memory x ! final)"

definition write_external :: "device \<Rightarrow> u8 \<Rightarrow> u16 \<Rightarrow> u8 \<Rightarrow> xmem \<Rightarrow> xmem" where
  "write_external dev mcucr address v x =
     (if \<not> xmem_enabled (xmem_desc dev) mcucr x \<or> unat address \<ge> length (xmem_memory x)
         \<or> address \<le> data_end_address dev
      then x
      else let final = xmem_final_address (xmem_desc dev) x address
           in if final < length (xmem_memory x) then x\<lparr>xmem_memory := (xmem_memory x)[final := v]\<rparr> else x)"

definition xmem_wait_states :: "device \<Rightarrow> u8 \<Rightarrow> xmem \<Rightarrow> u16 \<Rightarrow> u8" where
  "xmem_wait_states dev mcucr x address =
     (if \<not> xmem_enabled (xmem_desc dev) mcucr x \<or> address \<le> data_end_address dev then 0
      else let d = xmem_desc dev;
               srl = (if srl_mask d > 0 then shift_down (srl_mask d) (xmem_xmcra x AND srl_mask d) else 0);
               boundary = (if srl > 0 then (ucast srl * 0x2000 - 1 :: u16) else 0);
               wait_bits = (if address \<le> boundary
                            then shift_down (srw0_mask d) (xmem_xmcra x AND srw0_mask d)
                            else shift_down (srw1_mask d) (xmem_xmcra x AND srw1_mask d))
           in if wait_bits = 1 then 1 else if wait_bits = 2 then 2 else if wait_bits = 3 then 3 else 0)"

definition xmem_reset :: "xmem \<Rightarrow> xmem" where
  "xmem_reset x = x\<lparr>xmem_xmcra := 0, xmem_xmcrb := 0\<rparr>"

definition xmem_read :: "xmem_descriptor \<Rightarrow> xmem \<Rightarrow> u16 \<Rightarrow> u8" where
  "xmem_read d x address =
     (if address = xmcra_address d then xmem_xmcra x
      else if address = xmcrb_address d then xmem_xmcrb x else 0)"

definition xmem_write :: "xmem_descriptor \<Rightarrow> u16 \<Rightarrow> u8 \<Rightarrow> xmem \<Rightarrow> xmem" where
  "xmem_write d address v x =
     (if address = xmcra_address d then x\<lparr>xmem_xmcra := v\<rparr>
      else if address = xmcrb_address d then x\<lparr>xmem_xmcrb := v\<rparr> else x)"

section \<open>EBI chip selects\<close>

record ebi_cs =
  cs_enabled :: bool
  cs_start :: u16
  cs_end :: u16
  cs_ctrlb :: u8

record ebi =
  ebi_cs_list :: "ebi_cs list"
  ebi_memory :: "u8 list"

text \<open>
  The read and write scan the chip selects in order; each reports the stall it requests
  from the bus (\<open>None\<close> when it touches no memory).
\<close>

fun ebi_scan_read :: "ebi_cs list \<Rightarrow> u8 list \<Rightarrow> u16 \<Rightarrow> u8 \<times> u32 option" where
  "ebi_scan_read [] mem address = (0xFF, None)"
| "ebi_scan_read (c # cs) mem address =
     (if cs_enabled c \<and> address \<ge> cs_start c \<and> address \<le> cs_end c
         \<and> unat address - unat (cs_start c) < length mem
      then (mem ! (unat address - unat (cs_start c)), Some (ucast (cs_ctrlb c AND 0x0F)))
      else ebi_scan_read cs mem address)"

fun ebi_scan_write :: "ebi_cs list \<Rightarrow> u8 list \<Rightarrow> u16 \<Rightarrow> u8 \<Rightarrow> u8 list \<times> u32 option" where
  "ebi_scan_write [] mem address v = (mem, None)"
| "ebi_scan_write (c # cs) mem address v =
     (if cs_enabled c \<and> address \<ge> cs_start c \<and> address \<le> cs_end c
      then if unat address - unat (cs_start c) < length mem
           then (mem[unat address - unat (cs_start c) := v], Some (ucast (cs_ctrlb c AND 0x0F)))
           else (mem, None)
      else ebi_scan_write cs mem address v)"

definition ebi_wait_states :: "ebi \<Rightarrow> u8" where
  "ebi_wait_states e =
     foldl (\<lambda>mx c. if cs_enabled c \<and> cs_ctrlb c AND 0x0F > mx then cs_ctrlb c AND 0x0F else mx)
       0 (ebi_cs_list e)"

definition ebi_cs0_contains :: "ebi \<Rightarrow> u16 \<Rightarrow> bool" where
  "ebi_cs0_contains e address =
     (case ebi_cs_list e of [] \<Rightarrow> False | c # _ \<Rightarrow> address \<ge> cs_start c \<and> address \<le> cs_end c)"

end
