(* ===== verification/Scheduler.thy ===== *)
theory Scheduler
  imports Prelude "HOL-Library.Multiset"
begin

text \<open>
  \<open>EventScheduler\<close> of \<open>include/vioavr/core/event_scheduler.hpp\<close>: a priority queue of
  future events keyed by target cycle, then by priority.  The C++ vector is a binary
  heap; the standard fixes which keys \<open>front\<close> and \<open>pop_heap\<close> may return but not the
  order of equal keys, and the model takes the one scheduled first.  The queue interface
  is the locale \<open>event_queue\<close>, interpreted on the scheduler's own operations.
\<close>

record 'cb scheduled_event =
  target_cycle :: u64
  callback :: 'cb
  priority :: u32

record 'cb scheduler =
  events :: "'cb scheduled_event list"
  current_cycle :: u64

text \<open>\<open>ScheduledEvent::operator>\<close>\<close>

definition event_greater :: "'cb scheduled_event \<Rightarrow> 'cb scheduled_event \<Rightarrow> bool" where
  "event_greater a b =
     (if target_cycle a \<noteq> target_cycle b then target_cycle a > target_cycle b
      else priority a > priority b)"

definition scheduler_reset :: "'cb scheduler \<Rightarrow> 'cb scheduler" where
  "scheduler_reset s = s\<lparr>events := [], current_cycle := 0\<rparr>"

definition schedule :: "u64 \<Rightarrow> 'cb \<Rightarrow> u32 \<Rightarrow> 'cb scheduler \<Rightarrow> 'cb scheduler" where
  "schedule delay cb prio s =
     s\<lparr>events := events s @ [\<lparr>target_cycle = current_cycle s + delay, callback = cb, priority = prio\<rparr>]\<rparr>"

definition cancel :: "'cb \<Rightarrow> 'cb scheduler \<Rightarrow> 'cb scheduler" where
  "cancel cb s = s\<lparr>events := filter (\<lambda>e. callback e \<noteq> cb) (events s)\<rparr>"

fun earliest :: "'cb scheduled_event \<Rightarrow> 'cb scheduled_event list \<Rightarrow> 'cb scheduled_event" where
  "earliest e [] = e"
| "earliest e (x # xs) = earliest (if event_greater e x then x else e) xs"

definition front :: "'cb scheduler \<Rightarrow> 'cb scheduled_event option" where
  "front s = (case events s of [] \<Rightarrow> None | e # es \<Rightarrow> Some (earliest e es))"

definition pop_front :: "'cb scheduler \<Rightarrow> 'cb scheduler" where
  "pop_front s = (case front s of None \<Rightarrow> s | Some e \<Rightarrow> s\<lparr>events := remove1 e (events s)\<rparr>)"

definition next_event_delay :: "'cb scheduler \<Rightarrow> u64" where
  "next_event_delay s =
     (case front s of
        None \<Rightarrow> 1000
      | Some e \<Rightarrow> if target_cycle e \<le> current_cycle s then 0 else target_cycle e - current_cycle s)"

section \<open>The queue interface\<close>

locale event_queue =
  fixes greater :: "'e \<Rightarrow> 'e \<Rightarrow> bool"
    and content :: "'q \<Rightarrow> 'e multiset"
    and first :: "'q \<Rightarrow> 'e option"
    and pop :: "'q \<Rightarrow> 'q"
  assumes first_None: "first q = None \<longleftrightarrow> content q = {#}"
    and first_in: "first q = Some e \<Longrightarrow> e \<in># content q"
    and first_least: "first q = Some e \<Longrightarrow> x \<in># content q \<Longrightarrow> \<not> greater e x"
    and content_pop: "first q = Some e \<Longrightarrow> content (pop q) = content q - {#e#}"
begin

text \<open>The order in which a client that keeps popping sees the events.\<close>

fun drain :: "nat \<Rightarrow> 'q \<Rightarrow> 'e list" where
  "drain 0 q = []"
| "drain (Suc n) q = (case first q of None \<Rightarrow> [] | Some e \<Rightarrow> e # drain n (pop q))"

lemma drain_subset: "set (drain n q) \<subseteq> set_mset (content q)"
proof (induction n arbitrary: q)
  case (Suc n)
  show ?case
  proof (cases "first q")
    case (Some e)
    have "set_mset (content (pop q)) \<subseteq> set_mset (content q)"
      using content_pop[OF Some] in_diffD by fastforce
    with Some Suc.IH[of "pop q"] first_in[OF Some] show ?thesis by auto
  qed simp
qed simp

lemma drain_sorted: "sorted_wrt (\<lambda>a b. \<not> greater a b) (drain n q)"
proof (induction n arbitrary: q)
  case (Suc n)
  show ?case
  proof (cases "first q")
    case (Some e)
    have "x \<in># content q" if "x \<in> set (drain n (pop q))" for x
      using that drain_subset[of n "pop q"] content_pop[OF Some] in_diffD by fastforce
    with Some Suc.IH first_least[OF Some] show ?thesis by auto
  qed simp
qed simp

lemma drain_all: "size (content q) \<le> n \<Longrightarrow> mset (drain n q) = content q"
proof (induction n arbitrary: q)
  case 0
  then show ?case by simp
next
  case (Suc n)
  show ?case
  proof (cases "first q")
    case None
    with first_None[of q] show ?thesis by simp
  next
    case (Some e)
    then have "size (content (pop q)) \<le> n"
      using Suc.prems first_in content_pop by (simp add: size_Diff_singleton)
    then show ?thesis
      using Suc.IH Some first_in[OF Some] content_pop[OF Some] by simp
  qed
qed

end

section \<open>The scheduler implements the interface\<close>

definition pending_events :: "'cb scheduler \<Rightarrow> 'cb scheduled_event multiset" where
  "pending_events s = mset (events s)"

lemma event_greater_trans:
  "\<not> event_greater a b \<Longrightarrow> \<not> event_greater b c \<Longrightarrow> \<not> event_greater a c"
  by (auto simp: event_greater_def split: if_splits)

lemma event_greater_asym: "event_greater a b \<Longrightarrow> \<not> event_greater b a"
  by (auto simp: event_greater_def split: if_splits)

lemma earliest_in: "earliest e es \<in> insert e (set es)"
proof (induction es arbitrary: e)
  case (Cons x es)
  show ?case using Cons.IH[of "if event_greater e x then x else e"] by (auto split: if_splits)
qed simp

lemma earliest_least: "x \<in> insert e (set es) \<Longrightarrow> \<not> event_greater (earliest e es) x"
proof (induction es arbitrary: e x)
  case Nil
  then show ?case by (auto simp: event_greater_def)
next
  case (Cons y ys)
  let ?m = "if event_greater e y then y else e"
  have m: "\<not> event_greater ?m e" "\<not> event_greater ?m y"
    by (auto dest: event_greater_asym simp: event_greater_def)
  have *: "\<not> event_greater (earliest ?m ys) ?m" using Cons.IH[of ?m ?m] by simp
  show ?case
    using Cons.prems Cons.IH[of x ?m] event_greater_trans[OF * m(1)] event_greater_trans[OF * m(2)]
    by auto
qed

lemma front_cases:
  "front s = None \<longleftrightarrow> events s = []"
  "front s = Some e \<Longrightarrow> e \<in> set (events s)"
  "front s = Some e \<Longrightarrow> x \<in> set (events s) \<Longrightarrow> \<not> event_greater e x"
  using earliest_in earliest_least by (fastforce simp: front_def split: list.splits)+

interpretation event_heap: event_queue event_greater pending_events front pop_front
proof unfold_locales
  fix q :: "'a scheduler" and e x
  show "front q = None \<longleftrightarrow> pending_events q = {#}"
    by (simp add: pending_events_def front_cases)
  assume e: "front q = Some e"
  then show "e \<in># pending_events q"
    by (simp add: pending_events_def front_cases)
  show "\<not> event_greater e x" if "x \<in># pending_events q"
    using e that by (simp add: pending_events_def front_cases)
  show "pending_events (pop_front q) = pending_events q - {#e#}"
    using e by (simp add: pending_events_def pop_front_def)
qed

section \<open>Scheduling and cancelling\<close>

lemma pending_schedule:
  "pending_events (schedule d cb p s) =
     add_mset \<lparr>target_cycle = current_cycle s + d, callback = cb, priority = p\<rparr> (pending_events s)"
  by (simp add: pending_events_def schedule_def)

lemma pending_cancel:
  "pending_events (cancel cb s) = filter_mset (\<lambda>e. callback e \<noteq> cb) (pending_events s)"
  by (simp add: pending_events_def cancel_def)

end
