(* ===== verification/Sync.thy ===== *)
theory Sync
  imports Prelude
begin

text \<open>
  Co-simulation synchronisation: the policies of
  \<open>include/vioavr/core/sync_policy.hpp\<close> and the default engine of
  \<open>src/core/sync_engine.cpp\<close>.  The mutex and condition variable are not modelled:
  each method is one atomic step, and \<open>wait_until_resumed\<close> is the state after the
  wait, the other thread having called \<open>resume\<close>.  A call that never returns because the
  quantum loop diverges is the value \<open>None\<close>.
\<close>

datatype sync_policy =
    Fixed_Quantum (quantum: u64) (next_sync_cycle: u64)
  | External_Barrier (barrier_cycle: u64)

record pin_state_change =
  change_port_name :: string
  change_bit_index :: u8
  change_level :: bool
  change_is_output :: bool
  change_wired_and :: bool
  change_cycle_stamp :: u64
  change_mask :: u8

record sync_engine =
  sync_policy :: "sync_policy option"
  sync_resumed :: bool
  sync_total_cycles :: u64
  sync_pin_changes :: "pin_state_change list"

section \<open>Policies\<close>

fun policy_reset :: "sync_policy \<Rightarrow> sync_policy" where
  "policy_reset (Fixed_Quantum q n) = Fixed_Quantum q q"
| "policy_reset (External_Barrier b) = External_Barrier 0"

fun policy_should_pause :: "sync_policy \<Rightarrow> u64 \<Rightarrow> bool" where
  "policy_should_pause (Fixed_Quantum q n) now = (now \<ge> n)"
| "policy_should_pause (External_Barrier b) now = (now \<ge> b)"

partial_function (option) advance_quantum :: "u64 \<Rightarrow> u64 \<Rightarrow> u64 \<Rightarrow> u64 option" where
  "advance_quantum q now n = (if n \<le> now then advance_quantum q now (n + q) else Some n)"

fun policy_on_resumed :: "sync_policy \<Rightarrow> u64 \<Rightarrow> sync_policy option" where
  "policy_on_resumed (Fixed_Quantum q n) now = map_option (Fixed_Quantum q) (advance_quantum q now n)"
| "policy_on_resumed (External_Barrier b) now = Some (External_Barrier b)"

definition set_barrier :: "u64 \<Rightarrow> sync_policy \<Rightarrow> sync_policy" where
  "set_barrier c p = (case p of External_Barrier b \<Rightarrow> External_Barrier c | _ \<Rightarrow> p)"

section \<open>The default engine\<close>

definition create_fixed_quantum_sync_engine :: "u64 \<Rightarrow> sync_engine" where
  "create_fixed_quantum_sync_engine q =
     \<lparr>sync_policy = Some (Fixed_Quantum q 0), sync_resumed = True,
      sync_total_cycles = 0, sync_pin_changes = []\<rparr>"

definition sync_on_reset :: "sync_engine \<Rightarrow> sync_engine" where
  "sync_on_reset e = e\<lparr>sync_policy := map_option policy_reset (sync_policy e),
     sync_resumed := False, sync_total_cycles := 0, sync_pin_changes := []\<rparr>"

definition sync_on_cycles_advanced :: "u64 \<Rightarrow> sync_engine \<Rightarrow> sync_engine" where
  "sync_on_cycles_advanced now e = e\<lparr>sync_total_cycles := now\<rparr>"

definition sync_should_pause :: "sync_engine \<Rightarrow> u64 \<Rightarrow> bool" where
  "sync_should_pause e now =
     (case sync_policy e of Some p \<Rightarrow> policy_should_pause p now | None \<Rightarrow> False)"

definition sync_wait_until_resumed :: "sync_engine \<Rightarrow> sync_engine option" where
  "sync_wait_until_resumed e =
     (let e = e\<lparr>sync_resumed := False\<rparr>
      in case sync_policy e of
           None \<Rightarrow> Some e
         | Some p \<Rightarrow> map_option (\<lambda>p. e\<lparr>sync_policy := Some p\<rparr>)
                       (policy_on_resumed p (sync_total_cycles e)))"

definition sync_on_pin_state_changed :: "pin_state_change \<Rightarrow> sync_engine \<Rightarrow> sync_engine" where
  "sync_on_pin_state_changed c e = e\<lparr>sync_pin_changes := sync_pin_changes e @ [c]\<rparr>"

definition sync_resume :: "sync_engine \<Rightarrow> sync_engine" where
  "sync_resume e = e\<lparr>sync_resumed := True\<rparr>"

definition sync_consume_pin_changes :: "sync_engine \<Rightarrow> pin_state_change list \<times> sync_engine" where
  "sync_consume_pin_changes e = (sync_pin_changes e, e\<lparr>sync_pin_changes := []\<rparr>)"

section \<open>The quantum loop\<close>

declare advance_quantum.simps [code]

lemma advance_quantum_done: "\<not> n \<le> now \<Longrightarrow> advance_quantum q now n = Some n"
  by (simp add: advance_quantum.simps)

lemma advance_quantum_step: "n \<le> now \<Longrightarrow> advance_quantum q now n = advance_quantum q now (n + q)"
  by (simp add: advance_quantum.simps)

text \<open>A result is beyond the current cycle, whatever the quantum.\<close>

lemma advance_quantum_result:
  assumes "advance_quantum q now n = Some r"
  shows "now < r"
proof (rule advance_quantum.raw_induct[where P = "\<lambda>q now n r. now < r", OF _ assms])
  fix f :: "u64 \<Rightarrow> u64 \<Rightarrow> u64 \<Rightarrow> u64 option" and q now n r
  assume IH: "\<And>q now n r. f q now n = Some r \<Longrightarrow> now < r"
    and eq: "(if n \<le> now then f q now (n + q) else Some n) = Some r"
  show "now < r"
  proof (cases "n \<le> now")
    case True
    with eq IH show ?thesis by simp
  next
    case False
    with eq show ?thesis by (simp add: linorder_not_le)
  qed
qed

lemma advance_quantum_zero_returns:
  assumes "advance_quantum q now n = Some r"
  shows "q = 0 \<longrightarrow> \<not> n \<le> now"
proof (rule advance_quantum.raw_induct[where P = "\<lambda>q now n r. q = 0 \<longrightarrow> \<not> n \<le> now", OF _ assms])
  fix f :: "u64 \<Rightarrow> u64 \<Rightarrow> u64 \<Rightarrow> u64 option" and q now n r
  assume IH: "\<And>q now n r. f q now n = Some r \<Longrightarrow> q = 0 \<longrightarrow> \<not> n \<le> now"
    and eq: "(if n \<le> now then f q now (n + q) else Some n) = Some r"
  show "q = 0 \<longrightarrow> \<not> n \<le> now"
    using eq IH[of q now "n + q" r] by (cases "n \<le> now") auto
qed

lemma advance_quantum_zero: "n \<le> now \<Longrightarrow> advance_quantum 0 now n = None"
  using advance_quantum_zero_returns by fastforce

lemma advance_quantum_returns:
  assumes "0 < q" and "unat now + unat q < 2 ^ 64" and "unat n \<le> unat now + unat q"
  shows "\<exists>r. advance_quantum q now n = Some r \<and> now < r \<and>
           unat r \<le> max (unat n) (unat now + unat q) \<and> unat r mod unat q = unat n mod unat q"
  using assms(3)
proof (induction "unat now + unat q - unat n" arbitrary: n rule: less_induct)
  case less
  show ?case
  proof (cases "n \<le> now")
    case True
    then have le: "unat n \<le> unat now" by (simp add: word_le_nat_alt)
    have "0 < unat q" using assms(1) by (simp add: unat_gt_0)
    have eq: "unat (n + q) = unat n + unat q"
      using le assms(2) by (subst unat_add_lem[THEN iffD1]) auto
    have "\<exists>r. advance_quantum q now (n + q) = Some r \<and> now < r \<and>
        unat r \<le> max (unat (n + q)) (unat now + unat q) \<and> unat r mod unat q = unat (n + q) mod unat q"
      by (rule less.hyps) (use le \<open>0 < unat q\<close> eq in auto)
    then show ?thesis
      using le eq by (auto simp: advance_quantum_step[OF True])
  next
    case False
    then show ?thesis by (auto simp: advance_quantum_done)
  qed
qed

end
