(* ===== verification/Alu.thy ===== *)
theory Alu
  imports Prelude
begin

text \<open>
  The status register and the flag arithmetic of \<open>AvrCpu\<close>
  (\<open>src/core/avr_cpu.cpp\<close>).  SREG is the byte \<open>sreg_\<close>; the anonymous
  struct of one-bit fields that shares its storage is read with \<open>flag\<close> and
  written with \<open>set_flag_bit\<close> (the bit-field order is the one GCC and Clang use
  on x86-64, least significant bit first, which the union relies on).  The second half relates
  the boolean flag formulas to arithmetic: carry is overflow of the unsigned sum or
  borrow of the difference, S is the sign of the exact signed result, and so on.
\<close>

section \<open>The status register\<close>

datatype sreg_flag = Carry | Zero | Negative | Overflow | Sign | HalfCarry | Transfer | Interrupt

fun flag_index :: "sreg_flag \<Rightarrow> nat" where
  "flag_index Carry = 0"
| "flag_index Zero = 1"
| "flag_index Negative = 2"
| "flag_index Overflow = 3"
| "flag_index Sign = 4"
| "flag_index HalfCarry = 5"
| "flag_index Transfer = 6"
| "flag_index Interrupt = 7"

definition flag_of_index :: "u16 \<Rightarrow> sreg_flag" where
  "flag_of_index w =
     (if w = 0 then Carry else if w = 1 then Zero else if w = 2 then Negative
      else if w = 3 then Overflow else if w = 4 then Sign else if w = 5 then HalfCarry
      else if w = 6 then Transfer else Interrupt)"

definition flag :: "sreg_flag \<Rightarrow> u8 \<Rightarrow> bool" where
  "flag f s = bit s (flag_index f)"

definition set_flag_bit :: "sreg_flag \<Rightarrow> bool \<Rightarrow> u8 \<Rightarrow> u8" where
  "set_flag_bit f v s = (if v then set_bit (flag_index f) s else unset_bit (flag_index f) s)"

lemma flag_index_less: "flag_index f < 8"
  by (cases f) simp_all

lemma flag_index_inj [simp]: "flag_index f = flag_index g \<longleftrightarrow> f = g"
  by (cases f; cases g; simp)

lemma flag_set_flag_bit [simp]:
  "flag f (set_flag_bit g v s) = (if f = g then v else flag f s)"
  using flag_index_less[of f]
  by (auto simp: flag_def set_flag_bit_def bit_set_bit_iff bit_unset_bit_iff possible_bit_word)

lemma sreg_eqI:
  assumes "\<And>f. flag f s = flag f t"
  shows "s = t"
proof (rule bit_word_eqI)
  fix n
  assume "n < LENGTH(8)"
  then have "\<exists>f. n = flag_index f"
  proof -
    from \<open>n < LENGTH(8)\<close> have "n \<in> {0, 1, 2, 3, 4, 5, 6, 7}" by auto
    then show ?thesis
      using flag_index.simps by (elim insertE emptyE) metis+
  qed
  then show "bit s n = bit t n"
    using assms by (auto simp: flag_def)
qed

section \<open>Flag updates\<close>

definition update_add_flags :: "u8 \<Rightarrow> u8 \<Rightarrow> u8 \<Rightarrow> u8 \<Rightarrow> u8" where
  "update_add_flags lhs rhs result s =
     (let r7 = result AND 0x80 \<noteq> 0; d7 = lhs AND 0x80 \<noteq> 0; s7 = rhs AND 0x80 \<noteq> 0;
          r3 = result AND 0x08 \<noteq> 0; d3 = lhs AND 0x08 \<noteq> 0; s3 = rhs AND 0x08 \<noteq> 0;
          s = set_flag_bit HalfCarry ((d3 \<and> s3) \<or> (s3 \<and> \<not> r3) \<or> (\<not> r3 \<and> d3)) s;
          s = set_flag_bit Overflow ((d7 \<and> s7 \<and> \<not> r7) \<or> (\<not> d7 \<and> \<not> s7 \<and> r7)) s;
          s = set_flag_bit Negative r7 s;
          s = set_flag_bit Zero (result = 0) s;
          s = set_flag_bit Sign (flag Negative s \<noteq> flag Overflow s) s
      in set_flag_bit Carry ((d7 \<and> s7) \<or> (s7 \<and> \<not> r7) \<or> (\<not> r7 \<and> d7)) s)"

definition update_sub_flags :: "u8 \<Rightarrow> u8 \<Rightarrow> u8 \<Rightarrow> u8 \<Rightarrow> u8" where
  "update_sub_flags lhs rhs result s =
     (let r7 = result AND 0x80 \<noteq> 0; d7 = lhs AND 0x80 \<noteq> 0; s7 = rhs AND 0x80 \<noteq> 0;
          r3 = result AND 0x08 \<noteq> 0; d3 = lhs AND 0x08 \<noteq> 0; s3 = rhs AND 0x08 \<noteq> 0;
          s = set_flag_bit HalfCarry ((\<not> d3 \<and> s3) \<or> (s3 \<and> r3) \<or> (r3 \<and> \<not> d3)) s;
          s = set_flag_bit Overflow ((d7 \<and> \<not> s7 \<and> \<not> r7) \<or> (\<not> d7 \<and> s7 \<and> r7)) s;
          s = set_flag_bit Negative r7 s;
          s = set_flag_bit Zero (result = 0) s;
          s = set_flag_bit Sign (flag Negative s \<noteq> flag Overflow s) s
      in set_flag_bit Carry ((\<not> d7 \<and> s7) \<or> (s7 \<and> r7) \<or> (r7 \<and> \<not> d7)) s)"

definition update_logic_flags :: "u8 \<Rightarrow> u8 \<Rightarrow> u8" where
  "update_logic_flags result s =
     (let s = set_flag_bit Negative (result AND 0x80 \<noteq> 0) s;
          s = set_flag_bit Overflow False s;
          s = set_flag_bit Zero (result = 0) s
      in set_flag_bit Sign (flag Negative s \<noteq> flag Overflow s) s)"

definition update_adiw_flags :: "u16 \<Rightarrow> u16 \<Rightarrow> u8 \<Rightarrow> u8" where
  "update_adiw_flags lhs result s =
     (let lhs15 = lhs AND 0x8000 \<noteq> 0; res15 = result AND 0x8000 \<noteq> 0;
          s = set_flag_bit Negative res15 s;
          s = set_flag_bit Zero (result = 0) s;
          s = set_flag_bit Overflow (\<not> lhs15 \<and> res15) s;
          s = set_flag_bit Sign (flag Negative s \<noteq> flag Overflow s) s
      in set_flag_bit Carry (\<not> res15 \<and> lhs15) s)"

definition update_sbiw_flags :: "u16 \<Rightarrow> u16 \<Rightarrow> u8 \<Rightarrow> u8" where
  "update_sbiw_flags lhs result s =
     (let lhs15 = lhs AND 0x8000 \<noteq> 0; res15 = result AND 0x8000 \<noteq> 0;
          s = set_flag_bit Negative res15 s;
          s = set_flag_bit Zero (result = 0) s;
          s = set_flag_bit Overflow (lhs15 \<and> \<not> res15) s;
          s = set_flag_bit Sign (flag Negative s \<noteq> flag Overflow s) s
      in set_flag_bit Carry (res15 \<and> \<not> lhs15) s)"

text \<open>
  The interpreter loops \<open>run\<close> and \<open>step\<close> inline the same updates as bitwise
  formulas over whole bytes.
\<close>

definition fast_add_flags :: "u8 \<Rightarrow> u8 \<Rightarrow> u8 \<Rightarrow> u8 \<Rightarrow> u8" where
  "fast_add_flags lhs rhs res s =
     (let s = set_flag_bit HalfCarry
                (to_bool (((lhs AND rhs) OR (rhs AND NOT res) OR (NOT res AND lhs)) AND 0x08)) s;
          s = set_flag_bit Overflow
                (to_bool (((lhs AND rhs AND NOT res) OR (NOT lhs AND NOT rhs AND res)) AND 0x80)) s;
          s = set_flag_bit Negative (to_bool (res AND 0x80)) s;
          s = set_flag_bit Zero (res = 0) s;
          s = set_flag_bit Carry
                (to_bool (((lhs AND rhs) OR (rhs AND NOT res) OR (NOT res AND lhs)) AND 0x80)) s
      in set_flag_bit Sign (flag Negative s \<noteq> flag Overflow s) s)"

definition fast_sub_flags :: "u8 \<Rightarrow> u8 \<Rightarrow> u8 \<Rightarrow> u8 \<Rightarrow> u8" where
  "fast_sub_flags lhs rhs res s =
     (let s = set_flag_bit HalfCarry
                (to_bool (((NOT lhs AND rhs) OR (rhs AND res) OR (res AND NOT lhs)) AND 0x08)) s;
          s = set_flag_bit Overflow
                (to_bool (((lhs AND NOT rhs AND NOT res) OR (NOT lhs AND rhs AND res)) AND 0x80)) s;
          s = set_flag_bit Negative (to_bool (res AND 0x80)) s;
          s = set_flag_bit Zero (res = 0) s;
          s = set_flag_bit Carry
                (to_bool (((NOT lhs AND rhs) OR (rhs AND res) OR (res AND NOT lhs)) AND 0x80)) s
      in set_flag_bit Sign (flag Negative s \<noteq> flag Overflow s) s)"

definition fast_logic_flags :: "u8 \<Rightarrow> u8 \<Rightarrow> u8" where
  "fast_logic_flags res s =
     (let s = set_flag_bit Overflow False s;
          s = set_flag_bit Negative (to_bool (res AND 0x80)) s;
          s = set_flag_bit Zero (res = 0) s
      in set_flag_bit Sign (flag Negative s) s)"

section \<open>The inlined updates are the reference updates\<close>

lemma fast_add_flags_eq: "fast_add_flags l r res s = update_add_flags l r res s"
  by (rule sreg_eqI)
     (auto simp: fast_add_flags_def update_add_flags_def Let_def mask_bit bit_simps)

lemma fast_sub_flags_eq: "fast_sub_flags l r res s = update_sub_flags l r res s"
  by (rule sreg_eqI)
     (auto simp: fast_sub_flags_def update_sub_flags_def Let_def mask_bit bit_simps)

lemma fast_logic_flags_eq: "fast_logic_flags res s = update_logic_flags res s"
  by (rule sreg_eqI)
     (auto simp: fast_logic_flags_def update_logic_flags_def Let_def mask_bit bit_simps)

section \<open>What each update leaves in the flags\<close>

lemma flag_update_add [simp]:
  "flag Carry (update_add_flags l r x s) \<longleftrightarrow> bit l 7 \<and> bit r 7 \<or> bit r 7 \<and> \<not> bit x 7 \<or> \<not> bit x 7 \<and> bit l 7"
  "flag HalfCarry (update_add_flags l r x s) \<longleftrightarrow> bit l 3 \<and> bit r 3 \<or> bit r 3 \<and> \<not> bit x 3 \<or> \<not> bit x 3 \<and> bit l 3"
  "flag Overflow (update_add_flags l r x s) \<longleftrightarrow> bit l 7 \<and> bit r 7 \<and> \<not> bit x 7 \<or> \<not> bit l 7 \<and> \<not> bit r 7 \<and> bit x 7"
  "flag Sign (update_add_flags l r x s) \<longleftrightarrow>
     bit x 7 \<noteq> (bit l 7 \<and> bit r 7 \<and> \<not> bit x 7 \<or> \<not> bit l 7 \<and> \<not> bit r 7 \<and> bit x 7)"
  "flag Negative (update_add_flags l r x s) \<longleftrightarrow> bit x 7"
  "flag Zero (update_add_flags l r x s) \<longleftrightarrow> x = 0"
  "flag Transfer (update_add_flags l r x s) = flag Transfer s"
  "flag Interrupt (update_add_flags l r x s) = flag Interrupt s"
  by (simp_all add: update_add_flags_def Let_def mask_bit)

lemma flag_update_sub [simp]:
  "flag Carry (update_sub_flags l r x s) \<longleftrightarrow> \<not> bit l 7 \<and> bit r 7 \<or> bit r 7 \<and> bit x 7 \<or> bit x 7 \<and> \<not> bit l 7"
  "flag HalfCarry (update_sub_flags l r x s) \<longleftrightarrow> \<not> bit l 3 \<and> bit r 3 \<or> bit r 3 \<and> bit x 3 \<or> bit x 3 \<and> \<not> bit l 3"
  "flag Overflow (update_sub_flags l r x s) \<longleftrightarrow> bit l 7 \<and> \<not> bit r 7 \<and> \<not> bit x 7 \<or> \<not> bit l 7 \<and> bit r 7 \<and> bit x 7"
  "flag Sign (update_sub_flags l r x s) \<longleftrightarrow>
     bit x 7 \<noteq> (bit l 7 \<and> \<not> bit r 7 \<and> \<not> bit x 7 \<or> \<not> bit l 7 \<and> bit r 7 \<and> bit x 7)"
  "flag Negative (update_sub_flags l r x s) \<longleftrightarrow> bit x 7"
  "flag Zero (update_sub_flags l r x s) \<longleftrightarrow> x = 0"
  "flag Transfer (update_sub_flags l r x s) = flag Transfer s"
  "flag Interrupt (update_sub_flags l r x s) = flag Interrupt s"
  by (simp_all add: update_sub_flags_def Let_def mask_bit)

lemma flag_update_logic [simp]:
  "flag f (update_logic_flags x s) =
     (case f of Negative \<Rightarrow> bit x 7 | Overflow \<Rightarrow> False | Zero \<Rightarrow> x = 0 | Sign \<Rightarrow> bit x 7 | _ \<Rightarrow> flag f s)"
  by (cases f) (simp_all add: update_logic_flags_def Let_def mask_bit)

lemma flag_update_adiw [simp]:
  "flag f (update_adiw_flags l x s) =
     (case f of Negative \<Rightarrow> bit x 15 | Zero \<Rightarrow> x = 0 | Overflow \<Rightarrow> \<not> bit l 15 \<and> bit x 15
        | Sign \<Rightarrow> bit x 15 \<noteq> (\<not> bit l 15 \<and> bit x 15) | Carry \<Rightarrow> \<not> bit x 15 \<and> bit l 15 | _ \<Rightarrow> flag f s)"
  by (cases f) (simp_all add: update_adiw_flags_def Let_def mask_bit)

lemma flag_update_sbiw [simp]:
  "flag f (update_sbiw_flags l x s) =
     (case f of Negative \<Rightarrow> bit x 15 | Zero \<Rightarrow> x = 0 | Overflow \<Rightarrow> bit l 15 \<and> \<not> bit x 15
        | Sign \<Rightarrow> bit x 15 \<noteq> (bit l 15 \<and> \<not> bit x 15) | Carry \<Rightarrow> bit x 15 \<and> \<not> bit l 15 | _ \<Rightarrow> flag f s)"
  by (cases f) (simp_all add: update_sbiw_flags_def Let_def mask_bit)

section \<open>Flags and arithmetic\<close>

lemma unat_add_carry:
  "unat (l + r + of_flag c :: u8) =
     (if 256 \<le> unat l + unat r + of_bool c then unat l + unat r + of_bool c - 256
      else unat l + unat r + of_bool c)"
proof -
  have "unat (l + r + of_flag c :: u8) = (unat l + unat r + of_bool c) mod 256"
    by (cases c) (simp_all add: of_flag_def unat_word_ariths mod_simps)
  moreover have "unat l + unat r + of_bool c < 512"
    using u8_less[of l] u8_less[of r] by (cases c) auto
  ultimately show ?thesis by (simp add: le_mod_geq)
qed

lemma mod_256_cases:
  fixes d :: int
  assumes "- 256 \<le> d" and "d < 256"
  shows "d mod 256 = d + (if d < 0 then 256 else 0)"
proof (cases "d < 0")
  case True
  have "d mod 256 = (d + 256) mod 256" by simp
  also have "\<dots> = d + 256" using assms True by (intro mod_pos_pos_trivial) auto
  finally show ?thesis using True by simp
next
  case False
  then show ?thesis using assms by simp
qed

lemma unat_sub_borrow:
  "int (unat (l - r - of_flag c :: u8)) =
     int (unat l) - int (unat r) - of_bool c + (if unat l < unat r + of_bool c then 256 else 0)"
proof -
  let ?d = "int (unat l) - int (unat r) - of_bool c"
  have "l - r - of_flag c = word_of_int ?d"
    by (cases c) (simp_all add: of_flag_def)
  then have eq: "int (unat (l - r - of_flag c :: u8)) = ?d mod 256"
    by (simp only: uint_nat[symmetric] uint_word_of_int) simp
  have "- 256 \<le> ?d \<and> ?d < 256"
    using u8_less[of l] u8_less[of r] by (cases c) (simp_all del: of_nat_unat)
  then have "?d mod 256 = ?d + (if ?d < 0 then 256 else 0)"
    using mod_256_cases by blast
  moreover have "?d < 0 \<longleftrightarrow> unat l < unat r + of_bool c"
    by (cases c) (simp_all del: of_nat_unat, linarith+)
  ultimately show ?thesis unfolding eq by (simp only:)
qed

lemma half_sum:
  "unat (l + r + of_flag c :: u8) mod 16 = (unat l mod 16 + unat r mod 16 + of_bool c) mod 16"
proof -
  have "unat (l + r + of_flag c :: u8) = (unat l + unat r + of_bool c) mod 256"
    by (cases c) (simp_all add: of_flag_def unat_word_ariths mod_simps)
  then have "unat (l + r + of_flag c :: u8) mod 16 = (unat l + unat r + of_bool c) mod 16"
    by (simp add: mod_mod_cancel)
  also have "\<dots> = (unat l mod 16 + unat r mod 16 + of_bool c) mod 16"
    by (intro mod_add_cong) simp_all
  finally show ?thesis .
qed

lemma add_carry_out:
  "flag Carry (update_add_flags l r (l + r + of_flag c) s) \<longleftrightarrow> 256 \<le> unat l + unat r + of_bool c"
  using u8_less[of l] u8_less[of r]
  by (cases c) (auto simp: bit7_unat unat_add_carry)

lemma add_half_carry:
  "flag HalfCarry (update_add_flags l r (l + r + of_flag c) s) \<longleftrightarrow>
     16 \<le> unat l mod 16 + unat r mod 16 + of_bool c"
proof -
  have *: "unat l mod 16 < 16" "unat r mod 16 < 16" by simp_all
  then have "unat (l + r + of_flag c) mod 16 =
      (if 16 \<le> unat l mod 16 + unat r mod 16 + of_bool c
       then unat l mod 16 + unat r mod 16 + of_bool c - 16
       else unat l mod 16 + unat r mod 16 + of_bool c)"
    unfolding half_sum by (cases c) (auto simp: le_mod_geq)
  then show ?thesis
    using * by (cases c) (auto simp: bit3_unat)
qed

lemma add_sign:
  "flag Sign (update_add_flags l r (l + r + of_flag c) s) \<longleftrightarrow> sint l + sint r + of_bool c < 0"
  using u8_less[of l] u8_less[of r]
  by (cases c) (auto simp del: of_nat_unat simp add: sint8 bit7_unat unat_add_carry)

lemma add_overflow:
  "flag Overflow (update_add_flags l r (l + r + of_flag c) s) \<longleftrightarrow>
     \<not> (- 128 \<le> sint l + sint r + of_bool c \<and> sint l + sint r + of_bool c < 128)"
  using u8_less[of l] u8_less[of r]
  by (cases c) (auto simp del: of_nat_unat simp add: sint8 bit7_unat unat_add_carry)

lemma sub_bit7: "bit (l - r - of_flag c :: u8) 7 \<longleftrightarrow>
    128 \<le> int (unat l) - int (unat r) - of_bool c + (if unat l < unat r + of_bool c then 256 else 0)"
  unfolding bit7_unat using unat_sub_borrow[of l r c] by linarith

lemma sub_borrow_out:
  "flag Carry (update_sub_flags l r (l - r - of_flag c) s) \<longleftrightarrow> unat l < unat r + of_bool c"
  using u8_less[of l] u8_less[of r] sub_bit7[of l r c]
  by (cases c) (auto simp del: of_nat_unat simp add: bit7_unat[of l] bit7_unat[of r] split: if_splits)

lemma sub_sign:
  "flag Sign (update_sub_flags l r (l - r - of_flag c) s) \<longleftrightarrow> sint l < sint r + of_bool c"
  using u8_less[of l] u8_less[of r] sub_bit7[of l r c]
  by (cases c) (auto simp del: of_nat_unat simp add: sint8 bit7_unat[of l] bit7_unat[of r] split: if_splits)

lemma sub_overflow:
  "flag Overflow (update_sub_flags l r (l - r - of_flag c) s) \<longleftrightarrow>
     \<not> (- 128 \<le> sint l - sint r - of_bool c \<and> sint l - sint r - of_bool c < 128)"
  using u8_less[of l] u8_less[of r] sub_bit7[of l r c]
  by (cases c) (auto simp del: of_nat_unat simp add: sint8 bit7_unat[of l] bit7_unat[of r] split: if_splits)

end
