(* ===== verification/State.thy ===== *)
theory State
  imports Watchdog Nonvolatile Xmem Scheduler Sync Alu
begin

text \<open>
  The state of the simulator: \<open>CpuControl\<close>, the peripherals behind the virtual
  interface \<open>IoPeripheral\<close>, \<open>MemoryBus\<close> and \<open>AvrCpu\<close>.  One record
  \<open>machine\<close> holds what the C++ objects share by reference; the CPU's fields are its own
  fields, the bus is the field \<open>bus\<close>, and a pointer to a peripheral is its index in
  \<open>peripherals\<close>.  \<open>hung\<close> marks a call that does not return.
\<close>

datatype cpu_state = Halted | Running | Paused | Sleeping

datatype sleep_mode = Idle | Adc_Noise_Reduction | Power_Down | Power_Save | Reserved4 | Reserved5
  | Standby | Extended_Standby

datatype reset_cause = Power_On | External | Brown_Out | Watchdog_Reset

definition sleep_mode_of :: "u8 \<Rightarrow> sleep_mode" where
  "sleep_mode_of w =
     (if w = 0 then Idle else if w = 1 then Adc_Noise_Reduction else if w = 2 then Power_Down
      else if w = 3 then Power_Save else if w = 4 then Reserved4 else if w = 5 then Reserved5
      else if w = 6 then Standby else Extended_Standby)"

text \<open>A scheduler callback with its \<open>void*\<close> parameter, the peripheral's index.\<close>

datatype event_cb =
    Watchdog_Callback nat
  | Eeprom_Master_Timeout nat
  | Eeprom_Write_Complete nat

text \<open>What an attached \<open>ITraceHook\<close> is told.\<close>

datatype trace_event =
    Trace_Instruction u32 u16 string
  | Trace_Sreg_Write u8
  | Trace_Interrupt u8

section \<open>CpuControl\<close>

record cpu_control =
  cc_smcr :: u8
  cc_mcusr :: u8
  cc_mcucr :: u8
  cc_prr :: u8
  cc_prr0 :: u8
  cc_prr1 :: u8
  cc_pllcsr :: u8
  cc_clkpr :: u8
  cc_osccal :: u8
  cc_ccp :: u8
  cc_ccp_expiry :: u64
  cc_clkpr_expiry :: u64
  cc_pll_lock_counter :: u64
  cc_sleep_mode :: sleep_mode
  cc_sleep_enabled :: bool
  cc_sleeping :: bool
  cc_base_frequency_hz :: u64
  cc_internal_rc_active :: bool

section \<open>Peripherals\<close>

datatype periph_kind =
    K_Control
  | K_Register_File
  | K_Cpu_Int cpu_int
  | K_Slp slp_ctrl
  | K_Rst rst_ctrl
  | K_Clk clk_ctrl
  | K_Xclk xclk_ctrl
  | K_Wdt wdt
  | K_Wdt8x wdt8x
  | K_Eeprom eeprom
  | K_Nvm nvm_ctrl
  | K_Xmem

record peripheral =
  p_kind :: periph_kind
  p_last_update_cycle :: u64
  p_interrupt_pending :: bool

text \<open>An \<open>IoMultiplexer\<close>: several peripherals mapped to one address.\<close>

record io_mux =
  mux_last_update_cycle :: u64
  mux_targets :: "nat list"

datatype dispatch_target = Direct nat | Muxed nat

section \<open>MemoryBus\<close>

record bus =
  device :: device
  flash :: "u16 list"
  data :: "u8 list"
  flash_rww_busy :: bool
  has_pending_pin_changes :: bool
  nvm_ctrl_ptr :: "nat option"
  eeprom_ptr :: "nat option"
  cpu_int_ptr :: "nat option"
  xmem_mem :: "xmem option"
  ebi_mem :: "ebi option"
  pending_interrupt_mask :: u64
  all_peripherals_support_mask :: bool
  mask_support_bits :: u64
  peripherals :: "peripheral list"
  ticking_peripherals :: "nat list"
  active_ticking_peripherals :: "nat list"
  dispatch_table :: "u16 \<Rightarrow> dispatch_target option"
  managed_muxes :: "io_mux list"
  loaded_program_words :: u32
  reset_word_address :: u32
  flash_page_buffer :: "u16 list"
  eeprom_page_buffer :: "u8 list"
  eeprom_buffer_dirty :: "u8 list"
  eeprom_storage :: "u8 list"
  user_row :: "u8 list"
  fuses :: "u8 list"
  lockbit :: u8
  spm_busy_cycles_left :: u32
  io_stall_cycles :: u32
  spm_blocks_cpu :: bool
  spm_command :: u8
  spm_address :: u32
  spm_data :: u16
  lpm_special_mode_timeout :: u8
  last_spmcsr_val :: u8
  flash_wait_states :: u8
  bus_cpu_cycles :: u64
  domain_gated_cycles :: "u8 \<Rightarrow> u64"
  in_rmw :: bool
  interrupts_dirty :: bool
  current_active_domains :: u8
  last_catch_up_cycle :: u64
  scheduler :: "event_cb scheduler"

section \<open>AvrCpu\<close>

record machine =
  gpr :: "u8 \<Rightarrow> u8"
  program_counter :: u32
  stack_pointer :: u16
  sreg :: u8
  rampz :: u8
  eind :: u8
  cycles :: u64
  instructions_executed :: u64
  sleep_cycles :: u64
  interrupt_pending :: bool
  interrupt_depth :: u8
  interrupt_delay :: u8
  last_domains :: u8
  spm_lock_timeout :: u8
  state :: cpu_state
  reset_triggered :: bool
  interrupt_check_interval :: u64
  control_regs :: cpu_control
  trace_hook :: "(u32 \<Rightarrow> u16 \<Rightarrow> string \<Rightarrow> bool) option"
  trace_log :: "trace_event list"
  sync_engine_ptr :: "sync_engine option"
  watchdog_timer_ptr :: "nat option"
  wdt8x_ptr :: "nat option"
  clk_ctrl_ptr :: "nat option"
  xmega_clk_ctrl_ptr :: "nat option"
  slp_ctrl_ptr :: "nat option"
  rst_ctrl_ptr :: "nat option"
  hung :: bool
  bus :: bus

text \<open>
  \<open>trace_hook\<close> is the observer: whether it halts the CPU (as the GDB stub does at a
  breakpoint) when told of an instruction.  What it is told is appended to
  \<open>trace_log\<close>.
\<close>

section \<open>Access to peripherals\<close>

definition upd_bus :: "(bus \<Rightarrow> bus) \<Rightarrow> machine \<Rightarrow> machine" where
  "upd_bus f m = m\<lparr>bus := f (bus m)\<rparr>"

definition kind_at :: "bus \<Rightarrow> nat \<Rightarrow> periph_kind" where
  "kind_at b i = p_kind (peripherals b ! i)"

definition set_kind :: "nat \<Rightarrow> periph_kind \<Rightarrow> bus \<Rightarrow> bus" where
  "set_kind i k b = b\<lparr>peripherals := (peripherals b)[i := (peripherals b ! i)\<lparr>p_kind := k\<rparr>]\<rparr>"

definition the_nvm :: "bus \<Rightarrow> nvm_ctrl option" where
  "the_nvm b = (case nvm_ctrl_ptr b of None \<Rightarrow> None
     | Some i \<Rightarrow> (case kind_at b i of K_Nvm n \<Rightarrow> Some n | _ \<Rightarrow> None))"

definition upd_nvm :: "(nvm_ctrl \<Rightarrow> nvm_ctrl) \<Rightarrow> bus \<Rightarrow> bus" where
  "upd_nvm f b = (case nvm_ctrl_ptr b of None \<Rightarrow> b
     | Some i \<Rightarrow> (case kind_at b i of K_Nvm n \<Rightarrow> set_kind i (K_Nvm (f n)) b | _ \<Rightarrow> b))"

definition the_eeprom :: "bus \<Rightarrow> eeprom option" where
  "the_eeprom b = (case eeprom_ptr b of None \<Rightarrow> None
     | Some i \<Rightarrow> (case kind_at b i of K_Eeprom e \<Rightarrow> Some e | _ \<Rightarrow> None))"

definition upd_eeprom :: "(eeprom \<Rightarrow> eeprom) \<Rightarrow> bus \<Rightarrow> bus" where
  "upd_eeprom f b = (case eeprom_ptr b of None \<Rightarrow> b
     | Some i \<Rightarrow> (case kind_at b i of K_Eeprom e \<Rightarrow> set_kind i (K_Eeprom (f e)) b | _ \<Rightarrow> b))"

definition the_cpu_int :: "bus \<Rightarrow> cpu_int option" where
  "the_cpu_int b = (case cpu_int_ptr b of None \<Rightarrow> None
     | Some i \<Rightarrow> (case kind_at b i of K_Cpu_Int c \<Rightarrow> Some c | _ \<Rightarrow> None))"

definition upd_cpu_int :: "(cpu_int \<Rightarrow> cpu_int) \<Rightarrow> bus \<Rightarrow> bus" where
  "upd_cpu_int f b = (case cpu_int_ptr b of None \<Rightarrow> b
     | Some i \<Rightarrow> (case kind_at b i of K_Cpu_Int c \<Rightarrow> set_kind i (K_Cpu_Int (f c)) b | _ \<Rightarrow> b))"

definition the_slp :: "machine \<Rightarrow> slp_ctrl option" where
  "the_slp m = (case slp_ctrl_ptr m of None \<Rightarrow> None
     | Some i \<Rightarrow> (case kind_at (bus m) i of K_Slp c \<Rightarrow> Some c | _ \<Rightarrow> None))"

definition the_clk :: "machine \<Rightarrow> clk_ctrl option" where
  "the_clk m = (case clk_ctrl_ptr m of None \<Rightarrow> None
     | Some i \<Rightarrow> (case kind_at (bus m) i of K_Clk c \<Rightarrow> Some c | _ \<Rightarrow> None))"

definition the_xclk :: "machine \<Rightarrow> xclk_ctrl option" where
  "the_xclk m = (case xmega_clk_ctrl_ptr m of None \<Rightarrow> None
     | Some i \<Rightarrow> (case kind_at (bus m) i of K_Xclk c \<Rightarrow> Some c | _ \<Rightarrow> None))"

lemma upd_bus_sel [simp]:
  "bus (upd_bus f m) = f (bus m)"
  "gpr (upd_bus f m) = gpr m" "program_counter (upd_bus f m) = program_counter m"
  "stack_pointer (upd_bus f m) = stack_pointer m" "sreg (upd_bus f m) = sreg m"
  "rampz (upd_bus f m) = rampz m" "eind (upd_bus f m) = eind m"
  "cycles (upd_bus f m) = cycles m" "state (upd_bus f m) = state m"
  "reset_triggered (upd_bus f m) = reset_triggered m" "control_regs (upd_bus f m) = control_regs m"
  "trace_hook (upd_bus f m) = trace_hook m" "sync_engine_ptr (upd_bus f m) = sync_engine_ptr m"
  "slp_ctrl_ptr (upd_bus f m) = slp_ctrl_ptr m" "rst_ctrl_ptr (upd_bus f m) = rst_ctrl_ptr m"
  "interrupt_pending (upd_bus f m) = interrupt_pending m"
  "interrupt_depth (upd_bus f m) = interrupt_depth m"
  "interrupt_delay (upd_bus f m) = interrupt_delay m"
  "last_domains (upd_bus f m) = last_domains m"
  "spm_lock_timeout (upd_bus f m) = spm_lock_timeout m"
  by (simp_all add: upd_bus_def)

end
