(* ===== verification/Bus.thy ===== *)
theory Bus
  imports State
begin

text \<open>
  The part of \<open>MemoryBus\<close> (\<open>include/vioavr/core/memory_bus.hpp\<close>,
  \<open>src/core/memory_bus.cpp\<close>) that touches only the bus: the interrupt mask and the
  arbitration between peripherals, program memory with its wait states and lock bits, the
  stall counters, and the self-programming and NVM commands with their deferred effect.
\<close>

section \<open>Peripheral interrupt state\<close>

definition notify_interrupt_state_change :: "nat \<Rightarrow> bool \<Rightarrow> bus \<Rightarrow> bus" where
  "notify_interrupt_state_change i pending b =
     (let bus_id = (of_nat i :: u8)
      in if bus_id \<ge> 64 then b
         else b\<lparr>pending_interrupt_mask :=
                  (if pending then pending_interrupt_mask b OR push_bit (unat bus_id) 1
                   else pending_interrupt_mask b AND NOT (push_bit (unat bus_id) 1)),
                interrupts_dirty := True\<rparr>)"

definition set_interrupt_pending :: "nat \<Rightarrow> bool \<Rightarrow> bus \<Rightarrow> bus" where
  "set_interrupt_pending i pending b =
     (if p_interrupt_pending (peripherals b ! i) = pending then b
      else notify_interrupt_state_change i pending
             (b\<lparr>peripherals := (peripherals b)[i := (peripherals b ! i)\<lparr>p_interrupt_pending := pending\<rparr>]\<rparr>))"

text \<open>The virtual \<open>pending_interrupt_request\<close>; the base class reports none.\<close>

definition periph_pending :: "periph_kind \<Rightarrow> interrupt_request option" where
  "periph_pending k =
     (case k of K_Wdt w \<Rightarrow> wdt_pending w | K_Wdt8x w \<Rightarrow> wdt8x_pending w
      | K_Eeprom e \<Rightarrow> ee_pending e | K_Nvm n \<Rightarrow> nvm_pending n | _ \<Rightarrow> None)"

text \<open>\<open>update_interrupt_pending\<close> of the peripherals that report through the mask.\<close>

definition update_interrupt_pending :: "nat \<Rightarrow> bus \<Rightarrow> bus" where
  "update_interrupt_pending i b = set_interrupt_pending i (periph_pending (kind_at b i) \<noteq> None) b"

definition wdt_consume :: "nat \<Rightarrow> wdt \<Rightarrow> bus \<Rightarrow> bool \<times> bus" where
  "wdt_consume i w b =
     (if wdt_pending w \<noteq> None
      then let w = w\<lparr>wdt_irq := False\<rparr>;
               w = (if wdt_wdtcsr w AND ucast (wdt_wde_mask w) \<noteq> 0
                    then w\<lparr>wdt_wdtcsr := wdt_wdtcsr w AND ucast (NOT (wdt_wdie_mask w))\<rparr> else w)
           in (True, update_interrupt_pending i (set_kind i (K_Wdt w) b))
      else (False, b))"

definition nvm_consume :: "nat \<Rightarrow> nvm_ctrl \<Rightarrow> bus \<Rightarrow> bool \<times> bus" where
  "nvm_consume i n b =
     (if nvm_pending n = None then (False, b)
      else (True, update_interrupt_pending i
              (set_kind i (K_Nvm (n\<lparr>nvm_intflags := nvm_intflags n AND NOT 0x01\<rparr>)) b)))"

definition eeprom_consume :: "nat \<Rightarrow> eeprom \<Rightarrow> bus \<Rightarrow> bool \<times> bus" where
  "eeprom_consume i e b =
     (if ee_pending e \<noteq> None then (True, set_interrupt_pending i False b) else (False, b))"

definition wdt8x_consume :: "interrupt_request \<Rightarrow> wdt8x \<Rightarrow> bool" where
  "wdt8x_consume r w \<longleftrightarrow> vector_index r = wdt8x_vector_index w"

definition periph_consume :: "nat \<Rightarrow> interrupt_request \<Rightarrow> bus \<Rightarrow> bool \<times> bus" where
  "periph_consume i r b =
     (case kind_at b i of
        K_Wdt w \<Rightarrow> wdt_consume i w b
      | K_Wdt8x w \<Rightarrow> (wdt8x_consume r w, b)
      | K_Eeprom e \<Rightarrow> eeprom_consume i e b
      | K_Nvm n \<Rightarrow> nvm_consume i n b
      | _ \<Rightarrow> (False, b))"

section \<open>Arbitration\<close>

text \<open>Every peripheral modelled here is in the I/O clock domain.\<close>

definition clock_domain :: "periph_kind \<Rightarrow> u8" where
  "clock_domain k = 0x02"

text \<open>Whether \<open>candidate\<close> replaces the best request so far.\<close>

definition replaces :: "cpu_int option \<Rightarrow> u8 \<Rightarrow> interrupt_request \<Rightarrow> interrupt_request \<Rightarrow> bool" where
  "replaces ci vectors candidate best =
     (case ci of
        Some c \<Rightarrow>
          let candidate_is_lvl1 = is_lvl1_vector c (vector_index candidate);
              best_is_lvl1 = is_lvl1_vector c (vector_index best)
          in if candidate_is_lvl1 \<and> \<not> best_is_lvl1 then True
             else if \<not> candidate_is_lvl1 \<and> best_is_lvl1 then False
             else let base = highest_priority_vector c; n = (ucast vectors :: u32)
                  in if n > 0
                     then (ucast (vector_index candidate) + n - ucast base) mod n
                          < (ucast (vector_index best) + n - ucast base) mod n
                     else vector_index candidate < vector_index best
      | None \<Rightarrow> candidate < best)"

text \<open>
  A peripheral that supports the interrupt mask is skipped while its bit is clear, one in
  a stopped clock domain always.
\<close>

definition candidate_request :: "bus \<Rightarrow> u8 \<Rightarrow> nat \<Rightarrow> interrupt_request option" where
  "candidate_request b active_domains i =
     (let bus_id = unat (of_nat i :: u8); domain_mask = clock_domain (kind_at b i)
      in if bit (mask_support_bits b) bus_id \<and> \<not> bit (pending_interrupt_mask b) bus_id then None
         else if domain_mask AND active_domains = 0 \<and> domain_mask \<noteq> 0 then None
         else periph_pending (kind_at b i))"

definition arbitrate_step ::
    "bus \<Rightarrow> u8 \<Rightarrow> nat \<Rightarrow> (nat \<times> interrupt_request) option \<Rightarrow> (nat \<times> interrupt_request) option" where
  "arbitrate_step b active_domains i best =
     (case candidate_request b active_domains i of
        None \<Rightarrow> best
      | Some candidate \<Rightarrow>
          (case best of
             None \<Rightarrow> Some (i, candidate)
           | Some (j, r) \<Rightarrow>
               if replaces (the_cpu_int b) (interrupt_vector_count (device b)) candidate r
               then Some (i, candidate) else best))"

definition arbitrate :: "bus \<Rightarrow> u8 \<Rightarrow> (nat \<times> interrupt_request) option" where
  "arbitrate b active_domains =
     fold (arbitrate_step b active_domains) [0..<length (peripherals b)] None"

definition pending_interrupt_request :: "bus \<Rightarrow> u8 \<Rightarrow> interrupt_request option" where
  "pending_interrupt_request b active_domains =
     (if all_peripherals_support_mask b \<and> pending_interrupt_mask b = 0 then None
      else map_option snd (arbitrate b active_domains))"

definition consume_interrupt_request :: "u8 \<Rightarrow> bus \<Rightarrow> interrupt_request option \<times> bus" where
  "consume_interrupt_request active_domains b =
     (if all_peripherals_support_mask b \<and> pending_interrupt_mask b = 0 then (None, b)
      else case arbitrate b active_domains of
             None \<Rightarrow> (None, b)
           | Some (i, r) \<Rightarrow>
               let (consumed, b) = periph_consume i r b
               in if consumed
                  then (Some r, upd_cpu_int (on_interrupt_acknowledged (vector_index r)) b)
                  else (None, b))"

definition bus_on_reti :: "bus \<Rightarrow> bus" where
  "bus_on_reti b =
     fold (\<lambda>i b. case kind_at b i of K_Cpu_Int c \<Rightarrow> set_kind i (K_Cpu_Int (cpu_int_on_reti c)) b
                  | _ \<Rightarrow> b)
       [0..<length (peripherals b)] b"

section \<open>Stalls and program memory\<close>

definition request_cpu_stall :: "u32 \<Rightarrow> bus \<Rightarrow> bus" where
  "request_cpu_stall c b = b\<lparr>io_stall_cycles := max (io_stall_cycles b) c\<rparr>"

definition consume_stall_cycle :: "bus \<Rightarrow> bus" where
  "consume_stall_cycle b =
     (if io_stall_cycles b > 0 then b\<lparr>io_stall_cycles := io_stall_cycles b - 1\<rparr> else b)"

definition nvm_operation_blocks :: "bus \<Rightarrow> u32 \<Rightarrow> bool" where
  "nvm_operation_blocks b word_address =
     (if spm_busy_cycles_left b = 0 \<or> \<not> spm_blocks_cpu b then False
      else if flash_rww_end_word (device b) = 0 then True
      else (drop_bit 1 (spm_address b) < flash_rww_end_word (device b))
           = (word_address < flash_rww_end_word (device b)))"

definition should_stall_cpu :: "bus \<Rightarrow> u32 \<Rightarrow> bool" where
  "should_stall_cpu b pc_word = (if io_stall_cycles b > 0 then True else nvm_operation_blocks b pc_word)"

definition read_program_word :: "u32 \<Rightarrow> bus \<Rightarrow> u16 \<times> bus" where
  "read_program_word word_address b =
     (let b = (if flash_wait_states b > 0 then request_cpu_stall (ucast (flash_wait_states b)) b else b)
      in if flash_rww_busy b \<and> word_address < flash_rww_end_word (device b) then (0xFFFF, b)
         else let b = (if nvm_operation_blocks b word_address
                       then request_cpu_stall (spm_busy_cycles_left b) b else b)
              in if unat word_address \<ge> length (flash b) then (0xFFFF, b)
                 else (flash b ! unat word_address, b))"

text \<open>LPM between the boot and the application section is subject to the lock bits.\<close>

definition lpm_locked :: "bus \<Rightarrow> u32 \<Rightarrow> u32 \<Rightarrow> bool" where
  "lpm_locked b byte_address pc_word =
     (if pc_word \<noteq> 0xFFFFFFFF \<and> boot_start_address (device b) \<noteq> 0
      then let lb = lockbit b AND 0x3F;
               boot_start_bytes = push_bit 1 (boot_start_address (device b));
               boot_pc = push_bit 1 pc_word \<ge> boot_start_bytes;
               app_target = byte_address < boot_start_bytes
           in boot_pc \<and> app_target \<and> lb AND 0x04 = 0
              \<or> \<not> boot_pc \<and> \<not> app_target \<and> lb AND 0x10 = 0
      else False)"

definition lpm_special :: "bus \<Rightarrow> u32 \<Rightarrow> u8 option" where
  "lpm_special b byte_address =
     (if lpm_special_mode_timeout b > 0
      then let offset = drop_bit 1 byte_address; d = device b
           in if sigrd_mask d \<noteq> 0 \<and> last_spmcsr_val b AND sigrd_mask d \<noteq> 0
                 \<and> unat offset < length (signature d)
              then Some (signature d ! unat offset)
              else if blbset_mask d \<noteq> 0 \<and> last_spmcsr_val b AND blbset_mask d \<noteq> 0
              then Some (if byte_address = 0 then fuses b ! 0
                         else if byte_address = 1 then lockbit b
                         else if byte_address = 2 then fuses b ! 2
                         else if byte_address = 3 then fuses b ! 1
                         else 0xFF)
              else None
      else None)"

definition read_program_byte :: "u32 \<Rightarrow> u32 \<Rightarrow> bus \<Rightarrow> u8 \<times> bus" where
  "read_program_byte byte_address pc_word b =
     (let b = (if flash_wait_states b > 0 then request_cpu_stall (ucast (flash_wait_states b)) b else b)
      in if lpm_locked b byte_address pc_word then (0xFF, b)
         else case lpm_special b byte_address of
                Some v \<Rightarrow> (v, b)
              | None \<Rightarrow>
                  let word_address = drop_bit 1 byte_address
                  in if flash_rww_busy b \<and> word_address < flash_rww_end_word (device b) then (0xFF, b)
                     else let b = (if nvm_operation_blocks b word_address
                                   then request_cpu_stall (spm_busy_cycles_left b) b else b)
                          in if unat word_address \<ge> length (flash b) then (0, b)
                             else (ucast (drop_bit (if byte_address AND 1 \<noteq> 0 then 8 else 0)
                                            (flash b ! unat word_address)), b))"

definition write_program_word :: "u32 \<Rightarrow> u16 \<Rightarrow> bus \<Rightarrow> bus" where
  "write_program_word word_address v b =
     (if unat word_address < length (flash b)
      then let b = b\<lparr>flash := (flash b)[unat word_address := v]\<rparr>
           in if word_address + 1 > loaded_program_words b
              then b\<lparr>loaded_program_words := word_address + 1\<rparr> else b
      else b)"

definition load_flash :: "u16 list \<Rightarrow> bus \<Rightarrow> bus" where
  "load_flash words b =
     (let n = min (length words) (length (flash b))
      in b\<lparr>flash := take n words @ drop n (flash b), loaded_program_words := of_nat n\<rparr>)"

section \<open>Self-programming\<close>

text \<open>
  The loops \<open>for (i = 0; i < n && start + i < flash_.size(); ++i) flash_[start + i] = f(i)\<close>,
  with the sum computed in 32 bits.
\<close>

function store_words :: "nat \<Rightarrow> nat \<Rightarrow> u32 \<Rightarrow> (nat \<Rightarrow> u16) \<Rightarrow> u16 list \<Rightarrow> u16 list" where
  "store_words i n start f fl =
     (if i < n \<and> unat (start + of_nat i) < length fl
      then store_words (Suc i) n start f (fl[unat (start + of_nat i) := f i])
      else fl)"
  by pat_completeness auto
termination by (relation "measure (\<lambda>(i, n, _). n - i)") auto

declare store_words.simps [simp del]

definition page_words :: "bus \<Rightarrow> nat" where
  "page_words b = unat (flash_page_size (device b))"

definition nvm_page_start :: "bus \<Rightarrow> u32" where
  "nvm_page_start b =
     drop_bit 1 (spm_address b) AND NOT (ucast (flash_page_size (device b)) - 1)"

definition write_flash_page :: "bus \<Rightarrow> bus" where
  "write_flash_page b =
     (if unat (nvm_page_start b) < length (flash b)
      then b\<lparr>flash := store_words 0 (page_words b) (nvm_page_start b) ((!) (flash_page_buffer b)) (flash b)\<rparr>
      else b)"

definition erase_flash_page :: "bus \<Rightarrow> bus" where
  "erase_flash_page b =
     (if unat (nvm_page_start b) < length (flash b)
      then b\<lparr>flash := store_words 0 (page_words b) (nvm_page_start b) (\<lambda>_. 0xFFFF) (flash b)\<rparr>
      else b)"

definition erase_flash_pages :: "u32 \<Rightarrow> nat \<Rightarrow> bus \<Rightarrow> bus" where
  "erase_flash_pages first_page n b =
     fold (\<lambda>p b. b\<lparr>flash := store_words 0 (page_words b)
                     (first_page + of_nat p * ucast (flash_page_size (device b))) (\<lambda>_. 0xFFFF) (flash b)\<rparr>)
       [0..<n] b"

definition clear_spmcsr :: "u8 \<Rightarrow> bus \<Rightarrow> bus" where
  "clear_spmcsr bits b =
     (let a = unat (spmcsr_address (device b))
      in if a < length (data b) then b\<lparr>data := (data b)[a := data b ! a AND NOT bits]\<rparr> else b)"

definition execute_spm_command :: "u8 \<Rightarrow> u32 \<Rightarrow> u16 \<Rightarrow> bus \<Rightarrow> bus" where
  "execute_spm_command command address v b =
     (let d = device b; lb = lockbit b AND 0x3F
      in if boot_start_address d \<noteq> 0
            \<and> (lb AND 0x03 \<noteq> 0x03
               \<or> (if address < push_bit 1 (boot_start_address d) then lb AND 0x08 = 0
                  else lb AND 0x20 = 0))
         then b
         else if spm_busy_cycles_left b > 0 then b
         else if command AND 0x06 \<noteq> 0
         then let b = b\<lparr>spm_command := command, spm_address := address, spm_data := v,
                        spm_busy_cycles_left := 64000, spm_blocks_cpu := True\<rparr>
              in if flash_rww_end_word d \<noteq> 0 \<and> drop_bit 1 address < flash_rww_end_word d
                 then b\<lparr>flash_rww_busy := True\<rparr> else b
         else if command AND 0x10 \<noteq> 0
         then let b = b\<lparr>flash_rww_busy := False\<rparr>
              in if spmcsr_address d \<noteq> 0 then clear_spmcsr 0x1F b else b
         else if command AND 0x01 \<noteq> 0
         then let offset = unat (drop_bit 1 address mod ucast (flash_page_size d))
              in if offset < length (flash_page_buffer b)
                 then b\<lparr>flash_page_buffer := (flash_page_buffer b)[offset := v]\<rparr> else b
         else b)"

section \<open>NVM commands\<close>

definition nvm_family_of :: "bus \<Rightarrow> nvm_family" where
  "nvm_family_of b =
     (case the_nvm b of Some n \<Rightarrow> nvm_family_field n | None \<Rightarrow> nvm_family_for_name (device_name (device b)))"

definition fill_flash_buffer :: "bus \<Rightarrow> bus" where
  "fill_flash_buffer b = b\<lparr>flash_page_buffer := replicate (length (flash_page_buffer b)) 0xFFFF\<rparr>"

definition fill_eeprom_buffer :: "bus \<Rightarrow> bus" where
  "fill_eeprom_buffer b = b\<lparr>eeprom_page_buffer := replicate (length (eeprom_page_buffer b)) 0xFF\<rparr>"

definition erase_eeprom_all :: "bus \<Rightarrow> bus" where
  "erase_eeprom_all b =
     (if eeprom_ptr b \<noteq> None then upd_eeprom ee_erase_all b
      else b\<lparr>eeprom_storage := replicate (length (eeprom_storage b)) 0xFF\<rparr>)"

definition nvm_multi :: "u8 \<Rightarrow> u8 \<Rightarrow> u32" where
  "nvm_multi command base = push_bit (unat (command - base + 1)) 1"

text \<open>The duration of a command and whether it occupies the flash and the EEPROM.\<close>

definition bus_command_timing :: "nvm_family \<Rightarrow> u8 \<Rightarrow> u32 \<times> bool \<times> bool" where
  "bus_command_timing family command =
     (case family of
        Dx \<Rightarrow>
          if command = 0x01 then (1, False, False)
          else if command \<ge> 0x09 \<and> command \<le> 0x0D then (64000 * nvm_multi command 0x09, True, False)
          else if command = 0x12 \<or> command = 0x13 \<or> command = 0x18
                  \<or> command \<ge> 0x19 \<and> command \<le> 0x1D then (64000, False, True)
          else if command = 0x20 then (1600000, True, True)
          else if command = 0x30 then (1600000, False, True)
          else (64000, True, False)
      | Ex \<Rightarrow>
          if command = 0x01 \<or> command = 0x0F \<or> command = 0x1F then (1, False, False)
          else if command \<ge> 0x09 \<and> command \<le> 0x0D then (64000 * nvm_multi command 0x09, True, False)
          else if command = 0x14 \<or> command = 0x15 \<or> command = 0x17 then (64000, False, True)
          else if command = 0x20 then (1600000, True, True)
          else if command = 0x30 then (1600000, False, True)
          else (64000, True, False)
      | MegaTiny \<Rightarrow>
          (if command = 0x05 then 1600000
           else if command = 0x04 \<or> command = 0x09 then 1 else 64000,
           command \<ge> 1 \<and> command \<le> 5 \<or> command = 0x10,
           command \<ge> 6 \<and> command \<le> 8))"

text \<open>The page-buffer clears take effect when the command is issued.\<close>

definition immediate_buffer_clear :: "nvm_family \<Rightarrow> u8 \<Rightarrow> bus \<Rightarrow> bus" where
  "immediate_buffer_clear family command b =
     (case family of
        Dx \<Rightarrow> b
      | Ex \<Rightarrow> if command = 0x0F then fill_flash_buffer b
             else if command = 0x1F then fill_eeprom_buffer b else b
      | MegaTiny \<Rightarrow> if command = 0x09 then fill_eeprom_buffer b
                   else if command = 0x04 then fill_flash_buffer b else b)"

definition execute_nvm_command :: "u8 \<Rightarrow> u32 \<Rightarrow> u16 \<Rightarrow> bus \<Rightarrow> bus" where
  "execute_nvm_command command address v b =
     (if spm_busy_cycles_left b > 0 then b
      else let b = b\<lparr>spm_command := command, spm_address := address, spm_data := v\<rparr>;
               family = nvm_family_of b;
               (c, flash_busy, ee_busy) = bus_command_timing family command;
               b = immediate_buffer_clear family command b
           in upd_nvm (nvm_set_busy flash_busy ee_busy)
                (b\<lparr>spm_busy_cycles_left := c, spm_blocks_cpu := flash_busy\<rparr>))"

section \<open>Deferred NVM operations\<close>

definition ee_base_offset :: "bus \<Rightarrow> u32" where
  "ee_base_offset b =
     (let off = spm_address b; start = ucast (data_start (mapped_eeprom (device b)))
      in if off \<ge> start then off - start else off)"

fun copy_eeprom :: "u32 \<Rightarrow> u8 list \<Rightarrow> nat list \<Rightarrow> u8 list \<Rightarrow> u8 list" where
  "copy_eeprom offset buf [] st = st"
| "copy_eeprom offset buf (i # is) st =
     copy_eeprom offset buf is
       (let k = unat (offset + of_nat i)
        in if k < length buf \<and> k < length st then st[k := buf ! k] else st)"

definition commit_eeprom :: "u32 \<Rightarrow> nat \<Rightarrow> bus \<Rightarrow> bus" where
  "commit_eeprom offset n b =
     (let buf = eeprom_page_buffer b; from = min (unat offset) (length buf)
      in if eeprom_ptr b \<noteq> None
         then upd_eeprom (ee_commit_page offset (take (min n (length buf - from)) (drop from buf))) b
         else b\<lparr>eeprom_storage := copy_eeprom offset buf [0..<n] (eeprom_storage b)\<rparr>)"

definition erase_eeprom_bytes :: "u32 \<Rightarrow> nat \<Rightarrow> bus \<Rightarrow> bus" where
  "erase_eeprom_bytes start n b =
     (let buf_size = length (eeprom_page_buffer b)
      in if unat start \<ge> buf_size then b
         else let n = min n (buf_size - unat start)
              in if eeprom_ptr b \<noteq> None
                 then upd_eeprom (ee_commit_page start (replicate n 0xFF)) b
                 else b\<lparr>eeprom_storage :=
                        map (\<lambda>k. if unat start \<le> k \<and> k < unat start + n then 0xFF else eeprom_storage b ! k)
                          [0..<length (eeprom_storage b)]\<rparr>)"

definition clear_eeprom_buffer :: "bus \<Rightarrow> bus" where
  "clear_eeprom_buffer b =
     b\<lparr>eeprom_page_buffer := replicate (length (eeprom_page_buffer b)) 0xFF,
       eeprom_buffer_dirty := replicate (length (eeprom_buffer_dirty b)) 0\<rparr>"

definition erase_dirty_bytes :: "u32 \<Rightarrow> bus \<Rightarrow> bus" where
  "erase_dirty_bytes page b =
     fold (\<lambda>i b. let idx = page + of_nat i
                  in if unat idx < length (eeprom_page_buffer b)
                        \<and> unat idx < length (eeprom_buffer_dirty b)
                        \<and> eeprom_buffer_dirty b ! unat idx \<noteq> 0
                     then erase_eeprom_bytes idx 1 b else b)
       [0..<8] b"

definition perform_deferred_nvm_dx_ex :: "u8 \<Rightarrow> bus \<Rightarrow> bus" where
  "perform_deferred_nvm_dx_ex command b =
     (if flash_page_size (device b) = 0 then b
      else if command = 0x02 \<or> command = 0x04 then write_flash_page b
      else if command = 0x05 then write_flash_page (erase_flash_pages (nvm_page_start b) 1 b)
      else if command = 0x08 then erase_flash_pages (nvm_page_start b) 1 b
      else if command \<ge> 0x09 \<and> command \<le> 0x0D
      then erase_flash_pages (nvm_page_start b) (unat (nvm_multi command 0x09)) b
      else if command = 0x0F then fill_flash_buffer b
      else if command = 0x12 then clear_eeprom_buffer (commit_eeprom (ee_base_offset b) 1 b)
      else if command = 0x13
      then clear_eeprom_buffer (commit_eeprom (ee_base_offset b) 1 (erase_eeprom_bytes (ee_base_offset b) 1 b))
      else if command = 0x14 \<or> command = 0x15
      then let page = ee_base_offset b AND NOT 0x07;
               b = (if command = 0x15 then erase_eeprom_bytes page 8 b else b)
           in clear_eeprom_buffer (commit_eeprom page 8 b)
      else if command = 0x17
      then clear_eeprom_buffer (erase_dirty_bytes (ee_base_offset b AND NOT 0x07) b)
      else if command = 0x18 then clear_eeprom_buffer (erase_eeprom_bytes (ee_base_offset b) 1 b)
      else if command \<ge> 0x19 \<and> command \<le> 0x1D
      then clear_eeprom_buffer (erase_eeprom_bytes (ee_base_offset b) (unat (nvm_multi command 0x19)) b)
      else if command = 0x30 then clear_eeprom_buffer (erase_eeprom_all b)
      else if command = 0x1F then fill_eeprom_buffer b
      else if command = 0x20
      then erase_eeprom_all (erase_flash_pages 0 (length (flash b) div page_words b + 1) b)
      else b)"

definition perform_deferred_mega_tiny :: "u8 \<Rightarrow> bus \<Rightarrow> bus" where
  "perform_deferred_mega_tiny command b =
     (if command = 0x01 \<or> command = 0x03 then write_flash_page b
      else if command = 0x02 then erase_flash_page b
      else if command = 0x04 then fill_flash_buffer b
      else if command = 0x05
      then let b = b\<lparr>flash := replicate (length (flash b)) 0xFFFF\<rparr>;
               b = (if mapped_size (mapped_user_signatures (device b)) > 0
                    then b\<lparr>user_row := replicate (length (user_row b)) 0xFF\<rparr> else b)
           in upd_eeprom ee_erase_all b
      else if command \<ge> 0x06 \<and> command \<le> 0x08
      then upd_eeprom (ee_commit_page (ee_base_offset b) (eeprom_page_buffer b)) b
      else if command = 0x09 then fill_eeprom_buffer b
      else b)"

definition perform_deferred_classic :: "bus \<Rightarrow> bus" where
  "perform_deferred_classic b =
     (if spm_command b AND 0x06 \<noteq> 0 \<and> lockbit b AND 0x3F AND 0x03 \<noteq> 0x03 then b
      else if spm_command b AND 0x02 \<noteq> 0 then (erase_flash_page b)\<lparr>flash_rww_busy := True\<rparr>
      else if spm_command b AND 0x04 \<noteq> 0 then (write_flash_page b)\<lparr>flash_rww_busy := True\<rparr>
      else b)"

definition perform_deferred_nvm_operation :: "bus \<Rightarrow> bus" where
  "perform_deferred_nvm_operation b =
     (if nvm_ctrl_ptr b \<noteq> None
      then if nvm_family_of b \<noteq> MegaTiny then perform_deferred_nvm_dx_ex (spm_command b) b
           else clear_spmcsr 0x1F (perform_deferred_mega_tiny (spm_command b) b)
      else clear_spmcsr 0x1F (perform_deferred_classic b))"

section \<open>Reset of the bus's own state\<close>

definition fill_range :: "nat \<Rightarrow> nat \<Rightarrow> 'a \<Rightarrow> 'a list \<Rightarrow> 'a list" where
  "fill_range lo hi v xs = map (\<lambda>i. if lo \<le> i \<and> i < hi then v else xs ! i) [0..<length xs]"

definition clear_data_space :: "device \<Rightarrow> u8 list \<Rightarrow> u8 list" where
  "clear_data_space d xs =
     (let n = length xs; top = n - 1; sram = sram_range d;
          xs = (if unat (range_begin sram) < n
                then fill_range (unat (range_begin sram)) (min (unat (range_end sram)) top + 1) 0 xs else xs);
          xs = (if unat (range_end (register_file_range d)) < n
                then fill_range 0 (unat (range_end (register_file_range d)) + 1) 0 xs else xs)
      in if unat (range_begin (io_range d)) < n
         then fill_range (unat (range_begin (io_range d)))
                (min (unat (range_end (extended_io_range d))) top + 1) 0 xs
         else xs)"

definition reset_bus_state :: "bus \<Rightarrow> bus" where
  "reset_bus_state b = b\<lparr>
     active_ticking_peripherals := ticking_peripherals b,
     data := clear_data_space (device b) (data b),
     fuses := device_fuses (device b), lockbit := lockbit_reset (device b),
     spm_busy_cycles_left := 0, flash_rww_busy := False, spm_blocks_cpu := True,
     scheduler := scheduler_reset (scheduler b), domain_gated_cycles := (\<lambda>_. 0),
     bus_cpu_cycles := 0, current_active_domains := 0xFF\<rparr>"

end
