(* ===== verification/Machine.thy ===== *)
theory Machine
  imports Bus "HOL-Library.While_Combinator"
begin

text \<open>
  The peripherals as the bus and the CPU drive them: register reads and writes, resets,
  ticks and scheduled events, with every effect they have on the bus, the scheduler and
  the CPU; \<open>AvrCpu::reset\<close>; \<open>MemoryBus::tick_peripherals\<close>, \<open>read_data\<close> and
  \<open>write_data\<close>.  The virtual calls of \<open>IoPeripheral\<close> are case distinctions on the
  peripheral's kind.
\<close>

section \<open>CpuControl\<close>

definition effective_frequency :: "cpu_control \<Rightarrow> u64" where
  "effective_frequency c =
     (let freq = cc_base_frequency_hz c;
          freq = (if cc_internal_rc_active c
                  then of_nat (unat freq * (128 + unat (cc_osccal c)) div 256) else freq);
          prescaler = cc_clkpr c AND 0x0F;
          prescaler = (if prescaler > 8 then 8 else prescaler)
      in drop_bit (unat prescaler) freq)"

definition cpu_frequency_hz_of :: "cpu_control \<Rightarrow> u32" where
  "cpu_frequency_hz_of c = ucast (effective_frequency c)"

definition control_reset :: "cpu_control \<Rightarrow> cpu_control" where
  "control_reset c = c\<lparr>cc_smcr := 0, cc_mcusr := 0x01, cc_mcucr := 0, cc_sleep_mode := Idle,
     cc_sleep_enabled := False, cc_sleeping := False, cc_ccp := 0, cc_ccp_expiry := 0,
     cc_clkpr := 0, cc_clkpr_expiry := 0, cc_osccal := 0x80\<rparr>"

definition set_reset_cause :: "reset_cause \<Rightarrow> cpu_control \<Rightarrow> cpu_control" where
  "set_reset_cause cause c = c\<lparr>cc_mcusr := (cc_mcusr c AND 0xF0) OR
     (case cause of Power_On \<Rightarrow> 0x01 | External \<Rightarrow> 0x02 | Brown_Out \<Rightarrow> 0x04 | Watchdog_Reset \<Rightarrow> 0x08)\<rparr>"

definition control_tick :: "device \<Rightarrow> u64 \<Rightarrow> cpu_control \<Rightarrow> cpu_control" where
  "control_tick d elapsed c =
     (if pllcsr_address d \<noteq> 0
      then if cc_pllcsr c AND 0x02 \<noteq> 0
           then if cc_pllcsr c AND 0x01 = 0
                then if cc_pll_lock_counter c > 0
                     then if elapsed \<ge> cc_pll_lock_counter c
                          then c\<lparr>cc_pll_lock_counter := 0, cc_pllcsr := cc_pllcsr c OR 0x01\<rparr>
                          else c\<lparr>cc_pll_lock_counter := cc_pll_lock_counter c - elapsed\<rparr>
                     else c\<lparr>cc_pll_lock_counter := 100\<rparr>
                else c
           else c\<lparr>cc_pllcsr := cc_pllcsr c AND NOT 0x01, cc_pll_lock_counter := 0\<rparr>
      else c)"

definition control_read :: "machine \<Rightarrow> u16 \<Rightarrow> u8" where
  "control_read m address =
     (let d = device (bus m); c = control_regs m
      in if address = mcusr_address d then cc_mcusr c
         else if address = mcucr_address d then cc_mcucr c
         else if address = smcr_address d then cc_smcr c
         else if address = prr_address d then cc_prr c
         else if address = prr0_address d then cc_prr0 c
         else if address = prr1_address d then cc_prr1 c
         else if address = pllcsr_address d then cc_pllcsr c
         else if address = clkpr_address d
         then if cycles m < cc_clkpr_expiry c then cc_clkpr c OR 0x80 else cc_clkpr c
         else if address = osccal_address d then cc_osccal c
         else if address = spl_address d then ucast (stack_pointer m AND 0xFF)
         else if address = sph_address d then ucast (drop_bit 8 (stack_pointer m) AND 0xFF)
         else if address = sreg_address d then sreg m
         else if address = rampz_address d then rampz m
         else if address = eind_address d then eind m
         else if address = ccp_address d then cc_ccp c
         else 0)"

definition is_ccp_unlocked :: "machine \<Rightarrow> bool" where
  "is_ccp_unlocked m \<longleftrightarrow> cycles m < cc_ccp_expiry (control_regs m)"

definition unlock_ccp :: "u8 \<Rightarrow> machine \<Rightarrow> machine" where
  "unlock_ccp sig m =
     (if sig = 0xD8 \<or> sig = 0x9D
      then m\<lparr>control_regs := (control_regs m)\<lparr>cc_ccp := sig, cc_ccp_expiry := cycles m + 4\<rparr>\<rparr>
      else m)"

definition trace :: "trace_event \<Rightarrow> machine \<Rightarrow> machine" where
  "trace e m = (case trace_hook m of None \<Rightarrow> m | Some h \<Rightarrow> m\<lparr>trace_log := trace_log m @ [e]\<rparr>)"

definition write_sreg :: "u8 \<Rightarrow> machine \<Rightarrow> machine" where
  "write_sreg v m =
     (let old_i = flag Interrupt (sreg m);
          m = m\<lparr>sreg := v\<rparr>;
          m = (if flag Interrupt (sreg m) \<and> \<not> old_i then m\<lparr>interrupt_delay := 1\<rparr> else m)
      in trace (Trace_Sreg_Write v) m)"

definition control_write_smcr :: "device \<Rightarrow> u8 \<Rightarrow> cpu_control \<Rightarrow> cpu_control" where
  "control_write_smcr d v c =
     c\<lparr>cc_smcr := v, cc_sleep_enabled := v AND smcr_se_mask d \<noteq> 0,
       cc_sleep_mode := sleep_mode_of (shift_down (smcr_sm_mask d) (v AND smcr_sm_mask d))\<rparr>"

definition control_write_clkpr :: "u64 \<Rightarrow> u8 \<Rightarrow> cpu_control \<Rightarrow> cpu_control" where
  "control_write_clkpr now v c =
     (if v = 0x80
      then if now \<ge> cc_clkpr_expiry c then c\<lparr>cc_clkpr_expiry := now + 4\<rparr> else c
      else if now < cc_clkpr_expiry c \<and> v AND 0x80 = 0
      then c\<lparr>cc_clkpr := v AND 0x0F, cc_clkpr_expiry := 0\<rparr>
      else c)"

definition upd_control :: "(cpu_control \<Rightarrow> cpu_control) \<Rightarrow> machine \<Rightarrow> machine" where
  "upd_control f m = m\<lparr>control_regs := f (control_regs m)\<rparr>"

definition control_write :: "u16 \<Rightarrow> u8 \<Rightarrow> machine \<Rightarrow> machine" where
  "control_write address v m =
     (let d = device (bus m)
      in if address = mcusr_address d
         then upd_control (\<lambda>c. c\<lparr>cc_mcusr := cc_mcusr c AND NOT v\<rparr>) m
         else if address = mcucr_address d then upd_control (\<lambda>c. c\<lparr>cc_mcucr := v\<rparr>) m
         else if address = smcr_address d then upd_control (control_write_smcr d v) m
         else if address = prr_address d then upd_control (\<lambda>c. c\<lparr>cc_prr := v\<rparr>) m
         else if address = prr0_address d then upd_control (\<lambda>c. c\<lparr>cc_prr0 := v\<rparr>) m
         else if address = prr1_address d then upd_control (\<lambda>c. c\<lparr>cc_prr1 := v\<rparr>) m
         else if address = pllcsr_address d then upd_control (\<lambda>c. c\<lparr>cc_pllcsr := v\<rparr>) m
         else if address = clkpr_address d then upd_control (control_write_clkpr (cycles m) v) m
         else if address = osccal_address d then upd_control (\<lambda>c. c\<lparr>cc_osccal := v\<rparr>) m
         else if address = spl_address d
         then m\<lparr>stack_pointer := (stack_pointer m AND 0xFF00) OR ucast v\<rparr>
         else if address = sph_address d
         then m\<lparr>stack_pointer := push_bit 8 (ucast v) OR (stack_pointer m AND 0x00FF)\<rparr>
         else if address = sreg_address d then write_sreg v m
         else if address = rampz_address d then m\<lparr>rampz := v\<rparr>
         else if address = eind_address d then m\<lparr>eind := v\<rparr>
         else if address = ccp_address d then unlock_ccp v m
         else m)"

section \<open>Scheduling\<close>

text \<open>Events are scheduled with the default priority 100.\<close>

definition schedule_event :: "u64 \<Rightarrow> event_cb \<Rightarrow> bus \<Rightarrow> bus" where
  "schedule_event delay cb b = b\<lparr>scheduler := schedule delay cb 100 (scheduler b)\<rparr>"

definition cancel_event :: "event_cb \<Rightarrow> bus \<Rightarrow> bus" where
  "cancel_event cb b = b\<lparr>scheduler := cancel cb (scheduler b)\<rparr>"

definition domain_cycles :: "bus \<Rightarrow> u8 \<Rightarrow> u64" where
  "domain_cycles b d =
     (let current = current_cycle (scheduler b); gated = domain_gated_cycles b d
      in if current \<le> gated then 0 else current - gated)"

section \<open>Register access of the peripherals\<close>

definition wdt_reset_watchdog :: "nat \<Rightarrow> wdt \<Rightarrow> bus \<Rightarrow> bus" where
  "wdt_reset_watchdog i w b =
     (let b = cancel_event (Watchdog_Callback i) b
      in if wdt_wdtcsr w AND ucast (wdt_wde_mask w OR wdt_wdie_mask w) = 0 then b
         else let left = wdt_timeout_cycles w
              in schedule_event (ucast left) (Watchdog_Callback i)
                   (set_kind i (K_Wdt (w\<lparr>wdt_cycles_left := left\<rparr>)) b))"

definition wdt_write :: "nat \<Rightarrow> u16 \<Rightarrow> u8 \<Rightarrow> wdt \<Rightarrow> bus \<Rightarrow> bus" where
  "wdt_write i address v w b =
     (case wdt_write_regs address v w of
        (w, Sequence_Opened) \<Rightarrow> set_kind i (K_Wdt w) b
      | (w, Restarted) \<Rightarrow> update_interrupt_pending i (wdt_reset_watchdog i w (set_kind i (K_Wdt w) b))
      | (w, Ignored) \<Rightarrow> update_interrupt_pending i b)"

definition in_ee_mapped :: "eeprom \<Rightarrow> u16 \<Rightarrow> bool" where
  "in_ee_mapped e address \<longleftrightarrow> in_mapped (ee_mapped_data e) address"

definition eeprom_read :: "u16 \<Rightarrow> eeprom \<Rightarrow> bus \<Rightarrow> u8 \<times> bus" where
  "eeprom_read address e b =
     (if address = ee_eecr_address e
      then (ee_eecr e OR (if ee_write_cycles_left e > 0 then 0x02 else 0), b)
      else if address = ee_eedr_address e then (ee_eedr e, b)
      else if address = ee_eearl_address e then (ucast (ee_eear e AND 0xFF), b)
      else if address = ee_eearh_address e then (ucast (drop_bit 8 (ee_eear e) AND 0xFF), b)
      else if in_ee_mapped e address
      then let offset = unat (address - data_start (ee_mapped_data e))
           in (if offset < length (ee_storage e) then ee_storage e ! offset else 0xFF,
               if ee_write_cycles_left e = 0 then request_cpu_stall 4 b else b)
      else (0, b))"

text \<open>\<open>update_eecr\<close>: the four steps of a write to EECR, in order.\<close>

definition eecr_read_enable :: "u8 \<Rightarrow> eeprom \<times> bus \<Rightarrow> eeprom \<times> bus" where
  "eecr_read_enable v eb =
     (let (e, b) = eb
      in if v AND 0x01 \<noteq> 0 \<and> ee_write_cycles_left e = 0
         then (e\<lparr>ee_eedr := ee_storage e ! unat (ee_eear e mod ee_size e)\<rparr>, request_cpu_stall 4 b)
         else (e, b))"

definition eecr_master_enable :: "nat \<Rightarrow> u8 \<Rightarrow> eeprom \<times> bus \<Rightarrow> eeprom \<times> bus" where
  "eecr_master_enable i v eb =
     (let (e, b) = eb
      in if v AND 0x04 \<noteq> 0 \<and> ee_write_cycles_left e = 0
         then (e\<lparr>ee_eecr := ee_eecr e OR 0x04, ee_master_timeout := 4\<rparr>,
               schedule_event 4 (Eeprom_Master_Timeout i) (cancel_event (Eeprom_Master_Timeout i) b))
         else (e, b))"

definition eecr_write_enable :: "nat \<Rightarrow> u8 \<Rightarrow> eeprom \<times> bus \<Rightarrow> eeprom \<times> bus" where
  "eecr_write_enable i v eb =
     (let (e, b) = eb
      in if v AND 0x02 \<noteq> 0 \<and> ee_eecr e AND 0x04 \<noteq> 0 \<and> ee_write_cycles_left e = 0
         then let e = ee_start_write e
              in (e, request_cpu_stall 2
                       (schedule_event (ucast (ee_write_cycles_left e)) (Eeprom_Write_Complete i)
                         (cancel_event (Eeprom_Write_Complete i) b)))
         else (e, b))"

definition eecr_modes :: "u8 \<Rightarrow> eeprom \<Rightarrow> eeprom" where
  "eecr_modes v e =
     (let e = (if v AND 0x08 \<noteq> 0 then e\<lparr>ee_eecr := ee_eecr e OR 0x08\<rparr>
               else e\<lparr>ee_eecr := ee_eecr e AND NOT 0x08\<rparr>)
      in e\<lparr>ee_eecr := (ee_eecr e AND 0xCF) OR (v AND 0x30)\<rparr>)"

definition eeprom_update_eecr :: "nat \<Rightarrow> u8 \<Rightarrow> eeprom \<Rightarrow> bus \<Rightarrow> eeprom \<times> bus" where
  "eeprom_update_eecr i v e b =
     (let (e, b) = eecr_write_enable i v (eecr_master_enable i v (eecr_read_enable v (e, b)))
      in (eecr_modes v e, b))"

definition eeprom_write :: "nat \<Rightarrow> u16 \<Rightarrow> u8 \<Rightarrow> eeprom \<Rightarrow> bus \<Rightarrow> bus" where
  "eeprom_write i address v e b =
     (if address = ee_eecr_address e
      then let (e, b) = eeprom_update_eecr i v e b
           in update_interrupt_pending i (set_kind i (K_Eeprom e) b)
      else if ee_write_cycles_left e > 0 then b
      else if address = ee_eedr_address e then set_kind i (K_Eeprom (e\<lparr>ee_eedr := v\<rparr>)) b
      else if address = ee_eearl_address e
      then set_kind i (K_Eeprom (e\<lparr>ee_eear := (ee_eear e AND 0xFF00) OR ucast v\<rparr>)) b
      else if address = ee_eearh_address e
      then set_kind i (K_Eeprom (e\<lparr>ee_eear := push_bit 8 (ucast v) OR (ee_eear e AND 0x00FF)\<rparr>)) b
      else if in_ee_mapped e address
      then let offset = address - data_start (ee_mapped_data e)
           in if unat offset < length (ee_storage e)
              then let e = e\<lparr>ee_mapped_pending := True, ee_mapped_offset := offset,
                             ee_mapped_value := v, ee_eecr := ee_eecr e OR 0x02,
                             ee_write_cycles_left := 54400\<rparr>
                   in update_interrupt_pending i
                        (schedule_event 54400 (Eeprom_Write_Complete i)
                          (cancel_event (Eeprom_Write_Complete i) (set_kind i (K_Eeprom e) b)))
              else b
      else b)"

definition nvm_write :: "nat \<Rightarrow> u16 \<Rightarrow> u8 \<Rightarrow> nvm_ctrl \<Rightarrow> bus \<Rightarrow> bus" where
  "nvm_write i address v n b =
     (let put = (\<lambda>n. set_kind i (K_Nvm n) b)
      in if address = nvm_ctrla_address n
         then let n = n\<lparr>nvm_ctrla := v AND 0x7F\<rparr>
              in if nvm_ctrla n \<noteq> 0
                 then let (flash_busy, ee_busy, c) = nvm_command_timing (nvm_family_field n) (nvm_ctrla n)
                      in execute_nvm_command (nvm_ctrla n) (ucast (nvm_addr n)) (nvm_data n)
                           (put (nvm_set_busy flash_busy ee_busy (n\<lparr>nvm_busy_cycles := c\<rparr>)))
                 else put n
         else if address = nvm_ctrlb_address n
         then (put (n\<lparr>nvm_ctrlb := v\<rparr>))\<lparr>flash_wait_states := v AND 0x03\<rparr>
         else if address = nvm_status_address n then b
         else if address = nvm_intctrl_address n then put (n\<lparr>nvm_intctrl := v\<rparr>)
         else if address = nvm_intflags_address n
         then put (n\<lparr>nvm_intflags := nvm_intflags n AND NOT v\<rparr>)
         else if address = nvm_data_address n
         then put (n\<lparr>nvm_data := (nvm_data n AND 0xFF00) OR ucast v\<rparr>)
         else if unat address = unat (nvm_data_address n) + 1
         then put (n\<lparr>nvm_data := (nvm_data n AND 0x00FF) OR push_bit 8 (ucast v)\<rparr>)
         else if address = nvm_addr_address n
         then put (n\<lparr>nvm_addr := (nvm_addr n AND 0xFF00) OR ucast v\<rparr>)
         else if unat address = unat (nvm_addr_address n) + 1
         then put (n\<lparr>nvm_addr := (nvm_addr n AND 0x00FF) OR push_bit 8 (ucast v)\<rparr>)
         else b)"

definition register_file_read :: "machine \<Rightarrow> u16 \<Rightarrow> u8" where
  "register_file_read m address =
     (let r = register_file_range (device (bus m))
      in if range_contains r address then gpr m (ucast (address - range_begin r)) else 0)"

text \<open>\<open>write_register\<close> ignores an index beyond R31.\<close>

definition write_register :: "u8 \<Rightarrow> u8 \<Rightarrow> machine \<Rightarrow> machine" where
  "write_register index v m = (if index < 32 then m\<lparr>gpr := (gpr m)(index := v)\<rparr> else m)"

definition register_file_write :: "u16 \<Rightarrow> u8 \<Rightarrow> machine \<Rightarrow> machine" where
  "register_file_write address v m =
     (let r = register_file_range (device (bus m))
      in if range_contains r address then write_register (ucast (address - range_begin r)) v m else m)"

section \<open>The virtual interface\<close>

definition upd_kind :: "nat \<Rightarrow> periph_kind \<Rightarrow> machine \<Rightarrow> machine" where
  "upd_kind i k m = upd_bus (set_kind i k) m"

definition periph_read :: "nat \<Rightarrow> u16 \<Rightarrow> machine \<Rightarrow> u8 \<times> machine" where
  "periph_read i address m =
     (case kind_at (bus m) i of
        K_Control \<Rightarrow> (control_read m address, m)
      | K_Register_File \<Rightarrow> (register_file_read m address, m)
      | K_Cpu_Int c \<Rightarrow> (cpu_int_read c address, m)
      | K_Slp c \<Rightarrow> (slp_read c address, m)
      | K_Rst c \<Rightarrow> (rst_read c address, m)
      | K_Clk c \<Rightarrow> (clk_read c address, m)
      | K_Xclk c \<Rightarrow> (xclk_read c address, m)
      | K_Wdt w \<Rightarrow> (wdt_read w address, m)
      | K_Wdt8x w \<Rightarrow> (wdt8x_read w address, m)
      | K_Eeprom e \<Rightarrow> let (v, b) = eeprom_read address e (bus m) in (v, m\<lparr>bus := b\<rparr>)
      | K_Nvm n \<Rightarrow> (nvm_read n address, m)
      | K_Xmem \<Rightarrow> (case xmem_mem (bus m) of
                     Some x \<Rightarrow> (xmem_read (xmem_desc (device (bus m))) x address, m) | None \<Rightarrow> (0, m)))"

definition periph_write :: "nat \<Rightarrow> u16 \<Rightarrow> u8 \<Rightarrow> machine \<Rightarrow> machine" where
  "periph_write i address v m =
     (case kind_at (bus m) i of
        K_Control \<Rightarrow> control_write address v m
      | K_Register_File \<Rightarrow> register_file_write address v m
      | K_Cpu_Int c \<Rightarrow> upd_kind i (K_Cpu_Int (cpu_int_write address v c)) m
      | K_Slp c \<Rightarrow> upd_kind i (K_Slp (slp_write address v c)) m
      | K_Rst c \<Rightarrow> upd_kind i (K_Rst (rst_write address v c)) m
      | K_Clk c \<Rightarrow> upd_kind i (K_Clk (clk_write address v c)) m
      | K_Xclk c \<Rightarrow> upd_kind i (K_Xclk (xclk_write address v c)) m
      | K_Wdt w \<Rightarrow> upd_bus (wdt_write i address v w) m
      | K_Wdt8x w \<Rightarrow>
          upd_kind i (K_Wdt8x (wdt8x_write (is_ccp_unlocked m)
                        (cpu_frequency_hz_of (control_regs m)) address v w)) m
      | K_Eeprom e \<Rightarrow> upd_bus (eeprom_write i address v e) m
      | K_Nvm n \<Rightarrow> upd_bus (nvm_write i address v n) m
      | K_Xmem \<Rightarrow> upd_bus (\<lambda>b. b\<lparr>xmem_mem :=
                     map_option (xmem_write (xmem_desc (device b)) address v) (xmem_mem b)\<rparr>) m)"

definition periph_reset :: "nat \<Rightarrow> machine \<Rightarrow> machine" where
  "periph_reset i m =
     (case kind_at (bus m) i of
        K_Control \<Rightarrow> upd_control control_reset m
      | K_Register_File \<Rightarrow> m
      | K_Cpu_Int c \<Rightarrow> upd_kind i (K_Cpu_Int (cpu_int_reset c)) m
      | K_Slp c \<Rightarrow> upd_kind i (K_Slp (c\<lparr>slp_ctrla := 0\<rparr>)) m
      | K_Rst c \<Rightarrow> upd_kind i (K_Rst (rst_reset c)) m
      | K_Clk c \<Rightarrow> upd_kind i (K_Clk (clk_reset c)) m
      | K_Xclk c \<Rightarrow> upd_kind i (K_Xclk (xclk_reset c)) m
      | K_Wdt w \<Rightarrow> upd_kind i (K_Wdt (wdt_reset w)) m
      | K_Wdt8x w \<Rightarrow> upd_kind i (K_Wdt8x (wdt8x_reset w)) m
      | K_Eeprom e \<Rightarrow>
          upd_bus (\<lambda>b. set_interrupt_pending i False
                     (set_kind i (K_Eeprom (ee_reset_regs e))
                       (cancel_event (Eeprom_Write_Complete i)
                         (cancel_event (Eeprom_Master_Timeout i) b)))) m
      | K_Nvm n \<Rightarrow> upd_kind i (K_Nvm (nvm_reset n)) m
      | K_Xmem \<Rightarrow> upd_bus (\<lambda>b. b\<lparr>xmem_mem := map_option xmem_reset (xmem_mem b)\<rparr>) m)"

definition set_last_update :: "nat \<Rightarrow> u64 \<Rightarrow> bus \<Rightarrow> bus" where
  "set_last_update i t b =
     b\<lparr>peripherals := (peripherals b)[i := (peripherals b ! i)\<lparr>p_last_update_cycle := t\<rparr>]\<rparr>"

section \<open>Reset\<close>

definition bus_reset :: "machine \<Rightarrow> machine" where
  "bus_reset m =
     (let m = upd_bus reset_bus_state m;
          m = fold (\<lambda>i m. upd_bus (set_last_update i 0) (periph_reset i m))
                [0..<length (peripherals (bus m))] m
      in upd_bus (\<lambda>b. b\<lparr>interrupts_dirty := True, last_catch_up_cycle := 0\<rparr>) m)"

definition rst_cause_mask :: "reset_cause \<Rightarrow> u8" where
  "rst_cause_mask cause =
     (case cause of Power_On \<Rightarrow> 0x01 | External \<Rightarrow> 0x04 | Brown_Out \<Rightarrow> 0x02 | Watchdog_Reset \<Rightarrow> 0x08)"

definition record_reset_cause :: "reset_cause \<Rightarrow> machine \<Rightarrow> machine" where
  "record_reset_cause cause m =
     (case rst_ctrl_ptr m of
        Some i \<Rightarrow> (case kind_at (bus m) i of
                     K_Rst c \<Rightarrow> upd_kind i (K_Rst (c\<lparr>rst_rstfr := rst_cause_mask cause\<rparr>)) m
                   | _ \<Rightarrow> m)
      | None \<Rightarrow> upd_control (set_reset_cause cause) m)"

definition cpu_reset :: "reset_cause \<Rightarrow> machine \<Rightarrow> machine" where
  "cpu_reset cause m =
     (let m = bus_reset m; d = device (bus m);
          sp = (ucast (spl_reset d) OR push_bit 8 (ucast (sph_reset d)) :: u16);
          m = m\<lparr>gpr := (\<lambda>_. 0), program_counter := reset_word_address (bus m),
                stack_pointer := (if sp = 0 then range_end (sram_range d) else sp)\<rparr>;
          m = write_sreg (sreg_reset d) m;
          m = m\<lparr>cycles := 0, instructions_executed := 0, sleep_cycles := 0, reset_triggered := True,
                interrupt_pending := False, interrupt_depth := 0,
                state := (if loaded_program_words (bus m) > 0 then Running else Halted)\<rparr>;
          m = record_reset_cause cause m
      in m\<lparr>interrupt_delay := 0, sync_engine_ptr := map_option sync_on_reset (sync_engine_ptr m)\<rparr>)"

section \<open>Ticks and events\<close>

definition periph_tick :: "nat \<Rightarrow> u64 \<Rightarrow> machine \<Rightarrow> machine" where
  "periph_tick i elapsed m =
     (case kind_at (bus m) i of
        K_Control \<Rightarrow> upd_control (control_tick (device (bus m)) elapsed) m
      | K_Wdt w \<Rightarrow> upd_kind i (K_Wdt (wdt_tick elapsed w)) m
      | K_Wdt8x w \<Rightarrow>
          let (w, expired) = wdt8x_tick elapsed w; m = upd_kind i (K_Wdt8x w) m
          in if expired then cpu_reset Watchdog_Reset m else m
      | K_Nvm n \<Rightarrow>
          let (n, completed) = nvm_tick elapsed n; m = upd_kind i (K_Nvm n) m
          in if completed then upd_bus (update_interrupt_pending i) m else m
      | _ \<Rightarrow> m)"

definition tick_peripheral_to :: "u64 \<Rightarrow> u8 \<Rightarrow> nat \<Rightarrow> machine \<Rightarrow> machine" where
  "tick_peripheral_to target active_domains i m =
     (let start = p_last_update_cycle (peripherals (bus m) ! i)
      in if start < target
         then let m = upd_bus (set_last_update i target) m; domain_bit = clock_domain (kind_at (bus m) i)
              in if domain_bit = 0 \<or> active_domains AND domain_bit \<noteq> 0
                 then periph_tick i (target - start) m else m
         else m)"

text \<open>\<open>WatchdogTimer::complete_timeout\<close>, the scheduled event.\<close>

definition wdt_complete_timeout :: "nat \<Rightarrow> machine \<Rightarrow> machine" where
  "wdt_complete_timeout i m =
     (case kind_at (bus m) i of
        K_Wdt w \<Rightarrow>
          let m = (if wdt_wdtcsr w AND ucast (wdt_wdie_mask w) \<noteq> 0
                   then upd_bus (\<lambda>b. update_interrupt_pending i (set_kind i (K_Wdt (w\<lparr>wdt_irq := True\<rparr>)) b)) m
                   else if wdt_wdtcsr w AND ucast (wdt_wde_mask w) \<noteq> 0
                   then cpu_reset Watchdog_Reset m else m)
          in (case kind_at (bus m) i of
                K_Wdt w \<Rightarrow> if wdt_wdtcsr w AND ucast (wdt_wde_mask w OR wdt_wdie_mask w) \<noteq> 0
                           then upd_bus (wdt_reset_watchdog i w) m else m
              | _ \<Rightarrow> m)
      | _ \<Rightarrow> m)"

definition run_callback :: "event_cb \<Rightarrow> machine \<Rightarrow> machine" where
  "run_callback cb m =
     (case cb of
        Watchdog_Callback i \<Rightarrow> wdt_complete_timeout i m
      | Eeprom_Master_Timeout i \<Rightarrow>
          (case kind_at (bus m) i of
             K_Eeprom e \<Rightarrow> upd_kind i (K_Eeprom (ee_on_master_timeout e)) m | _ \<Rightarrow> m)
      | Eeprom_Write_Complete i \<Rightarrow>
          (case kind_at (bus m) i of
             K_Eeprom e \<Rightarrow>
               if ee_write_cycles_left e > 0
               then upd_bus (\<lambda>b. update_interrupt_pending i
                      (set_kind i (K_Eeprom (ee_complete_write (e\<lparr>ee_write_cycles_left := 0\<rparr>))) b)) m
               else m
           | _ \<Rightarrow> m))"

definition event_due :: "u64 \<Rightarrow> machine \<Rightarrow> bool" where
  "event_due target m \<longleftrightarrow>
     (case front (scheduler (bus m)) of Some e \<Rightarrow> target_cycle e \<le> target | None \<Rightarrow> False)"

text \<open>One event: pop it, bring the ticking peripherals up to its cycle, run its callback.\<close>

definition set_current_cycle :: "u64 \<Rightarrow> bus \<Rightarrow> bus" where
  "set_current_cycle t b = b\<lparr>scheduler := (scheduler b)\<lparr>current_cycle := t\<rparr>\<rparr>"

definition process_event :: "machine \<Rightarrow> machine" where
  "process_event m =
     (case front (scheduler (bus m)) of
        None \<Rightarrow> m
      | Some e \<Rightarrow>
          let m = upd_bus (\<lambda>b. b\<lparr>scheduler := pop_front (scheduler b)\<rparr>) m;
              m = fold (\<lambda>i m. tick_peripheral_to (target_cycle e) (current_active_domains (bus m)) i m)
                    (active_ticking_peripherals (bus m)) m;
              m = upd_bus (set_current_cycle (target_cycle e)) m
          in run_callback (callback e) m)"

definition advance_to :: "u64 \<Rightarrow> machine \<Rightarrow> machine" where
  "advance_to target m =
     (case while_option (event_due target) process_event m of
        Some m \<Rightarrow> upd_bus (set_current_cycle target) m
      | None \<Rightarrow> m\<lparr>hung := True\<rparr>)"

definition gate_domains :: "u64 \<Rightarrow> u8 \<Rightarrow> bus \<Rightarrow> bus" where
  "gate_domains elapsed active_domains b =
     (if active_domains = 0xFF then b
      else b\<lparr>domain_gated_cycles :=
             fold (\<lambda>k f. if bit (NOT active_domains) k
                         then f(push_bit k 1 := f (push_bit k 1) + elapsed) else f)
               [0..<8] (domain_gated_cycles b)\<rparr>)"

definition tick_io_stall :: "u64 \<Rightarrow> bus \<Rightarrow> bus" where
  "tick_io_stall elapsed b =
     (if io_stall_cycles b > 0
      then if elapsed \<ge> ucast (io_stall_cycles b) then b\<lparr>io_stall_cycles := 0\<rparr>
           else b\<lparr>io_stall_cycles := io_stall_cycles b - ucast elapsed\<rparr>
      else b)"

definition tick_lpm_special :: "u64 \<Rightarrow> bus \<Rightarrow> bus" where
  "tick_lpm_special elapsed b =
     (if lpm_special_mode_timeout b > 0
      then if elapsed \<ge> ucast (lpm_special_mode_timeout b)
           then clear_spmcsr (sigrd_mask (device b) OR blbset_mask (device b))
                  (b\<lparr>lpm_special_mode_timeout := 0\<rparr>)
           else b\<lparr>lpm_special_mode_timeout := lpm_special_mode_timeout b - ucast elapsed\<rparr>
      else b)"

definition tick_spm :: "u64 \<Rightarrow> bus \<Rightarrow> bus" where
  "tick_spm elapsed b =
     (if spm_busy_cycles_left b > 0
      then if elapsed \<ge> ucast (spm_busy_cycles_left b)
           then upd_nvm (\<lambda>n. nvm_set_done (nvm_clear_command (nvm_set_busy False False n)))
                  (perform_deferred_nvm_operation (b\<lparr>spm_busy_cycles_left := 0\<rparr>))
           else b\<lparr>spm_busy_cycles_left := spm_busy_cycles_left b - ucast elapsed\<rparr>
      else b)"

definition tick_peripherals :: "u64 \<Rightarrow> u8 \<Rightarrow> machine \<Rightarrow> machine" where
  "tick_peripherals elapsed active_domains m =
     (if elapsed = 0 then m
      else let m = upd_bus (\<lambda>b. tick_lpm_special elapsed (tick_io_stall elapsed
                      (gate_domains elapsed active_domains b))) m;
               m = upd_bus (\<lambda>b. b\<lparr>current_active_domains := active_domains,
                                  bus_cpu_cycles := bus_cpu_cycles b + elapsed\<rparr>) m;
               target = current_cycle (scheduler (bus m)) + elapsed;
               m = fold (tick_peripheral_to target active_domains) (active_ticking_peripherals (bus m)) m;
               m = advance_to target m
           in upd_bus (tick_spm elapsed) m)"

section \<open>Data space\<close>

text \<open>The unified memory map of AVR8X parts; \<open>None\<close> when no window contains the address.\<close>

definition byte_at :: "'a::zero list \<Rightarrow> 'a \<Rightarrow> nat \<Rightarrow> 'a" where
  "byte_at xs dflt k = (if k < length xs then xs ! k else dflt)"

definition read_mapped :: "u16 \<Rightarrow> machine \<Rightarrow> (u8 \<times> machine) option" where
  "read_mapped address m =
     (let b = bus m; d = device b; offset = (\<lambda>r. unat (address - data_start r))
      in if in_mapped (mapped_flash d) address
         then let k = offset (mapped_flash d)
              in Some (if k div 2 < length (flash b)
                       then ucast (drop_bit (if odd k then 8 else 0) (flash b ! (k div 2))) else 0xFF, m)
         else if in_mapped (mapped_fuses d) address
         then Some (byte_at (fuses b) 0xFF (offset (mapped_fuses d)), m)
         else if in_mapped (mapped_eeprom d) address
         then (case eeprom_ptr b of
                 Some i \<Rightarrow> Some (periph_read i address m)
               | None \<Rightarrow> let k = offset (mapped_eeprom d)
                         in Some (if k < length (eeprom_storage b) then eeprom_storage b ! k
                                  else byte_at (eeprom_page_buffer b) 0xFF k, m))
         else if in_mapped (mapped_signatures d) address
         then Some (byte_at (signature d) 0xFF (offset (mapped_signatures d)), m)
         else if in_mapped (mapped_user_signatures d) address
         then Some (byte_at (user_row b) 0xFF (offset (mapped_user_signatures d)), m)
         else None)"

text \<open>A dispatched register read first catches its peripheral up.\<close>

definition mux_tick :: "nat \<Rightarrow> u64 \<Rightarrow> machine \<Rightarrow> machine" where
  "mux_tick k elapsed m = fold (\<lambda>i. periph_tick i elapsed) (mux_targets (managed_muxes (bus m) ! k)) m"

definition mux_read :: "nat \<Rightarrow> u16 \<Rightarrow> machine \<Rightarrow> u8 \<times> machine" where
  "mux_read k address m =
     fold (\<lambda>i (result, m). let (v, m) = periph_read i address m in (result OR v, m))
       (mux_targets (managed_muxes (bus m) ! k)) (0, m)"

definition mux_write :: "nat \<Rightarrow> u16 \<Rightarrow> u8 \<Rightarrow> machine \<Rightarrow> machine" where
  "mux_write k address v m =
     fold (\<lambda>i. periph_write i address v) (mux_targets (managed_muxes (bus m) ! k)) m"

definition catch_up_mux :: "nat \<Rightarrow> machine \<Rightarrow> machine" where
  "catch_up_mux k m =
     (let now = current_cycle (scheduler (bus m)); x = managed_muxes (bus m) ! k;
          start = mux_last_update_cycle x
      in if start < now
         then let m = upd_bus (\<lambda>b. b\<lparr>managed_muxes := (managed_muxes b)[k := x\<lparr>mux_last_update_cycle := now\<rparr>]\<rparr>) m
              in if current_active_domains (bus m) AND 0x02 \<noteq> 0 then mux_tick k (now - start) m else m
         else m)"

definition dispatch_read :: "dispatch_target \<Rightarrow> u16 \<Rightarrow> machine \<Rightarrow> u8 \<times> machine" where
  "dispatch_read t address m =
     (case t of
        Direct i \<Rightarrow>
          periph_read i address
            (tick_peripheral_to (current_cycle (scheduler (bus m))) (current_active_domains (bus m)) i m)
      | Muxed k \<Rightarrow> mux_read k address (catch_up_mux k m))"

definition dispatch_write :: "dispatch_target \<Rightarrow> u16 \<Rightarrow> u8 \<Rightarrow> machine \<Rightarrow> machine" where
  "dispatch_write t address v m =
     (case t of Direct i \<Rightarrow> periph_write i address v m | Muxed k \<Rightarrow> mux_write k address v m)"

definition sram_value :: "bus \<Rightarrow> u16 \<Rightarrow> u8" where
  "sram_value b address =
     (let v = data b ! unat address
      in if spmcsr_address (device b) \<noteq> 0 \<and> address = spmcsr_address (device b)
         then let v = (if lpm_special_mode_timeout b > 0 then last_spmcsr_val b else v);
                  v = (if spm_busy_cycles_left b > 0
                       then v OR (if spmen_mask (device b) \<noteq> 0 then spmen_mask (device b) else 0x01) else v)
              in if flash_rww_busy b then v OR 0x40 else v
         else v)"

definition read_external_memory :: "u16 \<Rightarrow> machine \<Rightarrow> u8 \<times> machine" where
  "read_external_memory address m =
     (case xmem_mem (bus m) of
        Some x \<Rightarrow> (read_external (device (bus m)) (cc_mcucr (control_regs m)) x address, m)
      | None \<Rightarrow>
          (case ebi_mem (bus m) of
             Some e \<Rightarrow>
               (case ebi_scan_read (ebi_cs_list e) (ebi_memory e) address of
                  (v, stall) \<Rightarrow>
                    (v, case stall of Some w \<Rightarrow> upd_bus (request_cpu_stall w) m | None \<Rightarrow> m))
           | None \<Rightarrow> (0xFF, m)))"

definition read_data :: "u16 \<Rightarrow> machine \<Rightarrow> u8 \<times> machine" where
  "read_data address m =
     (case read_mapped address m of
        Some r \<Rightarrow> r
      | None \<Rightarrow>
          (case dispatch_table (bus m) address of
             Some t \<Rightarrow> dispatch_read t address m
           | None \<Rightarrow>
               if unat address < length (data (bus m)) then (sram_value (bus m) address, m)
               else read_external_memory address m))"

text \<open>
  Writes to the windows of the unified memory map: \<open>Some b\<close> when the write stops there.
\<close>

definition write_mapped_flash :: "u16 \<Rightarrow> u8 \<Rightarrow> bus \<Rightarrow> bus option" where
  "write_mapped_flash address v b =
     (let d = device b; k = unat (address - data_start (mapped_flash d));
          page_offset = k div 2 mod unat (flash_page_size d)
      in if in_mapped (mapped_flash d) address \<and> page_offset < length (flash_page_buffer b)
         then let w = flash_page_buffer b ! page_offset;
                  w = (if odd k then (w AND 0x00FF) OR push_bit 8 (ucast v) else (w AND 0xFF00) OR ucast v)
              in Some (upd_nvm (nvm_set_address (ucast address))
                   (b\<lparr>flash_page_buffer := (flash_page_buffer b)[page_offset := w]\<rparr>))
         else None)"

definition write_mapped_eeprom :: "u16 \<Rightarrow> u8 \<Rightarrow> bus \<Rightarrow> bus option" where
  "write_mapped_eeprom address v b =
     (if in_mapped (mapped_eeprom (device b)) address
      then let b = request_cpu_stall 54400 b;
               k = unat (address - data_start (mapped_eeprom (device b)))
           in Some (if k < length (eeprom_page_buffer b)
                    then upd_nvm (nvm_set_address (ucast address))
                           (b\<lparr>eeprom_page_buffer := (eeprom_page_buffer b)[k := v],
                              eeprom_buffer_dirty := (eeprom_buffer_dirty b)[k := 1]\<rparr>)
                    else b)
      else None)"

definition write_mapped_user_row :: "u16 \<Rightarrow> u8 \<Rightarrow> bus \<Rightarrow> bus option" where
  "write_mapped_user_row address v b =
     (let k = unat (address - data_start (mapped_user_signatures (device b)))
      in if in_mapped (mapped_user_signatures (device b)) address \<and> k < length (user_row b)
         then Some (upd_nvm (nvm_set_address (ucast address)) (b\<lparr>user_row := (user_row b)[k := v]\<rparr>))
         else None)"

definition write_mapped :: "u16 \<Rightarrow> u8 \<Rightarrow> bus \<Rightarrow> bus option" where
  "write_mapped address v b =
     (case write_mapped_flash address v b of Some b \<Rightarrow> Some b
      | None \<Rightarrow> (case write_mapped_eeprom address v b of Some b \<Rightarrow> Some b
      | None \<Rightarrow> (case write_mapped_user_row address v b of Some b \<Rightarrow> Some b
      | None \<Rightarrow> if in_mapped (mapped_fuses (device b)) address then Some b else None)))"

definition is_prr_write :: "device \<Rightarrow> u16 \<Rightarrow> bool" where
  "is_prr_write d address \<longleftrightarrow>
     prr_address d \<noteq> 0 \<and> address = prr_address d
     \<or> prr0_address d \<noteq> 0 \<and> address = prr0_address d
     \<or> prr1_address d \<noteq> 0 \<and> address = prr1_address d"

definition write_sram :: "u16 \<Rightarrow> u8 \<Rightarrow> bus \<Rightarrow> bus" where
  "write_sram address v b =
     (let d = device b; b = b\<lparr>data := (data b)[unat address := v]\<rparr>
      in if spmcsr_address d \<noteq> 0 \<and> address = spmcsr_address d
         then let b = (if v AND 0x10 \<noteq> 0 then b\<lparr>flash_rww_busy := False\<rparr> else b);
                  special_mask = sigrd_mask d OR blbset_mask d
              in if special_mask \<noteq> 0 \<and> v AND special_mask \<noteq> 0
                 then b\<lparr>lpm_special_mode_timeout := 5, last_spmcsr_val := v\<rparr> else b
         else b)"

definition write_external_memory :: "u16 \<Rightarrow> u8 \<Rightarrow> machine \<Rightarrow> machine" where
  "write_external_memory address v m =
     (case xmem_mem (bus m) of
        Some x \<Rightarrow> upd_bus (\<lambda>b. b\<lparr>xmem_mem :=
                    Some (write_external (device b) (cc_mcucr (control_regs m)) address v x)\<rparr>) m
      | None \<Rightarrow>
          (case ebi_mem (bus m) of
             Some e \<Rightarrow>
               if ebi_cs0_contains e address
               then (case ebi_scan_write (ebi_cs_list e) (ebi_memory e) address v of
                       (mem, stall) \<Rightarrow>
                         upd_bus (\<lambda>b. (case stall of Some w \<Rightarrow> request_cpu_stall w b | None \<Rightarrow> b)
                                        \<lparr>ebi_mem := Some (e\<lparr>ebi_memory := mem\<rparr>)\<rparr>) m)
               else m
           | None \<Rightarrow> m))"

text \<open>
  A PRR write goes through \<open>sync\<close> and \<open>on_power_state_change\<close> of every peripheral; the
  ones modelled here inherit the empty default of both.
\<close>

definition write_data :: "u16 \<Rightarrow> u8 \<Rightarrow> machine \<Rightarrow> machine" where
  "write_data address v m =
     (case write_mapped address v (bus m) of
        Some b \<Rightarrow> m\<lparr>bus := b\<rparr>
      | None \<Rightarrow>
          if is_prr_write (device (bus m)) address
          then (case dispatch_table (bus m) address of
                  Some t \<Rightarrow> dispatch_write t address v m
                | None \<Rightarrow> if unat address < length (data (bus m))
                          then upd_bus (\<lambda>b. b\<lparr>data := (data b)[unat address := v]\<rparr>) m else m)
          else (case dispatch_table (bus m) address of
                  Some t \<Rightarrow> dispatch_write t address v m
                | None \<Rightarrow> if unat address < length (data (bus m)) then upd_bus (write_sram address v) m
                          else write_external_memory address v m))"

definition get_wait_states :: "machine \<Rightarrow> u16 \<Rightarrow> u8" where
  "get_wait_states m address =
     (if unat address < length (data (bus m)) then 0
      else case xmem_mem (bus m) of
             Some x \<Rightarrow> xmem_wait_states (device (bus m)) (cc_mcucr (control_regs m)) x address
           | None \<Rightarrow>
               (case ebi_mem (bus m) of
                  Some e \<Rightarrow> if ebi_cs0_contains e address then ebi_wait_states e else 0
                | None \<Rightarrow> 0))"

end
