(* ===== verification/Cpu.thy ===== *)
theory Cpu
  imports Machine
begin

text \<open>
  The parts of \<open>AvrCpu\<close> (\<open>include/vioavr/core/avr_cpu.hpp\<close>, \<open>src/core/avr_cpu.cpp\<close>)
  that every instruction shares: the clock, the data bus with its fast paths, the register
  pairs, the stack, the clock domains and wake-up latencies of the sleep modes, and the
  interrupt entry.
\<close>

section \<open>Clock domains and wake-up latency\<close>

definition active_clock_domains_slow :: "machine \<Rightarrow> u8" where
  "active_clock_domains_slow m =
     (case state m of
        Running \<Rightarrow> 0xFF
      | Sleeping \<Rightarrow>
          let mode = (case the_slp m of
                        Some c \<Rightarrow> (if slp_sleep_mode c = 0 then Idle
                                  else if slp_sleep_mode c = 1 then Standby else Power_Down)
                      | None \<Rightarrow> cc_sleep_mode (control_regs m));
              domains = (0x10::u8)
          in (case mode of
                Idle \<Rightarrow> domains OR (0x02 OR 0x04 OR 0x08)
              | Adc_Noise_Reduction \<Rightarrow> domains OR (0x04 OR 0x02 OR 0x08)
              | Power_Save \<Rightarrow> domains OR 0x08
              | Extended_Standby \<Rightarrow> domains OR 0x08
              | _ \<Rightarrow> domains)
      | _ \<Rightarrow> 0)"

definition active_clock_domains :: "machine \<Rightarrow> u8" where
  "active_clock_domains m = (if state m = Running then 0xFF else active_clock_domains_slow m)"

definition cycles_per_second :: "machine \<Rightarrow> u64" where
  "cycles_per_second m =
     (case the_clk m of
        Some c \<Rightarrow> ucast (clk_effective_freq_hz c)
      | None \<Rightarrow> (case the_xclk m of Some c \<Rightarrow> ucast (xclk_effective_freq_hz c)
                 | None \<Rightarrow> effective_frequency (control_regs m)))"

definition classic_oscillator_startup_cycles :: "machine \<Rightarrow> u32" where
  "classic_oscillator_startup_cycles m =
     (let low = device_fuses (device (bus m)) ! 0; cksel = low AND 0x0F
      in if cksel \<le> 0x03 then 6
         else if cksel \<le> 0x07 then (if low AND 0x01 \<noteq> 0 then 32768 else 1024)
         else let key = push_bit 2 (low AND 0x01) OR (drop_bit 4 low AND 0x03)
              in if key \<le> 1 then 258 else if key \<le> 4 then 1024 else 16384)"

definition csut_table :: "u32 list" where
  "csut_table = [1024, 16384, 32768, 65536]"

definition avr8x_oscillator_startup_cycles :: "machine \<Rightarrow> u32" where
  "avr8x_oscillator_startup_cycles m =
     (case the_xclk m of
        Some c \<Rightarrow> (case xclk_clock_source c of Xosc \<Rightarrow> 16384 | Pll \<Rightarrow> 1024 | _ \<Rightarrow> 6)
      | None \<Rightarrow>
          (case the_clk m of
             Some c \<Rightarrow> (case clk_clock_source c of
                          Extclk \<Rightarrow> 2
                        | Xosc32k \<Rightarrow> csut_table ! unat (clk_xosc32kctrla c AND 0x03)
                        | _ \<Rightarrow> 6)
           | None \<Rightarrow> 6))"

definition get_sleep_wake_latency :: "machine \<Rightarrow> u32" where
  "get_sleep_wake_latency m =
     (case the_slp m of
        Some c \<Rightarrow>
          let smode = slp_sleep_mode c
          in if smode = 0 then 2
             else if xmega_clk_ctrl_ptr m \<noteq> None \<and> (smode = 6 \<or> smode = 7) then 2
             else 2 + avr8x_oscillator_startup_cycles m
      | None \<Rightarrow>
          (case cc_sleep_mode (control_regs m) of
             Idle \<Rightarrow> 0 | Adc_Noise_Reduction \<Rightarrow> 0
           | Power_Down \<Rightarrow> classic_oscillator_startup_cycles m
           | Power_Save \<Rightarrow> classic_oscillator_startup_cycles m
           | Standby \<Rightarrow> 2 | Extended_Standby \<Rightarrow> 2
           | _ \<Rightarrow> 4))"

section \<open>The clock\<close>

text \<open>
  \<open>publish_pending_pin_changes\<close> drains \<open>consume_pin_change\<close>; no peripheral modelled here
  reports a change, so draining only clears the flag.
\<close>

definition publish_pending_pin_changes :: "machine \<Rightarrow> machine" where
  "publish_pending_pin_changes m =
     (if sync_engine_ptr m = None then m
      else upd_bus (\<lambda>b. b\<lparr>has_pending_pin_changes := False\<rparr>) m)"

definition refresh_interrupt_pending :: "machine \<Rightarrow> machine" where
  "refresh_interrupt_pending m =
     (let domains = active_clock_domains m
      in if interrupts_dirty (bus m) \<or> last_domains m \<noteq> domains
         then upd_bus (\<lambda>b. b\<lparr>interrupts_dirty := False\<rparr>)
                (m\<lparr>last_domains := domains,
                   interrupt_pending := pending_interrupt_request (bus m) domains \<noteq> None\<rparr>)
         else m)"

definition advance_cycles_in :: "u64 \<Rightarrow> u8 \<Rightarrow> machine \<Rightarrow> machine" where
  "advance_cycles_in delta domains m =
     (let m = m\<lparr>cycles := cycles m + delta\<rparr>;
          m = tick_peripherals delta domains m;
          m = (if has_pending_pin_changes (bus m) then publish_pending_pin_changes m else m);
          m = (if spm_lock_timeout m > 0
               then m\<lparr>spm_lock_timeout := (if delta \<ge> ucast (spm_lock_timeout m) then 0
                                          else ucast (ucast (spm_lock_timeout m) - delta))\<rparr>
               else m);
          m = m\<lparr>sync_engine_ptr := map_option (sync_on_cycles_advanced (cycles m)) (sync_engine_ptr m)\<rparr>
      in refresh_interrupt_pending m)"

definition advance_cycles :: "u64 \<Rightarrow> machine \<Rightarrow> machine" where
  "advance_cycles delta m = advance_cycles_in delta (active_clock_domains m) m"

definition synchronize_if_needed :: "machine \<Rightarrow> machine" where
  "synchronize_if_needed m =
     (case sync_engine_ptr m of
        None \<Rightarrow> m
      | Some e \<Rightarrow>
          if sync_should_pause e (cycles m)
          then case sync_wait_until_resumed e of
                 Some e \<Rightarrow> m\<lparr>sync_engine_ptr := Some e, state := Running\<rparr>
               | None \<Rightarrow> m\<lparr>state := Paused, hung := True\<rparr>
          else m)"

definition resume :: "machine \<Rightarrow> machine" where
  "resume m =
     (if state m = Paused
      then m\<lparr>state := (if cc_sleeping (control_regs m) then Sleeping else Running)\<rparr> else m)"

definition set_sync_engine :: "sync_engine option \<Rightarrow> machine \<Rightarrow> machine" where
  "set_sync_engine e m =
     (let m = m\<lparr>sync_engine_ptr := e\<rparr>
      in if e \<noteq> None then m\<lparr>interrupt_check_interval := 1\<rparr> else m)"

section \<open>The data bus\<close>

definition read_data_bus :: "u16 \<Rightarrow> machine \<Rightarrow> u8 \<times> machine" where
  "read_data_bus address m =
     (let d = device (bus m)
      in if range_contains (register_file_range d) address
         then (gpr m (ucast (address - range_begin (register_file_range d))), m)
         else if range_contains (sram_range d) address then (data (bus m) ! unat address, m)
         else let ws = get_wait_states m address;
                  m = (if ws > 0 then advance_cycles (ucast ws) m else m)
              in read_data address m)"

definition write_data_bus :: "u16 \<Rightarrow> u8 \<Rightarrow> machine \<Rightarrow> machine" where
  "write_data_bus address v m =
     (let d = device (bus m)
      in if range_contains (register_file_range d) address
         then m\<lparr>gpr := (gpr m)(ucast (address - range_begin (register_file_range d)) := v)\<rparr>
         else if range_contains (sram_range d) address
         then upd_bus (\<lambda>b. b\<lparr>data := (data b)[unat address := v]\<rparr>) m
         else let ws = get_wait_states m address;
                  m = (if ws > 0 then advance_cycles (ucast ws) m else m);
                  m = (if address = spmcsr_address (device (bus m)) \<and> v AND 0x01 \<noteq> 0
                       then m\<lparr>spm_lock_timeout := 4\<rparr> else m)
              in write_data address v m)"

section \<open>Registers and the stack\<close>

definition read_register_pair :: "u8 \<Rightarrow> machine \<Rightarrow> u16" where
  "read_register_pair low m = ucast (gpr m low) OR push_bit 8 (ucast (gpr m (low + 1)))"

definition write_register_pair :: "u8 \<Rightarrow> u16 \<Rightarrow> machine \<Rightarrow> machine" where
  "write_register_pair low v m =
     write_register (low + 1) (ucast (drop_bit 8 v AND 0xFF)) (write_register low (ucast (v AND 0xFF)) m)"

definition x_pointer :: "machine \<Rightarrow> u16" where "x_pointer m = read_register_pair 26 m"
definition y_pointer :: "machine \<Rightarrow> u16" where "y_pointer m = read_register_pair 28 m"
definition z_pointer :: "machine \<Rightarrow> u16" where "z_pointer m = read_register_pair 30 m"

definition push_byte :: "u8 \<Rightarrow> machine \<Rightarrow> machine" where
  "push_byte v m = (let m = write_data_bus (stack_pointer m) v m in m\<lparr>stack_pointer := stack_pointer m - 1\<rparr>)"

definition pop_byte :: "machine \<Rightarrow> u8 \<times> machine" where
  "pop_byte m =
     (let m = m\<lparr>stack_pointer := stack_pointer m + 1\<rparr> in read_data_bus (stack_pointer m) m)"

definition push_word :: "u16 \<Rightarrow> machine \<Rightarrow> machine" where
  "push_word v m = push_byte (ucast (drop_bit 8 v AND 0xFF)) (push_byte (ucast (v AND 0xFF)) m)"

definition pop_word :: "machine \<Rightarrow> u16 \<times> machine" where
  "pop_word m = (let (hi, m) = pop_byte m; (lo, m) = pop_byte m in (push_bit 8 (ucast hi) OR ucast lo, m))"

definition push_pc :: "u32 \<Rightarrow> machine \<Rightarrow> machine" where
  "push_pc a m =
     (let m = push_byte (ucast (a AND 0xFF)) m;
          m = push_byte (ucast (drop_bit 8 a AND 0xFF)) m
      in if flash_words (device (bus m)) > 65536
         then push_byte (ucast (drop_bit 16 a AND 0xFF)) m else m)"

definition pop_pc :: "machine \<Rightarrow> u32 \<times> machine" where
  "pop_pc m =
     (if flash_words (device (bus m)) > 65536
      then let (hi, m) = pop_byte m; (mid, m) = pop_byte m; (lo, m) = pop_byte m
           in (push_bit 16 (ucast hi) OR push_bit 8 (ucast mid) OR ucast lo, m)
      else let (hi, m) = pop_byte m; (lo, m) = pop_byte m
           in (push_bit 8 (ucast hi) OR ucast lo, m))"

section \<open>Interrupt entry\<close>

definition interrupt_vector_word_address :: "bus \<Rightarrow> u8 \<Rightarrow> u32" where
  "interrupt_vector_word_address b v =
     (let vec_size = (case the_cpu_int b of
                        Some c \<Rightarrow> if compact_vector_table c then 2 else interrupt_vector_size (device b)
                      | None \<Rightarrow> interrupt_vector_size (device b));
          base_addr = (case the_cpu_int b of
                         Some c \<Rightarrow> if ivsel c then boot_start_address (device b) else 0
                       | None \<Rightarrow> 0)
      in base_addr + ucast v * ucast (vec_size div 2))"

definition cpu_int_enter :: "u8 \<Rightarrow> bus \<Rightarrow> bus" where
  "cpu_int_enter v =
     upd_cpu_int (\<lambda>c. if is_lvl1_vector c v then set_executing_lvl1 True c else set_executing_lvl0 True c)"

text \<open>One cycle of the vectoring sequence that stores a byte of the return address.\<close>

definition vector_push :: "u8 \<Rightarrow> machine \<Rightarrow> machine" where
  "vector_push v m = advance_cycles 1 (push_byte v m)"

definition vector_entry :: "u32 \<Rightarrow> machine \<Rightarrow> machine" where
  "vector_entry old_pc m =
     (if flash_words (device (bus m)) > 65536
      then advance_cycles 1 (vector_push (ucast (drop_bit 16 old_pc AND 0xFF))
             (vector_push (ucast (drop_bit 8 old_pc AND 0xFF))
               (vector_push (ucast (old_pc AND 0xFF)) (advance_cycles 1 m))))
      else advance_cycles 1 (vector_push (ucast (drop_bit 8 old_pc AND 0xFF))
             (vector_push (ucast (old_pc AND 0xFF)) (advance_cycles 1 m))))"

definition service_interrupt_if_needed :: "machine \<Rightarrow> bool \<times> machine" where
  "service_interrupt_if_needed m =
     (let m = refresh_interrupt_pending m
      in if \<not> interrupt_pending m \<or> \<not> flag Interrupt (sreg m) then (False, m)
         else case consume_interrupt_request (active_clock_domains m) (bus m) of
                (None, b) \<Rightarrow> (False, m\<lparr>bus := b, interrupt_pending := False\<rparr>)
              | (Some r, b) \<Rightarrow>
                  let m = trace (Trace_Interrupt (vector_index r)) (m\<lparr>bus := b\<rparr>);
                      old_pc = program_counter m;
                      m = m\<lparr>sreg := set_flag_bit Interrupt False (sreg m),
                            program_counter := interrupt_vector_word_address (bus m) (vector_index r),
                            interrupt_pending := False, state := Running,
                            interrupt_depth := interrupt_depth m + 1\<rparr>;
                      m = upd_bus (cpu_int_enter (vector_index r)) m
                  in (True, vector_entry old_pc m))"

end
