(* ===== verification/Hex.thy ===== *)
theory Hex
  imports Device
begin

text \<open>
  \<open>HexImageLoader\<close> (\<open>src/core/hex_image.cpp\<close>): the Intel HEX reader.  Every exception
  the source throws is a constructor of \<open>hex_error\<close>; the last one marks a copy that would
  leave the flash buffer, which the source does not detect.
\<close>

datatype hex_error =
    Truncated_Byte | Invalid_Byte | Data_After_Eof | Missing_Prefix | Invalid_Length
  | Count_Mismatch | Checksum_Mismatch | Exceeds_Flash | Invalid_Eof | Invalid_Linear
  | Invalid_Segment | Unsupported_Type | Missing_Eof | Undefined_Write

definition bind_err :: "'e + 'a \<Rightarrow> ('a \<Rightarrow> 'e + 'b) \<Rightarrow> 'e + 'b" where
  "bind_err x f = (case x of Inl e \<Rightarrow> Inl e | Inr a \<Rightarrow> f a)"

definition guard_err :: "bool \<Rightarrow> 'e \<Rightarrow> 'e + 'a \<Rightarrow> 'e + 'a" where
  "guard_err bad e x = (if bad then Inl e else x)"

section \<open>Text\<close>

definition hex_digit :: "char \<Rightarrow> nat option" where
  "hex_digit c =
     (let n = (of_char c :: nat)
      in if 48 \<le> n \<and> n \<le> 57 then Some (n - 48)
         else if 65 \<le> n \<and> n \<le> 70 then Some (n - 55)
         else if 97 \<le> n \<and> n \<le> 102 then Some (n - 87)
         else None)"

definition parse_hex_byte :: "string \<Rightarrow> nat \<Rightarrow> hex_error + u8" where
  "parse_hex_byte txt offset =
     (if offset + 2 > length txt then Inl Truncated_Byte
      else case (hex_digit (txt ! offset), hex_digit (txt ! (offset + 1))) of
             (Some h, Some l) \<Rightarrow> Inr (of_nat (16 * h + l))
           | _ \<Rightarrow> Inl Invalid_Byte)"

definition is_space :: "char \<Rightarrow> bool" where
  "is_space c \<longleftrightarrow> (let n = (of_char c :: nat) in n = 32 \<or> 9 \<le> n \<and> n \<le> 13)"

definition trim_line :: "string \<Rightarrow> string" where
  "trim_line l = rev (dropWhile is_space (rev (dropWhile is_space l)))"

text \<open>The pieces between newlines, the last one included even when it is empty.\<close>

fun split_lines :: "string \<Rightarrow> string list" where
  "split_lines [] = [[]]"
| "split_lines (c # cs) =
     (if c = CHR 0x0A then [] # split_lines cs
      else case split_lines cs of l # ls \<Rightarrow> (c # l) # ls | [] \<Rightarrow> [[c]])"

section \<open>Records\<close>

record hex_loader =
  flash_bytes :: "u8 list"
  eof_seen :: bool
  upper_linear_base :: u32
  image_end :: u32

record hex_record =
  byte_count :: u8
  rec_address :: u16
  record_type :: u8
  record_bytes :: "u8 list"

fun parse_bytes :: "string \<Rightarrow> nat \<Rightarrow> nat \<Rightarrow> hex_error + u8 list" where
  "parse_bytes txt offset 0 = Inr []"
| "parse_bytes txt offset (Suc n) =
     bind_err (parse_hex_byte txt offset) (\<lambda>v.
       bind_err (parse_bytes txt (offset + 2) n) (\<lambda>vs. Inr (v # vs)))"

definition record_sum :: "u8 \<Rightarrow> u16 \<Rightarrow> u8 \<Rightarrow> u8 list \<Rightarrow> u32" where
  "record_sum c a t bs =
     foldl (\<lambda>acc v. acc + ucast v)
       (ucast c + ucast (ucast (drop_bit 8 a) :: u8) + ucast (ucast (a AND 0xFF) :: u8) + ucast t) bs"

definition computed_checksum :: "u32 \<Rightarrow> u8" where
  "computed_checksum acc = ucast ((NOT acc + 1) AND 0xFF)"

text \<open>A line without its colon, up to the comparison of the checksums.\<close>

definition parse_record :: "string \<Rightarrow> hex_error + hex_record" where
  "parse_record l =
     guard_err (length l < 10 \<or> odd (length l)) Invalid_Length
       (bind_err (parse_hex_byte l 0) (\<lambda>c.
        bind_err (parse_hex_byte l 2) (\<lambda>hi.
        bind_err (parse_hex_byte l 4) (\<lambda>lo.
        bind_err (parse_hex_byte l 6) (\<lambda>t.
          let a = push_bit 8 (ucast hi) OR ucast lo; expected_length = 10 + unat c * 2
          in guard_err (length l \<noteq> expected_length) Count_Mismatch
               (bind_err (parse_bytes l 8 (unat c)) (\<lambda>bs.
                bind_err (parse_hex_byte l (expected_length - 2)) (\<lambda>checksum.
                  guard_err (checksum \<noteq> computed_checksum (record_sum c a t bs)) Checksum_Mismatch
                    (Inr \<lparr>byte_count = c, rec_address = a, record_type = t, record_bytes = bs\<rparr>)))))))))"

definition copy_at :: "nat \<Rightarrow> u8 list \<Rightarrow> u8 list \<Rightarrow> u8 list" where
  "copy_at k bs xs = take k xs @ bs @ drop (k + length bs) xs"

definition apply_record :: "hex_record \<Rightarrow> hex_loader \<Rightarrow> hex_error + hex_loader" where
  "apply_record r s =
     (let c = byte_count r; a = rec_address r; bs = record_bytes r
      in if record_type r = 0x00
         then let absolute_address = upper_linear_base s + ucast a;
                  record_end = absolute_address + ucast c
              in guard_err (unat record_end > length (flash_bytes s)) Exceeds_Flash
                   (guard_err (unat absolute_address + length bs > length (flash_bytes s)) Undefined_Write
                     (Inr (s\<lparr>flash_bytes := copy_at (unat absolute_address) bs (flash_bytes s),
                             image_end := max (image_end s) record_end\<rparr>)))
         else if record_type r = 0x01
         then guard_err (c \<noteq> 0 \<or> a \<noteq> 0) Invalid_Eof (Inr (s\<lparr>eof_seen := True\<rparr>))
         else if record_type r = 0x04
         then guard_err (c \<noteq> 2 \<or> a \<noteq> 0) Invalid_Linear
                (Inr (s\<lparr>upper_linear_base :=
                         push_bit 16 (push_bit 8 (ucast (bs ! 0)) OR ucast (bs ! 1))\<rparr>))
         else if record_type r = 0x02
         then guard_err (c \<noteq> 2 \<or> a \<noteq> 0) Invalid_Segment
                (Inr (s\<lparr>upper_linear_base :=
                         push_bit 4 (push_bit 8 (ucast (bs ! 0)) OR ucast (bs ! 1))\<rparr>))
         else if record_type r = 0x03 \<or> record_type r = 0x05 then Inr s
         else Inl Unsupported_Type)"

definition load_line :: "string \<Rightarrow> hex_loader \<Rightarrow> hex_error + hex_loader" where
  "load_line raw s =
     (case trim_line raw of
        [] \<Rightarrow> Inr s
      | ch # l \<Rightarrow>
          guard_err (eof_seen s) Data_After_Eof
            (guard_err (ch \<noteq> CHR '':'') Missing_Prefix
              (bind_err (parse_record l) (\<lambda>r. apply_record r s))))"

fun load_lines :: "string list \<Rightarrow> hex_loader \<Rightarrow> hex_error + hex_loader" where
  "load_lines [] s = Inr s"
| "load_lines (l # ls) s = bind_err (load_line l s) (load_lines ls)"

fun bytes_to_words :: "u8 list \<Rightarrow> u16 list" where
  "bytes_to_words [] = []"
| "bytes_to_words [low] = [ucast low OR push_bit 8 0]"
| "bytes_to_words (low # high # bs) = (ucast low OR push_bit 8 (ucast high)) # bytes_to_words bs"

record hex_image =
  image_words :: "u16 list"
  entry_word :: u32

definition empty_loader :: "device \<Rightarrow> hex_loader" where
  "empty_loader d = \<lparr>flash_bytes = replicate (unat (flash_words d * 2)) 0xFF, eof_seen = False,
     upper_linear_base = 0, image_end = 0\<rparr>"

definition load_text :: "string \<Rightarrow> device \<Rightarrow> hex_error + hex_image" where
  "load_text txt d =
     bind_err (load_lines (split_lines txt) (empty_loader d)) (\<lambda>s.
       guard_err (\<not> eof_seen s) Missing_Eof
         (Inr \<lparr>image_words = bytes_to_words (take (unat (image_end s)) (flash_bytes s)), entry_word = 0\<rparr>))"

end
