(* ===== verification/Construct.thy ===== *)
theory Construct
  imports Cpu Hex
begin

text \<open>
  How the machine is put together: the constructors of \<open>MemoryBus\<close>, \<open>CpuControl\<close> and
  \<open>AvrCpu\<close>, \<open>MemoryBus::attach_peripheral\<close> with the multiplexers it creates for
  addresses two peripherals share, the lists of ticking peripherals, and the loading of a
  program image.  A peripheral is given by its name, its state and its mapped ranges.
\<close>

section \<open>MemoryBus\<close>

definition memory_bus_fields :: "device \<Rightarrow> bus" where
  "memory_bus_fields d =
     (let page_bytes = (if nvm_ctrl_count d > 0
            then (if eeprom_bytes d > 0 then unat (eeprom_bytes d) else 32) else 0)
      in \<lparr>device = d,
          flash = replicate (unat (flash_words d)) 0xFFFF,
          data = replicate (unat (data_end_address d) + 1) 0,
          flash_rww_busy = False, has_pending_pin_changes = False,
          nvm_ctrl_ptr = None, eeprom_ptr = None, cpu_int_ptr = None, xmem_mem = None, ebi_mem = None,
          pending_interrupt_mask = 0, all_peripherals_support_mask = True, mask_support_bits = 0,
          peripherals = [], ticking_peripherals = [], active_ticking_peripherals = [],
          dispatch_table = (\<lambda>_. None), managed_muxes = [],
          loaded_program_words = 0, reset_word_address = 0,
          flash_page_buffer = replicate (unat (flash_page_size d)) 0xFFFF,
          eeprom_page_buffer = replicate page_bytes 0xFF,
          eeprom_buffer_dirty = replicate page_bytes 0,
          eeprom_storage =
            (if mapped_size (mapped_eeprom d) > 0
             then replicate (unat (max (ucast (eeprom_bytes d)) (ucast (mapped_size (mapped_eeprom d)) :: u32))) 0xFF
             else []),
          user_row = replicate (unat (mapped_size (mapped_user_signatures d))) 0xFF,
          fuses = replicate 16 0, lockbit = 0xFF,
          spm_busy_cycles_left = 0, io_stall_cycles = 0, spm_blocks_cpu = True,
          spm_command = 0, spm_address = 0, spm_data = 0,
          lpm_special_mode_timeout = 0, last_spmcsr_val = 0, flash_wait_states = 0,
          bus_cpu_cycles = 0, domain_gated_cycles = (\<lambda>_. 0), in_rmw = False, interrupts_dirty = True,
          current_active_domains = 0xFF, last_catch_up_cycle = 0,
          scheduler = \<lparr>events = [], current_cycle = 0\<rparr>\<rparr>)"

text \<open>The constructor ends with \<open>reset()\<close>, which finds no peripherals yet.\<close>

definition memory_bus_init :: "device \<Rightarrow> bus" where
  "memory_bus_init d =
     (reset_bus_state (memory_bus_fields d))\<lparr>interrupts_dirty := True, last_catch_up_cycle := 0\<rparr>"

definition wants_tick :: "periph_kind \<Rightarrow> bool" where
  "wants_tick k =
     (case k of K_Control \<Rightarrow> False | K_Register_File \<Rightarrow> False | K_Wdt _ \<Rightarrow> False | K_Eeprom _ \<Rightarrow> False | _ \<Rightarrow> True)"

definition supports_interrupt_mask :: "periph_kind \<Rightarrow> bool" where
  "supports_interrupt_mask k =
     (case k of K_Control \<Rightarrow> True | K_Register_File \<Rightarrow> True | K_Wdt _ \<Rightarrow> True | K_Eeprom _ \<Rightarrow> True | _ \<Rightarrow> False)"

text \<open>One iteration of the mapping loop of \<open>attach_peripheral\<close>.\<close>

definition map_address :: "nat \<Rightarrow> u16 \<Rightarrow> bus \<Rightarrow> bus" where
  "map_address i address b =
     (case dispatch_table b address of
        None \<Rightarrow> b\<lparr>dispatch_table := (dispatch_table b)(address \<mapsto> Direct i)\<rparr>
      | Some (Direct j) \<Rightarrow>
          if j = i then b
          else b\<lparr>dispatch_table := (dispatch_table b)(address \<mapsto> Muxed (length (managed_muxes b))),
                 managed_muxes := managed_muxes b @ [\<lparr>mux_last_update_cycle = 0, mux_targets = [j, i]\<rparr>]\<rparr>
      | Some (Muxed k) \<Rightarrow>
          let x = managed_muxes b ! k
          in b\<lparr>managed_muxes := (managed_muxes b)[k := x\<lparr>mux_targets := mux_targets x @ [i]\<rparr>]\<rparr>)"

definition map_range :: "nat \<Rightarrow> address_range \<Rightarrow> bus \<Rightarrow> bus" where
  "map_range i r b =
     fold (\<lambda>a. map_address i (of_nat a)) [unat (range_begin r)..<Suc (unat (range_end r))] b"

definition attach_peripheral :: "string \<Rightarrow> periph_kind \<Rightarrow> address_range list \<Rightarrow> bus \<Rightarrow> bus" where
  "attach_peripheral name kind ranges b =
     (let i = length (peripherals b);
          b = b\<lparr>peripherals := peripherals b @
                  [\<lparr>p_kind = kind, p_last_update_cycle = 0, p_interrupt_pending = False\<rparr>]\<rparr>;
          b = (if supports_interrupt_mask kind
               then b\<lparr>mask_support_bits := mask_support_bits b OR push_bit (unat (of_nat i :: u8)) 1\<rparr>
               else b\<lparr>all_peripherals_support_mask := False\<rparr>);
          b = (if wants_tick kind
               then b\<lparr>ticking_peripherals := ticking_peripherals b @ [i],
                      active_ticking_peripherals := active_ticking_peripherals b @ [i]\<rparr>
               else b);
          b = (if name = ''NVMCTRL'' then b\<lparr>nvm_ctrl_ptr := Some i\<rparr>
               else if name = ''EEPROM'' then b\<lparr>eeprom_ptr := Some i\<rparr>
               else if name = ''CPUINT'' then b\<lparr>cpu_int_ptr := Some i\<rparr>
               else b)
      in fold (map_range i) ranges b)"

definition register_ticking_peripheral :: "nat \<Rightarrow> bus \<Rightarrow> bus" where
  "register_ticking_peripheral i b =
     b\<lparr>ticking_peripherals :=
         (if i \<in> set (ticking_peripherals b) then ticking_peripherals b else ticking_peripherals b @ [i]),
       active_ticking_peripherals :=
         (if i \<in> set (active_ticking_peripherals b) then active_ticking_peripherals b
          else active_ticking_peripherals b @ [i])\<rparr>"

definition set_peripheral_active :: "nat \<Rightarrow> bool \<Rightarrow> machine \<Rightarrow> machine" where
  "set_peripheral_active i active m =
     (if \<not> wants_tick (kind_at (bus m) i) then m
      else if active = (i \<in> set (active_ticking_peripherals (bus m))) then m
      else let current = current_cycle (scheduler (bus m));
               start = p_last_update_cycle (peripherals (bus m) ! i)
           in if active
              then upd_bus (\<lambda>b. (set_last_update i current b)
                     \<lparr>active_ticking_peripherals := active_ticking_peripherals b @ [i]\<rparr>) m
              else let m = (if start < current
                            then let m = upd_bus (set_last_update i current) m;
                                     domain_bit = clock_domain (kind_at (bus m) i)
                                 in if domain_bit = 0 \<or> current_active_domains (bus m) AND domain_bit \<noteq> 0
                                    then periph_tick i (current - start) m else m
                            else m)
                   in upd_bus (\<lambda>b. b\<lparr>active_ticking_peripherals := remove1 i (active_ticking_peripherals b)\<rparr>) m)"

definition load_image :: "hex_image \<Rightarrow> bus \<Rightarrow> bus" where
  "load_image img b = (load_flash (image_words img) b)\<lparr>reset_word_address := entry_word img\<rparr>"

section \<open>CpuControl\<close>

definition one_address :: "u16 \<Rightarrow> address_range list" where
  "one_address a = (if a \<noteq> 0 then [\<lparr>range_begin = a, range_end = a\<rparr>] else [])"

text \<open>MCUCR is left out when a range before it covers it.\<close>

definition control_ranges :: "device \<Rightarrow> address_range list" where
  "control_ranges d =
     (let rs = \<lparr>range_begin = spl_address d, range_end = sreg_address d\<rparr> # one_address (smcr_address d);
          rs = (if \<exists>r\<in>set rs. range_contains r (mcucr_address d) then rs
                else rs @ one_address (mcucr_address d))
      in rs @ one_address (mcusr_address d) @ one_address (rampz_address d) @ one_address (eind_address d)
         @ one_address (ccp_address d) @ one_address (prr_address d) @ one_address (prr0_address d)
         @ one_address (prr1_address d) @ one_address (clkpr_address d) @ one_address (osccal_address d))"

definition cpu_control_init :: "device \<Rightarrow> cpu_control" where
  "cpu_control_init d =
     \<lparr>cc_smcr = 0, cc_mcusr = 0, cc_mcucr = 0, cc_prr = 0, cc_prr0 = 0, cc_prr1 = 0, cc_pllcsr = 0,
      cc_clkpr = 0, cc_osccal = 0x80, cc_ccp = 0, cc_ccp_expiry = 0, cc_clkpr_expiry = 0,
      cc_pll_lock_counter = 0, cc_sleep_mode = Idle, cc_sleep_enabled = False, cc_sleeping = False,
      cc_base_frequency_hz = cpu_frequency_hz d, cc_internal_rc_active = internal_rc_active d\<rparr>"

section \<open>AvrCpu\<close>

text \<open>The constructor remembers the last attached peripheral of each of six classes.\<close>

definition last_index :: "(periph_kind \<Rightarrow> bool) \<Rightarrow> bus \<Rightarrow> nat option" where
  "last_index p b =
     fold (\<lambda>i found. if p (kind_at b i) then Some i else found) [0..<length (peripherals b)] None"

definition avr_cpu_fields :: "bus \<Rightarrow> machine" where
  "avr_cpu_fields b =
     (let b = attach_peripheral ''CPU Control'' K_Control (control_ranges (device b)) b;
          b = attach_peripheral ''Register File'' K_Register_File [register_file_range (device b)] b
      in \<lparr>gpr = (\<lambda>_. 0), program_counter = 0, stack_pointer = 0, sreg = 0, rampz = 0, eind = 0,
          cycles = 0, instructions_executed = 0, sleep_cycles = 0,
          interrupt_pending = False, interrupt_depth = 0, interrupt_delay = 0, last_domains = 0,
          spm_lock_timeout = 0, state = Halted, reset_triggered = False, interrupt_check_interval = 64,
          control_regs = cpu_control_init (device b), trace_hook = None, trace_log = [],
          sync_engine_ptr = None,
          watchdog_timer_ptr = last_index (\<lambda>k. case k of K_Wdt _ \<Rightarrow> True | _ \<Rightarrow> False) b,
          wdt8x_ptr = last_index (\<lambda>k. case k of K_Wdt8x _ \<Rightarrow> True | _ \<Rightarrow> False) b,
          clk_ctrl_ptr = last_index (\<lambda>k. case k of K_Clk _ \<Rightarrow> True | _ \<Rightarrow> False) b,
          xmega_clk_ctrl_ptr = last_index (\<lambda>k. case k of K_Xclk _ \<Rightarrow> True | _ \<Rightarrow> False) b,
          slp_ctrl_ptr = last_index (\<lambda>k. case k of K_Slp _ \<Rightarrow> True | _ \<Rightarrow> False) b,
          rst_ctrl_ptr = last_index (\<lambda>k. case k of K_Rst _ \<Rightarrow> True | _ \<Rightarrow> False) b,
          hung = False, bus = b\<rparr>)"

definition avr_cpu_init :: "bus \<Rightarrow> machine" where
  "avr_cpu_init b = cpu_reset Power_On (avr_cpu_fields b)"

section \<open>A small machine\<close>

text \<open>
  The concrete input of the examples: 64 words of flash, 64 bytes of SRAM at 0x100, no
  peripherals but the CPU's own, and a given program.
\<close>

definition sample_device :: device where
  "sample_device = default_device\<lparr>flash_words := 64, sram_bytes := 64, interrupt_vector_count := 4,
     boot_start_address := 32\<rparr>"

definition sample_machine :: "u16 list \<Rightarrow> machine" where
  "sample_machine prog = avr_cpu_init (load_flash prog (memory_bus_init sample_device))"

end
