(* ===== verification/Exec.thy ===== *)
theory Exec
  imports Cpu
begin

text \<open>
  The instruction handlers \<open>AvrCpu::execute_*\<close> of \<open>src/core/avr_cpu.cpp\<close> that work on
  registers, flags and the program counter, with the decoders of their operands.  A
  handler ends by setting the program counter and charging its cycles; \<open>retire\<close> is that
  pair of statements.
\<close>

record decoded_instruction =
  words :: "u16 \<times> u16"
  opcode :: u16
  word_address :: u32
  word_size :: u8

section \<open>Operand decoders\<close>

definition classify_word_size :: "u16 \<Rightarrow> u8" where
  "classify_word_size opc =
     (if opc AND 0xFE0E = 0x940C then 2
      else if opc AND 0xFE0E = 0x940E then 2
      else if opc AND 0xFE0F = 0x9000 then 2
      else if opc AND 0xFE0F = 0x9200 then 2
      else 1)"

definition decode_destination_register :: "u16 \<Rightarrow> u8" where
  "decode_destination_register opc = ucast (drop_bit 4 opc AND 0x1F)"

definition decode_source_register :: "u16 \<Rightarrow> u8" where
  "decode_source_register opc = ucast ((opc AND 0x0F) OR (drop_bit 5 opc AND 0x10))"

definition decode_upper_register :: "u16 \<Rightarrow> u8" where
  "decode_upper_register opc = ucast (16 + (drop_bit 4 opc AND 0x0F))"

definition decode_immediate :: "u16 \<Rightarrow> u8" where
  "decode_immediate opc = ucast ((drop_bit 4 opc AND 0xF0) OR (opc AND 0x0F))"

definition decode_relative_offset :: "u16 \<Rightarrow> nat \<Rightarrow> int" where
  "decode_relative_offset opc width_bits =
     (let mask = push_bit width_bits 1 - 1;
          displacement = uint (drop_bit 3 opc) AND mask;
          sign_bit = push_bit (width_bits - 1) 1
      in if displacement AND sign_bit \<noteq> 0 then displacement - push_bit width_bits 1 else displacement)"

definition decode_sreg_bit :: "u16 \<Rightarrow> sreg_flag" where
  "decode_sreg_bit opc = flag_of_index (drop_bit 4 opc AND 0x07)"

definition decode_branch_sreg_bit :: "u16 \<Rightarrow> sreg_flag" where
  "decode_branch_sreg_bit opc = flag_of_index (opc AND 0x07)"

definition decode_displacement_q :: "u16 \<Rightarrow> u8" where
  "decode_displacement_q opc =
     ucast ((drop_bit 8 opc AND 0x20) OR (drop_bit 7 opc AND 0x18) OR (opc AND 0x07))"

definition decode_pair :: "u16 \<Rightarrow> u8" where
  "decode_pair opc = 24 + ucast (drop_bit 4 opc AND 0x03) * 2"

definition decode_word_immediate :: "u16 \<Rightarrow> u8" where
  "decode_word_immediate opc = ucast ((drop_bit 2 opc AND 0x30) OR (opc AND 0x0F))"

definition decode_rel12 :: "u16 \<Rightarrow> int" where
  "decode_rel12 opc =
     (let displacement = uint (opc AND 0x0FFF)
      in if displacement AND 0x0800 \<noteq> 0 then displacement - 0x1000 else displacement)"

definition decode_long_target :: "decoded_instruction \<Rightarrow> u32" where
  "decode_long_target i =
     push_bit 13 (ucast (opcode i) AND 0x01F0) OR push_bit 16 (ucast (opcode i) AND 0x0001)
     OR ucast (snd (words i))"

section \<open>Shared steps\<close>

definition upd_sreg :: "(u8 \<Rightarrow> u8) \<Rightarrow> machine \<Rightarrow> machine" where
  "upd_sreg f m = m\<lparr>sreg := f (sreg m)\<rparr>"

definition put_flag :: "sreg_flag \<Rightarrow> bool \<Rightarrow> machine \<Rightarrow> machine" where
  "put_flag f v m = upd_sreg (set_flag_bit f v) m"

definition retire :: "decoded_instruction \<Rightarrow> u64 \<Rightarrow> machine \<Rightarrow> machine" where
  "retire i n m = advance_cycles n (m\<lparr>program_counter := word_address i + 1\<rparr>)"

definition increment_pc :: "machine \<Rightarrow> machine" where
  "increment_pc m = m\<lparr>program_counter := program_counter m + 1\<rparr>"

definition put_sign :: "machine \<Rightarrow> machine" where
  "put_sign m = put_flag Sign (flag Negative (sreg m) \<noteq> flag Overflow (sreg m)) m"

section \<open>Moves\<close>

definition execute_nop :: "decoded_instruction \<Rightarrow> machine \<Rightarrow> machine" where
  "execute_nop i m = retire i 1 m"

definition execute_ldi :: "decoded_instruction \<Rightarrow> machine \<Rightarrow> machine" where
  "execute_ldi i m =
     retire i 1 (write_register (decode_upper_register (opcode i)) (decode_immediate (opcode i)) m)"

definition execute_movw :: "decoded_instruction \<Rightarrow> machine \<Rightarrow> machine" where
  "execute_movw i m =
     (let destination_low = ucast ((drop_bit 4 (opcode i) AND 0x0F) * 2);
          source_low = ucast ((opcode i AND 0x0F) * 2)
      in retire i 1 (write_register_pair destination_low (read_register_pair source_low m) m))"

definition execute_mov :: "decoded_instruction \<Rightarrow> machine \<Rightarrow> machine" where
  "execute_mov i m =
     retire i 1 (write_register (decode_destination_register (opcode i))
                   (gpr m (decode_source_register (opcode i))) m)"

definition execute_ser :: "decoded_instruction \<Rightarrow> machine \<Rightarrow> machine" where
  "execute_ser i m = retire i 1 (write_register (decode_upper_register (opcode i)) 0xFF m)"

definition execute_swap :: "decoded_instruction \<Rightarrow> machine \<Rightarrow> machine" where
  "execute_swap i m =
     (let destination = decode_destination_register (opcode i); v = gpr m destination
      in retire i 1 (write_register destination (push_bit 4 v OR drop_bit 4 v) m))"

section \<open>Multiplication\<close>

text \<open>R1:R0 receive \<open>result\<close>; Z is set when it is zero, C when bit 15 of \<open>product\<close> is.\<close>

definition put_product :: "u16 \<Rightarrow> u16 \<Rightarrow> machine \<Rightarrow> machine" where
  "put_product product result m =
     put_flag Carry (product AND 0x8000 \<noteq> 0) (put_flag Zero (result = 0)
       (write_register 1 (ucast (drop_bit 8 result AND 0xFF)) (write_register 0 (ucast (result AND 0xFF)) m)))"

definition decode_mul_destination :: "u16 \<Rightarrow> u8" where
  "decode_mul_destination opc = ucast (16 + (drop_bit 4 opc AND 0x07))"

definition decode_mul_source :: "u16 \<Rightarrow> u8" where
  "decode_mul_source opc = ucast (16 + (opc AND 0x07))"

definition execute_mul :: "decoded_instruction \<Rightarrow> machine \<Rightarrow> machine" where
  "execute_mul i m =
     (let product = ucast (gpr m (decode_destination_register (opcode i)))
                    * ucast (gpr m (decode_source_register (opcode i)))
      in retire i 2 (put_product product product m))"

definition execute_muls :: "decoded_instruction \<Rightarrow> machine \<Rightarrow> machine" where
  "execute_muls i m =
     (let lhs = scast (gpr m (decode_upper_register (opcode i)));
          rhs = scast (gpr m (ucast (16 + (opcode i AND 0x0F)))); product = lhs * rhs
      in retire i 2 (put_product product product m))"

definition execute_mulsu :: "decoded_instruction \<Rightarrow> machine \<Rightarrow> machine" where
  "execute_mulsu i m =
     (let lhs = scast (gpr m (decode_mul_destination (opcode i)));
          rhs = ucast (gpr m (decode_mul_source (opcode i))); product = lhs * rhs
      in retire i 2 (put_product product product m))"

definition execute_fmul :: "decoded_instruction \<Rightarrow> machine \<Rightarrow> machine" where
  "execute_fmul i m =
     (let product = ucast (gpr m (decode_mul_destination (opcode i)))
                    * ucast (gpr m (decode_mul_source (opcode i)))
      in retire i 2 (put_product product (push_bit 1 product) m))"

definition execute_fmuls :: "decoded_instruction \<Rightarrow> machine \<Rightarrow> machine" where
  "execute_fmuls i m =
     (let lhs = scast (gpr m (decode_mul_destination (opcode i)));
          rhs = scast (gpr m (decode_mul_source (opcode i))); product = lhs * rhs
      in retire i 2 (put_product product (push_bit 1 product) m))"

definition execute_fmulsu :: "decoded_instruction \<Rightarrow> machine \<Rightarrow> machine" where
  "execute_fmulsu i m =
     (let lhs = scast (gpr m (decode_mul_destination (opcode i)));
          rhs = ucast (gpr m (decode_mul_source (opcode i))); product = lhs * rhs
      in retire i 2 (put_product product (push_bit 1 product) m))"

section \<open>Addition and subtraction\<close>

definition execute_add :: "decoded_instruction \<Rightarrow> machine \<Rightarrow> machine" where
  "execute_add i m =
     (let destination = decode_destination_register (opcode i);
          lhs = gpr m destination; rhs = gpr m (decode_source_register (opcode i));
          result = lhs + rhs
      in retire i 1 (upd_sreg (update_add_flags lhs rhs result) (write_register destination result m)))"

definition execute_adc :: "decoded_instruction \<Rightarrow> machine \<Rightarrow> machine" where
  "execute_adc i m =
     (let destination = decode_destination_register (opcode i);
          carry_in = flag Carry (sreg m);
          lhs = gpr m destination; rhs = gpr m (decode_source_register (opcode i));
          result = lhs + rhs + of_flag carry_in
      in retire i 1 (upd_sreg (update_add_flags lhs rhs result) (write_register destination result m)))"

definition execute_sub :: "decoded_instruction \<Rightarrow> machine \<Rightarrow> machine" where
  "execute_sub i m =
     (let destination = decode_destination_register (opcode i);
          lhs = gpr m destination; rhs = gpr m (decode_source_register (opcode i));
          result = lhs - rhs
      in retire i 1 (upd_sreg (update_sub_flags lhs rhs result) (write_register destination result m)))"

definition execute_subi :: "decoded_instruction \<Rightarrow> machine \<Rightarrow> machine" where
  "execute_subi i m =
     (let destination = decode_upper_register (opcode i); immediate = decode_immediate (opcode i);
          lhs = gpr m destination; result = lhs - immediate
      in retire i 1 (upd_sreg (update_sub_flags lhs immediate result) (write_register destination result m)))"

text \<open>SBC, SBCI and CPC keep Z only if it was set: they extend a multi-byte comparison.\<close>

definition sub_with_borrow_flags :: "u8 \<Rightarrow> u8 \<Rightarrow> u8 \<Rightarrow> u8 \<Rightarrow> u8" where
  "sub_with_borrow_flags lhs rhs result s =
     set_flag_bit Zero (flag Zero s \<and> result = 0) (update_sub_flags lhs rhs result s)"

definition execute_sbc :: "decoded_instruction \<Rightarrow> machine \<Rightarrow> machine" where
  "execute_sbc i m =
     (let destination = decode_destination_register (opcode i);
          carry_in = flag Carry (sreg m);
          lhs = gpr m destination; rhs = gpr m (decode_source_register (opcode i));
          result = lhs - rhs - of_flag carry_in
      in retire i 1 (upd_sreg (sub_with_borrow_flags lhs rhs result) (write_register destination result m)))"

definition execute_sbci :: "decoded_instruction \<Rightarrow> machine \<Rightarrow> machine" where
  "execute_sbci i m =
     (let destination = decode_upper_register (opcode i); immediate = decode_immediate (opcode i);
          carry_in = flag Carry (sreg m);
          lhs = gpr m destination; result = lhs - immediate - of_flag carry_in
      in retire i 1 (upd_sreg (sub_with_borrow_flags lhs immediate result) (write_register destination result m)))"

definition execute_cp :: "decoded_instruction \<Rightarrow> machine \<Rightarrow> machine" where
  "execute_cp i m =
     (let lhs = gpr m (decode_destination_register (opcode i));
          rhs = gpr m (decode_source_register (opcode i))
      in retire i 1 (upd_sreg (update_sub_flags lhs rhs (lhs - rhs)) m))"

definition execute_cpi :: "decoded_instruction \<Rightarrow> machine \<Rightarrow> machine" where
  "execute_cpi i m =
     (let lhs = gpr m (decode_upper_register (opcode i)); immediate = decode_immediate (opcode i)
      in retire i 1 (upd_sreg (update_sub_flags lhs immediate (lhs - immediate)) m))"

definition execute_cpc :: "decoded_instruction \<Rightarrow> machine \<Rightarrow> machine" where
  "execute_cpc i m =
     (let carry_in = flag Carry (sreg m);
          lhs = gpr m (decode_destination_register (opcode i));
          rhs = gpr m (decode_source_register (opcode i))
      in retire i 1 (upd_sreg (sub_with_borrow_flags lhs rhs (lhs - rhs - of_flag carry_in)) m))"

definition execute_neg :: "decoded_instruction \<Rightarrow> machine \<Rightarrow> machine" where
  "execute_neg i m =
     (let destination = decode_destination_register (opcode i); lhs = gpr m destination; result = 0 - lhs
      in retire i 1 (upd_sreg (update_sub_flags 0 lhs result) (write_register destination result m)))"

definition execute_adiw :: "decoded_instruction \<Rightarrow> machine \<Rightarrow> machine" where
  "execute_adiw i m =
     (let low_register = decode_pair (opcode i); lhs = read_register_pair low_register m;
          result = lhs + ucast (decode_word_immediate (opcode i))
      in retire i 2 (upd_sreg (update_adiw_flags lhs result) (write_register_pair low_register result m)))"

definition execute_sbiw :: "decoded_instruction \<Rightarrow> machine \<Rightarrow> machine" where
  "execute_sbiw i m =
     (let low_register = decode_pair (opcode i); lhs = read_register_pair low_register m;
          result = lhs - ucast (decode_word_immediate (opcode i))
      in retire i 2 (upd_sreg (update_sbiw_flags lhs result) (write_register_pair low_register result m)))"

definition execute_inc :: "decoded_instruction \<Rightarrow> machine \<Rightarrow> machine" where
  "execute_inc i m =
     (let destination = decode_destination_register (opcode i); result = gpr m destination + 1
      in retire i 1 (put_sign (put_flag Overflow (result = 0x80) (put_flag Zero (result = 0)
           (put_flag Negative (result AND 0x80 \<noteq> 0) (write_register destination result m))))))"

definition execute_dec :: "decoded_instruction \<Rightarrow> machine \<Rightarrow> machine" where
  "execute_dec i m =
     (let destination = decode_destination_register (opcode i); result = gpr m destination - 1
      in retire i 1 (put_sign (put_flag Overflow (result = 0x7F) (put_flag Zero (result = 0)
           (put_flag Negative (result AND 0x80 \<noteq> 0) (write_register destination result m))))))"

section \<open>Logic and shifts\<close>

definition execute_com :: "decoded_instruction \<Rightarrow> machine \<Rightarrow> machine" where
  "execute_com i m =
     (let destination = decode_destination_register (opcode i); result = NOT (gpr m destination)
      in retire i 1 (put_flag Carry True (put_sign (put_flag Overflow False (put_flag Zero (result = 0)
           (put_flag Negative (result AND 0x80 \<noteq> 0) (write_register destination result m)))))))"

definition execute_and :: "decoded_instruction \<Rightarrow> machine \<Rightarrow> machine" where
  "execute_and i m =
     (let destination = decode_destination_register (opcode i);
          result = gpr m destination AND gpr m (decode_source_register (opcode i))
      in retire i 1 (upd_sreg (update_logic_flags result) (write_register destination result m)))"

definition execute_andi :: "decoded_instruction \<Rightarrow> machine \<Rightarrow> machine" where
  "execute_andi i m =
     (let destination = decode_upper_register (opcode i);
          result = gpr m destination AND decode_immediate (opcode i)
      in retire i 1 (upd_sreg (update_logic_flags result) (write_register destination result m)))"

definition execute_or :: "decoded_instruction \<Rightarrow> machine \<Rightarrow> machine" where
  "execute_or i m =
     (let destination = decode_destination_register (opcode i);
          result = gpr m destination OR gpr m (decode_source_register (opcode i))
      in retire i 1 (upd_sreg (update_logic_flags result) (write_register destination result m)))"

definition execute_ori :: "decoded_instruction \<Rightarrow> machine \<Rightarrow> machine" where
  "execute_ori i m =
     (let destination = decode_upper_register (opcode i);
          result = gpr m destination OR decode_immediate (opcode i)
      in retire i 1 (upd_sreg (update_logic_flags result) (write_register destination result m)))"

definition execute_eor :: "decoded_instruction \<Rightarrow> machine \<Rightarrow> machine" where
  "execute_eor i m =
     (let destination = decode_destination_register (opcode i);
          result = gpr m destination XOR gpr m (decode_source_register (opcode i))
      in retire i 1 (upd_sreg (update_logic_flags result) (write_register destination result m)))"

definition execute_tst :: "decoded_instruction \<Rightarrow> machine \<Rightarrow> machine" where
  "execute_tst i m =
     retire i 1 (upd_sreg (update_logic_flags (gpr m (decode_destination_register (opcode i)))) m)"

text \<open>The flags of ASR, LSR and ROR: V is N xor C.\<close>

definition put_shift_flags :: "bool \<Rightarrow> u8 \<Rightarrow> bool \<Rightarrow> machine \<Rightarrow> machine" where
  "put_shift_flags negative result carry_out m =
     (let m = put_flag Carry carry_out (put_flag Zero (result = 0) (put_flag Negative negative m))
      in put_sign (put_flag Overflow (flag Negative (sreg m) \<noteq> flag Carry (sreg m)) m))"

definition execute_asr :: "decoded_instruction \<Rightarrow> machine \<Rightarrow> machine" where
  "execute_asr i m =
     (let destination = decode_destination_register (opcode i); v = gpr m destination;
          result = drop_bit 1 v OR (v AND 0x80)
      in retire i 1 (put_shift_flags (result AND 0x80 \<noteq> 0) result (v AND 0x01 \<noteq> 0)
           (write_register destination result m)))"

definition execute_lsr :: "decoded_instruction \<Rightarrow> machine \<Rightarrow> machine" where
  "execute_lsr i m =
     (let destination = decode_destination_register (opcode i); v = gpr m destination;
          result = drop_bit 1 v
      in retire i 1 (put_shift_flags False result (v AND 0x01 \<noteq> 0) (write_register destination result m)))"

definition execute_ror :: "decoded_instruction \<Rightarrow> machine \<Rightarrow> machine" where
  "execute_ror i m =
     (let destination = decode_destination_register (opcode i); v = gpr m destination;
          result = drop_bit 1 v OR (if flag Carry (sreg m) then 0x80 else 0)
      in retire i 1 (put_shift_flags (result AND 0x80 \<noteq> 0) result (v AND 0x01 \<noteq> 0)
           (write_register destination result m)))"

section \<open>Bits\<close>

definition bit_mask :: "u16 \<Rightarrow> u8" where
  "bit_mask opc = push_bit (unat (opc AND 0x07)) 1"

definition execute_bst :: "decoded_instruction \<Rightarrow> machine \<Rightarrow> machine" where
  "execute_bst i m =
     retire i 1 (put_flag Transfer
       (gpr m (decode_destination_register (opcode i)) AND bit_mask (opcode i) \<noteq> 0) m)"

definition execute_bld :: "decoded_instruction \<Rightarrow> machine \<Rightarrow> machine" where
  "execute_bld i m =
     (let destination = decode_destination_register (opcode i); mask = bit_mask (opcode i)
      in retire i 1 (write_register destination
           (if flag Transfer (sreg m) then gpr m destination OR mask else gpr m destination AND NOT mask) m))"

definition execute_bclr :: "decoded_instruction \<Rightarrow> machine \<Rightarrow> machine" where
  "execute_bclr i m = advance_cycles 1 (increment_pc (put_flag (decode_sreg_bit (opcode i)) False m))"

definition execute_bset :: "decoded_instruction \<Rightarrow> machine \<Rightarrow> machine" where
  "execute_bset i m =
     (let flag_bit = decode_sreg_bit (opcode i); m = put_flag flag_bit True m;
          m = (if flag_bit = Interrupt then m\<lparr>interrupt_delay := 1\<rparr> else m)
      in advance_cycles 1 (increment_pc m))"

definition execute_cli :: "decoded_instruction \<Rightarrow> machine \<Rightarrow> machine" where
  "execute_cli i m = advance_cycles 1 (increment_pc (put_flag Interrupt False m))"

definition execute_sei :: "decoded_instruction \<Rightarrow> machine \<Rightarrow> machine" where
  "execute_sei i m =
     advance_cycles 1 ((increment_pc (put_flag Interrupt True m))\<lparr>interrupt_delay := 1\<rparr>)"

section \<open>Skips and branches\<close>

text \<open>A taken skip fetches the next word to learn how much to skip.\<close>

definition skip_next :: "decoded_instruction \<Rightarrow> machine \<Rightarrow> machine" where
  "skip_next i m =
     (let (next_opcode, b) = read_program_word (word_address i + 1) (bus m);
          skip_words = classify_word_size next_opcode
      in advance_cycles (if skip_words = 2 then 3 else 2)
           (m\<lparr>bus := b, program_counter := word_address i + 1 + ucast skip_words\<rparr>))"

definition execute_cpse :: "decoded_instruction \<Rightarrow> machine \<Rightarrow> machine" where
  "execute_cpse i m =
     (if gpr m (decode_destination_register (opcode i)) = gpr m (decode_source_register (opcode i))
      then skip_next i m else retire i 1 m)"

definition execute_sbrc :: "decoded_instruction \<Rightarrow> machine \<Rightarrow> machine" where
  "execute_sbrc i m =
     (if gpr m (decode_destination_register (opcode i)) AND bit_mask (opcode i) = 0
      then skip_next i m else retire i 1 m)"

definition execute_sbrs :: "decoded_instruction \<Rightarrow> machine \<Rightarrow> machine" where
  "execute_sbrs i m =
     (if gpr m (decode_destination_register (opcode i)) AND bit_mask (opcode i) \<noteq> 0
      then skip_next i m else retire i 1 m)"

definition branch_to :: "u32 \<Rightarrow> int \<Rightarrow> u32" where
  "branch_to pc displacement = pc + 1 + word_of_int displacement"

definition branch_if :: "bool \<Rightarrow> decoded_instruction \<Rightarrow> machine \<Rightarrow> machine" where
  "branch_if taken i m =
     (if taken
      then advance_cycles 2
             (m\<lparr>program_counter := branch_to (word_address i) (decode_relative_offset (opcode i) 7)\<rparr>)
      else retire i 1 m)"

definition execute_brbc :: "decoded_instruction \<Rightarrow> machine \<Rightarrow> machine" where
  "execute_brbc i m = branch_if (\<not> flag (decode_branch_sreg_bit (opcode i)) (sreg m)) i m"

definition execute_brbs :: "decoded_instruction \<Rightarrow> machine \<Rightarrow> machine" where
  "execute_brbs i m = branch_if (flag (decode_branch_sreg_bit (opcode i)) (sreg m)) i m"

section \<open>Jumps, calls and returns\<close>

definition execute_rjmp :: "decoded_instruction \<Rightarrow> machine \<Rightarrow> machine" where
  "execute_rjmp i m =
     advance_cycles 2 (m\<lparr>program_counter := branch_to (word_address i) (decode_rel12 (opcode i))\<rparr>)"

definition execute_ijmp :: "decoded_instruction \<Rightarrow> machine \<Rightarrow> machine" where
  "execute_ijmp i m = advance_cycles 2 (m\<lparr>program_counter := ucast (z_pointer m)\<rparr>)"

definition extended_z :: "machine \<Rightarrow> u32" where
  "extended_z m = push_bit 16 (ucast (eind m)) OR ucast (z_pointer m)"

definition execute_eijmp :: "decoded_instruction \<Rightarrow> machine \<Rightarrow> machine" where
  "execute_eijmp i m = advance_cycles 2 (m\<lparr>program_counter := extended_z m\<rparr>)"

definition execute_jmp :: "decoded_instruction \<Rightarrow> machine \<Rightarrow> machine" where
  "execute_jmp i m = advance_cycles 3 (m\<lparr>program_counter := decode_long_target i\<rparr>)"

definition call_cycles :: "machine \<Rightarrow> u64 \<Rightarrow> u64" where
  "call_cycles m n = (if pc_width_bytes (device (bus m)) = 3 then n + 1 else n)"

definition execute_rcall :: "decoded_instruction \<Rightarrow> machine \<Rightarrow> machine" where
  "execute_rcall i m =
     (let m = push_pc (word_address i + 1) m;
          m = m\<lparr>program_counter := branch_to (word_address i) (decode_rel12 (opcode i))\<rparr>
      in advance_cycles (call_cycles m 3) m)"

definition execute_icall :: "decoded_instruction \<Rightarrow> machine \<Rightarrow> machine" where
  "execute_icall i m =
     (let m = push_pc (word_address i + 1) m; m = m\<lparr>program_counter := ucast (z_pointer m)\<rparr>
      in advance_cycles (call_cycles m 3) m)"

definition execute_eicall :: "decoded_instruction \<Rightarrow> machine \<Rightarrow> machine" where
  "execute_eicall i m =
     (let m = push_pc (word_address i + 1) m in advance_cycles 4 (m\<lparr>program_counter := extended_z m\<rparr>))"

definition execute_call :: "decoded_instruction \<Rightarrow> machine \<Rightarrow> machine" where
  "execute_call i m =
     (let m = push_pc (word_address i + 2) m; m = m\<lparr>program_counter := decode_long_target i\<rparr>
      in advance_cycles (call_cycles m 4) m)"

definition ret_cycles :: "machine \<Rightarrow> u64" where
  "ret_cycles m = (if pc_width_bytes (device (bus m)) \<ge> 3 then 5 else 4)"

definition execute_ret :: "decoded_instruction \<Rightarrow> machine \<Rightarrow> machine" where
  "execute_ret i m =
     (let (a, m) = pop_pc m; m = m\<lparr>program_counter := a\<rparr> in advance_cycles (ret_cycles m) m)"

definition execute_reti :: "decoded_instruction \<Rightarrow> machine \<Rightarrow> machine" where
  "execute_reti i m =
     (let (a, m) = pop_pc m;
          m = put_flag Interrupt True (m\<lparr>program_counter := a\<rparr>);
          m = (if interrupt_depth m \<noteq> 0 then m\<lparr>interrupt_depth := interrupt_depth m - 1\<rparr> else m);
          m = m\<lparr>interrupt_delay := 1\<rparr>
      in upd_bus bus_on_reti (advance_cycles (ret_cycles m) m))"

end
