(* ===== verification/ExecMem.thy ===== *)
theory ExecMem
  imports Exec
begin

text \<open>
  The instruction handlers of \<open>src/core/avr_cpu.cpp\<close> that go through the data bus, the
  program memory or the CPU's control peripherals: I/O access, loads and stores, the
  read-modify-write group, program-memory reads, SPM, the stack instructions, SLEEP, BREAK
  and WDR.
\<close>

section \<open>I/O space\<close>

definition low_io_address :: "u8 \<Rightarrow> u16" where
  "low_io_address io_offset = 0x20 + ucast io_offset"

definition decode_io5 :: "u16 \<Rightarrow> u8" where
  "decode_io5 opc = ucast (drop_bit 3 opc AND 0x1F)"

definition decode_io6 :: "u16 \<Rightarrow> u8" where
  "decode_io6 opc = ucast ((drop_bit 5 opc AND 0x30) OR (opc AND 0x0F))"

definition set_in_rmw :: "bool \<Rightarrow> machine \<Rightarrow> machine" where
  "set_in_rmw v m = upd_bus (\<lambda>b. b\<lparr>in_rmw := v\<rparr>) m"

definition execute_cbi :: "decoded_instruction \<Rightarrow> machine \<Rightarrow> machine" where
  "execute_cbi i m =
     (let address = low_io_address (decode_io5 (opcode i));
          (v, m) = read_data_bus address (set_in_rmw True m);
          m = write_data_bus address (v AND NOT (bit_mask (opcode i))) (set_in_rmw False m)
      in advance_cycles 2 (increment_pc m))"

definition execute_sbi :: "decoded_instruction \<Rightarrow> machine \<Rightarrow> machine" where
  "execute_sbi i m =
     (let address = low_io_address (decode_io5 (opcode i));
          (v, m) = read_data_bus address (set_in_rmw True m);
          m = write_data_bus address (v OR bit_mask (opcode i)) (set_in_rmw False m)
      in advance_cycles 2 (increment_pc m))"

definition execute_sbic :: "decoded_instruction \<Rightarrow> machine \<Rightarrow> machine" where
  "execute_sbic i m =
     (let (v, m) = read_data_bus (low_io_address (decode_io5 (opcode i))) m
      in if v AND bit_mask (opcode i) = 0 then skip_next i m
         else advance_cycles 1 (increment_pc m))"

definition execute_sbis :: "decoded_instruction \<Rightarrow> machine \<Rightarrow> machine" where
  "execute_sbis i m =
     (let (v, m) = read_data_bus (low_io_address (decode_io5 (opcode i))) m
      in if v AND bit_mask (opcode i) \<noteq> 0 then skip_next i m
         else advance_cycles 1 (increment_pc m))"

definition execute_in :: "decoded_instruction \<Rightarrow> machine \<Rightarrow> machine" where
  "execute_in i m =
     (let (v, m) = read_data_bus (low_io_address (decode_io6 (opcode i))) m
      in advance_cycles 1 (increment_pc (write_register (decode_destination_register (opcode i)) v m)))"

definition execute_out :: "decoded_instruction \<Rightarrow> machine \<Rightarrow> machine" where
  "execute_out i m =
     advance_cycles 1 (increment_pc
       (write_data_bus (low_io_address (decode_io6 (opcode i)))
          (gpr m (decode_destination_register (opcode i))) m))"

section \<open>Loads and stores\<close>

definition execute_load_indirect :: "u8 \<Rightarrow> u16 \<Rightarrow> bool \<Rightarrow> u8 \<Rightarrow> machine \<Rightarrow> machine" where
  "execute_load_indirect destination address post_increment pointer_low m =
     (let (v, m) = read_data_bus address m;
          m = advance_cycles 2 (write_register destination v m);
          m = (if post_increment then write_register_pair pointer_low (address + 1) m else m)
      in increment_pc m)"

definition execute_store_indirect :: "u16 \<Rightarrow> u8 \<Rightarrow> bool \<Rightarrow> u8 \<Rightarrow> machine \<Rightarrow> machine" where
  "execute_store_indirect address source post_increment pointer_low m =
     (let m = advance_cycles 2 (write_data_bus address (gpr m source) m);
          m = (if post_increment then write_register_pair pointer_low (address + 1) m else m)
      in increment_pc m)"

datatype pointer_mode = Plain | Postinc | Predec | Displaced

text \<open>
  The handlers of LD, LDD, ST and STD differ in the pointer pair (26, 28 or 30) and in how
  the address is formed; one definition per form covers the three pairs.
\<close>

definition execute_ld :: "u8 \<Rightarrow> pointer_mode \<Rightarrow> decoded_instruction \<Rightarrow> machine \<Rightarrow> machine" where
  "execute_ld low mode i m =
     (let destination = decode_destination_register (opcode i); pointer = read_register_pair low m
      in case mode of
           Plain \<Rightarrow> execute_load_indirect destination pointer False low m
         | Postinc \<Rightarrow> execute_load_indirect destination pointer True low m
         | Predec \<Rightarrow> execute_load_indirect destination (pointer - 1) False low
                      (write_register_pair low (pointer - 1) m)
         | Displaced \<Rightarrow> execute_load_indirect destination
                         (pointer + ucast (decode_displacement_q (opcode i))) False low m)"

definition execute_st :: "u8 \<Rightarrow> pointer_mode \<Rightarrow> decoded_instruction \<Rightarrow> machine \<Rightarrow> machine" where
  "execute_st low mode i m =
     (let source = decode_destination_register (opcode i); pointer = read_register_pair low m
      in case mode of
           Plain \<Rightarrow> execute_store_indirect pointer source False low m
         | Postinc \<Rightarrow> execute_store_indirect pointer source True low m
         | Predec \<Rightarrow> execute_store_indirect (pointer - 1) source False low
                      (write_register_pair low (pointer - 1) m)
         | Displaced \<Rightarrow> execute_store_indirect
                         (pointer + ucast (decode_displacement_q (opcode i))) source False low m)"

definition execute_lds :: "decoded_instruction \<Rightarrow> machine \<Rightarrow> machine" where
  "execute_lds i m =
     (execute_load_indirect (decode_destination_register (opcode i)) (snd (words i)) False 0 m)
       \<lparr>program_counter := word_address i + 2\<rparr>"

definition execute_sts :: "decoded_instruction \<Rightarrow> machine \<Rightarrow> machine" where
  "execute_sts i m =
     (execute_store_indirect (snd (words i)) (decode_destination_register (opcode i)) False 0 m)
       \<lparr>program_counter := word_address i + 2\<rparr>"

datatype rmw_op = Rmw_Xch | Rmw_Las | Rmw_Lac | Rmw_Lat

definition rmw_combine :: "rmw_op \<Rightarrow> u8 \<Rightarrow> u8 \<Rightarrow> u8" where
  "rmw_combine op reg_value old_value =
     (case op of Rmw_Xch \<Rightarrow> reg_value | Rmw_Las \<Rightarrow> reg_value OR old_value
      | Rmw_Lac \<Rightarrow> NOT reg_value AND old_value | Rmw_Lat \<Rightarrow> reg_value XOR old_value)"

definition execute_rmw_z :: "rmw_op \<Rightarrow> decoded_instruction \<Rightarrow> machine \<Rightarrow> machine" where
  "execute_rmw_z op i m =
     (let reg = decode_destination_register (opcode i); address = z_pointer m;
          (old_value, m) = read_data_bus address m;
          m = write_data_bus address (rmw_combine op (gpr m reg) old_value) m
      in retire i 2 (write_register reg old_value m))"

section \<open>Program memory\<close>

text \<open>\<open>execute_lpm*\<close> and \<open>execute_elpm*\<close>: the address, the destination, and whether Z advances.\<close>

definition load_program :: "u32 \<Rightarrow> u8 \<Rightarrow> bool \<Rightarrow> decoded_instruction \<Rightarrow> machine \<Rightarrow> machine" where
  "load_program address destination post_increment i m =
     (let (v, b) = read_program_byte address (program_counter m) (bus m);
          m = write_register destination v (m\<lparr>bus := b\<rparr>);
          m = (if post_increment then write_register_pair 30 (ucast address + 1) m else m)
      in retire i 3 m)"

definition execute_lpm :: "decoded_instruction \<Rightarrow> machine \<Rightarrow> machine" where
  "execute_lpm i m = load_program (ucast (z_pointer m)) 0 False i m"

definition execute_lpm_z :: "decoded_instruction \<Rightarrow> machine \<Rightarrow> machine" where
  "execute_lpm_z i m =
     load_program (ucast (z_pointer m)) (decode_destination_register (opcode i)) False i m"

definition execute_lpm_z_postinc :: "decoded_instruction \<Rightarrow> machine \<Rightarrow> machine" where
  "execute_lpm_z_postinc i m =
     load_program (ucast (z_pointer m)) (decode_destination_register (opcode i)) True i m"

definition rampz_z :: "machine \<Rightarrow> u32" where
  "rampz_z m = push_bit 16 (ucast (rampz m)) OR ucast (z_pointer m)"

definition execute_elpm :: "decoded_instruction \<Rightarrow> machine \<Rightarrow> machine" where
  "execute_elpm i m = load_program (rampz_z m) 0 False i m"

definition execute_elpm_z :: "decoded_instruction \<Rightarrow> machine \<Rightarrow> machine" where
  "execute_elpm_z i m = load_program (rampz_z m) (decode_destination_register (opcode i)) False i m"

text \<open>ELPM Z+ reads the pointer again after the destination is written.\<close>

definition execute_elpm_z_postinc :: "decoded_instruction \<Rightarrow> machine \<Rightarrow> machine" where
  "execute_elpm_z_postinc i m =
     (let (v, b) = read_program_byte (rampz_z m) (program_counter m) (bus m);
          m = write_register (decode_destination_register (opcode i)) v (m\<lparr>bus := b\<rparr>)
      in retire i 3 (write_register_pair 30 (z_pointer m + 1) m))"

text \<open>SPM charges its cycle before it moves the program counter.\<close>

definition spm_done :: "decoded_instruction \<Rightarrow> machine \<Rightarrow> machine" where
  "spm_done i m = (advance_cycles 1 m)\<lparr>program_counter := word_address i + 1\<rparr>"

definition execute_spm :: "decoded_instruction \<Rightarrow> machine \<Rightarrow> machine" where
  "execute_spm i m =
     (let spmcsr_addr = spmcsr_address (device (bus m))
      in if spmcsr_addr = 0 then spm_done i m
         else let (spmcsr, m) = read_data spmcsr_addr m
              in if spmcsr AND 0x01 = 0 \<or> spm_lock_timeout m = 0 then spm_done i m
                 else if spmcsr AND 0x40 \<noteq> 0 \<and> spmcsr AND 0x10 = 0
                 then spm_done i (write_data_bus spmcsr_addr (spmcsr AND 0xE0) m)
                 else let z = ucast (z_pointer m);
                          v = ucast (gpr m 0) OR push_bit 8 (ucast (gpr m 1));
                          m = upd_bus (execute_spm_command spmcsr z v) m;
                          m = write_data_bus spmcsr_addr (spmcsr AND 0xE0) m
                      in spm_done i (m\<lparr>spm_lock_timeout := 0\<rparr>))"

section \<open>Stack and system instructions\<close>

definition execute_push :: "decoded_instruction \<Rightarrow> machine \<Rightarrow> machine" where
  "execute_push i m =
     (let m = advance_cycles 2 m
      in (push_byte (gpr m (decode_destination_register (opcode i))) m)\<lparr>program_counter := word_address i + 1\<rparr>)"

definition execute_pop :: "decoded_instruction \<Rightarrow> machine \<Rightarrow> machine" where
  "execute_pop i m =
     (let (v, m) = pop_byte (advance_cycles 2 m)
      in (write_register (decode_destination_register (opcode i)) v m)\<lparr>program_counter := word_address i + 1\<rparr>)"

definition execute_sleep :: "decoded_instruction \<Rightarrow> machine \<Rightarrow> machine" where
  "execute_sleep i m =
     (let m = advance_cycles 1 (increment_pc m);
          enabled = (case the_slp m of Some c \<Rightarrow> slp_sleep_enabled c
                     | None \<Rightarrow> cc_sleep_enabled (control_regs m))
      in if enabled
         then (case the_slp m of
                 Some c \<Rightarrow> m\<lparr>state := Sleeping\<rparr>
               | None \<Rightarrow> (upd_control (\<lambda>c. c\<lparr>cc_sleeping := True\<rparr>) m)\<lparr>state := Sleeping\<rparr>)
         else m)"

definition execute_break :: "decoded_instruction \<Rightarrow> machine \<Rightarrow> machine" where
  "execute_break i m = (advance_cycles 1 (increment_pc m))\<lparr>state := Paused\<rparr>"

text \<open>WDR restarts both kinds of watchdog; a window violation resets the CPU instead.\<close>

definition wdr_classic :: "machine \<Rightarrow> machine" where
  "wdr_classic m =
     (case watchdog_timer_ptr m of
        None \<Rightarrow> m
      | Some k \<Rightarrow> (case kind_at (bus m) k of K_Wdt w \<Rightarrow> upd_bus (wdt_reset_watchdog k w) m | _ \<Rightarrow> m))"

definition wdr_wdt8x :: "machine \<Rightarrow> machine" where
  "wdr_wdt8x m =
     (case wdt8x_ptr m of
        None \<Rightarrow> m
      | Some k \<Rightarrow>
          (case kind_at (bus m) k of
             K_Wdt8x w \<Rightarrow>
               (let (w, violation) = wdt8x_reset_timer (cpu_frequency_hz_of (control_regs m)) w
                in if violation
                   then let m = cpu_reset Watchdog_Reset m
                        in (case kind_at (bus m) k of
                              K_Wdt8x w \<Rightarrow> upd_kind k (K_Wdt8x (wdt8x_reset w)) m | _ \<Rightarrow> m)
                   else upd_kind k (K_Wdt8x w) m)
           | _ \<Rightarrow> m))"

definition execute_wdr :: "decoded_instruction \<Rightarrow> machine \<Rightarrow> machine" where
  "execute_wdr i m =
     (let m = wdr_wdt8x (wdr_classic m)
      in if reset_triggered m then m else advance_cycles 1 (increment_pc m))"

end
