(* ===== verification/Des.thy ===== *)
theory Des
  imports ExecMem
begin

text \<open>
  The DES instruction (\<open>execute_des\<close> in \<open>src/core/avr_cpu.cpp\<close>): one round of the cipher
  on R7:R0 with the key in R15:R8, H choosing the direction.  The tables count bits from 1
  at the most significant end, as FIPS-46 does.  The rounds are a Feistel network; the
  locale \<open>feistel\<close> proves once that running them with the reversed subkeys undoes them.
\<close>

section \<open>Tables\<close>

definition des_ip :: "nat list" where
  "des_ip =
     [58, 50, 42, 34, 26, 18, 10, 2, 60, 52, 44, 36, 28, 20, 12, 4,
      62, 54, 46, 38, 30, 22, 14, 6, 64, 56, 48, 40, 32, 24, 16, 8,
      57, 49, 41, 33, 25, 17, 9, 1, 59, 51, 43, 35, 27, 19, 11, 3,
      61, 53, 45, 37, 29, 21, 13, 5, 63, 55, 47, 39, 31, 23, 15, 7]"

definition des_fp :: "nat list" where
  "des_fp =
     [40, 8, 48, 16, 56, 24, 64, 32, 39, 7, 47, 15, 55, 23, 63, 31,
      38, 6, 46, 14, 54, 22, 62, 30, 37, 5, 45, 13, 53, 21, 61, 29,
      36, 4, 44, 12, 52, 20, 60, 28, 35, 3, 43, 11, 51, 19, 59, 27,
      34, 2, 42, 10, 50, 18, 58, 26, 33, 1, 41, 9, 49, 17, 57, 25]"

definition des_e :: "nat list" where
  "des_e =
     [32, 1, 2, 3, 4, 5, 4, 5, 6, 7, 8, 9, 8, 9, 10, 11,
      12, 13, 12, 13, 14, 15, 16, 17, 16, 17, 18, 19, 20, 21, 20, 21,
      22, 23, 24, 25, 24, 25, 26, 27, 28, 29, 28, 29, 30, 31, 32, 1]"

definition des_p :: "nat list" where
  "des_p =
     [16, 7, 20, 21, 29, 12, 28, 17, 1, 15, 23, 26, 5, 18, 31, 10,
      2, 8, 24, 14, 32, 27, 3, 9, 19, 13, 30, 6, 22, 11, 4, 25]"

definition des_pc1 :: "nat list" where
  "des_pc1 =
     [57, 49, 41, 33, 25, 17, 9, 1, 58, 50, 42, 34, 26, 18, 10, 2,
      59, 51, 43, 35, 27, 19, 11, 3, 60, 52, 44, 36, 63, 55, 47, 39,
      31, 23, 15, 7, 62, 54, 46, 38, 30, 22, 14, 6, 61, 53, 45, 37,
      29, 21, 13, 5, 28, 20, 12, 4]"

definition des_pc2 :: "nat list" where
  "des_pc2 =
     [14, 17, 11, 24, 1, 5, 3, 28, 15, 6, 21, 10, 23, 19, 12, 4,
      26, 8, 16, 7, 27, 20, 13, 2, 41, 52, 31, 37, 47, 55, 30, 40,
      51, 45, 33, 48, 44, 49, 39, 56, 34, 53, 46, 42, 50, 36, 29, 32]"

definition des_rot :: "nat list" where
  "des_rot =
     [1, 1, 2, 2, 2, 2, 2, 2, 1, 2, 2, 2, 2, 2, 2, 1]"

definition des_s :: "u32 list list" where
  "des_s =
     [[14, 4, 13, 1, 2, 15, 11, 8, 3, 10, 6, 12, 5, 9, 0, 7,
       0, 15, 7, 4, 14, 2, 13, 1, 10, 6, 12, 11, 9, 5, 3, 8,
       4, 1, 14, 8, 13, 6, 2, 11, 15, 12, 9, 7, 3, 10, 5, 0,
       15, 12, 8, 2, 4, 9, 1, 7, 5, 11, 3, 14, 10, 0, 6, 13],
      [15, 1, 8, 14, 6, 11, 3, 4, 9, 7, 2, 13, 12, 0, 5, 10,
       3, 13, 4, 7, 15, 2, 8, 14, 12, 0, 1, 10, 6, 9, 11, 5,
       0, 14, 7, 11, 10, 4, 13, 1, 5, 8, 12, 6, 9, 3, 2, 15,
       13, 8, 10, 1, 3, 15, 4, 2, 11, 6, 7, 12, 0, 5, 14, 9],
      [10, 0, 9, 14, 6, 3, 15, 5, 1, 13, 12, 7, 11, 4, 2, 8,
       13, 7, 0, 9, 3, 4, 6, 10, 2, 8, 5, 14, 12, 11, 15, 1,
       13, 6, 4, 9, 8, 15, 3, 0, 11, 1, 2, 12, 5, 10, 14, 7,
       1, 10, 13, 0, 6, 9, 8, 7, 4, 15, 14, 3, 11, 5, 2, 12],
      [7, 13, 14, 3, 0, 6, 9, 10, 1, 2, 8, 5, 11, 12, 4, 15,
       13, 8, 11, 5, 6, 15, 0, 3, 4, 7, 2, 12, 1, 10, 14, 9,
       10, 6, 9, 0, 12, 11, 7, 13, 15, 1, 3, 14, 5, 2, 8, 4,
       3, 15, 0, 6, 10, 1, 13, 8, 9, 4, 5, 11, 12, 7, 2, 14],
      [2, 12, 4, 1, 7, 10, 11, 6, 8, 5, 3, 15, 13, 0, 14, 9,
       14, 11, 2, 12, 4, 7, 13, 1, 5, 0, 15, 10, 3, 9, 8, 6,
       4, 2, 1, 11, 10, 13, 7, 8, 15, 9, 12, 5, 6, 3, 0, 14,
       11, 8, 12, 7, 1, 14, 2, 13, 6, 15, 0, 9, 10, 4, 5, 3],
      [12, 1, 10, 15, 9, 2, 6, 8, 0, 13, 3, 4, 14, 7, 5, 11,
       10, 15, 4, 2, 7, 12, 9, 5, 6, 1, 13, 14, 0, 11, 3, 8,
       9, 14, 15, 5, 2, 8, 12, 3, 7, 0, 4, 10, 1, 13, 11, 6,
       4, 3, 2, 12, 9, 5, 15, 10, 11, 14, 1, 7, 6, 0, 8, 13],
      [4, 11, 2, 14, 15, 0, 8, 13, 3, 12, 9, 7, 5, 10, 6, 1,
       13, 0, 11, 7, 4, 9, 1, 10, 14, 3, 5, 12, 2, 15, 8, 6,
       1, 4, 11, 13, 12, 3, 7, 14, 10, 15, 6, 8, 0, 5, 9, 2,
       6, 11, 13, 8, 1, 4, 10, 7, 9, 5, 0, 15, 14, 2, 3, 12],
      [13, 2, 8, 4, 6, 15, 11, 1, 10, 9, 3, 14, 5, 0, 12, 7,
       1, 15, 13, 8, 10, 3, 7, 4, 12, 5, 6, 11, 0, 14, 9, 2,
       7, 11, 4, 1, 9, 12, 14, 2, 0, 6, 10, 13, 15, 3, 5, 8,
       2, 1, 14, 7, 4, 10, 8, 13, 15, 12, 9, 0, 3, 5, 6, 11]]"

section \<open>Permutations and the round function\<close>

definition des_perm64 :: "u64 \<Rightarrow> nat list \<Rightarrow> u64" where
  "des_perm64 in_be tbl =
     fold (\<lambda>i out. out OR push_bit (63 - i) (drop_bit (64 - tbl ! i) in_be AND 1)) [0..<64] 0"

definition des_expand :: "u32 \<Rightarrow> u64" where
  "des_expand r =
     fold (\<lambda>i out. out OR push_bit (47 - i) (ucast (drop_bit (32 - des_e ! i) r AND 1))) [0..<48] 0"

definition des_sbox :: "u64 \<Rightarrow> u32" where
  "des_sbox expanded =
     fold (\<lambda>box out.
         let six = (ucast (drop_bit (42 - 6 * box) expanded AND 0x3F) :: u8);
             row = (drop_bit 4 six AND 0x02) OR (six AND 0x01);
             col = drop_bit 1 six AND 0x0F
         in out OR push_bit (28 - 4 * box) (des_s ! box ! (unat row * 16 + unat col)))
       [0..<8] 0"

definition des_f :: "u32 \<Rightarrow> u64 \<Rightarrow> u32" where
  "des_f r subkey =
     (let sbox_out = des_sbox (des_expand r XOR subkey)
      in fold (\<lambda>i out. out OR push_bit (31 - i) (drop_bit (32 - des_p ! i) sbox_out AND 1)) [0..<32] 0)"

section \<open>Key schedule\<close>

definition des_key_halves :: "u64 \<Rightarrow> u32 \<times> u32" where
  "des_key_halves key_be =
     (let half = (\<lambda>h. fold (\<lambda>i out. out OR
                      (ucast (push_bit (27 - i) (drop_bit (64 - des_pc1 ! (28 * h + i)) key_be AND 1)) :: u32))
                    [0..<28] 0)
      in (half 0, half 1))"

definition rotate28 :: "nat \<Rightarrow> u32 \<Rightarrow> u32" where
  "rotate28 n v = (push_bit n v OR drop_bit (28 - n) v) AND 0x0FFFFFFF"

definition des_subkey_of :: "u32 \<times> u32 \<Rightarrow> nat \<Rightarrow> u64" where
  "des_subkey_of halves total_shift =
     (let cd = push_bit 28 (ucast (rotate28 total_shift (fst halves))) OR ucast (rotate28 total_shift (snd halves))
      in fold (\<lambda>i out. out OR push_bit (47 - i) (drop_bit (56 - des_pc2 ! i) cd AND 1)) [0..<48] 0)"

definition des_key_schedule :: "u64 \<Rightarrow> u64 list" where
  "des_key_schedule key_be =
     rev (fst (fold (\<lambda>rot (subkeys, total_shift).
                  let total_shift = (total_shift + rot) mod 28
                  in (des_subkey_of (des_key_halves key_be) total_shift # subkeys, total_shift))
            des_rot ([], 0)))"

section \<open>The instruction\<close>

text \<open>One round of \<open>execute_des\<close> on the data and key words.\<close>

definition des_round :: "bool \<Rightarrow> nat \<Rightarrow> u64 \<Rightarrow> u64 \<Rightarrow> u64" where
  "des_round decrypt round key_be data_be =
     (let subkeys = des_key_schedule key_be;
          subkey = (if decrypt then subkeys ! (15 - round) else subkeys ! round);
          permuted = des_perm64 data_be des_ip;
          left = ucast (drop_bit 32 permuted); right = ucast (permuted AND 0xFFFFFFFF);
          f = des_f right subkey;
          new_left = (if round < 15 then right else left XOR f);
          new_right = (if round < 15 then left XOR f else right)
      in des_perm64 (push_bit 32 (ucast new_left) OR ucast new_right) des_fp)"

text \<open>Eight registers from \<open>base\<close> as a word, least significant byte first.\<close>

definition load_regs :: "(u8 \<Rightarrow> u8) \<Rightarrow> nat \<Rightarrow> u64" where
  "load_regs g base = fold (\<lambda>r w. push_bit 8 w OR ucast (g (of_nat (base + r)))) (rev [0..<8]) 0"

definition store_regs :: "u64 \<Rightarrow> machine \<Rightarrow> machine" where
  "store_regs w m =
     fold (\<lambda>r. write_register (of_nat r) (ucast (drop_bit (8 * r) w AND 0xFF))) [0..<8] m"

definition execute_des :: "decoded_instruction \<Rightarrow> machine \<Rightarrow> machine" where
  "execute_des i m =
     (let round = unat (drop_bit 4 (opcode i) AND 0x0F);
          out_be = des_round (flag HalfCarry (sreg m)) round (load_regs (gpr m) 8) (load_regs (gpr m) 0)
      in retire i 1 (store_regs out_be m))"

section \<open>Feistel networks\<close>

locale feistel =
  fixes xor :: "'b \<Rightarrow> 'b \<Rightarrow> 'b"
    and f :: "'b \<Rightarrow> 'k \<Rightarrow> 'b"
  assumes xor_cancel: "xor (xor a b) b = a"
begin

definition half_round :: "'k \<Rightarrow> 'b \<times> 'b \<Rightarrow> 'b \<times> 'b" where
  "half_round k s = (snd s, xor (fst s) (f (snd s) k))"

definition exchange :: "'b \<times> 'b \<Rightarrow> 'b \<times> 'b" where
  "exchange s = (snd s, fst s)"

lemma exchange_exchange [simp]: "exchange (exchange s) = s"
  by (simp add: exchange_def)

lemma half_round_undo: "half_round k (exchange (half_round k s)) = exchange s"
  by (cases s) (simp add: half_round_def exchange_def xor_cancel)

lemma rounds_undo: "fold half_round (rev ks) (exchange (fold half_round ks s)) = exchange s"
proof (induction ks arbitrary: s)
  case (Cons k ks)
  have "fold half_round (rev (k # ks)) (exchange (fold half_round (k # ks) s))
      = half_round k (fold half_round (rev ks) (exchange (fold half_round ks (half_round k s))))"
    by simp
  then show ?case by (simp add: Cons half_round_undo)
qed simp

end

interpretation des_network: feistel "(XOR) :: u32 \<Rightarrow> u32 \<Rightarrow> u32" des_f
  by unfold_locales (simp add: xor.assoc)

section \<open>The initial and final permutations are inverse\<close>

lemma bit_fold_or:
  fixes a :: "'a::len word"
  shows "bit (fold (\<lambda>i out. out OR g i) xs a) n \<longleftrightarrow> bit a n \<or> (\<exists>i\<in>set xs. bit (g i) n)"
  by (induction xs arbitrary: a) (auto simp: bit_or_iff)

lemma selected_bit: "drop_bit k (w::'a::len word) AND 1 = of_bool (bit w k)"
  by (rule bit_word_eqI) (auto simp: bit_and_iff bit_drop_bit_eq bit_1_iff intro!: gr0I)

lemma bit_des_perm64:
  "bit (des_perm64 w t) n \<longleftrightarrow> n < 64 \<and> bit w (64 - t ! (63 - n))"
proof -
  have one: "bit (push_bit (63 - i) (drop_bit k w AND 1)) n \<longleftrightarrow> n = 63 - i \<and> bit w k"
    if "i < 64" for i k
    using that by (cases "bit w k") (auto simp: selected_bit bit_exp_iff)
  have "bit (des_perm64 w t) n
      \<longleftrightarrow> (\<exists>i\<in>{0..<64}. bit (push_bit (63 - i) (drop_bit (64 - t ! i) w AND 1)) n)"
    unfolding des_perm64_def bit_fold_or by simp
  also have "\<dots> \<longleftrightarrow> (\<exists>i<64. n = 63 - i \<and> bit w (64 - t ! i))"
    using one by (metis atLeastLessThan_iff zero_le)
  also have "\<dots> \<longleftrightarrow> n < 64 \<and> bit w (64 - t ! (63 - n))"
    by (auto intro!: exI[of _ "63 - n"])
  finally show ?thesis .
qed

lemma perm_inverse:
  assumes "list_all (\<lambda>n. 1 \<le> t ! n \<and> t ! n \<le> 64 \<and> 64 - u ! (t ! (63 - n) - 1) = n) [0..<64]"
  shows "des_perm64 (des_perm64 w u) t = w"
proof (rule bit_word_eqI)
  fix n :: nat
  assume n: "n < LENGTH(64)"
  then have "1 \<le> t ! (63 - n)" and "t ! (63 - n) \<le> 64" and "64 - u ! (t ! (63 - n) - 1) = n"
    using assms by (simp_all add: list_all_iff)
  with n show "bit (des_perm64 (des_perm64 w u) t) n = bit w n"
    by (simp add: bit_des_perm64)
qed

lemma ip_fp: "des_perm64 (des_perm64 w des_fp) des_ip = w"
  by (rule perm_inverse) code_simp

lemma fp_ip: "des_perm64 (des_perm64 w des_ip) des_fp = w"
  by (rule perm_inverse) code_simp

section \<open>Sixteen rounds\<close>

definition des_block :: "u32 \<times> u32 \<Rightarrow> u64" where
  "des_block s = des_perm64 (push_bit 32 (ucast (fst s)) OR ucast (snd s)) des_fp"

definition des_halves :: "u64 \<Rightarrow> u32 \<times> u32" where
  "des_halves w = (ucast (drop_bit 32 w), ucast (w AND 0xFFFFFFFF))"

definition des_subkey :: "u64 \<Rightarrow> bool \<Rightarrow> nat \<Rightarrow> u64" where
  "des_subkey key decrypt k = des_key_schedule key ! (if decrypt then 15 - k else k)"

lemma low_half: "(ucast (w AND 0xFFFFFFFF :: u64) :: u32) = ucast w"
proof -
  have "w AND 0xFFFFFFFF = take_bit 32 w" by (simp add: take_bit_eq_mask mask_eq_exp_minus_1)
  then have "(ucast (w AND 0xFFFFFFFF) :: u32) = ucast (take_bit 32 w)" by simp
  also have "\<dots> = ucast w" by (rule bit_word_eqI) (simp add: bit_simps)
  finally show ?thesis .
qed

lemma no_high_bit: "\<not> bit (r :: u32) (32 + n)"
  using bit_imp_le_length[of r "32 + n"] by auto

lemma halves_join: "des_halves (push_bit 32 (ucast l) OR ucast r) = (l, r)"
  by (auto simp: des_halves_def low_half bit_simps no_high_bit intro!: bit_word_eqI)

lemma join_halves: "push_bit 32 (ucast (fst (des_halves w))) OR ucast (snd (des_halves w)) = w"
  by (rule bit_word_eqI) (auto simp: des_halves_def low_half bit_simps)

lemma des_block_surj: "\<exists>s. d = des_block s"
  by (rule exI[of _ "des_halves (des_perm64 d des_ip)"]) (simp add: des_block_def join_halves fp_ip)

lemma des_round_block:
  "des_round decrypt k key (des_block s) =
     des_block (let s' = des_network.half_round (des_subkey key decrypt k) s
                in if k < 15 then s' else des_network.exchange s')"
proof -
  have "des_halves (des_perm64 (des_block s) des_ip) = s"
    by (cases s) (simp add: des_block_def ip_fp halves_join)
  then show ?thesis
    by (simp add: des_round_def des_subkey_def Let_def des_halves_def des_network.half_round_def
        des_network.exchange_def des_block_def prod_eq_iff)
qed

lemma des_rounds_block:
  assumes "n \<le> 15"
  shows "fold (\<lambda>k. des_round decrypt k key) [0..<n] (des_block s) =
         des_block (fold des_network.half_round (map (des_subkey key decrypt) [0..<n]) s)"
  using assms
  by (induction n) (simp_all add: des_round_block)

lemma des_cipher_block:
  "fold (\<lambda>k. des_round decrypt k key) [0..<16] (des_block s) =
   des_block (des_network.exchange (fold des_network.half_round (map (des_subkey key decrypt) [0..<16]) s))"
proof -
  have "[0..<16] = [0..<15] @ [15::nat]" by (simp add: upt_rec)
  then show ?thesis using des_rounds_block[of 15] by (simp add: des_round_block)
qed

lemma des_subkeys_reversed:
  "map (des_subkey key True) [0..<16] = rev (map (des_subkey key False) [0..<16])"
  by (rule nth_equalityI) (auto simp: rev_nth des_subkey_def)

text \<open>
  C1. Sixteen decrypting DES instructions undo sixteen encrypting ones: with K running from
  0 to 15 in both directions, and for every key, the block that was encrypted comes back.
\<close>

theorem des_decrypt_encrypt:
  "fold (\<lambda>k. des_round True k key) [0..<16] (fold (\<lambda>k. des_round False k key) [0..<16] d) = d"
proof -
  obtain s where "d = des_block s" using des_block_surj by blast
  then show ?thesis
    by (simp add: des_cipher_block des_subkeys_reversed des_network.rounds_undo
        del: upt_Suc)
qed

end
