(* ===== verification/Decode.thy ===== *)
theory Decode
  imports Des
begin

text \<open>
  Instruction decoding in \<open>src/core/avr_cpu.cpp\<close>: the table of masks, patterns, mnemonics
  and handlers, the look-up table the constructor derives from it, and the fetch.  The
  handlers of the single branches (\<open>execute_brcs\<close>, \<open>execute_brne\<close>, ...) only call
  \<open>execute_brbs\<close> or \<open>execute_brbc\<close> and are written as those.
\<close>

type_synonym handler = "decoded_instruction \<Rightarrow> machine \<Rightarrow> machine"
type_synonym descriptor = "u16 \<times> u16 \<times> string \<times> handler"

definition instruction_table :: "descriptor list" where
  "instruction_table =
     [
      (0xFFFF, 0x0000, ''NOP'', execute_nop),
      (0xF000, 0xE000, ''LDI'', execute_ldi),
      (0xFF00, 0x0200, ''MULS'', execute_muls),
      (0xFF88, 0x0300, ''MULSU'', execute_mulsu),
      (0xFF88, 0x0308, ''FMUL'', execute_fmul),
      (0xFF88, 0x0380, ''FMULS'', execute_fmuls),
      (0xFF88, 0x0388, ''FMULSU'', execute_fmulsu),
      (0xFF00, 0x0100, ''MOVW'', execute_movw),
      (0xFC00, 0x2C00, ''MOV'', execute_mov),
      (0xFC00, 0x9C00, ''MUL'', execute_mul),
      (0xFE0F, 0x9400, ''COM'', execute_com),
      (0xFE0F, 0x9401, ''NEG'', execute_neg),
      (0xFE0F, 0x9402, ''SWAP'', execute_swap),
      (0xFF00, 0x9600, ''ADIW'', execute_adiw),
      (0xFC00, 0x0C00, ''ADD'', execute_add),
      (0xFC00, 0x1C00, ''ADC'', execute_adc),
      (0xFE0F, 0x9403, ''INC'', execute_inc),
      (0xFE0F, 0x9405, ''ASR'', execute_asr),
      (0xFE0F, 0x9406, ''LSR'', execute_lsr),
      (0xFE0F, 0x9407, ''ROR'', execute_ror),
      (0xFC00, 0x0800, ''SBC'', execute_sbc),
      (0xF000, 0x4000, ''SBCI'', execute_sbci),
      (0xFC00, 0x1800, ''SUB'', execute_sub),
      (0xFE0F, 0x940A, ''DEC'', execute_dec),
      (0xFF00, 0x9700, ''SBIW'', execute_sbiw),
      (0xF000, 0x3000, ''CPI'', execute_cpi),
      (0xF000, 0x5000, ''SUBI'', execute_subi),
      (0xF000, 0x7000, ''ANDI'', execute_andi),
      (0xFC00, 0x1400, ''CP'', execute_cp),
      (0xFC00, 0x0400, ''CPC'', execute_cpc),
      (0xFC00, 0x1000, ''CPSE'', execute_cpse),
      (0xFE08, 0xFC00, ''SBRC'', execute_sbrc),
      (0xFE08, 0xFE00, ''SBRS'', execute_sbrs),
      (0xFE08, 0xFA00, ''BST'', execute_bst),
      (0xFE08, 0xF800, ''BLD'', execute_bld),
      (0xFF0F, 0xEF0F, ''SER'', execute_ser),
      (0xFC00, 0x2000, ''AND'', execute_and),
      (0xFC00, 0x2800, ''OR'', execute_or),
      (0xF000, 0x6000, ''ORI'', execute_ori),
      (0xFC00, 0x2400, ''EOR'', execute_eor),
      (0xFF00, 0x9800, ''CBI'', execute_cbi),
      (0xFF00, 0x9900, ''SBIC'', execute_sbic),
      (0xFF00, 0x9A00, ''SBI'', execute_sbi),
      (0xFF00, 0x9B00, ''SBIS'', execute_sbis),
      (0xF800, 0xB000, ''IN'', execute_in),
      (0xF800, 0xB800, ''OUT'', execute_out),
      (0xFE0F, 0x900C, ''LD X'', execute_ld 26 Plain),
      (0xFE0F, 0x900D, ''LD X+'', execute_ld 26 Postinc),
      (0xFE0F, 0x900E, ''LD -X'', execute_ld 26 Predec),
      (0xFE0F, 0x8008, ''LD Y'', execute_ld 28 Plain),
      (0xFE0F, 0x9008, ''LD Y'', execute_ld 28 Plain),
      (0xFE0F, 0x9108, ''LD Y'', execute_ld 28 Plain),
      (0xFE0F, 0x9009, ''LD Y+'', execute_ld 28 Postinc),
      (0xFE0F, 0x900A, ''LD -Y'', execute_ld 28 Predec),
      (0xD208, 0x8008, ''LDD Y+q'', execute_ld 28 Displaced),
      (0xFE0F, 0x8000, ''LD Z'', execute_ld 30 Plain),
      (0xFE0F, 0x9001, ''LD Z+'', execute_ld 30 Postinc),
      (0xFE0F, 0x9002, ''LD -Z'', execute_ld 30 Predec),
      (0xD208, 0x8000, ''LDD Z+q'', execute_ld 30 Displaced),
      (0xFFFF, 0x95C8, ''LPM'', execute_lpm),
      (0xFFFF, 0x95D8, ''ELPM'', execute_elpm),
      (0xFE0F, 0x9004, ''LPM Z'', execute_lpm_z),
      (0xFE0F, 0x9006, ''ELPM Z'', execute_elpm_z),
      (0xFE0F, 0x9005, ''LPM Z+'', execute_lpm_z_postinc),
      (0xFE0F, 0x9007, ''ELPM Z+'', execute_elpm_z_postinc),
      (0xFFFF, 0x95E8, ''SPM'', execute_spm),
      (0xFE0F, 0x9000, ''LDS'', execute_lds),
      (0xFE0F, 0x920C, ''ST X'', execute_st 26 Plain),
      (0xFE0F, 0x920D, ''ST X+'', execute_st 26 Postinc),
      (0xFE0F, 0x920E, ''ST -X'', execute_st 26 Predec),
      (0xFE0F, 0x8208, ''ST Y'', execute_st 28 Plain),
      (0xFE0F, 0x9208, ''ST Y'', execute_st 28 Plain),
      (0xFE0F, 0x9308, ''ST Y'', execute_st 28 Plain),
      (0xFE0F, 0x9209, ''ST Y+'', execute_st 28 Postinc),
      (0xFE0F, 0x920A, ''ST -Y'', execute_st 28 Predec),
      (0xD208, 0x8208, ''STD Y+q'', execute_st 28 Displaced),
      (0xFE0F, 0x8200, ''ST Z'', execute_st 30 Plain),
      (0xFE0F, 0x9201, ''ST Z+'', execute_st 30 Postinc),
      (0xFE0F, 0x9202, ''ST -Z'', execute_st 30 Predec),
      (0xD208, 0x8200, ''STD Z+q'', execute_st 30 Displaced),
      (0xFE0F, 0x9200, ''STS'', execute_sts),
      (0xFE0F, 0x920F, ''PUSH'', execute_push),
      (0xFE0F, 0x900F, ''POP'', execute_pop),
      (0xF000, 0xD000, ''RCALL'', execute_rcall),
      (0xF000, 0xC000, ''RJMP'', execute_rjmp),
      (0xFFFF, 0x9409, ''IJMP'', execute_ijmp),
      (0xFE0E, 0x940E, ''CALL'', execute_call),
      (0xFE0E, 0x940C, ''JMP'', execute_jmp),
      (0xFFFF, 0x9419, ''EIJMP'', execute_eijmp),
      (0xFFFF, 0x9509, ''ICALL'', execute_icall),
      (0xFFFF, 0x9519, ''EICALL'', execute_eicall),
      (0xFFFF, 0x9508, ''RET'', execute_ret),
      (0xFFFF, 0x9518, ''RETI'', execute_reti),
      (0xFFFF, 0x9588, ''SLEEP'', execute_sleep),
      (0xFFFF, 0x9598, ''BREAK'', execute_break),
      (0xFFFF, 0x95A8, ''WDR'', execute_wdr),
      (0xFFFF, 0x94F8, ''CLI'', execute_cli),
      (0xFFFF, 0x9478, ''SEI'', execute_sei),
      (0xFF8F, 0x9488, ''BCLR'', execute_bclr),
      (0xFF8F, 0x9408, ''BSET'', execute_bset),
      (0xFC07, 0xF000, ''BRCS'', execute_brbs),
      (0xFC07, 0xF400, ''BRCC'', execute_brbc),
      (0xFC07, 0xF002, ''BRMI'', execute_brbs),
      (0xFC07, 0xF402, ''BRPL'', execute_brbc),
      (0xFC07, 0xF001, ''BREQ'', execute_brbs),
      (0xFC07, 0xF401, ''BRNE'', execute_brbc),
      (0xFC07, 0xF003, ''BRVS'', execute_brbs),
      (0xFC07, 0xF403, ''BRVC'', execute_brbc),
      (0xFC07, 0xF004, ''BRLT'', execute_brbs),
      (0xFC07, 0xF404, ''BRGE'', execute_brbc),
      (0xFC07, 0xF005, ''BRHS'', execute_brbs),
      (0xFC07, 0xF405, ''BRHC'', execute_brbc),
      (0xFC07, 0xF006, ''BRTS'', execute_brbs),
      (0xFC07, 0xF406, ''BRTC'', execute_brbc),
      (0xFC07, 0xF007, ''BRIE'', execute_brbs),
      (0xFC07, 0xF407, ''BRID'', execute_brbc),
      (0xFE0F, 0x9204, ''XCH'', execute_rmw_z Rmw_Xch),
      (0xFE0F, 0x9205, ''LAS'', execute_rmw_z Rmw_Las),
      (0xFE0F, 0x9206, ''LAC'', execute_rmw_z Rmw_Lac),
      (0xFE0F, 0x9207, ''LAT'', execute_rmw_z Rmw_Lat),
      (0xFF0F, 0x940B, ''DES'', execute_des)]"

definition row_mask :: "descriptor \<Rightarrow> u16" where "row_mask r = fst r"
definition row_pattern :: "descriptor \<Rightarrow> u16" where "row_pattern r = fst (snd r)"
definition row_mnemonic :: "descriptor \<Rightarrow> string" where "row_mnemonic r = fst (snd (snd r))"
definition row_handler :: "descriptor \<Rightarrow> handler" where "row_handler r = snd (snd (snd r))"

fun first_index :: "('a \<Rightarrow> bool) \<Rightarrow> 'a list \<Rightarrow> nat \<Rightarrow> nat option" where
  "first_index p [] n = None"
| "first_index p (x # xs) n = (if p x then Some n else first_index p xs (Suc n))"

text \<open>
  \<open>fast_decode_table_\<close>: for every opcode the index of the first row that matches it, None
  for the fill value \<open>0xFFFF\<close>.
\<close>

definition matches :: "u16 \<Rightarrow> descriptor \<Rightarrow> bool" where
  "matches opc r \<longleftrightarrow> opc AND row_mask r = row_pattern r"

definition fast_decode :: "u16 \<Rightarrow> nat option" where
  "fast_decode opc = first_index (matches opc) instruction_table 0"

definition lookup_mnemonic :: "u16 \<Rightarrow> string" where
  "lookup_mnemonic opc =
     (case find (matches opc) instruction_table of Some r \<Rightarrow> row_mnemonic r | None \<Rightarrow> ''???'')"

definition fetch :: "machine \<Rightarrow> decoded_instruction \<times> machine" where
  "fetch m =
     (let (opc, b) = read_program_word (program_counter m) (bus m);
          (w1, b) = read_program_word (program_counter m + 1) b
      in (\<lparr>words = (opc, w1), opcode = opc, word_address = program_counter m,
           word_size = classify_word_size opc\<rparr>, m\<lparr>bus := b\<rparr>))"

definition trace_mnemonic :: "u16 \<Rightarrow> descriptor \<Rightarrow> string" where
  "trace_mnemonic opc r =
     (if row_mnemonic r = ''AND'' \<and> decode_destination_register opc = decode_source_register opc
      then ''TST'' else row_mnemonic r)"

text \<open>The observer is told of the instruction and may pause the CPU.\<close>

definition notify_instruction :: "u32 \<Rightarrow> u16 \<Rightarrow> string \<Rightarrow> machine \<Rightarrow> machine" where
  "notify_instruction pc opc mnemonic m =
     (case trace_hook m of
        None \<Rightarrow> m
      | Some h \<Rightarrow>
          let m = m\<lparr>trace_log := trace_log m @ [Trace_Instruction pc opc mnemonic]\<rparr>
          in if h pc opc mnemonic then m\<lparr>state := Paused\<rparr> else m)"

definition decode_and_execute :: "decoded_instruction \<Rightarrow> machine \<Rightarrow> machine" where
  "decode_and_execute i m =
     (case fast_decode (opcode i) of
        Some j \<Rightarrow>
          let r = instruction_table ! j in
          (if trace_hook m \<noteq> None
           then let m = notify_instruction (word_address i) (opcode i) (trace_mnemonic (opcode i) r) m
                in if state m = Paused then m else row_handler r i m
           else row_handler r i m)
      | None \<Rightarrow> m\<lparr>state := Halted\<rparr>)"

text \<open>\<open>dispatch_instruction\<close>: its four direct calls are the handlers of their rows.\<close>

definition dispatch_instruction :: "decoded_instruction \<Rightarrow> machine \<Rightarrow> machine" where
  "dispatch_instruction i m =
     (case fast_decode (opcode i) of
        None \<Rightarrow> m\<lparr>state := Halted\<rparr>
      | Some j \<Rightarrow>
          if j = 0 then execute_nop i m
          else if j = 1 then execute_ldi i m
          else if j = 8 then execute_mov i m
          else if j = 84 then execute_rjmp i m
          else row_handler (instruction_table ! j) i m)"

section \<open>Decoding by a mask test\<close>

text \<open>
  A row cannot match an opcode whose bits under \<open>M\<close> are \<open>P\<close> when it asks for other bits
  under the common mask, so the first compatible row decides.
\<close>

definition compatible :: "u16 \<Rightarrow> u16 \<Rightarrow> descriptor \<Rightarrow> bool" where
  "compatible M P r \<longleftrightarrow> P AND row_mask r = row_pattern r AND M"

definition decides :: "u16 \<Rightarrow> u16 \<Rightarrow> descriptor \<Rightarrow> bool" where
  "decides M P r \<longleftrightarrow> row_mask r AND M = row_mask r \<and> P AND row_mask r = row_pattern r"

lemma compatible_matches: "opc AND M = P \<Longrightarrow> matches opc r \<Longrightarrow> compatible M P r"
  using mask_conflict[of opc M P "row_mask r" "row_pattern r"]
  by (auto simp: matches_def compatible_def)

lemma decides_matches:
  assumes "opc AND M = P" and "decides M P r"
  shows "matches opc r"
proof -
  have "opc AND row_mask r = opc AND (row_mask r AND M)"
    using assms(2) by (simp add: decides_def)
  also have "\<dots> = P AND row_mask r"
    using assms(1) by (metis and.assoc and.commute)
  finally show ?thesis
    using assms(2) by (simp add: decides_def matches_def)
qed

lemma first_index_le: "first_index p xs n = Some j \<Longrightarrow> n \<le> j"
  by (induction xs arbitrary: n) (auto split: if_splits dest: Suc_leD)

lemma first_index_mono:
  assumes "first_index q xs n = Some j" and "\<And>x. p x \<Longrightarrow> q x" and "p (xs ! (j - n))"
  shows "first_index p xs n = Some j"
  using assms(1,3)
proof (induction xs arbitrary: n)
  case (Cons x xs)
  show ?case
  proof (cases "q x")
    case True
    with Cons.prems show ?thesis by simp
  next
    case False
    then have "first_index q xs (Suc n) = Some j" using Cons.prems(1) by simp
    moreover from this have "Suc n \<le> j" by (rule first_index_le)
    ultimately show ?thesis
      using Cons.IH[of "Suc n"] Cons.prems(2) False assms(2)[of x] by (auto simp: nth_Cons')
  qed
qed simp

lemma fast_decode_mask:
  assumes "opc AND M = P" and "first_index (compatible M P) instruction_table 0 = Some j"
    and "decides M P (instruction_table ! j)"
  shows "fast_decode opc = Some j"
  unfolding fast_decode_def
  using first_index_mono[OF assms(2), of "matches opc"] compatible_matches[OF assms(1)]
    decides_matches[OF assms(1) assms(3)]
  by simp

text \<open>The masks and patterns alone, on which decoding is evaluated.\<close>

definition table_patterns :: "(u16 \<times> u16) list" where
  "table_patterns =
     [(0xFFFF, 0x0000), (0xF000, 0xE000), (0xFF00, 0x0200), (0xFF88, 0x0300), (0xFF88, 0x0308),
      (0xFF88, 0x0380), (0xFF88, 0x0388), (0xFF00, 0x0100), (0xFC00, 0x2C00), (0xFC00, 0x9C00),
      (0xFE0F, 0x9400), (0xFE0F, 0x9401), (0xFE0F, 0x9402), (0xFF00, 0x9600), (0xFC00, 0x0C00),
      (0xFC00, 0x1C00), (0xFE0F, 0x9403), (0xFE0F, 0x9405), (0xFE0F, 0x9406), (0xFE0F, 0x9407),
      (0xFC00, 0x0800), (0xF000, 0x4000), (0xFC00, 0x1800), (0xFE0F, 0x940A), (0xFF00, 0x9700),
      (0xF000, 0x3000), (0xF000, 0x5000), (0xF000, 0x7000), (0xFC00, 0x1400), (0xFC00, 0x0400),
      (0xFC00, 0x1000), (0xFE08, 0xFC00), (0xFE08, 0xFE00), (0xFE08, 0xFA00), (0xFE08, 0xF800),
      (0xFF0F, 0xEF0F), (0xFC00, 0x2000), (0xFC00, 0x2800), (0xF000, 0x6000), (0xFC00, 0x2400),
      (0xFF00, 0x9800), (0xFF00, 0x9900), (0xFF00, 0x9A00), (0xFF00, 0x9B00), (0xF800, 0xB000),
      (0xF800, 0xB800), (0xFE0F, 0x900C), (0xFE0F, 0x900D), (0xFE0F, 0x900E), (0xFE0F, 0x8008),
      (0xFE0F, 0x9008), (0xFE0F, 0x9108), (0xFE0F, 0x9009), (0xFE0F, 0x900A), (0xD208, 0x8008),
      (0xFE0F, 0x8000), (0xFE0F, 0x9001), (0xFE0F, 0x9002), (0xD208, 0x8000), (0xFFFF, 0x95C8),
      (0xFFFF, 0x95D8), (0xFE0F, 0x9004), (0xFE0F, 0x9006), (0xFE0F, 0x9005), (0xFE0F, 0x9007),
      (0xFFFF, 0x95E8), (0xFE0F, 0x9000), (0xFE0F, 0x920C), (0xFE0F, 0x920D), (0xFE0F, 0x920E),
      (0xFE0F, 0x8208), (0xFE0F, 0x9208), (0xFE0F, 0x9308), (0xFE0F, 0x9209), (0xFE0F, 0x920A),
      (0xD208, 0x8208), (0xFE0F, 0x8200), (0xFE0F, 0x9201), (0xFE0F, 0x9202), (0xD208, 0x8200),
      (0xFE0F, 0x9200), (0xFE0F, 0x920F), (0xFE0F, 0x900F), (0xF000, 0xD000), (0xF000, 0xC000),
      (0xFFFF, 0x9409), (0xFE0E, 0x940E), (0xFE0E, 0x940C), (0xFFFF, 0x9419), (0xFFFF, 0x9509),
      (0xFFFF, 0x9519), (0xFFFF, 0x9508), (0xFFFF, 0x9518), (0xFFFF, 0x9588), (0xFFFF, 0x9598),
      (0xFFFF, 0x95A8), (0xFFFF, 0x94F8), (0xFFFF, 0x9478), (0xFF8F, 0x9488), (0xFF8F, 0x9408),
      (0xFC07, 0xF000), (0xFC07, 0xF400), (0xFC07, 0xF002), (0xFC07, 0xF402), (0xFC07, 0xF001),
      (0xFC07, 0xF401), (0xFC07, 0xF003), (0xFC07, 0xF403), (0xFC07, 0xF004), (0xFC07, 0xF404),
      (0xFC07, 0xF005), (0xFC07, 0xF405), (0xFC07, 0xF006), (0xFC07, 0xF406), (0xFC07, 0xF007),
      (0xFC07, 0xF407), (0xFE0F, 0x9204), (0xFE0F, 0x9205), (0xFE0F, 0x9206), (0xFE0F, 0x9207),
      (0xFF0F, 0x940B)]"

lemma table_patterns: "map (\<lambda>r. (row_mask r, row_pattern r)) instruction_table = table_patterns"
  by (simp add: instruction_table_def table_patterns_def row_mask_def row_pattern_def)

lemma length_instruction_table: "length instruction_table = 121"
  by (simp add: instruction_table_def)

lemma first_index_map: "first_index p (map f xs) n = first_index (p \<circ> f) xs n"
  by (induction xs arbitrary: n) auto

definition decode_check :: "u16 \<Rightarrow> u16 \<Rightarrow> nat \<Rightarrow> bool" where
  "decode_check M P j \<longleftrightarrow>
     first_index (\<lambda>(m, p). P AND m = p AND M) table_patterns 0 = Some j \<and>
     (case table_patterns ! j of (m, p) \<Rightarrow> m AND M = m \<and> P AND m = p) \<and> j < 121"

lemma fast_decode_check:
  assumes "decode_check M P j" and "opc AND M = P"
  shows "fast_decode opc = Some j"
proof (rule fast_decode_mask[OF assms(2)])
  have "(\<lambda>(m, p). P AND m = p AND M) \<circ> (\<lambda>r. (row_mask r, row_pattern r)) = compatible M P"
    by (auto simp: compatible_def)
  then show "first_index (compatible M P) instruction_table 0 = Some j"
    using assms(1) by (simp add: decode_check_def table_patterns[symmetric] first_index_map)
  have "table_patterns ! j = (row_mask (instruction_table ! j), row_pattern (instruction_table ! j))"
    using assms(1) by (simp add: decode_check_def table_patterns[symmetric] length_instruction_table)
  then show "decides M P (instruction_table ! j)"
    using assms(1) by (simp add: decode_check_def decides_def)
qed

end
