(* ===== verification/Step.thy ===== *)
theory Step
  imports Decode
begin

text \<open>
  \<open>AvrCpu::step\<close> (\<open>src/core/avr_cpu.cpp\<close>): the fast paths of its switch on the top six
  bits of the opcode, the table dispatch for everything else, and the checks before the
  instruction (no program, stall, end of program, pause, sleep, interrupt).  A fast path
  that breaks out of the switch is the value \<open>None\<close>.
\<close>

definition put_reg :: "u8 \<Rightarrow> u8 \<Rightarrow> machine \<Rightarrow> machine" where
  "put_reg r v m = m\<lparr>gpr := (gpr m)(r := v)\<rparr>"

text \<open>\<open>program_counter_ += 1U; advance_cycles(n);\<close>\<close>

definition next_pc :: "u64 \<Rightarrow> machine \<Rightarrow> machine" where
  "next_pc n m = advance_cycles n (m\<lparr>program_counter := program_counter m + 1\<rparr>)"

definition fast_sub_zero :: "bool \<Rightarrow> u8 \<Rightarrow> u8 \<Rightarrow> u8 \<Rightarrow> u8 \<Rightarrow> u8" where
  "fast_sub_zero prev_zero lhs rhs res s =
     set_flag_bit Zero (prev_zero \<and> res = 0) (fast_sub_flags lhs rhs res s)"

definition step_fast_reg :: "u16 \<Rightarrow> machine \<Rightarrow> machine option" where
  "step_fast_reg opc m =
     (let k = drop_bit 10 opc; dest = decode_destination_register opc; src = decode_source_register opc;
          lhs = gpr m dest; rhs = gpr m src; carry = of_flag (flag Carry (sreg m));
          prev_zero = flag Zero (sreg m)
      in if k = 0 \<and> opc = 0 then Some (next_pc 1 m)
         else if k = 3 \<and> opc AND 0xFC00 = 0x0C00
         then let res = lhs + rhs
              in Some (next_pc 1 (upd_sreg (fast_add_flags lhs rhs res) (put_reg dest res m)))
         else if k = 7 \<and> opc AND 0xFC00 = 0x1C00
         then let res = lhs + rhs + carry
              in Some (next_pc 1 (upd_sreg (fast_add_flags lhs rhs res) (put_reg dest res m)))
         else if k = 5 \<and> opc AND 0xFC00 = 0x1400
         then let res = lhs - rhs in Some (next_pc 1 (upd_sreg (fast_sub_flags lhs rhs res) m))
         else if k = 6 \<and> opc AND 0xFC00 = 0x1800
         then let res = lhs - rhs
              in Some (next_pc 1 (upd_sreg (fast_sub_flags lhs rhs res) (put_reg dest res m)))
         else if k = 8 \<and> opc AND 0xFC00 = 0x2000
         then let res = lhs AND rhs
              in Some (next_pc 1 (upd_sreg (fast_logic_flags res) (put_reg dest res m)))
         else if k = 9 \<and> opc AND 0xFC00 = 0x2400
         then let res = lhs XOR rhs
              in Some (next_pc 1 (upd_sreg (fast_logic_flags res) (put_reg dest res m)))
         else if k = 11 \<and> opc AND 0xFC00 = 0x2C00 then Some (next_pc 1 (put_reg dest rhs m))
         else if k = 1 \<and> opc AND 0xFC00 = 0x0400
         then let res = lhs - rhs - carry
              in Some (next_pc 1 (upd_sreg (fast_sub_zero prev_zero lhs rhs res) m))
         else if k = 2 \<and> opc AND 0xFC00 = 0x0800
         then let res = lhs - rhs - carry
              in Some (next_pc 1 (upd_sreg (fast_sub_zero prev_zero lhs rhs res) (put_reg dest res m)))
         else None)"

definition step_fast_imm :: "u16 \<Rightarrow> machine \<Rightarrow> machine option" where
  "step_fast_imm opc m =
     (let k = drop_bit 10 opc; dest = decode_upper_register opc; imm = decode_immediate opc;
          lhs = gpr m dest; carry = of_flag (flag Carry (sreg m)); prev_zero = flag Zero (sreg m)
      in if k = 12 \<and> opc AND 0xF000 = 0x3000
         then let res = lhs - imm in Some (next_pc 1 (upd_sreg (fast_sub_flags lhs imm res) m))
         else if k = 16 \<and> opc AND 0xF000 = 0x4000
         then let res = lhs - imm - carry
              in Some (next_pc 1 (upd_sreg (fast_sub_zero prev_zero lhs imm res) (put_reg dest res m)))
         else if k = 20 \<and> opc AND 0xF000 = 0x5000
         then let res = lhs - imm
              in Some (next_pc 1 (upd_sreg (fast_sub_flags lhs imm res) (put_reg dest res m)))
         else if k = 24 \<and> opc AND 0xF000 = 0x6000
         then let res = lhs OR imm
              in Some (next_pc 1 (upd_sreg (fast_logic_flags res) (put_reg dest res m)))
         else if k = 28 \<and> opc AND 0xF000 = 0x7000
         then let res = lhs AND imm
              in Some (next_pc 1 (upd_sreg (fast_logic_flags res) (put_reg dest res m)))
         else None)"

text \<open>LDD and STD look at the SRAM range first and go to the data bus otherwise.\<close>

definition fast_load :: "u16 \<Rightarrow> machine \<Rightarrow> u8 \<times> machine" where
  "fast_load addr m =
     (if range_contains (sram_range (device (bus m))) addr then (data (bus m) ! unat addr, m)
      else read_data_bus addr m)"

definition fast_store :: "u16 \<Rightarrow> u8 \<Rightarrow> machine \<Rightarrow> machine" where
  "fast_store addr v m =
     (if range_contains (sram_range (device (bus m))) addr
      then upd_bus (\<lambda>b. b\<lparr>data := (data b)[unat addr := v]\<rparr>) m
      else write_data_bus addr v m)"

definition fast_ldd :: "u8 \<Rightarrow> u16 \<Rightarrow> machine \<Rightarrow> machine" where
  "fast_ldd low opc m =
     (let (v, m) = fast_load (read_register_pair low m + ucast (decode_displacement_q opc)) m
      in put_reg (decode_destination_register opc) v m)"

definition fast_std :: "u8 \<Rightarrow> u16 \<Rightarrow> machine \<Rightarrow> machine" where
  "fast_std low opc m =
     fast_store (read_register_pair low m + ucast (decode_displacement_q opc))
       (gpr m (decode_destination_register opc)) m"

definition fast_in :: "u16 \<Rightarrow> machine \<Rightarrow> machine" where
  "fast_in opc m =
     (let (v, m) = read_data_bus (low_io_address (decode_io6 opc)) m
      in put_reg (decode_destination_register opc) v m)"

definition fast_out :: "u16 \<Rightarrow> machine \<Rightarrow> machine" where
  "fast_out opc m =
     write_data_bus (low_io_address (decode_io6 opc)) (gpr m (decode_destination_register opc)) m"

definition next_pc2 :: "u64 \<Rightarrow> machine \<Rightarrow> machine" where
  "next_pc2 n m = advance_cycles n (m\<lparr>program_counter := program_counter m + 2\<rparr>)"

definition step_fast_mem :: "u16 \<Rightarrow> machine \<Rightarrow> machine option" where
  "step_fast_mem opc m =
     (let k = drop_bit 10 opc; reg = decode_destination_register opc;
          no_operand = unat (program_counter m + 1) \<ge> length (flash (bus m))
      in if k < 32 \<or> k > 47 then None
         else if opc AND 0xD208 = 0x8008 then Some (next_pc 2 (fast_ldd 28 opc m))
         else if opc AND 0xD208 = 0x8000 then Some (next_pc 2 (fast_ldd 30 opc m))
         else if opc AND 0xD208 = 0x8208 then Some (next_pc 2 (fast_std 28 opc m))
         else if opc AND 0xD208 = 0x8200 then Some (next_pc 2 (fast_std 30 opc m))
         else if opc AND 0xF800 = 0xB000 then Some (next_pc 1 (fast_in opc m))
         else if opc AND 0xF800 = 0xB800 then Some (next_pc 1 (fast_out opc m))
         else if opc AND 0xFE0F = 0x9000
         then if no_operand then Some (m\<lparr>state := Halted\<rparr>)
              else let (addr, b) = read_program_word (program_counter m + 1) (bus m);
                       (v, m) = read_data_bus addr (m\<lparr>bus := b\<rparr>)
                   in Some (next_pc2 2 (put_reg reg v m))
         else if opc AND 0xFE0F = 0x9200
         then if no_operand then Some (m\<lparr>state := Halted\<rparr>)
              else let (addr, b) = read_program_word (program_counter m + 1) (bus m)
                   in Some (next_pc2 2 (write_data_bus addr (gpr m reg) (m\<lparr>bus := b\<rparr>)))
         else None)"

definition is_two_word :: "u16 \<Rightarrow> bool" where
  "is_two_word opc \<longleftrightarrow>
     opc AND 0xFE0E = 0x940C \<or> opc AND 0xFE0E = 0x940E \<or> opc AND 0xFE0F = 0x9000 \<or> opc AND 0xFE0F = 0x9200"

text \<open>The skips of the fast path read the next word straight from the flash array.\<close>

definition fast_skip_taken :: "u16 \<Rightarrow> machine \<Rightarrow> bool" where
  "fast_skip_taken opc m =
     (let bit_set = drop_bit (unat (opc AND 0x07)) (gpr m (decode_destination_register opc)) AND 1 \<noteq> 0
      in if opc AND 0x0200 \<noteq> 0 then bit_set else \<not> bit_set)"

definition fast_branch_target :: "u16 \<Rightarrow> u32 \<Rightarrow> u32" where
  "fast_branch_target opc pc =
     (let d = uint (drop_bit 3 opc) AND 0x7F; d = (if d AND 0x40 \<noteq> 0 then d - 0x80 else d)
      in pc + 1 + word_of_int d)"

definition step_fast_skip :: "u16 \<Rightarrow> machine \<Rightarrow> machine" where
  "step_fast_skip opc m =
     (if fast_skip_taken opc m
      then if unat (program_counter m + 1) \<ge> length (flash (bus m)) then m\<lparr>state := Halted\<rparr>
           else let n = (if is_two_word (flash (bus m) ! unat (program_counter m + 1)) then 3 else 2)
                in advance_cycles n (m\<lparr>program_counter := program_counter m + ucast n\<rparr>)
      else next_pc 1 m)"

definition step_fast_branch :: "bool \<Rightarrow> u16 \<Rightarrow> machine \<Rightarrow> machine" where
  "step_fast_branch taken opc m =
     (if taken
      then advance_cycles 2 (m\<lparr>program_counter := fast_branch_target opc (program_counter m)\<rparr>)
      else next_pc 1 m)"

definition step_fast_flow :: "u16 \<Rightarrow> machine \<Rightarrow> machine option" where
  "step_fast_flow opc m =
     (let k = drop_bit 10 opc
      in if k \<ge> 48 \<and> k \<le> 51 \<and> opc AND 0xF000 = 0xC000
         then Some (advance_cycles 2
                (m\<lparr>program_counter := program_counter m + 1 + word_of_int (decode_rel12 opc)\<rparr>))
         else if k \<ge> 56 \<and> k \<le> 59 \<and> opc AND 0xF000 = 0xE000
         then if opc AND 0xFF0F = 0xEF0F then None
              else Some (next_pc 1 (put_reg (decode_upper_register opc) (decode_immediate opc) m))
         else if k \<ge> 60
         then if opc AND 0xFE08 = 0xFE00 \<or> opc AND 0xFE08 = 0xFC00 then Some (step_fast_skip opc m)
              else if opc AND 0xFC07 = 0xF001 then Some (step_fast_branch (flag Zero (sreg m)) opc m)
              else if opc AND 0xFC07 = 0xF401 then Some (step_fast_branch (\<not> flag Zero (sreg m)) opc m)
              else if opc AND 0xFC07 = 0xF000 then Some (step_fast_branch (flag Carry (sreg m)) opc m)
              else if opc AND 0xFC07 = 0xF400 then Some (step_fast_branch (\<not> flag Carry (sreg m)) opc m)
              else None
         else None)"

definition or_else :: "'a option \<Rightarrow> 'a option \<Rightarrow> 'a option" where
  "or_else x y = (case x of Some a \<Rightarrow> Some a | None \<Rightarrow> y)"

definition step_fast :: "u16 \<Rightarrow> machine \<Rightarrow> machine option" where
  "step_fast opc m =
     or_else (step_fast_reg opc m) (or_else (step_fast_imm opc m)
       (or_else (step_fast_mem opc m) (step_fast_flow opc m)))"

text \<open>The table dispatch; the operand of a two-word instruction is fetched from the bus.\<close>

definition decode_for_step :: "u16 \<Rightarrow> machine \<Rightarrow> decoded_instruction \<times> machine" where
  "decode_for_step opc m =
     (if is_two_word opc
      then let (w, b) = read_program_word (program_counter m + 1) (bus m)
           in (\<lparr>words = (opc, w), opcode = opc, word_address = program_counter m, word_size = 2\<rparr>, m\<lparr>bus := b\<rparr>)
      else (\<lparr>words = (opc, 0), opcode = opc, word_address = program_counter m, word_size = 1\<rparr>, m))"

definition step_slow :: "u16 \<Rightarrow> machine \<Rightarrow> machine" where
  "step_slow opc m =
     (case fast_decode opc of
        Some j \<Rightarrow>
          (let r = instruction_table ! j; (i, m) = decode_for_step opc m;
               m = notify_instruction (word_address i) opc (trace_mnemonic opc r) m
           in if trace_hook m \<noteq> None \<and> state m = Paused then m
              else synchronize_if_needed (row_handler r i m))
      | None \<Rightarrow> m\<lparr>state := Halted\<rparr>)"

definition execute_next :: "machine \<Rightarrow> machine" where
  "execute_next m =
     (let m = m\<lparr>reset_triggered := False, instructions_executed := instructions_executed m + 1\<rparr>;
          (opc, b) = read_program_word (program_counter m) (bus m);
          m = m\<lparr>bus := b\<rparr>
      in case step_fast opc m of Some m \<Rightarrow> m | None \<Rightarrow> step_slow opc m)"

definition step_sleeping :: "machine \<Rightarrow> machine" where
  "step_sleeping m =
     (let m = (if \<not> interrupt_pending m
               then advance_cycles 1 (m\<lparr>sleep_cycles := sleep_cycles m + 1\<rparr>) else m)
      in if interrupt_pending m
         then let m = advance_cycles (ucast (get_sleep_wake_latency m)) m;
                  m = upd_control (\<lambda>c. c\<lparr>cc_sleeping := False\<rparr>) (m\<lparr>state := Running\<rparr>);
                  (serviced, m) = service_interrupt_if_needed m
              in if serviced then synchronize_if_needed m else m
         else m)"

definition step :: "machine \<Rightarrow> machine" where
  "step m =
     (if loaded_program_words (bus m) = 0 then m\<lparr>state := Halted\<rparr>
      else if should_stall_cpu (bus m) (program_counter m) then advance_cycles 1 m
      else if program_counter m \<ge> loaded_program_words (bus m) then m\<lparr>state := Halted\<rparr>
      else if state m = Paused then m
      else let m = refresh_interrupt_pending m
           in if state m = Sleeping then step_sleeping m
              else if interrupt_delay m > 0
              then execute_next (m\<lparr>interrupt_delay := interrupt_delay m - 1\<rparr>)
              else if interrupt_pending m
              then (case service_interrupt_if_needed m of
                      (True, m) \<Rightarrow> synchronize_if_needed m
                    | (False, m) \<Rightarrow> execute_next m)
              else execute_next m)"

end
