(* ===== verification/Run.thy ===== *)
theory Run
  imports Step
begin

text \<open>
  \<open>AvrCpu::run\<close> and \<open>handle_slow_path\<close> (\<open>src/core/avr_cpu.cpp\<close>) in the build without
  the JIT: the loop that batches the cycles of fast instructions in \<open>pending_cycles\<close> and
  keeps the program counter in the local \<open>pc\<close>.  The accumulator of an iteration is the
  triple of the machine, \<open>pc\<close> and \<open>pending_cycles\<close>; \<open>None\<close> is
  \<open>slow_path_needed\<close>.
\<close>

type_synonym run_acc = "machine \<times> u32 \<times> u32"

definition run_fast_reg :: "u16 \<Rightarrow> run_acc \<Rightarrow> run_acc option" where
  "run_fast_reg opc acc =
     (let (m, pc, pending) = acc;
          k = drop_bit 10 opc; dest = decode_destination_register opc; src = decode_source_register opc;
          lhs = gpr m dest; rhs = gpr m src; carry = of_flag (flag Carry (sreg m));
          prev_zero = flag Zero (sreg m); ok = (\<lambda>m. Some (m, pc + 1, pending + 1))
      in if k = 0 \<and> opc = 0 then ok m
         else if k = 3 \<and> opc AND 0xFC00 = 0x0C00
         then let res = lhs + rhs in ok (upd_sreg (fast_add_flags lhs rhs res) (put_reg dest res m))
         else if k = 7 \<and> opc AND 0xFC00 = 0x1C00
         then let res = lhs + rhs + carry in ok (upd_sreg (fast_add_flags lhs rhs res) (put_reg dest res m))
         else if k = 5 \<and> opc AND 0xFC00 = 0x1400
         then let res = lhs - rhs in ok (upd_sreg (fast_sub_flags lhs rhs res) m)
         else if k = 6 \<and> opc AND 0xFC00 = 0x1800
         then let res = lhs - rhs in ok (upd_sreg (fast_sub_flags lhs rhs res) (put_reg dest res m))
         else if k = 8 \<and> opc AND 0xFC00 = 0x2000
         then let res = lhs AND rhs in ok (upd_sreg (fast_logic_flags res) (put_reg dest res m))
         else if k = 9 \<and> opc AND 0xFC00 = 0x2400
         then let res = lhs XOR rhs in ok (upd_sreg (fast_logic_flags res) (put_reg dest res m))
         else if k = 11 \<and> opc AND 0xFC00 = 0x2C00 then ok (put_reg dest rhs m)
         else if k = 1 \<and> opc AND 0xFC00 = 0x0400
         then let res = lhs - rhs - carry in ok (upd_sreg (fast_sub_zero prev_zero lhs rhs res) m)
         else if k = 2 \<and> opc AND 0xFC00 = 0x0800
         then let res = lhs - rhs - carry
              in ok (upd_sreg (fast_sub_zero prev_zero lhs rhs res) (put_reg dest res m))
         else None)"

definition run_fast_imm :: "u16 \<Rightarrow> run_acc \<Rightarrow> run_acc option" where
  "run_fast_imm opc acc =
     (let (m, pc, pending) = acc;
          k = drop_bit 10 opc; dest = decode_upper_register opc; imm = decode_immediate opc;
          lhs = gpr m dest; carry = of_flag (flag Carry (sreg m)); prev_zero = flag Zero (sreg m);
          ok = (\<lambda>m. Some (m, pc + 1, pending + 1))
      in if k = 12 \<and> opc AND 0xF000 = 0x3000
         then let res = lhs - imm in ok (upd_sreg (fast_sub_flags lhs imm res) m)
         else if k = 16 \<and> opc AND 0xF000 = 0x4000
         then let res = lhs - imm - carry
              in ok (upd_sreg (fast_sub_zero prev_zero lhs imm res) (put_reg dest res m))
         else if k = 20 \<and> opc AND 0xF000 = 0x5000
         then let res = lhs - imm in ok (upd_sreg (fast_sub_flags lhs imm res) (put_reg dest res m))
         else if k = 24 \<and> opc AND 0xF000 = 0x6000
         then let res = lhs OR imm in ok (upd_sreg (fast_logic_flags res) (put_reg dest res m))
         else if k = 28 \<and> opc AND 0xF000 = 0x7000
         then let res = lhs AND imm in ok (upd_sreg (fast_logic_flags res) (put_reg dest res m))
         else None)"

text \<open>\<open>if (pending_cycles > 0) { advance_cycles(pending_cycles); pending_cycles = 0; }\<close>\<close>

definition flush :: "u32 \<Rightarrow> machine \<Rightarrow> machine" where
  "flush pending m = (if pending > 0 then advance_cycles (ucast pending) m else m)"

text \<open>
  The inlined SPM: it does not flush the pending cycles, passes only the five command bits
  and tests bit 0 of the opcode for the post-increment.
\<close>

definition run_fast_spm :: "u16 \<Rightarrow> run_acc \<Rightarrow> run_acc" where
  "run_fast_spm opc acc =
     (let (m, pc, pending) = acc; spmcsr_addr = spmcsr_address (device (bus m));
          m = (if spmcsr_addr \<noteq> 0
               then let (spmcsr, m) = read_data spmcsr_addr m
                    in if spmcsr AND 0x01 \<noteq> 0 \<and> spm_lock_timeout m > 0
                          \<and> (spmcsr AND 0x40 = 0 \<or> spmcsr AND 0x10 \<noteq> 0)
                       then let v = ucast (gpr m 0) OR push_bit 8 (ucast (gpr m 1));
                                m = upd_bus (execute_spm_command (spmcsr AND 0x1F) (ucast (z_pointer m)) v) m
                            in write_data_bus spmcsr_addr (spmcsr AND 0xE0) m
                       else m
               else m);
          m = m\<lparr>spm_lock_timeout := 0\<rparr>;
          m = (if opc AND 0x0001 \<noteq> 0
               then let z = read_register_pair 30 m
                    in put_reg 31 (ucast (drop_bit 8 (z + 2) AND 0xFF)) (put_reg 30 (ucast ((z + 2) AND 0xFF)) m)
               else m)
      in (advance_cycles 1 m, pc + 1, pending))"

definition run_fast_lds :: "u16 \<Rightarrow> run_acc \<Rightarrow> run_acc" where
  "run_fast_lds opc acc =
     (let (m, pc, pending) = acc; m = flush pending m
      in if unat (pc + 1) \<ge> length (flash (bus m)) then (m\<lparr>state := Halted\<rparr>, pc, 0)
         else let addr = flash (bus m) ! unat (pc + 1); (v, m) = read_data_bus addr m
              in (put_reg (decode_destination_register opc) v m, pc + 2, 2))"

definition run_fast_sts :: "u16 \<Rightarrow> run_acc \<Rightarrow> run_acc" where
  "run_fast_sts opc acc =
     (let (m, pc, pending) = acc; m = flush pending m
      in if unat (pc + 1) \<ge> length (flash (bus m)) then (m\<lparr>state := Halted\<rparr>, pc, 0)
         else let addr = flash (bus m) ! unat (pc + 1)
              in (write_data_bus addr (gpr m (decode_destination_register opc)) m, pc + 2, 2))"

definition run_fast_mem :: "u16 \<Rightarrow> run_acc \<Rightarrow> run_acc option" where
  "run_fast_mem opc acc =
     (let (m, pc, pending) = acc; k = drop_bit 10 opc
      in if k < 32 \<or> k > 47 then None
         else if opc AND 0xD208 = 0x8008 then Some (fast_ldd 28 opc m, pc + 1, pending + 2)
         else if opc AND 0xD208 = 0x8000 then Some (fast_ldd 30 opc m, pc + 1, pending + 2)
         else if opc AND 0xD208 = 0x8208 then Some (fast_std 28 opc m, pc + 1, pending + 2)
         else if opc AND 0xD208 = 0x8200 then Some (fast_std 30 opc m, pc + 1, pending + 2)
         else if opc AND 0xF800 = 0xB000 then Some (fast_in opc (flush pending m), pc + 1, 1)
         else if opc AND 0xF800 = 0xB800 then Some (fast_out opc (flush pending m), pc + 1, 1)
         else if opc AND 0xFE0F = 0x9000 then Some (run_fast_lds opc acc)
         else if opc AND 0xFE0F = 0x9200 then Some (run_fast_sts opc acc)
         else if opc OR 0x0010 = 0x95F8 then Some (run_fast_spm opc acc)
         else None)"

definition run_fast_skip :: "u16 \<Rightarrow> run_acc \<Rightarrow> run_acc" where
  "run_fast_skip opc acc =
     (let (m, pc, pending) = acc
      in if fast_skip_taken opc m
         then if unat (pc + 1) \<ge> length (flash (bus m)) then (m\<lparr>state := Halted\<rparr>, pc, pending)
              else let n = (if is_two_word (flash (bus m) ! unat (pc + 1)) then 3 else 2)
                   in (m, pc + n, pending + n)
         else (m, pc + 1, pending + 1))"

definition run_fast_branch :: "bool \<Rightarrow> u16 \<Rightarrow> run_acc \<Rightarrow> run_acc" where
  "run_fast_branch taken opc acc =
     (let (m, pc, pending) = acc
      in if taken then (m, fast_branch_target opc pc, pending + 2) else (m, pc + 1, pending + 1))"

definition run_fast_flow :: "u16 \<Rightarrow> run_acc \<Rightarrow> run_acc option" where
  "run_fast_flow opc acc =
     (let (m, pc, pending) = acc; k = drop_bit 10 opc
      in if k \<ge> 48 \<and> k \<le> 51 \<and> opc AND 0xF000 = 0xC000
         then Some (m, pc + 1 + word_of_int (decode_rel12 opc), pending + 2)
         else if k \<ge> 56 \<and> k \<le> 59 \<and> opc AND 0xF000 = 0xE000
         then if opc AND 0xFF0F = 0xEF0F then None
              else Some (put_reg (decode_upper_register opc) (decode_immediate opc) m, pc + 1, pending + 1)
         else if k \<ge> 60
         then if opc AND 0xFE08 = 0xFE00 \<or> opc AND 0xFE08 = 0xFC00 then Some (run_fast_skip opc acc)
              else if opc AND 0xFC07 = 0xF001 then Some (run_fast_branch (flag Zero (sreg m)) opc acc)
              else if opc AND 0xFC07 = 0xF401 then Some (run_fast_branch (\<not> flag Zero (sreg m)) opc acc)
              else if opc AND 0xFC07 = 0xF000 then Some (run_fast_branch (flag Carry (sreg m)) opc acc)
              else if opc AND 0xFC07 = 0xF400 then Some (run_fast_branch (\<not> flag Carry (sreg m)) opc acc)
              else None
         else None)"

definition run_fast :: "u16 \<Rightarrow> run_acc \<Rightarrow> run_acc option" where
  "run_fast opc acc =
     or_else (run_fast_reg opc acc) (or_else (run_fast_imm opc acc)
       (or_else (run_fast_mem opc acc) (run_fast_flow opc acc)))"

section \<open>The slow path\<close>

text \<open>
  The cases \<open>handle_slow_path\<close> inlines, by the index of the instruction's row; the pair is
  the machine and the pending cycles.
\<close>

definition pc_plus :: "u32 \<Rightarrow> machine \<Rightarrow> machine" where
  "pc_plus n m = m\<lparr>program_counter := program_counter m + n\<rparr>"

definition slow_arith :: "nat \<Rightarrow> u16 \<Rightarrow> machine \<Rightarrow> machine option" where
  "slow_arith j opc m =
     (let dest = decode_destination_register opc; rr = gpr m (decode_source_register opc);
          upper = decode_upper_register opc; imm = decode_immediate opc;
          carry = of_flag (flag Carry (sreg m)); prev_zero = flag Zero (sreg m)
      in if j = 22 \<or> j = 25
         then let d = (if j = 25 then upper else dest); rhs = (if j = 25 then imm else rr);
                  lhs = gpr m d; res = lhs - rhs; m = (if j = 22 then put_reg d res m else m)
              in Some (pc_plus 1 (upd_sreg (fast_sub_flags lhs rhs res) m))
         else if j = 26
         then let lhs = gpr m upper; res = lhs - imm
              in Some (pc_plus 1 (upd_sreg (fast_sub_flags lhs imm res) (put_reg upper res m)))
         else if j = 27 \<or> j = 38
         then let res = (if j = 27 then gpr m upper AND imm else gpr m upper OR imm)
              in Some (pc_plus 1 (upd_sreg (fast_logic_flags res) (put_reg upper res m)))
         else if j = 15
         then let lhs = gpr m dest; res = lhs + rr + carry
              in Some (pc_plus 1 (upd_sreg (fast_add_flags lhs rr res) (put_reg dest res m)))
         else if j = 20
         then let lhs = gpr m dest; res = lhs - rr - carry
              in Some (pc_plus 1 (upd_sreg (fast_sub_zero prev_zero lhs rr res) (put_reg dest res m)))
         else if j = 21
         then let lhs = gpr m upper; res = lhs - imm - carry
              in Some (pc_plus 1 (upd_sreg (fast_sub_zero prev_zero lhs imm res) (put_reg upper res m)))
         else if j = 39
         then let res = gpr m dest XOR rr
              in Some (pc_plus 1 (upd_sreg (fast_logic_flags res) (put_reg dest res m)))
         else None)"

definition slow_branch :: "bool \<Rightarrow> u16 \<Rightarrow> u32 \<Rightarrow> machine \<Rightarrow> machine \<times> u32" where
  "slow_branch taken opc pending m =
     (if taken then (m\<lparr>program_counter := fast_branch_target opc (program_counter m)\<rparr>, pending + 2)
      else (pc_plus 1 m, pending + 1))"

text \<open>
  IN and OUT go to \<open>MemoryBus::read_data\<close> and \<open>write_data\<close> here, not through the CPU's
  data bus.
\<close>

definition slow_in :: "u16 \<Rightarrow> machine \<Rightarrow> machine" where
  "slow_in opc m =
     (let (v, m) = read_data (low_io_address (decode_io6 opc)) m
      in pc_plus 1 (put_reg (decode_destination_register opc) v m))"

definition slow_out :: "u16 \<Rightarrow> machine \<Rightarrow> machine" where
  "slow_out opc m =
     pc_plus 1 (write_data (low_io_address (decode_io6 opc)) (gpr m (decode_destination_register opc)) m)"

definition slow_handler :: "nat \<Rightarrow> u16 \<Rightarrow> u32 \<Rightarrow> machine \<Rightarrow> machine \<times> u32" where
  "slow_handler j opc pending m =
     (let pc = program_counter m; two = is_two_word opc;
          w = (if unat (pc + 1) < length (flash (bus m)) then flash (bus m) ! unat (pc + 1) else 0xFFFF);
          i = \<lparr>words = (opc, if two then w else 0), opcode = opc, word_address = pc,
               word_size = (if two then 2 else 1)\<rparr>
      in (row_handler (instruction_table ! j) i (flush pending m), 0))"

definition slow_execute :: "nat \<Rightarrow> u16 \<Rightarrow> u32 \<Rightarrow> machine \<Rightarrow> machine \<times> u32" where
  "slow_execute j opc pending m =
     (case slow_arith j opc m of
        Some m \<Rightarrow> (m, pending + 1)
      | None \<Rightarrow>
          if j = 44 then (slow_in opc (flush pending m), 1)
          else if j = 45 then (slow_out opc (flush pending m), 1)
          else if j = 104 then slow_branch (flag Zero (sreg m)) opc pending m
          else if j = 105 then slow_branch (\<not> flag Zero (sreg m)) opc pending m
          else if j = 100 then slow_branch (flag Carry (sreg m)) opc pending m
          else if j = 101 then slow_branch (\<not> flag Carry (sreg m)) opc pending m
          else if j = 54 then (pc_plus 1 (fast_ldd 28 opc m), pending + 2)
          else if j = 58 then (pc_plus 1 (fast_ldd 30 opc m), pending + 2)
          else if j = 75 then (pc_plus 1 (fast_std 28 opc m), pending + 2)
          else if j = 79 then (pc_plus 1 (fast_std 30 opc m), pending + 2)
          else slow_handler j opc pending m)"

text \<open>\<open>handle_slow_path\<close>: whether to leave the loop, the machine and the pending cycles.\<close>

definition handle_slow_path :: "u16 \<Rightarrow> u32 \<Rightarrow> machine \<Rightarrow> bool \<times> machine \<times> u32" where
  "handle_slow_path opc pending m =
     (case fast_decode opc of
        None \<Rightarrow> (True, m\<lparr>state := Halted\<rparr>, pending)
      | Some j \<Rightarrow>
          if trace_hook m \<noteq> None
          then let m = flush pending m;
                   m = notify_instruction (program_counter m) opc (trace_mnemonic opc (instruction_table ! j)) m
               in if state m = Paused then (True, m, 0)
                  else let (m, pending) = slow_execute j opc 0 m in (False, m, pending)
          else let (m, pending) = slow_execute j opc pending m in (False, m, pending))"

section \<open>The loop\<close>

record run_state =
  rs_machine :: machine
  rs_pending :: u32
  rs_domains :: u8
  rs_break :: bool

text \<open>\<open>advance_cycles(pending_cycles, cached_domains)\<close>, then refresh the cached domains.\<close>

definition flush_cached :: "run_state \<Rightarrow> run_state" where
  "flush_cached s =
     (if rs_pending s > 0
      then let m = advance_cycles_in (ucast (rs_pending s)) (rs_domains s) (rs_machine s)
           in s\<lparr>rs_machine := m, rs_pending := 0, rs_domains := active_clock_domains m\<rparr>
      else s)"

definition break_loop :: "run_state \<Rightarrow> run_state" where
  "break_loop s = s\<lparr>rs_break := True\<rparr>"

text \<open>
  The interrupt check at the head of an iteration: \<open>Some s\<close> when the iteration ends there
  (serviced, or no longer running).
\<close>

datatype 'a verdict = Proceed 'a | Finished 'a

definition run_interrupts :: "run_state \<Rightarrow> run_state verdict" where
  "run_interrupts s =
     (if interrupt_pending (rs_machine s)
      then let s = flush_cached s; m = rs_machine s;
               m = (if interrupt_delay m > 0 then m\<lparr>interrupt_delay := interrupt_delay m - 1\<rparr> else m);
               m = refresh_interrupt_pending m;
               (serviced, m) = (if interrupt_pending m then service_interrupt_if_needed m else (False, m));
               s = s\<lparr>rs_machine := m\<rparr>
           in if state m \<noteq> Running then Finished (break_loop s)
              else if serviced then Finished s
              else Proceed s
      else Proceed s)"

text \<open>One instruction, from the opcode fetch to the write-back of \<open>pc\<close>.\<close>

definition run_instruction :: "run_state \<Rightarrow> run_state" where
  "run_instruction s =
     (let m = rs_machine s; pc = program_counter m; opc = flash (bus m) ! unat pc;
          (stop, m, pc, pending) =
            (case (if trace_hook m \<noteq> None then None else run_fast opc (m, pc, rs_pending s)) of
               Some (m, pc, pending) \<Rightarrow> (False, m, pc, pending)
             | None \<Rightarrow>
                 (case handle_slow_path opc (rs_pending s) m of
                    (stop, m, pending) \<Rightarrow> (stop, m, program_counter m, pending)))
      in if stop then break_loop (s\<lparr>rs_machine := m, rs_pending := pending\<rparr>)
         else if reset_triggered m then break_loop (s\<lparr>rs_machine := m, rs_pending := 0\<rparr>)
         else s\<lparr>rs_machine := m\<lparr>instructions_executed := instructions_executed m + 1,
                                 program_counter := pc\<rparr>,
                rs_pending := pending\<rparr>)"

definition run_checkpoint :: "u64 \<Rightarrow> bool \<Rightarrow> run_state \<Rightarrow> run_state" where
  "run_checkpoint check_interval has_sync s =
     (if rs_break s \<or> \<not> ucast (rs_pending s) \<ge> check_interval then s
      else let m = advance_cycles_in (ucast (rs_pending s)) (rs_domains s) (rs_machine s);
               s = s\<lparr>rs_machine := m, rs_pending := 0, rs_domains := active_clock_domains m\<rparr>
           in if reset_triggered m then break_loop s
              else if has_sync then s\<lparr>rs_machine := synchronize_if_needed m\<rparr> else s)"

definition run_body :: "u32 \<Rightarrow> u64 \<Rightarrow> bool \<Rightarrow> run_state \<Rightarrow> run_state" where
  "run_body loaded_words check_interval has_sync s =
     (if reset_triggered (rs_machine s) then break_loop (s\<lparr>rs_pending := 0\<rparr>)
      else case run_interrupts s of
             Finished s \<Rightarrow> s
           | Proceed s \<Rightarrow>
               if should_stall_cpu (bus (rs_machine s)) (program_counter (rs_machine s))
               then let s = flush_cached s
                    in s\<lparr>rs_machine := advance_cycles_in 1 (rs_domains s)
                           (upd_bus consume_stall_cycle (rs_machine s))\<rparr>
               else if program_counter (rs_machine s) \<ge> loaded_words
               then let s = flush_cached s
                    in break_loop (s\<lparr>rs_machine := (rs_machine s)\<lparr>state := Halted\<rparr>\<rparr>)
               else run_checkpoint check_interval has_sync (run_instruction s))"

definition run_continues :: "u64 \<Rightarrow> run_state \<Rightarrow> bool" where
  "run_continues cycle_target s \<longleftrightarrow>
     \<not> rs_break s \<and> state (rs_machine s) = Running \<and>
     cycles (rs_machine s) + ucast (rs_pending s) < cycle_target"

definition step_continues :: "u64 \<Rightarrow> machine \<Rightarrow> bool" where
  "step_continues cycle_target m \<longleftrightarrow>
     (state m = Running \<or> state m = Sleeping) \<and> \<not> reset_triggered m \<and> cycles m < cycle_target"

definition run :: "u64 \<Rightarrow> machine \<Rightarrow> machine" where
  "run cycle_budget m =
     (if state m = Paused then m
      else let m = m\<lparr>reset_triggered := False\<rparr>;
               m = (if state m \<noteq> Sleeping then m\<lparr>state := Running\<rparr> else m);
               cycle_target = cycles m + cycle_budget;
               s = \<lparr>rs_machine = m, rs_pending = 0, rs_domains = active_clock_domains m, rs_break = False\<rparr>
           in case while_option (run_continues cycle_target)
                     (run_body (loaded_program_words (bus m)) (interrupt_check_interval m)
                        (sync_engine_ptr m \<noteq> None)) s of
                None \<Rightarrow> m\<lparr>hung := True\<rparr>
              | Some s \<Rightarrow>
                  let m = (if rs_pending s > 0
                           then advance_cycles_in (ucast (rs_pending s)) (rs_domains s) (rs_machine s)
                           else rs_machine s)
                  in case while_option (step_continues cycle_target) step m of
                       Some m \<Rightarrow> m
                     | None \<Rightarrow> m\<lparr>hung := True\<rparr>)"

end
