(* ===== verification/Passing.thy ===== *)
theory Passing
  imports Run
begin

text \<open>
  The passing of time as an interface.  \<open>MemoryBus::tick_peripherals\<close> and
  \<open>AvrCpu::advance_cycles\<close> reach the peripherals, the scheduler and the CPU through a
  handful of elementary steps; a reflexive and transitive relation that holds of each of
  these steps holds of every amount of time.  The locale states the steps once, and its
  lemmas carry them through the event loop and the clock.
\<close>

locale time_stable =
  fixes R :: "machine \<Rightarrow> machine \<Rightarrow> bool"
  assumes stable_refl: "R m m"
    and stable_trans: "R m m' \<Longrightarrow> R m' m'' \<Longrightarrow> R m m''"
    and stable_scheduler: "R m (upd_bus (\<lambda>b. b\<lparr>scheduler := s b\<rparr>) m)"
    and stable_last_update: "R m (upd_bus (set_last_update i t) m)"
    and stable_periph_tick: "R m (periph_tick i e m)"
    and stable_callback: "R m (run_callback cb m)"
    and stable_bookkeeping: "R m (upd_bus (\<lambda>b. tick_lpm_special e (tick_io_stall e (gate_domains e d b))) m)"
    and stable_domains: "R m (upd_bus (\<lambda>b. b\<lparr>current_active_domains := d, bus_cpu_cycles := c b\<rparr>) m)"
    and stable_spm: "R m (upd_bus (tick_spm e) m)"
    and stable_hung: "R m (m\<lparr>hung := True\<rparr>)"
    and stable_publish: "R m (publish_pending_pin_changes m)"
    and stable_spm_lock: "R m (m\<lparr>spm_lock_timeout := l\<rparr>)"
    and stable_sync: "R m (m\<lparr>sync_engine_ptr := s'\<rparr>)"
    and stable_refresh: "R m (refresh_interrupt_pending m)"
begin

lemma stable_if: "R m x \<Longrightarrow> R m y \<Longrightarrow> R m (if c then x else y)"
  by simp

lemma stable_fold:
  assumes "\<And>x m. R m (g x m)"
  shows "R m (fold g xs m)"
proof (induction xs arbitrary: m)
  case (Cons x xs)
  show ?case using stable_trans[OF assms Cons.IH] by simp
qed (simp add: stable_refl)

lemma stable_set_current: "R m (upd_bus (set_current_cycle t) m)"
  using stable_scheduler[of m "\<lambda>b. (scheduler b)\<lparr>current_cycle := t\<rparr>"]
  by (simp add: upd_bus_def set_current_cycle_def)

lemma stable_tick_to: "R m (tick_peripheral_to t d i m)"
  using stable_trans[OF stable_last_update stable_periph_tick] stable_last_update stable_refl
  by (simp add: tick_peripheral_to_def Let_def)

lemma stable_event: "R m (process_event m)"
proof (cases "front (scheduler (bus m))")
  case None
  then show ?thesis by (simp add: process_event_def stable_refl)
next
  case (Some e)
  define m1 where "m1 = upd_bus (\<lambda>b. b\<lparr>scheduler := pop_front (scheduler b)\<rparr>) m"
  define m2 where "m2 = fold (\<lambda>i m. tick_peripheral_to (target_cycle e) (current_active_domains (bus m)) i m)
    (active_ticking_peripherals (bus m1)) m1"
  have "R m m1" unfolding m1_def by (rule stable_scheduler)
  moreover have "R m1 m2" unfolding m2_def by (rule stable_fold) (rule stable_tick_to)
  moreover have "R m2 (process_event m)"
    using stable_trans[OF stable_set_current stable_callback] Some
    by (simp add: process_event_def Let_def m1_def m2_def)
  ultimately show ?thesis by (blast intro: stable_trans)
qed

lemma stable_advance_to: "R m (advance_to t m)"
proof (cases "while_option (event_due t) process_event m")
  case None
  then show ?thesis by (simp add: advance_to_def stable_hung)
next
  case (Some m')
  have "R m m'"
    using while_option_rule[where P = "R m", OF _ Some] stable_event stable_trans stable_refl by blast
  then show ?thesis
    using Some stable_trans[OF _ stable_set_current] by (simp add: advance_to_def)
qed

lemma stable_tick: "R m (tick_peripherals e d m)"
proof (cases "e = 0")
  case False
  define m1 where "m1 = upd_bus (\<lambda>b. tick_lpm_special e (tick_io_stall e (gate_domains e d b))) m"
  define m2 where "m2 = upd_bus (\<lambda>b. b\<lparr>current_active_domains := d, bus_cpu_cycles := bus_cpu_cycles b + e\<rparr>) m1"
  define t where "t = current_cycle (scheduler (bus m2)) + e"
  define m3 where "m3 = fold (tick_peripheral_to t d) (active_ticking_peripherals (bus m2)) m2"
  have "R m m1" unfolding m1_def by (rule stable_bookkeeping)
  moreover have "R m1 m2" unfolding m2_def by (rule stable_domains)
  moreover have "R m2 m3" unfolding m3_def by (rule stable_fold) (rule stable_tick_to)
  moreover have "R m3 (tick_peripherals e d m)"
    using False stable_trans[OF stable_advance_to stable_spm] unfolding tick_peripherals_def Let_def m3_def t_def m2_def m1_def
    by simp
  ultimately show ?thesis by (blast intro: stable_trans)
qed (simp add: tick_peripherals_def stable_refl)

lemma stable_advance_in: "R (m\<lparr>cycles := cycles m + n\<rparr>) (advance_cycles_in n d m)"
proof -
  define m0 where "m0 = m\<lparr>cycles := cycles m + n\<rparr>"
  define m1 where "m1 = tick_peripherals n d m0"
  define m2 where "m2 = (if has_pending_pin_changes (bus m1) then publish_pending_pin_changes m1 else m1)"
  define m3 where "m3 = (if spm_lock_timeout m2 > 0
    then m2\<lparr>spm_lock_timeout := (if n \<ge> ucast (spm_lock_timeout m2) then 0
                                 else ucast (ucast (spm_lock_timeout m2) - n))\<rparr>
    else m2)"
  define m4 where "m4 = m3\<lparr>sync_engine_ptr := map_option (sync_on_cycles_advanced (cycles m3)) (sync_engine_ptr m3)\<rparr>"
  have "R m0 m1" unfolding m1_def by (rule stable_tick)
  moreover have "R m1 m2" unfolding m2_def by (intro stable_if stable_publish stable_refl)
  moreover have "R m2 m3" unfolding m3_def by (intro stable_if stable_spm_lock stable_refl)
  moreover have "R m3 m4" unfolding m4_def by (rule stable_sync)
  ultimately have "R m0 m4" by (blast intro: stable_trans)
  moreover have "advance_cycles_in n d m = refresh_interrupt_pending m4"
    unfolding advance_cycles_in_def Let_def m4_def m3_def m2_def m1_def m0_def ..
  ultimately show ?thesis
    unfolding m0_def using stable_trans[OF _ stable_refresh] by simp
qed

lemma stable_advance: "R (m\<lparr>cycles := cycles m + n\<rparr>) (advance_cycles n m)"
  unfolding advance_cycles_def by (rule stable_advance_in)

end

end
