(* ===== verification/Frame.thy ===== *)
theory Frame
  imports Passing
begin

text \<open>
  What the passing of time leaves alone.  Ticks, events and the interrupt bookkeeping never
  touch the CPU's registers or the data memory (SPMCSR apart) except by resetting the CPU,
  which the flag \<open>reset_triggered\<close> records; and nothing changes the device description.
\<close>

definition same_data :: "bus \<Rightarrow> bus \<Rightarrow> bool" where
  "same_data b b' \<longleftrightarrow>
     length (data b') = length (data b) \<and>
     (\<forall>k. k \<noteq> unat (spmcsr_address (device b)) \<longrightarrow> data b' ! k = data b ! k)"

definition same_cpu :: "machine \<Rightarrow> machine \<Rightarrow> bool" where
  "same_cpu m m' \<longleftrightarrow>
     gpr m' = gpr m \<and> program_counter m' = program_counter m \<and> stack_pointer m' = stack_pointer m \<and>
     sreg m' = sreg m \<and> rampz m' = rampz m \<and> eind m' = eind m \<and> state m' = state m \<and>
     interrupt_depth m' = interrupt_depth m \<and> interrupt_delay m' = interrupt_delay m \<and>
     instructions_executed m' = instructions_executed m \<and> sleep_cycles m' = sleep_cycles m \<and>
     cycles m' = cycles m \<and> same_data (bus m) (bus m')"

definition keeps :: "machine \<Rightarrow> machine \<Rightarrow> bool" where
  "keeps m m' \<longleftrightarrow>
     device (bus m') = device (bus m) \<and> trace_hook m' = trace_hook m \<and>
     (reset_triggered m \<longrightarrow> reset_triggered m') \<and> (reset_triggered m' \<or> same_cpu m m')"

lemma same_data_refl [simp]: "same_data b b"
  by (simp add: same_data_def)

lemma keeps_refl [simp, intro]: "keeps m m"
  by (simp add: keeps_def same_cpu_def)

lemma keeps_trans [trans]: "keeps a b \<Longrightarrow> keeps b c \<Longrightarrow> keeps a c"
  by (auto simp: keeps_def same_cpu_def same_data_def)

lemma keeps_upd_bus_data:
  "device (f (bus m)) = device (bus m) \<Longrightarrow> same_data (bus m) (f (bus m)) \<Longrightarrow> keeps m (upd_bus f m)"
  by (simp add: keeps_def same_cpu_def upd_bus_def)

lemma keeps_upd_bus:
  "device (f (bus m)) = device (bus m) \<Longrightarrow> data (f (bus m)) = data (bus m) \<Longrightarrow> keeps m (upd_bus f m)"
  by (rule keeps_upd_bus_data) (simp_all add: same_data_def)

lemma keeps_upd_control [simp, intro]: "keeps m (upd_control f m)"
  by (simp add: keeps_def same_cpu_def upd_control_def)

section \<open>The device description is constant, the data memory changes only at SPMCSR\<close>

lemma set_kind_frame [simp]: "device (set_kind i k b) = device b" "data (set_kind i k b) = data b"
  by (simp_all add: set_kind_def)

lemma set_last_update_frame [simp]:
  "device (set_last_update i t b) = device b" "data (set_last_update i t b) = data b"
  by (simp_all add: set_last_update_def)

lemma set_interrupt_pending_frame [simp]:
  "device (set_interrupt_pending i v b) = device b" "data (set_interrupt_pending i v b) = data b"
  by (simp_all add: set_interrupt_pending_def notify_interrupt_state_change_def Let_def)

lemma update_interrupt_pending_frame [simp]:
  "device (update_interrupt_pending i b) = device b" "data (update_interrupt_pending i b) = data b"
  by (simp_all add: update_interrupt_pending_def)

lemma schedule_frame [simp]:
  "device (cancel_event cb b) = device b" "data (cancel_event cb b) = data b"
  "device (schedule_event d cb b) = device b" "data (schedule_event d cb b) = data b"
  "device (set_current_cycle t b) = device b" "data (set_current_cycle t b) = data b"
  by (simp_all add: cancel_event_def schedule_event_def set_current_cycle_def)

lemma wdt_reset_watchdog_frame [simp]:
  "device (wdt_reset_watchdog i w b) = device b" "data (wdt_reset_watchdog i w b) = data b"
  by (simp_all add: wdt_reset_watchdog_def Let_def)

lemma upd_pointed_frame [simp]:
  "device (upd_nvm f b) = device b" "data (upd_nvm f b) = data b"
  "device (upd_eeprom g b) = device b" "data (upd_eeprom g b) = data b"
  "device (upd_cpu_int h b) = device b" "data (upd_cpu_int h b) = data b"
  by (simp_all add: upd_nvm_def upd_eeprom_def upd_cpu_int_def split: option.split periph_kind.split)

lemma device_reset_bus_state [simp]: "device (reset_bus_state b) = device b"
  by (simp add: reset_bus_state_def)

lemma clear_spmcsr_frame [simp]:
  "device (clear_spmcsr v b) = device b"
  "same_data b' b \<Longrightarrow> device b' = device b \<Longrightarrow> same_data b' (clear_spmcsr v b)"
  by (simp_all add: clear_spmcsr_def same_data_def Let_def)

lemma gates_frame [simp]:
  "device (gate_domains e d b) = device b" "data (gate_domains e d b) = data b"
  "device (tick_io_stall e b) = device b" "data (tick_io_stall e b) = data b"
  by (simp_all add: gate_domains_def tick_io_stall_def)

lemma tick_lpm_special_frame [simp]:
  "device (tick_lpm_special e b) = device b"
  "data b = data b' \<Longrightarrow> device b = device b' \<Longrightarrow> same_data b' (tick_lpm_special e b)"
  by (simp_all add: tick_lpm_special_def same_data_def clear_spmcsr_def Let_def)

lemma fold_frame:
  assumes "\<And>x b. device (g x b) = device b" and "\<And>x b. data (g x b) = data b"
  shows "device (fold g xs b) = device b \<and> data (fold g xs b) = data b"
  by (induction xs arbitrary: b) (simp_all add: assms)

lemma flash_ops_frame [simp]:
  "device (write_flash_page b) = device b" "data (write_flash_page b) = data b"
  "device (erase_flash_page b) = device b" "data (erase_flash_page b) = data b"
  "device (erase_flash_pages p n b) = device b" "data (erase_flash_pages p n b) = data b"
  "device (fill_flash_buffer b) = device b" "data (fill_flash_buffer b) = data b"
  "device (fill_eeprom_buffer b) = device b" "data (fill_eeprom_buffer b) = data b"
  "device (erase_eeprom_all b) = device b" "data (erase_eeprom_all b) = data b"
  "device (clear_eeprom_buffer b) = device b" "data (clear_eeprom_buffer b) = data b"
  by (simp_all add: write_flash_page_def erase_flash_page_def erase_flash_pages_def
      fill_flash_buffer_def fill_eeprom_buffer_def erase_eeprom_all_def clear_eeprom_buffer_def
      fold_frame)

lemma eeprom_ops_frame [simp]:
  "device (commit_eeprom a n b) = device b" "data (commit_eeprom a n b) = data b"
  "device (erase_eeprom_bytes a n b) = device b" "data (erase_eeprom_bytes a n b) = data b"
  by (simp_all add: commit_eeprom_def erase_eeprom_bytes_def Let_def)

lemma erase_dirty_bytes_frame [simp]:
  "device (erase_dirty_bytes a b) = device b" "data (erase_dirty_bytes a b) = data b"
  by (simp_all add: erase_dirty_bytes_def fold_frame Let_def)

lemma if_frame:
  "device (if c then x else y) = (if c then device x else device y)"
  "data (if c then x else y) = (if c then data x else data y)"
  by simp_all

lemma deferred_cases_frame [simp]:
  "device (perform_deferred_nvm_dx_ex c b) = device b" "data (perform_deferred_nvm_dx_ex c b) = data b"
  "device (perform_deferred_mega_tiny c b) = device b" "data (perform_deferred_mega_tiny c b) = data b"
  "device (perform_deferred_classic b) = device b" "data (perform_deferred_classic b) = data b"
  unfolding perform_deferred_nvm_dx_ex_def perform_deferred_mega_tiny_def
    perform_deferred_classic_def Let_def if_frame
  by (simp_all add: if_frame cong: if_cong split del: if_split)

lemma deferred_frame [simp]:
  "device (perform_deferred_nvm_operation b) = device b"
  "data b = data b' \<Longrightarrow> device b = device b' \<Longrightarrow> same_data b' (perform_deferred_nvm_operation b)"
  by (simp_all add: perform_deferred_nvm_operation_def)
     (simp_all add: same_data_def clear_spmcsr_def Let_def)

lemma tick_spm_frame [simp]: "device (tick_spm e b) = device b" "same_data b (tick_spm e b)"
proof -
  show "device (tick_spm e b) = device b" by (simp add: tick_spm_def)
  have "same_data b (perform_deferred_nvm_operation (b\<lparr>spm_busy_cycles_left := 0\<rparr>))" by simp
  then show "same_data b (tick_spm e b)" by (simp add: tick_spm_def same_data_def)
qed

section \<open>Reset\<close>

lemma upd_kind_sel [simp]:
  "bus (upd_kind i k m) = set_kind i k (bus m)"
  "reset_triggered (upd_kind i k m) = reset_triggered m" "trace_hook (upd_kind i k m) = trace_hook m"
  by (simp_all add: upd_kind_def)

lemma upd_control_sel [simp]:
  "bus (upd_control f m) = bus m" "trace_hook (upd_control f m) = trace_hook m"
  by (simp_all add: upd_control_def)

lemma keeps_upd_kind [simp, intro]: "keeps m (upd_kind i k m)"
  unfolding upd_kind_def by (rule keeps_upd_bus) simp_all

lemma periph_reset_frame [simp]:
  "device (bus (periph_reset i m)) = device (bus m)" "trace_hook (periph_reset i m) = trace_hook m"
  by (simp_all add: periph_reset_def split: periph_kind.split)

lemma bus_reset_fold:
  "device (bus (fold (\<lambda>i m. upd_bus (set_last_update i 0) (periph_reset i m)) xs m)) = device (bus m)"
  "trace_hook (fold (\<lambda>i m. upd_bus (set_last_update i 0) (periph_reset i m)) xs m) = trace_hook m"
  by (induction xs arbitrary: m) simp_all

lemma bus_reset_frame [simp]:
  "device (bus (bus_reset m)) = device (bus m)" "trace_hook (bus_reset m) = trace_hook m"
  by (simp_all add: bus_reset_def Let_def bus_reset_fold)

lemma write_sreg_sel [simp]:
  "bus (write_sreg v m) = bus m" "trace_hook (write_sreg v m) = trace_hook m"
  "sreg (write_sreg v m) = v"
  by (simp_all add: write_sreg_def trace_def Let_def split: option.split)

lemma record_reset_cause_frame [simp]:
  "device (bus (record_reset_cause c m)) = device (bus m)"
  "trace_hook (record_reset_cause c m) = trace_hook m"
  "reset_triggered (record_reset_cause c m) = reset_triggered m"
  by (simp_all add: record_reset_cause_def upd_control_def split: option.split periph_kind.split)

lemma cpu_reset_frame [simp]:
  "device (bus (cpu_reset c m)) = device (bus m)" "trace_hook (cpu_reset c m) = trace_hook m"
  "reset_triggered (cpu_reset c m)"
  unfolding cpu_reset_def Let_def by simp_all

lemma keeps_cpu_reset [simp, intro]: "keeps m (cpu_reset c m)"
  by (simp add: keeps_def)

section \<open>Ticks and events\<close>

lemma keeps_periph_tick: "keeps m (periph_tick i e m)"
proof -
  have "keeps m (upd_bus (update_interrupt_pending i) (upd_kind i k m))" for k
    by (rule keeps_trans[OF keeps_upd_kind keeps_upd_bus]) simp_all
  moreover have "keeps m (cpu_reset Watchdog_Reset (upd_kind i k m))" for k
    by (rule keeps_trans[OF keeps_upd_kind keeps_cpu_reset])
  ultimately show ?thesis
    by (auto simp: periph_tick_def Let_def split: periph_kind.split prod.split)
qed

lemma keeps_wdt_complete_timeout: "keeps m (wdt_complete_timeout i m)"
proof -
  have restart: "keeps m' (upd_bus (wdt_reset_watchdog i w) m')" for m' w
    by (rule keeps_upd_bus) simp_all
  have irq: "keeps m (upd_bus (\<lambda>b. update_interrupt_pending i (set_kind i k b)) m)" for k
    by (rule keeps_upd_bus) simp_all
  show ?thesis
    using irq keeps_trans[OF irq restart] keeps_trans[OF keeps_cpu_reset restart] restart
    by (auto simp: wdt_complete_timeout_def Let_def split: periph_kind.split)
qed

lemma keeps_run_callback: "keeps m (run_callback cb m)"
proof (cases cb)
  case (Watchdog_Callback i)
  then show ?thesis by (simp add: run_callback_def keeps_wdt_complete_timeout)
next
  case (Eeprom_Master_Timeout i)
  then show ?thesis by (auto simp: run_callback_def split: periph_kind.split)
next
  case (Eeprom_Write_Complete i)
  have "keeps m (upd_bus (\<lambda>b. update_interrupt_pending i (set_kind i k b)) m)" for k
    by (rule keeps_upd_bus) simp_all
  with Eeprom_Write_Complete show ?thesis by (auto simp: run_callback_def split: periph_kind.split)
qed

section \<open>The clock\<close>

interpretation keeps: time_stable keeps
proof unfold_locales
  fix m :: machine and f :: "bus \<Rightarrow> bus" and s e c d i t cb l s'
  show "keeps m m" by simp
  show "keeps m (upd_bus (\<lambda>b. b\<lparr>scheduler := s b\<rparr>) m)" by (rule keeps_upd_bus) simp_all
  show "keeps m (upd_bus (set_last_update i t) m)" by (rule keeps_upd_bus) simp_all
  show "keeps m (periph_tick i e m)" by (rule keeps_periph_tick)
  show "keeps m (run_callback cb m)" by (rule keeps_run_callback)
  show "keeps m (upd_bus (\<lambda>b. tick_lpm_special e (tick_io_stall e (gate_domains e d b))) m)"
    by (rule keeps_upd_bus_data) simp_all
  show "keeps m (upd_bus (\<lambda>b. b\<lparr>current_active_domains := d, bus_cpu_cycles := c b\<rparr>) m)"
    by (rule keeps_upd_bus) simp_all
  show "keeps m (upd_bus (tick_spm e) m)" by (rule keeps_upd_bus_data) simp_all
  show "keeps m (publish_pending_pin_changes m)"
    by (simp add: publish_pending_pin_changes_def) (rule impI, rule keeps_upd_bus, simp_all)
  show "keeps m (refresh_interrupt_pending m)"
    by (simp add: refresh_interrupt_pending_def keeps_def same_cpu_def same_data_def upd_bus_def Let_def)
  show "keeps m (m\<lparr>hung := True\<rparr>)" "keeps m (m\<lparr>spm_lock_timeout := l\<rparr>)" "keeps m (m\<lparr>sync_engine_ptr := s'\<rparr>)"
    by (simp_all add: keeps_def same_cpu_def)
qed (rule keeps_trans)

lemmas keeps_advance = keeps.stable_advance

lemma advance_device [simp]:
  "device (bus (advance_cycles n m)) = device (bus m)"
  "trace_hook (advance_cycles n m) = trace_hook m"
  using keeps_advance[of m n] by (simp_all add: keeps_def)

lemma advance_cycles_undisturbed:
  assumes "\<not> reset_triggered (advance_cycles n m)"
  shows "\<not> reset_triggered m"
    and "gpr (advance_cycles n m) = gpr m" and "program_counter (advance_cycles n m) = program_counter m"
    and "stack_pointer (advance_cycles n m) = stack_pointer m" and "sreg (advance_cycles n m) = sreg m"
    and "rampz (advance_cycles n m) = rampz m" and "eind (advance_cycles n m) = eind m"
    and "state (advance_cycles n m) = state m"
    and "interrupt_depth (advance_cycles n m) = interrupt_depth m"
    and "interrupt_delay (advance_cycles n m) = interrupt_delay m"
    and "cycles (advance_cycles n m) = cycles m + n"
    and "same_data (bus m) (bus (advance_cycles n m))"
  using keeps_advance[of m n] assms by (simp_all add: keeps_def same_cpu_def)

end
