(* ===== verification/Sample.thy ===== *)
theory Sample
  imports Construct Frame
begin

text \<open>
  The state of the example machine, derived from the constructors: what
  \<open>attach_peripheral\<close> and \<open>cpu_reset\<close> leave alone.
\<close>

lemma map_address_frame [simp]:
  "device (map_address i a b) = device b" "flash (map_address i a b) = flash b" "data (map_address i a b) = data b"
  "peripherals (map_address i a b) = peripherals b" "ticking_peripherals (map_address i a b) = ticking_peripherals b"
  "scheduler (map_address i a b) = scheduler b" "flash_wait_states (map_address i a b) = flash_wait_states b"
  "loaded_program_words (map_address i a b) = loaded_program_words b"
  "reset_word_address (map_address i a b) = reset_word_address b"
  "nvm_ctrl_ptr (map_address i a b) = nvm_ctrl_ptr b"
  "active_ticking_peripherals (map_address i a b) = active_ticking_peripherals b"
  "spm_busy_cycles_left (map_address i a b) = spm_busy_cycles_left b"
  "io_stall_cycles (map_address i a b) = io_stall_cycles b"
  by (simp_all add: map_address_def Let_def split: option.split dispatch_target.split)

lemma attach_frame [simp]:
  "device (attach_peripheral n k rs b) = device b" "flash (attach_peripheral n k rs b) = flash b"
  "data (attach_peripheral n k rs b) = data b" "scheduler (attach_peripheral n k rs b) = scheduler b"
  "flash_wait_states (attach_peripheral n k rs b) = flash_wait_states b"
  "loaded_program_words (attach_peripheral n k rs b) = loaded_program_words b"
  "reset_word_address (attach_peripheral n k rs b) = reset_word_address b"
  "nvm_ctrl_ptr (attach_peripheral n k rs b) = (if n = ''NVMCTRL'' then Some (length (peripherals b)) else nvm_ctrl_ptr b)"
  "peripherals (attach_peripheral n k rs b) =
     peripherals b @ [\<lparr>p_kind = k, p_last_update_cycle = 0, p_interrupt_pending = False\<rparr>]"
  "ticking_peripherals (attach_peripheral n k rs b) =
     ticking_peripherals b @ (if wants_tick k then [length (peripherals b)] else [])"
  "active_ticking_peripherals (attach_peripheral n k rs b) =
     active_ticking_peripherals b @ (if wants_tick k then [length (peripherals b)] else [])"
  "spm_busy_cycles_left (attach_peripheral n k rs b) = spm_busy_cycles_left b"
  "io_stall_cycles (attach_peripheral n k rs b) = io_stall_cycles b"
proof -
  have keep: "f (fold (map_range i) rs b) = f b" if "\<And>i a b. f (map_address i a b) = f b" for f :: "bus \<Rightarrow> 'c" and i rs b
  proof (induction rs arbitrary: b)
    case (Cons r rs)
    have "f (fold (\<lambda>a. map_address i (of_nat a)) as b) = f b" for as :: "nat list" and b
      by (induction as arbitrary: b) (simp_all add: that)
    then show ?case using Cons by (simp add: map_range_def)
  qed simp
  show "device (attach_peripheral n k rs b) = device b" "flash (attach_peripheral n k rs b) = flash b"
    "data (attach_peripheral n k rs b) = data b" "scheduler (attach_peripheral n k rs b) = scheduler b"
    "flash_wait_states (attach_peripheral n k rs b) = flash_wait_states b"
    "loaded_program_words (attach_peripheral n k rs b) = loaded_program_words b"
    "reset_word_address (attach_peripheral n k rs b) = reset_word_address b"
    "nvm_ctrl_ptr (attach_peripheral n k rs b) = (if n = ''NVMCTRL'' then Some (length (peripherals b)) else nvm_ctrl_ptr b)"
    "peripherals (attach_peripheral n k rs b) =
       peripherals b @ [\<lparr>p_kind = k, p_last_update_cycle = 0, p_interrupt_pending = False\<rparr>]"
    "ticking_peripherals (attach_peripheral n k rs b) =
       ticking_peripherals b @ (if wants_tick k then [length (peripherals b)] else [])"
    "active_ticking_peripherals (attach_peripheral n k rs b) =
       active_ticking_peripherals b @ (if wants_tick k then [length (peripherals b)] else [])"
    "spm_busy_cycles_left (attach_peripheral n k rs b) = spm_busy_cycles_left b"
    "io_stall_cycles (attach_peripheral n k rs b) = io_stall_cycles b"
    by (simp_all add: attach_peripheral_def Let_def keep)
qed

lemma reset_quiet_cpu:
  assumes "map p_kind (peripherals (bus m)) = [K_Control, K_Register_File]" and "rst_ctrl_ptr m = None"
  shows "bus (cpu_reset c m) =
    (set_last_update 1 0 (set_last_update 0 0 (reset_bus_state (bus m))))\<lparr>interrupts_dirty := True, last_catch_up_cycle := 0\<rparr>"
proof -
  obtain p q where pq: "peripherals (bus m) = [p, q]" "p_kind p = K_Control" "p_kind q = K_Register_File"
    using assms(1) by (auto simp: map_eq_Cons_conv)
  have "[0..<length (peripherals (bus (upd_bus reset_bus_state m)))] = [0, 1]"
    by (simp add: pq reset_bus_state_def upt_rec)
  then have "bus (bus_reset m) =
      (set_last_update 1 0 (set_last_update 0 0 (reset_bus_state (bus m))))\<lparr>interrupts_dirty := True, last_catch_up_cycle := 0\<rparr>"
    and ptr: "rst_ctrl_ptr (bus_reset m) = None"
    unfolding bus_reset_def Let_def
    by (simp_all add: periph_reset_def kind_at_def pq reset_bus_state_def set_last_update_def upd_control_def assms(2))
  moreover have "bus (record_reset_cause c x) = bus x" if "rst_ctrl_ptr x = None" for x
    using that by (simp add: record_reset_cause_def upd_control_def)
  moreover have "rst_ctrl_ptr (write_sreg v x) = rst_ctrl_ptr x" for v x
    by (simp add: write_sreg_def trace_def Let_def split: option.split)
  ultimately show ?thesis
    by (simp add: cpu_reset_def Let_def ptr)
qed

lemma reset_bus_fields [simp]:
  "flash (reset_bus_state b) = flash b" "length (data (reset_bus_state b)) = length (data b)"
  "spm_busy_cycles_left (reset_bus_state b) = 0" "flash_rww_busy (reset_bus_state b) = False"
  "active_ticking_peripherals (reset_bus_state b) = ticking_peripherals b" "peripherals (reset_bus_state b) = peripherals b"
  "ticking_peripherals (reset_bus_state b) = ticking_peripherals b"
  "events (scheduler (reset_bus_state b)) = []" "flash_wait_states (reset_bus_state b) = flash_wait_states b"
  "io_stall_cycles (reset_bus_state b) = io_stall_cycles b"
  "loaded_program_words (reset_bus_state b) = loaded_program_words b" "nvm_ctrl_ptr (reset_bus_state b) = nvm_ctrl_ptr b"
  by (simp_all add: reset_bus_state_def scheduler_reset_def clear_data_space_def fill_range_def Let_def)

lemma last_update_fields [simp]:
  "flash (set_last_update i t b) = flash b" "spm_busy_cycles_left (set_last_update i t b) = spm_busy_cycles_left b"
  "flash_rww_busy (set_last_update i t b) = flash_rww_busy b"
  "active_ticking_peripherals (set_last_update i t b) = active_ticking_peripherals b"
  "scheduler (set_last_update i t b) = scheduler b" "flash_wait_states (set_last_update i t b) = flash_wait_states b"
  "loaded_program_words (set_last_update i t b) = loaded_program_words b"
  "io_stall_cycles (set_last_update i t b) = io_stall_cycles b"
  "nvm_ctrl_ptr (set_last_update i t b) = nvm_ctrl_ptr b"
  by (simp_all add: set_last_update_def)

lemma init_fields [simp]:
  "device (memory_bus_init d) = d" "flash (memory_bus_init d) = replicate (unat (flash_words d)) 0xFFFF"
  "length (data (memory_bus_init d)) = unat (data_end_address d) + 1" "flash_wait_states (memory_bus_init d) = 0"
  "ticking_peripherals (memory_bus_init d) = []" "peripherals (memory_bus_init d) = []"
  "nvm_ctrl_ptr (memory_bus_init d) = None" "io_stall_cycles (memory_bus_init d) = 0"
  by (simp_all add: memory_bus_init_def) (simp_all add: memory_bus_fields_def Let_def)

lemma load_flash_fields [simp]:
  "io_stall_cycles (load_flash ws b) = io_stall_cycles b" "device (load_flash ws b) = device b" "data (load_flash ws b) = data b"
  "flash_wait_states (load_flash ws b) = flash_wait_states b" "ticking_peripherals (load_flash ws b) = ticking_peripherals b"
  "peripherals (load_flash ws b) = peripherals b" "nvm_ctrl_ptr (load_flash ws b) = nvm_ctrl_ptr b"
  "loaded_program_words (load_flash ws b) = of_nat (min (length ws) (length (flash b)))"
  "flash (load_flash ws b) = take (length (flash b)) ws @ drop (length ws) (flash b)"
  by (simp_all add: load_flash_def Let_def min_def)

lemma sample_machine_bus:
  "bus (sample_machine prog) =
     (set_last_update 1 0 (set_last_update 0 0 (reset_bus_state
        (attach_peripheral ''Register File'' K_Register_File [register_file_range sample_device]
           (attach_peripheral ''CPU Control'' K_Control (control_ranges sample_device)
              (load_flash prog (memory_bus_init sample_device)))))))\<lparr>interrupts_dirty := True, last_catch_up_cycle := 0\<rparr>"
  unfolding sample_machine_def avr_cpu_init_def
  by (subst reset_quiet_cpu) (simp_all add: avr_cpu_fields_def Let_def last_index_def kind_at_def upt_rec)

lemma sample_fields [simp]:
  "device (bus (sample_machine prog)) = sample_device"
  "length (data (bus (sample_machine prog))) = unat (data_end_address sample_device) + 1"
  "active_ticking_peripherals (bus (sample_machine prog)) = []" "events (scheduler (bus (sample_machine prog))) = []"
  "spm_busy_cycles_left (bus (sample_machine prog)) = 0" "\<not> flash_rww_busy (bus (sample_machine prog))"
  "flash_wait_states (bus (sample_machine prog)) = 0" "nvm_ctrl_ptr (bus (sample_machine prog)) = None"
  "io_stall_cycles (bus (sample_machine prog)) = 0"
  "loaded_program_words (bus (sample_machine prog)) = of_nat (min (length prog) 64)"
  "flash (bus (sample_machine prog)) = take 64 prog @ replicate (64 - length prog) 0xFFFF"
  unfolding sample_machine_bus
  by (simp_all add: wants_tick_def) (simp_all add: sample_device_def)

lemma reset_stack_pointer [simp]:
  "stack_pointer (cpu_reset c m) =
     (let d = device (bus m); sp = ucast (spl_reset d) OR push_bit 8 (ucast (sph_reset d)) :: u16
      in if sp = 0 then range_end (sram_range d) else sp)"
proof -
  have "stack_pointer (write_sreg v m) = stack_pointer m" "stack_pointer (record_reset_cause c m) = stack_pointer m" for v m
    by (simp_all add: write_sreg_def trace_def Let_def record_reset_cause_def upd_kind_def upd_control_def
        split: option.split periph_kind.split)
  then show ?thesis
    unfolding cpu_reset_def Let_def by simp
qed

lemma sample_stack_pointer [simp]: "stack_pointer (sample_machine prog) = range_end (sram_range sample_device)"
  unfolding sample_machine_def avr_cpu_init_def
  by (simp add: avr_cpu_fields_def Let_def) (simp add: sample_device_def default_device_def)

lemma record_reset_cause_regs [simp]:
  "gpr (record_reset_cause c m) = gpr m"
  by (simp add: record_reset_cause_def upd_kind_def upd_control_def split: option.splits periph_kind.splits)

lemma write_sreg_regs [simp]: "gpr (write_sreg v m) = gpr m"
  by (simp add: write_sreg_def trace_def Let_def split: option.splits)

lemma reset_regs [simp]: "gpr (cpu_reset c m) = (\<lambda>_. 0)"
  by (simp add: cpu_reset_def Let_def)

lemma reset_program_counter: "program_counter (cpu_reset c m) = reset_word_address (bus (cpu_reset c m))"
proof -
  have "program_counter (write_sreg v m) = program_counter m" "program_counter (record_reset_cause c m) = program_counter m"
    "reset_word_address (bus (record_reset_cause c m)) = reset_word_address (bus m)" for v m
    by (simp_all add: write_sreg_def trace_def Let_def record_reset_cause_def upd_kind_def upd_control_def set_kind_def
        split: option.split periph_kind.split)
  then show ?thesis unfolding cpu_reset_def Let_def by simp
qed

lemma sample_reset_word: "reset_word_address (bus (sample_machine prog)) = 0"
proof -
  have "reset_word_address (reset_bus_state b) = reset_word_address b"
    "reset_word_address (set_last_update i t b) = reset_word_address b"
    "reset_word_address (load_flash ws b) = reset_word_address b"
    "reset_word_address (memory_bus_init d) = 0" for b i t ws d
    by (simp_all add: reset_bus_state_def set_last_update_def load_flash_def Let_def memory_bus_init_def
        memory_bus_fields_def)
  then show ?thesis by (simp add: sample_machine_bus)
qed

lemma sample_registers [simp]:
  "gpr (sample_machine prog) = (\<lambda>_. 0)" "program_counter (sample_machine prog) = 0"
proof -
  show "gpr (sample_machine prog) = (\<lambda>_. 0)" by (simp add: sample_machine_def avr_cpu_init_def)
  show "program_counter (sample_machine prog) = 0"
    using reset_program_counter[of Power_On] sample_reset_word[of prog]
    by (simp add: sample_machine_def avr_cpu_init_def)
qed

end
