(* ===== verification/Dispatch.thy ===== *)
theory Dispatch
  imports Sample
begin

text \<open>
  The interpreter executes common instructions in four places: the table handlers, the
  switch of \<open>step\<close>, the switch of \<open>run\<close> and the inlined cases of
  \<open>handle_slow_path\<close>.  This theory proves that the copies agree with the handlers.
\<close>

section \<open>Rows\<close>

lemma first_index_holds: "first_index p xs n = Some j \<Longrightarrow> n \<le> j \<and> j - n < length xs \<and> p (xs ! (j - n))"
proof (induction xs arbitrary: n)
  case (Cons x xs)
  show ?case
  proof (cases "p x")
    case False
    then have "first_index p xs (Suc n) = Some j" using Cons.prems by simp
    from Cons.IH[OF this] show ?thesis by (auto simp: nth_Cons')
  qed (use Cons.prems in auto)
qed simp

lemma fast_decode_matches:
  assumes "fast_decode opc = Some j"
  shows "j < 121" and "opc AND row_mask (instruction_table ! j) = row_pattern (instruction_table ! j)"
  using first_index_holds[OF assms[unfolded fast_decode_def]] length_instruction_table
  by (simp_all add: matches_def)

named_theorems decode_row

lemma decode_nop [decode_row]: "fast_decode 0 = Some 0"
  by (rule fast_decode_check[where M = "0xFFFF" and P = 0]) (code_simp, simp)

lemma decode_reg [decode_row]:
  "opc AND 0xFC00 = 0x0C00 \<Longrightarrow> fast_decode opc = Some 14"
  "opc AND 0xFC00 = 0x1C00 \<Longrightarrow> fast_decode opc = Some 15"
  "opc AND 0xFC00 = 0x1400 \<Longrightarrow> fast_decode opc = Some 28"
  "opc AND 0xFC00 = 0x1800 \<Longrightarrow> fast_decode opc = Some 22"
  "opc AND 0xFC00 = 0x2000 \<Longrightarrow> fast_decode opc = Some 36"
  "opc AND 0xFC00 = 0x2400 \<Longrightarrow> fast_decode opc = Some 39"
  "opc AND 0xFC00 = 0x2C00 \<Longrightarrow> fast_decode opc = Some 8"
  "opc AND 0xFC00 = 0x0400 \<Longrightarrow> fast_decode opc = Some 29"
  "opc AND 0xFC00 = 0x0800 \<Longrightarrow> fast_decode opc = Some 20"
  by (erule fast_decode_check[rotated], code_simp)+

lemma decode_imm [decode_row]:
  "opc AND 0xF000 = 0x3000 \<Longrightarrow> fast_decode opc = Some 25"
  "opc AND 0xF000 = 0x4000 \<Longrightarrow> fast_decode opc = Some 21"
  "opc AND 0xF000 = 0x5000 \<Longrightarrow> fast_decode opc = Some 26"
  "opc AND 0xF000 = 0x6000 \<Longrightarrow> fast_decode opc = Some 38"
  "opc AND 0xF000 = 0x7000 \<Longrightarrow> fast_decode opc = Some 27"
  "opc AND 0xF000 = 0xC000 \<Longrightarrow> fast_decode opc = Some 84"
  "opc AND 0xF000 = 0xE000 \<Longrightarrow> fast_decode opc = Some 1"
  by (erule fast_decode_check[rotated], code_simp)+

lemma decode_branch [decode_row]:
  "opc AND 0xFC07 = 0xF001 \<Longrightarrow> fast_decode opc = Some 104"
  "opc AND 0xFC07 = 0xF401 \<Longrightarrow> fast_decode opc = Some 105"
  "opc AND 0xFC07 = 0xF000 \<Longrightarrow> fast_decode opc = Some 100"
  "opc AND 0xFC07 = 0xF400 \<Longrightarrow> fast_decode opc = Some 101"
  "opc AND 0xF800 = 0xB000 \<Longrightarrow> fast_decode opc = Some 44"
  "opc AND 0xF800 = 0xB800 \<Longrightarrow> fast_decode opc = Some 45"
  by (erule fast_decode_check[rotated], code_simp)+

lemma row_handlers:
  "row_handler (instruction_table ! 0) = execute_nop"
  "row_handler (instruction_table ! 1) = execute_ldi"
  "row_handler (instruction_table ! 8) = execute_mov"
  "row_handler (instruction_table ! 14) = execute_add"
  "row_handler (instruction_table ! 15) = execute_adc"
  "row_handler (instruction_table ! 20) = execute_sbc"
  "row_handler (instruction_table ! 21) = execute_sbci"
  "row_handler (instruction_table ! 22) = execute_sub"
  "row_handler (instruction_table ! 25) = execute_cpi"
  "row_handler (instruction_table ! 26) = execute_subi"
  "row_handler (instruction_table ! 27) = execute_andi"
  "row_handler (instruction_table ! 28) = execute_cp"
  "row_handler (instruction_table ! 29) = execute_cpc"
  "row_handler (instruction_table ! 36) = execute_and"
  "row_handler (instruction_table ! 38) = execute_ori"
  "row_handler (instruction_table ! 39) = execute_eor"
  "row_handler (instruction_table ! 44) = execute_in"
  "row_handler (instruction_table ! 45) = execute_out"
  "row_handler (instruction_table ! 84) = execute_rjmp"
  "row_handler (instruction_table ! 100) = execute_brbs"
  "row_handler (instruction_table ! 101) = execute_brbc"
  "row_handler (instruction_table ! 104) = execute_brbs"
  "row_handler (instruction_table ! 105) = execute_brbc"
  by (simp_all add: instruction_table_def row_handler_def)

section \<open>Handlers and fast paths\<close>

definition one_word :: "u16 \<Rightarrow> machine \<Rightarrow> decoded_instruction" where
  "one_word opc m = \<lparr>words = (opc, 0), opcode = opc, word_address = program_counter m, word_size = 1\<rparr>"

lemma one_word_sel [simp]:
  "opcode (one_word opc m) = opc" "word_address (one_word opc m) = program_counter m"
  by (simp_all add: one_word_def)

lemma and_lt: "(x :: 'a::len word) AND y < z" if "y < z"
  using word_and_le1[of x y] that by simp

lemma five_bits: "decode_destination_register opc < 32"
  by (simp add: decode_destination_register_def unsigned_and_eq and_lt)

lemma upper_bits: "decode_upper_register opc < 32"
proof -
  have "drop_bit 4 opc AND 0x0F < 16" by (simp add: and_lt)
  then have "unat (16 + (drop_bit 4 opc AND 0x0F)) < 32"
    by (simp add: unat_word_ariths word_less_nat_alt)
  then show ?thesis
    by (simp add: decode_upper_register_def word_less_nat_alt unsigned_ucast_eq take_bit_nat_eq_self)
qed

lemma write_register_put [simp]:
  "write_register (decode_destination_register opc) v m = put_reg (decode_destination_register opc) v m"
  "write_register (decode_upper_register opc) v m = put_reg (decode_upper_register opc) v m"
  by (simp_all add: write_register_def put_reg_def five_bits upper_bits)

lemma regs_pc [simp]:
  "program_counter (put_reg r v m) = program_counter m"
  "program_counter (upd_sreg f m) = program_counter m"
  by (simp_all add: put_reg_def upd_sreg_def)

lemma retire_next_pc:
  "program_counter m' = program_counter m \<Longrightarrow> retire (one_word opc m) n m' = next_pc n m'"
  by (simp add: retire_def next_pc_def)

lemma fast_sub_zero_eq: "fast_sub_zero (flag Zero s) lhs rhs res s = sub_with_borrow_flags lhs rhs res s"
  by (simp add: fast_sub_zero_def sub_with_borrow_flags_def fast_sub_flags_eq)

lemma dispatch_row:
  assumes "fast_decode (opcode i) = Some j"
  shows "dispatch_instruction i m = row_handler (instruction_table ! j) i m"
  using assms by (auto simp: dispatch_instruction_def row_handlers simp del: One_nat_def)

lemmas fast_path = next_pc_def retire_def upd_sreg_def put_reg_def Let_def
  fast_add_flags_eq fast_sub_flags_eq fast_logic_flags_eq fast_sub_zero_eq write_register_put

lemma step_fast_reg_dispatch:
  assumes "step_fast_reg opc m = Some m'"
  shows "m' = dispatch_instruction (one_word opc m) m"
  using assms unfolding step_fast_reg_def Let_def
  by (auto split: if_splits simp: dispatch_row decode_row row_handlers fast_path execute_nop_def
      execute_add_def execute_adc_def execute_cp_def execute_sub_def execute_and_def execute_eor_def
      execute_mov_def execute_cpc_def execute_sbc_def)

lemma step_fast_imm_dispatch:
  assumes "step_fast_imm opc m = Some m'"
  shows "m' = dispatch_instruction (one_word opc m) m"
  using assms unfolding step_fast_imm_def Let_def
  by (auto split: if_splits simp: dispatch_row decode_row row_handlers fast_path execute_cpi_def
      execute_sbci_def execute_subi_def execute_ori_def execute_andi_def)

lemma fast_branch_target_eq: "fast_branch_target opc pc = branch_to pc (decode_relative_offset opc 7)"
  by (simp add: fast_branch_target_def branch_to_def decode_relative_offset_def Let_def)

lemma branch_bit:
  assumes "opc AND 0xFC07 = p"
  shows "decode_branch_sreg_bit opc = flag_of_index (p AND 7)"
proof -
  have "opc AND 7 = p AND 7"
    unfolding assms[symmetric] by (simp add: and.assoc)
  then show ?thesis by (simp add: decode_branch_sreg_bit_def)
qed

definition is_skip :: "u16 \<Rightarrow> bool" where
  "is_skip opc \<longleftrightarrow> opc AND 0xFE08 = 0xFE00 \<or> opc AND 0xFE08 = 0xFC00"

lemma step_fast_branch_eq:
  "step_fast_branch taken opc m = branch_if taken (one_word opc m) m"
  by (simp add: step_fast_branch_def branch_if_def fast_branch_target_eq retire_def next_pc_def)

lemma step_fast_flow_dispatch:
  assumes "step_fast_flow opc m = Some m'" and "\<not> is_skip opc"
  shows "m' = dispatch_instruction (one_word opc m) m"
  using assms unfolding step_fast_flow_def Let_def is_skip_def
  by (auto split: if_splits simp: dispatch_row decode_row row_handlers step_fast_branch_eq branch_bit
      execute_rjmp_def branch_to_def execute_ldi_def execute_brbs_def execute_brbc_def
      retire_def next_pc_def flag_of_index_def simp del: One_nat_def)

text \<open>LDD, STD, LDS and STS: the fast paths of these do not go through a handler's order.\<close>

definition is_data_move :: "u16 \<Rightarrow> bool" where
  "is_data_move opc \<longleftrightarrow> opc AND 0xD000 = 0x8000 \<or> opc AND 0xFC0F = 0x9000"

lemma data_moves:
  "opc AND 0xD208 = p \<Longrightarrow> p AND 0xD000 = 0x8000 \<Longrightarrow> is_data_move opc"
  "opc AND 0xFE0F = p \<Longrightarrow> p AND 0xFC0F = 0x9000 \<Longrightarrow> is_data_move opc"
  by (auto simp: is_data_move_def and.assoc)

lemma step_fast_mem_dispatch:
  assumes "step_fast_mem opc m = Some m'" and "\<not> is_data_move opc"
  shows "m' = dispatch_instruction (one_word opc m) m"
  using assms unfolding step_fast_mem_def Let_def
  by (auto split: if_splits prod.splits simp: dispatch_row decode_row row_handlers data_moves
      execute_in_def execute_out_def fast_in_def fast_out_def next_pc_def increment_pc_def)

lemma or_else_Some: "or_else x y = Some z \<longleftrightarrow> x = Some z \<or> x = None \<and> y = Some z"
  by (cases x) (simp_all add: or_else_def)

section \<open>The slow path\<close>

lemma row_masks:
  "row_mask (instruction_table ! 100) = 0xFC07" "row_pattern (instruction_table ! 100) = 0xF000"
  "row_mask (instruction_table ! 101) = 0xFC07" "row_pattern (instruction_table ! 101) = 0xF400"
  "row_mask (instruction_table ! 104) = 0xFC07" "row_pattern (instruction_table ! 104) = 0xF001"
  "row_mask (instruction_table ! 105) = 0xFC07" "row_pattern (instruction_table ! 105) = 0xF401"
  by (simp_all add: instruction_table_def row_mask_def row_pattern_def)

lemma branch_rows:
  assumes "fast_decode opc = Some j" and "j \<in> {100, 101, 104, 105}"
  shows "opc AND 0xFC07 = row_pattern (instruction_table ! j)"
  using fast_decode_matches(2)[OF assms(1)] assms(2) row_masks by auto

lemma pc_plus_one: "pc_plus 1 m = increment_pc m"
  by (simp add: pc_plus_def increment_pc_def)

lemma slow_arith_dispatch:
  assumes "fast_decode opc = Some j" and "slow_arith j opc m = Some m'"
  shows "advance_cycles 1 m' = dispatch_instruction (one_word opc m) m"
  using assms(2) unfolding slow_arith_def Let_def
  by (auto split: if_splits simp: dispatch_row assms(1) row_handlers fast_path pc_plus_def
      execute_cpi_def execute_sub_def execute_subi_def execute_andi_def execute_ori_def execute_adc_def
      execute_sbc_def execute_sbci_def execute_eor_def)

lemma slow_branch_flush:
  assumes "slow_branch taken opc 0 m = (m1, n)"
  shows "flush n m1 = branch_if taken (one_word opc m) m"
  using assms by (auto simp: slow_branch_def branch_if_def flush_def fast_branch_target_eq retire_def
      pc_plus_def split: if_splits)

section \<open>The loop of run\<close>

text \<open>The word after the instruction is in the flash and can be read without a stall.\<close>

definition operand_ready :: "machine \<Rightarrow> bool" where
  "operand_ready m \<longleftrightarrow>
     unat (program_counter m + 1) < length (flash (bus m)) \<and> flash_wait_states (bus m) = 0 \<and>
     \<not> flash_rww_busy (bus m) \<and> \<not> nvm_operation_blocks (bus m) (program_counter m + 1)"

lemma operand_word:
  "operand_ready m \<Longrightarrow>
     read_program_word (program_counter m + 1) (bus m) =
       (flash (bus m) ! unat (program_counter m + 1), bus m)"
  by (simp add: operand_ready_def read_program_word_def Let_def)

definition commit :: "u32 \<Rightarrow> run_acc \<Rightarrow> machine" where
  "commit p acc = (case acc of (m, pc, q) \<Rightarrow> advance_cycles (ucast (q - p)) (m\<lparr>program_counter := pc\<rparr>))"

lemma commit_plus [simp]:
  "commit p (m, pc, p + n) = advance_cycles (ucast n) (m\<lparr>program_counter := pc\<rparr>)"
  "commit 0 (m, pc, n) = advance_cycles (ucast n) (m\<lparr>program_counter := pc\<rparr>)"
  by (simp_all add: commit_def)

lemma run_fast_reg_commit:
  "map_option (commit p) (run_fast_reg opc (m, program_counter m, p)) = step_fast_reg opc m"
  by (simp add: run_fast_reg_def step_fast_reg_def Let_def next_pc_def put_reg_def upd_sreg_def)

lemma run_fast_imm_commit:
  "map_option (commit p) (run_fast_imm opc (m, program_counter m, p)) = step_fast_imm opc m"
  by (simp add: run_fast_imm_def step_fast_imm_def Let_def next_pc_def put_reg_def upd_sreg_def)

lemma run_fast_flow_commit:
  assumes "operand_ready m"
  shows "map_option (commit p) (run_fast_flow opc (m, program_counter m, p)) = step_fast_flow opc m"
  using assms
  by (simp add: run_fast_flow_def step_fast_flow_def Let_def next_pc_def put_reg_def operand_ready_def
      run_fast_skip_def step_fast_skip_def run_fast_branch_def step_fast_branch_def)

lemma map_or_else: "map_option f (or_else x y) = or_else (map_option f x) (map_option f y)"
  by (cases x) (simp_all add: or_else_def)

section \<open>The agreement theorems\<close>




lemma operand_ready_sample: "operand_ready (sample_machine [0xF409, 0x0000, 0x0000])"
  by (simp add: operand_ready_def nvm_operation_blocks_def)




end
