(* ===== verification/Quiet.thy ===== *)
theory Quiet
  imports Sample Exec
begin

text \<open>
  A machine with no ticking peripheral, no scheduled event and no flash operation in
  progress: time passes without a reset.  The concrete machine of the examples is one.
\<close>

section \<open>Time passes quietly\<close>

definition calm :: "machine \<Rightarrow> bool" where
  "calm m \<longleftrightarrow> active_ticking_peripherals (bus m) = [] \<and> events (scheduler (bus m)) = [] \<and>
     spm_busy_cycles_left (bus m) = 0 \<and> io_stall_cycles (bus m) = 0"

lemma calm_upd [simp]:
  "calm (m\<lparr>gpr := a\<rparr>) = calm m" "calm (m\<lparr>sreg := b\<rparr>) = calm m"
  "calm (m\<lparr>program_counter := c\<rparr>) = calm m" "calm (m\<lparr>stack_pointer := d\<rparr>) = calm m"
  "calm (m\<lparr>cycles := e\<rparr>) = calm m" "calm (m\<lparr>interrupt_delay := f\<rparr>) = calm m"
  "calm (m\<lparr>interrupt_depth := g\<rparr>) = calm m" "calm (m\<lparr>interrupt_pending := h\<rparr>) = calm m"
  "calm (m\<lparr>state := s\<rparr>) = calm m" "calm (m\<lparr>reset_triggered := r\<rparr>) = calm m"
  "calm (put_flag fl v m) = calm m" "calm (upd_sreg k m) = calm m" "calm (write_register x w m) = calm m"
  by (simp_all add: calm_def put_flag_def upd_sreg_def write_register_def)

lemma clear_spmcsr_calm [simp]:
  "active_ticking_peripherals (clear_spmcsr k b) = active_ticking_peripherals b"
  "scheduler (clear_spmcsr k b) = scheduler b"
  "spm_busy_cycles_left (clear_spmcsr k b) = spm_busy_cycles_left b"
  "io_stall_cycles (clear_spmcsr k b) = io_stall_cycles b"
  by (simp_all add: clear_spmcsr_def Let_def)

lemma timer_steps_calm [simp]:
  "active_ticking_peripherals (gate_domains e d b) = active_ticking_peripherals b"
  "scheduler (gate_domains e d b) = scheduler b"
  "spm_busy_cycles_left (gate_domains e d b) = spm_busy_cycles_left b"
  "active_ticking_peripherals (tick_io_stall e b) = active_ticking_peripherals b"
  "scheduler (tick_io_stall e b) = scheduler b"
  "spm_busy_cycles_left (tick_io_stall e b) = spm_busy_cycles_left b"
  "active_ticking_peripherals (tick_lpm_special e b) = active_ticking_peripherals b"
  "scheduler (tick_lpm_special e b) = scheduler b"
  "spm_busy_cycles_left (tick_lpm_special e b) = spm_busy_cycles_left b"
  "io_stall_cycles (gate_domains e d b) = io_stall_cycles b"
  "io_stall_cycles (tick_lpm_special e b) = io_stall_cycles b"
  "io_stall_cycles b = 0 \<Longrightarrow> io_stall_cycles (tick_io_stall e b) = 0"
  by (simp_all add: gate_domains_def tick_io_stall_def tick_lpm_special_def)

lemma advance_to_empty:
  assumes "events (scheduler (bus m)) = []"
  shows "advance_to t m = upd_bus (set_current_cycle t) m"
proof -
  have "\<not> event_due t m" using assms by (simp add: event_due_def front_def)
  then have "while_option (event_due t) process_event m = Some m" by (subst while_option_unfold) simp
  then show ?thesis by (simp add: advance_to_def)
qed

lemma tick_calm:
  assumes "calm m"
  shows "calm (tick_peripherals n d m) \<and> reset_triggered (tick_peripherals n d m) = reset_triggered m"
proof (cases "n = 0")
  case False
  define m1 where "m1 = upd_bus (\<lambda>b. tick_lpm_special n (tick_io_stall n (gate_domains n d b))) m"
  define m2 where "m2 = upd_bus (\<lambda>b. b\<lparr>current_active_domains := d, bus_cpu_cycles := bus_cpu_cycles b + n\<rparr>) m1"
  have m2: "active_ticking_peripherals (bus m2) = []" "events (scheduler (bus m2)) = []"
    "spm_busy_cycles_left (bus m2) = 0" "io_stall_cycles (bus m2) = 0" "reset_triggered m2 = reset_triggered m"
    using assms by (simp_all add: m2_def m1_def calm_def)
  have "tick_peripherals n d m =
      upd_bus (tick_spm n) (upd_bus (set_current_cycle (current_cycle (scheduler (bus m2)) + n)) m2)"
    using False unfolding tick_peripherals_def Let_def m1_def[symmetric] m2_def[symmetric]
    by (simp add: m2 advance_to_empty)
  then show ?thesis using m2 by (simp add: calm_def tick_spm_def set_current_cycle_def)
qed (use assms in \<open>simp add: tick_peripherals_def\<close>)

lemma advance_calm:
  assumes "calm m"
  shows "calm (advance_cycles n m)" "reset_triggered (advance_cycles n m) = reset_triggered m"
proof -
  define m1 where "m1 = tick_peripherals n (active_clock_domains m) (m\<lparr>cycles := cycles m + n\<rparr>)"
  have "calm m1" "reset_triggered m1 = reset_triggered m"
    using tick_calm[of "m\<lparr>cycles := cycles m + n\<rparr>"] assms by (simp_all add: m1_def)
  then show "calm (advance_cycles n m)" "reset_triggered (advance_cycles n m) = reset_triggered m"
    unfolding advance_cycles_def advance_cycles_in_def Let_def m1_def[symmetric]
    by (simp_all add: calm_def refresh_interrupt_pending_def publish_pending_pin_changes_def upd_bus_def Let_def)
qed

section \<open>The machine of the examples\<close>

definition ready_machine :: "u16 list \<Rightarrow> machine" where
  "ready_machine prog = (sample_machine prog)\<lparr>reset_triggered := False\<rparr>"

lemma ready_not_reset [simp]: "\<not> reset_triggered (ready_machine prog)"
  by (simp add: ready_machine_def)

lemma ready_bus [simp]: "bus (ready_machine prog) = bus (sample_machine prog)"
  by (simp add: ready_machine_def)

lemma ready_stack_pointer [simp]: "stack_pointer (ready_machine prog) = range_end (sram_range sample_device)"
  by (simp add: ready_machine_def)

lemma ready_calm [simp]: "calm (ready_machine prog)"
  by (simp add: calm_def)

lemma ready_regs [simp]: "gpr (ready_machine prog) = (\<lambda>_. 0)"
  by (simp add: ready_machine_def)

end
