(* ===== verification/Arithmetic.thy ===== *)
theory Arithmetic
  imports Dispatch Quiet
begin

text \<open>
  What the arithmetic handlers of \<open>src/core/avr_cpu.cpp\<close> compute, as numbers: sums and
  differences with their carries and signs, products, shifts, and the two-instruction
  sequences compilers emit for 16-bit values.  A handler ends with
  \<open>advance_cycles\<close>, whose only way to disturb the registers is a reset.
\<close>

section \<open>Effects of single handlers\<close>

lemma unat_add_carry_out:
  "unat (l + r + of_flag c :: u8) + 256 * of_bool (flag Carry (update_add_flags l r (l + r + of_flag c) s)) =
     unat l + unat r + of_bool c"
  unfolding add_carry_out by (auto simp: unat_add_carry)

lemma unat_sub_borrow_out:
  "int (unat (l - r - of_flag c :: u8)) =
     int (unat l) - int (unat r) - of_bool c + 256 * of_bool (flag Carry (update_sub_flags l r (l - r - of_flag c) s))"
  unfolding sub_borrow_out unat_sub_borrow by simp

lemma negative_sint: "bit (w::u8) 7 \<longleftrightarrow> sint w < 0"
  using u8_less[of w] by (auto simp: sint8 bit7_unat simp del: of_nat_unat)

text \<open>
  C5. ADC adds with carry: the sum of the two registers and the carry is the result plus
  256 times the new carry; V says that the signed sum does not fit a byte, S that it is
  negative, H is the carry out of the low nibble, N and Z describe the result, T and I stay,
  the program counter advances by one and one cycle passes.
\<close>

theorem adc_arithmetic:
  "let D = decode_destination_register (opcode i); a = gpr m D;
       b = gpr m (decode_source_register (opcode i)); c = flag Carry (sreg m)
   in \<exists>res s.
        execute_adc i m =
          advance_cycles 1 (m\<lparr>gpr := (gpr m)(D := res), sreg := s, program_counter := word_address i + 1\<rparr>) \<and>
        unat res + 256 * of_bool (flag Carry s) = unat a + unat b + of_bool c \<and>
        flag Overflow s = (sint a + sint b + of_bool c \<notin> {-128..<128}) \<and>
        flag Sign s = (sint a + sint b + of_bool c < 0) \<and>
        flag HalfCarry s = (16 \<le> unat a mod 16 + unat b mod 16 + of_bool c) \<and>
        flag Negative s = (sint res < 0) \<and> flag Zero s = (res = 0) \<and>
        flag Transfer s = flag Transfer (sreg m) \<and> flag Interrupt s = flag Interrupt (sreg m)"
proof -
  let ?a = "gpr m (decode_destination_register (opcode i))"
  let ?b = "gpr m (decode_source_register (opcode i))"
  let ?r = "?a + ?b + of_flag (flag Carry (sreg m))"
  let ?s = "update_add_flags ?a ?b ?r (sreg m)"
  show ?thesis unfolding Let_def
    by (rule exI[of _ ?r], rule exI[of _ ?s], intro conjI unat_add_carry_out add_sign add_half_carry)
       (auto simp: execute_adc_def Let_def retire_def upd_sreg_def put_reg_def add_overflow negative_sint
          simp del: flag_update_add(2,3))
qed

lemma flag_sub_with_borrow [simp]:
  "flag f (sub_with_borrow_flags l r x s) =
     (if f = Zero then flag Zero s \<and> x = 0 else flag f (update_sub_flags l r x s))"
  by (simp add: sub_with_borrow_flags_def)

text \<open>
  C6. SBC subtracts with borrow: the difference of the registers and the carry is the result
  minus 256 times the new carry, V and S speak of the signed difference, and Z is the
  conjunction of the old Z and a zero result, so that a chain of SBC and CPC tests a whole
  multi-byte value.
\<close>

theorem sbc_arithmetic:
  "let D = decode_destination_register (opcode i); a = gpr m D;
       b = gpr m (decode_source_register (opcode i)); c = flag Carry (sreg m)
   in \<exists>res s.
        execute_sbc i m =
          advance_cycles 1 (m\<lparr>gpr := (gpr m)(D := res), sreg := s, program_counter := word_address i + 1\<rparr>) \<and>
        int (unat res) = int (unat a) - int (unat b) - of_bool c + 256 * of_bool (flag Carry s) \<and>
        flag Overflow s = (sint a - sint b - of_bool c \<notin> {-128..<128}) \<and>
        flag Sign s = (sint a < sint b + of_bool c) \<and>
        flag Negative s = (sint res < 0) \<and> flag Zero s = (flag Zero (sreg m) \<and> res = 0) \<and>
        flag Transfer s = flag Transfer (sreg m) \<and> flag Interrupt s = flag Interrupt (sreg m)"
proof -
  let ?a = "gpr m (decode_destination_register (opcode i))"
  let ?b = "gpr m (decode_source_register (opcode i))"
  let ?r = "?a - ?b - of_flag (flag Carry (sreg m))"
  let ?s = "sub_with_borrow_flags ?a ?b ?r (sreg m)"
  have carry: "int (unat ?r) = int (unat ?a) - int (unat ?b) - of_bool (flag Carry (sreg m))
      + 256 * of_bool (flag Carry ?s)"
    using unat_sub_borrow_out[of ?a ?b "flag Carry (sreg m)" "sreg m"]
    by (simp del: of_nat_unat flag_update_sub)
  show ?thesis unfolding Let_def
    by (rule exI[of _ ?r], rule exI[of _ ?s], intro conjI carry)
       (auto simp: execute_sbc_def Let_def retire_def upd_sreg_def put_reg_def sub_overflow sub_sign
          negative_sint simp del: flag_update_sub(3,4))
qed

section \<open>Sixteen-bit sequences\<close>

definition pair16 :: "u8 \<Rightarrow> u8 \<Rightarrow> u16" where
  "pair16 hi lo = ucast lo OR push_bit 8 (ucast hi)"

lemma unat_pair16: "unat (pair16 hi lo) = 256 * unat hi + unat lo"
proof -
  have "pair16 hi lo = ucast lo + push_bit 8 (ucast hi)"
    unfolding pair16_def
  proof (rule disjunctive_add[symmetric])
    fix n
    have "bit (ucast lo :: u16) n \<Longrightarrow> bit lo n" by (simp only: bit_ucast_iff)
    moreover have "bit lo n \<Longrightarrow> n < 8" using bit_imp_le_length[of lo n] by simp
    moreover have "bit (push_bit 8 (ucast hi) :: u16) n \<Longrightarrow> 8 \<le> n" by (simp only: bit_push_bit_iff)
    ultimately show "\<not> bit (ucast lo :: u16) n \<or> \<not> bit (push_bit 8 (ucast hi) :: u16) n"
      by (meson not_le)
  qed
  then have "pair16 hi lo = ucast lo + ucast hi * 256"
    by (simp add: push_bit_eq_mult)
  then show ?thesis using u8_less[of hi] u8_less[of lo]
    by (simp add: unat_word_ariths)
qed

lemma read_pair16: "read_register_pair low m = pair16 (gpr m (low + 1)) (gpr m low)"
  by (simp add: read_register_pair_def pair16_def)

lemma sint_pair16: "sint (pair16 hi lo) = 256 * sint hi + int (unat lo)"
  using u8_less[of hi] u8_less[of lo]
  by (auto simp: sint16 sint8 unat_pair16 bit15_unat bit7_unat simp del: of_nat_unat)

lemma retire_undisturbed:
  assumes "\<not> reset_triggered (retire i n m)"
  shows "\<not> reset_triggered m" "gpr (retire i n m) = gpr m" "sreg (retire i n m) = sreg m"
    "program_counter (retire i n m) = word_address i + 1"
    "cycles (retire i n m) = cycles m + n"
  using assms advance_cycles_undisturbed[of n "m\<lparr>program_counter := word_address i + 1\<rparr>"]
  by (simp_all add: retire_def)

lemma add_result:
  assumes "\<not> reset_triggered (execute_add i m)"
  shows "\<not> reset_triggered m" "gpr (execute_add i m) = (gpr m)(decode_destination_register (opcode i) := gpr m (decode_destination_register (opcode i)) + gpr m (decode_source_register (opcode i)))"
    "sreg (execute_add i m) = update_add_flags (gpr m (decode_destination_register (opcode i))) (gpr m (decode_source_register (opcode i)))
       (gpr m (decode_destination_register (opcode i)) + gpr m (decode_source_register (opcode i))) (sreg m)"
    "program_counter (execute_add i m) = word_address i + 1"
  using retire_undisturbed[OF assms[unfolded execute_add_def Let_def]]
  by (simp_all add: execute_add_def Let_def upd_sreg_def put_reg_def)

lemma adc_result:
  assumes "\<not> reset_triggered (execute_adc i m)"
  shows "\<not> reset_triggered m" "gpr (execute_adc i m) = (gpr m)(decode_destination_register (opcode i) := gpr m (decode_destination_register (opcode i)) + gpr m (decode_source_register (opcode i)) + of_flag (flag Carry (sreg m)))"
    "sreg (execute_adc i m) = update_add_flags (gpr m (decode_destination_register (opcode i))) (gpr m (decode_source_register (opcode i)))
       (gpr m (decode_destination_register (opcode i)) + gpr m (decode_source_register (opcode i)) + of_flag (flag Carry (sreg m))) (sreg m)"
    "program_counter (execute_adc i m) = word_address i + 1"
  using retire_undisturbed[OF assms[unfolded execute_adc_def Let_def]]
  by (simp_all add: execute_adc_def Let_def upd_sreg_def put_reg_def)

lemma sub_result:
  assumes "\<not> reset_triggered (execute_sub i m)"
  shows "\<not> reset_triggered m" "gpr (execute_sub i m) = (gpr m)(decode_destination_register (opcode i) := gpr m (decode_destination_register (opcode i)) - gpr m (decode_source_register (opcode i)))"
    "sreg (execute_sub i m) = update_sub_flags (gpr m (decode_destination_register (opcode i))) (gpr m (decode_source_register (opcode i)))
       (gpr m (decode_destination_register (opcode i)) - gpr m (decode_source_register (opcode i))) (sreg m)"
    "program_counter (execute_sub i m) = word_address i + 1"
  using retire_undisturbed[OF assms[unfolded execute_sub_def Let_def]]
  by (simp_all add: execute_sub_def Let_def upd_sreg_def put_reg_def)

lemma sbc_result:
  assumes "\<not> reset_triggered (execute_sbc i m)"
  shows "\<not> reset_triggered m" "gpr (execute_sbc i m) = (gpr m)(decode_destination_register (opcode i) := gpr m (decode_destination_register (opcode i)) - gpr m (decode_source_register (opcode i)) - of_flag (flag Carry (sreg m)))"
    "sreg (execute_sbc i m) = sub_with_borrow_flags (gpr m (decode_destination_register (opcode i))) (gpr m (decode_source_register (opcode i)))
       (gpr m (decode_destination_register (opcode i)) - gpr m (decode_source_register (opcode i)) - of_flag (flag Carry (sreg m))) (sreg m)"
    "program_counter (execute_sbc i m) = word_address i + 1"
  using retire_undisturbed[OF assms[unfolded execute_sbc_def Let_def]]
  by (simp_all add: execute_sbc_def Let_def upd_sreg_def put_reg_def)

lemma cp_result:
  assumes "\<not> reset_triggered (execute_cp i m)"
  shows "\<not> reset_triggered m" "gpr (execute_cp i m) = gpr m"
    "sreg (execute_cp i m) = update_sub_flags (gpr m (decode_destination_register (opcode i))) (gpr m (decode_source_register (opcode i)))
       (gpr m (decode_destination_register (opcode i)) - gpr m (decode_source_register (opcode i))) (sreg m)"
    "program_counter (execute_cp i m) = word_address i + 1"
  using retire_undisturbed[OF assms[unfolded execute_cp_def Let_def]]
  by (simp_all add: execute_cp_def Let_def upd_sreg_def put_reg_def)

lemma cpc_result:
  assumes "\<not> reset_triggered (execute_cpc i m)"
  shows "\<not> reset_triggered m" "gpr (execute_cpc i m) = gpr m"
    "sreg (execute_cpc i m) = sub_with_borrow_flags (gpr m (decode_destination_register (opcode i))) (gpr m (decode_source_register (opcode i)))
       (gpr m (decode_destination_register (opcode i)) - gpr m (decode_source_register (opcode i)) - of_flag (flag Carry (sreg m))) (sreg m)"
    "program_counter (execute_cpc i m) = word_address i + 1"
  using retire_undisturbed[OF assms[unfolded execute_cpc_def Let_def]]
  by (simp_all add: execute_cpc_def Let_def upd_sreg_def put_reg_def)

text \<open>The bytes of a sum or difference with the carries between them make the 16-bit one.\<close>

lemma pair_add:
  assumes "unat l + 256 * of_bool c = unat a0 + unat b0"
    and "unat h + 256 * of_bool d = unat a1 + unat b1 + of_bool c"
  shows "unat (pair16 h l) + 65536 * of_bool d = unat (pair16 a1 a0) + unat (pair16 b1 b0)"
  using assms unfolding unat_pair16 by linarith

lemma pair_sub:
  assumes "int (unat l) = int (unat a0) - int (unat b0) + 256 * of_bool c"
    and "int (unat h) = int (unat a1) - int (unat b1) - of_bool c + 256 * of_bool d"
  shows "int (unat (pair16 h l)) = int (unat (pair16 a1 a0)) - int (unat (pair16 b1 b0)) + 65536 * of_bool d"
  using assms unfolding unat_pair16 by (simp del: of_nat_unat)

lemma signed_sum:
  assumes "unat l + 256 * of_bool c = unat a0 + unat b0"
  shows "sint (pair16 a1 a0) + sint (pair16 b1 b0) = 256 * (sint a1 + sint b1 + of_bool c) + int (unat (l::u8))"
proof -
  have "int (unat a0) + int (unat b0) = int (unat l) + 256 * of_bool c"
    using assms by (metis of_nat_add of_nat_mult of_nat_numeral of_nat_of_bool)
  then show ?thesis unfolding sint_pair16 by simp
qed

lemma scaled_range: "256 * x + int (unat (l::u8)) \<in> {-32768..<32768} \<longleftrightarrow> x \<in> {-128..<128}"
  and scaled_sign: "256 * x + int (unat (l::u8)) < 0 \<longleftrightarrow> x < 0"
  using u8_less[of l] by (auto simp del: of_nat_unat)

text \<open>
  C7. ADD of the low bytes followed by ADC of the high bytes is 16-bit addition: unless a
  reset intervenes, the destination pair holds the sum modulo 2^16, C says that the unsigned
  sum does not fit, V that the signed one does not, and S is its sign.  The low destination
  must differ from both operands of the second instruction.
\<close>

theorem add_adc_sixteen_bit:
  assumes "\<not> reset_triggered (execute_adc ih (execute_add il m))"
    and "decode_destination_register (opcode il) \<noteq> decode_destination_register (opcode ih)"
    and "decode_destination_register (opcode il) \<noteq> decode_source_register (opcode ih)"
  shows "let dl = decode_destination_register (opcode il); dh = decode_destination_register (opcode ih);
             a = pair16 (gpr m dh) (gpr m dl);
             b = pair16 (gpr m (decode_source_register (opcode ih))) (gpr m (decode_source_register (opcode il)));
             m' = execute_adc ih (execute_add il m)
         in pair16 (gpr m' dh) (gpr m' dl) = a + b \<and>
            flag Carry (sreg m') = (65536 \<le> unat a + unat b) \<and>
            flag Overflow (sreg m') = (sint a + sint b \<notin> {-32768..<32768}) \<and>
            flag Sign (sreg m') = (sint a + sint b < 0)"
proof -
  define dl where "dl = decode_destination_register (opcode il)"
  define dh where "dh = decode_destination_register (opcode ih)"
  define sh where "sh = decode_source_register (opcode ih)"
  define sl where "sl = decode_source_register (opcode il)"
  note regs = dl_def[symmetric] dh_def[symmetric] sh_def[symmetric] sl_def[symmetric]
  define m1 where "m1 = execute_add il m"
  define l where "l = gpr m dl + gpr m sl + of_flag False"
  define c where "c = flag Carry (sreg m1)"
  define h where "h = gpr m dh + gpr m sh + of_flag c"
  have run: "\<not> reset_triggered (execute_adc ih m1)" using assms(1) by (simp add: m1_def)
  have first: "gpr m1 = (gpr m)(dl := l)" "sreg m1 = update_add_flags (gpr m dl) (gpr m sl) l (sreg m)"
    using add_result[of il m] adc_result(1)[OF run] by (simp_all add: m1_def regs l_def of_flag_def)
  have second: "gpr (execute_adc ih m1) = (gpr m1)(dh := h)"
      "sreg (execute_adc ih m1) = update_add_flags (gpr m dh) (gpr m sh) h (sreg m1)"
    using adc_result[OF run] assms(2,3) by (simp_all add: first(1) regs h_def c_def)
  define d where "d = flag Carry (sreg (execute_adc ih m1))"
  have lo: "unat l + 256 * of_bool c = unat (gpr m dl) + unat (gpr m sl)"
    using unat_add_carry_out[of "gpr m dl" "gpr m sl" False "sreg m"] unfolding c_def first l_def by simp
  have hi: "unat h + 256 * of_bool d = unat (gpr m dh) + unat (gpr m sh) + of_bool c"
    unfolding d_def second h_def by (rule unat_add_carry_out)
  note total = pair_add[OF lo hi]
  have res: "pair16 h l = pair16 (gpr m dh) (gpr m dl) + pair16 (gpr m sh) (gpr m sl)"
    using total u16_less[of "pair16 h l"] by (simp add: word_unat_eq_iff unat_word_ariths flip: total)
  have carry: "d = (65536 \<le> unat (pair16 (gpr m dh) (gpr m dl)) + unat (pair16 (gpr m sh) (gpr m sl)))"
    using total u16_less[of "pair16 h l"] by (cases d) auto
  have regs': "gpr (execute_adc ih m1) dh = h" "gpr (execute_adc ih m1) dl = l"
    using assms(2) by (simp_all add: second first regs)
  show ?thesis
    unfolding Let_def regs m1_def[symmetric] regs' res carry[unfolded d_def] signed_sum[OF lo] scaled_range scaled_sign
    by (simp add: second h_def add_overflow add_sign del: flag_update_add(3,4))
qed

lemma add_adc_sixteen_bit_witness:
  "let m = (ready_machine [])\<lparr>gpr := (\<lambda>_. 0)(16 := 0xFF, 17 := 0x12, 18 := 0x02)\<rparr>;
       m' = execute_adc (one_word 0x1F13 m) (execute_add (one_word 0x0F02 m) m)
   in pair16 (gpr m' 17) (gpr m' 16) = pair16 0x12 0xFF + pair16 0 0x02"
proof -
  let ?m = "(ready_machine [])\<lparr>gpr := (\<lambda>_. 0)(16 := 0xFF, 17 := 0x12, 18 := 0x02)\<rparr>"
  have "\<not> reset_triggered (execute_adc (one_word 0x1F13 ?m) (execute_add (one_word 0x0F02 ?m) ?m))"
    by (simp add: execute_adc_def execute_add_def Let_def retire_def upd_sreg_def put_reg_def advance_calm)
  from add_adc_sixteen_bit[OF this] show ?thesis
    by (simp add: Let_def decode_destination_register_def decode_source_register_def)
qed

lemma signed_difference:
  assumes "int (unat (l::u8)) = int (unat a0) - int (unat b0) + 256 * of_bool c"
  shows "sint (pair16 a1 a0) < sint (pair16 b1 b0) \<longleftrightarrow> sint a1 < sint b1 + of_bool c"
proof -
  have "sint (pair16 a1 a0) - sint (pair16 b1 b0) = 256 * (sint a1 - sint b1 - of_bool c) + int (unat (l::u8))"
    using assms unfolding sint_pair16 by (simp del: of_nat_unat)
  then show ?thesis using scaled_sign[of "sint a1 - sint b1 - of_bool c" l] by linarith
qed

lemma pair16_eq_iff: "pair16 h l = pair16 h' l' \<longleftrightarrow> h = h' \<and> l = l'"
proof
  assume "pair16 h l = pair16 h' l'"
  then have "256 * unat h + unat l = 256 * unat h' + unat l'"
    using unat_pair16 by metis
  moreover have "x = x' \<and> y = y'" if "256 * x + y = 256 * x' + y'" "y < 256" "y' < 256" for x x' y y' :: nat
    using that by (cases x x' rule: linorder_cases) linarith+
  ultimately have "unat h = unat h' \<and> unat l = unat l'"
    using u8_less[of l] u8_less[of l'] by blast
  then show "h = h' \<and> l = l'" by (simp add: word_unat_eq_iff)
qed simp

text \<open>
  C8. CP of the low bytes followed by CPC of the high bytes compares 16-bit values: unless a
  reset intervenes, no register changes, C is the unsigned \<open><\<close>, Z is equality and S is
  the signed \<open><\<close>, which are the conditions of BRLO, BREQ and BRLT.
\<close>

theorem cp_cpc_sixteen_bit:
  assumes "\<not> reset_triggered (execute_cpc ih (execute_cp il m))"
  shows "let a = pair16 (gpr m (decode_destination_register (opcode ih)))
                        (gpr m (decode_destination_register (opcode il)));
             b = pair16 (gpr m (decode_source_register (opcode ih))) (gpr m (decode_source_register (opcode il)));
             m' = execute_cpc ih (execute_cp il m)
         in gpr m' = gpr m \<and> flag Carry (sreg m') = (a < b) \<and> flag Zero (sreg m') = (a = b) \<and>
            flag Sign (sreg m') = (a <s b)"
proof -
  define a0 where "a0 = gpr m (decode_destination_register (opcode il))"
  define a1 where "a1 = gpr m (decode_destination_register (opcode ih))"
  define b0 where "b0 = gpr m (decode_source_register (opcode il))"
  define b1 where "b1 = gpr m (decode_source_register (opcode ih))"
  note regs = a0_def[symmetric] a1_def[symmetric] b0_def[symmetric] b1_def[symmetric]
  define m1 where "m1 = execute_cp il m"
  define l where "l = a0 - b0 - of_flag False"
  define c where "c = flag Carry (sreg m1)"
  define h where "h = a1 - b1 - of_flag c"
  have run: "\<not> reset_triggered (execute_cpc ih m1)" using assms by (simp add: m1_def)
  have first: "gpr m1 = gpr m" "sreg m1 = update_sub_flags a0 b0 l (sreg m)"
    using cp_result[of il m] cpc_result(1)[OF run] by (simp_all add: m1_def regs l_def of_flag_def)
  have second: "gpr (execute_cpc ih m1) = gpr m"
      "sreg (execute_cpc ih m1) = sub_with_borrow_flags a1 b1 h (sreg m1)"
    using cpc_result[OF run] by (simp_all add: first(1) regs h_def c_def)
  define d where "d = flag Carry (sreg (execute_cpc ih m1))"
  have lo: "int (unat l) = int (unat a0) - int (unat b0) + 256 * of_bool c"
    using unat_sub_borrow_out[of a0 b0 False "sreg m"] unfolding c_def first l_def
    by (simp del: of_nat_unat flag_update_sub)
  have hi: "int (unat h) = int (unat a1) - int (unat b1) - of_bool c + 256 * of_bool d"
    using unat_sub_borrow_out[of a1 b1 c "sreg m1"] unfolding d_def second h_def
    by (simp del: of_nat_unat flag_update_sub)
  note total = pair_sub[OF lo hi]
  have carry: "d = (pair16 a1 a0 < pair16 b1 b0)"
    using total u16_less[of "pair16 h l"] u16_less[of "pair16 a1 a0"] u16_less[of "pair16 b1 b0"]
    by (cases d) (simp_all add: word_less_nat_alt del: of_nat_unat)
  have zero: "(l = 0 \<and> h = 0) = (pair16 a1 a0 = pair16 b1 b0)"
    unfolding pair16_eq_iff l_def h_def using c_def first(2)
    by (auto simp: of_flag_def l_def)
  have less: "pair16 a1 a0 <s pair16 b1 b0 \<longleftrightarrow> sint a1 < sint b1 + of_bool c"
    unfolding word_sless_alt by (rule signed_difference[OF lo])
  show ?thesis
    unfolding Let_def regs m1_def[symmetric] carry[unfolded d_def] less zero[symmetric]
    using second h_def sub_sign[of a1 b1 c "sreg m1"]
    by (auto simp: first(2) simp del: flag_update_sub(4))
qed

lemma cp_cpc_sixteen_bit_witness:
  "let m = (ready_machine [])\<lparr>gpr := (\<lambda>_. 0)(16 := 0xFF, 17 := 0x12, 18 := 0x02, 19 := 0xF3)\<rparr>;
       m' = execute_cpc (one_word 0x0713 m) (execute_cp (one_word 0x1702 m) m)
   in flag Carry (sreg m') = (pair16 0x12 0xFF < pair16 0xF3 0x02) \<and>
      flag Sign (sreg m') = (pair16 0x12 0xFF <s pair16 0xF3 0x02)"
proof -
  let ?m = "(ready_machine [])\<lparr>gpr := (\<lambda>_. 0)(16 := 0xFF, 17 := 0x12, 18 := 0x02, 19 := 0xF3)\<rparr>"
  have "\<not> reset_triggered (execute_cpc (one_word 0x0713 ?m) (execute_cp (one_word 0x1702 ?m) ?m))"
    by (simp add: execute_cp_def execute_cpc_def Let_def retire_def upd_sreg_def advance_calm)
  from cp_cpc_sixteen_bit[OF this] show ?thesis
    by (simp add: Let_def decode_destination_register_def decode_source_register_def)
qed

section \<open>Products\<close>

lemma low_byte: "(r::u16) AND 0xFF = take_bit 8 r"
  by (simp add: take_bit_eq_mask mask_eq_exp_minus_1)

lemma pair16_bytes: "pair16 (ucast (drop_bit 8 r AND 0xFF)) (ucast (r AND 0xFF)) = r"
proof (rule bit_word_eqI)
  fix n assume "n < LENGTH(16)"
  then show "bit (pair16 (ucast (drop_bit 8 r AND 0xFF)) (ucast (r AND 0xFF))) n = bit r n"
    unfolding low_byte pair16_def
    by (cases "n < 8") (auto simp add: bit_or_iff bit_ucast_iff bit_push_bit_iff bit_take_bit_iff bit_drop_bit_eq)
qed

lemma unat_product: "unat (ucast a * ucast b :: u16) = unat (a::u8) * unat (b::u8)"
proof -
  have "unat a * unat b \<le> 255 * 255"
    using u8_less[of a] u8_less[of b] by (intro mult_mono) auto
  then show ?thesis by (simp add: unat_word_ariths)
qed

lemma sint_word_of_int16: "\<bar>x\<bar> \<le> 32767 \<Longrightarrow> sint (word_of_int x :: u16) = x"
  by (simp add: signed_of_int signed_take_bit_int_eq_self abs_le_iff)

lemma abs_sint8: "\<bar>sint (a::u8)\<bar> \<le> 128"
  using u8_less[of a] by (auto simp: sint8 bit7_unat simp del: of_nat_unat)

lemma sint_product:
  "sint (scast a * scast b :: u16) = sint (a::u8) * sint (b::u8)"
  "sint (scast a * ucast b :: u16) = sint (a::u8) * uint (b::u8)"
proof -
  have "\<bar>sint a * sint b\<bar> \<le> 128 * 128"
    unfolding abs_mult using abs_sint8 by (intro mult_mono) auto
  then have "sint (word_of_int (sint a * sint b) :: u16) = sint a * sint b"
    by (intro sint_word_of_int16) simp
  then show "sint (scast a * scast b :: u16) = sint a * sint b" by simp
  have "\<bar>sint a * uint b\<bar> \<le> 128 * 255"
    unfolding abs_mult using abs_sint8 unsigned_less[of b, where 'a = int] by (intro mult_mono) auto
  then have "sint (word_of_int (sint a * uint b) :: u16) = sint a * uint b"
    by (intro sint_word_of_int16) simp
  then show "sint (scast a * ucast b :: u16) = sint a * uint b" by simp
qed

lemma negative_sint16: "bit (w::u16) 15 \<longleftrightarrow> sint w < 0"
  using u16_less[of w] by (auto simp: sint16 bit15_unat simp del: of_nat_unat)

lemma sint_0_iff: "w = 0 \<longleftrightarrow> sint (w::u16) = 0"
proof
  assume "sint w = 0"
  moreover have "w = word_of_int (sint w)" by simp
  ultimately show "w = 0" by (simp only: of_int_0)
qed simp

lemma put_product_effect:
  "put_product p r m =
     m\<lparr>gpr := (gpr m)(0 := ucast (r AND 0xFF), 1 := ucast (drop_bit 8 r AND 0xFF)),
       sreg := sreg (put_product p r m)\<rparr>"
  "flag f (sreg (put_product p r m)) =
     (if f = Carry then bit p 15 else if f = Zero then r = 0 else flag f (sreg m))"
  by (simp_all add: put_product_def put_flag_def upd_sreg_def write_register_def mask_bit)

text \<open>
  C9. MUL, MULS and MULSU put the exact 16-bit product of the unsigned, signed or mixed
  operands into R1:R0, with C its top bit and Z telling whether it is zero; FMUL puts twice
  the unsigned product, modulo 2^16, with C the bit shifted out.  Nothing else changes but the
  program counter, and two cycles pass.
\<close>

theorem multiplication:
  "let prod = (\<lambda>f s. m\<lparr>gpr := f, sreg := s, program_counter := word_address i + 1\<rparr>);
       D = gpr m (decode_destination_register (opcode i)); S = gpr m (decode_source_register (opcode i));
       DU = gpr m (decode_upper_register (opcode i)); SU = gpr m (ucast (16 + (opcode i AND 0x0F)));
       DM = gpr m (decode_mul_destination (opcode i)); SM = gpr m (decode_mul_source (opcode i))
   in (\<exists>l h s. execute_mul i m = advance_cycles 2 (prod ((gpr m)(0 := l, 1 := h)) s) \<and>
         unat (pair16 h l) = unat D * unat S \<and>
         flag Carry s = (32768 \<le> unat D * unat S) \<and> flag Zero s = (unat D * unat S = 0)) \<and>
      (\<exists>l h s. execute_muls i m = advance_cycles 2 (prod ((gpr m)(0 := l, 1 := h)) s) \<and>
         sint (pair16 h l) = sint DU * sint SU \<and>
         flag Carry s = (sint DU * sint SU < 0) \<and> flag Zero s = (sint DU * sint SU = 0)) \<and>
      (\<exists>l h s. execute_mulsu i m = advance_cycles 2 (prod ((gpr m)(0 := l, 1 := h)) s) \<and>
         sint (pair16 h l) = sint DM * uint SM \<and>
         flag Carry s = (sint DM * uint SM < 0) \<and> flag Zero s = (sint DM * uint SM = 0)) \<and>
      (\<exists>l h s. execute_fmul i m = advance_cycles 2 (prod ((gpr m)(0 := l, 1 := h)) s) \<and>
         unat (pair16 h l) = 2 * (unat DM * unat SM) mod 65536 \<and>
         flag Carry s = (32768 \<le> unat DM * unat SM) \<and>
         flag Zero s = (2 * (unat DM * unat SM) mod 65536 = 0))"
proof -
  have retired: "\<exists>l h s. retire i 2 (put_product p r m) =
        advance_cycles 2 (m\<lparr>gpr := (gpr m)(0 := l, 1 := h), sreg := s, program_counter := word_address i + 1\<rparr>) \<and>
        pair16 h l = r \<and> flag Carry s = bit p 15 \<and> flag Zero s = (r = 0)" for p r
    by (rule exI[of _ "ucast (r AND 0xFF)"], rule exI[of _ "ucast (drop_bit 8 r AND 0xFF)"],
        rule exI[of _ "sreg (put_product p r m)"])
       (simp add: retire_def pair16_bytes put_product_effect(2), subst put_product_effect(1), simp)
  have unsigned: "\<exists>l h s. retire i 2 (put_product p r m) =
        advance_cycles 2 (m\<lparr>gpr := (gpr m)(0 := l, 1 := h), sreg := s, program_counter := word_address i + 1\<rparr>) \<and>
        unat (pair16 h l) = unat r \<and> flag Carry s = (32768 \<le> unat p) \<and> flag Zero s = (unat r = 0)" for p r
    using retired[of p r] unfolding bit15_unat unat_eq_0 by metis
  have signed: "\<exists>l h s. retire i 2 (put_product p p m) =
        advance_cycles 2 (m\<lparr>gpr := (gpr m)(0 := l, 1 := h), sreg := s, program_counter := word_address i + 1\<rparr>) \<and>
        sint (pair16 h l) = sint p \<and> flag Carry s = (sint p < 0) \<and> flag Zero s = (sint p = 0)" for p
    using retired[of p p] unfolding negative_sint16 sint_0_iff by metis
  have double: "unat (push_bit 1 w) = 2 * unat w mod 65536" for w :: u16
    by (simp add: push_bit_eq_mult unat_word_ariths mult.commute)
  show ?thesis
    unfolding Let_def execute_mul_def execute_muls_def execute_mulsu_def execute_fmul_def
      unat_product[symmetric] double[symmetric] sint_product[symmetric]
    by (intro conjI unsigned signed)
qed

end
