(* ===== verification/Stack.thy ===== *)
theory Stack
  imports Dispatch Quiet
begin

text \<open>
  The hardware stack in the SRAM: PUSH and POP, the calls and RET, interrupt entry and RETI
  (\<open>push_byte\<close> to \<open>pop_pc\<close> and their users in \<open>src/core/avr_cpu.cpp\<close>).  The
  locale is the interface they rely on, a memory whose cells keep what is stored in them; the
  SRAM behind the data bus interprets it.
\<close>

section \<open>The interface\<close>

locale cell_memory =
  fixes load :: "'a \<Rightarrow> 'm \<Rightarrow> 'v" and store :: "'a \<Rightarrow> 'v \<Rightarrow> 'm \<Rightarrow> 'm" and cell :: "'m \<Rightarrow> 'a \<Rightarrow> bool"
  assumes load_store: "cell m a \<Longrightarrow> cell m b \<Longrightarrow> load a (store b v m) = (if a = b then v else load a m)"
    and cell_store: "cell m b \<Longrightarrow> cell (store b v m) a = cell m a"
begin

definition stores :: "('a \<times> 'v) list \<Rightarrow> 'm \<Rightarrow> 'm" where
  "stores ps m = fold (\<lambda>(a, v). store a v) ps m"

lemma cell_stores: "\<forall>(b, v)\<in>set ps. cell m b \<Longrightarrow> cell (stores ps m) a = cell m a"
  by (induction ps arbitrary: m) (auto simp: stores_def cell_store)

lemma load_other:
  assumes "cell m a" and "\<forall>(b, v)\<in>set ps. cell m b \<and> b \<noteq> a"
  shows "load a (stores ps m) = load a m"
  using assms
proof (induction ps arbitrary: m)
  case (Cons p ps)
  obtain b v where p: "p = (b, v)" by (cases p)
  have "load a (stores (p # ps) m) = load a (stores ps (store b v m))"
    by (simp add: stores_def p)
  also have "\<dots> = load a (store b v m)"
    using Cons.prems by (intro Cons.IH) (auto simp: p cell_store)
  finally show ?case using Cons.prems by (auto simp: p load_store)
qed (simp add: stores_def)

lemma load_stored:
  assumes "\<forall>(b, v)\<in>set ps. cell m b" and "distinct (map fst ps)" and "(a, w) \<in> set ps"
  shows "load a (stores ps m) = w"
  using assms
proof (induction ps arbitrary: m)
  case (Cons p ps)
  obtain b v where p: "p = (b, v)" by (cases p)
  have cells: "\<forall>(c, v')\<in>set ps. cell (store b v m) c"
    using Cons.prems(1) by (auto simp: p cell_store)
  have "load a (stores (p # ps) m) = load a (stores ps (store b v m))"
    by (simp add: stores_def p)
  also have "\<dots> = w"
  proof (cases "(a, w) \<in> set ps")
    case True
    then show ?thesis using Cons.prems cells by (intro Cons.IH) auto
  next
    case False
    then have eq: "a = b" "w = v" using Cons.prems(3) by (auto simp: p)
    then have "\<forall>(c, v')\<in>set ps. c \<noteq> a" using Cons.prems(2) by (force simp: p)
    then have "load a (stores ps (store b v m)) = load a (store b v m)"
      using Cons.prems(1) cells eq by (intro load_other) (auto simp: p cell_store)
    then show ?thesis using Cons.prems(1) eq by (auto simp: p load_store)
  qed
  finally show ?case .
qed simp

end

section \<open>The SRAM\<close>

definition stack_slot :: "machine \<Rightarrow> u16 \<Rightarrow> bool" where
  "stack_slot m a \<longleftrightarrow>
     range_contains (sram_range (device (bus m))) a \<and>
     \<not> range_contains (register_file_range (device (bus m))) a \<and>
     unat a < length (data (bus m)) \<and> a \<noteq> spmcsr_address (device (bus m))"

definition sram_load :: "u16 \<Rightarrow> machine \<Rightarrow> u8" where
  "sram_load a m = data (bus m) ! unat a"

lemma write_slot:
  "stack_slot m a \<Longrightarrow> write_data_bus a v m = upd_bus (\<lambda>b. b\<lparr>data := (data b)[unat a := v]\<rparr>) m"
  by (simp add: write_data_bus_def stack_slot_def Let_def)

lemma read_slot: "stack_slot m a \<Longrightarrow> read_data_bus a m = (sram_load a m, m)"
  by (simp add: read_data_bus_def stack_slot_def sram_load_def Let_def)

interpretation sram: cell_memory sram_load write_data_bus stack_slot
  by unfold_locales
     (auto simp: write_slot sram_load_def stack_slot_def nth_list_update word_unat_eq_iff)

lemma slot_upd [simp]:
  "stack_slot (m\<lparr>stack_pointer := s\<rparr>) a = stack_slot m a"
  "stack_slot (m\<lparr>program_counter := p\<rparr>) a = stack_slot m a"
  "sram_load a (m\<lparr>stack_pointer := s\<rparr>) = sram_load a m"
  "sram_load a (m\<lparr>program_counter := p\<rparr>) = sram_load a m"
  by (simp_all add: stack_slot_def sram_load_def)

lemma write_slot_sel [simp]:
  assumes "stack_slot m a"
  shows "stack_pointer (write_data_bus a v m) = stack_pointer m" "gpr (write_data_bus a v m) = gpr m"
    "sreg (write_data_bus a v m) = sreg m" "program_counter (write_data_bus a v m) = program_counter m"
    "reset_triggered (write_data_bus a v m) = reset_triggered m"
    "device (bus (write_data_bus a v m)) = device (bus m)"
    "length (data (bus (write_data_bus a v m))) = length (data (bus m))"
    "interrupt_depth (write_data_bus a v m) = interrupt_depth m"
    "stack_slot (write_data_bus a v m) b = stack_slot m b"
  using assms by (simp_all add: write_slot stack_slot_def)

lemma push_slot:
  "stack_slot m (stack_pointer m) \<Longrightarrow>
     push_byte v m = (write_data_bus (stack_pointer m) v m)\<lparr>stack_pointer := stack_pointer m - 1\<rparr>"
  by (simp add: push_byte_def)

lemma pop_slot:
  "stack_slot m (stack_pointer m + 1) \<Longrightarrow>
     pop_byte m = (sram_load (stack_pointer m + 1) m, m\<lparr>stack_pointer := stack_pointer m + 1\<rparr>)"
  by (simp add: pop_byte_def read_slot Let_def)

lemma slot_advance:
  assumes "\<not> reset_triggered (advance_cycles n m)"
  shows "stack_slot (advance_cycles n m) a = stack_slot m a"
    and "stack_slot m a \<Longrightarrow> sram_load a (advance_cycles n m) = sram_load a m"
  using advance_cycles_undisturbed(12)[OF assms]
  by (auto simp: stack_slot_def sram_load_def same_data_def word_unat_eq_iff)

section \<open>Return addresses\<close>

definition wide_pc :: "machine \<Rightarrow> bool" where
  "wide_pc m \<longleftrightarrow> flash_words (device (bus m)) > 65536"

definition frame_bytes :: "machine \<Rightarrow> u16" where
  "frame_bytes m = (if wide_pc m then 3 else 2)"

definition stack_room :: "machine \<Rightarrow> bool" where
  "stack_room m \<longleftrightarrow>
     stack_slot m (stack_pointer m) \<and> stack_slot m (stack_pointer m - 1) \<and>
     (wide_pc m \<longrightarrow> stack_slot m (stack_pointer m - 2))"

definition return_address_at :: "u16 \<Rightarrow> u32 \<Rightarrow> machine \<Rightarrow> bool" where
  "return_address_at sp a m \<longleftrightarrow>
     sram_load sp m = ucast a \<and> sram_load (sp - 1) m = ucast (drop_bit 8 a) \<and>
     (wide_pc m \<longrightarrow> sram_load (sp - 2) m = ucast (drop_bit 16 a))"

text \<open>The addresses that the pushed bytes can represent.\<close>

definition address_fits :: "machine \<Rightarrow> u32 \<Rightarrow> bool" where
  "address_fits m a \<longleftrightarrow> a < (if wide_pc m then 2 ^ 24 else 2 ^ 16)"

lemma low_byte32: "(a :: u32) AND 0xFF = take_bit 8 a"
  by (simp add: take_bit_eq_mask mask_eq_exp_minus_1)

lemma ucast_low_byte: "(ucast (a AND 0xFF) :: u8) = ucast (a :: u32)"
proof (rule bit_word_eqI)
  fix n assume "n < LENGTH(8)"
  then show "bit (ucast (a AND 0xFF) :: u8) n = bit (ucast a :: u8) n"
    by (simp add: low_byte32 bit_ucast_iff bit_take_bit_iff)
qed

lemma push_pc_effect:
  assumes "stack_room m"
  shows "stack_pointer (push_pc a m) = stack_pointer m - frame_bytes m"
    and "return_address_at (stack_pointer m) a (push_pc a m)"
    and "gpr (push_pc a m) = gpr m" and "sreg (push_pc a m) = sreg m"
    and "reset_triggered (push_pc a m) = reset_triggered m"
    and "device (bus (push_pc a m)) = device (bus m)"
    and "stack_slot (push_pc a m) b = stack_slot m b"
  using assms
  by (auto simp: push_pc_def Let_def push_slot stack_room_def wide_pc_def frame_bytes_def
      return_address_at_def sram.load_store ucast_low_byte)

text \<open>Reading the bytes back in the opposite order gives the address again.\<close>

lemma bytes_of_u32:
  "(push_bit 16 (ucast (ucast (drop_bit 16 a) :: u8)) OR push_bit 8 (ucast (ucast (drop_bit 8 a) :: u8))
     OR ucast (ucast a :: u8) :: u32) = take_bit 24 a"
  "(push_bit 8 (ucast (ucast (drop_bit 8 a) :: u8)) OR ucast (ucast a :: u8) :: u32) = take_bit 16 a"
proof -
  show "(push_bit 16 (ucast (ucast (drop_bit 16 a) :: u8)) OR push_bit 8 (ucast (ucast (drop_bit 8 a) :: u8))
     OR ucast (ucast a :: u8) :: u32) = take_bit 24 a"
  proof (rule bit_word_eqI)
    fix n assume "n < LENGTH(32)"
    then show "bit (push_bit 16 (ucast (ucast (drop_bit 16 a) :: u8)) OR push_bit 8 (ucast (ucast (drop_bit 8 a) :: u8))
        OR ucast (ucast a :: u8) :: u32) n = bit (take_bit 24 a) n"
      by (cases "n < 16")
         (auto simp: bit_or_iff bit_push_bit_iff bit_ucast_iff bit_drop_bit_eq bit_take_bit_iff)
  qed
  show "(push_bit 8 (ucast (ucast (drop_bit 8 a) :: u8)) OR ucast (ucast a :: u8) :: u32) = take_bit 16 a"
    by (rule bit_word_eqI)
       (auto simp: bit_or_iff bit_push_bit_iff bit_ucast_iff bit_drop_bit_eq bit_take_bit_iff)
qed

lemma take_bit_fits: "(a :: u32) < 2 ^ 24 \<Longrightarrow> take_bit 24 a = a" "(a :: u32) < 2 ^ 16 \<Longrightarrow> take_bit 16 a = a"
  by (simp_all add: word_unat_eq_iff word_less_nat_alt unsigned_take_bit_eq take_bit_nat_eq_self)

text \<open>
  The state a callee hands back: the stack pointer it was entered with, the device and the
  three bytes above the stack pointer.
\<close>

definition frame_intact :: "machine \<Rightarrow> machine \<Rightarrow> bool" where
  "frame_intact m m' \<longleftrightarrow>
     stack_pointer m' = stack_pointer m \<and> device (bus m') = device (bus m) \<and>
     length (data (bus m')) = length (data (bus m)) \<and>
     (\<forall>k\<in>{1, 2, 3}. sram_load (stack_pointer m + k) m' = sram_load (stack_pointer m + k) m)"

lemma pop_pc_effect:
  assumes "stack_pointer m = sp - frame_bytes m" and "return_address_at sp a m" and "address_fits m a"
    and "stack_slot m sp" "stack_slot m (sp - 1)" "wide_pc m \<longrightarrow> stack_slot m (sp - 2)"
  shows "pop_pc m = (a, m\<lparr>stack_pointer := sp\<rparr>)"
proof (cases "wide_pc m")
  case True
  have up: "sp - 3 + 1 = sp - 2" "sp - 2 + 1 = sp - 1" "sp - 1 + 1 = sp" by simp_all
  have fits: "take_bit 24 a = a" using assms(3) True by (intro take_bit_fits) (simp_all add: address_fits_def)
  show ?thesis
    using assms True bytes_of_u32(1)[of a] fits
    by (simp add: pop_pc_def wide_pc_def[symmetric] pop_slot up frame_bytes_def return_address_at_def
        or.assoc Let_def)
next
  case False
  have up: "sp - 2 + 1 = sp - 1" "sp - 1 + 1 = sp" by simp_all
  have fits: "take_bit 16 a = a" using assms(3) False by (intro take_bit_fits) (simp_all add: address_fits_def)
  show ?thesis
    using assms False bytes_of_u32(2)[of a] fits
    by (simp add: pop_pc_def wide_pc_def[symmetric] pop_slot up frame_bytes_def return_address_at_def Let_def)
qed

text \<open>A callee that leaves its frame intact leaves the return address.\<close>

lemma frame_keeps_return:
  assumes "return_address_at sp a M" and "stack_pointer M = sp - frame_bytes m"
    and "frame_intact M m2" and "wide_pc M = wide_pc m" and "wide_pc m2 = wide_pc m"
  shows "return_address_at sp a m2"
proof -
  have "sram_load (sp - frame_bytes m + k) m2 = sram_load (sp - frame_bytes m + k) M" if "k \<in> {1, 2, 3}" for k
    using assms(3) that unfolding frame_intact_def assms(2) by blast
  then have "sram_load sp m2 = sram_load sp M" "sram_load (sp - 1) m2 = sram_load (sp - 1) M"
    "wide_pc m \<longrightarrow> sram_load (sp - 2) m2 = sram_load (sp - 2) M"
    by (force simp: frame_bytes_def split: if_splits)+
  then show ?thesis using assms(1,4,5) by (simp add: return_address_at_def)
qed

lemma pop_pushed_pc:
  assumes room: "stack_room m" and fits: "address_fits m a"
    and undisturbed: "\<not> reset_triggered (advance_cycles n ((push_pc a m)\<lparr>program_counter := t\<rparr>))"
    and frame: "frame_intact (advance_cycles n ((push_pc a m)\<lparr>program_counter := t\<rparr>)) m2"
  shows "pop_pc m2 = (a, m2\<lparr>stack_pointer := stack_pointer m\<rparr>)"
proof -
  let ?m1 = "(push_pc a m)\<lparr>program_counter := t\<rparr>"
  let ?M = "advance_cycles n ?m1"
  let ?sp = "stack_pointer m"
  note push = push_pc_effect[OF room]
  have sp: "stack_pointer ?M = ?sp - frame_bytes m"
    using advance_cycles_undisturbed(4)[OF undisturbed] push(1) by simp
  have slots: "stack_slot ?M x = stack_slot m x" for x
    using slot_advance(1)[OF undisturbed] push(7) by simp
  have wide: "wide_pc ?M = wide_pc m" "wide_pc m2 = wide_pc m" "frame_bytes m2 = frame_bytes m"
    using frame push(6) by (simp_all add: wide_pc_def frame_bytes_def frame_intact_def)
  have slots2: "stack_slot m2 x = stack_slot m x" for x
    using frame slots[of x] push(6) by (simp add: frame_intact_def stack_slot_def)
  have "return_address_at ?sp a ?M"
    using push(2,6,7) room slot_advance(2)[OF undisturbed]
    by (simp add: return_address_at_def stack_room_def wide_pc_def)
  then have "return_address_at ?sp a m2"
    by (rule frame_keeps_return[OF _ sp frame]) (use wide in simp_all)
  then show ?thesis
    using frame sp wide fits room slots2
    by (intro pop_pc_effect) (simp_all add: frame_intact_def address_fits_def stack_room_def)
qed

lemma ready_narrow: "\<not> wide_pc (ready_machine prog)"
proof -
  have "flash_words sample_device = 64" by (simp add: sample_device_def)
  then show ?thesis by (simp add: wide_pc_def)
qed

lemma ready_room: "stack_room (ready_machine prog)"
proof -
  have "stack_slot (ready_machine prog) (range_end (sram_range sample_device))"
    "stack_slot (ready_machine prog) (range_end (sram_range sample_device) - 1)"
    unfolding stack_slot_def by (simp_all, code_simp+)
  then show ?thesis by (simp add: stack_room_def ready_narrow)
qed

lemma ready_fits: "address_fits (ready_machine prog) 1"
  by (simp add: address_fits_def)
lemma calm_write_slot [simp]: "stack_slot m a \<Longrightarrow> calm (write_data_bus a v m) = calm m"
  by (simp add: write_slot calm_def)

lemma calm_push: "stack_room m \<Longrightarrow> calm (push_pc a m) = calm m"
  by (simp add: push_pc_def Let_def push_slot stack_room_def wide_pc_def)

text \<open>
  C10. A subroutine call returns: after CALL, RCALL, ICALL or EICALL, and whatever the callee
  did as long as it leaves the stack pointer and the bytes above it as it found them, RET
  continues at the instruction after the call with the caller's stack pointer and nothing
  else changed.  The stack must lie in the SRAM, the return address must fit the width of the
  program counter, and no reset may intervene.
\<close>

theorem call_ret:
  assumes "(call, n) \<in> {(execute_call, 2), (execute_rcall, 1), (execute_icall, 1), (execute_eicall, 1)}"
    and "stack_room m" and "address_fits m (word_address i + n)"
    and "\<not> reset_triggered (call i m)" and "frame_intact (call i m) m2"
  shows "execute_ret j m2 =
    advance_cycles (ret_cycles m2) (m2\<lparr>stack_pointer := stack_pointer m, program_counter := word_address i + n\<rparr>)"
proof -
  have "\<exists>k t. call i m = advance_cycles k ((push_pc (word_address i + n) m)\<lparr>program_counter := t\<rparr>)"
    using assms(1)
    by (auto simp: execute_call_def execute_rcall_def execute_icall_def execute_eicall_def Let_def) blast+
  then obtain k t where call: "call i m = advance_cycles k ((push_pc (word_address i + n) m)\<lparr>program_counter := t\<rparr>)"
    by blast
  have "pop_pc m2 = (word_address i + n, m2\<lparr>stack_pointer := stack_pointer m\<rparr>)"
    by (rule pop_pushed_pc[OF assms(2,3)]) (use assms(4,5) in \<open>simp_all add: call\<close>)
  then show ?thesis by (simp add: execute_ret_def ret_cycles_def Let_def)
qed

lemma call_ret_witness:
  "let i = \<lparr>words = (0xD005, 0), opcode = 0xD005, word_address = 0, word_size = 1\<rparr>;
       m = ready_machine []; m2 = execute_rcall i m
   in execute_ret i m2 =
        advance_cycles (ret_cycles m2) (m2\<lparr>stack_pointer := stack_pointer m, program_counter := 1\<rparr>)"
proof -
  let ?i = "\<lparr>words = (0xD005, 0), opcode = 0xD005, word_address = 0, word_size = 1\<rparr>"
  let ?m = "ready_machine []"
  have "\<not> reset_triggered (execute_rcall ?i ?m)"
    using push_pc_effect(5)[OF ready_room]
    by (simp add: execute_rcall_def Let_def advance_calm calm_push ready_room)
  moreover have "frame_intact (execute_rcall ?i ?m) (execute_rcall ?i ?m)"
    by (simp add: frame_intact_def)
  ultimately show ?thesis
    using call_ret[of execute_rcall 1 ?m ?i "execute_rcall ?i ?m" ?i] ready_room ready_fits
    by (simp add: Let_def)
qed

end
