(* ===== verification/Topology.thy ===== *)
theory Topology
  imports Frame
begin

text \<open>
  What construction fixes and execution never changes: the device, the pointers between the
  components, the dispatch of addresses, the class of every peripheral and the size of every
  memory.  The indices the code computes stay valid because these sizes do, and a pointer
  set once keeps pointing to a peripheral of its class.
\<close>

section \<open>The topology of a bus\<close>

definition kind_tag :: "periph_kind \<Rightarrow> nat" where
  "kind_tag k = (case k of K_Control \<Rightarrow> 0 | K_Register_File \<Rightarrow> 1 | K_Cpu_Int _ \<Rightarrow> 2 | K_Slp _ \<Rightarrow> 3
     | K_Rst _ \<Rightarrow> 4 | K_Clk _ \<Rightarrow> 5 | K_Xclk _ \<Rightarrow> 6 | K_Wdt _ \<Rightarrow> 7 | K_Wdt8x _ \<Rightarrow> 8 | K_Eeprom _ \<Rightarrow> 9
     | K_Nvm _ \<Rightarrow> 10 | K_Xmem \<Rightarrow> 11)"

record topology_record =
  t_device :: device
  t_pointers :: "nat option list"
  t_dispatch :: "u16 \<Rightarrow> dispatch_target option"
  t_muxes :: "nat list list"
  t_ticking :: "nat list"
  t_mask_support :: "u64 \<times> bool"
  t_reset_word :: u32
  t_kinds :: "nat list"
  t_memories :: "nat list"

definition topology :: "bus \<Rightarrow> topology_record" where
  "topology b =
     \<lparr>t_device = device b, t_pointers = [nvm_ctrl_ptr b, eeprom_ptr b, cpu_int_ptr b],
      t_dispatch = dispatch_table b, t_muxes = map mux_targets (managed_muxes b),
      t_ticking = ticking_peripherals b, t_mask_support = (mask_support_bits b, all_peripherals_support_mask b),
      t_reset_word = reset_word_address b, t_kinds = map (kind_tag \<circ> p_kind) (peripherals b),
      t_memories = [length (flash b), length (data b), length (flash_page_buffer b),
        length (eeprom_page_buffer b), length (eeprom_buffer_dirty b), length (eeprom_storage b),
        length (user_row b)]\<rparr>"

lemma topology_fields:
  assumes "topology b' = topology b"
  shows "device b' = device b" "length (flash b') = length (flash b)" "length (data b') = length (data b)"
    "length (peripherals b') = length (peripherals b)" "nvm_ctrl_ptr b' = nvm_ctrl_ptr b"
    "eeprom_ptr b' = eeprom_ptr b" "cpu_int_ptr b' = cpu_int_ptr b" "dispatch_table b' = dispatch_table b"
  using assms by (auto simp: topology_def dest: map_eq_imp_length_eq)

lemma kind_at_tag: "i < length (peripherals b) \<Longrightarrow> kind_tag (kind_at b i) = t_kinds (topology b) ! i"
  by (simp add: kind_at_def topology_def)

section \<open>Operations of the bus\<close>

lemma map_update_same: "f x = f (xs ! i) \<Longrightarrow> map f (xs[i := x]) = map f xs"
  by (metis list_update_id map_update)

lemma topology_set_kind [simp]:
  "kind_tag k = kind_tag (kind_at b i) \<Longrightarrow> topology (set_kind i k b) = topology b"
  by (simp add: topology_def set_kind_def kind_at_def map_update_same)

lemma topology_fields_upd [simp]:
  "topology (b\<lparr>flash_rww_busy := a\<rparr>) = topology b" "topology (b\<lparr>has_pending_pin_changes := a\<rparr>) = topology b"
  "topology (b\<lparr>xmem_mem := x\<rparr>) = topology b" "topology (b\<lparr>ebi_mem := y\<rparr>) = topology b"
  "topology (b\<lparr>pending_interrupt_mask := w\<rparr>) = topology b"
  "topology (b\<lparr>active_ticking_peripherals := l\<rparr>) = topology b"
  "topology (b\<lparr>loaded_program_words := u\<rparr>) = topology b" "topology (b\<lparr>fuses := f\<rparr>) = topology b"
  "topology (b\<lparr>lockbit := v\<rparr>) = topology b" "topology (b\<lparr>spm_busy_cycles_left := u\<rparr>) = topology b"
  "topology (b\<lparr>io_stall_cycles := u\<rparr>) = topology b" "topology (b\<lparr>spm_blocks_cpu := a\<rparr>) = topology b"
  "topology (b\<lparr>spm_command := v\<rparr>) = topology b" "topology (b\<lparr>spm_address := u\<rparr>) = topology b"
  "topology (b\<lparr>spm_data := h\<rparr>) = topology b" "topology (b\<lparr>lpm_special_mode_timeout := v\<rparr>) = topology b"
  "topology (b\<lparr>last_spmcsr_val := v\<rparr>) = topology b" "topology (b\<lparr>flash_wait_states := v\<rparr>) = topology b"
  "topology (b\<lparr>bus_cpu_cycles := w\<rparr>) = topology b" "topology (b\<lparr>domain_gated_cycles := g\<rparr>) = topology b"
  "topology (b\<lparr>in_rmw := a\<rparr>) = topology b" "topology (b\<lparr>interrupts_dirty := a\<rparr>) = topology b"
  "topology (b\<lparr>current_active_domains := v\<rparr>) = topology b" "topology (b\<lparr>last_catch_up_cycle := w\<rparr>) = topology b"
  "topology (b\<lparr>scheduler := s\<rparr>) = topology b"
  by (simp_all add: topology_def)

lemma topology_memory_upd [simp]:
  "length fl = length (flash b) \<Longrightarrow> topology (b\<lparr>flash := fl\<rparr>) = topology b"
  "length d = length (data b) \<Longrightarrow> topology (b\<lparr>data := d\<rparr>) = topology b"
  "length p = length (flash_page_buffer b) \<Longrightarrow> topology (b\<lparr>flash_page_buffer := p\<rparr>) = topology b"
  "length e = length (eeprom_page_buffer b) \<Longrightarrow> topology (b\<lparr>eeprom_page_buffer := e\<rparr>) = topology b"
  "length t = length (eeprom_buffer_dirty b) \<Longrightarrow> topology (b\<lparr>eeprom_buffer_dirty := t\<rparr>) = topology b"
  "length s = length (eeprom_storage b) \<Longrightarrow> topology (b\<lparr>eeprom_storage := s\<rparr>) = topology b"
  "length r = length (user_row b) \<Longrightarrow> topology (b\<lparr>user_row := r\<rparr>) = topology b"
  by (simp_all add: topology_def)

lemma topology_peripheral_upd [simp]:
  "topology (set_last_update i t b) = topology b"
  "topology (b\<lparr>peripherals := (peripherals b)[i := (peripherals b ! i)\<lparr>p_interrupt_pending := a\<rparr>]\<rparr>) = topology b"
  "topology (b\<lparr>managed_muxes := (managed_muxes b)[k := (managed_muxes b ! k)\<lparr>mux_last_update_cycle := t\<rparr>]\<rparr>) = topology b"
  by (simp_all add: topology_def set_last_update_def map_update_same)

lemma topology_interrupts [simp]:
  "topology (notify_interrupt_state_change i a b) = topology b"
  "topology (set_interrupt_pending i a b) = topology b" "topology (update_interrupt_pending i b) = topology b"
  by (simp_all add: notify_interrupt_state_change_def set_interrupt_pending_def update_interrupt_pending_def Let_def)

lemma topology_scheduling [simp]:
  "topology (schedule_event d cb b) = topology b" "topology (cancel_event cb b) = topology b"
  "topology (set_current_cycle t b) = topology b"
  by (simp_all add: schedule_event_def cancel_event_def set_current_cycle_def)

lemma kind_at_frame [simp]:
  "kind_at (schedule_event d cb b) i = kind_at b i" "kind_at (cancel_event cb b) i = kind_at b i"
  "kind_at (request_cpu_stall c b) i = kind_at b i" "kind_at (set_current_cycle t b) i = kind_at b i"
  by (simp_all add: schedule_event_def cancel_event_def request_cpu_stall_def set_current_cycle_def kind_at_def)

lemma topology_pointed [simp]:
  "topology (upd_nvm f b) = topology b" "topology (upd_eeprom g b) = topology b"
  "topology (upd_cpu_int h b) = topology b"
  by (simp_all add: upd_nvm_def upd_eeprom_def upd_cpu_int_def kind_tag_def split: option.split periph_kind.split)

lemma topology_if: "topology (if c then x else y) = (if c then topology x else topology y)"
  "topology (snd (if c then p else q)) = (if c then topology (snd p) else topology (snd q))"
  by simp_all

lemma topology_stalls [simp]:
  "topology (request_cpu_stall c b) = topology b" "topology (consume_stall_cycle b) = topology b"
  "topology (snd (read_program_word a b)) = topology b"
  by (simp_all add: request_cpu_stall_def consume_stall_cycle_def read_program_word_def Let_def topology_if
      split del: if_split cong: if_cong)

lemma topology_read_byte [simp]: "topology (snd (read_program_byte p q b)) = topology b"
proof -
  have "topology (snd (case o' of Some v \<Rightarrow> (v, x) | None \<Rightarrow> y)) =
      (case o' of Some v \<Rightarrow> topology x | None \<Rightarrow> topology (snd y))" for o' :: "u8 option" and x y
    by (simp split: option.split)
  then show ?thesis
    by (simp add: read_program_byte_def Let_def topology_if split del: if_split cong: if_cong split: option.split)
qed

lemma topology_clear_spmcsr [simp]: "topology (clear_spmcsr v b) = topology b"
  by (simp add: clear_spmcsr_def Let_def)

lemma length_store_words [simp]: "length (store_words i n a f fl) = length fl"
  by (induction i n a f fl rule: store_words.induct) (subst store_words.simps, simp)

lemma length_copy_eeprom [simp]: "length (copy_eeprom a buf is st) = length st"
  by (induction a buf "is" st rule: copy_eeprom.induct) (simp_all add: Let_def)

lemma topology_fold:
  assumes "\<And>x b. topology (g x b) = topology b"
  shows "topology (fold g xs b) = topology b"
  by (induction xs arbitrary: b) (simp_all add: assms)

lemma topology_flash [simp]:
  "topology (write_flash_page b) = topology b" "topology (erase_flash_page b) = topology b"
  "topology (erase_flash_pages p n b) = topology b" "topology (fill_flash_buffer b) = topology b"
  "topology (write_program_word a v b) = topology b" "topology (load_flash ws b) = topology b"
  by (simp_all add: write_flash_page_def erase_flash_page_def erase_flash_pages_def fill_flash_buffer_def
      write_program_word_def load_flash_def Let_def topology_fold)

lemma topology_eeprom [simp]:
  "topology (fill_eeprom_buffer b) = topology b" "topology (erase_eeprom_all b) = topology b"
  "topology (commit_eeprom a n b) = topology b" "topology (erase_eeprom_bytes a n b) = topology b"
  "topology (clear_eeprom_buffer b) = topology b"
  by (simp_all add: fill_eeprom_buffer_def erase_eeprom_all_def commit_eeprom_def erase_eeprom_bytes_def
      clear_eeprom_buffer_def Let_def)

lemma topology_dirty [simp]: "topology (erase_dirty_bytes a b) = topology b"
  by (simp add: erase_dirty_bytes_def Let_def topology_fold)

lemma topology_deferred [simp]:
  "topology (perform_deferred_nvm_dx_ex c b) = topology b" "topology (perform_deferred_mega_tiny c b) = topology b"
  "topology (perform_deferred_classic b) = topology b" "topology (perform_deferred_nvm_operation b) = topology b"
  unfolding perform_deferred_nvm_dx_ex_def perform_deferred_mega_tiny_def perform_deferred_classic_def
    perform_deferred_nvm_operation_def Let_def topology_if
  by (simp_all add: topology_if cong: if_cong split del: if_split)

lemma topology_spm_command [simp]: "topology (execute_spm_command c a v b) = topology b"
  unfolding execute_spm_command_def Let_def topology_if
  by (simp add: topology_if cong: if_cong split del: if_split)

lemma topology_buffer_clear [simp]: "topology (immediate_buffer_clear f c b) = topology b"
  by (simp add: immediate_buffer_clear_def split: nvm_family.split)

lemma topology_nvm_command [simp]: "topology (execute_nvm_command c a v b) = topology b"
  by (simp add: execute_nvm_command_def Let_def case_prod_beta)

lemma length_clear_data_space [simp]: "length (clear_data_space d xs) = length xs"
  by (simp add: clear_data_space_def fill_range_def Let_def)

lemma topology_bus_steps [simp]:
  "topology (reset_bus_state b) = topology b" "topology (tick_io_stall e b) = topology b"
  "topology (gate_domains e d b) = topology b" "topology (tick_lpm_special e b) = topology b"
  "topology (tick_spm e b) = topology b"
  by (simp_all add: reset_bus_state_def tick_io_stall_def gate_domains_def tick_lpm_special_def tick_spm_def)

section \<open>The CPU between instructions\<close>

lemma topology_kind [simp]:
  "kind_tag k = kind_tag (kind_at (bus m) i) \<Longrightarrow> topology (bus (upd_kind i k m)) = topology (bus m)"
  by (simp add: upd_kind_def)

lemma topology_wdt [simp]:
  "kind_at b i = K_Wdt w' \<Longrightarrow> topology (wdt_reset_watchdog i w b) = topology b"
  by (simp add: wdt_reset_watchdog_def Let_def kind_tag_def)

lemma topology_periph_reset [simp]: "topology (bus (periph_reset i m)) = topology (bus m)"
  by (simp add: periph_reset_def kind_tag_def split: periph_kind.split)

lemma topology_cpu_reset [simp]: "topology (bus (cpu_reset c m)) = topology (bus m)"
proof -
  have resets: "topology (bus (fold (\<lambda>i m. upd_bus (set_last_update i 0) (periph_reset i m)) is m)) = topology (bus m)"
    for "is" m by (induction "is" arbitrary: m) simp_all
  have cause: "topology (bus (record_reset_cause c m)) = topology (bus m)" for m
    by (simp add: record_reset_cause_def kind_tag_def split: option.split periph_kind.split)
  show ?thesis
    by (simp add: cpu_reset_def Let_def cause bus_reset_def resets)
qed

lemma topology_periph_tick: "topology (bus (periph_tick i e m)) = topology (bus m)"
  by (simp add: periph_tick_def kind_tag_def case_prod_beta Let_def split: periph_kind.split)

lemma kind_at_set_kind: "kind_tag k = kind_tag (kind_at b i) \<Longrightarrow> kind_tag (kind_at (set_kind i k b) j) = kind_tag (kind_at b j)"
  by (cases "i < length (peripherals b)"; cases "i = j") (simp_all add: kind_at_def set_kind_def list_update_beyond)

lemma topology_callback: "topology (bus (run_callback cb m)) = topology (bus m)"
proof -
  have restart: "topology (bus (case kind_at (bus m) i of
      K_Wdt w \<Rightarrow> if P w then upd_bus (wdt_reset_watchdog i w) m else m | _ \<Rightarrow> m)) = topology (bus m)" for i m P
    by (simp split: periph_kind.split)
  have "topology (bus (wdt_complete_timeout i m)) = topology (bus m)" for i
  proof (cases "kind_at (bus m) i")
    case (K_Wdt w)
    then have "topology (bus (upd_bus (\<lambda>b. update_interrupt_pending i (set_kind i (K_Wdt (w\<lparr>wdt_irq := True\<rparr>)) b)) m)) =
        topology (bus m)" by (simp add: kind_tag_def)
    then show ?thesis
      unfolding wdt_complete_timeout_def Let_def by (simp add: K_Wdt restart)
  qed (simp_all add: wdt_complete_timeout_def)
  then show ?thesis
    by (simp add: run_callback_def kind_tag_def split: event_cb.split periph_kind.split)
qed

interpretation fixed: time_stable "\<lambda>m m'. topology (bus m') = topology (bus m)"
proof unfold_locales
  fix m :: machine and i e cb
  show "topology (bus (periph_tick i e m)) = topology (bus m)" by (rule topology_periph_tick)
  show "topology (bus (run_callback cb m)) = topology (bus m)" by (rule topology_callback)
  show "topology (bus (publish_pending_pin_changes m)) = topology (bus m)"
    by (simp add: publish_pending_pin_changes_def)
  show "topology (bus (refresh_interrupt_pending m)) = topology (bus m)"
    by (simp add: refresh_interrupt_pending_def Let_def)
qed simp_all

lemma topology_advance [simp]: "topology (bus (advance_cycles n m)) = topology (bus m)"
  "topology (bus (advance_cycles_in n d m)) = topology (bus m)"
  using fixed.stable_advance[of n m] fixed.stable_advance_in[of n d m] by simp_all

end
