(* ===== verification/Execution.thy ===== *)
theory Execution
  imports Passing
begin

text \<open>
  Execution as an interface.  Everything \<open>step\<close> and \<open>run\<close> do to the bus they do through
  the operations listed here: the data space, the program memory, SPM, the interrupt logic,
  the watchdog reset and the passing of time.  A reflexive and transitive relation that
  ignores the CPU's own registers and holds of each of these operations therefore holds
  between a machine and what any number of instructions makes of it.
\<close>

section \<open>What never reaches the bus\<close>

lemma bus_of_registers [simp]:
  "bus (trace e m) = bus m" "bus (write_register r v m) = bus m" "bus (write_register_pair r w m) = bus m"
  "bus (put_flag f on m) = bus m" "bus (upd_sreg g m) = bus m" "bus (put_sign m) = bus m"
  "bus (put_shift_flags x y z m) = bus m" "bus (put_product p q m) = bus m" "bus (increment_pc m) = bus m"
  "bus (put_reg r v m) = bus m" "bus (pc_plus k m) = bus m" "bus (synchronize_if_needed m) = bus m"
  "bus (notify_instruction pc opc mn m) = bus m" "bus (upd_control h m) = bus m"
  by (simp_all add: trace_def write_register_def write_register_pair_def put_flag_def upd_sreg_def put_sign_def
      put_shift_flags_def put_product_def increment_pc_def put_reg_def pc_plus_def synchronize_if_needed_def
      notify_instruction_def upd_control_def Let_def split: option.split)

lemma bus_if: "bus (if c then x else y) = (if c then bus x else bus y)"
  by simp

lemma bus_of_control [simp]: "bus (control_write a v m) = bus m" "bus (register_file_write a v m) = bus m"
proof -
  have "bus (write_sreg v m) = bus m" "bus (unlock_ccp v m) = bus m"
    by (simp_all add: write_sreg_def unlock_ccp_def Let_def)
  then show "bus (control_write a v m) = bus m"
    unfolding control_write_def Let_def bus_if by (simp cong: if_cong split del: if_split)
  show "bus (register_file_write a v m) = bus m"
    by (simp add: register_file_write_def Let_def)
qed

lemma bus_store_regs [simp]: "bus (store_regs w m) = bus m"
proof -
  have "bus (fold (\<lambda>r. write_register (of_nat r) (f r)) rs m) = bus m" for f :: "nat \<Rightarrow> u8" and rs m
    by (induction rs arbitrary: m) simp_all
  then show ?thesis by (simp add: store_regs_def)
qed

lemma fst_if: "fst (if c then p else q) = (if c then fst p else fst q)"
  by simp

lemma first_index_set: "first_index p xs n = Some j \<Longrightarrow> n \<le> j \<and> xs ! (j - n) \<in> set xs"
proof (induction xs arbitrary: n)
  case (Cons x xs)
  then show ?case
  proof (cases "p x")
    case False
    with Cons have "Suc n \<le> j" "xs ! (j - Suc n) \<in> set xs" by auto
    then show ?thesis by (simp add: nth_Cons')
  qed auto
qed simp

section \<open>The interface\<close>

locale execution_stable = time_stable +
  assumes stable_cpu: "bus m' = bus m \<Longrightarrow> R m m'"
    and stable_read: "R m (snd (read_data a m))"
    and stable_write: "R m (write_data a v m)"
    and stable_sram: "R m (upd_bus (\<lambda>b. b\<lparr>data := (data b)[unat a := v]\<rparr>) m)"
    and stable_fetch: "R m (m\<lparr>bus := snd (read_program_word w (bus m))\<rparr>)"
    and stable_fetch_byte: "R m (m\<lparr>bus := snd (read_program_byte w pc (bus m))\<rparr>)"
    and stable_spm_command: "R m (upd_bus (execute_spm_command cmd w x) m)"
    and stable_rmw: "R m (set_in_rmw on m)"
    and stable_reti: "R m (upd_bus bus_on_reti m)"
    and stable_stall: "R m (upd_bus consume_stall_cycle m)"
    and stable_consume: "R m (m\<lparr>bus := snd (consume_interrupt_request d (bus m))\<rparr>)"
    and stable_enter: "R m (upd_bus (cpu_int_enter v) m)"
    and stable_wdr: "R m (wdr_wdt8x (wdr_classic m))"
begin

lemma stable_after_cpu: "R m x \<Longrightarrow> bus y = bus x \<Longrightarrow> R m y"
  using stable_trans stable_cpu by blast

lemma stable_before_cpu: "R x y \<Longrightarrow> bus x = bus m \<Longrightarrow> R m y"
  using stable_trans stable_cpu by metis

lemma stable_time: "R m x \<Longrightarrow> R m (advance_cycles n x)" "R m x \<Longrightarrow> R m (advance_cycles_in n d x)"
proof -
  assume "R m x"
  then have *: "R m (x\<lparr>cycles := cycles x + n\<rparr>)" by (rule stable_after_cpu) simp
  show "R m (advance_cycles n x)" "R m (advance_cycles_in n d x)"
    by (rule stable_trans[OF * stable_advance], rule stable_trans[OF * stable_advance_in])
qed

lemma stable_registers:
  assumes "R m x"
  shows "R m (x\<lparr>gpr := g\<rparr>)" "R m (x\<lparr>program_counter := p\<rparr>)" "R m (x\<lparr>stack_pointer := sp\<rparr>)"
    "R m (x\<lparr>sreg := s\<rparr>)" "R m (x\<lparr>state := st\<rparr>)" "R m (x\<lparr>interrupt_delay := d\<rparr>)"
    "R m (x\<lparr>interrupt_depth := d\<rparr>)" "R m (x\<lparr>interrupt_pending := on\<rparr>)" "R m (x\<lparr>spm_lock_timeout := d\<rparr>)"
    "R m (x\<lparr>instructions_executed := n\<rparr>)" "R m (x\<lparr>reset_triggered := on\<rparr>)" "R m (x\<lparr>sleep_cycles := n\<rparr>)"
    "R m (x\<lparr>hung := on\<rparr>)"
    "R m (trace e x)" "R m (write_register r v x)" "R m (write_register_pair r w x)"
    "R m (put_flag f on x)" "R m (upd_sreg u x)" "R m (put_sign x)" "R m (put_shift_flags on v on' x)"
    "R m (put_product w w' x)" "R m (increment_pc x)" "R m (put_reg r v x)" "R m (pc_plus k x)"
    "R m (synchronize_if_needed x)" "R m (notify_instruction p opc mn x)" "R m (store_regs q x)"
    "R m (upd_control h x)"
  by (rule stable_after_cpu[OF assms], simp)+

lemma stable_bus_operations:
  assumes "R m x"
  shows "R m (snd (read_data a x))" "R m (write_data a v x)"
    "R m (upd_bus (\<lambda>b. b\<lparr>data := (data b)[unat a := v]\<rparr>) x)"
    "R m (x\<lparr>bus := snd (read_program_word w (bus x))\<rparr>)" "R m (x\<lparr>bus := snd (read_program_byte w pc (bus x))\<rparr>)"
    "R m (upd_bus (execute_spm_command cmd w h) x)" "R m (set_in_rmw on x)" "R m (upd_bus bus_on_reti x)"
    "R m (upd_bus consume_stall_cycle x)" "R m (x\<lparr>bus := snd (consume_interrupt_request d (bus x))\<rparr>)"
    "R m (upd_bus (cpu_int_enter v) x)" "R m (wdr_wdt8x (wdr_classic x))" "R m (refresh_interrupt_pending x)"
  by (rule stable_trans[OF assms stable_read] stable_trans[OF assms stable_write] stable_trans[OF assms stable_sram]
      stable_trans[OF assms stable_fetch] stable_trans[OF assms stable_fetch_byte]
      stable_trans[OF assms stable_spm_command] stable_trans[OF assms stable_rmw]
      stable_trans[OF assms stable_reti] stable_trans[OF assms stable_stall]
      stable_trans[OF assms stable_consume] stable_trans[OF assms stable_enter]
      stable_trans[OF assms stable_wdr] stable_trans[OF assms stable_refresh])+

lemmas chain = stable_refl stable_if stable_time stable_registers stable_bus_operations

section \<open>The data bus and the stack\<close>

lemma stable_snd_if: "R m (snd p) \<Longrightarrow> R m (snd q) \<Longrightarrow> R m (snd (if c then p else q))"
  by simp

lemma stable_read_data_bus: "R m x \<Longrightarrow> R m (snd (read_data_bus a x))"
  by (simp add: read_data_bus_def Let_def chain stable_snd_if split del: if_split)

lemma stable_write_data_bus: "R m x \<Longrightarrow> R m (write_data_bus a v x)"
  by (simp add: write_data_bus_def Let_def chain split del: if_split)

lemma stable_push_byte: "R m x \<Longrightarrow> R m (push_byte v x)"
  by (simp add: push_byte_def Let_def chain stable_write_data_bus)

lemma stable_pop_byte: "R m x \<Longrightarrow> R m (snd (pop_byte x))"
  by (simp add: pop_byte_def Let_def chain stable_read_data_bus)

lemma stable_pc: "R m x \<Longrightarrow> R m (push_pc a x)" "R m x \<Longrightarrow> R m (snd (pop_pc x))"
  by (simp_all add: push_pc_def pop_pc_def Let_def case_prod_beta stable_push_byte stable_pop_byte chain stable_snd_if
      split del: if_split)

lemmas chain_bus = chain stable_snd_if stable_read_data_bus stable_write_data_bus stable_push_byte stable_pop_byte stable_pc

section \<open>Interrupt entry\<close>

lemma stable_vector_entry: "R m x \<Longrightarrow> R m (vector_entry a x)"
  by (simp add: vector_entry_def vector_push_def chain_bus split del: if_split)

lemma stable_service: "R m x \<Longrightarrow> R m (snd (service_interrupt_if_needed x))"
proof -
  assume "R m x"
  define y where "y = refresh_interrupt_pending x"
  define z where "z = y\<lparr>bus := snd (consume_interrupt_request (active_clock_domains y) (bus y))\<rparr>"
  have z: "R m z" "R m y" unfolding z_def y_def by (simp_all add: chain \<open>R m x\<close>)
  show ?thesis
  proof (cases "\<not> interrupt_pending y \<or> \<not> flag Interrupt (sreg y)")
    case True
    then show ?thesis using z by (auto simp: service_interrupt_if_needed_def y_def Let_def)
  next
    case False
    then show ?thesis
      using z unfolding service_interrupt_if_needed_def Let_def y_def[symmetric] case_prod_beta
      by (cases "fst (consume_interrupt_request (active_clock_domains y) (bus y))")
         (simp_all add: chain stable_vector_entry z_def[symmetric])
  qed
qed

section \<open>Instructions\<close>

lemma stable_retire: "R m x \<Longrightarrow> R m (retire i n x)"
  by (simp add: retire_def chain)

lemma stable_skip_next: "R m x \<Longrightarrow> R m (skip_next i x)"
  by (simp add: skip_next_def case_prod_beta Let_def chain)

lemma stable_branch_if: "R m x \<Longrightarrow> R m (branch_if t i x)"
  by (simp add: branch_if_def chain stable_retire)

lemmas chain_flow = chain_bus stable_retire stable_skip_next stable_branch_if stable_service

lemma stable_register_instructions:
  "R m (execute_nop i m)" "R m (execute_ldi i m)" "R m (execute_movw i m)" "R m (execute_mov i m)"
  "R m (execute_ser i m)" "R m (execute_swap i m)" "R m (execute_mul i m)" "R m (execute_muls i m)"
  "R m (execute_mulsu i m)" "R m (execute_fmul i m)" "R m (execute_fmuls i m)" "R m (execute_fmulsu i m)"
  "R m (execute_add i m)" "R m (execute_adc i m)" "R m (execute_sub i m)" "R m (execute_subi i m)"
  "R m (execute_sbc i m)" "R m (execute_sbci i m)" "R m (execute_cp i m)" "R m (execute_cpi i m)"
  "R m (execute_cpc i m)" "R m (execute_neg i m)" "R m (execute_adiw i m)" "R m (execute_sbiw i m)"
  "R m (execute_inc i m)" "R m (execute_dec i m)" "R m (execute_com i m)" "R m (execute_and i m)"
  "R m (execute_andi i m)" "R m (execute_or i m)" "R m (execute_ori i m)" "R m (execute_eor i m)"
  "R m (execute_tst i m)" "R m (execute_asr i m)" "R m (execute_lsr i m)" "R m (execute_ror i m)"
  "R m (execute_bst i m)" "R m (execute_bld i m)" "R m (execute_bclr i m)" "R m (execute_bset i m)"
  "R m (execute_cli i m)" "R m (execute_sei i m)" "R m (execute_des i m)"
  by (simp_all add: execute_nop_def execute_ldi_def execute_movw_def execute_mov_def
      execute_ser_def execute_swap_def execute_mul_def execute_muls_def execute_mulsu_def execute_fmul_def
      execute_fmuls_def execute_fmulsu_def execute_add_def execute_adc_def execute_sub_def execute_subi_def
      execute_sbc_def execute_sbci_def execute_cp_def execute_cpi_def execute_cpc_def execute_neg_def
      execute_adiw_def execute_sbiw_def execute_inc_def execute_dec_def execute_com_def execute_and_def
      execute_andi_def execute_or_def execute_ori_def execute_eor_def execute_tst_def execute_asr_def
      execute_lsr_def execute_ror_def execute_bst_def execute_bld_def execute_bclr_def execute_bset_def
      execute_cli_def execute_sei_def execute_des_def Let_def chain_flow split del: if_split)

lemma stable_flow_instructions:
  "R m (execute_cpse i m)" "R m (execute_sbrc i m)" "R m (execute_sbrs i m)" "R m (execute_brbc i m)"
  "R m (execute_brbs i m)" "R m (execute_rjmp i m)" "R m (execute_ijmp i m)" "R m (execute_eijmp i m)"
  "R m (execute_jmp i m)" "R m (execute_rcall i m)" "R m (execute_icall i m)" "R m (execute_eicall i m)"
  "R m (execute_call i m)" "R m (execute_ret i m)" "R m (execute_reti i m)"
  by (simp_all add: execute_cpse_def execute_sbrc_def execute_sbrs_def execute_brbc_def execute_brbs_def
      execute_rjmp_def execute_ijmp_def execute_eijmp_def execute_jmp_def execute_rcall_def execute_icall_def
      execute_eicall_def execute_call_def execute_ret_def execute_reti_def Let_def case_prod_beta chain_flow
      split del: if_split)

lemma stable_load_store:
  "R m x \<Longrightarrow> R m (execute_load_indirect r a on p x)" "R m x \<Longrightarrow> R m (execute_store_indirect a r on p x)"
  "R m x \<Longrightarrow> R m (load_program w r on i x)"
  by (simp_all add: execute_load_indirect_def execute_store_indirect_def load_program_def Let_def case_prod_beta
      chain_flow split del: if_split)

lemma stable_memory_instructions:
  "R m (execute_cbi i m)" "R m (execute_sbi i m)" "R m (execute_sbic i m)" "R m (execute_sbis i m)"
  "R m (execute_in i m)" "R m (execute_out i m)" "R m (execute_ld low mode i m)" "R m (execute_st low mode i m)"
  "R m (execute_lds i m)" "R m (execute_sts i m)" "R m (execute_rmw_z op i m)" "R m (execute_lpm i m)"
  "R m (execute_lpm_z i m)" "R m (execute_lpm_z_postinc i m)" "R m (execute_elpm i m)" "R m (execute_elpm_z i m)"
  "R m (execute_elpm_z_postinc i m)" "R m (execute_push i m)" "R m (execute_pop i m)"
  "R m (execute_break i m)" "R m (execute_wdr i m)"
  by (simp_all add: execute_cbi_def execute_sbi_def execute_sbic_def execute_sbis_def execute_in_def execute_out_def
      execute_ld_def execute_st_def execute_lds_def execute_sts_def execute_rmw_z_def execute_lpm_def execute_lpm_z_def
      execute_lpm_z_postinc_def execute_elpm_def execute_elpm_z_def execute_elpm_z_postinc_def execute_push_def
      execute_pop_def execute_break_def execute_wdr_def Let_def case_prod_beta chain_flow stable_load_store
      split: pointer_mode.split split del: if_split)

lemma stable_spm_sleep: "R m (execute_spm i m)" "R m (execute_sleep i m)"
  by (simp_all add: execute_spm_def execute_sleep_def spm_done_def Let_def case_prod_beta chain_flow
      split: option.split split del: if_split)

lemma stable_handlers: "\<forall>r\<in>set instruction_table. R m (row_handler r i m)"
  by (simp add: instruction_table_def row_handler_def stable_register_instructions stable_flow_instructions
      stable_memory_instructions stable_spm_sleep)

section \<open>step\<close>

lemma stable_row:
  assumes "fast_decode opc = Some j" and "R m x"
  shows "R m (row_handler (instruction_table ! j) i x)"
proof -
  have "instruction_table ! j \<in> set instruction_table"
    using first_index_set[OF assms(1)[unfolded fast_decode_def]] by simp
  then show ?thesis using stable_handlers[of x i] stable_trans[OF assms(2)] by blast
qed

lemma stable_option_if: "pred_option P x \<Longrightarrow> pred_option P y \<Longrightarrow> pred_option P (if c then x else y)"
  by simp

lemma stable_or_else: "pred_option P x \<Longrightarrow> pred_option P y \<Longrightarrow> pred_option P (or_else x y)"
  by (cases x) (simp_all add: or_else_def)

lemma stable_next_pc: "R m x \<Longrightarrow> R m (next_pc n x)" "R m x \<Longrightarrow> R m (next_pc2 n x)"
  by (simp_all add: next_pc_def next_pc2_def chain)

lemma stable_fast_access:
  "R m x \<Longrightarrow> R m (fast_ldd low opc x)" "R m x \<Longrightarrow> R m (fast_std low opc x)"
  "R m x \<Longrightarrow> R m (fast_in opc x)" "R m x \<Longrightarrow> R m (fast_out opc x)"
  by (simp_all add: fast_ldd_def fast_std_def fast_in_def fast_out_def fast_load_def fast_store_def case_prod_beta
      chain_bus Let_def split del: if_split)

lemma stable_step_flow:
  "R m x \<Longrightarrow> R m (step_fast_skip opc x)" "R m x \<Longrightarrow> R m (step_fast_branch t opc x)"
  by (simp_all add: step_fast_skip_def step_fast_branch_def Let_def chain stable_next_pc split del: if_split)

lemma stable_step_fast: "pred_option (R m) (step_fast opc m)"
  unfolding step_fast_def
  by (intro stable_or_else)
     (simp_all add: step_fast_reg_def step_fast_imm_def step_fast_mem_def step_fast_flow_def Let_def case_prod_beta
      stable_option_if chain_bus stable_next_pc stable_fast_access stable_step_flow split del: if_split)

lemma stable_decode_for_step: "R m x \<Longrightarrow> R m (snd (decode_for_step opc x))"
  by (simp add: decode_for_step_def Let_def case_prod_beta chain stable_snd_if split del: if_split)

lemma stable_step_slow: "R m x \<Longrightarrow> R m (step_slow opc x)"
  by (auto simp add: step_slow_def Let_def case_prod_beta chain stable_decode_for_step
      intro!: stable_registers stable_row split: option.split)

lemma stable_execute_next: "R m x \<Longrightarrow> R m (execute_next x)"
proof -
  assume "R m x"
  let ?x = "x\<lparr>reset_triggered := False, instructions_executed := instructions_executed x + 1\<rparr>"
  let ?y = "?x\<lparr>bus := snd (read_program_word (program_counter x) (bus x))\<rparr>"
  let ?opc = "fst (read_program_word (program_counter x) (bus x))"
  have "R m ?x" using \<open>R m x\<close> by (simp add: chain)
  then have y: "R m ?y" using stable_bus_operations(4)[of m ?x] by simp
  have "execute_next x = (case step_fast ?opc ?y of Some z \<Rightarrow> z | None \<Rightarrow> step_slow ?opc ?y)"
    by (simp add: execute_next_def Let_def case_prod_beta cong: option.case_cong)
  then show ?thesis
    using y stable_step_fast[of ?y ?opc] stable_trans
    by (auto split: option.split simp: stable_step_slow)
qed

lemma stable_step_sleeping: "R m x \<Longrightarrow> R m (step_sleeping x)"
  unfolding step_sleeping_def Let_def case_prod_beta
  by (simp add: chain stable_service split del: if_split)

theorem stable_step: "R m (step m)"
proof -
  have "R m (case service_interrupt_if_needed x of (True, y) \<Rightarrow> synchronize_if_needed y | (False, y) \<Rightarrow> execute_next y)"
    if "R m x" for x
    using stable_service[OF that] by (auto split: prod.split bool.split simp: chain stable_execute_next)
  then show ?thesis
    unfolding step_def Let_def by (simp add: chain stable_step_sleeping stable_execute_next split del: if_split)
qed

section \<open>run\<close>

lemma stable_flush: "R m x \<Longrightarrow> R m (flush n x)"
  by (simp add: flush_def chain)

lemma stable_run_fast: "pred_option (\<lambda>t. R m (fst t)) (run_fast opc (m, pc, n))"
  unfolding run_fast_def
  by (intro stable_or_else)
     (simp_all add: run_fast_reg_def run_fast_imm_def run_fast_mem_def run_fast_flow_def run_fast_lds_def
      run_fast_sts_def run_fast_spm_def run_fast_skip_def run_fast_branch_def Let_def case_prod_beta
      stable_option_if chain_bus stable_flush stable_fast_access fst_if split del: if_split)

lemma stable_slow_arith: "pred_option (R m) (slow_arith j opc m)"
  by (simp add: slow_arith_def Let_def chain stable_option_if split del: if_split)

lemma stable_slow_execute:
  assumes "fast_decode opc = Some j" and "R m x"
  shows "R m (fst (slow_execute j opc n x))"
proof -
  have "R m (fst (slow_handler j opc n x))"
    by (simp add: slow_handler_def Let_def stable_row[OF assms(1)] stable_flush[OF assms(2)])
  moreover have "R m (fst (slow_branch t opc n x))" for t
    using assms(2) by (simp add: slow_branch_def chain)
  moreover have "R m (slow_in opc (flush n x))" "R m (slow_out opc (flush n x))"
    using assms(2) by (simp_all add: slow_in_def slow_out_def case_prod_beta chain stable_flush)
  moreover have "R m y" if "slow_arith j opc x = Some y" for y
    using stable_slow_arith[of x j opc] that assms(2) stable_trans by auto
  ultimately show ?thesis
    using assms(2) by (cases "slow_arith j opc x")
      (simp_all add: slow_execute_def fst_if chain stable_fast_access split del: if_split)
qed

lemma stable_slow_path: "R m x \<Longrightarrow> R m (fst (snd (handle_slow_path opc n x)))"
  by (auto simp: handle_slow_path_def Let_def case_prod_beta chain stable_flush
      intro!: stable_slow_execute stable_registers stable_flush split: option.split)

lemma stable_flush_cached: "R m (rs_machine s) \<Longrightarrow> R m (rs_machine (flush_cached s))"
  by (simp add: flush_cached_def Let_def chain)

lemma stable_run_interrupts:
  assumes "R m (rs_machine s)"
  shows "run_interrupts s = Proceed t \<or> run_interrupts s = Finished t \<Longrightarrow> R m (rs_machine t)"
proof -
  define s1 where "s1 = flush_cached s"
  define x where "x = rs_machine s1"
  define y where "y = refresh_interrupt_pending
    (if interrupt_delay x > 0 then x\<lparr>interrupt_delay := interrupt_delay x - 1\<rparr> else x)"
  have "R m x" using stable_flush_cached[OF assms] by (simp add: x_def s1_def)
  then have y: "R m y" unfolding y_def by (simp add: chain)
  define z where "z = (if interrupt_pending y then service_interrupt_if_needed y else (False, y))"
  have z: "R m (snd z)" using y stable_service unfolding z_def by simp
  assume "run_interrupts s = Proceed t \<or> run_interrupts s = Finished t"
  then have "t = s \<or> rs_machine t = snd z"
    unfolding run_interrupts_def Let_def s1_def[symmetric] x_def[symmetric] y_def[symmetric] z_def[symmetric]
    by (auto simp: break_loop_def case_prod_beta split: if_splits)
  then show "R m (rs_machine t)" using z assms by auto
qed

lemma stable_run_instruction: "R m (rs_machine s) \<Longrightarrow> R m (rs_machine (run_instruction s))"
proof -
  assume s: "R m (rs_machine s)"
  let ?x = "rs_machine s"
  define opc where "opc = flash (bus ?x) ! unat (program_counter ?x)"
  define r where "r = (case (if trace_hook ?x \<noteq> None then None else run_fast opc (?x, program_counter ?x, rs_pending s)) of
      Some (y, pc, n) \<Rightarrow> (False, y, pc, n)
    | None \<Rightarrow> (case handle_slow_path opc (rs_pending s) ?x of (stop, y, n) \<Rightarrow> (stop, y, program_counter y, n)))"
  have "R m (fst (snd r))"
    using stable_slow_path[OF s, of opc "rs_pending s"] stable_run_fast[of ?x opc "program_counter ?x" "rs_pending s"]
      stable_trans[OF s]
    unfolding r_def by (auto simp: case_prod_beta split: option.split if_splits)
  then show ?thesis
    unfolding run_instruction_def Let_def opc_def[symmetric] r_def[symmetric]
    by (auto simp: case_prod_beta break_loop_def intro!: stable_registers)
qed

lemma stable_run_checkpoint: "R m (rs_machine s) \<Longrightarrow> R m (rs_machine (run_checkpoint n on s))"
  by (simp add: run_checkpoint_def Let_def break_loop_def chain)

lemma stable_run_body:
  assumes "R m (rs_machine s)"
  shows "R m (rs_machine (run_body w n on s))"
proof (cases "run_interrupts s")
  case (Proceed t)
  then have t: "R m (rs_machine t)" using stable_run_interrupts[OF assms] by blast
  then have "R m (advance_cycles_in 1 d (upd_bus consume_stall_cycle (rs_machine (flush_cached t))))" for d
    by (simp add: chain stable_flush_cached)
  then show ?thesis
    using assms t Proceed
    by (simp add: run_body_def Let_def break_loop_def chain stable_flush_cached stable_run_checkpoint
        stable_run_instruction)
next
  case (Finished t)
  then have "R m (rs_machine t)" using stable_run_interrupts[OF assms] by blast
  then show ?thesis using assms Finished by (simp add: run_body_def break_loop_def)
qed

theorem stable_run: "R m (run n m)"
proof (cases "state m = Paused")
  case False
  define x where "x = (let m = m\<lparr>reset_triggered := False\<rparr> in if state m \<noteq> Sleeping then m\<lparr>state := Running\<rparr> else m)"
  have x: "R m x" by (simp add: x_def Let_def chain)
  let ?target = "cycles x + n"
  define s where "s = \<lparr>rs_machine = x, rs_pending = 0, rs_domains = active_clock_domains x, rs_break = False\<rparr>"
  define loop where "loop = while_option (run_continues ?target)
    (run_body (loaded_program_words (bus x)) (interrupt_check_interval x) (sync_engine_ptr x \<noteq> None)) s"
  have run: "run n m = (case loop of None \<Rightarrow> x\<lparr>hung := True\<rparr>
      | Some t \<Rightarrow>
          let y = (if rs_pending t > 0 then advance_cycles_in (ucast (rs_pending t)) (rs_domains t) (rs_machine t)
                   else rs_machine t)
          in case while_option (step_continues ?target) step y of Some y \<Rightarrow> y | None \<Rightarrow> y\<lparr>hung := True\<rparr>)"
    by (simp only: run_def if_not_P[OF False] loop_def s_def x_def Let_def)
  show ?thesis
  proof (cases loop)
    case None
    then show ?thesis using x by (simp add: run chain)
  next
    case (Some t)
    have t: "R m (rs_machine t)"
      using while_option_rule[where P = "\<lambda>s. R m (rs_machine s)", OF _ Some[unfolded loop_def]] x
      by (simp add: stable_run_body s_def)
    define y where "y = (if rs_pending t > 0 then advance_cycles_in (ucast (rs_pending t)) (rs_domains t) (rs_machine t)
                   else rs_machine t)"
    have y: "R m y" using t unfolding y_def by (simp add: chain)
    show ?thesis
    proof (cases "while_option (step_continues ?target) step y")
      case None
      then show ?thesis using Some y by (simp add: run y_def[symmetric] chain)
    next
      case (Some z)
      have "R m z"
        using while_option_rule[where P = "R m", OF _ Some y] stable_step stable_trans by blast
      then show ?thesis using Some \<open>loop = Some t\<close> by (simp add: run y_def[symmetric])
    qed
  qed
qed (simp add: run_def stable_refl)

end

end
