(* ===== verification/Invariant.thy ===== *)
theory Invariant
  imports Topology Execution Construct
begin

text \<open>
  Invariants of execution: what no program can change.  The interface \<open>execution_stable\<close>
  is interpreted by three relations: equal topology, equal loaded program and, on a part
  whose lock bits forbid self-programming, equal flash contents.
\<close>

section \<open>Topology\<close>

lemma topology_periph_access [simp]:
  "topology (bus (snd (periph_read i a m))) = topology (bus m)"
  by (simp add: periph_read_def eeprom_read_def Let_def split: periph_kind.split option.split prod.split)

lemma topology_eeprom_update [simp]:
  "topology (snd (eeprom_update_eecr i v e b)) = topology b" "kind_at (snd (eeprom_update_eecr i v e b)) j = kind_at b j"
  by (simp_all add: eeprom_update_eecr_def eecr_write_enable_def eecr_master_enable_def eecr_read_enable_def Let_def)

lemma topology_eeprom_write [simp]: "kind_at b i = K_Eeprom e' \<Longrightarrow> topology (eeprom_write i a v e b) = topology b"
  by (simp add: eeprom_write_def Let_def case_prod_beta kind_tag_def)

lemma kind_at_upd [simp]: "kind_at (b\<lparr>spm_busy_cycles_left := x\<rparr>) i = kind_at b i"
  by (simp add: kind_at_def)

lemma topology_nvm_write [simp]: "kind_at b i = K_Nvm n' \<Longrightarrow> topology (nvm_write i a v n b) = topology b"
  unfolding nvm_write_def Let_def case_prod_beta topology_if
  by (simp add: kind_tag_def topology_if split del: if_split cong: if_cong)

lemma topology_wdt_write [simp]: "kind_at b i = K_Wdt w' \<Longrightarrow> topology (wdt_write i a v w b) = topology b"
proof -
  assume k: "kind_at b i = K_Wdt w'"
  have "i < length (peripherals b) \<Longrightarrow> kind_at (set_kind i (K_Wdt x) b) i = K_Wdt x" for x
    by (simp add: kind_at_def set_kind_def)
  moreover have "\<not> i < length (peripherals b) \<Longrightarrow> set_kind i (K_Wdt x) b = b" for x
    by (simp add: set_kind_def list_update_beyond)
  ultimately have "\<exists>y. kind_at (set_kind i (K_Wdt x) b) i = K_Wdt y" for x
    using k by metis
  moreover have "topology (set_kind i (K_Wdt x) b) = topology b" for x
    by (simp add: k kind_tag_def)
  ultimately have "topology (wdt_reset_watchdog i x (set_kind i (K_Wdt x) b)) = topology b" for x
    by (metis topology_wdt)
  then show ?thesis using k by (simp add: wdt_write_def kind_tag_def split: prod.split wdt_write_effect.split)
qed

lemma topology_periph_write [simp]: "topology (bus (periph_write i a v m)) = topology (bus m)"
  by (simp add: periph_write_def kind_tag_def split: periph_kind.split)

lemma topology_tick_to [simp]: "topology (bus (tick_peripheral_to t d i m)) = topology (bus m)"
  by (rule fixed.stable_tick_to)

lemma topology_mux [simp]:
  "topology (bus (mux_tick k e m)) = topology (bus m)" "topology (bus (snd (mux_read k a m))) = topology (bus m)"
  "topology (bus (mux_write k a v m)) = topology (bus m)" "topology (bus (catch_up_mux k m)) = topology (bus m)"
proof -
  show tick: "topology (bus (mux_tick k e m)) = topology (bus m)" for e m
    unfolding mux_tick_def by (rule fixed.stable_fold) (rule topology_periph_tick)
  have "topology (bus (snd (fold (\<lambda>i (r, m). let (v, m) = periph_read i a m in (r OR v, m)) ts p))) = topology (bus (snd p))"
    for ts and p :: "u8 \<times> machine"
    by (induction ts arbitrary: p) (simp_all add: case_prod_beta)
  then show "topology (bus (snd (mux_read k a m))) = topology (bus m)"
    by (simp add: mux_read_def)
  show "topology (bus (mux_write k a v m)) = topology (bus m)"
    unfolding mux_write_def by (rule fixed.stable_fold) simp
  show "topology (bus (catch_up_mux k m)) = topology (bus m)"
    by (simp add: catch_up_mux_def Let_def tick)
qed

lemma topology_dispatch [simp]:
  "topology (bus (snd (dispatch_read t a m))) = topology (bus m)"
  "topology (bus (dispatch_write t a v m)) = topology (bus m)"
  by (simp_all add: dispatch_read_def dispatch_write_def split: dispatch_target.split)

lemma topology_read_data: "topology (bus (snd (read_data a m))) = topology (bus m)"
proof -
  have "topology (bus (snd p)) = topology (bus m)" if "read_mapped a m = Some p" for p
    using that by (auto simp: read_mapped_def Let_def split: if_splits option.splits)
  moreover have "topology (bus (snd (read_external_memory a m))) = topology (bus m)"
    by (simp add: read_external_memory_def split: option.split prod.split)
  ultimately show ?thesis
    by (simp add: read_data_def split: option.split)
qed

text \<open>A write to a mapped window ends in one of four ways.\<close>

lemma write_mapped_cases:
  assumes "write_mapped a v b = Some x"
  shows "write_mapped_flash a v b = Some x \<or> write_mapped_eeprom a v b = Some x \<or>
    write_mapped_user_row a v b = Some x \<or> x = b"
  using assms
  by (cases "write_mapped_flash a v b"; cases "write_mapped_eeprom a v b"; cases "write_mapped_user_row a v b")
     (auto simp: write_mapped_def split: if_splits)

lemma topology_write_data: "topology (bus (write_data a v m)) = topology (bus m)"
proof -
  have "topology x = topology b" if "write_mapped_flash a v b = Some x" for x b
    using that by (auto simp: write_mapped_flash_def Let_def split: if_splits)
  moreover have "topology x = topology b" if "write_mapped_eeprom a v b = Some x" for x b
    using that by (auto simp: write_mapped_eeprom_def Let_def split: if_splits)
  moreover have "topology x = topology b" if "write_mapped_user_row a v b = Some x" for x b
    using that by (auto simp: write_mapped_user_row_def Let_def split: if_splits)
  ultimately have "topology x = topology b" if "write_mapped a v b = Some x" for x b
    using write_mapped_cases[OF that] by blast
  moreover have "topology (write_sram a v b) = topology b" for b
    by (simp add: write_sram_def Let_def)
  moreover have "topology (bus (write_external_memory a v m)) = topology (bus m)"
    unfolding write_external_memory_def
    by (cases "xmem_mem (bus m)"; cases "ebi_mem (bus m)") (simp_all add: case_prod_beta split: option.split)
  ultimately show ?thesis
    by (simp add: write_data_def split: option.split)
qed

lemma topology_consume: "topology (snd (consume_interrupt_request d b)) = topology b"
proof -
  have "topology (snd (periph_consume i r b)) = topology b" for i r
    by (simp add: periph_consume_def wdt_consume_def eeprom_consume_def nvm_consume_def Let_def kind_tag_def
        split: periph_kind.split)
  then show ?thesis
    by (simp add: consume_interrupt_request_def case_prod_beta Let_def split: option.split)
qed

lemma topology_on_reti: "topology (bus_on_reti b) = topology b"
proof -
  have step: "topology (case kind_at b i of K_Cpu_Int c \<Rightarrow> set_kind i (K_Cpu_Int (cpu_int_on_reti c)) b | _ \<Rightarrow> b) =
      topology b" for i b
    by (simp add: kind_tag_def split: periph_kind.split)
  show ?thesis
    unfolding bus_on_reti_def by (rule topology_fold) (rule step)
qed

lemma topology_wdr: "topology (bus (wdr_wdt8x (wdr_classic m))) = topology (bus m)"
proof -
  have "topology (bus (wdr_classic m)) = topology (bus m)"
    by (simp add: wdr_classic_def split: option.split periph_kind.split)
  moreover have "topology (bus (wdr_wdt8x m)) = topology (bus m)" for m
    by (auto simp: wdr_wdt8x_def case_prod_beta Let_def kind_tag_def split: option.split periph_kind.split)
  ultimately show ?thesis by simp
qed

interpretation fixed: execution_stable "\<lambda>m m'. topology (bus m') = topology (bus m)"
  by unfold_locales
     (simp_all add: topology_read_data topology_write_data topology_consume topology_on_reti topology_wdr
       set_in_rmw_def cpu_int_enter_def)


end
