(* ===== verification/Protection.thy ===== *)
theory Protection
  imports Invariant Quiet
begin

text \<open>
  The flash as seen by programs: only the deferred half of a self-programming or NVM command
  changes it, and on a part without an NVM controller the lock bits forbid that half.
\<close>

section \<open>The program memory\<close>

definition code :: "bus \<Rightarrow> u16 list \<times> u8 \<times> u32" where
  "code b = (flash b, lockbit b, loaded_program_words b)"

lemma code_if: "code (if c then x else y) = (if c then code x else code y)"
  "code (snd (if c then p else q)) = (if c then code (snd p) else code (snd q))"
  by simp_all

lemma code_fields_upd [simp]:
  "code (b\<lparr>flash_rww_busy := a\<rparr>) = code b" "code (b\<lparr>has_pending_pin_changes := a\<rparr>) = code b"
  "code (b\<lparr>xmem_mem := x\<rparr>) = code b" "code (b\<lparr>ebi_mem := y\<rparr>) = code b"
  "code (b\<lparr>pending_interrupt_mask := w\<rparr>) = code b" "code (b\<lparr>peripherals := ps\<rparr>) = code b"
  "code (b\<lparr>managed_muxes := ms\<rparr>) = code b" "code (b\<lparr>data := d\<rparr>) = code b"
  "code (b\<lparr>flash_page_buffer := pb\<rparr>) = code b" "code (b\<lparr>eeprom_page_buffer := eb\<rparr>) = code b"
  "code (b\<lparr>eeprom_buffer_dirty := eb\<rparr>) = code b" "code (b\<lparr>eeprom_storage := eb\<rparr>) = code b"
  "code (b\<lparr>user_row := eb\<rparr>) = code b" "code (b\<lparr>fuses := f\<rparr>) = code b"
  "code (b\<lparr>spm_busy_cycles_left := u\<rparr>) = code b"
  "code (b\<lparr>io_stall_cycles := u\<rparr>) = code b" "code (b\<lparr>spm_blocks_cpu := a\<rparr>) = code b"
  "code (b\<lparr>spm_command := v\<rparr>) = code b" "code (b\<lparr>spm_address := u\<rparr>) = code b"
  "code (b\<lparr>spm_data := h\<rparr>) = code b" "code (b\<lparr>lpm_special_mode_timeout := v\<rparr>) = code b"
  "code (b\<lparr>last_spmcsr_val := v\<rparr>) = code b" "code (b\<lparr>flash_wait_states := v\<rparr>) = code b"
  "code (b\<lparr>bus_cpu_cycles := w\<rparr>) = code b" "code (b\<lparr>domain_gated_cycles := g\<rparr>) = code b"
  "code (b\<lparr>in_rmw := a\<rparr>) = code b" "code (b\<lparr>interrupts_dirty := a\<rparr>) = code b"
  "code (b\<lparr>current_active_domains := v\<rparr>) = code b" "code (b\<lparr>last_catch_up_cycle := w\<rparr>) = code b"
  "code (b\<lparr>scheduler := s\<rparr>) = code b" "code (b\<lparr>active_ticking_peripherals := l\<rparr>) = code b"
  by (simp_all add: code_def)

lemma code_peripherals [simp]:
  "code (set_kind i k b) = code b" "code (set_last_update i t b) = code b"
  "code (notify_interrupt_state_change i a b) = code b" "code (set_interrupt_pending i a b) = code b"
  "code (update_interrupt_pending i b) = code b" "code (schedule_event d cb b) = code b"
  "code (cancel_event cb b) = code b" "code (set_current_cycle t b) = code b"
  "code (wdt_reset_watchdog i wd b) = code b"
  by (simp_all add: set_kind_def set_last_update_def notify_interrupt_state_change_def set_interrupt_pending_def
      update_interrupt_pending_def schedule_event_def cancel_event_def set_current_cycle_def
      wdt_reset_watchdog_def Let_def)

lemma code_pointed [simp]:
  "code (upd_nvm f b) = code b" "code (upd_eeprom g b) = code b" "code (upd_cpu_int h b) = code b"
  by (simp_all add: upd_nvm_def upd_eeprom_def upd_cpu_int_def split: option.split periph_kind.split)

lemma code_stalls [simp]:
  "code (request_cpu_stall c b) = code b" "code (consume_stall_cycle b) = code b"
  "code (snd (read_program_word a b)) = code b"
  by (simp_all add: request_cpu_stall_def consume_stall_cycle_def read_program_word_def Let_def code_if
      split del: if_split cong: if_cong)

lemma code_read_byte [simp]: "code (snd (read_program_byte p q b)) = code b"
proof -
  have "code (snd (case o' of Some v \<Rightarrow> (v, x) | None \<Rightarrow> y)) =
      (case o' of Some v \<Rightarrow> code x | None \<Rightarrow> code (snd y))" for o' :: "u8 option" and x y
    by (simp split: option.split)
  then show ?thesis
    by (simp add: read_program_byte_def Let_def code_if split del: if_split cong: if_cong split: option.split)
qed

lemma code_commands [simp]:
  "code (clear_spmcsr v b) = code b" "code (immediate_buffer_clear f c b) = code b"
  "code (execute_spm_command c a w b) = code b" "code (execute_nvm_command c a w b) = code b"
proof -
  show clear: "code (clear_spmcsr v b) = code b" for v b
    by (simp add: clear_spmcsr_def Let_def)
  show buffer: "code (immediate_buffer_clear f c b) = code b" for f c b
    by (simp add: immediate_buffer_clear_def fill_flash_buffer_def fill_eeprom_buffer_def split: nvm_family.split)
  show "code (execute_spm_command c a w b) = code b"
    unfolding execute_spm_command_def Let_def code_if
    by (simp add: code_if clear cong: if_cong split del: if_split)
  show "code (execute_nvm_command c a w b) = code b"
    by (simp add: execute_nvm_command_def Let_def case_prod_beta buffer)
qed

lemma code_access [simp]:
  "code (bus (snd (periph_read i a m))) = code (bus m)" "code (bus (periph_write i a v m)) = code (bus m)"
proof -
  show "code (bus (snd (periph_read i a m))) = code (bus m)"
    by (simp add: periph_read_def eeprom_read_def Let_def split: periph_kind.split option.split prod.split)
  have eecr: "code (snd (eeprom_update_eecr i v e b)) = code b" for e b
    by (simp add: eeprom_update_eecr_def eecr_write_enable_def eecr_master_enable_def eecr_read_enable_def Let_def)
  have ee: "code (eeprom_write i a v e b) = code b" for e b
    by (simp add: eeprom_write_def Let_def case_prod_beta eecr)
  have nvm: "code (nvm_write i a v n b) = code b" for n b
    unfolding nvm_write_def Let_def case_prod_beta code_if
    by (simp add: code_if split del: if_split cong: if_cong)
  have wdt: "code (wdt_write i a v w b) = code b" for w b
    by (simp add: wdt_write_def split: prod.split wdt_write_effect.split)
  show "code (bus (periph_write i a v m)) = code (bus m)"
    by (simp add: periph_write_def ee nvm wdt split: periph_kind.split)
qed

section \<open>Lock bits\<close>

text \<open>
  A part without an NVM controller whose first two lock bits forbid self-programming, now
  and after any reset.
\<close>

definition spm_locked :: "bus \<Rightarrow> bool" where
  "spm_locked b \<longleftrightarrow>
     nvm_ctrl_ptr b = None \<and> lockbit b AND 0x03 \<noteq> 0x03 \<and> lockbit_reset (device b) AND 0x03 \<noteq> 0x03"

definition protects :: "bus \<Rightarrow> bus \<Rightarrow> bool" where
  "protects b b' \<longleftrightarrow>
     topology b' = topology b \<and> loaded_program_words b' = loaded_program_words b \<and>
     (spm_locked b \<longrightarrow> spm_locked b' \<and> flash b' = flash b)"

lemma protects_trans: "protects a b \<Longrightarrow> protects b c \<Longrightarrow> protects a c"
  by (simp add: protects_def)

lemma protects_code [intro]:
  assumes "topology b' = topology b" and "code b' = code b"
  shows "protects b b'"
proof -
  have "spm_locked b' = spm_locked b"
    using assms topology_fields(1,5)[OF assms(1)] by (simp add: spm_locked_def code_def)
  then show ?thesis using assms by (simp add: protects_def code_def)
qed

lemma protects_refl: "protects b b"
  by blast

lemma protects_reset: "protects b (reset_bus_state b)"
  by (simp add: protects_def) (simp add: spm_locked_def reset_bus_state_def)

text \<open>The deferred half of SPM looks at the lock bits again.\<close>

lemma command_bits: "(x :: u8) AND 0x06 = 0 \<Longrightarrow> x AND 0x02 = 0 \<and> x AND 0x04 = 0"
proof -
  assume "x AND 0x06 = 0"
  then have "(x AND 0x06) AND 0x02 = 0" "(x AND 0x06) AND 0x04 = 0" by simp_all
  then show ?thesis by (simp add: and.assoc)
qed

lemma deferred_locked:
  assumes "spm_locked b"
  shows "code (perform_deferred_nvm_operation b) = code b"
proof -
  have "perform_deferred_classic b = b"
    using assms command_bits[of "spm_command b"]
    by (cases "spm_command b AND 0x06 = 0") (simp_all add: perform_deferred_classic_def spm_locked_def)
  then show ?thesis using assms by (simp add: perform_deferred_nvm_operation_def spm_locked_def)
qed

lemma loaded_words_upd [simp]:
  "loaded_program_words (b\<lparr>flash := fl\<rparr>) = loaded_program_words b"
  "loaded_program_words (fill_flash_buffer b) = loaded_program_words b"
  "loaded_program_words (fill_eeprom_buffer b) = loaded_program_words b"
  "loaded_program_words (clear_eeprom_buffer b) = loaded_program_words b"
  "loaded_program_words (erase_flash_pages p n b) = loaded_program_words b"
  "loaded_program_words (write_flash_page b) = loaded_program_words b"
  "loaded_program_words (erase_flash_page b) = loaded_program_words b"
  "loaded_program_words (commit_eeprom a n b) = loaded_program_words b"
  "loaded_program_words (erase_eeprom_bytes a n b) = loaded_program_words b"
  "loaded_program_words (erase_eeprom_all b) = loaded_program_words b"
  "loaded_program_words (upd_eeprom f b) = loaded_program_words b"
proof -
  have fold: "loaded_program_words (fold (\<lambda>p b. b\<lparr>flash := g p b\<rparr>) xs b) = loaded_program_words b"
    for g :: "nat \<Rightarrow> bus \<Rightarrow> u16 list" and xs and b :: bus
    by (induction xs arbitrary: b) simp_all
  show "loaded_program_words (erase_flash_pages p n b) = loaded_program_words b"
    by (simp add: erase_flash_pages_def fold)
  have ee: "loaded_program_words (upd_eeprom f b) = loaded_program_words b" for f
    using code_pointed(2)[of f b] unfolding code_def by blast
  then show "loaded_program_words (upd_eeprom f b) = loaded_program_words b" .
  show "loaded_program_words (commit_eeprom a n b) = loaded_program_words b"
    "loaded_program_words (erase_eeprom_bytes a n b) = loaded_program_words b"
    "loaded_program_words (erase_eeprom_all b) = loaded_program_words b"
    by (simp_all add: commit_eeprom_def erase_eeprom_bytes_def erase_eeprom_all_def Let_def ee)
qed (simp_all add: fill_flash_buffer_def fill_eeprom_buffer_def clear_eeprom_buffer_def write_flash_page_def
    erase_flash_page_def)

lemma loaded_words_if:
  "loaded_program_words (if c then x else y) = (if c then loaded_program_words x else loaded_program_words y)"
  by simp

lemma loaded_words_deferred: "loaded_program_words (perform_deferred_nvm_operation b) = loaded_program_words b"
proof -
  have dirty: "loaded_program_words (erase_dirty_bytes a b) = loaded_program_words b" for a b
  proof -
    have "loaded_program_words (fold (\<lambda>i b. if P i b then erase_eeprom_bytes (g i) 1 b else b) xs b) = loaded_program_words b"
      for P g and xs :: "nat list" and b by (induction xs arbitrary: b) simp_all
    then show ?thesis by (simp add: erase_dirty_bytes_def Let_def)
  qed
  have clear: "loaded_program_words (clear_spmcsr v b) = loaded_program_words b" for v b
    by (simp add: clear_spmcsr_def Let_def)
  show ?thesis
    unfolding perform_deferred_nvm_operation_def perform_deferred_nvm_dx_ex_def perform_deferred_mega_tiny_def
      perform_deferred_classic_def Let_def loaded_words_if
    by (simp add: loaded_words_if dirty clear cong: if_cong split del: if_split)
qed

lemma protects_tick_spm: "protects b (tick_spm e b)"
proof -
  let ?b = "b\<lparr>spm_busy_cycles_left := 0\<rparr>"
  have locked: "code (perform_deferred_nvm_operation ?b) = code b" if "spm_locked b"
    using deferred_locked[of ?b] that by (simp add: spm_locked_def)
  have "protects b (perform_deferred_nvm_operation ?b)"
  proof (cases "spm_locked b")
    case True
    then show ?thesis using locked by (intro protects_code) simp_all
  next
    case False
    then show ?thesis using loaded_words_deferred[of ?b] by (simp add: protects_def)
  qed
  moreover have "protects x (upd_nvm f x)" for f x by (rule protects_code) simp_all
  moreover have "protects b (b\<lparr>spm_busy_cycles_left := n\<rparr>)" for n by (rule protects_code) simp_all
  ultimately show ?thesis
    by (auto simp: tick_spm_def protects_refl intro: protects_trans)
qed

lemma protects_cpu_reset: "protects (bus m) (bus (cpu_reset c m))"
proof -
  have reset: "code (bus (periph_reset i m)) = code (bus m)" for i m
    by (simp add: periph_reset_def upd_kind_def upd_control_def split: periph_kind.split)
  have fold: "code (bus (fold (\<lambda>i m. upd_bus (set_last_update i 0) (periph_reset i m)) is m)) = code (bus m)"
    for "is" m by (induction "is" arbitrary: m) (simp_all add: reset)
  have cause: "code (bus (record_reset_cause c m)) = code (bus m)" for m
    by (simp add: record_reset_cause_def upd_control_def split: option.split periph_kind.split)
  have "code (bus (cpu_reset c m)) = code (reset_bus_state (bus m))"
    by (simp add: cpu_reset_def Let_def cause bus_reset_def fold)
  moreover have "topology (bus (cpu_reset c m)) = topology (reset_bus_state (bus m))" by simp
  ultimately have "protects (reset_bus_state (bus m)) (bus (cpu_reset c m))" by blast
  then show ?thesis using protects_reset protects_trans by blast
qed

section \<open>Execution\<close>

lemma protects_upd_kind: "kind_tag k = kind_tag (kind_at (bus m) i) \<Longrightarrow> protects (bus m) (bus (upd_kind i k m))"
  by (rule protects_code) (simp_all add: upd_kind_def)

lemma protects_periph_tick: "protects (bus m) (bus (periph_tick i e m))"
proof -
  have reset: "protects (bus m) (bus (cpu_reset c (upd_kind i k m)))" if "kind_tag k = kind_tag (kind_at (bus m) i)" for c k
    by (rule protects_trans[OF protects_upd_kind[OF that] protects_cpu_reset])
  have update: "protects (bus m) (update_interrupt_pending i (bus (upd_kind i k m)))"
    if "kind_tag k = kind_tag (kind_at (bus m) i)" for k
    by (rule protects_trans[OF protects_upd_kind[OF that]]) (rule protects_code, simp_all)
  show ?thesis
    by (auto simp add: periph_tick_def kind_tag_def case_prod_beta Let_def protects_refl
        intro!: protects_upd_kind reset update split: periph_kind.split)
qed

lemma protects_callback: "protects (bus m) (bus (run_callback cb m))"
proof -
  have restart: "protects (bus m) (bus (case kind_at (bus m) i of
      K_Wdt w \<Rightarrow> if P w then upd_bus (wdt_reset_watchdog i w) m else m | _ \<Rightarrow> m))" for i m P
    by (auto intro!: protects_code split: periph_kind.split)
  have wdt: "protects (bus m) (bus (wdt_complete_timeout i m))" for i
  proof (cases "kind_at (bus m) i")
    case (K_Wdt w)
    define x where "x = (if wdt_wdtcsr w AND ucast (wdt_wdie_mask w) \<noteq> 0
      then upd_bus (\<lambda>b. update_interrupt_pending i (set_kind i (K_Wdt (w\<lparr>wdt_irq := True\<rparr>)) b)) m
      else if wdt_wdtcsr w AND ucast (wdt_wde_mask w) \<noteq> 0 then cpu_reset Watchdog_Reset m else m)"
    have "protects (bus m) (update_interrupt_pending i (set_kind i (K_Wdt (w\<lparr>wdt_irq := True\<rparr>)) (bus m)))"
      by (rule protects_code) (simp_all add: K_Wdt kind_tag_def)
    then have "protects (bus m) (bus x)"
      by (simp add: x_def protects_cpu_reset protects_refl)
    moreover have "wdt_complete_timeout i m = (case kind_at (bus x) i of
        K_Wdt w \<Rightarrow> if wdt_wdtcsr w AND ucast (wdt_wde_mask w OR wdt_wdie_mask w) \<noteq> 0
          then upd_bus (wdt_reset_watchdog i w) x else x | _ \<Rightarrow> x)"
      by (simp only: wdt_complete_timeout_def Let_def x_def K_Wdt periph_kind.case)
    ultimately show ?thesis
      using protects_trans[OF _ restart[where m = x and i = i
          and P = "\<lambda>w. wdt_wdtcsr w AND ucast (wdt_wde_mask w OR wdt_wdie_mask w) \<noteq> 0"]]
      by simp
  qed (simp_all add: wdt_complete_timeout_def protects_refl)
  show ?thesis
  proof (cases cb)
    case (Watchdog_Callback i)
    then show ?thesis by (simp add: run_callback_def wdt)
  next
    case (Eeprom_Master_Timeout i)
    then show ?thesis
      by (auto simp: run_callback_def kind_tag_def protects_refl intro!: protects_upd_kind split: periph_kind.split)
  next
    case (Eeprom_Write_Complete i)
    have "protects (bus m) (update_interrupt_pending i (set_kind i k (bus m)))"
      if "kind_tag k = kind_tag (kind_at (bus m) i)" for k
      by (rule protects_code) (simp_all add: that)
    with Eeprom_Write_Complete show ?thesis
      by (auto simp: run_callback_def kind_tag_def protects_refl split: periph_kind.split)
  qed
qed

lemma code_bookkeeping [simp]:
  "code (tick_lpm_special e b) = code b" "code (tick_io_stall e b) = code b" "code (gate_domains e d b) = code b"
  by (simp_all add: tick_lpm_special_def tick_io_stall_def gate_domains_def)

interpretation locked: time_stable "\<lambda>m m'. protects (bus m) (bus m')"
proof unfold_locales
  fix m :: machine and i e cb
  show "protects (bus m) (bus (periph_tick i e m))" by (rule protects_periph_tick)
  show "protects (bus m) (bus (run_callback cb m))" by (rule protects_callback)
  show "protects (bus m) (bus (upd_bus (tick_spm e) m))" by (simp add: protects_tick_spm)
  show "protects (bus m) (bus (upd_bus (\<lambda>b. tick_lpm_special e (tick_io_stall e (gate_domains e d b))) m))" for d
    by (rule protects_code[OF fixed.stable_bookkeeping]) simp
  show "protects (bus m) (bus (publish_pending_pin_changes m))"
    by (rule protects_code[OF fixed.stable_publish]) (simp add: publish_pending_pin_changes_def)
  show "protects (bus m) (bus (refresh_interrupt_pending m))"
    by (rule protects_code[OF fixed.stable_refresh]) (simp add: refresh_interrupt_pending_def Let_def)
next
  fix m m' m'' :: machine
  assume "protects (bus m) (bus m')" "protects (bus m') (bus m'')"
  then show "protects (bus m) (bus m'')" by (rule protects_trans)
qed (auto simp: protects_refl intro!: protects_code)

lemma protects_mux:
  "protects (bus m) (bus (snd (mux_read k a m)))" "protects (bus m) (bus (mux_write k a v m))"
  "protects (bus m) (bus (catch_up_mux k m))"
proof -
  have "code (bus (snd (fold (\<lambda>i (r, m). let (v, m) = periph_read i a m in (r OR v, m)) ts p))) = code (bus (snd p))"
    for ts and p :: "u8 \<times> machine"
    by (induction ts arbitrary: p) (simp_all add: case_prod_beta)
  then show "protects (bus m) (bus (snd (mux_read k a m)))"
    by (intro protects_code topology_mux) (simp add: mux_read_def)
  have "code (bus (fold (\<lambda>i. periph_write i a v) ts m)) = code (bus m)" for ts m
    by (induction ts arbitrary: m) simp_all
  then show "protects (bus m) (bus (mux_write k a v m))"
    by (intro protects_code topology_mux) (simp add: mux_write_def)
  have tick: "protects (bus m) (bus (mux_tick k e m))" for e m
    unfolding mux_tick_def by (rule locked.stable_fold) (rule protects_periph_tick)
  have after: "protects (bus m) (bus (mux_tick k e (upd_bus f m)))" if "protects (bus m) (f (bus m))" for f e
    by (rule protects_trans[OF that]) (use tick[of "upd_bus f m" e] in simp)
  show "protects (bus m) (bus (catch_up_mux k m))"
    by (auto simp: catch_up_mux_def Let_def protects_refl intro!: after protects_code)
qed

lemma protects_dispatch:
  "protects (bus m) (bus (snd (dispatch_read t a m)))" "protects (bus m) (bus (dispatch_write t a v m))"
proof -
  have "protects (bus m) (bus (snd (periph_read i a (tick_peripheral_to t d i m))))" for i t d
    by (rule protects_trans[OF locked.stable_tick_to]) (rule protects_code, simp_all)
  moreover have "protects (bus m) (bus (snd (mux_read k a (catch_up_mux k m))))" for k
    by (rule protects_trans[OF protects_mux(3) protects_mux(1)])
  ultimately show "protects (bus m) (bus (snd (dispatch_read t a m)))"
    by (simp add: dispatch_read_def split: dispatch_target.split)
  have "protects (bus m) (bus (periph_write i a v m))" for i by (rule protects_code) simp_all
  then show "protects (bus m) (bus (dispatch_write t a v m))"
    by (simp add: dispatch_write_def protects_mux split: dispatch_target.split)
qed

lemma protects_data_space:
  "protects (bus m) (bus (snd (read_data a m)))" "protects (bus m) (bus (write_data a v m))"
proof -
  have mapped: "protects (bus m) (bus (snd p))" if "read_mapped a m = Some p" for p
    using that by (auto simp: read_mapped_def Let_def protects_refl intro!: protects_code split: if_splits option.splits)
  have external: "protects (bus m) (bus (snd (read_external_memory a m)))"
    by (auto simp: read_external_memory_def protects_refl intro!: protects_code split: option.split prod.split)
  show "protects (bus m) (bus (snd (read_data a m)))"
    by (simp add: read_data_def mapped external protects_dispatch protects_refl split: option.split)
  have "protects b x" if "write_mapped_flash a v b = Some x" for x b
    using that by (auto simp: write_mapped_flash_def Let_def intro!: protects_code split: if_splits)
  moreover have "protects b x" if "write_mapped_eeprom a v b = Some x" for x b
    using that by (auto simp: write_mapped_eeprom_def Let_def intro!: protects_code split: if_splits)
  moreover have "protects b x" if "write_mapped_user_row a v b = Some x" for x b
    using that by (auto simp: write_mapped_user_row_def Let_def intro!: protects_code split: if_splits)
  ultimately have mapped: "protects b x" if "write_mapped a v b = Some x" for x b
    using write_mapped_cases[OF that] protects_refl by blast
  have sram: "protects b (write_sram a v b)" for b
    by (rule protects_code) (simp_all add: write_sram_def Let_def)
  have external: "protects (bus m) (bus (write_external_memory a v m))"
    by (auto simp: write_external_memory_def protects_refl intro!: protects_code split: option.split prod.split)
  have cell: "protects b (b\<lparr>data := (data b)[unat a := v]\<rparr>)" for b by (rule protects_code) simp_all
  show "protects (bus m) (bus (write_data a v m))"
    by (simp add: write_data_def mapped external sram cell protects_dispatch protects_refl split: option.split)
qed

lemma protects_interrupts:
  "protects b (snd (consume_interrupt_request d b))" "protects b (bus_on_reti b)" "protects b (cpu_int_enter v b)"
proof -
  have consume: "code (snd (periph_consume i r b)) = code b" for i r b
    by (simp add: periph_consume_def wdt_consume_def eeprom_consume_def nvm_consume_def Let_def split: periph_kind.split)
  show "protects b (snd (consume_interrupt_request d b))"
    by (intro protects_code topology_consume)
       (simp add: consume_interrupt_request_def case_prod_beta Let_def consume split: option.split)
  have step: "code (case kind_at b i of K_Cpu_Int c \<Rightarrow> set_kind i (K_Cpu_Int (cpu_int_on_reti c)) b | _ \<Rightarrow> b) = code b" for i b
    by (simp split: periph_kind.split)
  have "code (fold (\<lambda>i b. case kind_at b i of K_Cpu_Int c \<Rightarrow> set_kind i (K_Cpu_Int (cpu_int_on_reti c)) b | _ \<Rightarrow> b) is b) = code b"
    for "is" b by (induction "is" arbitrary: b) (simp_all add: step)
  then show "protects b (bus_on_reti b)"
    by (intro protects_code topology_on_reti) (simp add: bus_on_reti_def)
  show "protects b (cpu_int_enter v b)" by (rule protects_code) (simp_all add: cpu_int_enter_def)
qed

lemma protects_wdr: "protects (bus m) (bus (wdr_wdt8x (wdr_classic m)))"
proof -
  have classic: "protects (bus m) (bus (wdr_classic m))"
    by (auto simp: wdr_classic_def protects_refl intro!: protects_code split: option.split periph_kind.split)
  have tag: "protects (bus m) (set_kind k x (bus (cpu_reset c m)))"
    if "kind_tag x = kind_tag (kind_at (bus (cpu_reset c m)) k)" for m c k x
    by (rule protects_trans[OF protects_cpu_reset[of m c]]) (rule protects_code, simp_all add: that)
  have violation: "protects (bus m) (bus (case kind_at (bus (cpu_reset c m)) k of
      K_Wdt8x w \<Rightarrow> upd_kind k (K_Wdt8x (wdt8x_reset w)) (cpu_reset c m) | _ \<Rightarrow> cpu_reset c m))" for m c k
    by (cases "kind_at (bus (cpu_reset c m)) k") (simp_all add: protects_cpu_reset tag kind_tag_def)
  have "protects (bus m) (bus (wdr_wdt8x m))" for m
  proof (cases "wdt8x_ptr m")
    case (Some k)
    show ?thesis
    proof (cases "kind_at (bus m) k")
      case (K_Wdt8x w)
      then have "protects (bus m) (bus (upd_kind k (K_Wdt8x x) m))" for x
        by (intro protects_upd_kind) (simp add: kind_tag_def)
      with Some K_Wdt8x show ?thesis
        by (simp only: wdr_wdt8x_def Let_def case_prod_beta option.case periph_kind.case)
           (intro locked.stable_if violation)
    qed (simp_all add: wdr_wdt8x_def Some protects_refl)
  qed (simp add: wdr_wdt8x_def protects_refl)
  then show ?thesis using classic protects_trans by blast
qed

interpretation locked: execution_stable "\<lambda>m m'. protects (bus m) (bus m')"
  by unfold_locales
     (auto simp: protects_refl protects_data_space protects_interrupts protects_wdr set_in_rmw_def
       intro!: protects_code)

text \<open>
  C12. Lock bits protect the program: on a part without an NVM controller whose lock bits
  forbid self-programming, no program, however long it runs and whatever it writes, changes
  a word of the flash.
\<close>

theorem locked_flash:
  assumes "spm_locked (bus m)"
  shows "flash (bus (run n m)) = flash (bus m)"
  using locked.stable_run[of m n] assms by (simp add: protects_def)

text \<open>A locked variant of the example machine.\<close>

definition locked_machine :: machine where
  "locked_machine = upd_bus (\<lambda>b. b\<lparr>lockbit := 0xFC, device := (device b)\<lparr>lockbit_reset := 0xFC\<rparr>\<rparr>)
     (sample_machine [0x95E8, 0xCFFE])"

lemma locked_flash_witness:
  "flash (bus (run 100 locked_machine)) = flash (bus locked_machine)"
proof (rule locked_flash)
  show "spm_locked (bus locked_machine)"
    by (simp add: spm_locked_def locked_machine_def)
qed

text \<open>
  C13. The program counter's limit lies inside the flash: after an image is loaded and the
  machine has run for any time, the number of loaded words, against which the fetch of
  every instruction is checked, is at most the number of words of the flash.
\<close>

theorem loaded_words_in_flash:
  "unat (loaded_program_words (bus (run n (upd_bus (load_image img) m)))) \<le>
     length (flash (bus (run n (upd_bus (load_image img) m))))"
proof -
  let ?m = "upd_bus (load_image img) m"
  have loaded: "loaded_program_words (bus (run n ?m)) = loaded_program_words (bus ?m)"
    and size: "length (flash (bus (run n ?m))) = length (flash (bus ?m))"
    using locked.stable_run[of ?m n] topology_fields(2)[of "bus (run n ?m)" "bus ?m"]
    by (simp_all add: protects_def)
  have "unat (of_nat k :: u32) \<le> k" for k
    by (simp add: unat_of_nat)
  then show ?thesis
    unfolding loaded size by (simp add: load_image_def load_flash_def Let_def)
       (meson le_trans min.cobounded2)
qed

end
