(* ===== verification/Contest.thy ===== *)
theory Contest
  imports Main
begin

text \<open>
  Arbitration as a contest: a fold over contestants that keeps the better candidate, shared
  by the interrupts of the bus (\<open>Interrupts\<close>) and the message objects of the CAN controller
  (\<open>Can\<close>).
\<close>

text \<open>
  Contestants in order, some with an entry; a later entry replaces the one kept so far
  exactly when its rank is lower.
\<close>

locale contest =
  fixes entry :: "'i \<Rightarrow> 'e option" and rank :: "'e \<Rightarrow> nat" and beats :: "'e \<Rightarrow> 'e \<Rightarrow> bool"
  assumes beats_rank: "beats a b \<longleftrightarrow> rank a < rank b"
begin

definition round :: "'i \<Rightarrow> ('i \<times> 'e) option \<Rightarrow> ('i \<times> 'e) option" where
  "round i best = (case entry i of None \<Rightarrow> best
     | Some c \<Rightarrow> (case best of None \<Rightarrow> Some (i, c) | Some (j, r) \<Rightarrow> if beats c r then Some (i, c) else best))"

definition wins :: "'i list \<Rightarrow> 'i \<Rightarrow> 'e \<Rightarrow> bool" where
  "wins is i e \<longleftrightarrow>
     (\<exists>before after. is = before @ i # after \<and> entry i = Some e \<and>
       (\<forall>j\<in>set before. \<forall>c. entry j = Some c \<longrightarrow> rank e < rank c) \<and>
       (\<forall>j\<in>set after. \<forall>c. entry j = Some c \<longrightarrow> rank e \<le> rank c))"

lemma round_simps [simp]:
  "entry i = None \<Longrightarrow> round i best = best" "entry i = Some c \<Longrightarrow> round i None = Some (i, c)"
  "entry i = Some c \<Longrightarrow> round i (Some (j, r)) = (if beats c r then Some (i, c) else Some (j, r))"
  by (simp_all add: round_def)

lemma no_winner: "fold round is None = None \<longleftrightarrow> (\<forall>i\<in>set is. entry i = None)"
proof -
  have keeps: "fold round is (Some p) \<noteq> None" for "is" p
  proof (induction "is" arbitrary: p)
    case (Cons i "is")
    obtain j r where "p = (j, r)" by (cases p)
    then have "\<exists>q. round i (Some p) = Some q" by (cases "entry i") auto
    then show ?case using Cons by auto
  qed simp
  show ?thesis
  proof (induction "is")
    case (Cons i "is")
    then show ?case using keeps by (cases "entry i") auto
  qed simp
qed

lemma winner_append:
  assumes "fold round is None = Some (i, e)"
  shows "wins is i e"
  using assms
proof (induction "is" arbitrary: i e rule: rev_induct)
  case (snoc x xs)
  show ?case
  proof (cases "entry x")
    case None
    then have "fold round xs None = Some (i, e)" using snoc.prems by simp
    then have "wins xs i e" by (rule snoc.IH)
    then obtain before after where *: "xs = before @ i # after" "entry i = Some e"
      "\<forall>j\<in>set before. \<forall>c. entry j = Some c \<longrightarrow> rank e < rank c"
      "\<forall>j\<in>set after. \<forall>c. entry j = Some c \<longrightarrow> rank e \<le> rank c"
      unfolding wins_def by blast
    show ?thesis
      unfolding wins_def
      by (intro exI[of _ before] exI[of _ "after @ [x]"]) (use * None in auto)
  next
    case (Some c)
    show ?thesis
    proof (cases "fold round xs None")
      case None
      then have "i = x" "e = c" "\<forall>j\<in>set xs. entry j = None"
        using snoc.prems Some no_winner[of xs] by auto
      then show ?thesis
        unfolding wins_def using Some by (intro exI[of _ xs] exI[of _ "[]"]) auto
    next
      fix p assume p: "fold round xs None = Some p"
      obtain j r where jr: "p = (j, r)" by (cases p)
      have "wins xs j r" by (rule snoc.IH) (simp add: p jr)
      then obtain before after where *: "xs = before @ j # after" "entry j = Some r"
        "\<forall>k\<in>set before. \<forall>c. entry k = Some c \<longrightarrow> rank r < rank c"
        "\<forall>k\<in>set after. \<forall>c. entry k = Some c \<longrightarrow> rank r \<le> rank c"
        unfolding wins_def by blast
      show ?thesis
      proof (cases "beats c r")
        case True
        then have ie: "i = x" "e = c" using snoc.prems Some p jr by auto
        have "\<forall>k\<in>set xs. \<forall>d. entry k = Some d \<longrightarrow> rank c < rank d"
          using * True unfolding beats_rank by fastforce
        then show ?thesis
          unfolding wins_def ie using Some by (intro exI[of _ xs] exI[of _ "[]"]) auto
      next
        case False
        then have ie: "i = j" "e = r" using snoc.prems Some p jr by auto
        show ?thesis
          unfolding wins_def ie
          by (intro exI[of _ before] exI[of _ "after @ [x]"]) (use * False Some beats_rank in auto)
      qed
    qed
  qed
qed simp

end

end
