(* ===== verification/Interrupts.thy ===== *)
theory Interrupts
  imports Stack Protection Contest
begin

text \<open>
  Interrupts from the request to RETI: the arbitration between peripherals as the choice of
  a least rank, the entry sequence, and the return.  \<open>MemoryBus\<close> runs a contest over its
  peripherals.
\<close>

section \<open>Arbitration\<close>

text \<open>The order of service: level 1 before level 0, then the distance from the vector of highest priority.\<close>

definition service_rank :: "cpu_int option \<Rightarrow> u8 \<Rightarrow> interrupt_request \<Rightarrow> nat" where
  "service_rank ci vectors r =
     (case ci of
        None \<Rightarrow> 256 * unat (vector_index r) + unat (source_id r)
      | Some c \<Rightarrow>
          (if is_lvl1_vector c (vector_index r) then 0 else 2 ^ 32) +
          (if vectors = 0 then unat (vector_index r)
           else unat ((ucast (vector_index r) + ucast vectors - ucast (highest_priority_vector c)) mod ucast vectors :: u32)))"

lemma replaces_rank: "replaces ci vectors a b \<longleftrightarrow> service_rank ci vectors a < service_rank ci vectors b"
proof (cases ci)
  case None
  have "unat (source_id a) < 256" "unat (source_id b) < 256" by (rule u8_less)+
  then show ?thesis
    using None by (auto simp: replaces_def service_rank_def less_interrupt_request_def word_less_nat_alt word_unat_eq_iff)
next
  case (Some c)
  define d where "d r = (if vectors = 0 then unat (vector_index r)
      else unat ((ucast (vector_index r) + ucast vectors - ucast (highest_priority_vector c)) mod ucast vectors :: u32))" for r
  have bound: "d r < 2 ^ 32" for r
  proof (cases "vectors = 0")
    case True
    then show ?thesis using u8_less[of "vector_index r"] by (simp add: d_def)
  next
    case False
    then show ?thesis unfolding d_def using u32_less by (simp only: if_False)
  qed
  have rank: "service_rank ci vectors r = (if is_lvl1_vector c (vector_index r) then 0 else 2 ^ 32) + d r" for r
    by (simp add: service_rank_def Some d_def)
  have zero: "(ucast vectors > (0 :: u32)) = (vectors \<noteq> 0)"
    by (simp add: word_less_nat_alt word_unat_eq_iff)
  have "replaces ci vectors a b \<longleftrightarrow>
      (if is_lvl1_vector c (vector_index a) \<noteq> is_lvl1_vector c (vector_index b)
       then is_lvl1_vector c (vector_index a) else d a < d b)"
    by (auto simp: replaces_def Some Let_def zero d_def word_less_nat_alt unsigned_eq_0_iff)
  then show ?thesis
    using bound[of a] bound[of b] by (auto simp: rank)
qed

interpretation arbitration: contest
  "candidate_request b active" "service_rank (the_cpu_int b) (interrupt_vector_count (device b))"
  "replaces (the_cpu_int b) (interrupt_vector_count (device b))" for b active
  by unfold_locales (rule replaces_rank)

lemma arbitrate_contest: "arbitrate b active = fold (arbitration.round b active) [0..<length (peripherals b)] None"
proof -
  have "arbitrate_step b active = arbitration.round b active"
    by (intro ext) (simp add: arbitrate_step_def arbitration.round_def)
  then show ?thesis by (simp add: arbitrate_def)
qed

text \<open>
  C14. Arbitration serves the right request: when it selects the request \<open>r\<close> of
  peripheral \<open>i\<close>, that peripheral is enabled to ask and asks for it, every peripheral that
  asks has a request of no lower rank, and those attached before \<open>i\<close> have a strictly higher
  one.  Without an interrupt controller the rank is the vector, then the source; with one it
  is level 1 first, then the distance from the vector of highest priority.  It selects
  nothing only when nobody asks.
\<close>

theorem arbitration_least:
  "case arbitrate b active of
     None \<Rightarrow> \<forall>j<length (peripherals b). candidate_request b active j = None
   | Some (i, r) \<Rightarrow>
       i < length (peripherals b) \<and> candidate_request b active i = Some r \<and>
       (\<forall>j<length (peripherals b). \<forall>q. candidate_request b active j = Some q \<longrightarrow>
          service_rank (the_cpu_int b) (interrupt_vector_count (device b)) r \<le>
            service_rank (the_cpu_int b) (interrupt_vector_count (device b)) q \<and>
          (j < i \<longrightarrow> service_rank (the_cpu_int b) (interrupt_vector_count (device b)) r <
            service_rank (the_cpu_int b) (interrupt_vector_count (device b)) q))"
proof (cases "arbitrate b active")
  case None
  then have "\<forall>j\<in>set [0..<length (peripherals b)]. candidate_request b active j = None"
    using arbitration.no_winner[of b active] by (simp only: arbitrate_contest)
  with None show ?thesis by simp
next
  case (Some p)
  obtain i r where p: "p = (i, r)" by (cases p)
  have "arbitration.wins b active [0..<length (peripherals b)] i r"
    using Some p by (intro arbitration.winner_append) (simp add: arbitrate_contest)
  then obtain before after where split: "[0..<length (peripherals b)] = before @ i # after"
    and win: "candidate_request b active i = Some r"
      "\<forall>j\<in>set before. \<forall>c. candidate_request b active j = Some c \<longrightarrow>
        service_rank (the_cpu_int b) (interrupt_vector_count (device b)) r < service_rank (the_cpu_int b) (interrupt_vector_count (device b)) c"
      "\<forall>j\<in>set after. \<forall>c. candidate_request b active j = Some c \<longrightarrow>
        service_rank (the_cpu_int b) (interrupt_vector_count (device b)) r \<le> service_rank (the_cpu_int b) (interrupt_vector_count (device b)) c"
    unfolding arbitration.wins_def by blast
  have i: "i < length (peripherals b)"
    using arg_cong[OF split, of set] by auto
  have sorted: "sorted_wrt (<) (before @ i # after)" unfolding split[symmetric] by simp
  then have parts: "\<forall>j\<in>set before. j < i" "\<forall>j\<in>set after. i < j" by (auto simp: sorted_wrt_append)
  have cover: "j \<in> set before \<or> j = i \<or> j \<in> set after" if "j < length (peripherals b)" for j
  proof -
    have "j \<in> set [0..<length (peripherals b)]" using that by simp
    then show ?thesis unfolding split by auto
  qed
  have "service_rank (the_cpu_int b) (interrupt_vector_count (device b)) r \<le>
          service_rank (the_cpu_int b) (interrupt_vector_count (device b)) q \<and>
        (j < i \<longrightarrow> service_rank (the_cpu_int b) (interrupt_vector_count (device b)) r <
          service_rank (the_cpu_int b) (interrupt_vector_count (device b)) q)"
    if "j < length (peripherals b)" "candidate_request b active j = Some q" for j q
    using cover[OF that(1)] that(2) win parts by fastforce
  then show ?thesis using Some p win(1) i by simp
qed

section \<open>The entry sequence\<close>

lemma periph_consume_frame [simp]:
  "device (snd (periph_consume i r b)) = device b" "data (snd (periph_consume i r b)) = data b"
  by (simp_all add: periph_consume_def wdt_consume_def eeprom_consume_def nvm_consume_def Let_def
      split: periph_kind.split)

lemma consume_frame [simp]:
  "device (snd (consume_interrupt_request d b)) = device b"
  "data (snd (consume_interrupt_request d b)) = data b"
proof -
  have *: "device x = device b \<and> data x = data b" if "periph_consume i r b = (c, x)" for i r c x
    using periph_consume_frame[of i r b] that by simp
  show "device (snd (consume_interrupt_request d b)) = device b"
    "data (snd (consume_interrupt_request d b)) = data b"
    by (auto simp: consume_interrupt_request_def Let_def dest: * split: option.split prod.split)
qed

lemma refresh_sel [simp]:
  "gpr (refresh_interrupt_pending m) = gpr m" "sreg (refresh_interrupt_pending m) = sreg m"
  "program_counter (refresh_interrupt_pending m) = program_counter m"
  "stack_pointer (refresh_interrupt_pending m) = stack_pointer m"
  "cycles (refresh_interrupt_pending m) = cycles m"
  "reset_triggered (refresh_interrupt_pending m) = reset_triggered m"
  "interrupt_depth (refresh_interrupt_pending m) = interrupt_depth m"
  "device (bus (refresh_interrupt_pending m)) = device (bus m)"
  "data (bus (refresh_interrupt_pending m)) = data (bus m)"
  by (simp_all add: refresh_interrupt_pending_def Let_def upd_bus_def)

lemma cpu_int_enter_frame [simp]:
  "device (cpu_int_enter v b) = device b" "data (cpu_int_enter v b) = data b"
  by (simp_all add: cpu_int_enter_def)

lemma trace_sel [simp]:
  "gpr (trace e m) = gpr m" "sreg (trace e m) = sreg m"
  "program_counter (trace e m) = program_counter m" "stack_pointer (trace e m) = stack_pointer m"
  "cycles (trace e m) = cycles m" "reset_triggered (trace e m) = reset_triggered m"
  "interrupt_depth (trace e m) = interrupt_depth m" "bus (trace e m) = bus m"
  by (simp_all add: trace_def split: option.split)

text \<open>What the CPU has done when the vectoring sequence starts, with the address it will go to.\<close>

definition vectored :: "machine \<Rightarrow> u8 \<Rightarrow> machine \<Rightarrow> bool" where
  "vectored m v x \<longleftrightarrow>
     stack_pointer x = stack_pointer m \<and> gpr x = gpr m \<and> sreg x = set_flag_bit Interrupt False (sreg m) \<and>
     interrupt_depth x = interrupt_depth m + 1 \<and> cycles x = cycles m \<and> reset_triggered x = reset_triggered m \<and>
     device (bus x) = device (bus m) \<and> data (bus x) = data (bus m) \<and> state x = Running \<and>
     bus x = cpu_int_enter v (snd (consume_interrupt_request (active_clock_domains m) (bus (refresh_interrupt_pending m)))) \<and>
     program_counter x = interrupt_vector_word_address
       (snd (consume_interrupt_request (active_clock_domains m) (bus (refresh_interrupt_pending m)))) v"

lemma refresh_domains [simp]: "active_clock_domains (refresh_interrupt_pending m) = active_clock_domains m"
proof -
  have "state (refresh_interrupt_pending m) = state m" "control_regs (refresh_interrupt_pending m) = control_regs m"
    "slp_ctrl_ptr (refresh_interrupt_pending m) = slp_ctrl_ptr m"
    "kind_at (bus (refresh_interrupt_pending m)) i = kind_at (bus m) i" for i
    by (simp_all add: refresh_interrupt_pending_def kind_at_def Let_def upd_bus_def)
  then show ?thesis
    unfolding active_clock_domains_def active_clock_domains_slow_def the_slp_def by (simp only:)
qed

lemma service_entry:
  assumes "service_interrupt_if_needed m = (True, M)"
  obtains r x where "M = vector_entry (program_counter m) x" "vectored m (vector_index r) x" "flag Interrupt (sreg m)"
    "fst (consume_interrupt_request (active_clock_domains m) (bus (refresh_interrupt_pending m))) = Some r"
proof -
  define y where "y = refresh_interrupt_pending m"
  define p where "p = consume_interrupt_request (active_clock_domains m) (bus y)"
  have enabled: "interrupt_pending y" "flag Interrupt (sreg y)"
    using assms unfolding service_interrupt_if_needed_def Let_def y_def[symmetric] by (auto split: if_splits)
  obtain r where r: "fst p = Some r"
    using assms enabled unfolding service_interrupt_if_needed_def Let_def y_def[symmetric]
    by (cases "fst p") (auto simp: p_def y_def case_prod_beta)
  define z where "z = trace (Trace_Interrupt (vector_index r)) (y\<lparr>bus := snd p\<rparr>)"
  define x where "x = upd_bus (cpu_int_enter (vector_index r)) (z\<lparr>sreg := set_flag_bit Interrupt False (sreg z),
      program_counter := interrupt_vector_word_address (bus z) (vector_index r),
      interrupt_pending := False, state := Running, interrupt_depth := interrupt_depth z + 1\<rparr>)"
  have "M = vector_entry (program_counter z) x"
    using assms enabled r unfolding service_interrupt_if_needed_def Let_def y_def[symmetric]
    by (simp add: p_def[symmetric] case_prod_beta x_def z_def y_def[symmetric])
       (simp add: p_def y_def)
  moreover have "program_counter z = program_counter m" by (simp add: z_def y_def)
  moreover have "vectored m (vector_index r) x"
    unfolding vectored_def x_def z_def p_def y_def by simp
  ultimately show thesis
    using that[of x r] enabled(2) r by (simp add: p_def y_def)
qed

lemma slot_fixed [simp]: "stack_slot (advance_cycles n m) a = stack_slot m a"
  using topology_fields(1,3)[OF topology_advance(1), of n m] by (simp add: stack_slot_def)

lemma reset_stays: "\<not> reset_triggered (advance_cycles n m) \<Longrightarrow> \<not> reset_triggered m"
  using advance_cycles_undisturbed(1) .

lemma write_slot_cycles [simp]:
  "stack_slot m a \<Longrightarrow> cycles (write_data_bus a v m) = cycles m"
  "stack_slot m a \<Longrightarrow> state (write_data_bus a v m) = state m"
  by (simp_all add: write_slot)

text \<open>Storing a byte may trigger a reset but never withdraws one.\<close>

lemma periph_write_reset: "reset_triggered (periph_write i a v m) = reset_triggered m"
proof -
  have reset_if: "reset_triggered (if c then x else y) = (if c then reset_triggered x else reset_triggered y)" for c x y
    by simp
  have "reset_triggered (control_write a v m) = reset_triggered m"
    unfolding control_write_def Let_def reset_if
    by (simp add: upd_control_def unlock_ccp_def write_sreg_def Let_def cong: if_cong)
  moreover have "reset_triggered (register_file_write a v m) = reset_triggered m"
    by (simp add: register_file_write_def write_register_def Let_def)
  ultimately show ?thesis by (simp add: periph_write_def split: periph_kind.split)
qed

lemma write_data_reset: "reset_triggered (write_data a v m) = reset_triggered m"
proof -
  have "reset_triggered (fold (\<lambda>i. periph_write i a v) ts m) = reset_triggered m" for ts
    by (induction ts arbitrary: m) (simp_all add: periph_write_reset)
  then have "reset_triggered (dispatch_write t a v m) = reset_triggered m" for t
    by (simp add: dispatch_write_def mux_write_def periph_write_reset split: dispatch_target.split)
  moreover have "reset_triggered (write_external_memory a v m) = reset_triggered m"
    unfolding write_external_memory_def
    by (cases "xmem_mem (bus m)"; cases "ebi_mem (bus m)") (simp_all add: case_prod_beta)
  ultimately show ?thesis by (simp add: write_data_def split: option.split)
qed

lemma reset_monotone:
  "\<not> reset_triggered (write_data_bus a v m) \<Longrightarrow> \<not> reset_triggered m"
  "\<not> reset_triggered (vector_push v m) \<Longrightarrow> \<not> reset_triggered m"
proof -
  show bus: "\<not> reset_triggered (write_data_bus a v m) \<Longrightarrow> \<not> reset_triggered m" for a v m
    by (auto simp: write_data_bus_def Let_def write_data_reset dest: reset_stays split: if_splits)
  show "\<not> reset_triggered (vector_push v m) \<Longrightarrow> \<not> reset_triggered m"
    by (auto simp: vector_push_def push_byte_def Let_def dest!: reset_stays bus)
qed

text \<open>One stored byte: everything \<open>vectoring\<close> lists, with the SRAM updated at the stack pointer.\<close>

definition vectoring :: "machine \<Rightarrow> machine \<Rightarrow> bool" where
  "vectoring m x \<longleftrightarrow>
     gpr x = gpr m \<and> sreg x = sreg m \<and> program_counter x = program_counter m \<and>
     interrupt_depth x = interrupt_depth m \<and> state x = state m \<and> device (bus x) = device (bus m) \<and>
     (\<forall>a. stack_slot x a = stack_slot m a)"

lemma vectoring_trans: "vectoring a b \<Longrightarrow> vectoring b c \<Longrightarrow> vectoring a c"
  by (simp add: vectoring_def)

lemma vectoring_advance:
  assumes "\<not> reset_triggered (advance_cycles n m)"
  shows "vectoring m (advance_cycles n m)" "stack_pointer (advance_cycles n m) = stack_pointer m"
    "cycles (advance_cycles n m) = cycles m + n"
    "stack_slot m a \<Longrightarrow> sram_load a (advance_cycles n m) = sram_load a m"
  using advance_cycles_undisturbed[OF assms] slot_advance(2)[OF assms] by (simp_all add: vectoring_def)

lemma vectoring_push:
  assumes "stack_slot m (stack_pointer m)" and "\<not> reset_triggered (vector_push v m)"
  shows "vectoring m (vector_push v m)" "stack_pointer (vector_push v m) = stack_pointer m - 1"
    "cycles (vector_push v m) = cycles m + 1"
    "stack_slot m a \<Longrightarrow> sram_load a (vector_push v m) = (if a = stack_pointer m then v else sram_load a m)"
proof -
  let ?p = "(write_data_bus (stack_pointer m) v m)\<lparr>stack_pointer := stack_pointer m - 1\<rparr>"
  have p: "vector_push v m = advance_cycles 1 ?p" by (simp add: vector_push_def push_slot assms(1))
  have undisturbed: "\<not> reset_triggered (advance_cycles 1 ?p)" using assms(2) p by simp
  note step = vectoring_advance[OF undisturbed]
  show "vectoring m (vector_push v m)" "stack_pointer (vector_push v m) = stack_pointer m - 1"
    "cycles (vector_push v m) = cycles m + 1"
    using step assms(1) unfolding p by (simp_all add: vectoring_def)
  show "sram_load a (vector_push v m) = (if a = stack_pointer m then v else sram_load a m)" if "stack_slot m a"
    using step(4)[of a] assms(1) that unfolding p by (simp add: sram.load_store)
qed

lemma vector_entry_effect:
  assumes room: "stack_room m" and undisturbed: "\<not> reset_triggered (vector_entry a m)"
  shows "vectoring m (vector_entry a m)"
    and "stack_pointer (vector_entry a m) = stack_pointer m - frame_bytes m"
    and "return_address_at (stack_pointer m) a (vector_entry a m)"
    and "cycles (vector_entry a m) = cycles m + (if wide_pc m then 5 else 4)"
    and "\<not> reset_triggered m"
proof -
  define m0 where "m0 = advance_cycles 1 m"
  define m1 where "m1 = vector_push (ucast a) m0"
  define m2 where "m2 = vector_push (ucast (drop_bit 8 a)) m1"
  define m3 where "m3 = (if wide_pc m then vector_push (ucast (drop_bit 16 a)) m2 else m2)"
  have wide: "wide_pc m0 = wide_pc m" by (simp add: wide_pc_def m0_def)
  have M: "vector_entry a m = advance_cycles 1 m3"
    by (simp add: vector_entry_def wide_pc_def m0_def m1_def m2_def m3_def ucast_low_byte)
  have quiet: "\<not> reset_triggered (advance_cycles 1 m3)" "\<not> reset_triggered m2" "\<not> reset_triggered m1" "\<not> reset_triggered m0"
  proof -
    show 3: "\<not> reset_triggered (advance_cycles 1 m3)" using undisturbed M by simp
    show 2: "\<not> reset_triggered m2"
      using reset_stays[OF 3] reset_monotone(2) by (auto simp: m3_def split: if_splits)
    show 1: "\<not> reset_triggered m1" using reset_monotone(2) 2 unfolding m2_def by blast
    show "\<not> reset_triggered m0" using reset_monotone(2) 1 unfolding m1_def by blast
  qed
  let ?sp = "stack_pointer m"
  have slots: "stack_slot m ?sp" "stack_slot m (?sp - 1)" "wide_pc m \<Longrightarrow> stack_slot m (?sp - 2)"
    using room by (simp_all add: stack_room_def)
  note s0 = vectoring_advance[OF quiet(4)[unfolded m0_def], folded m0_def]
  have "stack_slot m0 (stack_pointer m0)" using s0 slots by (simp add: vectoring_def)
  note s1 = vectoring_push[OF this, of "ucast a", folded m1_def, OF quiet(3)]
  have "stack_slot m1 (stack_pointer m1)" using s0 s1 slots by (simp add: vectoring_def)
  note s2 = vectoring_push[OF this, of "ucast (drop_bit 8 a)", folded m2_def, OF quiet(2)]
  have two: "?sp - 1 - 1 = ?sp - 2" by simp
  have slots': "stack_slot m0 x = stack_slot m x" "stack_slot m1 x = stack_slot m x" "stack_slot m2 x = stack_slot m x" for x
    using s0(1) s1(1) s2(1) by (simp_all add: vectoring_def)
  have s3: "vectoring m2 m3" "stack_pointer m3 = ?sp - frame_bytes m" "cycles m3 = cycles m2 + (if wide_pc m then 1 else 0)"
    "stack_slot m x \<Longrightarrow> sram_load x m3 = (if wide_pc m \<and> x = ?sp - 2 then ucast (drop_bit 16 a) else sram_load x m2)" for x
  proof -
    have "stack_pointer m2 = ?sp - 2" using s0 s1 s2 two by simp
    then show "vectoring m2 m3" "stack_pointer m3 = ?sp - frame_bytes m" "cycles m3 = cycles m2 + (if wide_pc m then 1 else 0)"
      "stack_slot m x \<Longrightarrow> sram_load x m3 = (if wide_pc m \<and> x = ?sp - 2 then ucast (drop_bit 16 a) else sram_load x m2)" for x
      using vectoring_push(1-3)[of m2 "ucast (drop_bit 16 a)"]
        vectoring_push(4)[of m2 "ucast (drop_bit 16 a)" x] slots(3) slots' reset_stays[OF quiet(1)]
      by (simp_all add: m3_def frame_bytes_def vectoring_def split: if_splits)
  qed
  note s4 = vectoring_advance[OF quiet(1), folded M]
  show chain: "vectoring m (vector_entry a m)"
    using s0(1) s1(1) s2(1) s3(1) s4(1) by (blast intro: vectoring_trans)
  show "stack_pointer (vector_entry a m) = ?sp - frame_bytes m" using s4(2) s3(2) by simp
  show "cycles (vector_entry a m) = cycles m + (if wide_pc m then 5 else 4)"
    using s0(3) s1(3) s2(3) s3(3) s4(3) by simp
  show "\<not> reset_triggered m" using quiet(4) reset_stays unfolding m0_def by blast
  have load: "sram_load x (vector_entry a m) = sram_load x m3" if "stack_slot m x" for x
    using s4(4)[of x] that slots' s3(1) by (simp add: vectoring_def)
  show "return_address_at ?sp a (vector_entry a m)"
    using slots load s3(4) s2(4) s1(4) slots' s0(2) s1(2) chain
    by (auto simp: return_address_at_def wide_pc_def vectoring_def ucast_low_byte)
qed

section \<open>From the interrupt to RETI\<close>

text \<open>The example machine with a watchdog whose interrupt is pending and enabled.\<close>

definition barking :: wdt where
  "barking = \<lparr>wdt_wdtcsr_address = 0x60, wdt_vector_index = 6, wdt_wdie_mask = 0x40, wdt_wde_mask = 0x08,
     wdt_wdtcsr = 0x40, wdt_cycles_left = 0, wdt_timed_active = False, wdt_timed_cycles_left = 0, wdt_irq = True\<rparr>"

definition interrupted_machine :: machine where
  "interrupted_machine = (upd_bus (\<lambda>b. update_interrupt_pending 2
     (attach_peripheral ''WDT'' (K_Wdt barking) [\<lparr>range_begin = 0x60, range_end = 0x60\<rparr>] b)) (ready_machine []))
       \<lparr>sreg := 0x80, interrupt_pending := True, state := Running, interrupt_delay := 0\<rparr>"

lemma sample_peripherals: "map p_kind (peripherals (bus (sample_machine prog))) = [K_Control, K_Register_File]"
  unfolding sample_machine_bus by (simp add: set_last_update_def)

lemma barking_pending: "wdt_pending barking = Some (Irq 6 0)"
  by (simp add: wdt_pending_def barking_def)

lemma interrupted_kinds:
  "length (peripherals (bus interrupted_machine)) = 3" "kind_at (bus interrupted_machine) 0 = K_Control"
  "kind_at (bus interrupted_machine) (Suc 0) = K_Register_File" "kind_at (bus interrupted_machine) 2 = K_Wdt barking"
  "bit (pending_interrupt_mask (bus interrupted_machine)) 2"
proof -
  obtain p q where pq: "peripherals (bus (sample_machine [])) = [p, q]" "p_kind p = K_Control" "p_kind q = K_Register_File"
    using sample_peripherals[of "[]"] by (auto simp: map_eq_Cons_conv)
  show "length (peripherals (bus interrupted_machine)) = 3" "kind_at (bus interrupted_machine) 0 = K_Control"
  "kind_at (bus interrupted_machine) (Suc 0) = K_Register_File" "kind_at (bus interrupted_machine) 2 = K_Wdt barking"
  "bit (pending_interrupt_mask (bus interrupted_machine)) 2"
    by (simp_all add: interrupted_machine_def update_interrupt_pending_def set_interrupt_pending_def
     notify_interrupt_state_change_def kind_at_def pq periph_pending_def barking_pending Let_def nth_append bit_or_iff)
qed

lemma interrupted_arbitrate: "arbitrate (bus interrupted_machine) 0xFF = Some (2, Irq 6 0)"
proof -
  have "[0..<length (peripherals (bus interrupted_machine))] = [0, 1, 2]"
    by (simp add: interrupted_kinds upt_rec)
  moreover have "candidate_request (bus interrupted_machine) 0xFF 0 = None"
    "candidate_request (bus interrupted_machine) 0xFF (Suc 0) = None"
    "candidate_request (bus interrupted_machine) 0xFF 2 = Some (Irq 6 0)"
    by (simp_all add: candidate_request_def interrupted_kinds periph_pending_def barking_pending clock_domain_def Let_def)
  ultimately show ?thesis by (simp add: arbitrate_def arbitrate_step_def)
qed

lemma arbitrate_dirty: "arbitrate (b\<lparr>interrupts_dirty := x\<rparr>) d = arbitrate b d"
proof -
  let ?b = "b\<lparr>interrupts_dirty := x\<rparr>"
  have "candidate_request ?b d = candidate_request b d"
    unfolding candidate_request_def kind_at_def by (simp add: Let_def cong: if_cong)
  moreover have "the_cpu_int ?b = the_cpu_int b"
    unfolding the_cpu_int_def kind_at_def by (simp cong: option.case_cong)
  moreover have "device ?b = device b" "peripherals ?b = peripherals b" by simp_all
  ultimately show ?thesis
    unfolding arbitrate_def arbitrate_step_def by (simp only:)
qed

lemma interrupted_serviced:
  "service_interrupt_if_needed interrupted_machine = (True, snd (service_interrupt_if_needed interrupted_machine))"
proof -
  let ?m = "refresh_interrupt_pending interrupted_machine"
  have domains: "active_clock_domains interrupted_machine = 0xFF"
    by (simp add: active_clock_domains_def interrupted_machine_def)
  have mask: "pending_interrupt_mask (bus interrupted_machine) \<noteq> 0"
    using interrupted_kinds(5) by (metis bit_0_eq bot_apply bot_bool_def)
  have "interrupt_pending interrupted_machine" by (simp add: interrupted_machine_def)
  then have pending: "interrupt_pending ?m"
    using mask by (simp add: refresh_interrupt_pending_def Let_def domains pending_interrupt_request_def interrupted_arbitrate)
  have bus: "bus ?m = bus interrupted_machine \<or> bus ?m = (bus interrupted_machine)\<lparr>interrupts_dirty := False\<rparr>"
    by (simp add: refresh_interrupt_pending_def Let_def)
  have "arbitrate (bus ?m) 0xFF = Some (2, Irq 6 0)" "pending_interrupt_mask (bus ?m) \<noteq> 0"
    "kind_at (bus ?m) 2 = K_Wdt barking"
    using bus mask interrupted_arbitrate arbitrate_dirty interrupted_kinds(4) by (auto simp: kind_at_def)
  then have "fst (consume_interrupt_request 0xFF (bus ?m)) = Some (Irq 6 0)"
    by (simp add: consume_interrupt_request_def periph_consume_def wdt_consume_def barking_pending Let_def)
  moreover have "flag Interrupt (sreg interrupted_machine)"
    by (simp add: interrupted_machine_def flag_def)
  ultimately show ?thesis
    using pending by (simp add: service_interrupt_if_needed_def Let_def domains case_prod_beta split: option.split)
qed

lemma calm_bus:
  "calm m \<longleftrightarrow> (active_ticking_peripherals (bus m), events (scheduler (bus m)), spm_busy_cycles_left (bus m), io_stall_cycles (bus m)) = ([], [], 0, 0)"
  by (simp add: calm_def)

lemma calm_vectored:
  assumes "calm m" and "vectored m v x"
  shows "calm x"
proof -
  define q where "q b = (active_ticking_peripherals b, events (scheduler b), spm_busy_cycles_left b, io_stall_cycles b)" for b :: bus
  have prim: "q (set_kind i k b) = q b" "q (set_interrupt_pending i a b) = q b" for i k a b
    by (simp_all add: q_def set_kind_def set_interrupt_pending_def notify_interrupt_state_change_def Let_def)
  have upd: "q (update_interrupt_pending i b) = q b" "q (upd_cpu_int f b) = q b" for i f b
    by (simp_all add: update_interrupt_pending_def upd_cpu_int_def prim split: option.split periph_kind.split)
  have "q (snd (periph_consume i r b)) = q b" for i r b
    by (simp add: periph_consume_def wdt_consume_def eeprom_consume_def nvm_consume_def Let_def prim upd split: periph_kind.split)
  then have "q (snd (consume_interrupt_request d b)) = q b" for d b
    by (simp add: consume_interrupt_request_def case_prod_beta Let_def upd split: option.split)
  moreover have "q (bus (refresh_interrupt_pending m)) = q (bus m)"
    by (simp add: q_def refresh_interrupt_pending_def Let_def)
  ultimately have "q (bus x) = q (bus m)"
    using assms(2) by (simp add: vectored_def cpu_int_enter_def upd)
  then show ?thesis using assms(1) by (simp add: calm_bus q_def)
qed

lemma calm_vector_push:
  "calm m \<Longrightarrow> stack_slot m (stack_pointer m) \<Longrightarrow> \<not> reset_triggered m \<Longrightarrow>
     calm (vector_push v m) \<and> \<not> reset_triggered (vector_push v m)"
  by (simp add: vector_push_def push_slot advance_calm)

lemma calm_entry:
  assumes "calm m" and "stack_room m" and "\<not> wide_pc m" and "\<not> reset_triggered m"
  shows "\<not> reset_triggered (vector_entry a m)"
proof -
  define m0 where "m0 = advance_cycles 1 m"
  define m1 where "m1 = vector_push (ucast (a AND 0xFF)) m0"
  define m2 where "m2 = vector_push (ucast (drop_bit 8 a AND 0xFF)) m1"
  have m0: "calm m0" "\<not> reset_triggered m0" using assms by (simp_all add: m0_def advance_calm)
  note s0 = vectoring_advance[of 1 m, folded m0_def, OF m0(2)]
  have slot0: "stack_slot m0 (stack_pointer m0)" using assms(2) s0 by (simp add: vectoring_def stack_room_def)
  have m1: "calm m1" "\<not> reset_triggered m1" using calm_vector_push[OF m0(1) slot0 m0(2)] by (simp_all add: m1_def)
  note s1 = vectoring_push[OF slot0, of "ucast (a AND 0xFF)", folded m1_def, OF m1(2)]
  have slot1: "stack_slot m1 (stack_pointer m1)"
    using assms(2) s0 s1 by (simp add: vectoring_def stack_room_def)
  have m2: "calm m2" "\<not> reset_triggered m2" using calm_vector_push[OF m1(1) slot1 m1(2)] by (simp_all add: m2_def)
  have "vector_entry a m = advance_cycles 1 m2"
    using assms(3) by (simp add: vector_entry_def wide_pc_def m0_def m1_def m2_def)
  then show ?thesis using m2 by (simp add: advance_calm)
qed

lemma interrupted_fits: "stack_room interrupted_machine" "address_fits interrupted_machine (program_counter interrupted_machine)"
  "\<not> wide_pc interrupted_machine"
proof -
  let ?m = interrupted_machine
  have bus: "device (bus ?m) = sample_device" "length (data (bus ?m)) = unat (data_end_address sample_device) + 1"
    "stack_pointer ?m = range_end (sram_range sample_device)" "program_counter ?m = 0" "\<not> reset_triggered ?m"
    by (simp_all add: interrupted_machine_def) (simp_all add: ready_machine_def)
  have slots: "stack_slot ?m = stack_slot (ready_machine [])" "wide_pc ?m = wide_pc (ready_machine [])"
    by (simp_all add: fun_eq_iff stack_slot_def bus wide_pc_def)
  have room: "stack_room ?m" "\<not> wide_pc ?m"
    using ready_room[of "[]"] unfolding stack_room_def slots bus ready_stack_pointer by (simp_all add: ready_narrow)
  have fits: "address_fits ?m (program_counter ?m)" by (simp add: address_fits_def bus)
  show "stack_room ?m" "\<not> wide_pc ?m" by (rule room)+
  show "address_fits ?m (program_counter ?m)" by (rule fits)
qed

lemma interrupted_room:
  "vectored interrupted_machine v x \<Longrightarrow> stack_room x" "vectored interrupted_machine v x \<Longrightarrow> \<not> wide_pc x"
  using interrupted_fits(1,3) by (simp_all add: stack_room_def stack_slot_def wide_pc_def vectored_def)

lemma interrupted_undisturbed: "\<not> reset_triggered (snd (service_interrupt_if_needed interrupted_machine))"
proof -
  let ?m = interrupted_machine
  have calm: "calm ?m"
  proof -
    have "active_ticking_peripherals (update_interrupt_pending i b) = active_ticking_peripherals b"
      "scheduler (update_interrupt_pending i b) = scheduler b"
      "spm_busy_cycles_left (update_interrupt_pending i b) = spm_busy_cycles_left b"
      "io_stall_cycles (update_interrupt_pending i b) = io_stall_cycles b" for i b
      by (simp_all add: update_interrupt_pending_def set_interrupt_pending_def notify_interrupt_state_change_def Let_def)
    then show ?thesis by (simp add: calm_def interrupted_machine_def wants_tick_def)
  qed
  obtain r x where x: "snd (service_interrupt_if_needed ?m) = vector_entry (program_counter ?m) x" "vectored ?m (vector_index r) x"
    using service_entry[OF interrupted_serviced] by blast
  have "\<not> reset_triggered x" using x(2) by (simp add: vectored_def interrupted_machine_def ready_machine_def)
  then show ?thesis
    using calm_entry[OF calm_vectored[OF calm x(2)] interrupted_room[OF x(2)]] x(1) by simp
qed

text \<open>
  C15. An interrupt that is serviced returns: entry clears I, keeps the registers, raises the
  nesting depth, takes 4 cycles, 5 with a 3-byte program counter, and goes to the vector of
  the request it consumed; and whatever the handler does as long as it leaves the stack
  pointer and the bytes above it as it found them, RETI continues at the interrupted
  instruction with the interrupted stack pointer, I set, the depth lowered again and one
  instruction to go before the next interrupt.
\<close>

theorem interrupt_return:
  assumes "service_interrupt_if_needed m = (True, M)"
    and "stack_room m" and "address_fits m (program_counter m)"
    and "\<not> reset_triggered M" and "frame_intact M m2"
  shows "flag Interrupt (sreg m) \<and> \<not> flag Interrupt (sreg M) \<and> gpr M = gpr m \<and>
    interrupt_depth M = interrupt_depth m + 1 \<and> cycles M = cycles m + (if wide_pc m then 5 else 4) \<and>
    (\<exists>r. fst (consume_interrupt_request (active_clock_domains m) (bus (refresh_interrupt_pending m))) = Some r \<and>
       program_counter M = interrupt_vector_word_address
         (snd (consume_interrupt_request (active_clock_domains m) (bus (refresh_interrupt_pending m)))) (vector_index r)) \<and>
    execute_reti i m2 = upd_bus bus_on_reti (advance_cycles (ret_cycles m2)
      (m2\<lparr>stack_pointer := stack_pointer m, program_counter := program_counter m,
          sreg := set_flag_bit Interrupt True (sreg m2),
          interrupt_depth := (if interrupt_depth m2 = 0 then 0 else interrupt_depth m2 - 1), interrupt_delay := 1\<rparr>))"
proof -
  obtain r x where M: "M = vector_entry (program_counter m) x" and x: "vectored m (vector_index r) x"
    and enabled: "flag Interrupt (sreg m)"
    and r: "fst (consume_interrupt_request (active_clock_domains m) (bus (refresh_interrupt_pending m))) = Some r"
    using service_entry[OF assms(1)] by blast
  have slots: "stack_slot x a = stack_slot m a" for a using x by (simp add: vectored_def stack_slot_def)
  have wide: "wide_pc x = wide_pc m" "frame_bytes x = frame_bytes m" using x by (simp_all add: vectored_def wide_pc_def frame_bytes_def)
  have room: "stack_room x" using assms(2) x slots wide by (simp add: stack_room_def vectored_def)
  note entry = vector_entry_effect[OF room, of "program_counter m", folded M, OF assms(4)]
  have sp: "stack_pointer x = stack_pointer m" using x by (simp add: vectored_def)
  have wide2: "wide_pc M = wide_pc m" "wide_pc m2 = wide_pc m" "frame_bytes m2 = frame_bytes m"
    using entry(1) wide assms(5) x by (simp_all add: wide_pc_def vectoring_def frame_intact_def frame_bytes_def vectored_def)
  have slots2: "stack_slot m2 a = stack_slot m a" for a
  proof -
    have "stack_slot m2 a = stack_slot M a" using assms(5) by (simp add: frame_intact_def stack_slot_def)
    then show ?thesis using slots entry(1) by (simp add: vectoring_def)
  qed
  have "return_address_at (stack_pointer m) (program_counter m) m2"
    by (rule frame_keeps_return[OF entry(3)[unfolded sp]])
       (use entry(2) sp wide wide2 assms(5) in simp_all)
  then have pop: "pop_pc m2 = (program_counter m, m2\<lparr>stack_pointer := stack_pointer m\<rparr>)"
    using assms(2,3,5) entry(2) sp wide wide2 slots2
    by (intro pop_pc_effect) (simp_all add: frame_intact_def address_fits_def stack_room_def)
  have reti: "execute_reti i m2 = upd_bus bus_on_reti (advance_cycles (ret_cycles m2)
      (m2\<lparr>stack_pointer := stack_pointer m, program_counter := program_counter m,
          sreg := set_flag_bit Interrupt True (sreg m2),
          interrupt_depth := (if interrupt_depth m2 = 0 then 0 else interrupt_depth m2 - 1), interrupt_delay := 1\<rparr>))"
  proof -
    have depth: "(if interrupt_depth y \<noteq> 0 then y\<lparr>interrupt_depth := interrupt_depth y - 1\<rparr> else y) =
        y\<lparr>interrupt_depth := (if interrupt_depth y = 0 then 0 else interrupt_depth y - 1)\<rparr>" for y :: machine
      by (rule machine.equality) simp_all
    show ?thesis
      unfolding execute_reti_def pop Let_def prod.case depth
      by (simp add: put_flag_def upd_sreg_def ret_cycles_def)
  qed
  show ?thesis
    using reti entry x enabled r wide by (auto simp: vectoring_def vectored_def)
qed

lemma interrupt_return_witness:
  "let m = interrupted_machine; M = snd (service_interrupt_if_needed m);
       i = \<lparr>words = (0x9518, 0), opcode = 0x9518, word_address = 12, word_size = 1\<rparr>
   in gpr M = gpr m \<and> cycles M = cycles m + (if wide_pc m then 5 else 4) \<and>
     execute_reti i M = upd_bus bus_on_reti (advance_cycles (ret_cycles M)
      (M\<lparr>stack_pointer := stack_pointer m, program_counter := program_counter m,
         sreg := set_flag_bit Interrupt True (sreg M),
         interrupt_depth := (if interrupt_depth M = 0 then 0 else interrupt_depth M - 1), interrupt_delay := 1\<rparr>))"
  using interrupt_return[OF interrupted_serviced interrupted_fits(1,2) interrupted_undisturbed,
      of "snd (service_interrupt_if_needed interrupted_machine)"]
  by (simp add: frame_intact_def Let_def)

section \<open>The instruction after SEI\<close>

text \<open>
  C16. One instruction executes after SEI, BSET I or RETI before any interrupt: the next
  \<open>step\<close> of a running machine that has a word to fetch and is not stalled executes an
  instruction, whatever requests are pending.
\<close>

theorem enable_delay:
  assumes "enable \<in> {execute_sei, execute_reti} \<or> enable = execute_bset \<and> decode_sreg_bit (opcode i) = Interrupt"
    and "\<not> reset_triggered (enable i m)" and "state (enable i m) = Running"
    and "\<not> should_stall_cpu (bus (enable i m)) (program_counter (enable i m))"
    and "program_counter (enable i m) < loaded_program_words (bus (enable i m))"
  shows "step (enable i m) = execute_next ((refresh_interrupt_pending (enable i m))\<lparr>interrupt_delay := 0\<rparr>)"
proof -
  let ?M = "enable i m"
  have delay: "interrupt_delay ?M = 1"
    using assms(1,2) advance_cycles_undisturbed(10)
    by (auto simp: execute_sei_def execute_reti_def execute_bset_def increment_pc_def Let_def case_prod_beta)
  have refresh: "interrupt_delay (refresh_interrupt_pending ?M) = 1" "state (refresh_interrupt_pending ?M) = Running"
    using delay assms(3) by (simp_all add: refresh_interrupt_pending_def Let_def)
  have "loaded_program_words (bus ?M) \<noteq> 0" using assms(5) by (metis word_not_simps(1))
  then show ?thesis
    using assms(3-5) refresh by (simp add: step_def Let_def)
qed

lemma enable_delay_witness:
  "let i = \<lparr>words = (0x9478, 0), opcode = 0x9478, word_address = 0, word_size = 1\<rparr>;
       M = execute_sei i ((ready_machine [0x9478, 0x0000, 0x0000])\<lparr>state := Running\<rparr>)
   in step M = execute_next ((refresh_interrupt_pending M)\<lparr>interrupt_delay := 0\<rparr>)"
proof -
  let ?i = "\<lparr>words = (0x9478, 0), opcode = 0x9478, word_address = 0, word_size = 1\<rparr>"
  let ?m = "(ready_machine [0x9478, 0x0000, 0x0000])\<lparr>state := Running\<rparr>"
  let ?x = "(increment_pc (put_flag Interrupt True ?m))\<lparr>interrupt_delay := 1\<rparr>"
  have M: "execute_sei ?i ?m = advance_cycles 1 ?x" by (simp add: execute_sei_def)
  have quiet: "calm ?x" "\<not> reset_triggered ?x" by (simp_all add: increment_pc_def put_flag_def upd_sreg_def)
  note adv = advance_calm[OF quiet(1), of 1]
  have still: "\<not> reset_triggered (advance_cycles 1 ?x)" using adv quiet by simp
  have pc: "program_counter (advance_cycles 1 ?x) = 1" "state (advance_cycles 1 ?x) = Running"
    using advance_cycles_undisturbed(3,8)[OF still] by (simp_all add: increment_pc_def put_flag_def upd_sreg_def ready_machine_def)
  have "bus ?x = bus (sample_machine [0x9478, 0x0000, 0x0000])"
    by (simp add: increment_pc_def put_flag_def upd_sreg_def)
  then have "loaded_program_words (bus (advance_cycles 1 ?x)) = 3"
    using locked.stable_time(1)[OF locked.stable_refl, of ?x 1] by (simp add: protects_def)
  moreover have "\<not> should_stall_cpu (bus (advance_cycles 1 ?x)) 1"
    using adv(1) by (simp add: should_stall_cpu_def nvm_operation_blocks_def calm_def)
  ultimately show ?thesis
    using enable_delay[of execute_sei ?i ?m] still pc unfolding M Let_def by simp
qed


lemma refresh_again [simp]: "refresh_interrupt_pending (refresh_interrupt_pending m) = refresh_interrupt_pending m"
proof (cases "interrupts_dirty (bus m) \<or> last_domains m \<noteq> active_clock_domains m")
  case True
  then have "\<not> interrupts_dirty (bus (refresh_interrupt_pending m))"
    "last_domains (refresh_interrupt_pending m) = active_clock_domains m"
    by (auto simp: refresh_interrupt_pending_def Let_def)
  then show ?thesis
    using refresh_domains[of m] by (simp add: refresh_interrupt_pending_def[of "refresh_interrupt_pending m"] Let_def)
qed (simp add: refresh_interrupt_pending_def Let_def)

lemma service_refresh: "service_interrupt_if_needed (refresh_interrupt_pending m) = service_interrupt_if_needed m"
  by (simp add: service_interrupt_if_needed_def)


theorem arbitration_least_witness:
  "candidate_request (bus interrupted_machine) 0xFF 2 = Some (Irq 6 0) \<and>
   2 < length (peripherals (bus interrupted_machine))"
  using arbitration_least[of "bus interrupted_machine" "0xFF"] by (simp add: interrupted_arbitrate)

end
