(* ===== verification/HexSpec.thy ===== *)
theory HexSpec
  imports Hex Construct
begin

text \<open>
  What the Intel HEX loader promises: it reads back what the format's encoder writes, it
  accepts a record exactly when its checksum makes the bytes sum to zero, and the errors it
  reports.  The encoder is the specification; the repository has none.
\<close>

section \<open>The encoder\<close>

definition hex_char :: "nat \<Rightarrow> char" where
  "hex_char n = char_of (if n < 10 then 48 + n else 55 + n)"

definition hex_byte :: "u8 \<Rightarrow> string" where
  "hex_byte v = [hex_char (unat v div 16), hex_char (unat v mod 16)]"

definition hex_bytes :: "u8 list \<Rightarrow> string" where
  "hex_bytes bs = concat (map hex_byte bs)"

definition record_text :: "u16 \<Rightarrow> u8 \<Rightarrow> u8 list \<Rightarrow> u8 \<Rightarrow> string" where
  "record_text a t bs k =
     hex_bytes (of_nat (length bs) # ucast (drop_bit 8 a) # ucast (a AND 0xFF) # t # bs @ [k])"

definition record_checksum :: "u16 \<Rightarrow> u8 \<Rightarrow> u8 list \<Rightarrow> u8" where
  "record_checksum a t bs = - (of_nat (length bs) + ucast (drop_bit 8 a) + ucast a + t + sum_list bs)"

definition record_line :: "u16 \<Rightarrow> u8 \<Rightarrow> u8 list \<Rightarrow> string" where
  "record_line a t bs = CHR '':'' # record_text a t bs (record_checksum a t bs)"

text \<open>
  Data records of sixteen bytes from an address on, an extended linear address record before
  each block of 64 KiB, and the end-of-file record last.
\<close>

definition upper_line :: "nat \<Rightarrow> string list" where
  "upper_line a =
     (if a mod 65536 = 0
      then let u = of_nat (a div 65536) :: u16 in [record_line 0 4 [ucast (drop_bit 8 u), ucast (u AND 0xFF)]]
      else [])"

function data_lines :: "nat \<Rightarrow> u8 list \<Rightarrow> string list" where
  "data_lines a bs =
     (if bs = [] then []
      else upper_line a @ record_line (of_nat (a mod 65536)) 0 (take 16 bs) # data_lines (a + 16) (drop 16 bs))"
  by pat_completeness auto
termination by (relation "measure (length \<circ> snd)") auto

declare data_lines.simps [simp del]

definition image_text :: "u8 list \<Rightarrow> string" where
  "image_text bs = concat (map (\<lambda>l. l @ [CHR 0x0A]) (data_lines 0 bs @ [record_line 0 1 []]))"

fun words_to_bytes :: "u16 list \<Rightarrow> u8 list" where
  "words_to_bytes [] = []"
| "words_to_bytes (w # ws) = ucast w # ucast (drop_bit 8 w) # words_to_bytes ws"

section \<open>Digits and bytes\<close>

lemma of_hex_char: "n < 16 \<Longrightarrow> (of_char (hex_char n) :: nat) = (if n < 10 then 48 + n else 55 + n)"
  by (simp add: hex_char_def)

lemma hex_digit_char: "n < 16 \<Longrightarrow> hex_digit (hex_char n) = Some n"
  by (simp add: hex_digit_def of_hex_char)

lemma hex_char_visible: "n < 16 \<Longrightarrow> \<not> is_space (hex_char n)"
  by (simp add: is_space_def of_hex_char)

lemma length_hex_byte [simp]: "length (hex_byte v) = 2"
  by (simp add: hex_byte_def)

lemma hex_bytes_simps [simp]:
  "hex_bytes [] = []" "hex_bytes (v # bs) = hex_byte v @ hex_bytes bs"
  "hex_bytes (bs @ cs) = hex_bytes bs @ hex_bytes cs"
  by (simp_all add: hex_bytes_def)

lemma length_hex_bytes [simp]: "length (hex_bytes bs) = 2 * length bs"
  by (induction bs) simp_all

lemma nibbles: "unat (v :: u8) div 16 < 16" "unat v mod 16 < 16" "16 * (unat v div 16) + unat v mod 16 = unat v"
  using u8_less[of v] by auto

lemma parse_hex_byte_at:
  assumes "k = length xs"
  shows "parse_hex_byte (xs @ hex_byte v @ ys) k = Inr v"
  using nibbles[of v] by (simp add: assms parse_hex_byte_def hex_byte_def nth_append hex_digit_char)

lemma parse_bytes_at:
  assumes "k = length xs" and "n = length bs"
  shows "parse_bytes (xs @ hex_bytes bs @ ys) k n = Inr bs"
  using assms
proof (induction bs arbitrary: xs k n)
  case (Cons v bs)
  have "parse_bytes ((xs @ hex_byte v) @ hex_bytes bs @ ys) (k + 2) (length bs) = Inr bs"
    using Cons.prems by (intro Cons.IH) simp_all
  moreover have "parse_hex_byte (xs @ hex_byte v @ hex_bytes bs @ ys) k = Inr v"
    using Cons.prems by (intro parse_hex_byte_at) simp
  ultimately show ?case using Cons.prems by (simp add: bind_err_def)
qed simp

section \<open>Records\<close>

lemma low_eight: "(a :: 'a::len word) AND 0xFF = take_bit 8 a"
  by (simp add: take_bit_eq_mask mask_eq_exp_minus_1)

lemma address_bytes:
  "push_bit 8 (ucast (ucast (drop_bit 8 (a :: u16)) :: u8)) OR ucast (ucast (a AND 0xFF) :: u8) = a"
  by (rule bit_word_eqI)
    (auto simp: bit_or_iff bit_push_bit_iff bit_ucast_iff bit_drop_bit_eq bit_take_bit_iff low_eight)

lemma byte_add: "ucast (x + y :: u32) = (ucast x + ucast y :: u8)"
proof -
  have "unat (ucast (x + y) :: u8) = (unat x + unat y) mod 256"
    by (simp add: unsigned_ucast_eq unat_word_ariths take_bit_eq_mod mod_mod_cancel)
  also have "\<dots> = unat (ucast x + ucast y :: u8)"
    by (simp add: unsigned_ucast_eq unat_word_ariths take_bit_eq_mod mod_add_eq)
  finally show ?thesis by (simp only: word_unat_eq_iff)
qed

lemma byte_of_byte [simp]: "ucast (ucast (x :: u8) :: u32) = x"
  by (rule bit_word_eqI) (simp add: bit_ucast_iff)

lemma byte_low: "ucast (a AND 0xFF :: u16) = (ucast a :: u8)"
  unfolding low_eight by (rule bit_word_eqI) (simp add: bit_ucast_iff bit_take_bit_iff)

lemma byte_foldl: "ucast (foldl (\<lambda>acc v. acc + ucast v) (s :: u32) bs) = (ucast s + sum_list bs :: u8)"
  by (induction bs arbitrary: s) (simp_all add: byte_add add.assoc)

lemma computed_checksum_neg: "computed_checksum acc = - ucast acc"
proof -
  have "computed_checksum acc = ucast (- acc AND 0xFF)"
    unfolding computed_checksum_def by (simp only: minus_eq_not_plus_1)
  moreover have "ucast (- acc AND 0xFF) = (ucast (- acc) :: u8)"
    unfolding low_eight by (rule bit_word_eqI) (simp add: bit_ucast_iff bit_take_bit_iff)
  moreover have "ucast (- acc) + ucast acc = (0 :: u8)" using byte_add[of "- acc" acc] by simp
  ultimately show ?thesis by (simp only: eq_neg_iff_add_eq_0)
qed

lemma record_sum_checksum:
  "computed_checksum (record_sum (of_nat (length bs)) a t bs) = record_checksum a t bs"
  by (simp add: computed_checksum_neg record_sum_def record_checksum_def byte_foldl byte_add byte_low add.assoc)

lemma parse_record_text:
  assumes "length bs < 256"
  shows "parse_record (record_text a t bs k) =
    (if k = record_checksum a t bs
     then Inr \<lparr>byte_count = of_nat (length bs), rec_address = a, record_type = t, record_bytes = bs\<rparr>
     else Inl Checksum_Mismatch)"
proof -
  let ?c = "of_nat (length bs) :: u8" and ?hi = "ucast (drop_bit 8 a) :: u8" and ?lo = "ucast (a AND 0xFF) :: u8"
  let ?l = "record_text a t bs k"
  have c: "unat ?c = length bs" using assms by (simp add: unat_of_nat)
  have len: "length ?l = 10 + length bs * 2" by (simp add: record_text_def)
  have head: "parse_hex_byte ?l 0 = Inr ?c" "parse_hex_byte ?l 2 = Inr ?hi" "parse_hex_byte ?l 4 = Inr ?lo"
    "parse_hex_byte ?l 6 = Inr t"
    using parse_hex_byte_at[of 0 "[]" ?c "hex_bytes (?hi # ?lo # t # bs @ [k])"]
      parse_hex_byte_at[of 2 "hex_bytes [?c]" ?hi "hex_bytes (?lo # t # bs @ [k])"]
      parse_hex_byte_at[of 4 "hex_bytes [?c, ?hi]" ?lo "hex_bytes (t # bs @ [k])"]
      parse_hex_byte_at[of 6 "hex_bytes [?c, ?hi, ?lo]" t "hex_bytes (bs @ [k])"]
    by (simp_all add: record_text_def)
  have body: "parse_bytes ?l 8 (length bs) = Inr bs"
    using parse_bytes_at[of 8 "hex_bytes [?c, ?hi, ?lo, t]" "length bs" bs "hex_bytes [k]"]
    by (simp add: record_text_def)
  have tail: "parse_hex_byte ?l (8 + length bs * 2) = Inr k"
    using parse_hex_byte_at[of "8 + length bs * 2" "hex_bytes (?c # ?hi # ?lo # t # bs)" k "[]"]
    by (simp add: record_text_def)
  have addr: "push_bit 8 (ucast ?hi) OR ucast ?lo = a"
    by (rule address_bytes)
  show ?thesis
    unfolding parse_record_def
    by (simp add: len head body tail c addr bind_err_def guard_err_def record_sum_checksum Let_def)
qed

section \<open>Lines\<close>

lemma hex_bytes_visible: "\<forall>c\<in>set (hex_bytes bs). \<not> is_space c"
  using nibbles by (induction bs) (auto simp: hex_byte_def hex_char_visible)

lemma record_line_visible: "\<forall>c\<in>set (record_line a t bs). \<not> is_space c"
proof -
  have "\<not> is_space (CHR '':'')" by code_simp
  then show ?thesis unfolding record_line_def record_text_def by (simp add: hex_bytes_visible del: hex_bytes_simps)
qed

lemma trim_visible: "(\<forall>c\<in>set l. \<not> is_space c) \<Longrightarrow> trim_line l = l"
  unfolding trim_line_def by (metis dropWhile_eq_self_iff hd_in_set set_rev rev_rev_ident)

lemma split_lines_line:
  assumes "CHR 0x0A \<notin> set l"
  shows "split_lines (l @ CHR 0x0A # cs) = l # split_lines cs"
  using assms by (induction l) auto

lemma split_lines_text:
  assumes "\<forall>l\<in>set ls. CHR 0x0A \<notin> set l"
  shows "split_lines (concat (map (\<lambda>l. l @ [CHR 0x0A]) ls)) = ls @ [[]]"
  using assms by (induction ls) (auto simp: split_lines_line)

lemma newline_is_space: "is_space (CHR 0x0A)"
  by code_simp

lemma record_line_one_line: "CHR 0x0A \<notin> set (record_line a t bs)"
  using record_line_visible newline_is_space by blast

lemma data_lines_one_line: "l \<in> set (data_lines a bs) \<Longrightarrow> CHR 0x0A \<notin> set l"
proof (induction a bs rule: data_lines.induct)
  case (1 a bs)
  then show ?case
    by (subst (asm) (2) data_lines.simps)
      (auto simp: upper_line_def record_line_one_line Let_def split: if_splits)
qed

lemma load_record_line:
  assumes "length bs < 256" and "\<not> eof_seen s"
  shows "load_line (record_line a t bs) s =
    apply_record \<lparr>byte_count = of_nat (length bs), rec_address = a, record_type = t, record_bytes = bs\<rparr> s"
proof -
  have "load_line (record_line a t bs) s =
      bind_err (parse_record (record_text a t bs (record_checksum a t bs))) (\<lambda>r. apply_record r s)"
    unfolding load_line_def trim_visible[OF record_line_visible]
    by (simp add: record_line_def guard_err_def assms)
  then show ?thesis by (simp add: parse_record_text assms bind_err_def)
qed

lemma word_bytes:
  "push_bit 8 (ucast (ucast (drop_bit 8 (u :: u16)) :: u8)) OR ucast (ucast (u AND 0xFF) :: u8) = (ucast u :: u32)"
proof (rule bit_word_eqI)
  fix n
  show "bit (push_bit 8 (ucast (ucast (drop_bit 8 u) :: u8)) OR ucast (ucast (u AND 0xFF) :: u8) :: u32) n =
    bit (ucast u :: u32) n" if "n < LENGTH(32)"
    using that bit_imp_le_length[of u n]
    by (auto simp: bit_or_iff bit_push_bit_iff bit_ucast_iff bit_drop_bit_eq bit_take_bit_iff low_eight)
qed

section \<open>The loader over an encoded image\<close>

lemma load_lines_append: "load_lines (ls @ ks) s = bind_err (load_lines ls s) (load_lines ks)"
  by (induction ls arbitrary: s) (auto simp: bind_err_def split: sum.splits)

lemma copy_at_length: "k + length bs \<le> length xs \<Longrightarrow> length (copy_at k bs xs) = length xs"
  by (simp add: copy_at_def)

lemma copy_at_Nil: "copy_at k [] xs = xs"
  by (simp add: copy_at_def)

lemma copy_at_copy_at:
  assumes "k + length bs + length cs \<le> length xs"
  shows "copy_at (k + length bs) cs (copy_at k bs xs) = copy_at k (bs @ cs) xs"
  using assms by (simp add: copy_at_def add.commute add.left_commute)

text \<open>The state of the loader when the bytes before address \<open>a\<close> have been read.\<close>

definition loaded_to :: "nat \<Rightarrow> hex_loader \<Rightarrow> bool" where
  "loaded_to a s \<longleftrightarrow> \<not> eof_seen s \<and> unat (image_end s) \<le> a \<and>
     (a mod 65536 = 0 \<or> unat (upper_linear_base s) = a div 65536 * 65536)"

lemma load_upper_line:
  assumes "loaded_to a s" and "a < 2 ^ 32"
  obtains s' where "load_lines (upper_line a) s = Inr s'" and "loaded_to a s'"
    and "unat (upper_linear_base s') = a div 65536 * 65536"
    and "flash_bytes s' = flash_bytes s" and "image_end s' = image_end s"
proof (cases "a mod 65536 = 0")
  case False
  with assms show ?thesis by (intro that[of s]) (simp_all add: upper_line_def loaded_to_def)
next
  case True
  let ?u = "of_nat (a div 65536) :: u16"
  let ?base = "push_bit 16 (ucast ?u) :: u32"
  have "a div 65536 < 65536" using assms by simp
  then have u: "unat ?u = a div 65536" by (simp add: unat_of_nat)
  have base: "unat ?base = a div 65536 * 65536"
    using assms(2) by (simp add: push_bit_eq_mult unat_mult_lem[THEN iffD1] unat_word_ariths unsigned_ucast_eq u)
  have join: "push_bit 8 (ucast (ucast (drop_bit 8 ?u) :: u8)) OR ucast (ucast (?u AND 0xFF) :: u8) = (ucast ?u :: u32)"
    by (rule word_bytes)
  have "load_lines (upper_line a) s = Inr (s\<lparr>upper_linear_base := ?base\<rparr>)"
    using assms True
    by (simp add: upper_line_def Let_def load_record_line loaded_to_def bind_err_def apply_record_def guard_err_def join
        del: push_bit_or)
  with assms True base show ?thesis
    by (intro that[of "s\<lparr>upper_linear_base := ?base\<rparr>"]) (auto simp: loaded_to_def)
qed

lemma load_data_line:
  assumes "loaded_to a s" and "unat (upper_linear_base s) = a div 65536 * 65536"
    and "a mod 16 = 0" and "length bs \<le> 16" and "bs \<noteq> []" and "a + length bs \<le> length (flash_bytes s)"
    and "length (flash_bytes s) < 2 ^ 32"
  obtains s' where "load_line (record_line (of_nat (a mod 65536)) 0 bs) s = Inr s'"
    and "flash_bytes s' = copy_at a bs (flash_bytes s)" and "image_end s' = of_nat (a + length bs)"
    and "upper_linear_base s' = upper_linear_base s" and "\<not> eof_seen s'"
proof -
  let ?abs = "upper_linear_base s + ucast (of_nat (a mod 65536) :: u16)"
  let ?stop = "?abs + ucast (of_nat (length bs) :: u8)"
  have l: "unat (ucast (of_nat (length bs) :: u8) :: u32) = length bs"
    using assms(4) by (simp add: unsigned_ucast_eq unat_of_nat)
  have o: "unat (ucast (of_nat (a mod 65536) :: u16) :: u32) = a mod 65536"
    by (simp add: unsigned_ucast_eq unat_of_nat)
  have abs: "unat ?abs = a"
    using assms(2,6,7) by (simp add: unat_word_ariths unat_of_nat)
  have e: "unat ?stop = a + length bs"
    using assms(4,6,7) by (simp add: unat_word_ariths(1)[of ?abs] abs unat_of_nat)
  then have ee: "?stop = of_nat (a + length bs)" by (simp flip: e)
  have m: "max (image_end s) ?stop = ?stop"
    using assms(1) e by (simp add: max_def word_le_nat_alt loaded_to_def)
  have "load_line (record_line (of_nat (a mod 65536)) 0 bs) s =
      Inr (s\<lparr>flash_bytes := copy_at a bs (flash_bytes s), image_end := of_nat (a + length bs)\<rparr>)"
    using assms(1,4,6)
    by (simp add: load_record_line loaded_to_def apply_record_def guard_err_def Let_def abs e m) (simp add: ee)
  with assms(1) show ?thesis
    by (intro that[of "s\<lparr>flash_bytes := copy_at a bs (flash_bytes s), image_end := of_nat (a + length bs)\<rparr>"])
      (auto simp: loaded_to_def)
qed

lemma next_block:
  fixes a :: nat
  assumes "a mod 16 = 0"
  shows "(a + 16) mod 65536 = 0 \<or> (a + 16) div 65536 = a div 65536"
proof -
  obtain k where k: "a = 16 * k" using assms by (auto simp: mod_eq_0_iff_dvd)
  define q r where "q = k div 4096" and "r = k mod 4096"
  have "k = 4096 * q + r" by (simp add: q_def r_def)
  with k have a: "a = 65536 * q + 16 * r" by simp
  have r: "r < 4096" by (simp add: r_def)
  show ?thesis
  proof (cases "r = 4095")
    case True
    then have "a + 16 = 65536 * (q + 1)" using a by simp
    then show ?thesis by (metis mod_mult_self1_is_0)
  next
    case False
    with r have "(a + 16) div 65536 = q" "a div 65536 = q" by (auto intro!: div_nat_eqI simp: a)
    then show ?thesis by simp
  qed
qed

lemma load_data_lines:
  assumes "loaded_to a s" and "a mod 16 = 0" and "a + length bs \<le> length (flash_bytes s)"
    and "length (flash_bytes s) < 2 ^ 32" and "bs \<noteq> []"
  shows "\<exists>s'. load_lines (data_lines a bs) s = Inr s' \<and> \<not> eof_seen s' \<and>
    flash_bytes s' = copy_at a bs (flash_bytes s) \<and> image_end s' = of_nat (a + length bs)"
  using assms
proof (induction a bs arbitrary: s rule: data_lines.induct)
  case (1 a bs)
  have "a < 2 ^ 32" using 1(4-6) by (cases bs) auto
  then obtain s1 where s1: "load_lines (upper_line a) s = Inr s1" "loaded_to a s1"
      "unat (upper_linear_base s1) = a div 65536 * 65536" "flash_bytes s1 = flash_bytes s"
    using load_upper_line[OF 1(2)] by metis
  let ?c = "take 16 bs"
  have "a + length ?c \<le> length (flash_bytes s1)" "length ?c \<le> 16" "?c \<noteq> []"
    using 1(4,6) by (auto simp: s1(4))
  then obtain s2 where s2: "load_line (record_line (of_nat (a mod 65536)) 0 ?c) s1 = Inr s2"
      "flash_bytes s2 = copy_at a ?c (flash_bytes s)" "image_end s2 = of_nat (a + length ?c)"
      "upper_linear_base s2 = upper_linear_base s1" "\<not> eof_seen s2"
    using load_data_line[OF s1(2,3) 1(3), of ?c] 1(5) unfolding s1(4) by blast
  have step: "load_lines (data_lines a bs) s = load_lines (data_lines (a + 16) (drop 16 bs)) s2"
    using 1(6) by (subst data_lines.simps) (simp add: load_lines_append s1(1) s2(1) bind_err_def)
  show ?case
  proof (cases "length bs \<le> 16")
    case True
    then have "drop 16 bs = []" "?c = bs" by simp_all
    with step s2 show ?thesis by (simp add: data_lines.simps[of "a + 16" "[]"])
  next
    case False
    have "(a + 16) mod 65536 = 0 \<or> (a + 16) div 65536 = a div 65536"
      by (rule next_block) (rule 1(3))
    moreover have "unat (of_nat (a + 16) :: u32) \<le> a + 16"
      using unat_of_nat[of "a + 16", where 'a = 32] by simp
    ultimately have "loaded_to (a + 16) s2"
      using False s1(3) s2 by (auto simp: loaded_to_def)
    moreover have "length (flash_bytes s2) = length (flash_bytes s)"
      using False 1(4) by (simp add: s2(2) copy_at_length)
    ultimately obtain s3 where "load_lines (data_lines (a + 16) (drop 16 bs)) s2 = Inr s3" "\<not> eof_seen s3"
        "flash_bytes s3 = copy_at (a + 16) (drop 16 bs) (flash_bytes s2)" "image_end s3 = of_nat (a + length bs)"
      using 1(1)[OF 1(6), of s2] 1(3,4,5) False by auto
    moreover have "copy_at (a + 16) (drop 16 bs) (flash_bytes s2) = copy_at a bs (flash_bytes s)"
      using copy_at_copy_at[of a ?c "drop 16 bs" "flash_bytes s"] False 1(4) by (simp add: s2(2))
    ultimately show ?thesis by (simp add: step)
  qed
qed

lemma load_eof_line:
  "\<not> eof_seen s \<Longrightarrow> load_line (record_line 0 1 []) s = Inr (s\<lparr>eof_seen := True\<rparr>)"
  by (simp add: load_record_line apply_record_def guard_err_def)

lemma bytes_of_words: "bytes_to_words (words_to_bytes ws) = ws"
proof (induction ws)
  case (Cons w ws)
  have "ucast (ucast w :: u8) OR push_bit 8 (ucast (ucast (drop_bit 8 w) :: u8)) = w"
    by (rule bit_word_eqI)
      (auto simp: bit_or_iff bit_push_bit_iff bit_ucast_iff bit_drop_bit_eq)
  with Cons show ?case by simp
qed simp

lemma length_words_to_bytes [simp]: "length (words_to_bytes ws) = 2 * length ws"
  by (induction ws) simp_all

lemma load_image_text:
  assumes "length bs \<le> unat (flash_words d * 2)"
  shows "load_text (image_text bs) d = Inr \<lparr>image_words = bytes_to_words bs, entry_word = 0\<rparr>"
proof -
  let ?n = "unat (flash_words d * 2)"
  let ?s = "empty_loader d"
  have n: "?n < 2 ^ 32" using unsigned_less[of "flash_words d * 2"] by simp
  obtain s where s: "load_lines (data_lines 0 bs) ?s = Inr s" "\<not> eof_seen s"
      "flash_bytes s = copy_at 0 bs (flash_bytes ?s)" "image_end s = of_nat (length bs)"
  proof (cases "bs = []")
    case True
    then show ?thesis by (intro that[of ?s]) (simp_all add: empty_loader_def copy_at_Nil data_lines.simps[of 0 "[]"])
  next
    case False
    then show ?thesis
      using load_data_lines[of 0 ?s bs] assms n that by (auto simp: loaded_to_def empty_loader_def)
  qed
  have "\<forall>l\<in>set (data_lines 0 bs @ [record_line 0 1 []]). CHR 0x0A \<notin> set l"
    using data_lines_one_line record_line_one_line by auto
  from split_lines_text[OF this]
  have lines: "split_lines (image_text bs) = data_lines 0 bs @ [record_line 0 1 []] @ [[]]"
    by (simp add: image_text_def)
  have last: "load_line [] (s\<lparr>eof_seen := True\<rparr>) = Inr (s\<lparr>eof_seen := True\<rparr>)"
    by (simp add: load_line_def trim_line_def)
  have "unat (of_nat (length bs) :: u32) = length bs" using assms n by (simp add: unat_of_nat)
  then show ?thesis
    by (simp add: load_text_def lines load_lines_append s load_eof_line last bind_err_def guard_err_def copy_at_def)
qed

section \<open>Bounds\<close>

text \<open>The flash buffer keeps its size and the end of the image stays inside it.\<close>

definition image_inside :: "nat \<Rightarrow> hex_loader \<Rightarrow> bool" where
  "image_inside n s \<longleftrightarrow> length (flash_bytes s) = n \<and> unat (image_end s) \<le> n"

lemma apply_record_inside:
  assumes "apply_record r s = Inr s'" and "image_inside n s"
  shows "image_inside n s'"
  using assms unfolding apply_record_def Let_def guard_err_def image_inside_def
  by (auto split: if_splits simp: copy_at_length max_def)

lemma load_line_inside:
  assumes "load_line l s = Inr s'" and "image_inside n s"
  shows "image_inside n s'"
  using assms unfolding load_line_def guard_err_def bind_err_def
  by (auto split: list.splits if_splits sum.splits dest: apply_record_inside)

lemma load_lines_inside:
  assumes "load_lines ls s = Inr s'" and "image_inside n s"
  shows "image_inside n s'"
  using assms
  by (induction ls arbitrary: s) (auto simp: bind_err_def split: sum.splits dest: load_line_inside)

lemma length_bytes_to_words: "length (bytes_to_words bs) = (length bs + 1) div 2"
  by (induction bs rule: bytes_to_words.induct) simp_all

section \<open>Properties\<close>

text \<open>
  C18.  Loading what the encoder writes gives the words back, for every image that fits the
  device, across 64 KiB boundaries and for the empty image; the entry point is word 0.
\<close>

theorem hex_roundtrip:
  assumes "2 * length ws \<le> unat (flash_words d * 2)"
  shows "load_text (image_text (words_to_bytes ws)) d = Inr \<lparr>image_words = ws, entry_word = 0\<rparr>"
  using load_image_text[of "words_to_bytes ws" d] assms by (simp add: bytes_of_words)

theorem hex_roundtrip_witness:
  "load_text (image_text (words_to_bytes [0x940C, 0x0034, 0x9508])) sample_device =
     Inr \<lparr>image_words = [0x940C, 0x0034, 0x9508], entry_word = 0\<rparr>"
  by (rule hex_roundtrip) (simp add: sample_device_def)

text \<open>
  C19.  A record is accepted exactly when its last byte is the two's complement of the sum of
  the others; any other last byte is reported as a checksum mismatch.
\<close>

theorem checksum_decides:
  assumes "length bs < 256"
  shows "parse_record (record_text a t bs k) =
    (if k = record_checksum a t bs
     then Inr \<lparr>byte_count = of_nat (length bs), rec_address = a, record_type = t, record_bytes = bs\<rparr>
     else Inl Checksum_Mismatch)"
  by (rule parse_record_text) (rule assms)


text \<open>
  C21.  The bounds check is done on the 32-bit end address: a data record whose end wraps
  past \<open>2 ^ 32\<close> passes it and is copied outside the buffer.
\<close>

theorem wrapped_record_undefined:
  assumes "record_type r = 0" and "byte_count r = of_nat (length (record_bytes r))" and "length (record_bytes r) < 256"
    and "2 ^ 32 \<le> unat (upper_linear_base s + ucast (rec_address r)) + length (record_bytes r)"
    and "length (record_bytes r) \<le> length (flash_bytes s)" and "length (flash_bytes s) < 2 ^ 32"
  shows "apply_record r s = Inl Undefined_Write"
proof -
  let ?a = "upper_linear_base s + ucast (rec_address r)"
  let ?n = "length (record_bytes r)"
  have "unat (?a + ucast (byte_count r)) = (unat ?a + ?n) mod 2 ^ 32"
    using assms(2,3) by (simp add: unat_word_ariths(1)[of ?a] unat_of_nat)
  moreover have "unat ?a < 2 ^ 32" using unsigned_less[of ?a] by simp
  ultimately have ok: "\<not> length (flash_bytes s) < unat (?a + ucast (byte_count r))"
    using assms(3-5) by (simp add: mod_if[of "unat ?a + ?n"] del: unat_of_nat)
  have "length (flash_bytes s) < unat ?a + ?n" using assms(4,6) by linarith
  with ok show ?thesis by (simp add: apply_record_def Let_def guard_err_def assms(1))
qed

theorem wrapped_record_undefined_witness:
  "apply_record \<lparr>byte_count = 16, rec_address = 0xFFF8, record_type = 0, record_bytes = replicate 16 0\<rparr>
     (empty_loader sample_device\<lparr>upper_linear_base := 0xFFFF0000\<rparr>) = Inl Undefined_Write"
  by (rule wrapped_record_undefined) (simp_all add: empty_loader_def sample_device_def)

theorem checksum_decides_witness:
  "parse_record (record_text 0x100 0 [0x21, 0x46] 0x97) = Inl Checksum_Mismatch"
  by (subst checksum_decides) (simp_all add: record_checksum_def)


end
