(* ===== verification/Pins.thy ===== *)
theory Pins
  imports Prelude
begin

text \<open>
  \<open>PinMux\<close> (\<open>src/core/pin_mux.cpp\<close>): who owns each physical pin and what the pin shows.
  Every peripheral that drives a pin claims it, posts its level and direction, and releases
  it; the multiplexer recomputes the visible state after each call.  The analog voltage of a
  pin is not modelled.  The change callback is external code: the model records the calls.
\<close>

section \<open>Owners\<close>

datatype pin_owner =
    Own_gpio | Own_adc | Own_comparator | Own_timer | Own_uart | Own_spi | Own_twi
  | Own_external_clock | Own_reset | Own_jtag | Own_ccl | Own_lcd | Own_dac | Own_psc
  | Own_amplifier | Own_ircom | Own_evout | Own_external | Own_unnamed nat

text \<open>The value of the enumerator, and the cast back; a cast of any other value has no name.\<close>

fun owner_index :: "pin_owner \<Rightarrow> nat" where
  "owner_index Own_gpio = 0"
| "owner_index Own_adc = 1"
| "owner_index Own_comparator = 2"
| "owner_index Own_timer = 3"
| "owner_index Own_uart = 4"
| "owner_index Own_spi = 5"
| "owner_index Own_twi = 6"
| "owner_index Own_external_clock = 7"
| "owner_index Own_reset = 8"
| "owner_index Own_jtag = 9"
| "owner_index Own_ccl = 10"
| "owner_index Own_lcd = 11"
| "owner_index Own_dac = 12"
| "owner_index Own_psc = 13"
| "owner_index Own_amplifier = 14"
| "owner_index Own_ircom = 15"
| "owner_index Own_evout = 16"
| "owner_index Own_external = 31"
| "owner_index (Own_unnamed n) = n"

definition named_owners :: "pin_owner list" where
  "named_owners =
     [Own_gpio, Own_adc, Own_comparator, Own_timer, Own_uart, Own_spi, Own_twi,
      Own_external_clock, Own_reset, Own_jtag, Own_ccl, Own_lcd, Own_dac, Own_psc,
      Own_amplifier, Own_ircom, Own_evout]"

definition owner_at :: "nat \<Rightarrow> pin_owner" where
  "owner_at n = (if n < 17 then named_owners ! n else if n = 31 then Own_external else Own_unnamed n)"

fun get_pin_priority :: "pin_owner \<Rightarrow> nat" where
  "get_pin_priority Own_reset = 100"
| "get_pin_priority Own_jtag = 95"
| "get_pin_priority Own_external_clock = 85"
| "get_pin_priority Own_external = 90"
| "get_pin_priority Own_psc = 80"
| "get_pin_priority Own_spi = 70"
| "get_pin_priority Own_uart = 60"
| "get_pin_priority Own_ircom = 65"
| "get_pin_priority Own_evout = 67"
| "get_pin_priority Own_twi = 55"
| "get_pin_priority Own_timer = 50"
| "get_pin_priority Own_ccl = 45"
| "get_pin_priority Own_amplifier = 40"
| "get_pin_priority Own_comparator = 35"
| "get_pin_priority Own_adc = 30"
| "get_pin_priority Own_dac = 30"
| "get_pin_priority Own_lcd = 25"
| "get_pin_priority Own_gpio = 10"
| "get_pin_priority (Own_unnamed _) = 0"

definition owner_bit :: "pin_owner \<Rightarrow> u32" where
  "owner_bit o' = push_bit (owner_index o') 1"

section \<open>Entries\<close>

record pin_state =
  ps_owner :: pin_owner
  ps_is_output :: bool
  ps_drive_level :: bool
  ps_pullup_enabled :: bool
  ps_is_wired_and :: bool

definition default_pin_state :: pin_state where
  "default_pin_state = \<lparr>ps_owner = Own_gpio, ps_is_output = False, ps_drive_level = False,
     ps_pullup_enabled = False, ps_is_wired_and = False\<rparr>"

record pin_entry =
  pe_state :: pin_state
  active_claims :: u32
  drive_levels :: u32
  output_mask :: u32
  pullup_mask :: u32
  wired_and_mask :: u32
  last_claims_for_owner :: u32
  cached_owner :: pin_owner
  last_sent_state :: pin_state

record pin_mux =
  mux_ports :: "pin_entry list list"
  addr_to_port :: "u16 \<rightharpoonup> u8"
  pullup_suppressed :: bool
  has_callback :: bool
  mux_sent :: "(u8 \<times> u8 \<times> pin_state) list"

definition mux_entry :: "pin_mux \<Rightarrow> u8 \<Rightarrow> u8 \<Rightarrow> pin_entry" where
  "mux_entry m port_idx bit_idx = mux_ports m ! unat port_idx ! unat bit_idx"

definition upd_entry :: "u8 \<Rightarrow> u8 \<Rightarrow> (pin_entry \<Rightarrow> pin_entry) \<Rightarrow> pin_mux \<Rightarrow> pin_mux" where
  "upd_entry port_idx bit_idx f m =
     m\<lparr>mux_ports := (mux_ports m)[unat port_idx :=
        (mux_ports m ! unat port_idx)[unat bit_idx := f (mux_entry m port_idx bit_idx)]]\<rparr>"

definition in_mux :: "pin_mux \<Rightarrow> u8 \<Rightarrow> u8 \<Rightarrow> bool" where
  "in_mux m port_idx bit_idx \<longleftrightarrow> \<not> (unat port_idx \<ge> length (mux_ports m) \<or> bit_idx \<ge> 8)"

section \<open>Ownership\<close>

text \<open>The bits that \<open>ctz\<close> and \<open>claims &= claims - 1\<close> enumerate, lowest first.\<close>

definition claim_indices :: "u32 \<Rightarrow> nat list" where
  "claim_indices claims = filter (bit claims) [0..<32]"

definition stronger :: "nat \<Rightarrow> pin_owner \<times> nat \<Rightarrow> pin_owner \<times> nat" where
  "stronger k best =
     (let owner = owner_at k; prio = get_pin_priority owner
      in if prio \<ge> snd best then (owner, prio) else best)"

definition highest_claim :: "u32 \<Rightarrow> pin_owner" where
  "highest_claim claims = fst (fold stronger (claim_indices claims) (Own_gpio, 0))"

definition pick_owner :: "pin_entry \<Rightarrow> pin_owner \<times> pin_entry" where
  "pick_owner e =
     (if active_claims e = last_claims_for_owner e then (cached_owner e, e)
      else let owner = highest_claim (active_claims e)
           in (owner, e\<lparr>last_claims_for_owner := active_claims e, cached_owner := owner\<rparr>))"

definition wired_level :: "pin_entry \<Rightarrow> bool" where
  "wired_level e =
     (let active_outputs = active_claims e AND output_mask e
      in if active_outputs = 0
         then (case filter (\<lambda>k. \<not> bit (wired_and_mask e) k) (claim_indices (active_claims e)) of
                 [] \<Rightarrow> True
               | k # _ \<Rightarrow> bit (drive_levels e) k)
         else drive_levels e AND active_outputs = active_outputs)"

definition resolve_entry :: "bool \<Rightarrow> pin_entry \<Rightarrow> pin_entry" where
  "resolve_entry suppressed e0 =
     (let (owner, e) = pick_owner e0;
          hb = owner_bit owner;
          wired = wired_and_mask e AND hb \<noteq> 0
      in e\<lparr>pe_state := \<lparr>ps_owner = owner,
             ps_is_output = output_mask e AND hb \<noteq> 0,
             ps_drive_level = (if wired then wired_level e else drive_levels e AND hb \<noteq> 0),
             ps_pullup_enabled = (pullup_mask e AND hb \<noteq> 0 \<and> \<not> suppressed),
             ps_is_wired_and = wired\<rparr>\<rparr>)"

definition reevaluate_ownership :: "u8 \<Rightarrow> u8 \<Rightarrow> pin_mux \<Rightarrow> pin_mux" where
  "reevaluate_ownership port_idx bit_idx m =
     (let e = resolve_entry (pullup_suppressed m) (mux_entry m port_idx bit_idx); st = pe_state e
      in if has_callback m \<and> st \<noteq> last_sent_state e
         then upd_entry port_idx bit_idx (\<lambda>_. e\<lparr>last_sent_state := st\<rparr>)
                (m\<lparr>mux_sent := mux_sent m @ [(port_idx, bit_idx, st)]\<rparr>)
         else upd_entry port_idx bit_idx (\<lambda>_. e) m)"

section \<open>Operations\<close>

definition pin_entry_init :: pin_entry where
  "pin_entry_init = \<lparr>pe_state = default_pin_state, active_claims = owner_bit Own_gpio, drive_levels = 0,
     output_mask = 0, pullup_mask = 0, wired_and_mask = 0, last_claims_for_owner = 0,
     cached_owner = Own_gpio, last_sent_state = default_pin_state\<rparr>"

definition pin_mux_init :: pin_mux where
  "pin_mux_init = \<lparr>mux_ports = replicate 16 (replicate 8 pin_entry_init), addr_to_port = Map.empty,
     pullup_suppressed = False, has_callback = False, mux_sent = []\<rparr>"

definition register_port :: "u16 \<Rightarrow> u8 \<Rightarrow> pin_mux \<Rightarrow> pin_mux" where
  "register_port pin_address port_idx m = m\<lparr>addr_to_port := (addr_to_port m)(pin_address \<mapsto> port_idx)\<rparr>"

definition mux_set_callback :: "bool \<Rightarrow> pin_mux \<Rightarrow> pin_mux" where
  "mux_set_callback given m = m\<lparr>has_callback := given\<rparr>"

definition claim_pin :: "u8 \<Rightarrow> u8 \<Rightarrow> pin_owner \<Rightarrow> pin_mux \<Rightarrow> pin_mux \<times> bool" where
  "claim_pin port_idx bit_idx owner m =
     (if \<not> in_mux m port_idx bit_idx then (m, False)
      else if active_claims (mux_entry m port_idx bit_idx) AND owner_bit owner = 0
      then (reevaluate_ownership port_idx bit_idx
              (upd_entry port_idx bit_idx (\<lambda>e. e\<lparr>active_claims := active_claims e OR owner_bit owner\<rparr>) m), True)
      else (m, True))"

definition unclaim :: "pin_owner \<Rightarrow> pin_entry \<Rightarrow> pin_entry" where
  "unclaim owner e =
     (let k = NOT (owner_bit owner)
      in e\<lparr>active_claims := active_claims e AND k, drive_levels := drive_levels e AND k,
           output_mask := output_mask e AND k, pullup_mask := pullup_mask e AND k,
           wired_and_mask := wired_and_mask e AND k\<rparr>)"

definition release_pin :: "u8 \<Rightarrow> u8 \<Rightarrow> pin_owner \<Rightarrow> pin_mux \<Rightarrow> pin_mux" where
  "release_pin port_idx bit_idx owner m =
     (if \<not> in_mux m port_idx bit_idx then m
      else if owner = Own_gpio then m
      else if active_claims (mux_entry m port_idx bit_idx) AND owner_bit owner \<noteq> 0
      then reevaluate_ownership port_idx bit_idx (upd_entry port_idx bit_idx (unclaim owner) m)
      else m)"

definition put_bit :: "u32 \<Rightarrow> bool \<Rightarrow> u32 \<Rightarrow> u32" where
  "put_bit mk v w = (if v then w OR mk else w AND NOT mk)"

definition post :: "pin_owner \<Rightarrow> bool \<Rightarrow> bool \<Rightarrow> bool \<Rightarrow> bool \<Rightarrow> pin_entry \<Rightarrow> pin_entry" where
  "post requester is_output level pullup wired_and e =
     (let b = owner_bit requester
      in e\<lparr>drive_levels := put_bit b level (drive_levels e),
           output_mask := put_bit b is_output (output_mask e),
           pullup_mask := put_bit b pullup (pullup_mask e),
           wired_and_mask := put_bit b wired_and (wired_and_mask e)\<rparr>)"

definition update_pin :: "u8 \<Rightarrow> u8 \<Rightarrow> pin_owner \<Rightarrow> bool \<Rightarrow> bool \<Rightarrow> bool \<Rightarrow> bool \<Rightarrow> pin_mux \<Rightarrow> pin_mux" where
  "update_pin port_idx bit_idx requester is_output level pullup wired_and m =
     (if \<not> in_mux m port_idx bit_idx then m
      else reevaluate_ownership port_idx bit_idx
             (upd_entry port_idx bit_idx (post requester is_output level pullup wired_and) m))"

definition all_pins :: "pin_mux \<Rightarrow> (u8 \<times> u8) list" where
  "all_pins m = List.product (map of_nat [0..<length (mux_ports m)]) (map of_nat [0..<8])"

definition update_pullup_suppressed :: "bool \<Rightarrow> pin_mux \<Rightarrow> pin_mux" where
  "update_pullup_suppressed suppressed m =
     (if pullup_suppressed m = suppressed then m
      else fold (\<lambda>(p, b). reevaluate_ownership p b) (all_pins m) (m\<lparr>pullup_suppressed := suppressed\<rparr>))"

definition clear_entry :: "pin_entry \<Rightarrow> pin_entry" where
  "clear_entry e = e\<lparr>active_claims := 0, drive_levels := 0, output_mask := 0, pullup_mask := 0, wired_and_mask := 0\<rparr>"

definition mux_reset :: "pin_mux \<Rightarrow> pin_mux" where
  "mux_reset m =
     fold (\<lambda>(p, b) m. reevaluate_ownership p b (upd_entry p b clear_entry m)) (all_pins m) m
       \<lparr>pullup_suppressed := False\<rparr>"

definition get_state :: "pin_mux \<Rightarrow> u8 \<Rightarrow> u8 \<Rightarrow> pin_state" where
  "get_state m port_idx bit_idx =
     (if \<not> in_mux m port_idx bit_idx then default_pin_state else pe_state (mux_entry m port_idx bit_idx))"

definition claim_pin_by_address :: "u16 \<Rightarrow> u8 \<Rightarrow> pin_owner \<Rightarrow> pin_mux \<Rightarrow> pin_mux \<times> bool" where
  "claim_pin_by_address pin_address bit_index owner m =
     (case addr_to_port m pin_address of None \<Rightarrow> (m, False) | Some p \<Rightarrow> claim_pin p bit_index owner m)"

definition release_pin_by_address :: "u16 \<Rightarrow> u8 \<Rightarrow> pin_owner \<Rightarrow> pin_mux \<Rightarrow> pin_mux" where
  "release_pin_by_address pin_address bit_index owner m =
     (case addr_to_port m pin_address of None \<Rightarrow> m | Some p \<Rightarrow> release_pin p bit_index owner m)"

definition update_pin_by_address ::
  "u16 \<Rightarrow> u8 \<Rightarrow> pin_owner \<Rightarrow> bool \<Rightarrow> bool \<Rightarrow> bool \<Rightarrow> bool \<Rightarrow> pin_mux \<Rightarrow> pin_mux" where
  "update_pin_by_address pin_address bit_index requester is_output level pullup wired_and m =
     (case addr_to_port m pin_address of
        None \<Rightarrow> m
      | Some p \<Rightarrow> update_pin p bit_index requester is_output level pullup wired_and m)"

definition get_state_by_address :: "pin_mux \<Rightarrow> u16 \<Rightarrow> u8 \<Rightarrow> pin_state" where
  "get_state_by_address m pin_address bit_index =
     (case addr_to_port m pin_address of None \<Rightarrow> default_pin_state | Some p \<Rightarrow> get_state m p bit_index)"

section \<open>Entries, one at a time\<close>

text \<open>The multiplexers the code builds have the ports of the constructor.\<close>

definition mux_shape :: "pin_mux \<Rightarrow> bool" where
  "mux_shape m \<longleftrightarrow> length (mux_ports m) = 16 \<and> (\<forall>port\<in>set (mux_ports m). length port = 8)"

lemma mux_shape_port: "mux_shape m \<Longrightarrow> p < 16 \<Longrightarrow> length (mux_ports m ! p) = 8"
  by (simp add: mux_shape_def)

lemma in_mux_iff: "mux_shape m \<Longrightarrow> in_mux m p b \<longleftrightarrow> unat p < 16 \<and> unat b < 8"
  by (auto simp: in_mux_def mux_shape_def word_le_nat_alt)

lemma upd_entry_shape [simp]: "mux_shape m \<Longrightarrow> mux_shape (upd_entry p b f m)"
  unfolding mux_shape_def upd_entry_def
  by (cases "unat p < length (mux_ports m)") (auto dest!: in_set_conv_nth[THEN iffD1] simp: nth_list_update)

lemma mux_entry_upd:
  assumes "mux_shape m" "in_mux m p b" "in_mux m q c"
  shows "mux_entry (upd_entry p b f m) q c = (if (q, c) = (p, b) then f (mux_entry m p b) else mux_entry m q c)"
  using assms
  by (auto simp: in_mux_iff mux_entry_def upd_entry_def mux_shape_def nth_list_update word_unat_eq_iff)

lemma upd_entry_fields [simp]:
  "pullup_suppressed (upd_entry p b f m) = pullup_suppressed m"
  "addr_to_port (upd_entry p b f m) = addr_to_port m"
  "has_callback (upd_entry p b f m) = has_callback m"
  "mux_sent (upd_entry p b f m) = mux_sent m"
  by (simp_all add: upd_entry_def)

lemma reevaluate_fields [simp]:
  "pullup_suppressed (reevaluate_ownership p b m) = pullup_suppressed m"
  "addr_to_port (reevaluate_ownership p b m) = addr_to_port m"
  "has_callback (reevaluate_ownership p b m) = has_callback m"
  by (simp_all add: reevaluate_ownership_def Let_def)

lemma sent_shape [simp]:
  "mux_shape (m\<lparr>mux_sent := x\<rparr>) = mux_shape m" "in_mux (m\<lparr>mux_sent := x\<rparr>) = in_mux m"
  "mux_entry (m\<lparr>mux_sent := x\<rparr>) = mux_entry m"
  by (simp_all add: mux_shape_def in_mux_def mux_entry_def fun_eq_iff)

lemma reevaluate_shape [simp]: "mux_shape m \<Longrightarrow> mux_shape (reevaluate_ownership p b m)"
  by (simp add: reevaluate_ownership_def Let_def)

text \<open>What the next operation on an entry depends on: all but the state last sent.\<close>

definition observed :: "pin_entry \<Rightarrow> pin_entry" where
  "observed e = e\<lparr>last_sent_state := default_pin_state\<rparr>"

lemma observed_sel [simp]:
  "pe_state (observed e) = pe_state e" "active_claims (observed e) = active_claims e"
  "drive_levels (observed e) = drive_levels e" "output_mask (observed e) = output_mask e"
  "pullup_mask (observed e) = pullup_mask e" "wired_and_mask (observed e) = wired_and_mask e"
  "last_claims_for_owner (observed e) = last_claims_for_owner e" "cached_owner (observed e) = cached_owner e"
  "observed (e\<lparr>last_sent_state := ls\<rparr>) = observed e" "observed (observed e) = observed e"
  by (simp_all add: observed_def)

lemma reevaluate_entry:
  assumes "mux_shape m" "in_mux m p b" "in_mux m q c"
  shows "observed (mux_entry (reevaluate_ownership p b m) q c) =
    observed (if (q, c) = (p, b) then resolve_entry (pullup_suppressed m) (mux_entry m p b) else mux_entry m q c)"
  using assms by (simp add: reevaluate_ownership_def Let_def mux_entry_upd)

lemma in_mux_upd [simp]: "mux_shape m \<Longrightarrow> in_mux (upd_entry p b f m) = in_mux m"
  by (simp add: in_mux_iff fun_eq_iff)

lemma in_mux_reevaluate [simp]: "mux_shape m \<Longrightarrow> in_mux (reevaluate_ownership p b m) = in_mux m"
  by (simp add: in_mux_iff fun_eq_iff)

section \<open>The strongest claim\<close>

text \<open>
  The specification of ownership: a claimant whose priority no other claimant exceeds, the
  one with the highest number among equals; a pin nobody claims belongs to GPIO.
\<close>

definition strongest :: "u32 \<Rightarrow> pin_owner \<Rightarrow> bool" where
  "strongest claims owner \<longleftrightarrow>
     (if claims = 0 then owner = Own_gpio
      else \<exists>k<32. bit claims k \<and> owner = owner_at k \<and>
        (\<forall>j<32. bit claims j \<longrightarrow> get_pin_priority (owner_at j) \<le> get_pin_priority owner \<and>
           (get_pin_priority (owner_at j) = get_pin_priority owner \<longrightarrow> j \<le> k)))"

lemma stronger_pair:
  "stronger k (owner, prio) =
     (if prio \<le> get_pin_priority (owner_at k) then (owner_at k, get_pin_priority (owner_at k)) else (owner, prio))"
  by (simp add: stronger_def Let_def)

lemma fold_stronger:
  assumes "sorted_wrt (<) ks" "ks \<noteq> []"
  shows "\<exists>k\<in>set ks. fold stronger ks (o', 0) = (owner_at k, get_pin_priority (owner_at k)) \<and>
    (\<forall>j\<in>set ks. get_pin_priority (owner_at j) \<le> get_pin_priority (owner_at k) \<and>
       (get_pin_priority (owner_at j) = get_pin_priority (owner_at k) \<longrightarrow> j \<le> k))"
  using assms
proof (induction ks rule: rev_induct)
  case (snoc n ks)
  show ?case
  proof (cases "ks = []")
    case True
    then show ?thesis by (simp add: stronger_pair)
  next
    case False
    with snoc obtain k where k: "k \<in> set ks"
      "fold stronger ks (o', 0) = (owner_at k, get_pin_priority (owner_at k))"
      "\<forall>j\<in>set ks. get_pin_priority (owner_at j) \<le> get_pin_priority (owner_at k) \<and>
         (get_pin_priority (owner_at j) = get_pin_priority (owner_at k) \<longrightarrow> j \<le> k)"
      by (auto simp: sorted_wrt_append)
    have "\<forall>j\<in>set ks. j < n" using snoc.prems by (simp add: sorted_wrt_append)
    then have later: "j \<le> n" if "j \<in> set ks" for j using that by auto
    show ?thesis
    proof (cases "get_pin_priority (owner_at k) \<le> get_pin_priority (owner_at n)")
      case True
      then show ?thesis
        using k later by (intro bexI[of _ n]) (auto simp: stronger_pair intro: le_trans)
    next
      case False
      then show ?thesis
        using k by (intro bexI[of _ k]) (auto simp: stronger_pair)
    qed
  qed
qed simp

lemma claim_indices_nonempty: "claims \<noteq> 0 \<Longrightarrow> claim_indices claims \<noteq> []"
proof
  assume "claim_indices claims = []"
  then have "\<not> bit claims n" for n
    using bit_imp_le_length[of claims n] by (auto simp: claim_indices_def filter_empty_conv)
  then have "claims = 0" by (simp add: bit_eq_iff)
  then show "claims \<noteq> 0 \<Longrightarrow> False" by simp
qed

lemma highest_claim_strongest: "strongest claims (highest_claim claims)"
proof (cases "claims = 0")
  case True
  then show ?thesis by (simp add: strongest_def highest_claim_def claim_indices_def)
next
  case False
  have "sorted_wrt (<) (claim_indices claims)"
    unfolding claim_indices_def by (intro sorted_wrt_filter) simp
  from fold_stronger[OF this claim_indices_nonempty[OF False], of Own_gpio]
  show ?thesis using False unfolding strongest_def highest_claim_def claim_indices_def by auto
qed

section \<open>Consistent entries\<close>

text \<open>
  The specification of the visible state: it belongs to the strongest claimant, and
  direction, pull-up and level are that owner's, except that a wired-AND pin is high exactly
  when every claimant that drives it drives it high.
\<close>

definition presents :: "bool \<Rightarrow> pin_entry \<Rightarrow> bool" where
  "presents suppressed e \<longleftrightarrow>
     (let st = pe_state e; k = owner_index (ps_owner st); claims = active_claims e
      in strongest claims (ps_owner st) \<and>
         ps_is_output st = bit (output_mask e) k \<and>
         ps_pullup_enabled st = (bit (pullup_mask e) k \<and> \<not> suppressed) \<and>
         ps_is_wired_and st = bit (wired_and_mask e) k \<and>
         (\<not> bit (wired_and_mask e) k \<longrightarrow> ps_drive_level st = bit (drive_levels e) k) \<and>
         (bit (wired_and_mask e) k \<and> (\<exists>j<32. bit claims j \<and> bit (output_mask e) j) \<longrightarrow>
            ps_drive_level st = (\<forall>j<32. bit claims j \<and> bit (output_mask e) j \<longrightarrow> bit (drive_levels e) j)))"

definition cache_ok :: "pin_entry \<Rightarrow> bool" where
  "cache_ok e \<longleftrightarrow> cached_owner e = highest_claim (last_claims_for_owner e)"

lemma owner_bit_test: "w AND owner_bit o' = 0 \<longleftrightarrow> \<not> bit w (owner_index o')"
  using and_mask_bit[of w "owner_index o'"] by (simp add: owner_bit_def push_bit_eq_mult)

lemma pick_owner_highest:
  assumes "cache_ok e"
  shows "pick_owner e = (highest_claim (active_claims e),
    e\<lparr>last_claims_for_owner := active_claims e, cached_owner := highest_claim (active_claims e)\<rparr>)"
  using assms by (simp add: pick_owner_def cache_ok_def Let_def)

lemma and_eq_self_iff:
  fixes v w :: u32
  shows "v AND w = w \<longleftrightarrow> (\<forall>j<32. bit w j \<longrightarrow> bit v j)"
  using bit_imp_le_length[of w] by (auto simp: bit_eq_iff bit_and_iff)

lemma and_zero_iff:
  fixes v w :: u32
  shows "v AND w = 0 \<longleftrightarrow> \<not> (\<exists>j<32. bit v j \<and> bit w j)"
  using bit_imp_le_length[of w] by (auto simp: bit_eq_iff bit_and_iff)

lemma wired_level_driven:
  assumes "j < 32" "bit (active_claims e) j" "bit (output_mask e) j"
  shows "wired_level e \<longleftrightarrow> (\<forall>j<32. bit (active_claims e) j \<and> bit (output_mask e) j \<longrightarrow> bit (drive_levels e) j)"
proof -
  have "active_claims e AND output_mask e \<noteq> 0" using assms by (auto simp: and_zero_iff)
  then show ?thesis by (simp add: wired_level_def and_eq_self_iff bit_and_iff)
qed

lemma resolve_presents:
  assumes "cache_ok e"
  shows "presents s (resolve_entry s e)" and "cache_ok (resolve_entry s e)"
proof -
  let ?o = "highest_claim (active_claims e)"
  let ?e = "e\<lparr>last_claims_for_owner := active_claims e, cached_owner := ?o\<rparr>"
  have r: "resolve_entry s e = ?e\<lparr>pe_state := \<lparr>ps_owner = ?o, ps_is_output = bit (output_mask e) (owner_index ?o),
      ps_drive_level = (if bit (wired_and_mask e) (owner_index ?o) then wired_level ?e
                        else bit (drive_levels e) (owner_index ?o)),
      ps_pullup_enabled = (bit (pullup_mask e) (owner_index ?o) \<and> \<not> s),
      ps_is_wired_and = bit (wired_and_mask e) (owner_index ?o)\<rparr>\<rparr>"
    by (simp add: resolve_entry_def pick_owner_highest[OF assms] Let_def owner_bit_test)
  show "cache_ok (resolve_entry s e)" by (simp add: r cache_ok_def)
  show "presents s (resolve_entry s e)"
    using wired_level_driven[of _ ?e] highest_claim_strongest by (simp add: r presents_def Let_def) blast
qed

section \<open>Reachable multiplexers\<close>

inductive mux_reachable :: "pin_mux \<Rightarrow> bool" where
  start: "mux_reachable pin_mux_init"
| register: "mux_reachable m \<Longrightarrow> mux_reachable (register_port a p m)"
| callback: "mux_reachable m \<Longrightarrow> mux_reachable (mux_set_callback given m)"
| claim: "mux_reachable m \<Longrightarrow> mux_reachable (fst (claim_pin p b owner m))"
| release: "mux_reachable m \<Longrightarrow> mux_reachable (release_pin p b owner m)"
| update: "mux_reachable m \<Longrightarrow> mux_reachable (update_pin p b owner out level pullup wired m)"
| suppress: "mux_reachable m \<Longrightarrow> mux_reachable (update_pullup_suppressed suppressed m)"
| reset: "mux_reachable m \<Longrightarrow> mux_reachable (mux_reset m)"

definition settled :: "pin_mux \<Rightarrow> bool" where
  "settled m \<longleftrightarrow> mux_shape m \<and>
     (\<forall>p b. in_mux m p b \<longrightarrow> cache_ok (mux_entry m p b) \<and> presents (pullup_suppressed m) (mux_entry m p b))"

lemma presents_observed [simp]: "presents s (observed e) = presents s e" "cache_ok (observed e) = cache_ok e"
  by (simp_all add: presents_def cache_ok_def)

lemma observed_eq:
  assumes "observed e = observed e'"
  shows "presents s e = presents s e'" and "cache_ok e = cache_ok e'"
  using assms by (metis presents_observed)+

text \<open>Changing an entry behind its cache and reevaluating it settles it.\<close>

lemma settle_one:
  assumes shape: "mux_shape m" and here: "in_mux m p b" and cache: "\<forall>e. cache_ok e \<longrightarrow> cache_ok (f e)"
    and caches: "\<forall>q c. in_mux m q c \<longrightarrow> cache_ok (mux_entry m q c)"
    and m': "m' = reevaluate_ownership p b (upd_entry p b f m)"
  shows "mux_shape m'" "in_mux m' = in_mux m" "pullup_suppressed m' = pullup_suppressed m"
    and "in_mux m q c \<Longrightarrow> cache_ok (mux_entry m' q c)"
    and "presents (pullup_suppressed m) (mux_entry m' p b)"
    and "in_mux m q c \<Longrightarrow> (q, c) \<noteq> (p, b) \<Longrightarrow> observed (mux_entry m' q c) = observed (mux_entry m q c)"
proof -
  have ok: "cache_ok (f (mux_entry m p b))" using caches here cache by blast
  have e: "observed (mux_entry m' q c) =
      observed (if (q, c) = (p, b) then resolve_entry (pullup_suppressed m) (f (mux_entry m p b)) else mux_entry m q c)"
    if "in_mux m q c" for q c
    unfolding m' using shape here that by (subst reevaluate_entry) (auto simp: mux_entry_upd)
  show "mux_shape m'" "in_mux m' = in_mux m" "pullup_suppressed m' = pullup_suppressed m"
    using shape by (simp_all add: m')
  show "in_mux m q c \<Longrightarrow> cache_ok (mux_entry m' q c)"
    using observed_eq(2)[OF e[of q c]] resolve_presents(2)[OF ok] caches by (auto split: if_splits)
  show "presents (pullup_suppressed m) (mux_entry m' p b)"
    using observed_eq(1)[OF e[OF here]] resolve_presents(1)[OF ok] by simp
  show "in_mux m q c \<Longrightarrow> (q, c) \<noteq> (p, b) \<Longrightarrow> observed (mux_entry m' q c) = observed (mux_entry m q c)"
    using e[of q c] by auto
qed

lemma settled_update:
  assumes "settled m" and "in_mux m p b" and "\<forall>e. cache_ok e \<longrightarrow> cache_ok (f e)"
  shows "settled (reevaluate_ownership p b (upd_entry p b f m))"
  unfolding settled_def
proof (intro conjI allI impI)
  let ?m = "reevaluate_ownership p b (upd_entry p b f m)"
  have pre: "mux_shape m" "\<forall>q c. in_mux m q c \<longrightarrow> cache_ok (mux_entry m q c)"
    using assms(1) by (auto simp: settled_def)
  note one = settle_one[OF pre(1) assms(2) assms(3) pre(2) refl]
  show "mux_shape ?m" by (rule one(1))
  fix q c assume "in_mux ?m q c"
  then have qc: "in_mux m q c" by (simp add: one(2))
  then show "cache_ok (mux_entry ?m q c)" by (rule one(4))
  show "presents (pullup_suppressed ?m) (mux_entry ?m q c)"
  proof (cases "(q, c) = (p, b)")
    case True
    then show ?thesis using one(5) by (simp add: one(3))
  next
    case False
    have "presents (pullup_suppressed m) (mux_entry m q c)" using assms(1) qc by (simp add: settled_def)
    then show ?thesis using observed_eq(1)[OF one(6)[OF qc False]] by (simp add: one(3))
  qed
qed

text \<open>A pass over all pins settles them all, whatever the pull-up switch was before.\<close>

lemma settle_pass:
  assumes "mux_shape m" and "\<forall>q c. in_mux m q c \<longrightarrow> cache_ok (mux_entry m q c)"
    and "\<forall>(p, b)\<in>set ps. in_mux m p b" and "\<forall>e. cache_ok e \<longrightarrow> cache_ok (f e)"
    and "\<forall>q c. in_mux m q c \<and> (q, c) \<notin> set ps \<longrightarrow> presents s (mux_entry m q c)"
    and "pullup_suppressed m = s" and "distinct ps"
  shows "settled (fold (\<lambda>(p, b) m. reevaluate_ownership p b (upd_entry p b f m)) ps m) \<and>
    pullup_suppressed (fold (\<lambda>(p, b) m. reevaluate_ownership p b (upd_entry p b f m)) ps m) = s"
  using assms
proof (induction ps arbitrary: m)
  case Nil
  then show ?case by (simp add: settled_def)
next
  case (Cons pb ps)
  obtain p b where pb: "pb = (p, b)" by (cases pb)
  let ?m = "reevaluate_ownership p b (upd_entry p b f m)"
  have here: "in_mux m p b" using Cons.prems(3) pb by simp
  note one = settle_one[OF Cons.prems(1) here Cons.prems(4) Cons.prems(2) refl]
  have "presents s (mux_entry ?m q c)" if "in_mux m q c" "(q, c) \<notin> set ps" for q c
  proof (cases "(q, c) = (p, b)")
    case True
    then show ?thesis using one(5) Cons.prems(6) by simp
  next
    case False
    then have "presents s (mux_entry m q c)" using Cons.prems(5) that pb by auto
    then show ?thesis using observed_eq(1)[OF one(6)[OF that(1) False]] by simp
  qed
  then show ?case
    using Cons.IH[of ?m] Cons.prems one by (auto simp: pb)
qed

lemma byte_index: "n \<le> 256 \<Longrightarrow> x < n \<Longrightarrow> unat (of_nat x :: u8) = x"
  by (simp add: unat_of_nat)

lemma bytes_below: "n \<le> 256 \<Longrightarrow> (of_nat :: nat \<Rightarrow> u8) ` {0..<n} = {x. unat x < n}"
  by (auto simp: byte_index image_iff intro!: bexI[of _ "unat x" for x :: u8])

lemma all_pins_set: "mux_shape m \<Longrightarrow> set (all_pins m) = {(p, b). in_mux m p b}"
  by (auto simp: all_pins_def in_mux_iff bytes_below mux_shape_def simp flip: image_set)

lemma all_pins_distinct: "mux_shape m \<Longrightarrow> distinct (all_pins m)"
  unfolding all_pins_def mux_shape_def
  by (intro distinct_product) (auto simp: distinct_map byte_index[of 16] byte_index[of 8] intro!: inj_on_inverseI[where g = unat])

lemma upd_entry_id:
  assumes "mux_shape m" and "in_mux m p b"
  shows "upd_entry p b (\<lambda>e. e) m = m"
  using assms by (simp add: upd_entry_def mux_entry_def)

lemma gpio_claim: "highest_claim (owner_bit Own_gpio) = Own_gpio" "highest_claim 0 = Own_gpio"
  by code_simp+

lemma settled_start: "settled pin_mux_init"
proof -
  have "cache_ok pin_entry_init" "presents False pin_entry_init"
    using highest_claim_strongest[of "owner_bit Own_gpio"]
    by (simp_all add: cache_ok_def presents_def pin_entry_init_def default_pin_state_def gpio_claim)
  moreover have "mux_entry pin_mux_init p b = pin_entry_init" if "in_mux pin_mux_init p b" for p b
    using that by (simp add: mux_entry_def pin_mux_init_def in_mux_def word_le_nat_alt)
  ultimately show ?thesis by (auto simp: settled_def mux_shape_def) (simp_all add: pin_mux_init_def)
qed

lemma suppressed_sel [simp]:
  "mux_shape (m\<lparr>pullup_suppressed := s\<rparr>) = mux_shape m" "in_mux (m\<lparr>pullup_suppressed := s\<rparr>) = in_mux m"
  "mux_entry (m\<lparr>pullup_suppressed := s\<rparr>) = mux_entry m" "all_pins (m\<lparr>pullup_suppressed := s\<rparr>) = all_pins m"
  by (simp_all add: mux_shape_def in_mux_def mux_entry_def all_pins_def fun_eq_iff)

lemma calls_keep_suppressed [simp]:
  "pullup_suppressed (fst (claim_pin p b owner m)) = pullup_suppressed m"
  "pullup_suppressed (update_pin p b owner out level pullup wired m) = pullup_suppressed m"
  "pullup_suppressed (release_pin p b owner m) = pullup_suppressed m"
  by (simp_all add: claim_pin_def update_pin_def release_pin_def)

lemma settled_pass:
  assumes "settled m" and "\<forall>e. cache_ok e \<longrightarrow> cache_ok (f e)"
  shows "settled (fold (\<lambda>(p, b) m. reevaluate_ownership p b (upd_entry p b f m)) (all_pins m) (m\<lparr>pullup_suppressed := s\<rparr>))"
proof -
  let ?m = "m\<lparr>pullup_suppressed := s\<rparr>"
  show ?thesis
    using settle_pass[of ?m "all_pins m" f s] assms all_pins_set[of m] all_pins_distinct[of m]
    by (auto simp: settled_def)
qed

lemma reevaluate_pass:
  assumes "mux_shape m" "\<forall>(p, b)\<in>set ps. in_mux m p b"
  shows "fold (\<lambda>(p, b). reevaluate_ownership p b) ps m =
    fold (\<lambda>(p, b) m. reevaluate_ownership p b (upd_entry p b (\<lambda>e. e) m)) ps m"
  using assms by (induction ps arbitrary: m) (auto simp: upd_entry_id)

lemma settled_suppressed:
  assumes "settled m" and "\<forall>p b. in_mux m p b \<longrightarrow> pullup_mask (mux_entry m p b) = 0"
  shows "settled (m\<lparr>pullup_suppressed := s\<rparr>)"
proof -
  have "presents s e \<longleftrightarrow> presents (pullup_suppressed m) e" if "pullup_mask e = 0" for e
    using that by (simp add: presents_def Let_def)
  then show ?thesis using assms by (simp add: settled_def)
qed

lemma no_pullup_pass:
  assumes "mux_shape m" "\<forall>(p, b)\<in>set ps. in_mux m p b"
    and "\<forall>q c. in_mux m q c \<and> (q, c) \<notin> set ps \<longrightarrow> pullup_mask (mux_entry m q c) = 0"
  shows "\<forall>q c. in_mux m q c \<longrightarrow> pullup_mask (mux_entry
    (fold (\<lambda>(p, b) m. reevaluate_ownership p b (upd_entry p b clear_entry m)) ps m) q c) = 0"
  using assms
proof (induction ps arbitrary: m)
  case (Cons pb ps)
  obtain p b where pb: "pb = (p, b)" by (cases pb)
  let ?m = "reevaluate_ownership p b (upd_entry p b clear_entry m)"
  have here: "in_mux m p b" using Cons.prems(2) pb by simp
  have "pullup_mask (observed (mux_entry ?m q c)) = (if (q, c) = (p, b) then 0 else pullup_mask (mux_entry m q c))"
    if "in_mux m q c" for q c
    using Cons.prems(1) here that
    by (subst reevaluate_entry) (auto simp: mux_entry_upd resolve_entry_def pick_owner_def clear_entry_def Let_def)
  then show ?case
    using Cons.IH[of ?m] Cons.prems by (auto simp: pb)
qed simp

lemma settled_reset:
  assumes "settled m"
  shows "settled (mux_reset m)"
proof -
  let ?go = "fold (\<lambda>(p, b) m. reevaluate_ownership p b (upd_entry p b clear_entry m)) (all_pins m)"
  have shape: "mux_shape m" using assms by (simp add: settled_def)
  have self: "m\<lparr>pullup_suppressed := pullup_suppressed m\<rparr> = m" by simp
  have "settled (?go m)"
    using settled_pass[OF assms, of clear_entry "pullup_suppressed m"] by (simp add: self cache_ok_def clear_entry_def)
  moreover have "\<forall>p b. in_mux m p b \<longrightarrow> pullup_mask (mux_entry (?go m) p b) = 0"
    using no_pullup_pass[OF shape, of "all_pins m"] by (auto simp: all_pins_set[OF shape])
  moreover from \<open>settled (?go m)\<close> shape have "in_mux (?go m) = in_mux m"
    by (simp add: settled_def in_mux_iff fun_eq_iff)
  ultimately show ?thesis
    unfolding mux_reset_def by (intro settled_suppressed) simp_all
qed

lemma cache_ok_changes [simp]:
  "cache_ok (e\<lparr>active_claims := x\<rparr>) = cache_ok e" "cache_ok (unclaim owner e) = cache_ok e"
  "cache_ok (post owner out level pullup wired e) = cache_ok e"
  by (simp_all add: cache_ok_def unclaim_def post_def Let_def)

lemma reachable_settled: "mux_reachable m \<Longrightarrow> settled m"
proof (induction rule: mux_reachable.induct)
  case start
  then show ?case by (rule settled_start)
next
  case (register m a p)
  then show ?case by (simp add: register_port_def settled_def mux_shape_def in_mux_def mux_entry_def)
next
  case (callback m given)
  then show ?case by (simp add: mux_set_callback_def settled_def mux_shape_def in_mux_def mux_entry_def)
next
  case (claim m p b owner)
  then show ?case by (simp add: claim_pin_def settled_update)
next
  case (release m p b owner)
  then show ?case by (simp add: release_pin_def settled_update)
next
  case (update m p b owner out level pullup wired)
  then show ?case by (simp add: update_pin_def settled_update)
next
  case (suppress m s)
  have "mux_shape (m\<lparr>pullup_suppressed := s\<rparr>)" "\<forall>(p, b)\<in>set (all_pins m). in_mux (m\<lparr>pullup_suppressed := s\<rparr>) p b"
    using suppress.IH all_pins_set[of m] by (auto simp: settled_def mux_shape_def in_mux_def)
  then show ?case
    using settled_pass[OF suppress.IH, of "\<lambda>e. e" s] suppress.IH
    by (simp add: update_pullup_suppressed_def reevaluate_pass)
next
  case (reset m)
  then show ?case by (simp add: settled_reset)
qed

section \<open>Properties\<close>

text \<open>
  C22.  Whatever the peripherals have called, in whatever order, every pin shows the state of
  its strongest claimant: the one of highest priority, GPIO when nobody claims; direction and
  pull-up are that owner's (no pull-up while they are suppressed), the level is its level, or
  the conjunction of the levels of all driving claimants when the owner asked for wired-AND.
\<close>

theorem pin_ownership:
  assumes "mux_reachable m" and "unat p < 16" and "unat b < 8"
  shows "get_state m p b = pe_state (mux_entry m p b) \<and> presents (pullup_suppressed m) (mux_entry m p b)"
  using reachable_settled[OF assms(1)] assms(2,3)
  by (simp add: settled_def get_state_def in_mux_iff)

theorem pin_ownership_witness:
  "presents (pullup_suppressed pin_mux_init) (mux_entry (update_pin 1 3 Own_twi True False False True
     (fst (claim_pin 1 3 Own_twi (fst (claim_pin 1 3 Own_timer pin_mux_init))))) 1 3)"
  using pin_ownership[of "update_pin 1 3 Own_twi True False False True
     (fst (claim_pin 1 3 Own_twi (fst (claim_pin 1 3 Own_timer pin_mux_init))))" 1 3]
  by (simp add: mux_reachable.intros)

end
