(* ===== verification/Gpio.thy ===== *)
theory Gpio
  imports Pins Periph Sync
begin

text \<open>
  \<open>GpioPort\<close> (\<open>src/core/gpio_port.cpp\<close>): the data, direction and input registers of a
  port, the aliases that set, clear and toggle them, the input sense configuration and the
  pending output changes.  The multiplexer the port points to is a field of its state.
  Inputs bound to analog voltages are not modelled, so \<open>has_analog\<close> is false in \<open>tick\<close>.
\<close>

section \<open>State\<close>

record port_descriptor =
  pd_name :: string
  pd_pin_address :: u16
  pd_ddr_address :: u16
  pd_port_address :: u16
  dirset_address :: u16
  dirclr_address :: u16
  dirtgl_address :: u16
  outset_address :: u16
  outclr_address :: u16
  outtgl_address :: u16
  pin_ctrl_base :: u16
  intflags_address :: u16
  vport_base :: u16
  pd_vector_index :: u8

record gpio_port =
  gp_desc :: port_descriptor
  gp_mux :: pin_mux
  gp_port_idx :: u8
  gp_ranges :: "address_range list"
  gp_ddr :: u8
  gp_port :: u8
  gp_pin_latched :: u8
  external_levels :: u8
  prev_external_levels :: u8
  pending_changes_mask :: u8
  gp_intflags :: u8
  gp_pin_ctrl :: "u8 list"
  gp_interrupt_pending :: bool
  gp_pin_change_marked :: bool

section \<open>Construction\<close>

definition port_addresses :: "port_descriptor \<Rightarrow> u16 list" where
  "port_addresses d =
     remdups (sort
       ([pd_pin_address d, pd_ddr_address d, pd_port_address d,
         dirset_address d, dirclr_address d, dirtgl_address d,
         outset_address d, outclr_address d, outtgl_address d]
        @ (if pin_ctrl_base d \<noteq> 0 then map (\<lambda>i. pin_ctrl_base d + of_nat i) [0..<8] else [])
        @ (if vport_base d \<noteq> 0xFFFF then map (\<lambda>i. vport_base d + of_nat i) [0..<4] else [])))"

text \<open>One address more: the last range grows when the address follows it (\<open>ranges_\<close> holds 32).\<close>

definition add_address :: "u16 \<Rightarrow> address_range list \<Rightarrow> address_range list" where
  "add_address addr rs =
     (if rs \<noteq> [] \<and> unat addr = unat (range_end (last rs)) + 1
      then butlast rs @ [last rs\<lparr>range_end := addr\<rparr>]
      else if length rs < 32 then rs @ [\<lparr>range_begin = addr, range_end = addr\<rparr>]
      else rs)"

definition is_port_name :: "string \<Rightarrow> bool" where
  "is_port_name n \<longleftrightarrow> length n \<ge> 5 \<and> take 4 n = ''PORT''"

definition gpio_init :: "port_descriptor \<Rightarrow> pin_mux \<Rightarrow> gpio_port" where
  "gpio_init d m =
     (let idx = (of_char (pd_name d ! 4) - 65 :: u8);
          addrs = filter (\<lambda>a. \<not> (a = 0 \<and> vport_base d \<noteq> 0)) (port_addresses d);
          g = \<lparr>gp_desc = d, gp_mux = m, gp_port_idx = 0xFF, gp_ranges = [], gp_ddr = 0, gp_port = 0,
               gp_pin_latched = 0, external_levels = 0, prev_external_levels = 0, pending_changes_mask = 0,
               gp_intflags = 0, gp_pin_ctrl = replicate 8 0, gp_interrupt_pending = False,
               gp_pin_change_marked = False\<rparr>
      in if is_port_name (pd_name d)
         then g\<lparr>gp_port_idx := idx, gp_mux := fold (\<lambda>a. register_port a idx) addrs m,
                gp_ranges := fold add_address addrs []\<rparr>
         else g)"

section \<open>The input latch\<close>

definition pin_inverted :: "gpio_port \<Rightarrow> nat \<Rightarrow> bool" where
  "pin_inverted g i \<longleftrightarrow> gp_pin_ctrl g ! i AND 0x80 \<noteq> 0"

definition input_disabled :: "gpio_port \<Rightarrow> nat \<Rightarrow> bool" where
  "input_disabled g i \<longleftrightarrow> gp_pin_ctrl g ! i AND 0x07 = 0x04"

text \<open>One round of the loop: the pins accumulated so far and the multiplexer.\<close>

definition latch_pin :: "gpio_port \<Rightarrow> nat \<Rightarrow> u8 \<times> pin_mux \<Rightarrow> u8 \<times> pin_mux" where
  "latch_pin g i acc =
     (let (next_pin, m) = acc;
          inven = pin_inverted g i;
          pullupen = gp_pin_ctrl g ! i AND 0x08 \<noteq> 0;
          is_out = bit (gp_ddr g) i;
          port_level = bit (gp_port g) i;
          level = (if is_out then port_level else bit (external_levels g) i);
          level = (if inven \<and> is_out then \<not> level else level);
          pullup = (if pin_ctrl_base (gp_desc g) \<noteq> 0 then \<not> is_out \<and> pullupen else \<not> is_out \<and> port_level);
          m = update_pin (gp_port_idx g) (of_nat i) Own_gpio is_out level pullup False m;
          state = get_state m (gp_port_idx g) (of_nat i);
          pin_val = (if ps_is_output state then ps_drive_level state else bit (external_levels g) i);
          pin_val = (if inven \<and> \<not> is_out then \<not> pin_val else pin_val)
      in (if \<not> input_disabled g i \<and> pin_val then next_pin OR push_bit i 1 else next_pin, m))"

definition update_pin_latched :: "gpio_port \<Rightarrow> gpio_port" where
  "update_pin_latched g =
     (let (next_pin, m) = fold (latch_pin g) [0..<8] (0, gp_mux g);
          g = g\<lparr>gp_mux := m\<rparr>
      in if next_pin \<noteq> gp_pin_latched g then g\<lparr>gp_pin_latched := next_pin, gp_pin_change_marked := True\<rparr> else g)"

definition gpio_update_interrupt_state :: "gpio_port \<Rightarrow> gpio_port" where
  "gpio_update_interrupt_state g =
     g\<lparr>gp_interrupt_pending := gp_intflags g \<noteq> 0 \<and> pd_vector_index (gp_desc g) \<noteq> 0xFF\<rparr>"

section \<open>Operations\<close>

definition gpio_reset :: "gpio_port \<Rightarrow> gpio_port" where
  "gpio_reset g0 =
     (let g = gpio_update_interrupt_state
                (g0\<lparr>gp_ddr := 0, gp_port := 0, gp_pin_latched := 0, external_levels := 0,
                    prev_external_levels := 0, pending_changes_mask := 0, gp_intflags := 0\<rparr>);
          g = g\<lparr>gp_pin_ctrl := replicate 8 0,
                gp_mux := fold (\<lambda>i m. fst (claim_pin (gp_port_idx g) (of_nat i) Own_gpio m)) [0..<8] (gp_mux g)\<rparr>
      in update_pin_latched g)"

text \<open>The low-level sense retriggers while the pin is low.\<close>

definition retrigger :: "nat \<Rightarrow> gpio_port \<Rightarrow> gpio_port" where
  "retrigger i g =
     (if gp_pin_ctrl g ! i AND 0x07 = 0x05 \<and> \<not> bit (external_levels g) i \<and> \<not> bit (gp_intflags g) i
      then gpio_update_interrupt_state (g\<lparr>gp_intflags := gp_intflags g OR push_bit i 1\<rparr>)
      else g)"

definition gpio_tick :: "gpio_port \<Rightarrow> gpio_port" where
  "gpio_tick g = fold retrigger [0..<8] g"

definition at_offset :: "u16 \<Rightarrow> u16 \<Rightarrow> nat \<Rightarrow> bool" where
  "at_offset address base k \<longleftrightarrow> unat address = unat base + k"

definition in_pin_ctrl :: "port_descriptor \<Rightarrow> u16 \<Rightarrow> bool" where
  "in_pin_ctrl d address \<longleftrightarrow>
     pin_ctrl_base d \<noteq> 0 \<and> address \<ge> pin_ctrl_base d \<and> unat address < unat (pin_ctrl_base d) + 8"

definition read_latched :: "bool \<Rightarrow> gpio_port \<Rightarrow> gpio_port \<times> u8" where
  "read_latched is_rmw g =
     (if is_rmw then (g, 0) else let g = update_pin_latched g in (g, gp_pin_latched g))"

definition gpio_read :: "bool \<Rightarrow> u16 \<Rightarrow> gpio_port \<Rightarrow> gpio_port \<times> u8" where
  "gpio_read is_rmw address g =
     (let d = gp_desc g
      in if address = pd_pin_address d then read_latched is_rmw g
         else if address = pd_ddr_address d then (g, gp_ddr g)
         else if address = pd_port_address d then (g, gp_port g)
         else if address = intflags_address d then (g, gp_intflags g)
         else if in_pin_ctrl d address then (g, gp_pin_ctrl g ! unat (address - pin_ctrl_base d))
         else if address = dirset_address d \<or> address = dirclr_address d \<or> address = dirtgl_address d
         then (g, gp_ddr g)
         else if address = outset_address d \<or> address = outclr_address d \<or> address = outtgl_address d
         then (g, gp_port g)
         else if vport_base d \<noteq> 0xFFFF \<and> at_offset address (vport_base d) 0 then (g, gp_ddr g)
         else if vport_base d \<noteq> 0xFFFF \<and> at_offset address (vport_base d) 1 then (g, gp_port g)
         else if vport_base d \<noteq> 0xFFFF \<and> at_offset address (vport_base d) 2 then read_latched is_rmw g
         else if vport_base d \<noteq> 0xFFFF \<and> at_offset address (vport_base d) 3 then (g, gp_intflags g)
         else (g, 0))"

definition apply_port :: "u8 \<Rightarrow> gpio_port \<Rightarrow> gpio_port" where
  "apply_port new_val g =
     (let changed = gp_port g XOR new_val;
          pending = pending_changes_mask g OR (changed AND gp_ddr g)
      in update_pin_latched
           (g\<lparr>gp_port := new_val, pending_changes_mask := pending,
              gp_pin_change_marked := gp_pin_change_marked g \<or> pending \<noteq> 0\<rparr>))"

definition apply_ddr :: "u8 \<Rightarrow> gpio_port \<Rightarrow> gpio_port" where
  "apply_ddr v g = update_pin_latched (g\<lparr>gp_ddr := v\<rparr>)"

definition clear_intflags :: "u8 \<Rightarrow> gpio_port \<Rightarrow> gpio_port" where
  "clear_intflags v g = gpio_update_interrupt_state (g\<lparr>gp_intflags := gp_intflags g AND NOT v\<rparr>)"

definition gpio_write :: "u16 \<Rightarrow> u8 \<Rightarrow> gpio_port \<Rightarrow> gpio_port" where
  "gpio_write address v g =
     (let d = gp_desc g
      in if address = pd_pin_address d then apply_port (gp_port g XOR v) g
         else if address = pd_ddr_address d then apply_ddr v g
         else if address = pd_port_address d then apply_port v g
         else if address = intflags_address d then clear_intflags v g
         else if in_pin_ctrl d address
         then update_pin_latched (g\<lparr>gp_pin_ctrl := (gp_pin_ctrl g)[unat (address - pin_ctrl_base d) := v]\<rparr>)
         else if address = dirset_address d then apply_ddr (gp_ddr g OR v) g
         else if address = dirclr_address d then apply_ddr (gp_ddr g AND NOT v) g
         else if address = dirtgl_address d then apply_ddr (gp_ddr g XOR v) g
         else if address = outset_address d then apply_port (gp_port g OR v) g
         else if address = outclr_address d then apply_port (gp_port g AND NOT v) g
         else if address = outtgl_address d then apply_port (gp_port g XOR v) g
         else if vport_base d \<noteq> 0xFFFF \<and> at_offset address (vport_base d) 0 then apply_ddr v g
         else if vport_base d \<noteq> 0xFFFF \<and> at_offset address (vport_base d) 1 then apply_port v g
         else if vport_base d \<noteq> 0xFFFF \<and> at_offset address (vport_base d) 2 then apply_port (gp_port g XOR v) g
         else if vport_base d \<noteq> 0xFFFF \<and> at_offset address (vport_base d) 3 then clear_intflags v g
         else g)"

text \<open>The fields the port does not set keep their defaults.\<close>

definition reported_change :: "gpio_port \<Rightarrow> u64 \<Rightarrow> nat \<Rightarrow> pin_state_change" where
  "reported_change g cycle i = \<lparr>change_port_name = pd_name (gp_desc g), change_bit_index = of_nat i,
     change_level = bit (gp_port g) i, change_is_output = False, change_wired_and = False,
     change_cycle_stamp = cycle, change_mask = push_bit i 1\<rparr>"

text \<open>The loop looks for the lowest pending bit; \<open>cycle\<close> is the bus's \<open>cpu_cycles()\<close>.\<close>

fun first_change :: "nat list \<Rightarrow> u64 \<Rightarrow> gpio_port \<Rightarrow> gpio_port \<times> pin_state_change option" where
  "first_change [] cycle g = (g\<lparr>pending_changes_mask := 0\<rparr>, None)"
| "first_change (i # is) cycle g =
     (if bit (pending_changes_mask g) i
      then (g\<lparr>pending_changes_mask := pending_changes_mask g AND NOT (push_bit i 1)\<rparr>,
            Some (reported_change g cycle i))
      else first_change is cycle g)"

definition gpio_consume_pin_change :: "u64 \<Rightarrow> gpio_port \<Rightarrow> gpio_port \<times> pin_state_change option" where
  "gpio_consume_pin_change cycle g =
     (if pending_changes_mask g = 0 then (g, None) else first_change [0..<8] cycle g)"

text \<open>A PORT interrupt keeps its flags when it is taken: the request is the same before and after.\<close>

definition gpio_pending_interrupt_request :: "gpio_port \<Rightarrow> interrupt_request option" where
  "gpio_pending_interrupt_request g =
     (if gp_intflags g = 0 \<or> pd_vector_index (gp_desc g) = 0xFF then None
      else Some (Irq (pd_vector_index (gp_desc g)) 0))"

definition gpio_consume_interrupt_request :: "gpio_port \<Rightarrow> gpio_port \<times> interrupt_request option" where
  "gpio_consume_interrupt_request g = (g, gpio_pending_interrupt_request g)"

definition sense_triggers :: "u8 \<Rightarrow> bool \<Rightarrow> bool \<Rightarrow> bool" where
  "sense_triggers isc is_high was_high =
     (if isc = 0x01 then is_high \<noteq> was_high
      else if isc = 0x02 then is_high \<and> \<not> was_high
      else if isc = 0x03 then \<not> is_high \<and> was_high
      else if isc = 0x05 then \<not> is_high
      else False)"

definition gpio_external_change :: "u16 \<Rightarrow> u8 \<Rightarrow> bool \<Rightarrow> gpio_port \<Rightarrow> gpio_port \<times> bool" where
  "gpio_external_change pin_address bit_index is_high g0 =
     (if pin_address \<noteq> pd_pin_address (gp_desc g0) then (g0, False)
      else if bit_index \<ge> 8 then (g0, False)
      else let i = unat bit_index; mk = push_bit i 1; old = external_levels g0;
               g = g0\<lparr>external_levels := (if is_high then old OR mk else old AND NOT mk)\<rparr>;
               isc = gp_pin_ctrl g ! i AND 0x07;
               was_high = bit old i;
               fire = gpio_update_interrupt_state (g\<lparr>gp_intflags := gp_intflags g OR mk\<rparr>);
               g = (if isc \<noteq> 0x00 \<and> isc \<noteq> 0x04
                    then if sense_triggers isc is_high was_high then fire
                         else if isc = 0x05 \<and> \<not> is_high \<and> \<not> bit (gp_intflags g) i then fire
                         else g
                    else g)
           in if old \<noteq> external_levels g
              then (update_pin_latched (g\<lparr>prev_external_levels := old\<rparr>), True)
              else (g, False))"

definition set_input_levels :: "u8 \<Rightarrow> gpio_port \<Rightarrow> gpio_port" where
  "set_input_levels levels g = update_pin_latched (g\<lparr>external_levels := levels\<rparr>)"

section \<open>A pin that GPIO owns\<close>

lemma strongest_unique: "strongest c a \<Longrightarrow> strongest c b \<Longrightarrow> a = b"
  unfolding strongest_def by (metis le_antisym)

lemma resolve_masks [simp]:
  "active_claims (resolve_entry s e) = active_claims e" "output_mask (resolve_entry s e) = output_mask e"
  "drive_levels (resolve_entry s e) = drive_levels e" "wired_and_mask (resolve_entry s e) = wired_and_mask e"
  "pullup_mask (resolve_entry s e) = pullup_mask e"
  by (simp_all add: resolve_entry_def pick_owner_def Let_def)

lemma put_bit_same: "bit (put_bit (owner_bit Own_gpio) v w) 0 = v"
  by (simp add: put_bit_def owner_bit_def bit_or_iff bit_and_iff bit_not_iff bit_1_iff)

definition gpio_owned :: "pin_mux \<Rightarrow> u8 \<Rightarrow> bool" where
  "gpio_owned m p \<longleftrightarrow> unat p < 16 \<and> settled m \<and> (\<forall>b. unat b < 8 \<longrightarrow> ps_owner (get_state m p b) = Own_gpio)"

lemma update_own_pin:
  fixes out level pullup :: bool
  assumes "gpio_owned m p" and "unat b < 8"
  defines "m' \<equiv> update_pin p b Own_gpio out level pullup False m"
  shows "gpio_owned m' p" and "ps_is_output (get_state m' p b) = out"
    and "ps_drive_level (get_state m' p b) = level"
    and "unat c < 8 \<Longrightarrow> c \<noteq> b \<Longrightarrow> get_state m' p c = get_state m p c"
proof -
  let ?f = "post Own_gpio out level pullup False"
  have m: "settled m" "mux_shape m" "in_mux m p b" using assms by (auto simp: gpio_owned_def settled_def in_mux_iff)
  have m': "m' = reevaluate_ownership p b (upd_entry p b ?f m)" using m(3) by (simp add: m'_def update_pin_def)
  have "settled m'" unfolding m' by (intro settled_update m) simp
  then have shape: "mux_shape m'" by (simp add: settled_def)
  have state: "get_state m' p c = pe_state (mux_entry m' p c)" "get_state m p c = pe_state (mux_entry m p c)"
    if "unat c < 8" for c
    using that assms(1) m(2) shape by (simp_all add: get_state_def in_mux_iff gpio_owned_def)
  have e: "observed (mux_entry m' p c) =
      observed (if c = b then resolve_entry (pullup_suppressed m) (?f (mux_entry m p b)) else mux_entry m p c)"
    if "unat c < 8" for c
  proof -
    have c: "in_mux m p c" using that assms(1) m(2) by (simp add: in_mux_iff gpio_owned_def)
    have "observed (mux_entry m' p c) = observed (if (p, c) = (p, b)
        then resolve_entry (pullup_suppressed (upd_entry p b ?f m)) (mux_entry (upd_entry p b ?f m) p b)
        else mux_entry (upd_entry p b ?f m) p c)"
      unfolding m' using m c by (intro reevaluate_entry) simp_all
    then show ?thesis using m c by (simp add: mux_entry_upd)
  qed
  show other: "get_state m' p c = get_state m p c" if "unat c < 8" "c \<noteq> b" for c
    using arg_cong[OF e[OF that(1)], of pe_state] that by (simp add: state)
  note self = e[OF assms(2), simplified]
  have claims: "active_claims (mux_entry m' p b) = active_claims (mux_entry m p b)"
    "output_mask (mux_entry m' p b) = output_mask (?f (mux_entry m p b))"
    "drive_levels (mux_entry m' p b) = drive_levels (?f (mux_entry m p b))"
    "wired_and_mask (mux_entry m' p b) = wired_and_mask (?f (mux_entry m p b))"
    using arg_cong[OF self, of active_claims] arg_cong[OF self, of output_mask]
      arg_cong[OF self, of drive_levels] arg_cong[OF self, of wired_and_mask]
    by (simp_all add: post_def Let_def)
  have "in_mux m' p b" using m(2,3) shape by (simp add: in_mux_iff)
  then have shown: "presents (pullup_suppressed m') (mux_entry m' p b)"
    using \<open>settled m'\<close> by (simp add: settled_def)
  have "presents (pullup_suppressed m) (mux_entry m p b)" using m by (simp add: settled_def)
  then have owner: "ps_owner (pe_state (mux_entry m' p b)) = Own_gpio"
    using shown assms(1,2) unfolding presents_def Let_def claims
    by (metis gpio_owned_def state(2) strongest_unique)
  show "ps_is_output (get_state m' p b) = out" "ps_drive_level (get_state m' p b) = level"
    using shown owner by (simp_all add: state assms(2) presents_def Let_def claims post_def put_bit_same)
  have "ps_owner (get_state m' p c) = Own_gpio" if "unat c < 8" for c
    using that owner other[OF that] assms(1) by (cases "c = b") (simp_all add: state gpio_owned_def)
  then show "gpio_owned m' p" using assms(1) \<open>settled m'\<close> by (simp add: gpio_owned_def)
qed

section \<open>The latch of a port that owns its pins\<close>

text \<open>
  The specification of the input register: an output pin reads back its level, inverted if
  so configured, an input pin the external level, a disabled input low.
\<close>

definition pin_reads :: "gpio_port \<Rightarrow> nat \<Rightarrow> bool" where
  "pin_reads g i \<longleftrightarrow> \<not> input_disabled g i \<and>
     (if bit (gp_ddr g) i then bit (gp_port g) i else bit (external_levels g) i) \<noteq> pin_inverted g i"

lemma latch_one:
  assumes "gpio_owned m (gp_port_idx g)" and "i < 8"
  shows "gpio_owned (snd (latch_pin g i (n, m))) (gp_port_idx g)"
    and "fst (latch_pin g i (n, m)) = (if pin_reads g i then n OR push_bit i 1 else n)"
proof -
  have i: "unat (of_nat i :: u8) < 8" using assms(2) by (simp add: unat_of_nat)
  note own = update_own_pin[OF assms(1) i]
  show "gpio_owned (snd (latch_pin g i (n, m))) (gp_port_idx g)"
    by (simp add: latch_pin_def Let_def own(1))
  show "fst (latch_pin g i (n, m)) = (if pin_reads g i then n OR push_bit i 1 else n)"
    by (simp add: latch_pin_def Let_def own(2,3) pin_reads_def)
qed

lemma latch_loop:
  assumes "gpio_owned m (gp_port_idx g)" and "\<forall>i\<in>set is. i < 8"
  shows "gpio_owned (snd (fold (latch_pin g) is (n, m))) (gp_port_idx g) \<and>
    (\<forall>j<8. bit (fst (fold (latch_pin g) is (n, m))) j = (bit n j \<or> j \<in> set is \<and> pin_reads g j))"
  using assms
proof (induction "is" arbitrary: n m)
  case (Cons i "is")
  obtain n' m' where r: "latch_pin g i (n, m) = (n', m')" by fastforce
  have "i < 8" using Cons.prems by simp
  from latch_one[OF Cons.prems(1) this, of n] r
  have n': "n' = (if pin_reads g i then n OR push_bit i 1 else n)" and m': "gpio_owned m' (gp_port_idx g)"
    by simp_all
  have "bit n' j = (bit n j \<or> j = i \<and> pin_reads g i)" if "j < 8" for j
    using that by (auto simp: n' bit_or_iff bit_exp_iff)
  then show ?case using Cons.IH[OF m', of n'] Cons.prems r by auto
qed simp

lemma latch_effect:
  assumes "gpio_owned (gp_mux g) (gp_port_idx g)"
  shows "gpio_owned (gp_mux (update_pin_latched g)) (gp_port_idx g)"
    and "i < 8 \<Longrightarrow> bit (gp_pin_latched (update_pin_latched g)) i = pin_reads g i"
  using latch_loop[OF assms, of "[0..<8]" 0]
  by (auto simp: update_pin_latched_def Let_def case_prod_beta)

lemma latch_frame [simp]:
  "gp_port (update_pin_latched g) = gp_port g" "gp_ddr (update_pin_latched g) = gp_ddr g"
  "gp_desc (update_pin_latched g) = gp_desc g" "gp_pin_ctrl (update_pin_latched g) = gp_pin_ctrl g"
  "external_levels (update_pin_latched g) = external_levels g"
  "pending_changes_mask (update_pin_latched g) = pending_changes_mask g"
  "gp_intflags (update_pin_latched g) = gp_intflags g"
  "gp_port_idx (update_pin_latched g) = gp_port_idx g"
  by (simp_all add: update_pin_latched_def Let_def case_prod_beta)

lemma pin_reads_latched [simp]: "pin_reads (update_pin_latched g) = pin_reads g"
  by (simp add: pin_reads_def input_disabled_def pin_inverted_def fun_eq_iff)

section \<open>Draining the pending changes\<close>

text \<open>What the bus does with a port: asking for changes until there are none.\<close>

definition pending_pins :: "u8 \<Rightarrow> nat set" where
  "pending_pins w = {i. i < 8 \<and> bit w i}"

lemma pending_pins_finite: "finite (pending_pins w)"
  by (simp add: pending_pins_def)

lemma pending_pins_empty: "pending_pins w = {} \<longleftrightarrow> w = 0"
  using bit_imp_le_length[of w] by (auto simp: pending_pins_def bit_eq_iff)

lemma pending_pins_clear: "pending_pins (w AND NOT (push_bit i 1)) = pending_pins w - {i}"
  by (auto simp: pending_pins_def bit_and_iff bit_not_iff bit_exp_iff)

lemma first_change_some:
  assumes "i \<in> set is" "bit (pending_changes_mask g) i" "sorted is"
  shows "\<exists>j\<in>set is. bit (pending_changes_mask g) j \<and> (\<forall>k\<in>set is. bit (pending_changes_mask g) k \<longrightarrow> j \<le> k) \<and>
    first_change is cycle g =
      (g\<lparr>pending_changes_mask := pending_changes_mask g AND NOT (push_bit j 1)\<rparr>,
       Some (reported_change g cycle j))"
  using assms by (induction "is") auto

lemma reported_change_pending [simp]: "reported_change (g\<lparr>pending_changes_mask := m\<rparr>) cycle = reported_change g cycle"
  by (simp add: reported_change_def fun_eq_iff)

lemma consume_change_cases:
  obtains "pending_changes_mask g = 0" "gpio_consume_pin_change cycle g = (g, None)"
  | j where "j < 8" "bit (pending_changes_mask g) j" "\<forall>k\<in>pending_pins (pending_changes_mask g). j \<le> k"
      "gpio_consume_pin_change cycle g =
        (g\<lparr>pending_changes_mask := pending_changes_mask g AND NOT (push_bit j 1)\<rparr>,
         Some (reported_change g cycle j))"
proof (cases "pending_changes_mask g = 0")
  case True
  with that(1) show ?thesis by (simp add: gpio_consume_pin_change_def)
next
  case False
  then obtain i where "i \<in> pending_pins (pending_changes_mask g)" using pending_pins_empty by auto
  then have "i \<in> set [0..<8]" "bit (pending_changes_mask g) i" by (auto simp: pending_pins_def)
  from first_change_some[OF this, of cycle] False show ?thesis
    using that(2) by (auto simp: gpio_consume_pin_change_def pending_pins_def)
qed

lemma consume_some:
  assumes "gpio_consume_pin_change cycle g = (g', Some c)"
  shows "\<exists>j\<in>pending_pins (pending_changes_mask g). (\<forall>k\<in>pending_pins (pending_changes_mask g). j \<le> k) \<and>
    g' = g\<lparr>pending_changes_mask := pending_changes_mask g AND NOT (push_bit j 1)\<rparr> \<and>
    c = reported_change g cycle j"
proof (cases rule: consume_change_cases[of g cycle])
  case 1
  then show ?thesis using assms by simp
next
  case (2 j)
  then show ?thesis using assms by (intro bexI[of _ j]) (simp_all add: pending_pins_def)
qed

function drain_changes :: "u64 \<Rightarrow> gpio_port \<Rightarrow> gpio_port \<times> pin_state_change list" where
  "drain_changes cycle g =
     (case gpio_consume_pin_change cycle g of
        (g', None) \<Rightarrow> (g', [])
      | (g', Some c) \<Rightarrow> (let (g'', cs) = drain_changes cycle g' in (g'', c # cs)))"
  by pat_completeness auto
termination
proof (relation "measure (\<lambda>(c, g). card (pending_pins (pending_changes_mask g)))")
  fix cycle g g' x2 c
  assume "(g', x2) = gpio_consume_pin_change cycle g" "x2 = Some c"
  then obtain j where "j \<in> pending_pins (pending_changes_mask g)"
    "g' = g\<lparr>pending_changes_mask := pending_changes_mask g AND NOT (push_bit j 1)\<rparr>"
    using consume_some[of cycle g g' c] by auto
  then show "((cycle, g'), cycle, g) \<in> measure (\<lambda>(c, g). card (pending_pins (pending_changes_mask g)))"
    using card_Diff1_less[OF pending_pins_finite] by (simp add: pending_pins_clear del: push_bit_of_1)
qed simp

declare drain_changes.simps [simp del]

lemma drain_effect:
  "drain_changes cycle g =
     (g\<lparr>pending_changes_mask := 0\<rparr>,
      map (reported_change g cycle)
        (sorted_list_of_set (pending_pins (pending_changes_mask g))))"
proof (induction cycle g rule: drain_changes.induct)
  case (1 cycle g)
  show ?case
  proof (cases rule: consume_change_cases[of g cycle])
    case none: 1
    moreover from none have "g\<lparr>pending_changes_mask := 0\<rparr> = g" by simp
    ultimately show ?thesis by (subst drain_changes.simps) (simp add: pending_pins_def)
  next
    case (2 j)
    let ?P = "pending_pins (pending_changes_mask g)"
    have "j \<in> ?P" using 2 by (simp add: pending_pins_def)
    have "sorted_list_of_set ?P = j # sorted_list_of_set (?P - {j})"
    proof -
      have "Min ?P = j" using 2(3) \<open>j \<in> ?P\<close> pending_pins_finite by (intro Min_eqI) auto
      then show ?thesis
        using sorted_list_of_set_nonempty[OF pending_pins_finite, of "pending_changes_mask g"] \<open>j \<in> ?P\<close> by auto
    qed
    then show ?thesis
      using 1[OF 2(4)[symmetric] refl] 2(4)
      by (subst drain_changes.simps) (simp add: pending_pins_clear del: push_bit_of_1)
  qed
qed

section \<open>Properties\<close>

text \<open>
  C23.  On a port whose eight pins GPIO owns, reading PIN after writing PORT gives, bit by bit,
  the level written on the output pins (inverted where the pin is configured so), the
  external level on the input pins, and low where the input buffer is off; writing a one to
  PIN toggles the PORT bit.
\<close>

theorem port_readback:
  assumes "gpio_owned (gp_mux g) (gp_port_idx g)" and "i < 8"
    and "pd_port_address (gp_desc g) \<noteq> pd_pin_address (gp_desc g)"
    and "pd_port_address (gp_desc g) \<noteq> pd_ddr_address (gp_desc g)"
  shows "gp_port (gpio_write (pd_port_address (gp_desc g)) v g) = v \<and>
    bit (snd (gpio_read False (pd_pin_address (gp_desc g)) (gpio_write (pd_port_address (gp_desc g)) v g))) i =
      (\<not> input_disabled g i \<and> (if bit (gp_ddr g) i then bit v i else bit (external_levels g) i) \<noteq> pin_inverted g i) \<and>
    gp_port (gpio_write (pd_pin_address (gp_desc g)) v g) = gp_port g XOR v"
proof -
  define c where "c = g\<lparr>gp_port := v, pending_changes_mask := pending_changes_mask g OR ((gp_port g XOR v) AND gp_ddr g),
      gp_pin_change_marked := gp_pin_change_marked g \<or> pending_changes_mask g OR ((gp_port g XOR v) AND gp_ddr g) \<noteq> 0\<rparr>"
  have w: "gpio_write (pd_port_address (gp_desc g)) v g = update_pin_latched c"
    using assms(3,4) by (simp add: gpio_write_def apply_port_def Let_def c_def)
  have c: "gp_port c = v" "gp_ddr c = gp_ddr g" "external_levels c = external_levels g" "gp_mux c = gp_mux g"
    "gp_port_idx c = gp_port_idx g" "gp_desc c = gp_desc g" "gp_pin_ctrl c = gp_pin_ctrl g"
    by (simp_all add: c_def)
  have "gpio_owned (gp_mux (update_pin_latched c)) (gp_port_idx (update_pin_latched c))"
    using latch_effect(1)[of c] assms(1) by (simp add: c)
  from latch_effect(2)[OF this assms(2)]
  have "bit (snd (gpio_read False (pd_pin_address (gp_desc g)) (update_pin_latched c))) i = pin_reads c i"
    by (simp add: gpio_read_def read_latched_def Let_def c)
  then show ?thesis
    unfolding w by (simp add: pin_reads_def c input_disabled_def pin_inverted_def)
      (simp add: gpio_write_def apply_port_def Let_def)
qed

text \<open>
  C24.  Asking a port for its output changes until it has none ends, and reports each changed
  output pin once, lowest first, at the level PORT has.
\<close>

theorem changes_drained:
  "snd (drain_changes cycle g) =
     map (reported_change g cycle)
       (filter (bit (pending_changes_mask g)) [0..<8]) \<and>
   snd (gpio_consume_pin_change cycle (fst (drain_changes cycle g))) = None"
proof -
  have "sorted_list_of_set (pending_pins w) = filter (bit w) [0..<8]" for w :: u8
    by (rule sorted_distinct_set_unique) (auto simp: pending_pins_def sorted_wrt_filter)
  then show ?thesis by (simp add: drain_effect gpio_consume_pin_change_def)
qed

text \<open>A port of an ATmega: PORTB at 0x23, all pins its own, the low nibble output.\<close>

definition portb_descriptor :: port_descriptor where
  "portb_descriptor = \<lparr>pd_name = ''PORTB'', pd_pin_address = 0x23, pd_ddr_address = 0x24, pd_port_address = 0x25,
     dirset_address = 0, dirclr_address = 0, dirtgl_address = 0, outset_address = 0, outclr_address = 0,
     outtgl_address = 0, pin_ctrl_base = 0, intflags_address = 0, vport_base = 0xFFFF, pd_vector_index = 0xFF\<rparr>"

definition portb :: gpio_port where
  "portb = gpio_init portb_descriptor pin_mux_init\<lparr>gp_ddr := 0x0F\<rparr>"

lemma portb_fields: "gp_port_idx portb = 1" "gp_desc portb = portb_descriptor" "gp_ddr portb = 0x0F"
  "gp_pin_ctrl portb = replicate 8 0" "external_levels portb = 0" "gp_port portb = 0"
  by (simp_all add: portb_def gpio_init_def portb_descriptor_def is_port_name_def Let_def)

lemma portb_owned: "gpio_owned (gp_mux portb) (gp_port_idx portb)"
proof -
  have reach: "mux_reachable (fold (\<lambda>a. register_port a p) as m)" if "mux_reachable m" for as p m
    using that by (induction as arbitrary: m) (simp_all add: mux_reachable.register)
  have entry: "mux_ports (fold (\<lambda>a. register_port a p) as m) = mux_ports m" for as p m
    by (induction as arbitrary: m) (simp_all add: register_port_def)
  obtain as where as: "gp_mux portb = fold (\<lambda>a. register_port a 1) as pin_mux_init"
    by (simp add: portb_def gpio_init_def portb_descriptor_def is_port_name_def Let_def)
  have "ps_owner (get_state (gp_mux portb) 1 b) = Own_gpio" if "unat b < 8" for b
    using that by (simp add: as get_state_def in_mux_def mux_entry_def entry pin_mux_init_def pin_entry_init_def
        default_pin_state_def word_le_nat_alt)
  then show ?thesis
    using reachable_settled[OF reach[OF mux_reachable.start]] by (simp add: gpio_owned_def portb_fields as)
qed

theorem port_readback_witness:
  "bit (snd (gpio_read False 0x23 (gpio_write 0x25 0xA5 portb))) 2 \<and>
   \<not> bit (snd (gpio_read False 0x23 (gpio_write 0x25 0xA5 portb))) 7"
  using port_readback[OF portb_owned, of 2 "0xA5"] port_readback[OF portb_owned, of 7 "0xA5"]
  by (simp add: portb_fields input_disabled_def pin_inverted_def) (simp add: portb_descriptor_def)

end
