(* ===== verification/Pinint.thy ===== *)
theory Pinint
  imports Gpio
begin

text \<open>
  The interrupts that pins raise: \<open>ExtInterrupt\<close> (\<open>src/core/ext_interrupt.cpp\<close>), one sense
  mode per INT line, and \<open>PinChangeInterrupt\<close> (\<open>src/core/pin_change_interrupt.cpp\<close>), which
  watches the input register of a \<open>GpioPort\<close>.  INT0 bound to an analog signal is not
  modelled, so \<open>refresh_bound_input\<close> does nothing.
\<close>

section \<open>ExtInterrupt\<close>

record ext_interrupt =
  eicra_address :: u16
  eicrb_address :: u16
  eimsk_address :: u16
  eifr_address :: u16
  xi_vector_indices :: "u8 list"
  xi_pin_addresses :: "u16 list"
  xi_pin_bits :: "u8 list"
  xi_source_id :: u8
  eicra :: u8
  eicrb :: u8
  eimsk :: u8
  eifr :: u8
  int_levels :: "bool list"
  int_pending :: "bool list"
  xi_interrupt_pending :: bool
  xi_adc_connected :: bool
  xi_adc_notified :: nat

definition extract_sense_mode :: "u8 \<Rightarrow> nat \<Rightarrow> u8" where
  "extract_sense_mode reg index = drop_bit (index * 2) reg AND 0x03"

definition sense_mode :: "ext_interrupt \<Rightarrow> nat \<Rightarrow> u8" where
  "sense_mode x index =
     (if index < 4 then extract_sense_mode (eicra x) index else extract_sense_mode (eicrb x) (index - 4))"

definition ext_asks :: "ext_interrupt \<Rightarrow> nat \<Rightarrow> bool" where
  "ext_asks x i \<longleftrightarrow> int_pending x ! i \<and> eimsk x AND push_bit i 1 \<noteq> 0"

definition ext_pending_interrupt_request :: "ext_interrupt \<Rightarrow> interrupt_request option" where
  "ext_pending_interrupt_request x =
     (case filter (ext_asks x) [0..<8] of
        [] \<Rightarrow> None | i # _ \<Rightarrow> Some (Irq (xi_vector_indices x ! i) (xi_source_id x)))"

definition ext_update_interrupt_pending :: "ext_interrupt \<Rightarrow> ext_interrupt" where
  "ext_update_interrupt_pending x = x\<lparr>xi_interrupt_pending := ext_pending_interrupt_request x \<noteq> None\<rparr>"

definition ext_reset :: "ext_interrupt \<Rightarrow> ext_interrupt" where
  "ext_reset x = x\<lparr>eicra := 0, eicrb := 0, eimsk := 0, eifr := 0,
     int_levels := replicate 8 True, int_pending := replicate 8 False\<rparr>"

definition raise_interrupt :: "nat \<Rightarrow> ext_interrupt \<Rightarrow> ext_interrupt" where
  "raise_interrupt i x =
     (let x = ext_update_interrupt_pending
                (x\<lparr>eifr := eifr x OR push_bit i 1, int_pending := (int_pending x)[i := True]\<rparr>)
      in if i = 0 \<and> xi_adc_connected x then x\<lparr>xi_adc_notified := Suc (xi_adc_notified x)\<rparr> else x)"

definition handle_level_change :: "nat \<Rightarrow> bool \<Rightarrow> ext_interrupt \<Rightarrow> ext_interrupt" where
  "handle_level_change i high x0 =
     (let previous = int_levels x0 ! i; x = x0\<lparr>int_levels := (int_levels x0)[i := high]\<rparr>; mode = sense_mode x i
      in if mode = 0 then if \<not> high then raise_interrupt i x else x
         else if mode = 1 then if previous \<noteq> high then raise_interrupt i x else x
         else if mode = 2 then if previous \<and> \<not> high then raise_interrupt i x else x
         else if mode = 3 then if \<not> previous \<and> high then raise_interrupt i x else x
         else x)"

definition ext_tick :: "ext_interrupt \<Rightarrow> ext_interrupt" where
  "ext_tick x =
     fold (\<lambda>i x. if sense_mode x i = 0 \<and> \<not> int_levels x ! i then raise_interrupt i x else x) [0..<8] x"

definition ext_read :: "ext_interrupt \<Rightarrow> u16 \<Rightarrow> u8" where
  "ext_read x address =
     (if address = eicra_address x then eicra x
      else if address = eicrb_address x then eicrb x
      else if address = eimsk_address x then eimsk x
      else if address = eifr_address x then eifr x
      else 0)"

definition ext_write :: "u16 \<Rightarrow> u8 \<Rightarrow> ext_interrupt \<Rightarrow> ext_interrupt" where
  "ext_write address v x =
     (if address = eicra_address x then ext_update_interrupt_pending (x\<lparr>eicra := v\<rparr>)
      else if address = eicrb_address x then ext_update_interrupt_pending (x\<lparr>eicrb := v\<rparr>)
      else if address = eimsk_address x then ext_update_interrupt_pending (x\<lparr>eimsk := v\<rparr>)
      else if address = eifr_address x
      then ext_update_interrupt_pending
             (x\<lparr>eifr := eifr x AND NOT v,
                int_pending := map (\<lambda>i. if v AND push_bit i 1 \<noteq> 0 then False else int_pending x ! i) [0..<8]\<rparr>)
      else x)"

definition ext_external_change :: "u16 \<Rightarrow> u8 \<Rightarrow> bool \<Rightarrow> ext_interrupt \<Rightarrow> ext_interrupt \<times> bool" where
  "ext_external_change pin_address bit_index level x =
     (let mapped = filter (\<lambda>i. xi_pin_addresses x ! i \<noteq> 0) [0..<8]
      in case filter (\<lambda>i. xi_pin_addresses x ! i = pin_address \<and> xi_pin_bits x ! i = bit_index) mapped of
           i # _ \<Rightarrow> (handle_level_change i level x, True)
         | [] \<Rightarrow>
             if mapped = [] \<and> bit_index = 2 then (handle_level_change 0 level x, True)
             else if mapped = [] \<and> bit_index = 3 then (handle_level_change 1 level x, True)
             else (x, False))"

definition ext_consume_interrupt_request :: "ext_interrupt \<Rightarrow> ext_interrupt \<times> interrupt_request option" where
  "ext_consume_interrupt_request x =
     (case ext_pending_interrupt_request x of
        None \<Rightarrow> (x, None)
      | Some r \<Rightarrow>
          (ext_update_interrupt_pending
             (case filter (\<lambda>i. vector_index r = xi_vector_indices x ! i) [0..<8] of
                [] \<Rightarrow> x
              | i # _ \<Rightarrow> x\<lparr>int_pending := (int_pending x)[i := False], eifr := eifr x AND NOT (push_bit i 1)\<rparr>),
           Some r))"

section \<open>PinChangeInterrupt\<close>

text \<open>
  PCICR and PCIFR are shared by the banks: they are a state of their own.  \<open>rmw\<close> is the bus's
  \<open>in_rmw()\<close>, which the port's \<open>read\<close> consults.
\<close>

record pcint_shared =
  pcicr :: u8
  pcifr :: u8

record pin_change_interrupt =
  pcicr_address :: u16
  pcifr_address :: u16
  pcmsk_address :: u16
  pcicr_enable_mask :: u8
  pcifr_flag_mask :: u8
  pci_vector_index :: u8
  pci_port :: gpio_port
  pci_shared :: pcint_shared
  pcmsk :: u8
  pcint_pending :: bool
  last_pin_state :: u8
  was_active :: bool
  pci_interrupt_pending :: bool
  pci_active :: bool

definition pci_is_enabled :: "pin_change_interrupt \<Rightarrow> bool" where
  "pci_is_enabled p \<longleftrightarrow> pcicr (pci_shared p) AND pcicr_enable_mask p \<noteq> 0"

definition pci_pending_interrupt_request :: "pin_change_interrupt \<Rightarrow> interrupt_request option" where
  "pci_pending_interrupt_request p =
     (if pcint_pending p \<and> pci_is_enabled p then Some (Irq (pci_vector_index p) 0) else None)"

definition pci_update_interrupt_pending :: "pin_change_interrupt \<Rightarrow> pin_change_interrupt" where
  "pci_update_interrupt_pending p = p\<lparr>pci_interrupt_pending := pci_pending_interrupt_request p \<noteq> None\<rparr>"

definition read_port :: "bool \<Rightarrow> pin_change_interrupt \<Rightarrow> pin_change_interrupt \<times> u8" where
  "read_port rmw p =
     (let (g, v) = gpio_read rmw (pd_pin_address (gp_desc (pci_port p))) (pci_port p)
      in (p\<lparr>pci_port := g\<rparr>, v))"

definition pci_update_active_state :: "bool \<Rightarrow> pin_change_interrupt \<Rightarrow> pin_change_interrupt" where
  "pci_update_active_state rmw p =
     (let active = pci_is_enabled p;
          p = (if active \<and> \<not> was_active p
               then let (p, v) = read_port rmw p in p\<lparr>last_pin_state := v\<rparr> else p)
      in p\<lparr>was_active := active, pci_active := active\<rparr>)"

definition pci_reset :: "bool \<Rightarrow> pin_change_interrupt \<Rightarrow> pin_change_interrupt" where
  "pci_reset rmw p0 =
     (let p = p0\<lparr>pci_shared := \<lparr>pcicr = 0, pcifr = 0\<rparr>, pcmsk := 0, pcint_pending := False\<rparr>;
          (p, v) = read_port rmw p
      in pci_update_active_state rmw (p\<lparr>last_pin_state := v, was_active := True\<rparr>))"

definition notify_pin_change :: "u8 \<Rightarrow> pin_change_interrupt \<Rightarrow> pin_change_interrupt" where
  "notify_pin_change mk p =
     (if mk AND pcmsk p \<noteq> 0
      then pci_update_interrupt_pending
             (p\<lparr>pci_shared := pci_shared p\<lparr>pcifr := pcifr (pci_shared p) OR pcifr_flag_mask p\<rparr>,
                pcint_pending := True\<rparr>)
      else p)"

definition pci_tick :: "bool \<Rightarrow> pin_change_interrupt \<Rightarrow> pin_change_interrupt" where
  "pci_tick rmw p0 =
     (let (p, v) = read_port rmw p0
      in if v \<noteq> last_pin_state p
         then (notify_pin_change (v XOR last_pin_state p) p)\<lparr>last_pin_state := v\<rparr>
         else p)"

definition pci_read :: "pin_change_interrupt \<Rightarrow> u16 \<Rightarrow> u8" where
  "pci_read p address =
     (if address = pcicr_address p then pcicr (pci_shared p)
      else if address = pcifr_address p then pcifr (pci_shared p)
      else if address = pcmsk_address p then pcmsk p
      else 0)"

definition pci_write :: "bool \<Rightarrow> u16 \<Rightarrow> u8 \<Rightarrow> pin_change_interrupt \<Rightarrow> pin_change_interrupt" where
  "pci_write rmw address v p =
     (let p = (if address = pcicr_address p then p\<lparr>pci_shared := pci_shared p\<lparr>pcicr := v\<rparr>\<rparr>
               else if address = pcifr_address p
               then let p = p\<lparr>pci_shared := pci_shared p\<lparr>pcifr := pcifr (pci_shared p) AND NOT v\<rparr>\<rparr>
                    in if pcifr (pci_shared p) AND pcifr_flag_mask p = 0 then p\<lparr>pcint_pending := False\<rparr> else p
               else if address = pcmsk_address p then p\<lparr>pcmsk := v\<rparr>
               else p)
      in pci_update_active_state rmw (pci_update_interrupt_pending p))"

definition pci_consume_interrupt_request ::
  "pin_change_interrupt \<Rightarrow> pin_change_interrupt \<times> interrupt_request option" where
  "pci_consume_interrupt_request p =
     (case pci_pending_interrupt_request p of
        None \<Rightarrow> (p, None)
      | Some r \<Rightarrow>
          (pci_update_interrupt_pending
             (p\<lparr>pcint_pending := False,
                pci_shared := pci_shared p\<lparr>pcifr := pcifr (pci_shared p) AND NOT (pcifr_flag_mask p)\<rparr>\<rparr>),
           Some r))"

section \<open>The INT flags\<close>

text \<open>The flag register and the pending lines agree.\<close>

definition flags_mirror :: "ext_interrupt \<Rightarrow> bool" where
  "flags_mirror x \<longleftrightarrow> length (int_pending x) = 8 \<and> length (int_levels x) = 8 \<and>
     (\<forall>i<8. bit (eifr x) i = int_pending x ! i)"

inductive ext_reachable :: "ext_interrupt \<Rightarrow> bool" where
  reset: "ext_reachable (ext_reset x)"
| level: "ext_reachable x \<Longrightarrow> i < 8 \<Longrightarrow> ext_reachable (handle_level_change i high x)"
| pin: "ext_reachable x \<Longrightarrow> ext_reachable (fst (ext_external_change a b high x))"
| tick: "ext_reachable x \<Longrightarrow> ext_reachable (ext_tick x)"
| poke: "ext_reachable x \<Longrightarrow> ext_reachable (ext_write a v x)"
| consume: "ext_reachable x \<Longrightarrow> ext_reachable (fst (ext_consume_interrupt_request x))"

lemma mirror_update [simp]:
  "flags_mirror (ext_update_interrupt_pending x) = flags_mirror x"
  "flags_mirror (x\<lparr>xi_adc_notified := n\<rparr>) = flags_mirror x"
  "flags_mirror (x\<lparr>eicra := v\<rparr>) = flags_mirror x" "flags_mirror (x\<lparr>eicrb := v\<rparr>) = flags_mirror x"
  "flags_mirror (x\<lparr>eimsk := v\<rparr>) = flags_mirror x"
  by (simp_all add: flags_mirror_def ext_update_interrupt_pending_def)

lemma mirror_raise: "flags_mirror x \<Longrightarrow> i < 8 \<Longrightarrow> flags_mirror (raise_interrupt i x)"
  by (auto simp: raise_interrupt_def Let_def) 
    (auto simp: flags_mirror_def nth_list_update bit_or_iff bit_exp_iff bit_1_iff)

lemma mirror_level: "flags_mirror x \<Longrightarrow> i < 8 \<Longrightarrow> flags_mirror (handle_level_change i high x)"
  unfolding handle_level_change_def Let_def
  by (auto intro!: mirror_raise) (simp_all add: flags_mirror_def)

lemma first_line: "filter P [0..<8] = i # is \<Longrightarrow> i < (8::nat)"
proof -
  assume "filter P [0..<8] = i # is"
  then have "i \<in> set (filter P [0..<8])" by (simp only: list.set) simp
  then show "i < 8" unfolding set_filter set_upt by simp
qed

lemma mirror_reachable: "ext_reachable x \<Longrightarrow> flags_mirror x"
proof (induction rule: ext_reachable.induct)
  case (reset x)
  then show ?case by (simp add: flags_mirror_def ext_reset_def)
next
  case (level x i high)
  then show ?case by (simp add: mirror_level)
next
  case (pin x a b high)
  show ?case using pin.IH mirror_level[OF pin.IH]
    unfolding ext_external_change_def Let_def filter_filter by (auto split: list.split dest!: first_line)
next
  case (tick x)
  have "flags_mirror x \<Longrightarrow> \<forall>i\<in>set is. i < 8 \<Longrightarrow> flags_mirror
      (fold (\<lambda>i x. if sense_mode x i = 0 \<and> \<not> int_levels x ! i then raise_interrupt i x else x) is x)" for "is" x
    by (induction "is" arbitrary: x) (auto simp: mirror_raise)
  with tick show ?case by (simp add: ext_tick_def)
next
  case (poke x a v)
  note written = poke.IH
  have "bit (eifr x AND NOT v) i = (if v AND push_bit i 1 \<noteq> 0 then False else int_pending x ! i)" if "i < 8" for i
    using written that and_mask_bit[of v i] by (auto simp: flags_mirror_def bit_and_iff bit_not_iff)
  then have "flags_mirror (x\<lparr>eifr := eifr x AND NOT v,
      int_pending := map (\<lambda>i. if v AND push_bit i 1 \<noteq> 0 then False else int_pending x ! i) [0..<8]\<rparr>)"
    using written by (simp add: flags_mirror_def)
  with written show ?case by (simp add: ext_write_def)
next
  case (consume x)
  then show ?case
    by (auto simp: ext_consume_interrupt_request_def split: option.split list.split dest!: first_line)
      (auto simp: flags_mirror_def nth_list_update bit_and_iff bit_not_iff bit_exp_iff bit_1_iff)
qed

section \<open>Properties\<close>

definition sense_fires :: "u8 \<Rightarrow> bool \<Rightarrow> bool \<Rightarrow> bool" where
  "sense_fires mode was high \<longleftrightarrow>
     mode = 0 \<and> \<not> high \<or> mode = 1 \<and> was \<noteq> high \<or> mode = 2 \<and> was \<and> \<not> high \<or> mode = 3 \<and> \<not> was \<and> high"

lemma raise_fields [simp]:
  "int_pending (raise_interrupt i x) = (int_pending x)[i := True]" "eimsk (raise_interrupt i x) = eimsk x"
  "int_levels (raise_interrupt i x) = int_levels x"
  by (simp_all add: raise_interrupt_def Let_def ext_update_interrupt_pending_def)

text \<open>
  C25.  In any state the INT lines can reach, a level change on line \<open>i\<close> raises its flag
  exactly when its sense mode (low, any edge, falling, rising) says so, leaves the other
  lines alone, and EIFR shows the pending lines bit by bit.
\<close>

theorem int_sense:
  assumes "ext_reachable x" and "i < 8" and "j < 8"
  shows "int_pending (handle_level_change i high x) ! j =
      (int_pending x ! j \<or> j = i \<and> sense_fires (sense_mode x i) (int_levels x ! i) high) \<and>
    bit (eifr (handle_level_change i high x)) j = int_pending (handle_level_change i high x) ! j"
proof -
  have m: "flags_mirror x" using assms(1) by (rule mirror_reachable)
  have "sense_mode (x\<lparr>int_levels := l\<rparr>) i = sense_mode x i" for l by (simp add: sense_mode_def)
  moreover have "flags_mirror (handle_level_change i high x)" by (rule mirror_level[OF m assms(2)])
  ultimately show ?thesis
    using m assms(2,3) by (auto simp: flags_mirror_def handle_level_change_def Let_def sense_fires_def nth_list_update)
qed

lemma read_port_value:
  "snd (read_port False p) = gp_pin_latched (update_pin_latched (pci_port p))"
  "fst (read_port False p) = p\<lparr>pci_port := update_pin_latched (pci_port p)\<rparr>"
  by (simp_all add: read_port_def gpio_read_def read_latched_def Let_def)

lemma external_change_moves:
  assumes "\<not> 8 \<le> i"
    and "(if high then external_levels g OR push_bit (unat i) 1 else external_levels g AND NOT (push_bit (unat i) 1))
      \<noteq> external_levels g"
  shows "\<exists>h. fst (gpio_external_change (pd_pin_address (gp_desc g)) i high g) = update_pin_latched h \<and>
    external_levels h = (if high then external_levels g OR push_bit (unat i) 1
                         else external_levels g AND NOT (push_bit (unat i) 1)) \<and>
    gp_ddr h = gp_ddr g \<and> gp_pin_ctrl h = gp_pin_ctrl g \<and> gp_mux h = gp_mux g \<and>
    gp_port_idx h = gp_port_idx g \<and> gp_port h = gp_port g"
proof -
  let ?mk = "push_bit (unat i) 1 :: u8"
  define L where "L = (if high then external_levels g OR ?mk else external_levels g AND NOT ?mk)"
  let ?b = "g\<lparr>external_levels := L\<rparr>"
  let ?fire = "gpio_update_interrupt_state (?b\<lparr>gp_intflags := gp_intflags ?b OR ?mk\<rparr>)"
  define x where "x = (let isc = gp_pin_ctrl ?b ! unat i AND 0x07 in if isc \<noteq> 0x00 \<and> isc \<noteq> 0x04
      then if sense_triggers isc high (bit (external_levels g) (unat i)) then ?fire
           else if isc = 0x05 \<and> \<not> high \<and> \<not> bit (gp_intflags ?b) (unat i) then ?fire else ?b
      else ?b)"
  have x: "external_levels x = L" "gp_ddr x = gp_ddr g" "gp_pin_ctrl x = gp_pin_ctrl g" "gp_mux x = gp_mux g"
    "gp_port_idx x = gp_port_idx g" "gp_port x = gp_port g"
    by (simp_all add: x_def Let_def gpio_update_interrupt_state_def)
  have "gpio_external_change (pd_pin_address (gp_desc g)) i high g =
      (if external_levels g \<noteq> external_levels x
       then (update_pin_latched (x\<lparr>prev_external_levels := external_levels g\<rparr>), True) else (x, False))"
    unfolding gpio_external_change_def Let_def x_def L_def using assms(1) by (simp only: simp_thms if_False if_True)
  then show ?thesis
    using assms(2) x by (intro exI[of _ "x\<lparr>prev_external_levels := external_levels g\<rparr>"]) (simp add: L_def[symmetric])
qed


definition ext_lines :: ext_interrupt where
  "ext_lines = \<lparr>eicra_address = 0x69, eicrb_address = 0, eimsk_address = 0x3D, eifr_address = 0x3C,
     xi_vector_indices = [1, 2, 0, 0, 0, 0, 0, 0], xi_pin_addresses = replicate 8 0, xi_pin_bits = replicate 8 0,
     xi_source_id = 0, eicra = 0, eicrb = 0, eimsk = 0, eifr = 0, int_levels = [], int_pending = [],
     xi_interrupt_pending = False, xi_adc_connected = False, xi_adc_notified = 0\<rparr>"

theorem int_sense_witness:
  "int_pending (handle_level_change 1 False (ext_write 0x69 0x08 (ext_reset ext_lines))) ! 1"
  using int_sense[of "ext_write 0x69 0x08 (ext_reset ext_lines)" 1 1 False]
  by (simp add: ext_reachable.intros sense_fires_def)
    (simp add: ext_lines_def ext_write_def ext_reset_def sense_mode_def extract_sense_mode_def
      ext_update_interrupt_pending_def)

definition watched_port :: pin_change_interrupt where
  "watched_port = \<lparr>pcicr_address = 0x68, pcifr_address = 0x3B, pcmsk_address = 0x6B, pcicr_enable_mask = 1,
     pcifr_flag_mask = 1, pci_vector_index = 3, pci_port = portb, pci_shared = \<lparr>pcicr = 1, pcifr = 0\<rparr>,
     pcmsk = 0x20, pcint_pending = False, last_pin_state = snd (gpio_read False 0x23 portb), was_active = True,
     pci_interrupt_pending = False, pci_active = True\<rparr>"


end
