(* ===== verification/Regmap.thy ===== *)
theory Regmap
  imports Device
begin

text \<open>
  How the constructors of the peripherals turn the register addresses of a descriptor into
  the address ranges they ask the bus to map: sort, skip the zeros that mark absent
  registers, and grow the last range while the addresses are consecutive (the loops of
  \<open>Timer8\<close>, \<open>Timer16\<close>, \<open>Timer10\<close>, \<open>Uart\<close>, \<open>ExtInterrupt\<close>, \<open>PinChangeInterrupt\<close> and others).
\<close>

definition extend_ranges :: "u16 \<Rightarrow> address_range list \<Rightarrow> address_range list" where
  "extend_ranges addr rs =
     (if addr = 0 then rs
      else if rs \<noteq> [] \<and> unat addr = unat (range_end (last rs)) + 1
      then butlast rs @ [last rs\<lparr>range_end := addr\<rparr>]
      else rs @ [\<lparr>range_begin = addr, range_end = addr\<rparr>])"

definition register_ranges :: "u16 list \<Rightarrow> address_range list" where
  "register_ranges addrs = fold extend_ranges (sort addrs) []"

definition in_ranges :: "address_range list \<Rightarrow> u16 \<Rightarrow> bool" where
  "in_ranges rs a \<longleftrightarrow> (\<exists>r\<in>set rs. range_contains r a)"

lemma in_ranges_simps [simp]:
  "\<not> in_ranges [] a" "in_ranges (rs @ qs) a \<longleftrightarrow> in_ranges rs a \<or> in_ranges qs a"
  "in_ranges (r # rs) a \<longleftrightarrow> range_contains r a \<or> in_ranges rs a"
  by (auto simp: in_ranges_def)

lemma grown_range:
  assumes "unat addr = unat (range_end r) + 1" and "range_begin r \<le> range_end r"
  shows "range_contains (r\<lparr>range_end := addr\<rparr>) a \<longleftrightarrow> range_contains r a \<or> a = addr"
  using assms by (auto simp: range_contains_def word_le_nat_alt word_unat_eq_iff)

lemma single_range: "range_contains \<lparr>range_begin = addr, range_end = addr\<rparr> a \<longleftrightarrow> a = addr"
  by (auto simp: range_contains_def)

definition ranges_ok :: "address_range list \<Rightarrow> bool" where
  "ranges_ok rs \<longleftrightarrow> (\<forall>r\<in>set rs. range_begin r \<le> range_end r \<and> range_begin r \<noteq> 0)"

lemma extend_ranges_ok: "ranges_ok rs \<Longrightarrow> ranges_ok (extend_ranges addr rs)"
  by (cases rs rule: rev_cases) (auto simp: extend_ranges_def ranges_ok_def word_le_nat_alt)

lemma extend_ranges_member:
  assumes "ranges_ok rs"
  shows "in_ranges (extend_ranges addr rs) a \<longleftrightarrow> in_ranges rs a \<or> addr \<noteq> 0 \<and> a = addr"
  using assms
  by (cases rs rule: rev_cases) (auto simp: extend_ranges_def ranges_ok_def grown_range single_range)

lemma register_ranges_fold:
  assumes "ranges_ok rs"
  shows "ranges_ok (fold extend_ranges as rs) \<and>
    (\<forall>a. in_ranges (fold extend_ranges as rs) a \<longleftrightarrow> in_ranges rs a \<or> a \<noteq> 0 \<and> a \<in> set as)"
  using assms
  by (induction as arbitrary: rs) (auto simp: extend_ranges_ok extend_ranges_member)

lemma length_extend_ranges: "length (extend_ranges addr rs) \<le> Suc (length rs)"
  by (simp add: extend_ranges_def)

lemma register_ranges_length: "length (register_ranges addrs) \<le> length addrs"
proof -
  have "length (fold extend_ranges as rs) \<le> length rs + length as" for as rs
  proof (induction as arbitrary: rs)
    case (Cons a as)
    from Cons[of "extend_ranges a rs"] show ?case
      using length_extend_ranges[of a rs] by simp
  qed simp
  from this[of "sort addrs" "[]"] show ?thesis by (simp add: register_ranges_def)
qed

text \<open>
  The ranges cover the registers the descriptor names and nothing else, whatever the order
  and the duplicates, and the zero that ends the array in \<open>mapped_ranges\<close> never occurs in it.
\<close>

lemma register_ranges_exact:
  "in_ranges (register_ranges addrs) a \<longleftrightarrow> a \<noteq> 0 \<and> a \<in> set addrs"
  "r \<in> set (register_ranges addrs) \<Longrightarrow> range_begin r \<noteq> 0"
  using register_ranges_fold[of "[]" "sort addrs"] by (auto simp: register_ranges_def ranges_ok_def)

section \<open>Arrays of ranges\<close>

text \<open>
  Later classes keep the ranges in an array: an address that would open a range past its
  end is dropped, and \<open>mapped_ranges\<close> stops at the first range that begins at zero.
\<close>

definition extend_array :: "nat \<Rightarrow> u16 \<Rightarrow> address_range list \<Rightarrow> address_range list" where
  "extend_array cap addr rs =
     (if rs \<noteq> [] \<and> unat addr = unat (range_end (last rs)) + 1
      then butlast rs @ [last rs\<lparr>range_end := addr\<rparr>]
      else if length rs < cap then rs @ [\<lparr>range_begin = addr, range_end = addr\<rparr>] else rs)"

definition array_ranges :: "nat \<Rightarrow> u16 list \<Rightarrow> address_range list" where
  "array_ranges cap addrs = fold (extend_array cap) (remdups (sort addrs)) []"

definition used_ranges :: "address_range list \<Rightarrow> address_range list" where
  "used_ranges rs = takeWhile (\<lambda>r. range_begin r \<noteq> 0) rs"

lemma extend_array_grows: "addr \<noteq> 0 \<Longrightarrow> length rs < cap \<Longrightarrow> extend_array cap addr rs = extend_ranges addr rs"
  by (simp add: extend_array_def extend_ranges_def)

lemma array_ranges_fold:
  assumes "length rs + length as \<le> cap" and "0 \<notin> set as"
  shows "fold (extend_array cap) as rs = fold extend_ranges as rs"
  using assms
proof (induction as arbitrary: rs)
  case (Cons a as)
  then have "length (extend_ranges a rs) + length as \<le> cap" using length_extend_ranges[of a rs] by simp
  with Cons show ?case by (simp add: extend_array_grows)
qed simp

text \<open>With room for every address the array covers the registers exactly, and all of it is used.\<close>

lemma array_ranges_exact:
  assumes "length addrs \<le> cap" and "0 \<notin> set addrs"
  shows "in_ranges (used_ranges (array_ranges cap addrs)) a \<longleftrightarrow> a \<in> set addrs"
proof -
  have "length (remdups (sort addrs)) \<le> cap" using assms(1) length_remdups_leq[of "sort addrs"] by simp
  then have "array_ranges cap addrs = fold extend_ranges (remdups (sort addrs)) []"
    using assms(2) unfolding array_ranges_def by (intro array_ranges_fold) auto
  moreover have "ranges_ok (array_ranges cap addrs)" and "in_ranges (array_ranges cap addrs) a \<longleftrightarrow> a \<in> set addrs"
    using calculation register_ranges_fold[of "[]" "remdups (sort addrs)"] assms(2) by (auto simp: ranges_ok_def)
  moreover have "used_ranges (array_ranges cap addrs) = array_ranges cap addrs"
    using calculation(2) by (auto simp: used_ranges_def ranges_ok_def takeWhile_eq_all_conv)
  ultimately show ?thesis by simp
qed

text \<open>The high byte of a 16-bit register: the comparison is one of \<open>int\<close>, without wrap-around.\<close>

definition second_of :: "u16 \<Rightarrow> u16 \<Rightarrow> bool" where
  "second_of address base \<longleftrightarrow> unat address = unat base + 1"

lemma second_of_simps [simp]: "\<not> second_of a a"
  by (simp add: second_of_def)

end
