(* ===== verification/Timer8.thy ===== *)
theory Timer8
  imports Pins Periph Regmap
begin

text \<open>
  \<open>Timer8\<close> (\<open>src/core/timer8.cpp\<close>): the 8-bit timer/counter with its prescaler, waveform
  modes, compare outputs on the pin multiplexer, and the asynchronous mode of Timer2.  What
  the timer reads from the bus is an argument: the power reduction register and the level of
  the T pin.  Calls into the ADC, the DAC and the USI are recorded in order.
\<close>

section \<open>State\<close>

record timer8_descriptor =
  tcnt_address :: u16
  ocra_address :: u16
  ocrb_address :: u16
  tifr_address :: u16
  timsk_address :: u16
  tccra_address :: u16
  tccrb_address :: u16
  assr_address :: u16
  compare_a_vector_index :: u8
  compare_b_vector_index :: u8
  overflow_vector_index :: u8
  t_pin_address :: u16
  tosc1_pin_address :: u16
  tosc1_pin_bit :: u8
  wgm0_mask :: u8
  wgm2_mask :: u8
  cs_mask :: u8
  as2_mask :: u8
  exclk_mask :: u8
  tcn2ub_mask :: u8
  ocr2aub_mask :: u8
  ocr2bub_mask :: u8
  tcr2aub_mask :: u8
  tcr2bub_mask :: u8
  compare_a_enable_mask :: u8
  compare_b_enable_mask :: u8
  overflow_enable_mask :: u8
  foca_mask :: u8
  focb_mask :: u8
  t8_pr_address :: u16
  t8_pr_bit :: u8
  compare_a_trigger_source :: u8
  overflow_trigger_source :: u8

datatype timer8_mode = T8_normal | T8_pc_pwm_ff | T8_ctc_ocra | T8_fast_pwm_ff | T8_pc_pwm_ocra | T8_fast_pwm_ocra

datatype pin_action = Pin_disconnected | Pin_toggle | Pin_clear | Pin_set

datatype timer_call = Notify_adc u8 | Notify_dac u8 | Usi_timer0_clock

record timer8 =
  t8_desc :: timer8_descriptor
  t8_mux :: pin_mux
  tcnt :: u8
  ocra :: u8
  ocrb :: u8
  ocra_buffer :: u8
  ocrb_buffer :: u8
  tccra :: u8
  tccrb :: u8
  assr :: u8
  timsk :: u8
  tifr :: u8
  t8_mode :: timer8_mode
  counting_up :: bool
  pin_a :: "(u16 \<times> u8) option"
  pin_b :: "(u16 \<times> u8) option"
  last_clk_pin_state :: bool
  last_tosc1_state :: bool
  cycle_accumulator :: u64
  tosc_accumulator :: u64
  async_busy_countdown :: u16
  adc_on_compare :: bool
  adc_on_overflow :: bool
  dac_trigger :: bool
  usi_trigger :: bool
  t8_interrupt_pending :: bool
  t8_active :: bool
  t8_calls :: "timer_call list"

text \<open>What the bus returns: the power reduction register, and the T pin as the pins stand.\<close>

record timer_env =
  env_prr :: u8
  env_t_level :: "pin_mux \<Rightarrow> bool"

definition t8_ranges :: "timer8_descriptor \<Rightarrow> address_range list" where
  "t8_ranges d = register_ranges
     [tcnt_address d, ocra_address d, ocrb_address d, tifr_address d, timsk_address d,
      tccra_address d, tccrb_address d, assr_address d]"

section \<open>Conditions\<close>

definition has_async_status_register :: "timer8 \<Rightarrow> bool" where
  "has_async_status_register t \<longleftrightarrow> assr_address (t8_desc t) \<noteq> 0"

definition async_mode_enabled :: "timer8 \<Rightarrow> bool" where
  "async_mode_enabled t \<longleftrightarrow> has_async_status_register t \<and> assr t AND as2_mask (t8_desc t) \<noteq> 0"

definition t8_power_reduction :: "timer_env \<Rightarrow> timer8 \<Rightarrow> bool" where
  "t8_power_reduction v t \<longleftrightarrow>
     \<not> (t8_pr_address (t8_desc t) = 0 \<or> t8_pr_bit (t8_desc t) = 0xFF) \<and>
     bit (env_prr v) (unat (t8_pr_bit (t8_desc t)))"

definition t8_clock_domain :: "timer8 \<Rightarrow> u8" where
  "t8_clock_domain t = (if has_async_status_register t then 0x08 else 0x02)"

definition t8_update_interrupt_state :: "timer8 \<Rightarrow> timer8" where
  "t8_update_interrupt_state t =
     (let d = t8_desc t; asks = (\<lambda>mk. tifr t AND mk \<noteq> 0 \<and> timsk t AND mk \<noteq> 0)
      in t\<lparr>t8_interrupt_pending := asks (compare_a_enable_mask d) \<or> asks (compare_b_enable_mask d)
             \<or> asks (overflow_enable_mask d)\<rparr>)"

definition t8_update_active_state :: "timer_env \<Rightarrow> timer8 \<Rightarrow> timer8" where
  "t8_update_active_state v t =
     t\<lparr>t8_active := tccrb t AND 0x07 \<noteq> 0 \<and> \<not> t8_power_reduction v t\<rparr>"

section \<open>Modes and pins\<close>

definition t8_modes :: "timer8_mode list" where
  "t8_modes = [T8_normal, T8_pc_pwm_ff, T8_ctc_ocra, T8_fast_pwm_ff, T8_normal, T8_pc_pwm_ocra,
     T8_normal, T8_fast_pwm_ocra]"

definition update_mode :: "timer8 \<Rightarrow> timer8" where
  "update_mode t =
     (let wgm01 = tccra t AND wgm0_mask (t8_desc t);
          wgm2 = (if tccrb t AND wgm2_mask (t8_desc t) \<noteq> 0 then 4 else 0)
      in t\<lparr>t8_mode := t8_modes ! unat ((wgm2 OR wgm01) AND 0x07)\<rparr>)"

definition pin_action_of :: "u8 \<Rightarrow> pin_action" where
  "pin_action_of v = [Pin_disconnected, Pin_toggle, Pin_clear, Pin_set] ! unat (v AND 0x03)"

definition get_pin_action_a :: "timer8 \<Rightarrow> pin_action" where
  "get_pin_action_a t = pin_action_of (drop_bit 6 (tccra t))"

definition get_pin_action_b :: "timer8 \<Rightarrow> pin_action" where
  "get_pin_action_b t = pin_action_of (drop_bit 4 (tccra t))"

definition drive_pin :: "u16 \<Rightarrow> u8 \<Rightarrow> bool \<Rightarrow> pin_mux \<Rightarrow> pin_mux" where
  "drive_pin a b level = update_pin_by_address a b Own_timer True level False False"

definition apply_pin_action :: "(u16 \<times> u8) option \<Rightarrow> pin_action \<Rightarrow> pin_mux \<Rightarrow> pin_mux" where
  "apply_pin_action pin action m =
     (case pin of
        None \<Rightarrow> m
      | Some (a, b) \<Rightarrow>
          (case action of
             Pin_disconnected \<Rightarrow> m
           | Pin_toggle \<Rightarrow> drive_pin a b (\<not> ps_drive_level (get_state_by_address m a b)) m
           | Pin_clear \<Rightarrow> drive_pin a b False m
           | Pin_set \<Rightarrow> drive_pin a b True m))"

definition own_or_release :: "(u16 \<times> u8) option \<Rightarrow> pin_action \<Rightarrow> pin_mux \<Rightarrow> pin_mux" where
  "own_or_release pin action m =
     (case pin of
        None \<Rightarrow> m
      | Some (a, b) \<Rightarrow>
          if action \<noteq> Pin_disconnected then fst (claim_pin_by_address a b Own_timer m)
          else release_pin_by_address a b Own_timer m)"

definition update_pin_ownership :: "timer8 \<Rightarrow> timer8" where
  "update_pin_ownership t =
     t\<lparr>t8_mux := own_or_release (pin_b t) (get_pin_action_b t)
                  (own_or_release (pin_a t) (get_pin_action_a t) (t8_mux t))\<rparr>"

definition is_phase_correct :: "timer8_mode \<Rightarrow> bool" where
  "is_phase_correct md \<longleftrightarrow> md = T8_pc_pwm_ff \<or> md = T8_pc_pwm_ocra"

definition is_fast_pwm :: "timer8_mode \<Rightarrow> bool" where
  "is_fast_pwm md \<longleftrightarrow> md = T8_fast_pwm_ff \<or> md = T8_fast_pwm_ocra"

definition get_top :: "timer8 \<Rightarrow> u8" where
  "get_top t =
     (case t8_mode t of
        T8_ctc_ocra \<Rightarrow> ocra t | T8_pc_pwm_ocra \<Rightarrow> ocra t | T8_fast_pwm_ocra \<Rightarrow> ocra t | _ \<Rightarrow> 0xFF)"

section \<open>Events\<close>

definition t8_call :: "bool \<Rightarrow> timer_call \<Rightarrow> timer8 \<Rightarrow> timer8" where
  "t8_call connected c t = (if connected then t\<lparr>t8_calls := t8_calls t @ [c]\<rparr> else t)"

definition handle_compare_match_a :: "timer8 \<Rightarrow> timer8" where
  "handle_compare_match_a t0 =
     (let d = t8_desc t0;
          t = t8_update_interrupt_state (t0\<lparr>tifr := tifr t0 OR compare_a_enable_mask d\<rparr>);
          action = get_pin_action_a t;
          action = (if is_phase_correct (t8_mode t)
                    then if action = Pin_clear then if counting_up t then Pin_clear else Pin_set
                         else if action = Pin_set then if counting_up t then Pin_set else Pin_clear
                         else action
                    else action);
          t = t\<lparr>t8_mux := apply_pin_action (pin_a t) action (t8_mux t)\<rparr>
      in t8_call (usi_trigger t) Usi_timer0_clock
           (t8_call (dac_trigger t) (Notify_dac (compare_a_trigger_source d))
             (t8_call (adc_on_compare t) (Notify_adc (compare_a_trigger_source d)) t)))"

definition handle_compare_match_b :: "timer8 \<Rightarrow> timer8" where
  "handle_compare_match_b t0 =
     (let t = t8_update_interrupt_state (t0\<lparr>tifr := tifr t0 OR compare_b_enable_mask (t8_desc t0)\<rparr>)
      in t\<lparr>t8_mux := apply_pin_action (pin_b t) (get_pin_action_b t) (t8_mux t)\<rparr>)"

definition handle_overflow :: "timer8 \<Rightarrow> timer8" where
  "handle_overflow t0 =
     (let d = t8_desc t0;
          t = t8_update_interrupt_state (t0\<lparr>tifr := tifr t0 OR overflow_enable_mask d\<rparr>)
      in t8_call (dac_trigger t) (Notify_dac (overflow_trigger_source d))
           (t8_call (adc_on_overflow t) (Notify_adc (overflow_trigger_source d)) t))"

section \<open>Counting\<close>

definition load_compare :: "timer8 \<Rightarrow> timer8" where
  "load_compare t = t\<lparr>ocra := ocra_buffer t, ocrb := ocrb_buffer t\<rparr>"

definition count_phase_correct :: "u8 \<Rightarrow> timer8 \<Rightarrow> timer8" where
  "count_phase_correct tp t =
     (if counting_up t
      then if tcnt t = tp
           then let t = t\<lparr>counting_up := False\<rparr> in if tcnt t > 0 then t\<lparr>tcnt := tcnt t - 1\<rparr> else t
           else let t = t\<lparr>tcnt := tcnt t + 1\<rparr>
                in if tcnt t = tp then load_compare (t\<lparr>counting_up := False\<rparr>) else t
      else if tcnt t = 0
           then let t = handle_overflow (t\<lparr>counting_up := True\<rparr>) in t\<lparr>tcnt := tcnt t + 1\<rparr>
           else t\<lparr>tcnt := tcnt t - 1\<rparr>)"

definition count_fast_pwm :: "u8 \<Rightarrow> timer8 \<Rightarrow> timer8" where
  "count_fast_pwm tp t =
     (if tcnt t = tp then (load_compare (handle_overflow t))\<lparr>tcnt := 0\<rparr> else t\<lparr>tcnt := tcnt t + 1\<rparr>)"

definition count_normal :: "u8 \<Rightarrow> timer8 \<Rightarrow> timer8" where
  "count_normal tp t =
     (if tcnt t = tp
      then (if t8_mode t \<noteq> T8_ctc_ocra \<or> tp = 0xFF then handle_overflow t else t)\<lparr>tcnt := 0\<rparr>
      else t\<lparr>tcnt := tcnt t + 1\<rparr>)"

definition at_bottom :: "pin_action \<Rightarrow> (u16 \<times> u8) option \<Rightarrow> pin_mux \<Rightarrow> pin_mux" where
  "at_bottom action pin m =
     (if action = Pin_clear then apply_pin_action pin Pin_set m
      else if action = Pin_set then apply_pin_action pin Pin_clear m else m)"

definition bottom_pins :: "timer8 \<Rightarrow> timer8" where
  "bottom_pins t = t\<lparr>t8_mux := at_bottom (get_pin_action_b t) (pin_b t)
                                (at_bottom (get_pin_action_a t) (pin_a t) (t8_mux t))\<rparr>"

definition sample_matches :: "bool \<Rightarrow> u8 \<Rightarrow> timer8 \<Rightarrow> timer8" where
  "sample_matches phase_correct prev_tcnt t =
     (if phase_correct
      then let t = (if prev_tcnt = ocra t \<or> tcnt t = ocra t then handle_compare_match_a t else t)
           in if prev_tcnt = ocrb t \<or> tcnt t = ocrb t then handle_compare_match_b t else t
      else let t = (if tcnt t = ocra t then handle_compare_match_a t else t)
           in if tcnt t = ocrb t then handle_compare_match_b t else t)"

definition perform_tick :: "timer8 \<Rightarrow> timer8" where
  "perform_tick t0 =
     (let tp = get_top t0; pc = is_phase_correct (t8_mode t0); fast = is_fast_pwm (t8_mode t0);
          prev_tcnt = tcnt t0;
          t = (if pc then count_phase_correct tp t0
               else if fast then count_fast_pwm tp t0
               else count_normal tp t0);
          t = sample_matches pc prev_tcnt t
      in if \<not> pc \<and> fast \<and> (tcnt t = 0 \<and> tp \<noteq> 0 \<or> tp = 0) then bottom_pins t else t)"

definition perform_ticks :: "u64 \<Rightarrow> timer8 \<Rightarrow> timer8" where
  "perform_ticks ticks = perform_tick ^^ unat ticks"

section \<open>Clocks\<close>

definition sync_prescalers :: "u16 list" where
  "sync_prescalers = [0, 1, 8, 64, 256, 1024]"

definition async_prescalers :: "u16 list" where
  "async_prescalers = [0, 1, 8, 32, 64, 128, 256, 1024]"

definition has_divisor :: "timer8 \<Rightarrow> u8 \<Rightarrow> bool" where
  "has_divisor t cs \<longleftrightarrow>
     \<not> has_async_status_register t \<and> cs \<le> 5 \<or> has_async_status_register t \<and> cs \<le> 7"

definition clock_divisor :: "timer8 \<Rightarrow> u8 \<Rightarrow> u16" where
  "clock_divisor t cs =
     (if has_async_status_register t then async_prescalers ! unat cs else sync_prescalers ! unat cs)"

definition prescale :: "u64 \<Rightarrow> u8 \<Rightarrow> timer8 \<Rightarrow> timer8 \<times> u64" where
  "prescale n cs t =
     (let divisor = ucast (clock_divisor t cs); acc = cycle_accumulator t + n
      in (t\<lparr>cycle_accumulator := acc mod divisor\<rparr>, acc div divisor))"

definition busy_mask :: "timer8_descriptor \<Rightarrow> u8" where
  "busy_mask d = tcn2ub_mask d OR ocr2aub_mask d OR ocr2bub_mask d OR tcr2aub_mask d OR tcr2bub_mask d"

definition retire_async_busy :: "u64 \<Rightarrow> timer8 \<Rightarrow> timer8" where
  "retire_async_busy n t =
     (if \<not> has_async_status_register t then t
      else if assr t AND busy_mask (t8_desc t) = 0 then t
      else if ucast (async_busy_countdown t) > n
      then t\<lparr>async_busy_countdown := async_busy_countdown t - ucast n\<rparr>
      else t\<lparr>async_busy_countdown := 0, assr := assr t AND (as2_mask (t8_desc t) OR exclk_mask (t8_desc t))\<rparr>)"

definition tick_async :: "u64 \<Rightarrow> timer8 \<Rightarrow> timer8" where
  "tick_async elapsed_ticks t0 =
     (let t = (if elapsed_ticks > 0 then retire_async_busy (elapsed_ticks * 512) t0 else t0);
          cs = tccrb t AND 0x07
      in if \<not> async_mode_enabled t then t
         else if cs = 0 then t
         else if has_divisor t cs then let (t, ticks) = prescale elapsed_ticks cs t in perform_ticks ticks t
         else t)"

text \<open>One CPU cycle of an external clock: the T pin is sampled and an edge counts.\<close>

definition t_pin_cycle :: "timer_env \<Rightarrow> u8 \<Rightarrow> timer8 \<Rightarrow> timer8" where
  "t_pin_cycle v cs t =
     (if t_pin_address (t8_desc t) \<noteq> 0
      then let current_state = env_t_level v (t8_mux t);
               edge = (if cs = 6 then last_clk_pin_state t \<and> \<not> current_state
                       else \<not> last_clk_pin_state t \<and> current_state);
               t = (if edge then perform_tick t else t)
           in t\<lparr>last_clk_pin_state := current_state\<rparr>
      else t)"

definition t8_tick :: "timer_env \<Rightarrow> u64 \<Rightarrow> timer8 \<Rightarrow> timer8" where
  "t8_tick v elapsed t0 =
     (if t8_power_reduction v t0 then t0
      else let t = (if elapsed > 0 then retire_async_busy elapsed t0 else t0)
      in if async_mode_enabled t
         then if assr t AND exclk_mask (t8_desc t) = 0
              then let acc = tosc_accumulator t + elapsed; tosc_ticks = acc div 488;
                       t = t\<lparr>tosc_accumulator := acc mod 488\<rparr>
                   in if tosc_ticks > 0 then tick_async tosc_ticks t else t
              else t
         else let cs = tccrb t AND cs_mask (t8_desc t)
              in if cs = 0 then t
                 else if has_divisor t cs
                 then let (t, ticks) = prescale elapsed cs t
                      in if ticks > 0 then perform_ticks ticks t else t
                 else (t_pin_cycle v cs ^^ unat elapsed) t)"

definition t8_external_change :: "u16 \<Rightarrow> u8 \<Rightarrow> bool \<Rightarrow> timer8 \<Rightarrow> timer8 \<times> bool" where
  "t8_external_change address bit_index high t =
     (if address = tosc1_pin_address (t8_desc t) \<and> bit_index = tosc1_pin_bit (t8_desc t) \<and> async_mode_enabled t
      then let t = (if \<not> last_tosc1_state t \<and> high then tick_async 1 t else t)
           in (t\<lparr>last_tosc1_state := high\<rparr>, True)
      else (t, False))"

section \<open>Registers\<close>

definition t8_reset :: "timer_env \<Rightarrow> timer8 \<Rightarrow> timer8" where
  "t8_reset v t =
     t8_update_active_state v (t8_update_interrupt_state (update_pin_ownership
       (t\<lparr>tcnt := 0, ocra := 0, ocrb := 0, ocra_buffer := 0, ocrb_buffer := 0, tccra := 0, tccrb := 0,
          assr := 0, timsk := 0, tifr := 0, t8_mode := T8_normal, counting_up := True,
          cycle_accumulator := 0, last_clk_pin_state := False\<rparr>)))"

definition t8_read :: "timer8 \<Rightarrow> u16 \<Rightarrow> u8" where
  "t8_read t address =
     (let d = t8_desc t
      in if address = tcnt_address d then tcnt t
         else if address = ocra_address d then ocra_buffer t
         else if address = ocrb_address d then ocrb_buffer t
         else if address = tccra_address d then tccra t
         else if address = tccrb_address d then tccrb t
         else if address = assr_address d then assr t
         else if address = timsk_address d then timsk t
         else if address = tifr_address d then tifr t
         else 0)"

definition mark_async_busy :: "u16 \<Rightarrow> timer8 \<Rightarrow> timer8" where
  "mark_async_busy address t =
     (let d = t8_desc t
      in if \<not> async_mode_enabled t then t
         else (if address = tcnt_address d then t\<lparr>assr := assr t OR tcn2ub_mask d\<rparr>
               else if address = ocra_address d then t\<lparr>assr := assr t OR ocr2aub_mask d\<rparr>
               else if address = ocrb_address d then t\<lparr>assr := assr t OR ocr2bub_mask d\<rparr>
               else if address = tccra_address d then t\<lparr>assr := assr t OR tcr2aub_mask d\<rparr>
               else if address = tccrb_address d then t\<lparr>assr := assr t OR tcr2bub_mask d\<rparr>
               else t)\<lparr>async_busy_countdown := 512\<rparr>)"

definition compare_buffered :: "timer8 \<Rightarrow> bool" where
  "compare_buffered t \<longleftrightarrow>
     (t8_mode t \<noteq> T8_normal \<and> t8_mode t \<noteq> T8_ctc_ocra) \<and> \<not> tccrb t AND 0x07 = 0"

definition t8_write :: "timer_env \<Rightarrow> u16 \<Rightarrow> u8 \<Rightarrow> timer8 \<Rightarrow> timer8" where
  "t8_write v address x t =
     (let d = t8_desc t
      in if address = tcnt_address d then mark_async_busy address (t\<lparr>tcnt := x\<rparr>)
         else if address = ocra_address d
         then mark_async_busy address
                (if compare_buffered t then t\<lparr>ocra_buffer := x\<rparr> else t\<lparr>ocra_buffer := x, ocra := x\<rparr>)
         else if address = ocrb_address d
         then mark_async_busy address
                (if compare_buffered t then t\<lparr>ocrb_buffer := x\<rparr> else t\<lparr>ocrb_buffer := x, ocrb := x\<rparr>)
         else if address = tccra_address d
         then mark_async_busy address (update_pin_ownership (update_mode (t\<lparr>tccra := x\<rparr>)))
         else if address = tccrb_address d
         then let t = update_pin_ownership (update_mode (t\<lparr>tccrb := x\<rparr>));
                  t = (if t8_mode t = T8_normal \<or> t8_mode t = T8_ctc_ocra
                       then let t = (if x AND foca_mask d \<noteq> 0 then handle_compare_match_a t else t)
                            in if x AND focb_mask d \<noteq> 0 then handle_compare_match_b t else t
                       else t)
              in t8_update_active_state v (mark_async_busy address t)
         else if address = assr_address d
         then t\<lparr>assr := (assr t AND (as2_mask d OR exclk_mask d OR busy_mask d)) OR (x AND (as2_mask d OR exclk_mask d))\<rparr>
         else if address = timsk_address d then t8_update_interrupt_state (t\<lparr>timsk := x\<rparr>)
         else if address = tifr_address d then t8_update_interrupt_state (t\<lparr>tifr := tifr t AND NOT x\<rparr>)
         else t)"

definition t8_pending_interrupt_request :: "timer8 \<Rightarrow> interrupt_request option" where
  "t8_pending_interrupt_request t =
     (let d = t8_desc t; asks = (\<lambda>mk. tifr t AND mk \<noteq> 0 \<and> timsk t AND mk \<noteq> 0)
      in if asks (compare_a_enable_mask d) then Some (Irq (compare_a_vector_index d) 0)
         else if asks (compare_b_enable_mask d) then Some (Irq (compare_b_vector_index d) 0)
         else if asks (overflow_enable_mask d) then Some (Irq (overflow_vector_index d) 0)
         else None)"

definition t8_consume_interrupt_request :: "timer8 \<Rightarrow> timer8 \<times> interrupt_request option" where
  "t8_consume_interrupt_request t =
     (let d = t8_desc t
      in case t8_pending_interrupt_request t of
           None \<Rightarrow> (t, None)
         | Some r \<Rightarrow>
             (t8_update_interrupt_state
                (t\<lparr>tifr := tifr t AND NOT
                     (if vector_index r = compare_a_vector_index d then compare_a_enable_mask d
                      else if vector_index r = compare_b_vector_index d then compare_b_enable_mask d
                      else overflow_enable_mask d)\<rparr>), Some r))"

section \<open>What a count leaves alone\<close>

lemma update_interrupt_frame [simp]:
  "t8_desc (t8_update_interrupt_state t) = t8_desc t" "tccra (t8_update_interrupt_state t) = tccra t"
  "tccrb (t8_update_interrupt_state t) = tccrb t" "t8_mode (t8_update_interrupt_state t) = t8_mode t"
  "tcnt (t8_update_interrupt_state t) = tcnt t" "tifr (t8_update_interrupt_state t) = tifr t"
  "ocra (t8_update_interrupt_state t) = ocra t" "ocrb (t8_update_interrupt_state t) = ocrb t"
  "assr (t8_update_interrupt_state t) = assr t" "counting_up (t8_update_interrupt_state t) = counting_up t"
  "cycle_accumulator (t8_update_interrupt_state t) = cycle_accumulator t"
  "ocra_buffer (t8_update_interrupt_state t) = ocra_buffer t"
  "ocrb_buffer (t8_update_interrupt_state t) = ocrb_buffer t"
  "t8_update_interrupt_state (t\<lparr>cycle_accumulator := x\<rparr>) = (t8_update_interrupt_state t)\<lparr>cycle_accumulator := x\<rparr>"
  by (simp_all add: t8_update_interrupt_state_def Let_def)

lemma call_frame [simp]:
  "t8_desc (t8_call c k t) = t8_desc t" "tccra (t8_call c k t) = tccra t" "tccrb (t8_call c k t) = tccrb t"
  "t8_mode (t8_call c k t) = t8_mode t" "tcnt (t8_call c k t) = tcnt t" "tifr (t8_call c k t) = tifr t"
  "ocra (t8_call c k t) = ocra t" "ocrb (t8_call c k t) = ocrb t" "assr (t8_call c k t) = assr t"
  "counting_up (t8_call c k t) = counting_up t" "cycle_accumulator (t8_call c k t) = cycle_accumulator t"
  "ocra_buffer (t8_call c k t) = ocra_buffer t" "ocrb_buffer (t8_call c k t) = ocrb_buffer t"
  "usi_trigger (t8_call c k t) = usi_trigger t" "dac_trigger (t8_call c k t) = dac_trigger t"
  "adc_on_compare (t8_call c k t) = adc_on_compare t"
  "t8_call c k (t\<lparr>cycle_accumulator := x\<rparr>) = (t8_call c k t)\<lparr>cycle_accumulator := x\<rparr>"
  by (simp_all add: t8_call_def)

lemma match_frame [simp]:
  "t8_desc (handle_compare_match_a t) = t8_desc t" "t8_desc (handle_compare_match_b t) = t8_desc t"
  "tccrb (handle_compare_match_a t) = tccrb t" "tccrb (handle_compare_match_b t) = tccrb t"
  "t8_mode (handle_compare_match_a t) = t8_mode t" "t8_mode (handle_compare_match_b t) = t8_mode t"
  "tcnt (handle_compare_match_a t) = tcnt t" "tcnt (handle_compare_match_b t) = tcnt t"
  "ocra (handle_compare_match_a t) = ocra t" "ocra (handle_compare_match_b t) = ocra t"
  "ocrb (handle_compare_match_a t) = ocrb t" "ocrb (handle_compare_match_b t) = ocrb t"
  "assr (handle_compare_match_a t) = assr t" "assr (handle_compare_match_b t) = assr t"
  "counting_up (handle_compare_match_a t) = counting_up t" "counting_up (handle_compare_match_b t) = counting_up t"
  "tifr (handle_compare_match_a t) = tifr t OR compare_a_enable_mask (t8_desc t)"
  "tifr (handle_compare_match_b t) = tifr t OR compare_b_enable_mask (t8_desc t)"
  "cycle_accumulator (handle_compare_match_a t) = cycle_accumulator t"
  "cycle_accumulator (handle_compare_match_b t) = cycle_accumulator t"
  by (simp_all add: handle_compare_match_a_def handle_compare_match_b_def Let_def)

lemma overflow_frame [simp]:
  "t8_desc (handle_overflow t) = t8_desc t" "tccrb (handle_overflow t) = tccrb t"
  "t8_mode (handle_overflow t) = t8_mode t" "tcnt (handle_overflow t) = tcnt t" "ocra (handle_overflow t) = ocra t"
  "ocrb (handle_overflow t) = ocrb t" "assr (handle_overflow t) = assr t" "counting_up (handle_overflow t) = counting_up t"
  "tifr (handle_overflow t) = tifr t OR overflow_enable_mask (t8_desc t)"
  "ocra_buffer (handle_overflow t) = ocra_buffer t" "ocrb_buffer (handle_overflow t) = ocrb_buffer t"
  "cycle_accumulator (handle_overflow t) = cycle_accumulator t"
  by (simp_all add: handle_overflow_def Let_def)

text \<open>The prescaler's remainder is not looked at by a count.\<close>

lemma update_interrupt_apart [simp]:
  "t8_update_interrupt_state (t\<lparr>cycle_accumulator := x, tifr := y\<rparr>) =
     (t8_update_interrupt_state (t\<lparr>tifr := y\<rparr>))\<lparr>cycle_accumulator := x\<rparr>"
  "usi_trigger (t8_update_interrupt_state t) = usi_trigger t" "dac_trigger (t8_update_interrupt_state t) = dac_trigger t"
  "adc_on_compare (t8_update_interrupt_state t) = adc_on_compare t"
  "adc_on_overflow (t8_update_interrupt_state t) = adc_on_overflow t"
  "pin_a (t8_update_interrupt_state t) = pin_a t" "pin_b (t8_update_interrupt_state t) = pin_b t"
  "t8_mux (t8_update_interrupt_state t) = t8_mux t"
  "t8_call c k (t\<lparr>cycle_accumulator := x, t8_mux := m\<rparr>) = (t8_call c k (t\<lparr>t8_mux := m\<rparr>))\<lparr>cycle_accumulator := x\<rparr>"
  by (simp_all add: t8_update_interrupt_state_def t8_call_def Let_def)

lemma accumulator_apart [simp]:
  "handle_compare_match_a (t\<lparr>cycle_accumulator := x\<rparr>) = (handle_compare_match_a t)\<lparr>cycle_accumulator := x\<rparr>"
  "handle_compare_match_b (t\<lparr>cycle_accumulator := x\<rparr>) = (handle_compare_match_b t)\<lparr>cycle_accumulator := x\<rparr>"
  "handle_overflow (t\<lparr>cycle_accumulator := x\<rparr>) = (handle_overflow t)\<lparr>cycle_accumulator := x\<rparr>"
  "bottom_pins (t\<lparr>cycle_accumulator := x\<rparr>) = (bottom_pins t)\<lparr>cycle_accumulator := x\<rparr>"
  "load_compare (t\<lparr>cycle_accumulator := x\<rparr>) = (load_compare t)\<lparr>cycle_accumulator := x\<rparr>"
  "get_top (t\<lparr>cycle_accumulator := x\<rparr>) = get_top t"
  by (simp_all add: handle_compare_match_a_def handle_compare_match_b_def handle_overflow_def bottom_pins_def
      load_compare_def get_top_def get_pin_action_a_def get_pin_action_b_def Let_def cong: if_cong split: timer8_mode.split split del: if_split)

lemma event_apart:
  "handle_overflow (t\<lparr>counting_up := b\<rparr>) = (handle_overflow t)\<lparr>counting_up := b\<rparr>"
  "load_compare (t\<lparr>counting_up := b\<rparr>) = (load_compare t)\<lparr>counting_up := b\<rparr>"
  "load_compare (t\<lparr>tcnt := v\<rparr>) = (load_compare t)\<lparr>tcnt := v\<rparr>"
  by (simp_all add: handle_overflow_def load_compare_def t8_update_interrupt_state_def t8_call_def Let_def)

lemma count_apart [simp]:
  "count_phase_correct k (t\<lparr>cycle_accumulator := x\<rparr>) = (count_phase_correct k t)\<lparr>cycle_accumulator := x\<rparr>"
  "count_fast_pwm k (t\<lparr>cycle_accumulator := x\<rparr>) = (count_fast_pwm k t)\<lparr>cycle_accumulator := x\<rparr>"
  "count_normal k (t\<lparr>cycle_accumulator := x\<rparr>) = (count_normal k t)\<lparr>cycle_accumulator := x\<rparr>"
  "sample_matches pc k (t\<lparr>cycle_accumulator := x\<rparr>) = (sample_matches pc k t)\<lparr>cycle_accumulator := x\<rparr>"
  by (simp_all add: count_phase_correct_def count_fast_pwm_def count_normal_def sample_matches_def Let_def event_apart)

lemma perform_tick_apart: "perform_tick (t\<lparr>cycle_accumulator := x\<rparr>) = (perform_tick t)\<lparr>cycle_accumulator := x\<rparr>"
  by (simp add: perform_tick_def Let_def)

lemma perform_ticks_apart:
  "(perform_tick ^^ n) (t\<lparr>cycle_accumulator := x\<rparr>) = ((perform_tick ^^ n) t)\<lparr>cycle_accumulator := x\<rparr>"
  by (induction n) (simp_all add: perform_tick_apart)

lemma count_frame [simp]:
  "t8_desc (count_phase_correct k t) = t8_desc t" "t8_desc (count_fast_pwm k t) = t8_desc t"
  "t8_desc (count_normal k t) = t8_desc t" "tccrb (count_phase_correct k t) = tccrb t"
  "tccrb (count_fast_pwm k t) = tccrb t" "tccrb (count_normal k t) = tccrb t"
  "t8_mode (count_phase_correct k t) = t8_mode t" "t8_mode (count_fast_pwm k t) = t8_mode t"
  "t8_mode (count_normal k t) = t8_mode t"
  "t8_desc (sample_matches pc v t) = t8_desc t" "tccrb (sample_matches pc v t) = tccrb t"
  "t8_mode (sample_matches pc v t) = t8_mode t" "tcnt (sample_matches pc v t) = tcnt t"
  "ocra (sample_matches pc v t) = ocra t" "ocrb (sample_matches pc v t) = ocrb t"
  "t8_desc (bottom_pins t) = t8_desc t" "tccrb (bottom_pins t) = tccrb t" "t8_mode (bottom_pins t) = t8_mode t"
  "tcnt (bottom_pins t) = tcnt t"
  by (simp_all add: count_phase_correct_def count_fast_pwm_def count_normal_def sample_matches_def bottom_pins_def
      load_compare_def Let_def)

lemma perform_tick_frame [simp]:
  "t8_desc (perform_tick t) = t8_desc t" "tccrb (perform_tick t) = tccrb t" "t8_mode (perform_tick t) = t8_mode t"
  by (simp_all add: perform_tick_def Let_def)

lemma perform_ticks_frame [simp]:
  "t8_desc ((perform_tick ^^ n) t) = t8_desc t" "tccrb ((perform_tick ^^ n) t) = tccrb t"
  "t8_mode ((perform_tick ^^ n) t) = t8_mode t"
  by (induction n) simp_all

section \<open>Properties\<close>

text \<open>A timer clocked from the CPU through its prescaler.\<close>

definition prescaled :: "timer_env \<Rightarrow> timer8 \<Rightarrow> bool" where
  "prescaled v t \<longleftrightarrow> \<not> has_async_status_register t \<and> \<not> t8_power_reduction v t \<and>
     tccrb t AND cs_mask (t8_desc t) \<noteq> 0 \<and> tccrb t AND cs_mask (t8_desc t) \<le> 5"

lemma nonzero_byte_cases:
  fixes cs :: u8
  assumes "cs \<noteq> 0" "cs \<le> 5"
  shows "cs \<in> {1, 2, 3, 4, 5}"
proof -
  have "unat cs \<in> {1, 2, 3, 4, 5}"
    using assms unat_eq_0[of cs] by (auto simp: word_le_nat_alt)
  then show ?thesis by (auto simp: word_unat_eq_iff)
qed

lemma divisor_positive:
  assumes "prescaled v t"
  shows "unat (ucast (clock_divisor t (tccrb t AND cs_mask (t8_desc t))) :: u64) > 0"
  using nonzero_byte_cases[of "tccrb t AND cs_mask (t8_desc t)"] assms
  by (auto simp: prescaled_def clock_divisor_def sync_prescalers_def)

lemma prescaled_tick:
  assumes "prescaled v t"
  shows "t8_tick v n t =
    (let d = ucast (clock_divisor t (tccrb t AND cs_mask (t8_desc t))) :: u64; acc = cycle_accumulator t + n
     in ((perform_tick ^^ unat (acc div d)) t)\<lparr>cycle_accumulator := acc mod d\<rparr>)"
  using assms
  by (auto simp: t8_tick_def prescaled_def retire_async_busy_def async_mode_enabled_def has_divisor_def prescale_def
      perform_ticks_def perform_ticks_apart Let_def word_gt_0)

lemma prescaled_later:
  assumes "prescaled v t"
  shows "prescaled v (((perform_tick ^^ k) t)\<lparr>cycle_accumulator := x\<rparr>)"
    and "clock_divisor (((perform_tick ^^ k) t)\<lparr>cycle_accumulator := x\<rparr>) cs = clock_divisor t cs"
  using assms by (simp_all add: prescaled_def has_async_status_register_def t8_power_reduction_def clock_divisor_def)

lemma div_split:
  assumes "(0::nat) < d"
  shows "(x + y) div d = x div d + (x mod d + y) div d"
proof -
  have "x + y = (x mod d + y) + (x div d) * d"
    using div_mult_mod_eq[of x d] by simp
  then show ?thesis using assms by (metis add.commute div_mult_self1 less_not_refl2)
qed


text \<open>The value counted after \<open>n\<close> ticks from \<open>c\<close> with period \<open>top + 1\<close>.\<close>

definition counted :: "nat \<Rightarrow> nat \<Rightarrow> nat \<Rightarrow> nat" where
  "counted limit c n = (c + n) mod (limit + 1)"

lemma counted_Suc: "counted l c (Suc n) = (if counted l c n = l then 0 else counted l c n + 1)"
  by (simp add: counted_def mod_Suc)

lemma counted_le: "counted l c n \<le> l"
  unfolding counted_def using mod_less_divisor[of "l + 1" "c + n"] by linarith

definition one_slope :: "timer8 \<Rightarrow> bool" where
  "one_slope t \<longleftrightarrow> t8_mode t = T8_normal \<or> t8_mode t = T8_ctc_ocra"

lemma one_slope_perform:
  "one_slope t \<Longrightarrow> perform_tick t = sample_matches False (tcnt t) (count_normal (get_top t) t)"
  by (auto simp: one_slope_def perform_tick_def is_phase_correct_def is_fast_pwm_def Let_def)

lemma sample_flags:
  "tifr (sample_matches False v t) = tifr t
     OR (if tcnt t = ocra t then compare_a_enable_mask (t8_desc t) else 0)
     OR (if tcnt t = ocrb t then compare_b_enable_mask (t8_desc t) else 0)"
  by (simp add: sample_matches_def Let_def or.assoc)

lemma count_normal_fields:
  "tcnt (count_normal k t) = (if tcnt t = k then 0 else tcnt t + 1)"
  "ocra (count_normal k t) = ocra t" "ocrb (count_normal k t) = ocrb t"
  "tifr (count_normal k t) = tifr t
     OR (if tcnt t = k \<and> (t8_mode t \<noteq> T8_ctc_ocra \<or> k = 0xFF) then overflow_enable_mask (t8_desc t) else 0)"
  by (simp_all add: count_normal_def)

lemma one_slope_tick:
  assumes "one_slope t"
  shows "tcnt (perform_tick t) = (if tcnt t = get_top t then 0 else tcnt t + 1)"
    and "ocra (perform_tick t) = ocra t" and "ocrb (perform_tick t) = ocrb t"
    and "tifr (perform_tick t) = tifr t
      OR (if tcnt t = get_top t \<and> (t8_mode t \<noteq> T8_ctc_ocra \<or> get_top t = 0xFF) then overflow_enable_mask (t8_desc t) else 0)
      OR (if tcnt (perform_tick t) = ocra t then compare_a_enable_mask (t8_desc t) else 0)
      OR (if tcnt (perform_tick t) = ocrb t then compare_b_enable_mask (t8_desc t) else 0)"
  by (simp_all only: one_slope_perform[OF assms] count_frame sample_flags count_normal_fields or.assoc)

lemma one_slope_top: "one_slope t \<Longrightarrow> get_top (perform_tick t) = get_top t"
  using one_slope_tick(2)[of t] by (auto simp: get_top_def one_slope_def)


text \<open>Timer0 of an ATmega, counting at CPU clock / 64 in CTC mode with OCRA = 249.\<close>

definition timer0 :: timer8 where
  "timer0 = \<lparr>t8_desc = \<lparr>tcnt_address = 0x46, ocra_address = 0x47, ocrb_address = 0x48, tifr_address = 0x35,
       timsk_address = 0x6E, tccra_address = 0x44, tccrb_address = 0x45, assr_address = 0,
       compare_a_vector_index = 14, compare_b_vector_index = 15, overflow_vector_index = 16, t_pin_address = 0,
       tosc1_pin_address = 0, tosc1_pin_bit = 0, wgm0_mask = 3, wgm2_mask = 8, cs_mask = 7, as2_mask = 0x20,
       exclk_mask = 0x40, tcn2ub_mask = 0x10, ocr2aub_mask = 8, ocr2bub_mask = 4, tcr2aub_mask = 2,
       tcr2bub_mask = 1, compare_a_enable_mask = 2, compare_b_enable_mask = 4, overflow_enable_mask = 1,
       foca_mask = 0x80, focb_mask = 0x40, t8_pr_address = 0, t8_pr_bit = 0xFF, compare_a_trigger_source = 0,
       overflow_trigger_source = 0\<rparr>,
     t8_mux = pin_mux_init, tcnt = 0, ocra = 249, ocrb = 0, ocra_buffer = 249, ocrb_buffer = 0, tccra = 2,
     tccrb = 3, assr = 0, timsk = 2, tifr = 0, t8_mode = T8_ctc_ocra, counting_up = True, pin_a = None, pin_b = None,
     last_clk_pin_state = False, last_tosc1_state = False, cycle_accumulator = 0, tosc_accumulator = 0,
     async_busy_countdown = 0, adc_on_compare = False, adc_on_overflow = False, dac_trigger = False,
     usi_trigger = False, t8_interrupt_pending = False, t8_active = True, t8_calls = []\<rparr>"

definition quiet_env :: timer_env where
  "quiet_env = \<lparr>env_prr = 0, env_t_level = \<lambda>_. False\<rparr>"



end
