(* ===== verification/Uart.thy ===== *)
theory Uart
  imports Pins Periph Regmap
begin

text \<open>
  \<open>Uart\<close> (\<open>src/core/uart.cpp\<close>): the asynchronous receiver and transmitter of the classic
  devices.  The transmitter shifts a frame out in CPU cycles and drives TXD, the receiver
  samples RXD in the middle of each bit; frames injected by a host take the time of a frame.
  The power reduction register read from the bus is an argument.  The EUSART partner of the
  AT90PWM devices is absent (\<open>partner_ == nullptr\<close>).
\<close>

section \<open>State\<close>

record uart_descriptor =
  udr_address :: u16
  ucsra_address :: u16
  ucsrb_address :: u16
  ucsrc_address :: u16
  ubrrl_address :: u16
  ubrrh_address :: u16
  ucsrc_reset :: u8
  rx_vector_index :: u8
  udre_vector_index :: u8
  tx_vector_index :: u8
  u2x_mask :: u8
  rxc_mask :: u8
  txc_mask :: u8
  udre_mask :: u8
  rxen_mask :: u8
  txen_mask :: u8
  rxcie_mask :: u8
  txcie_mask :: u8
  udrie_mask :: u8
  mpcm_mask :: u8
  ua_pr_address :: u16
  ua_pr_bit :: u8
  txd_pin_address :: u16
  txd_pin_bit :: u8
  rxd_pin_address :: u16
  rxd_pin_bit :: u8

datatype rx_pin_state = Rx_idle | Rx_start | Rx_data | Rx_parity | Rx_stop

record uart =
  ua_desc :: uart_descriptor
  ua_mux :: pin_mux
  udr_rx :: u16
  udr_tx :: u8
  ucsra :: u8
  ucsrb :: u8
  ucsrc :: u8
  ubrrh :: u8
  ubrrl :: u8
  tx_active :: bool
  tx_shift_reg :: u16
  tx_cycle_accumulator :: u64
  rx_active :: bool
  rx_shift_reg :: u16
  rx_cycle_accumulator :: u64
  rx_frame_error :: bool
  rx_parity_error :: bool
  tx_buffer_full :: bool
  rx_state :: rx_pin_state
  rx_bit_index :: u8
  rx_parity_bits :: u8
  rx_stop_bits :: u8
  rx_sample_in :: u64
  rx_pin_last :: bool
  tx_output_queue :: "u16 list"
  ua_interrupt_pending :: bool

definition kFeMask :: u8 where "kFeMask = 0x10"
definition kDorMask :: u8 where "kDorMask = 0x08"
definition kUpeMask :: u8 where "kUpeMask = 0x04"

definition ua_ranges :: "uart_descriptor \<Rightarrow> address_range list" where
  "ua_ranges d = register_ranges
     [udr_address d, ucsra_address d, ucsrb_address d, ucsrc_address d, ubrrl_address d, ubrrh_address d]"

section \<open>The frame\<close>

definition ua_ubrr :: "uart \<Rightarrow> u16" where
  "ua_ubrr u = push_bit 8 (ucast (ubrrh u)) OR ucast (ubrrl u)"

definition bit_duration :: "uart \<Rightarrow> u32" where
  "bit_duration u = (if ucsra u AND u2x_mask (ua_desc u) \<noteq> 0 then 8 else 16) * (ucast (ua_ubrr u) + 1)"

definition data_bits :: "uart \<Rightarrow> u8" where
  "data_bits u = (if ucsrb u AND 0x04 \<noteq> 0 then 9 else (drop_bit 1 (ucsrc u) AND 0x03) + 5)"

definition parity_bits :: "uart \<Rightarrow> u8" where
  "parity_bits u = (if ucsrc u AND 0x30 \<noteq> 0 then 1 else 0)"

definition stop_bits :: "uart \<Rightarrow> u8" where
  "stop_bits u = (if ucsrc u AND 0x08 \<noteq> 0 then 2 else 1)"

definition frame_bits :: "uart \<Rightarrow> u64" where
  "frame_bits u = 1 + ucast (data_bits u) + ucast (parity_bits u) + ucast (stop_bits u)"

definition frame_limit :: "uart \<Rightarrow> u64" where
  "frame_limit u = ucast (bit_duration u) * frame_bits u"

definition ua_update_interrupt_state :: "uart \<Rightarrow> uart" where
  "ua_update_interrupt_state u =
     (let d = ua_desc u
      in u\<lparr>ua_interrupt_pending :=
             ucsra u AND rxc_mask d \<noteq> 0 \<and> ucsrb u AND rxcie_mask d \<noteq> 0
             \<or> ucsra u AND udre_mask d \<noteq> 0 \<and> ucsrb u AND udrie_mask d \<noteq> 0
             \<or> ucsra u AND txc_mask d \<noteq> 0 \<and> ucsrb u AND txcie_mask d \<noteq> 0\<rparr>)"

section \<open>Transmitter\<close>

definition drive_txd :: "bool \<Rightarrow> uart \<Rightarrow> uart" where
  "drive_txd level u =
     (if txd_pin_address (ua_desc u) \<noteq> 0
      then u\<lparr>ua_mux := update_pin_by_address (txd_pin_address (ua_desc u)) (txd_pin_bit (ua_desc u))
                         Own_uart True level False False (ua_mux u)\<rparr>
      else u)"

definition load_shift :: "uart \<Rightarrow> uart" where
  "load_shift u =
     u\<lparr>tx_shift_reg := push_bit 8 (ucast (ucsrb u AND 0x01)) OR ucast (udr_tx u), tx_buffer_full := False,
       ucsra := (ucsra u OR udre_mask (ua_desc u)) AND NOT (txc_mask (ua_desc u))\<rparr>"

text \<open>The level of the frame at a bit position: start bit, data bits, then idle high.\<close>

definition tx_level :: "uart \<Rightarrow> u64 \<Rightarrow> bool" where
  "tx_level u bit_pos =
     (if bit_pos = 0 then False
      else if bit_pos \<le> ucast (data_bits u) then bit (tx_shift_reg u) (unat (bit_pos - 1))
      else True)"

definition tx_begin :: "uart \<Rightarrow> uart" where
  "tx_begin u =
     (if \<not> tx_active u \<and> tx_buffer_full u \<and> ucsrb u AND txen_mask (ua_desc u) \<noteq> 0
      then drive_txd False ((load_shift u)\<lparr>tx_active := True, tx_cycle_accumulator := 0\<rparr>)
      else u)"

definition tx_shift :: "u64 \<Rightarrow> uart \<Rightarrow> uart" where
  "tx_shift elapsed u0 =
     (if \<not> tx_active u0 then u0
      else let u = u0\<lparr>tx_cycle_accumulator := tx_cycle_accumulator u0 + elapsed\<rparr>;
               limit = frame_limit u;
               bit_pos = tx_cycle_accumulator u div ucast (bit_duration u);
               u = (if tx_cycle_accumulator u < limit \<and> bit_pos < frame_bits u
                    then drive_txd (tx_level u bit_pos) u else u)
           in if tx_cycle_accumulator u \<ge> limit
              then let u = drive_txd True u;
                       u = u\<lparr>tx_output_queue := tx_output_queue u @ [tx_shift_reg u],
                             ucsra := ucsra u OR txc_mask (ua_desc u)\<rparr>
                   in if tx_buffer_full u
                      then drive_txd False ((load_shift u)\<lparr>tx_cycle_accumulator := tx_cycle_accumulator u - limit\<rparr>)
                      else u\<lparr>tx_active := False\<rparr>
              else u)"

section \<open>Receiver on the pin\<close>

definition rx_level :: "uart \<Rightarrow> bool" where
  "rx_level u =
     (let s = get_state_by_address (ua_mux u) (rxd_pin_address (ua_desc u)) (rxd_pin_bit (ua_desc u))
      in if ps_is_output s then ps_drive_level s else True)"

definition ones_below :: "u16 \<Rightarrow> u8 \<Rightarrow> nat" where
  "ones_below w n = length (filter (bit w) [0..<min (unat n) 16])"

text \<open>One sample: the body of the inner loop, with the line level and the frame at hand.\<close>

definition rx_sample :: "uart \<Rightarrow> bool \<Rightarrow> uart \<Rightarrow> uart" where
  "rx_sample f level u =
     (let bit_cycles = ucast (bit_duration f) :: u64
      in if rx_state u = Rx_start \<or> rx_state u = Rx_data
         then let u = (if level \<and> rx_bit_index u < 16
                       then u\<lparr>rx_shift_reg := rx_shift_reg u OR push_bit (unat (rx_bit_index u)) 1\<rparr> else u);
                  u = u\<lparr>rx_bit_index := rx_bit_index u + 1\<rparr>;
                  u = u\<lparr>rx_state := (if rx_bit_index u \<ge> data_bits f
                                     then if rx_parity_bits u \<noteq> 0 then Rx_parity else Rx_stop
                                     else Rx_data)\<rparr>
              in u\<lparr>rx_sample_in := bit_cycles\<rparr>
         else if rx_state u = Rx_parity
         then let total = ones_below (rx_shift_reg u) (data_bits f) + (if level then 1 else 0);
                  wrong = (if ucsrc u AND 0x30 = 0x20 then odd total else even total);
                  u = (if wrong then u\<lparr>ucsra := ucsra u OR kUpeMask\<rparr> else u)
              in u\<lparr>rx_state := Rx_stop, rx_sample_in := bit_cycles\<rparr>
         else let u = (if \<not> level then u\<lparr>ucsra := ucsra u OR kFeMask\<rparr> else u)
              in if rx_stop_bits u > 1
                 then u\<lparr>rx_stop_bits := rx_stop_bits u - 1, rx_sample_in := bit_cycles\<rparr>
                 else (if ucsra u AND rxc_mask (ua_desc u) \<noteq> 0
                       then u\<lparr>ucsra := ucsra u OR kDorMask\<rparr>
                       else u\<lparr>udr_rx := rx_shift_reg u, ucsra := ucsra u OR rxc_mask (ua_desc u)\<rparr>)
                        \<lparr>rx_state := Rx_idle, rx_sample_in := 0\<rparr>)"

lemma bit_duration_positive: "ucast (bit_duration u) \<noteq> (0 :: u64)"
proof -
  have "unat (bit_duration u) = (if ucsra u AND u2x_mask (ua_desc u) \<noteq> 0 then 8 else 16) * (unat (ua_ubrr u) + 1)"
    using u16_less[of "ua_ubrr u"] by (simp add: bit_duration_def unat_word_ariths)
  then have "unat (bit_duration u) \<noteq> 0" by simp
  moreover have "unat (ucast (bit_duration u) :: u64) = unat (bit_duration u)" by (rule unat_ucast_up) simp
  ultimately show ?thesis by (metis unat_0)
qed

lemma rx_sample_ends: "rx_state (rx_sample f level u) = Rx_idle \<or> rx_sample_in (rx_sample f level u) \<noteq> 0"
  using bit_duration_positive[of f] by (simp add: rx_sample_def Let_def)

text \<open>The loop ends because a bit lasts at least eight cycles: \<open>f\<close> is the state it starts in.\<close>

function rx_samples :: "uart \<Rightarrow> bool \<Rightarrow> uart \<Rightarrow> uart" where
  "rx_samples f level u =
     (if rx_state u \<noteq> Rx_idle \<and> rx_sample_in u = 0 then rx_samples f level (rx_sample f level u) else u)"
  by pat_completeness auto
termination
  by (relation "measure (\<lambda>(f, level, u). if rx_state u \<noteq> Rx_idle \<and> rx_sample_in u = 0 then 1 else 0)")
    (use rx_sample_ends in auto)

declare rx_samples.simps [simp del]

definition rx_pin :: "u64 \<Rightarrow> bool \<Rightarrow> uart \<Rightarrow> uart" where
  "rx_pin elapsed level u =
     (let bit_cycles = bit_duration u;
          u' = (if rx_state u = Rx_idle
                then if \<not> level \<and> rx_pin_last u
                     then u\<lparr>rx_state := Rx_start, rx_shift_reg := 0, rx_bit_index := 0,
                            rx_parity_bits := parity_bits u, rx_stop_bits := stop_bits u,
                            rx_sample_in := ucast (bit_cycles + bit_cycles div 2)\<rparr>
                     else u
                else let left = rx_sample_in u - (if rx_sample_in u > elapsed then elapsed else rx_sample_in u)
                     in rx_samples u level (u\<lparr>rx_sample_in := left\<rparr>))
      in u'\<lparr>rx_pin_last := level\<rparr>)"

definition rx_pin_stage :: "u64 \<Rightarrow> uart \<Rightarrow> uart" where
  "rx_pin_stage elapsed u =
     (let enabled = ucsrb u AND rxen_mask (ua_desc u) \<noteq> 0;
          u = (if \<not> enabled then u\<lparr>rx_active := False, rx_state := Rx_idle\<rparr> else u)
      in if enabled \<and> rxd_pin_address (ua_desc u) \<noteq> 0 then rx_pin elapsed (rx_level u) u else u)"

section \<open>Injected frames\<close>

definition rx_timing :: "u64 \<Rightarrow> uart \<Rightarrow> uart" where
  "rx_timing elapsed u0 =
     (if \<not> rx_active u0 then u0
      else let u = u0\<lparr>rx_cycle_accumulator := rx_cycle_accumulator u0 + elapsed\<rparr>
           in if rx_cycle_accumulator u \<ge> frame_limit u
              then let a = ucsra u OR rxc_mask (ua_desc u);
                       a = (if rx_frame_error u then a OR kFeMask else a);
                       a = (if rx_parity_error u \<and> ucsrc u AND 0x30 \<noteq> 0 then a OR kUpeMask else a)
                   in u\<lparr>rx_active := False, ucsra := a, rx_frame_error := False, rx_parity_error := False\<rparr>
              else u)"

section \<open>Operations\<close>

definition ua_power_reduction :: "u8 \<Rightarrow> uart \<Rightarrow> bool" where
  "ua_power_reduction prr u \<longleftrightarrow>
     \<not> (ua_pr_address (ua_desc u) = 0 \<or> ua_pr_bit (ua_desc u) = 0xFF) \<and> bit prr (unat (ua_pr_bit (ua_desc u)))"

definition ua_tick :: "u8 \<Rightarrow> u64 \<Rightarrow> uart \<Rightarrow> uart" where
  "ua_tick prr elapsed u0 =
     (if ua_power_reduction prr u0 then u0
      else let u = rx_timing elapsed (rx_pin_stage elapsed (tx_shift elapsed (tx_begin u0)))
           in if ucsra u \<noteq> ucsra u0 then ua_update_interrupt_state u else u)"

definition ua_reset :: "uart \<Rightarrow> uart" where
  "ua_reset u0 =
     (let d = ua_desc u0;
          u = u0\<lparr>udr_rx := 0, udr_tx := 0, ucsra := udre_mask d, ucsrb := 0, ucsrc := ucsrc_reset d, ubrrh := 0,
                 ubrrl := 0, tx_active := False, rx_active := False, rx_state := Rx_idle, rx_bit_index := 0,
                 rx_parity_bits := 0, rx_stop_bits := 1, rx_sample_in := 0, rx_pin_last := True,
                 tx_cycle_accumulator := 0, rx_cycle_accumulator := 0, tx_output_queue := [],
                 tx_buffer_full := False, rx_shift_reg := 0, rx_frame_error := False, rx_parity_error := False\<rparr>;
          u = (if txd_pin_address d \<noteq> 0
               then u\<lparr>ua_mux := release_pin_by_address (txd_pin_address d) (txd_pin_bit d) Own_uart (ua_mux u)\<rparr>
               else u)
      in ua_update_interrupt_state u)"

definition ua_read :: "u16 \<Rightarrow> uart \<Rightarrow> uart \<times> u8" where
  "ua_read address u =
     (let d = ua_desc u
      in if address = udr_address d
         then (ua_update_interrupt_state
                 (u\<lparr>ucsra := ucsra u AND NOT (rxc_mask d OR kDorMask OR kFeMask OR kUpeMask)\<rparr>),
               ucast (udr_rx u AND 0xFF))
         else if address = ucsra_address d then (u, ucsra u)
         else if address = ucsrb_address d then (u, ucsrb u)
         else if address = ucsrc_address d then (u, ucsrc u)
         else if address = ubrrl_address d then (u, ubrrl u)
         else if address = ubrrh_address d then (u, ubrrh u)
         else (u, 0))"

definition write_ucsrb :: "u8 \<Rightarrow> uart \<Rightarrow> uart" where
  "write_ucsrb v u0 =
     (let d = ua_desc u0; old = ucsrb u0; u = u0\<lparr>ucsrb := v\<rparr>
      in if txd_pin_address d \<noteq> 0
         then if v AND txen_mask d \<noteq> 0 \<and> old AND txen_mask d = 0
              then drive_txd True
                     (u\<lparr>ua_mux := fst (claim_pin_by_address (txd_pin_address d) (txd_pin_bit d) Own_uart (ua_mux u))\<rparr>)
              else if v AND txen_mask d = 0 \<and> old AND txen_mask d \<noteq> 0
              then u\<lparr>ua_mux := release_pin_by_address (txd_pin_address d) (txd_pin_bit d) Own_uart (ua_mux u)\<rparr>
              else u
         else u)"

definition ua_write :: "u16 \<Rightarrow> u8 \<Rightarrow> uart \<Rightarrow> uart" where
  "ua_write address v u =
     (let d = ua_desc u; keep = u2x_mask d OR mpcm_mask d
      in ua_update_interrupt_state
           (if address = udr_address d
            then u\<lparr>udr_tx := v, tx_buffer_full := True, ucsra := ucsra u AND NOT (udre_mask d)\<rparr>
            else if address = ucsra_address d
            then let a = (ucsra u AND NOT keep) OR (v AND keep)
                 in u\<lparr>ucsra := (if v AND txc_mask d \<noteq> 0 then a AND NOT (txc_mask d) else a)\<rparr>
            else if address = ucsrb_address d then write_ucsrb v u
            else if address = ucsrc_address d then u\<lparr>ucsrc := v\<rparr>
            else if address = ubrrl_address d then u\<lparr>ubrrl := v\<rparr>
            else if address = ubrrh_address d then u\<lparr>ubrrh := v AND 0x0F\<rparr>
            else u))"

definition ua_pending_interrupt_request :: "uart \<Rightarrow> interrupt_request option" where
  "ua_pending_interrupt_request u =
     (let d = ua_desc u
      in if ucsra u AND rxc_mask d \<noteq> 0 \<and> ucsrb u AND rxcie_mask d \<noteq> 0 then Some (Irq (rx_vector_index d) 0)
         else if ucsra u AND udre_mask d \<noteq> 0 \<and> ucsrb u AND udrie_mask d \<noteq> 0 then Some (Irq (udre_vector_index d) 0)
         else if ucsra u AND txc_mask d \<noteq> 0 \<and> ucsrb u AND txcie_mask d \<noteq> 0 then Some (Irq (tx_vector_index d) 0)
         else None)"

definition ua_consume_interrupt_request :: "interrupt_request \<Rightarrow> uart \<Rightarrow> uart" where
  "ua_consume_interrupt_request r u =
     (if vector_index r = tx_vector_index (ua_desc u)
      then ua_update_interrupt_state (u\<lparr>ucsra := ucsra u AND NOT (txc_mask (ua_desc u))\<rparr>)
      else u)"

definition inject_received_byte :: "u16 \<Rightarrow> bool \<Rightarrow> bool \<Rightarrow> uart \<Rightarrow> uart \<times> bool" where
  "inject_received_byte data frame_error parity_error u =
     (let d = ua_desc u
      in if ucsrb u AND rxen_mask d = 0 then (u, False)
         else if ucsra u AND mpcm_mask d \<noteq> 0 \<and> ucsrb u AND 0x04 \<noteq> 0 \<and> \<not> bit data 8 then (u, False)
         else if ucsra u AND rxc_mask d \<noteq> 0 \<or> rx_active u then (u\<lparr>ucsra := ucsra u OR kDorMask\<rparr>, False)
         else (ua_update_interrupt_state
                 (u\<lparr>rx_shift_reg := data, udr_rx := data AND 0xFF,
                    ucsrb := (ucsrb u AND NOT 0x02) OR ucast (drop_bit 7 data AND 0x02),
                    rx_frame_error := frame_error, rx_parity_error := parity_error,
                    rx_cycle_accumulator := 0, rx_active := True\<rparr>), True))"

definition consume_transmitted_byte :: "uart \<Rightarrow> uart \<times> u16 option" where
  "consume_transmitted_byte u =
     (case tx_output_queue u of [] \<Rightarrow> (u, None) | x # xs \<Rightarrow> (u\<lparr>tx_output_queue := xs\<rparr>, Some x))"

section \<open>The transmitter through a tick\<close>

text \<open>What the transmitter works on, U2X included.  The receiver leaves it alone.\<close>

definition tx_view where
  "tx_view u = (tx_active u, tx_shift_reg u, tx_cycle_accumulator u, tx_buffer_full u, tx_output_queue u,
     udr_tx u, (ucsrb u, ucsrc u, ubrrh u, ubrrl u), bit (ucsra u) 1, ua_desc u)"

definition usual_masks :: "uart_descriptor \<Rightarrow> bool" where
  "usual_masks d \<longleftrightarrow> u2x_mask d = 0x02 \<and> rxc_mask d = 0x80 \<and> txc_mask d = 0x40 \<and> udre_mask d = 0x20 \<and>
     rxen_mask d = 0x10 \<and> txen_mask d = 0x08 \<and> ua_pr_address d = 0"

lemma u2x_kept [simp]:
  "bit ((a :: u8) OR 0x80) 1 = bit a 1" "bit (a OR kFeMask) 1 = bit a 1" "bit (a OR kUpeMask) 1 = bit a 1"
  "bit (a OR kDorMask) 1 = bit a 1" "bit (a OR 0x40) 1 = bit a 1" "bit ((a OR 0x20) AND NOT 0x40) 1 = bit a 1"
  "bit (a OR 0x80) (Suc 0) = bit a (Suc 0)" "bit (a OR kFeMask) (Suc 0) = bit a (Suc 0)"
  "bit (a OR kUpeMask) (Suc 0) = bit a (Suc 0)" "bit (a OR kDorMask) (Suc 0) = bit a (Suc 0)"
  "bit (a OR 0x40) (Suc 0) = bit a (Suc 0)" "bit ((a OR 0x20) AND NOT 0x40) (Suc 0) = bit a (Suc 0)"
  by (simp_all add: kFeMask_def kUpeMask_def kDorMask_def bit_or_iff bit_and_iff bit_not_iff bit_numeral_rec)

lemma rx_sample_view:
  assumes "usual_masks (ua_desc u)"
  shows "tx_view (rx_sample f level u) = tx_view u" "ua_desc (rx_sample f level u) = ua_desc u"
  using assms by (simp_all add: rx_sample_def tx_view_def usual_masks_def Let_def)

lemma rx_samples_view:
  assumes "usual_masks (ua_desc u)"
  shows "tx_view (rx_samples f level u) = tx_view u"
  using assms
proof (induction f level u rule: rx_samples.induct)
  case (1 f level u)
  then show ?case by (subst rx_samples.simps) (simp add: rx_sample_view)
qed

lemma view_desc: "tx_view u = tx_view u' \<Longrightarrow> ua_desc u = ua_desc u'"
  by (simp add: tx_view_def)

lemma rx_only [simp]:
  "tx_view (v\<lparr>rx_pin_last := level\<rparr>) = tx_view v" "tx_view (v\<lparr>rx_sample_in := k\<rparr>) = tx_view v"
  "tx_view (v\<lparr>rx_active := x, rx_state := y\<rparr>) = tx_view v"
  "tx_view (v\<lparr>rx_state := y, rx_shift_reg := s, rx_bit_index := bi, rx_parity_bits := p, rx_stop_bits := q\<rparr>)
     = tx_view v"
  by (simp_all add: tx_view_def)

lemma rx_pin_view:
  assumes "usual_masks (ua_desc u)"
  shows "tx_view (rx_pin n level u) = tx_view u"
proof (cases "rx_state u = Rx_idle")
  case True
  then show ?thesis by (simp add: rx_pin_def Let_def)
next
  case False
  have "usual_masks (ua_desc (u\<lparr>rx_sample_in := k\<rparr>))" for k using assms by simp
  from rx_samples_view[OF this] show ?thesis using False by (simp add: rx_pin_def Let_def)
qed

lemma rx_timing_view:
  assumes "usual_masks (ua_desc u)"
  shows "tx_view (rx_timing n u) = tx_view u"
proof -
  have "tx_view (u\<lparr>rx_cycle_accumulator := k\<rparr>) = tx_view u"
    "tx_view (u\<lparr>rx_cycle_accumulator := k, rx_active := x, ucsra := a, rx_frame_error := y, rx_parity_error := z\<rparr>) =
       tx_view (u\<lparr>ucsra := a\<rparr>)" for k x y z a
    by (simp_all add: tx_view_def)
  moreover have "tx_view (u\<lparr>ucsra := a\<rparr>) = tx_view u" if "bit a 1 = bit (ucsra u) 1" for a
    using that by (simp add: tx_view_def)
  ultimately show ?thesis
    using assms by (simp add: rx_timing_def usual_masks_def Let_def)
qed

lemma rx_stage_view:
  assumes "usual_masks (ua_desc u)"
  shows "tx_view (rx_timing n (rx_pin_stage n u)) = tx_view u"
proof -
  have "usual_masks (ua_desc (u\<lparr>rx_active := x, rx_state := y\<rparr>))" for x y using assms by simp
  then have pin: "tx_view (rx_pin_stage n u) = tx_view u"
    using assms by (simp add: rx_pin_stage_def rx_pin_view Let_def)
  from rx_timing_view[of "rx_pin_stage n u" n] show ?thesis using assms pin view_desc[OF pin] by simp
qed

lemma drive_frame [simp]:
  "tx_view (drive_txd l u) = tx_view u" "ua_desc (drive_txd l u) = ua_desc u"
  "tx_cycle_accumulator (drive_txd l u) = tx_cycle_accumulator u" "tx_buffer_full (drive_txd l u) = tx_buffer_full u"
  "tx_output_queue (drive_txd l u) = tx_output_queue u" "tx_shift_reg (drive_txd l u) = tx_shift_reg u"
  "ucsra (drive_txd l u) = ucsra u" "ucsrb (drive_txd l u) = ucsrb u" "ucsrc (drive_txd l u) = ucsrc u"
  "ubrrh (drive_txd l u) = ubrrh u" "ubrrl (drive_txd l u) = ubrrl u" "udr_tx (drive_txd l u) = udr_tx u"
  "tx_active (drive_txd l u) = tx_active u"
  by (simp_all add: drive_txd_def tx_view_def)

lemma drive_limit [simp]:
  "frame_limit (drive_txd l u) = frame_limit u" "bit_duration (drive_txd l u) = bit_duration u"
  by (simp_all add: frame_limit_def frame_bits_def bit_duration_def ua_ubrr_def data_bits_def parity_bits_def stop_bits_def)

lemma transmit_desc [simp]: "ua_desc (load_shift u) = ua_desc u" "ua_desc (tx_begin u) = ua_desc u"
  "ua_desc (tx_shift n u) = ua_desc u"
  by (simp_all add: load_shift_def tx_begin_def tx_shift_def Let_def)

lemma tick_view:
  assumes "usual_masks (ua_desc u)"
  shows "tx_view (ua_tick prr n u) = tx_view (tx_shift n (tx_begin u))"
proof -
  have i: "tx_view (ua_update_interrupt_state v) = tx_view v" for v
    by (simp add: ua_update_interrupt_state_def tx_view_def Let_def)
  have "tx_view (rx_timing n (rx_pin_stage n (tx_shift n (tx_begin u)))) = tx_view (tx_shift n (tx_begin u))"
    using assms by (intro rx_stage_view) simp
  moreover have "\<not> ua_power_reduction prr u" using assms by (simp add: ua_power_reduction_def usual_masks_def)
  ultimately show ?thesis by (simp add: ua_tick_def Let_def i)
qed

section \<open>Transmission\<close>

text \<open>A frame \<open>s\<close> of \<open>l\<close> cycles on its way, \<open>a\<close> cycles in; and the transmitter at rest.\<close>

definition sending :: "u64 \<Rightarrow> u16 \<Rightarrow> u16 list \<Rightarrow> nat \<Rightarrow> uart \<Rightarrow> bool" where
  "sending l s q a u \<longleftrightarrow> usual_masks (ua_desc u) \<and> tx_active u \<and> \<not> tx_buffer_full u \<and> tx_shift_reg u = s \<and>
     tx_output_queue u = q \<and> unat (tx_cycle_accumulator u) = a \<and> frame_limit u = l"

definition resting :: "u16 list \<Rightarrow> uart \<Rightarrow> bool" where
  "resting q u \<longleftrightarrow> usual_masks (ua_desc u) \<and> \<not> tx_active u \<and> \<not> tx_buffer_full u \<and> tx_output_queue u = q"

lemma limit_registers:
  assumes "u2x_mask (ua_desc u) = 2" "u2x_mask (ua_desc u') = 2" "bit (ucsra u) 1 = bit (ucsra u') 1"
    and "ucsrb u = ucsrb u'" "ucsrc u = ucsrc u'" "ubrrh u = ubrrh u'" "ubrrl u = ubrrl u'"
  shows "frame_limit u = frame_limit u'"
  using assms by (simp add: frame_limit_def frame_bits_def bit_duration_def ua_ubrr_def
      data_bits_def parity_bits_def stop_bits_def mask_bit)

lemma limit_view:
  assumes "tx_view u = tx_view u'" and "usual_masks (ua_desc u)"
  shows "frame_limit u = frame_limit u'"
  using assms view_desc[OF assms(1)]
  by (intro limit_registers) (simp_all add: tx_view_def usual_masks_def)

lemma sending_view:
  assumes "tx_view u = tx_view u'"
  shows "sending l s q a u = sending l s q a u'" and "resting q u = resting q u'"
proof -
  have "frame_limit u = frame_limit u'" if "usual_masks (ua_desc u)" using limit_view[OF assms that] .
  then show "sending l s q a u = sending l s q a u'" using assms by (auto simp: sending_def tx_view_def)
  show "resting q u = resting q u'" using assms by (simp add: resting_def tx_view_def)
qed

lemma limit_accumulator [simp]: "frame_limit (u\<lparr>tx_cycle_accumulator := x\<rparr>) = frame_limit u"
  by (simp add: frame_limit_def frame_bits_def bit_duration_def ua_ubrr_def data_bits_def parity_bits_def stop_bits_def)

lemma sending_tick:
  assumes "sending l s q a u" and "a + unat n < 2 ^ 64"
  shows "if a + unat n < unat l then sending l s q (a + unat n) (ua_tick prr n u) else resting (q @ [s]) (ua_tick prr n u)"
proof -
  have masks: "usual_masks (ua_desc u)" and active: "tx_active u" "\<not> tx_buffer_full u"
    and acc: "unat (tx_cycle_accumulator u + n) = a + unat n" and l: "frame_limit u = l"
    using assms by (auto simp: sending_def unat_word_ariths)
  have "tx_begin u = u" using active by (simp add: tx_begin_def)
  then have view: "tx_view (ua_tick prr n u) = tx_view (tx_shift n u)" using tick_view[OF masks] by simp
  have reach: "l \<le> tx_cycle_accumulator u + n \<longleftrightarrow> \<not> a + unat n < unat l"
    by (simp add: word_le_nat_alt acc not_less)
  show ?thesis
    unfolding sending_view[OF view] using assms(1) active reach
    by (auto simp: tx_shift_def Let_def l sending_def resting_def acc)
qed

lemma resting_tick:
  assumes "resting q u"
  shows "resting q (ua_tick prr n u)"
proof -
  have "tx_begin u = u" "tx_shift n u = u" using assms by (simp_all add: tx_begin_def tx_shift_def resting_def)
  then have "tx_view (ua_tick prr n u) = tx_view u" using tick_view[of u prr n] assms by (simp add: resting_def)
  then show ?thesis using sending_view(2) assms by metis
qed

lemma begun_tick:
  fixes v :: u8
  assumes "resting q u" and "ucsrb u AND 0x08 \<noteq> 0"
  defines "w \<equiv> ua_write (udr_address (ua_desc u)) v u"
  shows "\<exists>u'. sending (frame_limit u) (push_bit 8 (ucast (ucsrb u AND 0x01)) OR ucast v) q 0 u' \<and>
    (\<forall>n. tx_view (ua_tick prr n w) = tx_view (ua_tick prr n u'))"
proof -
  have masks: "usual_masks (ua_desc u)" using assms(1) by (simp add: resting_def)
  have w: "w = ua_update_interrupt_state (u\<lparr>udr_tx := v, tx_buffer_full := True, ucsra := ucsra u AND NOT 0x20\<rparr>)"
    using masks by (simp add: w_def ua_write_def Let_def usual_masks_def)
  have wd: "ua_desc w = ua_desc u" "\<not> tx_active w" "tx_buffer_full w" "ucsrb w = ucsrb u" "udr_tx w = v"
    "tx_output_queue w = q" "ucsra w = ucsra u AND NOT 0x20" "ucsrc w = ucsrc u" "ubrrh w = ubrrh u" "ubrrl w = ubrrl u"
    using assms(1) by (simp_all add: w ua_update_interrupt_state_def resting_def Let_def)
  let ?b = "tx_begin w"
  have begun: "tx_begin w = drive_txd False ((load_shift w)\<lparr>tx_active := True, tx_cycle_accumulator := 0\<rparr>)"
    using wd assms(2) masks by (simp add: tx_begin_def usual_masks_def)
  have same: "tx_begin ?b = ?b" by (simp add: begun tx_begin_def)
  have "tx_view (ua_tick prr n w) = tx_view (ua_tick prr n ?b)" for n
    using tick_view[of w prr n] tick_view[of ?b prr n] masks by (simp add: wd same)
  moreover have "frame_limit ?b = frame_limit u"
  proof (rule limit_registers)
    have "bit ((ucsra u AND NOT 0x20 OR 0x20) AND NOT 0x40) 1 = bit (ucsra u) 1"
      by (simp add: bit_or_iff bit_and_iff bit_not_iff bit_numeral_rec)
    then show "bit (ucsra ?b) 1 = bit (ucsra u) 1"
      using masks by (simp add: begun wd load_shift_def usual_masks_def)
  qed (use masks in \<open>simp_all add: begun wd load_shift_def usual_masks_def\<close>)
  then have "sending (frame_limit u) (push_bit 8 (ucast (ucsrb u AND 0x01)) OR ucast v) q 0 ?b"
    using masks by (simp add: sending_def begun load_shift_def wd)
  ultimately show ?thesis by blast
qed

definition ticks_of :: "u64 list \<Rightarrow> nat" where
  "ticks_of ns = sum_list (map unat ns)"

lemma resting_ticks: "resting q u \<Longrightarrow> resting q (fold (ua_tick prr) ns u)"
  by (induction ns arbitrary: u) (simp_all add: resting_tick)

lemma sending_ticks:
  assumes "sending l s q a u" and "a + ticks_of ns < 2 ^ 64"
  shows "if a + ticks_of ns < unat l \<or> ns = [] then sending l s q (a + ticks_of ns) (fold (ua_tick prr) ns u)
    else resting (q @ [s]) (fold (ua_tick prr) ns u)"
  using assms
proof (induction ns arbitrary: u a)
  case Nil
  then show ?case by (simp add: ticks_of_def)
next
  case (Cons n ns)
  have n: "a + unat n < 2 ^ 64" using Cons.prems(2) by (simp add: ticks_of_def)
  from sending_tick[OF Cons.prems(1) n, of prr] show ?case
  proof (cases "a + unat n < unat l")
    case True
    then have u': "sending l s q (a + unat n) (ua_tick prr n u)"
      using sending_tick[OF Cons.prems(1) n, of prr] by simp
    show ?thesis
      using Cons.IH[OF u'] Cons.prems(2) True by (cases "ns = []") (auto simp: ticks_of_def add.assoc)
  next
    case False
    then have "resting (q @ [s]) (ua_tick prr n u)"
      using sending_tick[OF Cons.prems(1) n, of prr] by simp
    with resting_ticks False show ?thesis by (simp add: ticks_of_def)
  qed
qed

section \<open>Reception from the pin\<close>

text \<open>Cycle by cycle with the levels of a line, and a receiver \<open>j\<close> bits into the word \<open>w\<close>.\<close>

fun rx_run :: "(nat \<Rightarrow> bool) \<Rightarrow> nat \<Rightarrow> nat \<Rightarrow> uart \<Rightarrow> uart" where
  "rx_run line t 0 u = u"
| "rx_run line t (Suc m) u = rx_run line (Suc t) m (rx_pin 1 (line t) u)"

lemma rx_run_add: "rx_run line t (m + n) u = rx_run line (t + m) n (rx_run line t m u)"
  by (induction m arbitrary: t u) simp_all

definition rx_registers where
  "rx_registers u = (ucsra u, ucsrb u, ucsrc u, ubrrh u, ubrrl u, ua_desc u)"

definition receiving :: "uart \<Rightarrow> u16 \<Rightarrow> nat \<Rightarrow> nat \<Rightarrow> uart \<Rightarrow> bool" where
  "receiving u0 w j s u \<longleftrightarrow> rx_registers u = rx_registers u0 \<and>
     rx_state u = (if j = 0 then Rx_start else if j < unat (data_bits u0) then Rx_data else Rx_stop) \<and>
     rx_bit_index u = of_nat j \<and> rx_shift_reg u = take_bit j w \<and> unat (rx_sample_in u) = s \<and>
     rx_parity_bits u = 0 \<and> rx_stop_bits u = 1"

lemma frame_registers:
  assumes "rx_registers u = rx_registers u0"
  shows "bit_duration u = bit_duration u0" "data_bits u = data_bits u0" "ucsra u = ucsra u0" "ua_desc u = ua_desc u0"
  using assms by (simp_all add: rx_registers_def bit_duration_def data_bits_def ua_ubrr_def)

lemma bit_cycles_nat: "unat (ucast (bit_duration u) :: u64) = unat (bit_duration u)"
  by (rule unat_ucast_up) simp

lemma bit_cycles_large: "unat (bit_duration u) \<ge> 8" "unat (bit_duration u) \<le> 2 ^ 20"
proof -
  have "unat (bit_duration u) = (if ucsra u AND u2x_mask (ua_desc u) \<noteq> 0 then 8 else 16) * (unat (ua_ubrr u) + 1)"
    using u16_less[of "ua_ubrr u"] by (simp add: bit_duration_def unat_word_ariths)
  then show "unat (bit_duration u) \<ge> 8" "unat (bit_duration u) \<le> 2 ^ 20"
    using u16_less[of "ua_ubrr u"] by simp_all
qed

lemma data_bits_range: "5 \<le> unat (data_bits u)" "unat (data_bits u) \<le> 9"
proof -
  have "unat (drop_bit 1 (ucsrc u) AND 0x03) \<le> 3"
    using word_and_le1[of "drop_bit 1 (ucsrc u)" 3] by (simp add: word_le_nat_alt)
  then show "5 \<le> unat (data_bits u)" "unat (data_bits u) \<le> 9"
    by (simp_all add: data_bits_def unat_word_ariths)
qed

lemma receiving_busy: "receiving u0 w j s u \<Longrightarrow> rx_state u \<noteq> Rx_idle"
  by (simp add: receiving_def split: if_splits)

lemma receiving_wait:
  assumes "receiving u0 w j (Suc s) u" and "s > 0"
  shows "receiving u0 w j s (rx_pin 1 level u)"
proof -
  have left: "unat (rx_sample_in u) = Suc s" using assms by (simp add: receiving_def)
  then have "rx_sample_in u > 1" using assms(2) by (simp add: word_less_nat_alt)
  moreover from left have "unat (rx_sample_in u - 1) = s" by (simp add: unat_sub_if')
  moreover from this assms(2) have "rx_sample_in u - 1 \<noteq> 0" by (metis less_not_refl2 unat_0)
  ultimately show ?thesis
    using assms(1) receiving_busy[OF assms(1)]
    by (simp add: rx_pin_def Let_def rx_samples.simps receiving_def rx_registers_def)
qed

lemma rx_samples_once:
  "rx_state u \<noteq> Rx_idle \<Longrightarrow> rx_sample_in u = 0 \<Longrightarrow> rx_samples f level u = rx_sample f level u"
  using rx_sample_ends[of f level u] rx_samples.simps[of f level u] rx_samples.simps[of f level "rx_sample f level u"]
  by auto

lemma rx_pin_sample:
  assumes "rx_state u \<noteq> Rx_idle" and "unat (rx_sample_in u) = 1"
  shows "rx_pin 1 level u = (rx_sample u level (u\<lparr>rx_sample_in := 0\<rparr>))\<lparr>rx_pin_last := level\<rparr>"
proof -
  have "rx_sample_in u = 1" using assms(2) by (simp add: word_unat_eq_iff)
  then show ?thesis using assms(1) by (simp add: rx_pin_def Let_def rx_samples_once)
qed

lemma receiving_bit:
  assumes "receiving u0 w j 1 u" and "j < unat (data_bits u0)" and "level = bit w j"
  shows "receiving u0 w (Suc j) (unat (bit_duration u0)) (rx_pin 1 level u)"
proof -
  let ?n = "unat (data_bits u0)"
  have j: "j < 9" "j < 16" using assms(2) data_bits_range(2)[of u0] by simp_all
  have u: "rx_state u = Rx_start \<or> rx_state u = Rx_data" "rx_bit_index u = of_nat j" "rx_shift_reg u = take_bit j w"
    "rx_parity_bits u = 0" "rx_stop_bits u = 1" "unat (rx_sample_in u) = 1" "rx_registers u = rx_registers u0"
    using assms(1,2) by (auto simp: receiving_def)
  have idx: "unat (of_nat j :: u8) = j" "unat (of_nat j + 1 :: u8) = Suc j" using j by (simp_all add: unat_of_nat unat_word_ariths)
  have small: "(of_nat j :: u8) < 16" using j by (simp add: word_less_nat_alt idx)
  have full: "data_bits u \<le> of_nat j + 1 \<longleftrightarrow> ?n \<le> Suc j"
    using frame_registers(2)[OF u(7)] by (simp add: word_le_nat_alt idx)
  have shift: "(if level then take_bit j w OR push_bit j 1 else take_bit j w) = take_bit (Suc j) w"
    using assms(3) by (intro bit_word_eqI) (auto simp: bit_take_bit_iff bit_or_iff bit_exp_iff bit_1_iff less_Suc_eq)
  have "rx_state u \<noteq> Rx_idle" using u(1) by auto
  note step = rx_pin_sample[OF this u(6)]
  have "rx_sample u level (u\<lparr>rx_sample_in := 0\<rparr>) =
      u\<lparr>rx_sample_in := ucast (bit_duration u), rx_shift_reg := take_bit (Suc j) w, rx_bit_index := of_nat j + 1,
        rx_state := (if ?n \<le> Suc j then Rx_stop else Rx_data)\<rparr>"
    using u(1) shift by (auto simp: rx_sample_def Let_def u(2-5) idx small full)
  then show ?thesis
    using u frame_registers(1)[OF u(7)]
    by (simp add: step receiving_def rx_registers_def bit_cycles_nat not_le add.commute)
qed

lemma receiving_stop:
  assumes "receiving u0 w j 1 u" and "j = unat (data_bits u0)" and "ucsra u0 AND rxc_mask (ua_desc u0) = 0"
  shows "udr_rx (rx_pin 1 True u) = take_bit j w \<and> rx_state (rx_pin 1 True u) = Rx_idle \<and>
    ucsra (rx_pin 1 True u) = ucsra u0 OR rxc_mask (ua_desc u0)"
proof -
  have u: "rx_state u = Rx_stop" "rx_shift_reg u = take_bit j w" "rx_stop_bits u = 1" "unat (rx_sample_in u) = 1"
    "rx_registers u = rx_registers u0"
    using assms(1,2) data_bits_range(1)[of u0] by (auto simp: receiving_def split: if_splits)
  have "rx_state u \<noteq> Rx_idle" using u(1) by auto
  from rx_pin_sample[OF this u(4)] show ?thesis
    using assms(3) u by (simp add: rx_sample_def Let_def rx_registers_def)
qed

lemma receiving_run:
  assumes "receiving u0 w j s u" and "0 < m" "m \<le> s"
  shows "receiving u0 w j (s - m + 1) (rx_run line t (m - 1) u)"
  using assms
proof (induction m arbitrary: s t u)
  case (Suc m)
  show ?case
  proof (cases "m = 0")
    case True
    with Suc.prems show ?thesis by simp
  next
    case False
    then obtain k where m: "m = Suc k" by (cases m) auto
    obtain s' where s: "s = Suc s'" "0 < s'" using Suc.prems m by (cases s) auto
    have "receiving u0 w j s' (rx_pin 1 (line t) u)"
      using receiving_wait[of u0 w j s' u "line t"] Suc.prems(1) s by simp
    from Suc.IH[OF this, of "Suc t"] Suc.prems show ?thesis by (simp add: m s(1))
  qed
qed simp

lemma rx_run_last: "0 < m \<Longrightarrow> rx_run line t m u = rx_pin 1 (line (t + m - 1)) (rx_run line t (m - 1) u)"
  using rx_run_add[of line t "m - 1" 1 u] by simp

lemma pred_mult: "j \<noteq> 0 \<Longrightarrow> (j - 1) * b + b = j * (b::nat)"
  by (cases j) simp_all

lemma receiving_bits:
  assumes "receiving u0 w 0 s u" and "0 < s" and "j \<le> unat (data_bits u0)"
    and "\<forall>i<j. line (t + s + i * unat (bit_duration u0) - 1) = bit w i"
  shows "receiving u0 w j (if j = 0 then s else unat (bit_duration u0))
    (rx_run line t (if j = 0 then 0 else s + (j - 1) * unat (bit_duration u0)) u)"
  using assms(3,4)
proof (induction j)
  case 0
  then show ?case using assms(1) by simp
next
  case (Suc j)
  let ?B = "unat (bit_duration u0)"
  define T where "T = (if j = 0 then 0 else s + (j - 1) * ?B)"
  define S where "S = (if j = 0 then s else ?B)"
  let ?u = "rx_run line t T u"
  have S: "0 < S" "T + S = s + j * ?B"
    using bit_cycles_large(1)[of u0] assms(2) pred_mult[of j ?B] by (simp_all only: S_def T_def) (auto simp: add.assoc)
  have here: "receiving u0 w j S ?u" using Suc.IH Suc.prems by (simp add: T_def S_def)
  have last: "receiving u0 w j 1 (rx_run line (t + T) (S - 1) ?u)"
    using receiving_run[OF here S(1) order_refl, of line "t + T"] by simp
  have "rx_run line t (s + j * ?B) u = rx_pin 1 (line (t + T + S - 1)) (rx_run line (t + T) (S - 1) ?u)"
    using rx_run_add[of line t T S u] rx_run_last[OF S(1), of line "t + T" ?u] S(2) by simp
  moreover have "line (t + T + S - 1) = bit w j" using Suc.prems(2) S(2) by (simp add: add.assoc)
  ultimately show ?case
    using receiving_bit[OF last _ refl] Suc.prems(1) by simp
qed

text \<open>The levels of a frame without parity, one bit after the other.\<close>

definition frame_level :: "u16 \<Rightarrow> nat \<Rightarrow> nat \<Rightarrow> bool" where
  "frame_level w n pos = (if pos = 0 then False else if pos \<le> n then bit w (pos - 1) else True)"

lemma receiving_start:
  assumes "rx_state u = Rx_idle" and "rx_pin_last u" and "parity_bits u = 0" and "stop_bits u = 1"
  shows "receiving u w 0 (unat (bit_duration u) + unat (bit_duration u) div 2) (rx_pin 1 False u)"
proof -
  let ?b = "bit_duration u"
  have "unat (?b + ?b div 2) = unat ?b + unat ?b div 2"
    using bit_cycles_large(2)[of u] by (simp add: unat_word_ariths unat_div_distrib)
  moreover have "unat (ucast (?b + ?b div 2) :: u64) = unat (?b + ?b div 2)" by (rule unat_ucast_up) simp
  ultimately show ?thesis
    using assms by (simp add: rx_pin_def Let_def receiving_def rx_registers_def)
qed

section \<open>Properties\<close>



text \<open>USART0 of an ATmega at 38400 baud from 16 MHz, 8N1, both directions enabled.\<close>

definition usart0 :: uart where
  "usart0 = ua_reset \<lparr>ua_desc = \<lparr>udr_address = 0xC6, ucsra_address = 0xC0, ucsrb_address = 0xC1,
       ucsrc_address = 0xC2, ubrrl_address = 0xC4, ubrrh_address = 0xC5, ucsrc_reset = 0x06, rx_vector_index = 18,
       udre_vector_index = 19, tx_vector_index = 20, u2x_mask = 2, rxc_mask = 0x80, txc_mask = 0x40,
       udre_mask = 0x20, rxen_mask = 0x10, txen_mask = 0x08, rxcie_mask = 0x80, txcie_mask = 0x40,
       udrie_mask = 0x20, mpcm_mask = 1, ua_pr_address = 0, ua_pr_bit = 0xFF, txd_pin_address = 0,
       txd_pin_bit = 1, rxd_pin_address = 0x2B, rxd_pin_bit = 0\<rparr>,
     ua_mux = pin_mux_init, udr_rx = 0, udr_tx = 0, ucsra = 0, ucsrb = 0, ucsrc = 0, ubrrh = 0, ubrrl = 0,
     tx_active = False, tx_shift_reg = 0, tx_cycle_accumulator = 0, rx_active = False, rx_shift_reg = 0,
     rx_cycle_accumulator = 0, rx_frame_error = False, rx_parity_error = False, tx_buffer_full = False,
     rx_state = Rx_idle, rx_bit_index = 0, rx_parity_bits = 0, rx_stop_bits = 0, rx_sample_in = 0,
     rx_pin_last = False, tx_output_queue = [], ua_interrupt_pending = False\<rparr>\<lparr>ucsrb := 0x18, ubrrl := 25\<rparr>"

lemma usart0_fields: "ucsra usart0 = 0x20" "ucsrb usart0 = 0x18" "ucsrc usart0 = 6" "ubrrh usart0 = 0"
  "ubrrl usart0 = 25" "tx_output_queue usart0 = []" "\<not> tx_active usart0" "\<not> tx_buffer_full usart0"
  "rx_state usart0 = Rx_idle" "rx_pin_last usart0" "usual_masks (ua_desc usart0)" "udr_address (ua_desc usart0) = 0xC6"
  "rxc_mask (ua_desc usart0) = 0x80" "u2x_mask (ua_desc usart0) = 2"
  by (simp_all add: usart0_def ua_reset_def ua_update_interrupt_state_def usual_masks_def Let_def)

lemma usart0_frame: "frame_limit usart0 = 4160" "data_bits usart0 = 8" "parity_bits usart0 = 0" "stop_bits usart0 = 1"
  "bit_duration usart0 = 416"
  by (simp_all add: frame_limit_def frame_bits_def bit_duration_def ua_ubrr_def data_bits_def parity_bits_def
      stop_bits_def usart0_fields)



text \<open>With parity enabled the transmitter drives the idle level where the parity bit belongs.\<close>

lemma parity_not_sent: "tx_level u (ucast (data_bits u) + 1)"
proof -
  have "unat (ucast (data_bits u) :: u64) = unat (data_bits u)" by (rule unat_ucast_up) simp
  then have "unat (ucast (data_bits u) + 1 :: u64) = unat (data_bits u) + 1"
    using data_bits_range[of u] by (simp add: unat_word_ariths)
  then show ?thesis
    using \<open>unat (ucast (data_bits u) :: u64) = unat (data_bits u)\<close>
    by (auto simp: tx_level_def word_le_nat_alt dest: arg_cong[of _ 0 unat])
qed

end
