(* ===== verification/Crc.thy ===== *)
theory Crc
  imports Periph
begin

text \<open>
  \<open>Crc8x\<close> (\<open>src/core/crc8x.cpp\<close>): the flash scanner and its CRC-16.  \<open>flash_\<close> is the span of
  flash words given at construction.
\<close>

section \<open>The scanner\<close>

record crc8x =
  crc_ctrla_address :: u16
  crc_ctrlb_address :: u16
  crc_status_address :: u16
  crc_data_address :: u16
  crc_checksum_address :: u16
  crc_flash :: "u16 list"
  crc_ctrla :: u8
  crc_ctrlb :: u8
  crc_status :: u8
  crc_data :: u8
  crc_checksum :: u16
  crc_busy :: bool
  crc_remaining_cycles :: u64

definition crc_mapped_range :: "crc8x \<Rightarrow> address_range" where
  "crc_mapped_range c =
     (let e = crc_ctrla_address c;
          e = (if crc_ctrlb_address c > e then crc_ctrlb_address c else e);
          e = (if crc_status_address c > e then crc_status_address c else e);
          e = (if crc_data_address c > e then crc_data_address c else e);
          k = crc_checksum_address c;
          e = (if k > e then k + 1 else if k \<noteq> 0 \<and> unat k + 1 > unat e then k + 1 else e)
      in \<lparr>range_begin = crc_ctrla_address c, range_end = e\<rparr>)"

definition crc_shift :: "u16 \<Rightarrow> u16" where
  "crc_shift crc = (if crc AND 0x8000 \<noteq> 0 then push_bit 1 crc XOR 0x1021 else push_bit 1 crc)"

definition crc_byte :: "u8 \<Rightarrow> u16 \<Rightarrow> u16" where
  "crc_byte b crc = (crc_shift ^^ 8) (crc XOR push_bit 8 (ucast b))"

definition crc_word :: "u16 \<Rightarrow> u16 \<Rightarrow> u16" where
  "crc_word w crc = crc_byte (ucast (drop_bit 8 w)) (crc_byte (ucast (w AND 0xFF)) crc)"

definition calculate_crc16 :: "u16 list \<Rightarrow> u16" where
  "calculate_crc16 data = fold crc_word data 0xFFFF"

definition crc_start_scan :: "crc8x \<Rightarrow> crc8x" where
  "crc_start_scan c =
     c\<lparr>crc_busy := True, crc_status := (crc_status c OR 0x01) AND NOT 0x02,
       crc_checksum := calculate_crc16 (crc_flash c), crc_remaining_cycles := of_nat (length (crc_flash c))\<rparr>"

definition crc_reset :: "crc8x \<Rightarrow> crc8x" where
  "crc_reset c = c\<lparr>crc_ctrla := 0, crc_ctrlb := 0, crc_status := 0, crc_checksum := 0, crc_busy := False,
     crc_remaining_cycles := 0\<rparr>"

definition crc_tick :: "u64 \<Rightarrow> crc8x \<Rightarrow> crc8x" where
  "crc_tick elapsed c =
     (if \<not> crc_busy c then c
      else if elapsed \<ge> crc_remaining_cycles c
      then c\<lparr>crc_busy := False, crc_remaining_cycles := 0, crc_status := (crc_status c AND NOT 0x01) OR 0x02\<rparr>
      else c\<lparr>crc_remaining_cycles := crc_remaining_cycles c - elapsed\<rparr>)"

definition crc_read :: "crc8x \<Rightarrow> u16 \<Rightarrow> u8" where
  "crc_read c address =
     (if address = crc_ctrla_address c then crc_ctrla c
      else if crc_ctrlb_address c \<noteq> 0 \<and> address = crc_ctrlb_address c then crc_ctrlb c
      else if address = crc_status_address c then crc_status c
      else if crc_data_address c \<noteq> 0 \<and> address = crc_data_address c then crc_data c
      else if crc_checksum_address c \<noteq> 0 \<and> address = crc_checksum_address c
      then ucast (crc_checksum c AND 0xFF)
      else if crc_checksum_address c \<noteq> 0 \<and> unat address = unat (crc_checksum_address c) + 1
      then ucast (drop_bit 8 (crc_checksum c) AND 0xFF)
      else 0)"

definition crc_write :: "u16 \<Rightarrow> u8 \<Rightarrow> crc8x \<Rightarrow> crc8x" where
  "crc_write address v c =
     (if address = crc_ctrla_address c
      then let c = c\<lparr>crc_ctrla := v AND 0x83\<rparr> in if v AND 0x01 \<noteq> 0 then crc_start_scan c else c
      else if crc_ctrlb_address c \<noteq> 0 \<and> address = crc_ctrlb_address c then c\<lparr>crc_ctrlb := v AND 0x33\<rparr>
      else if crc_data_address c \<noteq> 0 \<and> address = crc_data_address c then c\<lparr>crc_data := v\<rparr>
      else c)"

section \<open>The shift register\<close>

lemma crc_shift_bit:
  "bit (crc_shift x) n \<longleftrightarrow> n < 16 \<and> ((n > 0 \<and> bit x (n - 1)) \<noteq> (bit x 15 \<and> bit (0x1021 :: u16) n))"
proof -
  have up: "bit (push_bit 1 x) n \<longleftrightarrow> n < 16 \<and> n > 0 \<and> bit x (n - 1)"
    using bit_push_bit_iff[of 1 x n] by auto
  have poly: "bit (0x1021 :: u16) n \<Longrightarrow> n < 16" using bit_imp_le_length[of "0x1021 :: u16" n] by simp
  show ?thesis
  proof (cases "x AND 0x8000 = 0")
    case True
    then show ?thesis unfolding crc_shift_def using up by (simp add: mask_bit)
  next
    case False
    then have "bit (crc_shift x) n \<longleftrightarrow> bit (push_bit 1 x) n \<noteq> bit (0x1021 :: u16) n"
      by (simp only: crc_shift_def not_False_eq_True if_True bit_xor_iff)
    with False up poly show ?thesis by (auto simp: mask_bit)
  qed
qed

lemma crc_shift_xor: "crc_shift (x XOR y) = crc_shift x XOR crc_shift y"
  by (rule bit_word_eqI) (auto simp: crc_shift_bit bit_xor_iff)

lemma crc_shifts_xor: "(crc_shift ^^ k) (x XOR y) = (crc_shift ^^ k) x XOR (crc_shift ^^ k) y"
  by (induction k) (simp_all add: crc_shift_xor)

text \<open>The polynomial has a constant term, so a shift can be undone.\<close>

lemma crc_shift_inj: "crc_shift x = crc_shift y \<Longrightarrow> x = y"
proof (rule bit_word_eqI)
  fix n
  assume eq: "crc_shift x = crc_shift y" and n: "n < LENGTH(16)"
  have b: "bit (crc_shift x) k = bit (crc_shift y) k" for k by (simp add: eq)
  have "bit x 15 = bit y 15" using b[of 0] by (simp add: crc_shift_bit)
  then show "bit x n = bit y n" using b[of "Suc n"] n by (cases "n = 15") (auto simp: crc_shift_bit)
qed

lemma crc_shifts_inj: "(crc_shift ^^ k) x = (crc_shift ^^ k) y \<Longrightarrow> x = y"
  by (induction k) (auto dest: crc_shift_inj)

text \<open>A byte below the top of the register moves up untouched.\<close>

lemma crc_shifts_low:
  assumes "\<forall>n\<ge>16 - k. \<not> bit x n" and "k \<le> 16"
  shows "(crc_shift ^^ k) x = push_bit k x"
  using assms
proof (induction k)
  case (Suc k)
  have "\<forall>n\<ge>16 - k. \<not> bit x n" using Suc.prems by auto
  then have ih: "(crc_shift ^^ k) x = push_bit k x" using Suc by simp
  have "\<not> bit (push_bit k x) 15" using Suc.prems by (auto simp: bit_push_bit_iff)
  then have "crc_shift (push_bit k x) = push_bit 1 (push_bit k x)" by (simp add: crc_shift_def mask_bit)
  then show ?case by (simp add: ih)
qed simp

definition swap_bytes :: "u16 \<Rightarrow> u16" where
  "swap_bytes w = push_bit 8 w OR drop_bit 8 w"

lemma low_mask: "(w :: u16) AND 0xFF = take_bit 8 w"
  by (simp add: take_bit_eq_mask mask_eq_exp_minus_1)

lemma crc_word_shifts: "crc_word w crc = (crc_shift ^^ 16) (crc XOR swap_bytes w)"
proof -
  let ?lo = "push_bit 8 (ucast (ucast (w AND 0xFF) :: u8)) :: u16" and ?hi = "ucast (ucast (drop_bit 8 w) :: u8) :: u16"
  have "(crc_shift ^^ 8) ?hi = push_bit 8 ?hi"
    by (rule crc_shifts_low) (auto simp: bit_ucast_iff)
  then have "crc_word w crc = (crc_shift ^^ 8) ((crc_shift ^^ 8) (crc XOR ?lo) XOR (crc_shift ^^ 8) ?hi)"
    by (simp add: crc_word_def crc_byte_def)
  also have "\<dots> = (crc_shift ^^ 8) ((crc_shift ^^ 8) (crc XOR ?lo XOR ?hi))"
    by (simp only: crc_shifts_xor xor.assoc)
  also have "\<dots> = (crc_shift ^^ 16) (crc XOR ?lo XOR ?hi)"
    using funpow_add[of 8 8 crc_shift] by simp
  also have "crc XOR ?lo XOR ?hi = crc XOR swap_bytes w"
    by (rule bit_word_eqI)
      (auto simp: swap_bytes_def bit_xor_iff bit_or_iff bit_push_bit_iff bit_ucast_iff bit_drop_bit_eq bit_take_bit_iff
        low_mask dest: bit_imp_le_length)
  finally show ?thesis .
qed

lemma swap_bytes_inj: "swap_bytes v = swap_bytes w \<Longrightarrow> v = w"
proof (rule bit_word_eqI)
  fix n
  assume eq: "swap_bytes v = swap_bytes w" and n: "n < LENGTH(16)"
  have "bit (swap_bytes v) k = bit (swap_bytes w) k" for k by (simp add: eq)
  from this[of "if n < 8 then n + 8 else n - 8"] n show "bit v n = bit w n"
    by (auto simp: swap_bytes_def bit_or_iff bit_push_bit_iff bit_drop_bit_eq dest: bit_imp_le_length split: if_splits)
qed

lemma xor_left_inj: "(x XOR y = x XOR z) = (y = (z :: u16))"
  by (metis xor.assoc xor_self_eq xor.left_neutral)

lemma crc_word_inj: "crc_word v x = crc_word w x \<Longrightarrow> v = w" "crc_word w x = crc_word w y \<Longrightarrow> x = y"
  unfolding crc_word_shifts
  by (auto dest!: crc_shifts_inj swap_bytes_inj simp: xor_left_inj) (metis xor.commute xor_left_inj)

lemma crc_words_inj: "fold crc_word ws x = fold crc_word ws y \<Longrightarrow> x = y"
  by (induction ws arbitrary: x y) (auto dest: crc_word_inj)

section \<open>Properties\<close>

text \<open>
  C31.  The checksum register tells a corrupted flash from an intact one: two images that
  differ in a single word, whatever the difference, have different checksums.
\<close>

theorem crc_detects_word:
  assumes "i < length ws" and "w \<noteq> ws ! i"
  shows "calculate_crc16 (ws[i := w]) \<noteq> calculate_crc16 ws"
proof
  assume "calculate_crc16 (ws[i := w]) = calculate_crc16 ws"
  moreover have "ws = take i ws @ ws ! i # drop (Suc i) ws" using assms(1) by (rule id_take_nth_drop)
  moreover have "ws[i := w] = take i ws @ w # drop (Suc i) ws" using assms(1) by (rule upd_conv_take_nth_drop)
  ultimately have "fold crc_word (take i ws @ w # drop (Suc i) ws) 0xFFFF =
      fold crc_word (take i ws @ ws ! i # drop (Suc i) ws) 0xFFFF"
    unfolding calculate_crc16_def by metis
  then have "crc_word w (fold crc_word (take i ws) 0xFFFF) = crc_word (ws ! i) (fold crc_word (take i ws) 0xFFFF)"
    by (auto dest: crc_words_inj)
  with assms(2) show False by (auto dest: crc_word_inj)
qed

theorem crc_detects_word_witness:
  "calculate_crc16 [0x940C, 0x0034, 0x9509] \<noteq> calculate_crc16 [0x940C, 0x0034, 0x9508]"
  using crc_detects_word[of 2 "[0x940C, 0x0034, 0x9508]" "0x9509"] by simp

text \<open>The polynomial is CRC-16-CCITT: the register after its one-byte message \<open>'A'\<close> is 0xB915.\<close>

lemma crc_byte_example: "crc_byte 0x41 0xFFFF = 0xB915"
  by code_simp

end
