(* ===== verification/Evsys.thy ===== *)
theory Evsys
  imports Periph
begin

text \<open>
  \<open>EventSystem\<close> (\<open>src/core/evsys.cpp\<close>): channels that carry the level of a generator to the
  users that select them, through a routing cache rebuilt on every change of the
  registers.  Callbacks are external code: the model knows which users have one and
  records the calls in order.
\<close>

section \<open>State\<close>

datatype event_call = To_user nat bool | To_listener u8 nat bool

record event_system =
  strobe_address :: u16
  channels_address :: u16
  users_address :: u16
  channel_count :: u8
  user_count :: u8
  ev_strobe :: u8
  channels :: "u8 list"
  users :: "u8 list"
  channel_levels :: "bool list"
  user_callbacks :: "bool list"
  generator_callbacks :: "u8 \<Rightarrow> bool list"
  routing_cache :: "u8 \<Rightarrow> nat list"
  ev_calls :: "event_call list"

section \<open>Operations\<close>

definition users_of_channel :: "u8 list \<Rightarrow> nat \<Rightarrow> nat list" where
  "users_of_channel us c = filter (\<lambda>u. us ! u = of_nat (c + 1)) [0..<length us]"

definition push_users :: "u8 list \<Rightarrow> u8 list \<Rightarrow> nat \<Rightarrow> (u8 \<Rightarrow> nat list) \<Rightarrow> u8 \<Rightarrow> nat list" where
  "push_users cs us c cache =
     (let generator_id = cs ! c
      in if generator_id = 0 then cache
         else cache(generator_id := cache generator_id @ users_of_channel us c))"

definition rebuild_cache :: "event_system \<Rightarrow> event_system" where
  "rebuild_cache e =
     e\<lparr>routing_cache := fold (push_users (channels e) (users e)) [0..<length (channels e)] (\<lambda>_. [])\<rparr>"

definition event_system_init :: "u16 \<Rightarrow> u16 \<Rightarrow> u16 \<Rightarrow> u8 \<Rightarrow> u8 \<Rightarrow> event_system" where
  "event_system_init strobe chans usrs nc nu =
     \<lparr>strobe_address = strobe, channels_address = chans, users_address = usrs, channel_count = nc, user_count = nu,
      ev_strobe = 0, channels = replicate (unat nc) 0, users = replicate (unat nu) 0,
      channel_levels = replicate (unat nc) False, user_callbacks = replicate (unat nu) False,
      generator_callbacks = (\<lambda>_. []), routing_cache = (\<lambda>_. []), ev_calls = []\<rparr>"

definition ev_reset :: "event_system \<Rightarrow> event_system" where
  "ev_reset e = rebuild_cache (e\<lparr>ev_strobe := 0, channels := map (\<lambda>_. 0) (channels e),
     users := map (\<lambda>_. 0) (users e), channel_levels := map (\<lambda>_. False) (channel_levels e)\<rparr>)"

definition in_bank :: "u16 \<Rightarrow> u8 \<Rightarrow> u16 \<Rightarrow> bool" where
  "in_bank base n address \<longleftrightarrow> address \<ge> base \<and> unat address < unat base + unat n"

definition ev_read :: "event_system \<Rightarrow> u16 \<Rightarrow> u8" where
  "ev_read e address =
     (if address = strobe_address e then ev_strobe e
      else if in_bank (channels_address e) (channel_count e) address
      then channels e ! unat (address - channels_address e)
      else if in_bank (users_address e) (user_count e) address
      then users e ! unat (address - users_address e)
      else 0)"

definition call_user :: "bool \<Rightarrow> nat \<Rightarrow> event_system \<Rightarrow> event_system" where
  "call_user level u e = (if user_callbacks e ! u then e\<lparr>ev_calls := ev_calls e @ [To_user u level]\<rparr> else e)"

text \<open>A strobe of channel \<open>i\<close> is a pulse for its users; the channel's level is down again at the end.\<close>

definition strobe_channel :: "nat \<Rightarrow> event_system \<Rightarrow> event_system" where
  "strobe_channel i e0 =
     (let e = e0\<lparr>channel_levels := (channel_levels e0)[i := True]\<rparr>;
          e = fold (\<lambda>u e. if unat (users e ! u) = i + 1 then call_user False u (call_user True u e) else e)
                [0..<length (users e)] e
      in e\<lparr>channel_levels := (channel_levels e)[i := False]\<rparr>)"

definition ev_write :: "u16 \<Rightarrow> u8 \<Rightarrow> event_system \<Rightarrow> event_system" where
  "ev_write address v e =
     (if address = strobe_address e
      then fold (\<lambda>i e. if bit v i then strobe_channel i e else e) [0..<unat (channel_count e)] (e\<lparr>ev_strobe := v\<rparr>)
      else if in_bank (channels_address e) (channel_count e) address
      then rebuild_cache (e\<lparr>channels := (channels e)[unat (address - channels_address e) := v]\<rparr>)
      else if in_bank (users_address e) (user_count e) address
      then rebuild_cache (e\<lparr>users := (users e)[unat (address - users_address e) := v]\<rparr>)
      else e)"

definition call_listeners :: "u8 \<Rightarrow> bool \<Rightarrow> event_system \<Rightarrow> event_system" where
  "call_listeners g level e =
     e\<lparr>ev_calls := ev_calls e @ map (\<lambda>k. To_listener g k level)
         (filter (\<lambda>k. generator_callbacks e g ! k) [0..<length (generator_callbacks e g)])\<rparr>"

definition trigger_event :: "u8 \<Rightarrow> bool \<Rightarrow> event_system \<Rightarrow> event_system" where
  "trigger_event g level e0 =
     (if g = 0 then e0
      else let e = e0\<lparr>channel_levels :=
                 map (\<lambda>c. if channels e0 ! c = g then level else channel_levels e0 ! c) [0..<length (channels e0)]\<rparr>;
               e = call_listeners g level e
           in fold (call_user level) (routing_cache e g) e)"

definition get_channel_level :: "event_system \<Rightarrow> u8 \<Rightarrow> bool" where
  "get_channel_level e c = (if unat c < length (channel_levels e) then channel_levels e ! unat c else False)"

definition get_user_level :: "event_system \<Rightarrow> u8 \<Rightarrow> bool" where
  "get_user_level e u =
     (if unat u < length (users e)
      then let channel_id = users e ! unat u
           in if channel_id > 0 \<and> unat channel_id \<le> length (channel_levels e)
              then channel_levels e ! unat (channel_id - 1) else False
      else False)"

definition register_user_callback :: "u8 \<Rightarrow> event_system \<Rightarrow> event_system" where
  "register_user_callback u e =
     (if unat u < length (user_callbacks e) then e\<lparr>user_callbacks := (user_callbacks e)[unat u := True]\<rparr> else e)"

definition unregister_user_callback :: "u8 \<Rightarrow> event_system \<Rightarrow> event_system" where
  "unregister_user_callback u e =
     (if unat u < length (user_callbacks e) then e\<lparr>user_callbacks := (user_callbacks e)[unat u := False]\<rparr> else e)"

definition register_generator_callback :: "u8 \<Rightarrow> event_system \<Rightarrow> event_system" where
  "register_generator_callback g e =
     (if g \<noteq> 0 then e\<lparr>generator_callbacks := (generator_callbacks e)(g := generator_callbacks e g @ [True])\<rparr> else e)"

section \<open>The cache and the registers\<close>

text \<open>The specification of routing: channel by channel, the users that select it.\<close>

definition routed :: "event_system \<Rightarrow> u8 \<Rightarrow> nat list" where
  "routed e g = concat (map (users_of_channel (users e)) (filter (\<lambda>c. channels e ! c = g) [0..<length (channels e)]))"

definition cache_current :: "event_system \<Rightarrow> bool" where
  "cache_current e \<longleftrightarrow> (\<forall>g. g \<noteq> 0 \<longrightarrow> routing_cache e g = routed e g) \<and>
     length (channel_levels e) = length (channels e)"

lemma push_users_fold:
  "g \<noteq> 0 \<Longrightarrow> fold (push_users cs us) is cache g =
     cache g @ concat (map (users_of_channel us) (filter (\<lambda>c. cs ! c = g) is))"
  by (induction "is" arbitrary: cache) (auto simp: push_users_def Let_def)

lemma rebuild_current: "length (channel_levels e) = length (channels e) \<Longrightarrow> cache_current (rebuild_cache e)"
  by (simp add: cache_current_def rebuild_cache_def routed_def push_users_fold)

inductive ev_reachable :: "event_system \<Rightarrow> bool" where
  start: "ev_reachable (event_system_init s c u nc nu)"
| reset: "ev_reachable e \<Longrightarrow> ev_reachable (ev_reset e)"
| poke: "ev_reachable e \<Longrightarrow> ev_reachable (ev_write a v e)"
| trigger: "ev_reachable e \<Longrightarrow> ev_reachable (trigger_event g level e)"
| user: "ev_reachable e \<Longrightarrow> ev_reachable (register_user_callback k e)"
| no_user: "ev_reachable e \<Longrightarrow> ev_reachable (unregister_user_callback k e)"
| generator: "ev_reachable e \<Longrightarrow> ev_reachable (register_generator_callback g e)"

text \<open>Calls and levels do not touch what routing depends on.\<close>

definition same_routes :: "event_system \<Rightarrow> event_system \<Rightarrow> bool" where
  "same_routes e e' \<longleftrightarrow> channels e = channels e' \<and> users e = users e' \<and> routing_cache e = routing_cache e' \<and>
     length (channel_levels e) = length (channel_levels e')"

lemma same_routes_current: "same_routes e e' \<Longrightarrow> cache_current e = cache_current e'"
  by (simp add: same_routes_def cache_current_def routed_def)

lemma same_routes_trans: "same_routes a b \<Longrightarrow> same_routes b c \<Longrightarrow> same_routes a c"
  by (simp add: same_routes_def)

lemma same_routes_fold:
  assumes "\<And>x e. same_routes (f x e) e"
  shows "same_routes (fold f xs e) e"
proof (induction xs arbitrary: e)
  case (Cons x xs)
  show ?case using same_routes_trans[OF Cons assms[of x e]] by simp
qed (simp add: same_routes_def)

lemma same_routes_call: "same_routes (call_user level u e) e"
  by (simp add: call_user_def same_routes_def)

lemma same_routes_strobe: "same_routes (strobe_channel i e) e"
proof -
  let ?call = "\<lambda>u e. if unat (users e ! u) = i + 1 then call_user False u (call_user True u e) else e"
  have "same_routes (?call u e) e" for u e
    by (simp add: call_user_def same_routes_def)
  from same_routes_fold[of ?call, OF this] show ?thesis
    by (simp add: strobe_channel_def same_routes_def Let_def)
qed

lemma reachable_current: "ev_reachable e \<Longrightarrow> cache_current e"
proof (induction rule: ev_reachable.induct)
  case (start s c u nc nu)
  have "map (\<lambda>_. []) xs = replicate (length xs) []" for xs :: "nat list" by (simp add: map_replicate_const)
  then show ?case
    by (auto simp: cache_current_def event_system_init_def routed_def filter_empty_conv)
next
  case (reset e)
  then show ?case unfolding ev_reset_def by (intro rebuild_current) (simp add: cache_current_def)
next
  case (poke e a v)
  let ?go = "\<lambda>i e. if bit v i then strobe_channel i e else e"
  have "same_routes (?go i e) e" for i e by (simp add: same_routes_strobe) (simp add: same_routes_def)
  from same_routes_current[OF same_routes_fold[of ?go, OF this]]
  have "cache_current (fold ?go is (e\<lparr>ev_strobe := v\<rparr>)) = cache_current (e\<lparr>ev_strobe := v\<rparr>)" for "is" .
  moreover have "cache_current (e\<lparr>ev_strobe := v\<rparr>) = cache_current e" by (simp add: cache_current_def routed_def)
  ultimately show ?case
    using poke.IH rebuild_current[of "e\<lparr>channels := x\<rparr>" for x] rebuild_current[of "e\<lparr>users := x\<rparr>" for x]
    by (simp add: ev_write_def) (simp add: cache_current_def)
next
  case (trigger e g level)
  let ?e = "call_listeners g level (e\<lparr>channel_levels :=
      map (\<lambda>c. if channels e ! c = g then level else channel_levels e ! c) [0..<length (channels e)]\<rparr>)"
  have "same_routes ?e e" using trigger.IH by (simp add: same_routes_def call_listeners_def cache_current_def)
  then have "same_routes (fold (call_user level) us ?e) e" for us
    using same_routes_trans same_routes_fold[of "call_user level", OF same_routes_call] by blast
  from same_routes_current[OF this] trigger.IH show ?case by (simp add: trigger_event_def Let_def)
next
  case (user e k)
  then show ?case by (simp add: register_user_callback_def cache_current_def routed_def)
next
  case (no_user e k)
  then show ?case by (simp add: unregister_user_callback_def cache_current_def routed_def)
next
  case (generator e g)
  then show ?case by (simp add: register_generator_callback_def cache_current_def routed_def)
qed

section \<open>Properties\<close>

text \<open>
  C32.  In every reachable state the routing cache gives what the registers say: an event of a
  generator reaches its direct listeners first, then, channel by channel, exactly the users
  that select a channel carrying that generator and have a callback, each with the level.
\<close>

theorem trigger_routes:
  assumes "ev_reachable e" and "g \<noteq> 0"
  shows "ev_calls (trigger_event g level e) = ev_calls e
    @ map (\<lambda>k. To_listener g k level) (filter (\<lambda>k. generator_callbacks e g ! k) [0..<length (generator_callbacks e g)])
    @ map (\<lambda>u. To_user u level) (filter (\<lambda>u. user_callbacks e ! u) (routed e g))"
proof -
  have "ev_calls (fold (call_user level) us d) =
      ev_calls d @ map (\<lambda>u. To_user u level) (filter (\<lambda>u. user_callbacks d ! u) us)" for us d
    by (induction us arbitrary: d) (auto simp: call_user_def)
  then show ?thesis
    using reachable_current[OF assms(1)] assms(2)
    by (simp add: trigger_event_def Let_def call_listeners_def cache_current_def)
qed

definition wired_events :: event_system where
  "wired_events = ev_write 0x01A3 2 (ev_write 0x0191 0x20
     (register_user_callback 3 (event_system_init 0x0180 0x0190 0x01A0 8 24)))"

theorem trigger_routes_witness:
  "ev_calls (trigger_event 0x20 True wired_events) = [To_user 3 True]"
proof -
  have "ev_reachable wired_events" unfolding wired_events_def by (intro ev_reachable.intros)
  moreover have "ev_calls wired_events = []" "generator_callbacks wired_events 0x20 = []"
    "filter (\<lambda>u. user_callbacks wired_events ! u) (routed wired_events 0x20) = [3]"
    by code_simp+
  ultimately show ?thesis using trigger_routes[of wired_events "0x20" True] by simp
qed

end
