(* ===== verification/Tracebuf.thy ===== *)
theory Tracebuf
  imports Main
begin

text \<open>
  \<open>TraceBuffer\<close> (\<open>src/core/trace_buffer.cpp\<close>): the ring of the last CPU snapshots.  The mutex
  serialises the operations; a snapshot is a value of any type.
\<close>

record 'a trace_buffer =
  tb_buffer :: "'a list"
  tb_head :: nat
  tb_size :: nat

definition tb_capacity :: "'a trace_buffer \<Rightarrow> nat" where
  "tb_capacity b = length (tb_buffer b)"

text \<open>\<open>resize\<close> fills the ring with default snapshots.\<close>

definition tb_init :: "'a \<Rightarrow> nat \<Rightarrow> 'a trace_buffer" where
  "tb_init d capacity = \<lparr>tb_buffer = replicate capacity d, tb_head = 0, tb_size = 0\<rparr>"

definition snapshots :: "'a trace_buffer \<Rightarrow> 'a list" where
  "snapshots b =
     (if tb_size b < tb_capacity b then map (\<lambda>i. tb_buffer b ! i) [0..<tb_size b]
      else map (\<lambda>i. tb_buffer b ! ((tb_head b + i) mod tb_capacity b)) [0..<tb_capacity b])"

definition tb_clear :: "'a trace_buffer \<Rightarrow> 'a trace_buffer" where
  "tb_clear b = b\<lparr>tb_head := 0, tb_size := 0\<rparr>"

text \<open>The snapshot comes from the CPU, when one is connected.\<close>

definition tb_record :: "'a \<Rightarrow> 'a trace_buffer \<Rightarrow> 'a trace_buffer" where
  "tb_record s b =
     b\<lparr>tb_buffer := (tb_buffer b)[tb_head b := s],
       tb_head := (tb_head b + 1) mod tb_capacity b,
       tb_size := (if tb_size b < tb_capacity b then tb_size b + 1 else tb_size b)\<rparr>"

definition tb_on_instruction :: "'a option \<Rightarrow> 'a trace_buffer \<Rightarrow> 'a trace_buffer" where
  "tb_on_instruction cpu b = (case cpu of None \<Rightarrow> b | Some s \<Rightarrow> tb_record s b)"

section \<open>The ring as the end of the history\<close>

text \<open>The abstract buffer is the whole history since the last \<open>clear\<close>; the ring shows its end.\<close>

definition last_of :: "nat \<Rightarrow> 'a list \<Rightarrow> 'a list" where
  "last_of n xs = drop (length xs - n) xs"

text \<open>The representation: the last \<open>n\<close> events lie in the ring, the next one goes to the head.\<close>

definition represents :: "'a trace_buffer \<Rightarrow> 'a list \<Rightarrow> bool" where
  "represents b h \<longleftrightarrow> 0 < tb_capacity b \<and> tb_head b = length h mod tb_capacity b \<and>
     tb_size b = min (length h) (tb_capacity b) \<and>
     (\<forall>i<length h. length h \<le> i + tb_capacity b \<longrightarrow> tb_buffer b ! (i mod tb_capacity b) = h ! i)"

lemma represents_init: "0 < n \<Longrightarrow> represents (tb_init d n) []"
  by (simp add: represents_def tb_init_def tb_capacity_def)

lemma represents_clear: "represents b h \<Longrightarrow> represents (tb_clear b) []"
  by (simp add: represents_def tb_clear_def tb_capacity_def)

lemma mod_window:
  fixes i n c :: nat
  assumes "i mod c = n mod c" and "i < n" and "n < i + c"
  shows False
proof -
  have "c dvd n - i" using assms(1,2) by (metis less_imp_le_nat mod_eq_dvd_iff_nat)
  moreover have "0 < n - i" "n - i < c" using assms(2,3) by auto
  ultimately show False by (meson nat_dvd_not_less)
qed

lemma represents_push:
  assumes "represents b h"
  shows "represents (tb_record s b) (h @ [s])"
proof -
  let ?c = "tb_capacity b" and ?n = "length h"
  have c: "0 < ?c" "tb_head b = ?n mod ?c" "tb_head b < ?c" using assms by (auto simp: represents_def)
  have cap: "tb_capacity (tb_record s b) = ?c" by (simp add: tb_record_def tb_capacity_def)
  have "(tb_buffer b)[tb_head b := s] ! (i mod ?c) = (h @ [s]) ! i" if "i < Suc ?n" "Suc ?n \<le> i + ?c" for i
  proof (cases "i = ?n")
    case True
    then show ?thesis using c by (simp add: tb_capacity_def)
  next
    case False
    then have i: "i < ?n" "?n < i + ?c" using that by auto
    then have "i mod ?c \<noteq> tb_head b" using mod_window[of i ?c ?n] c(2) by auto
    then show ?thesis using assms i by (simp add: represents_def nth_append)
  qed
  then show ?thesis
    using assms c unfolding represents_def cap
    by (auto simp: tb_record_def mod_Suc_eq)
qed

lemma represents_snapshots:
  assumes "represents b h"
  shows "snapshots b = last_of (tb_capacity b) h"
proof (rule nth_equalityI)
  let ?c = "tb_capacity b" and ?n = "length h"
  have r: "0 < ?c" "tb_head b = ?n mod ?c" "tb_size b = min ?n ?c"
    "\<And>i. i < ?n \<Longrightarrow> ?n \<le> i + ?c \<Longrightarrow> tb_buffer b ! (i mod ?c) = h ! i"
    using assms by (auto simp: represents_def)
  show len: "length (snapshots b) = length (last_of ?c h)"
    by (auto simp: snapshots_def last_of_def r(3))
  fix i assume "i < length (snapshots b)"
  then have i: "i < ?n" "i < ?c" unfolding len last_of_def by auto
  show "snapshots b ! i = last_of ?c h ! i"
  proof (cases "?n < ?c")
    case True
    then show ?thesis using i r(4)[of i] by (simp add: snapshots_def last_of_def r(3))
  next
    case False
    have "(?n mod ?c + i) mod ?c = (?n - ?c + i) mod ?c"
      using False by (metis add.commute le_mod_geq mod_add_left_eq not_less)
    moreover have "tb_buffer b ! ((?n - ?c + i) mod ?c) = h ! (?n - ?c + i)"
      using r(4)[of "?n - ?c + i"] False i by simp
    ultimately show ?thesis using False i by (simp add: snapshots_def last_of_def r(2,3))
  qed
qed

text \<open>What a run of instructions adds to the history: the snapshots taken.\<close>

definition taken :: "'a option list \<Rightarrow> 'a list" where
  "taken cs = map the (filter (\<lambda>c. c \<noteq> None) cs)"

lemma represents_run: "represents b h \<Longrightarrow> represents (fold tb_on_instruction cs b) (h @ taken cs)"
proof (induction cs arbitrary: b h)
  case (Cons c cs)
  show ?case
  proof (cases c)
    case None
    then show ?thesis using Cons by (simp add: tb_on_instruction_def taken_def)
  next
    case (Some s)
    from Cons.IH[OF represents_push[OF Cons.prems, of s]] show ?thesis
      by (simp add: Some tb_on_instruction_def taken_def)
  qed
qed (simp add: taken_def)

lemma capacity_run [simp]: "tb_capacity (fold tb_on_instruction cs b) = tb_capacity b"
  by (induction cs arbitrary: b) (auto simp: tb_on_instruction_def tb_record_def tb_capacity_def split: option.split)

section \<open>Properties\<close>

text \<open>
  C33.  The ring implements the history: after any sequence of instructions from an empty
  buffer of positive capacity, \<open>snapshots\<close> returns the last snapshots taken, at most as many as the
  capacity, oldest first; and the same after \<open>clear\<close>.
\<close>

theorem trace_refines_history:
  assumes "0 < capacity"
  shows "snapshots (fold tb_on_instruction hs (tb_init d capacity)) = last_of capacity (taken hs) \<and>
    snapshots (fold tb_on_instruction hs (tb_clear (fold tb_on_instruction gs (tb_init d capacity)))) = last_of capacity (taken hs)"
proof -
  let ?g = "fold tb_on_instruction gs (tb_init d capacity)"
  have r0: "represents (tb_init d capacity) []" by (rule represents_init[OF assms])
  have c0: "tb_capacity (tb_init d capacity) = capacity" by (simp add: tb_init_def tb_capacity_def)
  have r1: "represents (tb_clear ?g) []" by (rule represents_clear[OF represents_run[OF r0]])
  have c1: "tb_capacity (tb_clear ?g) = capacity"
    by (simp add: tb_clear_def tb_capacity_def[of "_\<lparr>tb_head := 0, tb_size := 0\<rparr>"])
       (simp add: tb_capacity_def[symmetric] capacity_run c0)
  show ?thesis
    using represents_snapshots[OF represents_run[OF r0, of hs]]
      represents_snapshots[OF represents_run[OF r1, of hs]]
    by (simp add: capacity_run c0 c1)
qed

theorem trace_refines_history_witness:
  "snapshots (fold tb_on_instruction [Some 1, Some 2, None, Some 3, Some 4, Some 5] (tb_init 0 3)) = [3, 4, 5 :: nat]"
  using trace_refines_history[where capacity = 3 and hs = "[Some 1, Some 2, None, Some 3, Some 4, Some 5 :: nat option]" and d = 0 and gs = "[]"]
  by (simp add: last_of_def taken_def del: One_nat_def)

end
