(* ===== verification/Gdb.thy ===== *)
theory Gdb
  imports Hex Step Stack
begin

text \<open>
  \<open>GdbStub\<close> (\<open>src/core/gdb_stub.cpp\<close>): the server of the GDB remote serial protocol, on
  the machine it debugs.  The socket is the characters the client sends, in order, and the
  characters written back; the end of the input is the client closing the connection, and
  a \<open>read\<close> returns what was asked for as long as the client has sent it.  Each packet is
  handled in one step, as if the CPU's own thread were waiting.  The conversions of the
  C++ library throw on malformed numbers; nothing catches these exceptions, so they are the
  left values of a sum and end the session, as does an index outside an array.  Memory is
  little-endian on the host.
\<close>

datatype gdb_error = Invalid_Argument | Out_Of_Range | Undefined_Access

record gdb_stub =
  gdb_cpu :: machine
  gdb_breakpoints :: "u32 set"
  gdb_connected :: bool
  gdb_output :: string

section \<open>Strings of the C++ library\<close>

text \<open>Positions are 64-bit words; \<open>npos\<close> is the largest one and arithmetic on them wraps.\<close>

definition npos :: u64 where "npos = - 1"

definition find_char :: "char \<Rightarrow> string \<Rightarrow> u64 \<Rightarrow> u64" where
  "find_char c s pos =
     (case filter (\<lambda>i. s ! i = c) [unat pos..<length s] of [] \<Rightarrow> npos | i # _ \<Rightarrow> of_nat i)"

definition substr :: "string \<Rightarrow> u64 \<Rightarrow> u64 \<Rightarrow> gdb_error + string" where
  "substr s pos n =
     (if unat pos > length s then Inl Out_Of_Range else Inr (take (unat n) (drop (unat pos) s)))"

definition starts_with :: "string \<Rightarrow> string \<Rightarrow> bool" where
  "starts_with p s \<longleftrightarrow> take (length p) s = p"

definition is_hex :: "char \<Rightarrow> bool" where
  "is_hex c \<longleftrightarrow> hex_digit c \<noteq> None"

definition hex_value :: "string \<Rightarrow> nat" where
  "hex_value s = fold (\<lambda>c n. 16 * n + the (hex_digit c)) s 0"

definition strip_sign :: "string \<Rightarrow> bool \<times> string" where
  "strip_sign s =
     (case s of
        [] \<Rightarrow> (False, [])
      | c # r \<Rightarrow> if c = CHR ''-'' then (True, r) else if c = CHR ''+'' then (False, r) else (False, s))"

definition strip_0x :: "string \<Rightarrow> string" where
  "strip_0x s =
     (case s of
        z # x # d # r \<Rightarrow>
          if z = CHR ''0'' \<and> (x = CHR ''x'' \<or> x = CHR ''X'') \<and> is_hex d then d # r else s
      | _ \<Rightarrow> s)"

text \<open>What \<open>strtoul(s, _, 16)\<close> scans: white space, a sign, \<open>0x\<close>, and the digits up to the first other character.\<close>

definition scan_hex :: "string \<Rightarrow> (bool \<times> nat) option" where
  "scan_hex s =
     (let (neg, r) = strip_sign (dropWhile is_space s); ds = takeWhile is_hex (strip_0x r)
      in if ds = [] then None else Some (neg, hex_value ds))"

definition stoul :: "string \<Rightarrow> gdb_error + u64" where
  "stoul s =
     (case scan_hex s of
        None \<Rightarrow> Inl Invalid_Argument
      | Some (neg, n) \<Rightarrow> if n \<ge> 2 ^ 64 then Inl Out_Of_Range else Inr (if neg then - of_nat n else of_nat n))"

definition stoi :: "string \<Rightarrow> gdb_error + int" where
  "stoi s =
     (case scan_hex s of
        None \<Rightarrow> Inl Invalid_Argument
      | Some (neg, n) \<Rightarrow>
          let v = (if neg then - int n else int n)
          in if v < - (2 ^ 31) \<or> v \<ge> 2 ^ 31 then Inl Out_Of_Range else Inr v)"

section \<open>Packets\<close>

definition gdb_checksum :: "string \<Rightarrow> u8" where
  "gdb_checksum s = fold (\<lambda>c sum. sum + of_char c) s 0"

definition lower_hex :: "nat \<Rightarrow> char" where
  "lower_hex n = char_of (if n < 10 then 48 + n else 87 + n)"

definition hex_encode :: "u8 list \<Rightarrow> string" where
  "hex_encode bs = concat (map (\<lambda>b. [lower_hex (unat b div 16), lower_hex (unat b mod 16)]) bs)"

definition gdb_write :: "string \<Rightarrow> gdb_stub \<Rightarrow> gdb_stub" where
  "gdb_write s g = g\<lparr>gdb_output := gdb_output g @ s\<rparr>"

definition packet_text :: "string \<Rightarrow> string" where
  "packet_text s = CHR ''$'' # s @ CHR ''#'' # hex_encode [gdb_checksum s]"

definition send_packet :: "string \<Rightarrow> gdb_stub \<Rightarrow> gdb_stub" where
  "send_packet s g = (if \<not> gdb_connected g then g else gdb_write (packet_text s) g)"

definition upd_cpu :: "(machine \<Rightarrow> machine) \<Rightarrow> gdb_stub \<Rightarrow> gdb_stub" where
  "upd_cpu f g = g\<lparr>gdb_cpu := f (gdb_cpu g)\<rparr>"

definition cpu_halt :: "machine \<Rightarrow> machine" where
  "cpu_halt m = m\<lparr>state := Paused\<rparr>"

text \<open>Waiting for the dollar sign; a Ctrl-C on the way halts the CPU.\<close>

fun await_packet :: "string \<Rightarrow> gdb_stub \<Rightarrow> string \<times> gdb_stub" where
  "await_packet [] g = ([], g)"
| "await_packet (c # cs) g =
     (if c = CHR ''$'' then (cs, g)
      else await_packet cs (if c = CHR 0x03 then send_packet ''S05'' (upd_cpu cpu_halt g) else g))"

definition receive_packet :: "string \<Rightarrow> gdb_stub \<Rightarrow> string \<times> string \<times> gdb_stub" where
  "receive_packet input g0 =
     (let (cs, g) = await_packet input g0;
          packet = takeWhile (\<lambda>c. c \<noteq> CHR ''#'') cs;
          rest = drop 1 (dropWhile (\<lambda>c. c \<noteq> CHR ''#'') cs)
      in if length rest < 2 then ([], [], g)
         else (packet, drop 2 rest, gdb_write ''+'' g))"

section \<open>Registers and memory\<close>

definition bytes16 :: "u16 \<Rightarrow> u8 list" where
  "bytes16 w = [ucast w, ucast (drop_bit 8 w)]"

definition bytes32 :: "u32 \<Rightarrow> u8 list" where
  "bytes32 w = [ucast w, ucast (drop_bit 8 w), ucast (drop_bit 16 w), ucast (drop_bit 24 w)]"

definition handle_register_read_all :: "gdb_stub \<Rightarrow> gdb_stub" where
  "handle_register_read_all g =
     (let m = gdb_cpu g
      in send_packet
           (hex_encode (map (\<lambda>i. gpr m (of_nat i)) [0..<32]) @ hex_encode [sreg m]
            @ hex_encode (bytes16 (stack_pointer m)) @ hex_encode (bytes32 (program_counter m * 2))) g)"

definition register_text :: "int \<Rightarrow> machine \<Rightarrow> gdb_error + string" where
  "register_text idx m =
     (if idx < 0 then Inl Undefined_Access
      else if idx < 32 then Inr (hex_encode [gpr m (of_int idx)])
      else if idx = 32 then Inr (hex_encode [sreg m])
      else if idx = 33 then Inr (hex_encode (bytes16 (stack_pointer m)))
      else if idx = 34 then Inr (hex_encode (bytes32 (program_counter m * 2)))
      else Inr ''E01'')"

definition handle_register_read_single :: "string \<Rightarrow> gdb_stub \<Rightarrow> gdb_error + gdb_stub" where
  "handle_register_read_single cmd g =
     bind_err (substr cmd 1 npos) (\<lambda>s.
     bind_err (stoi s) (\<lambda>idx.
     bind_err (register_text idx (gdb_cpu g)) (\<lambda>r. Inr (send_packet r g))))"

definition read_address :: "u32 \<Rightarrow> machine \<Rightarrow> u8 \<times> machine" where
  "read_address a m =
     (if a < 0x800000
      then let (v, b) = read_program_byte a 0xFFFFFFFF (bus m) in (v, m\<lparr>bus := b\<rparr>)
      else if a < 0x810000 then read_data (ucast (a - 0x800000)) m
      else (0, m))"

fun read_memory :: "nat \<Rightarrow> u32 \<Rightarrow> machine \<Rightarrow> u8 list \<times> machine" where
  "read_memory 0 a m = ([], m)"
| "read_memory (Suc n) a m =
     (let (v, m) = read_address a m; (vs, m) = read_memory n (a + 1) m in (v # vs, m))"

definition handle_memory_read :: "string \<Rightarrow> gdb_stub \<Rightarrow> gdb_error + gdb_stub" where
  "handle_memory_read cmd g =
     (let comma = find_char (CHR '','') cmd 0
      in if comma = npos then Inr (send_packet ''E01'' g)
         else bind_err (substr cmd 1 (comma - 1)) (\<lambda>s.
              bind_err (stoul s) (\<lambda>addr.
              bind_err (substr cmd (comma + 1) npos) (\<lambda>s.
              bind_err (stoul s) (\<lambda>len.
                let (vs, m) = read_memory (unat (ucast len :: u32)) (ucast addr) (gdb_cpu g)
                in Inr (send_packet (hex_encode vs) (g\<lparr>gdb_cpu := m\<rparr>)))))))"

text \<open>Writes to the flash space are ignored.\<close>

definition write_address :: "u32 \<Rightarrow> u8 \<Rightarrow> machine \<Rightarrow> machine" where
  "write_address a v m =
     (if a < 0x800000 then m
      else if a < 0x810000 then write_data (ucast (a - 0x800000)) v m
      else m)"

fun write_memory :: "nat \<Rightarrow> u32 \<Rightarrow> u32 \<Rightarrow> string \<Rightarrow> machine \<Rightarrow> gdb_error + machine" where
  "write_memory 0 i addr hx m = Inr m"
| "write_memory (Suc n) i addr hx m =
     bind_err (substr hx (ucast (i * 2)) 2) (\<lambda>b.
     bind_err (stoul b) (\<lambda>v.
     write_memory n (i + 1) addr hx (write_address (addr + i) (ucast v) m)))"

definition handle_memory_write :: "string \<Rightarrow> gdb_stub \<Rightarrow> gdb_error + gdb_stub" where
  "handle_memory_write cmd g =
     (let comma = find_char (CHR '','') cmd 0; colon = find_char (CHR '':'') cmd 0
      in if comma = npos \<or> colon = npos then Inr (send_packet ''E01'' g)
         else bind_err (substr cmd 1 (comma - 1)) (\<lambda>s.
              bind_err (stoul s) (\<lambda>addr.
              bind_err (substr cmd (comma + 1) (colon - comma - 1)) (\<lambda>s.
              bind_err (stoul s) (\<lambda>len.
              bind_err (substr cmd (colon + 1) npos) (\<lambda>hx.
                let len = ucast len :: u32
                in if length hx < unat (len * 2) then Inr (send_packet ''E01'' g)
                   else bind_err (write_memory (unat len) 0 (ucast addr) hx (gdb_cpu g)) (\<lambda>m.
                          Inr (send_packet ''OK'' (g\<lparr>gdb_cpu := m\<rparr>)))))))))"

text \<open>The bytes of a hexadecimal string, two characters at a time.\<close>

fun hex_pairs :: "string \<Rightarrow> gdb_error + u8 list" where
  "hex_pairs [] = Inr []"
| "hex_pairs [c] = bind_err (stoul [c]) (\<lambda>v. Inr [ucast v])"
| "hex_pairs (c # d # cs) =
     bind_err (stoul [c, d]) (\<lambda>v. bind_err (hex_pairs cs) (\<lambda>vs. Inr (ucast v # vs)))"

definition written_pc :: "u8 list \<Rightarrow> u32" where
  "written_pc bs =
     (if length bs \<ge> 4
      then ucast (bs ! 0) OR push_bit 8 (ucast (bs ! 1)) OR push_bit 16 (ucast (bs ! 2)) OR push_bit 24 (ucast (bs ! 3))
      else if length bs \<ge> 2 then ucast (bs ! 0) OR push_bit 8 (ucast (bs ! 1))
      else 0)"

definition put_register :: "u32 \<Rightarrow> u8 list \<Rightarrow> machine \<Rightarrow> gdb_error + machine" where
  "put_register idx bs m =
     (if idx < 32 then Inr (m\<lparr>gpr := (gpr m)(ucast idx := bs ! 0)\<rparr>)
      else if idx = 32 then Inr (m\<lparr>program_counter := written_pc bs div 2\<rparr>)
      else if idx = 33
      then if length bs < 2 then Inl Undefined_Access
           else Inr (m\<lparr>stack_pointer := ucast (bs ! 0) OR push_bit 8 (ucast (bs ! 1))\<rparr>)
      else if idx = 34 then Inr (write_sreg (bs ! 0) m)
      else Inr m)"

definition handle_register_write_single :: "string \<Rightarrow> gdb_stub \<Rightarrow> gdb_error + gdb_stub" where
  "handle_register_write_single cmd g =
     (let eq = find_char (CHR ''='') cmd 0
      in if eq = npos then Inr (send_packet ''E01'' g)
         else bind_err (substr cmd 1 (eq - 1)) (\<lambda>s.
              bind_err (stoul s) (\<lambda>idx.
              bind_err (substr cmd (eq + 1) npos) (\<lambda>hx.
              bind_err (hex_pairs hx) (\<lambda>bs.
                if bs = [] then Inr (send_packet ''E01'' g)
                else bind_err (put_register (ucast idx) bs (gdb_cpu g)) (\<lambda>m.
                       Inr (send_packet ''OK'' (g\<lparr>gdb_cpu := m\<rparr>))))))))"

section \<open>Execution control\<close>

definition handle_continue :: "gdb_stub \<Rightarrow> gdb_stub" where
  "handle_continue g = upd_cpu resume g"

definition handle_step :: "gdb_stub \<Rightarrow> gdb_stub" where
  "handle_step g = send_packet ''S05'' (upd_cpu (\<lambda>m. cpu_halt (step (resume m))) g)"

definition handle_vcont :: "string \<Rightarrow> gdb_stub \<Rightarrow> gdb_stub" where
  "handle_vcont cmd g =
     (if cmd = ''vCont?'' then send_packet ''vCont;c;s;C;S'' g
      else if starts_with ''vCont;c'' cmd then handle_continue g
      else if starts_with ''vCont;s'' cmd then handle_step g
      else send_packet '''' g)"

definition handle_query :: "string \<Rightarrow> gdb_stub \<Rightarrow> gdb_stub" where
  "handle_query cmd g =
     (if cmd = ''qSupported'' then send_packet ''PacketSize=1024;hwbreak+;swbreak+;vCont+'' g
      else if starts_with ''qAttached'' cmd then send_packet ''1'' g
      else if starts_with ''qfThreadInfo'' cmd then send_packet ''m1'' g
      else if starts_with ''qsThreadInfo'' cmd then send_packet ''l'' g
      else if starts_with ''qC'' cmd then send_packet ''QC1'' g
      else send_packet '''' g)"

definition breakpoint_address :: "string \<Rightarrow> gdb_error + u32" where
  "breakpoint_address cmd =
     (let comma1 = find_char (CHR '','') cmd 0; comma2 = find_char (CHR '','') cmd (comma1 + 1)
      in bind_err (substr cmd (comma1 + 1) (comma2 - comma1 - 1)) (\<lambda>s.
         bind_err (stoul s) (\<lambda>addr. Inr (ucast addr))))"

definition handle_breakpoint_set :: "string \<Rightarrow> gdb_stub \<Rightarrow> gdb_error + gdb_stub" where
  "handle_breakpoint_set cmd g =
     bind_err (breakpoint_address cmd) (\<lambda>a.
       Inr (send_packet ''OK'' (g\<lparr>gdb_breakpoints := insert a (gdb_breakpoints g)\<rparr>)))"

definition handle_breakpoint_remove :: "string \<Rightarrow> gdb_stub \<Rightarrow> gdb_error + gdb_stub" where
  "handle_breakpoint_remove cmd g =
     bind_err (breakpoint_address cmd) (\<lambda>a.
       Inr (send_packet ''OK'' (g\<lparr>gdb_breakpoints := gdb_breakpoints g - {a}\<rparr>)))"

definition gdb_on_instruction :: "u32 \<Rightarrow> gdb_stub \<Rightarrow> gdb_stub" where
  "gdb_on_instruction address g =
     (if address * 2 \<in> gdb_breakpoints g then send_packet ''S05'' (upd_cpu cpu_halt g) else g)"

definition handle_packet :: "string \<Rightarrow> gdb_stub \<Rightarrow> gdb_error + gdb_stub" where
  "handle_packet packet g =
     (case packet of
        [] \<Rightarrow> Inr g
      | cmd # _ \<Rightarrow>
          if cmd = CHR ''?'' then Inr (send_packet ''S05'' g)
          else if cmd = CHR ''g'' then Inr (handle_register_read_all g)
          else if cmd = CHR ''m'' then handle_memory_read packet g
          else if cmd = CHR ''M'' then handle_memory_write packet g
          else if cmd = CHR ''p'' then handle_register_read_single packet g
          else if cmd = CHR ''P'' then handle_register_write_single packet g
          else if cmd = CHR ''c'' then Inr (handle_continue g)
          else if cmd = CHR ''s'' then Inr (handle_step g)
          else if cmd = CHR ''Z'' then handle_breakpoint_set packet g
          else if cmd = CHR ''z'' then handle_breakpoint_remove packet g
          else if cmd = CHR ''v''
          then if starts_with ''vCont'' packet then Inr (handle_vcont packet g) else Inr (send_packet '''' g)
          else if cmd = CHR ''q'' then Inr (handle_query packet g)
          else Inr (send_packet '''' g))"

lemma await_shorter: "length (fst (await_packet cs g)) \<le> length cs"
  by (induction cs g rule: await_packet.induct) (auto simp: Let_def)

lemma receive_shorter:
  assumes "receive_packet input g = (packet, rest, g')" and "packet \<noteq> []"
  shows "length rest < length input"
proof -
  obtain cs h where a: "await_packet input g = (cs, h)" by (cases "await_packet input g")
  have "length cs \<le> length input" using await_shorter[of input g] by (simp add: a)
  moreover have "length (dropWhile (\<lambda>c. c \<noteq> CHR ''#'') cs) \<le> length cs" by (rule length_dropWhile_le)
  ultimately show ?thesis using assms by (auto simp: receive_packet_def a Let_def split: if_splits)
qed

function client_loop :: "string \<Rightarrow> gdb_stub \<Rightarrow> gdb_error + gdb_stub" where
  "client_loop input g =
     (if \<not> gdb_connected g then Inr g
      else let (packet, rest, g) = receive_packet input g
           in if packet = [] then Inr g else bind_err (handle_packet packet g) (client_loop rest))"
  by pat_completeness auto
termination
  by (relation "measure (length \<circ> fst)") (auto dest: receive_shorter[OF sym])

declare client_loop.simps [simp del]

text \<open>One client: \<open>accept\<close>, the loop, \<open>close\<close>.\<close>

definition serve_client :: "string \<Rightarrow> gdb_stub \<Rightarrow> gdb_error + gdb_stub" where
  "serve_client input g =
     bind_err (client_loop input (g\<lparr>gdb_connected := True\<rparr>)) (\<lambda>g. Inr (g\<lparr>gdb_connected := False\<rparr>))"

end
