(* ===== verification/DataCells.thy ===== *)
theory DataCells
  imports Stack Quiet
begin

text \<open>
  The plain bytes of the data space, as \<open>read_data\<close> and \<open>write_data\<close> of the bus see them:
  an instance of the memory contract \<open>cell_memory\<close>, for the components that reach memory
  through the bus (the GDB stub, the DMA controller), and that the example machine has some.
\<close>

text \<open>A byte of plain data memory: no mapped window, no peripheral register, not the SPM register.\<close>

definition data_cell :: "machine \<Rightarrow> u16 \<Rightarrow> bool" where
  "data_cell m a \<longleftrightarrow>
     (\<forall>w\<in>{mapped_flash, mapped_fuses, mapped_eeprom, mapped_signatures, mapped_user_signatures}.
        \<not> in_mapped (w (device (bus m))) a) \<and>
     dispatch_table (bus m) a = None \<and> unat a < length (data (bus m)) \<and> a \<noteq> spmcsr_address (device (bus m))"

lemma read_cell: "data_cell m a \<Longrightarrow> read_data a m = (data (bus m) ! unat a, m)"
  by (simp add: data_cell_def read_data_def read_mapped_def sram_value_def Let_def)

lemma write_cell:
  "data_cell m a \<Longrightarrow> write_data a v m = upd_bus (\<lambda>b. b\<lparr>data := (data b)[unat a := v]\<rparr>) m"
  by (simp add: data_cell_def write_data_def write_mapped_def write_mapped_flash_def write_mapped_eeprom_def
      write_mapped_user_row_def write_sram_def upd_bus_def Let_def)

interpretation cells: cell_memory "\<lambda>a m. data (bus m) ! unat a" write_data data_cell
  by unfold_locales (auto simp: write_cell data_cell_def nth_list_update word_unat_eq_iff)

section \<open>Runs of bytes\<close>

definition cells_from :: "machine \<Rightarrow> u16 \<Rightarrow> nat \<Rightarrow> bool" where
  "cells_from m a n \<longleftrightarrow> unat a + n \<le> 65536 \<and> (\<forall>j<n. data_cell m (a + of_nat j))"

definition byte_stores :: "u16 \<Rightarrow> nat \<Rightarrow> u8 list \<Rightarrow> (u16 \<times> u8) list" where
  "byte_stores a k vs = map (\<lambda>j. (a + of_nat (k + j), vs ! j)) [0..<length vs]"

lemma byte_stores_simps [simp]:
  "byte_stores a k [] = []" "byte_stores a k (v # vs) = (a + of_nat k, v) # byte_stores a (Suc k) vs"
  by (simp_all add: byte_stores_def map_upt_Suc del: upt_Suc)

lemma distinct_addresses: "unat (a :: u16) + length vs \<le> 65536 \<Longrightarrow> distinct (map fst (byte_stores a 0 vs))"
proof -
  assume le: "unat a + length vs \<le> 65536"
  have "unat (a + of_nat j) = unat a + j" if "j < length vs" for j
    using that le by (simp add: unat_word_ariths unat_of_nat take_bit_nat_eq_self)
  then show ?thesis
    by (auto simp: byte_stores_def distinct_map comp_def inj_on_def word_unat_eq_iff)
qed

lemma stored_bytes:
  assumes "cells_from m a (length bs)"
  shows "cells_from (cells.stores (byte_stores a 0 bs) m) a (length bs)"
    and "map (\<lambda>j. data (bus (cells.stores (byte_stores a 0 bs) m)) ! unat (a + of_nat j)) [0..<length bs] = bs"
proof -
  have all: "\<forall>(b, v)\<in>set (byte_stores a 0 bs). data_cell m b"
    using assms by (auto simp: cells_from_def byte_stores_def)
  show "cells_from (cells.stores (byte_stores a 0 bs) m) a (length bs)"
    using assms cells.cell_stores[OF all] by (simp add: cells_from_def)
  have "(a + of_nat j, bs ! j) \<in> set (byte_stores a 0 bs)" if "j < length bs" for j
    using that by (auto simp: byte_stores_def)
  then have "data (bus (cells.stores (byte_stores a 0 bs) m)) ! unat (a + of_nat j) = bs ! j" if "j < length bs" for j
    using that cells.load_stored[OF all distinct_addresses] assms by (simp add: cells_from_def)
  then show "map (\<lambda>j. data (bus (cells.stores (byte_stores a 0 bs) m)) ! unat (a + of_nat j)) [0..<length bs] = bs"
    by (intro nth_equalityI) simp_all
qed

section \<open>The example machine\<close>

lemma map_address_other: "a \<noteq> c \<Longrightarrow> dispatch_table (map_address i c b) a = dispatch_table b a"
  by (simp add: map_address_def Let_def split: option.split dispatch_target.split)

lemma map_range_other:
  assumes "\<not> range_contains r a"
  shows "dispatch_table (map_range i r b) a = dispatch_table b a"
proof -
  have keep: "dispatch_table (fold (\<lambda>x. map_address i (of_nat x)) xs b) a = dispatch_table b a"
    if "\<forall>x\<in>set xs. a \<noteq> of_nat x" for xs b
    using that by (induction xs arbitrary: b) (simp_all add: map_address_other)
  have "a \<noteq> of_nat x" if "x \<in> {unat (range_begin r)..<Suc (unat (range_end r))}" for x
  proof
    assume a: "a = of_nat x"
    have "x < 65536" using that u16_less[of "range_end r"] by simp
    then have "unat a = x" by (simp add: a unat_of_nat take_bit_nat_eq_self)
    then show False using assms that by (auto simp: range_contains_def word_le_nat_alt)
  qed
  then show ?thesis unfolding map_range_def by (intro keep) (simp only: set_upt, blast)
qed

lemma attach_other:
  assumes "\<forall>r\<in>set rs. \<not> range_contains r a"
  shows "dispatch_table (attach_peripheral n k rs b) a = dispatch_table b a"
proof -
  have "dispatch_table (fold (map_range i) rs b) a = dispatch_table b a" for i b
    using assms by (induction rs arbitrary: b) (simp_all add: map_range_other)
  then show ?thesis by (simp add: attach_peripheral_def Let_def)
qed

lemma sample_cell:
  assumes "0x110 \<le> a" and "a < 0x120"
  shows "data_cell (ready_machine prog) a"
proof -
  have end_address: "data_end_address sample_device = 319"
    by (simp add: sample_device_def default_device_def data_end_address_def)
  have mapped: "\<not> in_mapped (mapped_flash sample_device) a" "\<not> in_mapped (mapped_fuses sample_device) a"
    "\<not> in_mapped (mapped_eeprom sample_device) a" "\<not> in_mapped (mapped_signatures sample_device) a"
    "\<not> in_mapped (mapped_user_signatures sample_device) a" "spmcsr_address sample_device \<noteq> a"
    using assms by (auto simp: sample_device_def default_device_def in_mapped_def no_mapped_def)
  have keep: "dispatch_table (reset_bus_state b) = dispatch_table b" "dispatch_table (set_last_update i t b) = dispatch_table b"
    "dispatch_table (load_flash ws b) = dispatch_table b" "dispatch_table (memory_bus_init d) = Map.empty" for b i t ws d
    by (simp_all add: reset_bus_state_def set_last_update_def load_flash_def Let_def memory_bus_init_def memory_bus_fields_def)
  have ranges: "\<forall>r\<in>set (control_ranges sample_device). \<not> range_contains r a"
    "\<not> range_contains (register_file_range sample_device) a"
    using assms
    by (auto simp: control_ranges_def sample_device_def default_device_def one_address_def Let_def range_contains_def
        word_le_nat_alt word_less_nat_alt)
  have "dispatch_table (bus (sample_machine prog)) a = None"
    using ranges by (simp add: sample_machine_bus keep attach_other)
  then show ?thesis
    using mapped assms by (simp add: data_cell_def end_address word_le_nat_alt word_less_nat_alt)
qed

end
