(* ===== verification/GdbSpec.thy ===== *)
theory GdbSpec
  imports Gdb DataCells
begin

text \<open>
  What the GDB stub promises: packets are framed and acknowledged, numbers are read back,
  memory written through the protocol is read back through it.
\<close>

section \<open>Numbers and fields\<close>

lemma hex_lower [simp]: "n < 16 \<Longrightarrow> hex_digit (lower_hex n) = Some n"
  by (auto simp: hex_digit_def lower_hex_def Let_def)

lemma is_hex_lower [simp]: "n < 16 \<Longrightarrow> is_hex (lower_hex n)"
  by (simp add: is_hex_def)

lemma not_hex [simp]:
  "\<not> is_hex (CHR '','')" "\<not> is_hex (CHR '':'')" "\<not> is_hex (CHR ''#'')" "\<not> is_hex (CHR ''='')"
  "\<not> is_hex (CHR ''-'')" "\<not> is_hex (CHR ''+'')" "\<not> is_hex (CHR ''x'')" "\<not> is_hex (CHR ''X'')"
  "\<not> is_hex (CHR ''M'')" "\<not> is_hex (CHR ''m'')" "\<not> is_hex (CHR ''P'')" "\<not> is_hex (CHR ''p'')"
  by (simp_all add: is_hex_def hex_digit_def Let_def)

lemma hex_not_space: "is_hex c \<Longrightarrow> \<not> is_space c"
  by (auto simp: is_hex_def hex_digit_def is_space_def Let_def split: if_splits)

definition hex_text :: "string \<Rightarrow> nat \<Rightarrow> bool" where
  "hex_text s n \<longleftrightarrow> s \<noteq> [] \<and> (\<forall>c\<in>set s. is_hex c) \<and> hex_value s = n \<and> length s < 2 ^ 16"

lemma hex_text_no: "hex_text s n \<Longrightarrow> \<not> is_hex c \<Longrightarrow> c \<notin> set s"
  by (auto simp: hex_text_def)

lemma scan_hex_text:
  assumes "hex_text s n"
  shows "scan_hex s = Some (False, n)"
proof -
  obtain c r where s: "s = c # r" "is_hex c" "\<forall>c\<in>set r. is_hex c"
    using assms by (cases s) (auto simp: hex_text_def)
  have "c \<noteq> CHR ''-''" "c \<noteq> CHR ''+''" using s(2) by auto
  then have sign: "strip_sign s = (False, s)" by (simp add: strip_sign_def s(1))
  have "strip_0x s = s"
  proof (cases r)
    case (Cons d q)
    then have "is_hex d" using s(3) by simp
    then have "d \<noteq> CHR ''x''" "d \<noteq> CHR ''X''" by auto
    then show ?thesis by (simp add: strip_0x_def s(1) Cons split: list.split)
  qed (simp add: strip_0x_def s(1))
  moreover have "dropWhile is_space s = s" using hex_not_space[OF s(2)] by (simp add: s(1))
  moreover have "takeWhile is_hex s = s" unfolding s(1) using s(2,3) by (auto simp: takeWhile_eq_all_conv)
  ultimately show ?thesis using assms by (simp add: scan_hex_def sign hex_text_def Let_def del: takeWhile_eq_all_conv)
qed

lemma stoul_hex: "hex_text s n \<Longrightarrow> n < 2 ^ 64 \<Longrightarrow> stoul s = Inr (of_nat n)"
  by (simp add: stoul_def scan_hex_text)

lemma stoi_hex: "hex_text s n \<Longrightarrow> n < 2 ^ 31 \<Longrightarrow> stoi s = Inr (int n)"
  by (simp add: stoi_def scan_hex_text)

lemma byte_digits: "hex_text [lower_hex (unat b div 16), lower_hex (unat b mod 16)] (unat (b :: u8))"
proof -
  have "unat b < 256" by (rule u8_less)
  then have "unat b div 16 < 16" by simp
  then show ?thesis by (simp add: hex_text_def hex_value_def)
qed

lemma hex_encode_simps [simp]:
  "hex_encode [] = []"
  "hex_encode (b # bs) = lower_hex (unat b div 16) # lower_hex (unat b mod 16) # hex_encode bs"
  "hex_encode (bs @ cs) = hex_encode bs @ hex_encode cs"
  by (simp_all add: hex_encode_def)

lemma length_hex_encode [simp]: "length (hex_encode bs) = 2 * length bs"
  by (induction bs) simp_all

lemma hex_encode_hex: "\<forall>c\<in>set (hex_encode bs). is_hex c"
proof (induction bs)
  case (Cons b bs)
  have "unat b < 256" by (rule u8_less)
  then have "unat b div 16 < 16" by simp
  then show ?case using Cons by simp
qed simp

lemma byte_at_hex:
  assumes "k < length bs"
  shows "take 2 (drop (2 * k) (hex_encode bs)) = hex_encode [bs ! k]"
proof -
  have "bs = take k bs @ bs ! k # drop (Suc k) bs" using assms by (rule id_take_nth_drop)
  then have "hex_encode bs = hex_encode (take k bs) @ hex_encode [bs ! k] @ hex_encode (drop (Suc k) bs)"
    by (metis append_Cons append_Nil hex_encode_simps(3))
  moreover have "length (hex_encode (take k bs)) = 2 * k" using assms by simp
  ultimately show ?thesis by simp
qed

lemma unat_position [simp]: "n < 2 ^ 64 \<Longrightarrow> unat (of_nat n :: u64) = n"
  by (simp add: unat_of_nat take_bit_nat_eq_self)

lemma unat_npos [simp]: "unat npos = 2 ^ 64 - 1"
  by (simp add: npos_def unsigned_minus_1_eq_mask mask_eq_exp_minus_1)

lemma find_char_at:
  assumes "c \<notin> set pre" and "length pre < 2 ^ 20"
  shows "find_char c (pre @ c # post) 0 = of_nat (length pre)"
proof -
  let ?n = "length pre"
  have "[0..<?n + Suc (length post)] = [0..<?n] @ [?n..<?n + Suc (length post)]" by (rule upt_add_eq_append) simp
  also have "[?n..<?n + Suc (length post)] = ?n # [Suc ?n..<?n + Suc (length post)]" by (rule upt_conv_Cons) simp
  finally have range: "[0..<length (pre @ c # post)] = [0..<?n] @ ?n # [Suc ?n..<?n + Suc (length post)]" by simp
  have "filter (\<lambda>i. (pre @ c # post) ! i = c) [0..<?n] = []"
    using assms(1) by (auto simp: filter_empty_conv nth_append)
  then have "filter (\<lambda>i. (pre @ c # post) ! i = c) [0..<length (pre @ c # post)] =
      ?n # filter (\<lambda>i. (pre @ c # post) ! i = c) [Suc ?n..<?n + Suc (length post)]"
    unfolding range by (simp del: upt_Suc upt.simps)
  then show ?thesis by (simp add: find_char_def del: upt_Suc upt.simps length_append)
qed

lemma position_not_npos: "n < 2 ^ 20 \<Longrightarrow> (of_nat n :: u64) \<noteq> npos"
proof
  assume n: "n < 2 ^ 20" and "(of_nat n :: u64) = npos"
  then have "unat (of_nat n :: u64) = unat npos" by simp
  then show False using n by simp
qed

lemma substr_at:
  "length pre < 2 ^ 20 \<Longrightarrow> length mid < 2 ^ 20 \<Longrightarrow>
     substr (pre @ mid @ post) (of_nat (length pre)) (of_nat (length mid)) = Inr mid"
  by (simp add: substr_def)

lemma substr_rest:
  "length pre < 2 ^ 20 \<Longrightarrow> length post < 2 ^ 20 \<Longrightarrow> substr (pre @ post) (of_nat (length pre)) npos = Inr post"
  by (simp add: substr_def)

section \<open>Framing\<close>

lemma receive_packet_text:
  assumes "CHR ''#'' \<notin> set s"
  shows "receive_packet (packet_text s @ rest) g = (s, rest, gdb_write ''+'' g)"
proof -
  have "takeWhile (\<lambda>c. c \<noteq> CHR ''#'') (s @ CHR ''#'' # r) = s"
    "dropWhile (\<lambda>c. c \<noteq> CHR ''#'') (s @ CHR ''#'' # r) = CHR ''#'' # r" for r
    using assms by (simp_all add: takeWhile_tail dropWhile_append)
      (use assms in \<open>auto simp: takeWhile_eq_all_conv dropWhile_eq_Nil_conv\<close>)
  then show ?thesis by (simp add: receive_packet_def packet_text_def)
qed

lemma serve_packet:
  assumes "CHR ''#'' \<notin> set s" and "s \<noteq> []" and "gdb_connected g"
  shows "client_loop (packet_text s @ rest) g = bind_err (handle_packet s (gdb_write ''+'' g)) (client_loop rest)"
  using assms by (subst client_loop.simps) (simp add: receive_packet_text)

lemma serve_end [simp]: "client_loop [] = Inr"
  by (rule ext) (subst client_loop.simps, simp add: receive_packet_def)

lemma serve_last:
  "CHR ''#'' \<notin> set s \<Longrightarrow> s \<noteq> [] \<Longrightarrow> gdb_connected g \<Longrightarrow>
     client_loop (packet_text s) g = bind_err (handle_packet s (gdb_write ''+'' g)) Inr"
  using serve_packet[of s g "[]"] by simp

section \<open>Memory\<close>

lemma data_address:
  assumes "unat a + j < 65536"
  shows "0x800000 + ucast (a :: u16) + of_nat j < (0x810000 :: u32)"
    "\<not> 0x800000 + ucast a + of_nat j < (0x800000 :: u32)"
    "(ucast (0x800000 + ucast a + of_nat j - 0x800000 :: u32) :: u16) = a + of_nat j"
proof -
  define x :: u32 where "x = ucast a + of_nat j"
  have x: "unat x = unat a + j"
    using assms by (simp add: x_def unat_word_ariths unat_ucast_up unat_of_nat take_bit_nat_eq_self)
  have up: "unat (0x800000 + x) = 0x800000 + unat x" using assms x by (simp add: unat_word_ariths)
  have eq: "0x800000 + ucast a + of_nat j = 0x800000 + x" by (simp add: x_def)
  show "0x800000 + ucast a + of_nat j < (0x810000 :: u32)" "\<not> 0x800000 + ucast a + of_nat j < (0x800000 :: u32)"
    using assms by (simp_all add: eq word_less_nat_alt x up)
  show "(ucast (0x800000 + ucast a + of_nat j - 0x800000 :: u32) :: u16) = a + of_nat j"
    using assms x by (simp add: eq word_unat_eq_iff unsigned_ucast_eq take_bit_eq_mod unat_word_ariths unat_of_nat take_bit_nat_eq_self)
qed

lemma write_memory_cells:
  assumes "cells_from m a (k + length vs)" and "vs = drop k bs" and "k + length vs = length bs"
  shows "write_memory (length vs) (of_nat k) (0x800000 + ucast a) (hex_encode bs) m =
    Inr (cells.stores (byte_stores a k vs) m)"
  using assms
proof (induction vs arbitrary: k m)
  case (Cons v vs)
  have d: "drop k bs = v # vs" using Cons.prems(2) by simp
  have k: "k < length bs" "v = bs ! k" "vs = drop (Suc k) bs" "length bs \<le> 65536" "unat a + k < 65536"
  proof -
    show "k < length bs" using d by (metis drop_all list.distinct(1) not_le)
    show "v = bs ! k" using d by (simp add: nth_via_drop)
    show "vs = drop (Suc k) bs" using d by (metis drop_Suc list.sel(3) tl_drop)
    show "length bs \<le> 65536" "unat a + k < 65536" using Cons.prems(1,3) by (simp_all add: cells_from_def)
  qed
  have "unat (ucast (of_nat k * 2 :: u32) :: u64) = 2 * k"
    using k by (simp add: unat_ucast_up unat_word_ariths unat_of_nat take_bit_nat_eq_self)
  then have digits: "substr (hex_encode bs) (ucast (of_nat k * 2 :: u32)) 2 = Inr (hex_encode [v])"
    using k byte_at_hex[of k bs] by (simp add: substr_def)
  have parsed: "stoul (hex_encode [v]) = Inr (of_nat (unat v))"
    using stoul_hex[OF byte_digits[of v]] u8_less[of v] by simp
  have cell: "data_cell m (a + of_nat k)" using Cons.prems(1) by (simp add: cells_from_def)
  have put: "write_address (0x800000 + ucast a + of_nat k) v m = write_data (a + of_nat k) v m"
    using data_address[OF k(5)] by (simp add: write_address_def)
  have "cells_from (write_data (a + of_nat k) v m) a (Suc k + length vs)"
    using Cons.prems(1) cell by (simp add: cells_from_def cells.cell_store)
  from Cons.IH[OF this k(3)] Cons.prems(3)
  have "write_memory (length vs) (of_nat k + 1) (0x800000 + ucast a) (hex_encode bs) (write_data (a + of_nat k) v m) =
      Inr (cells.stores (byte_stores a (Suc k) vs) (write_data (a + of_nat k) v m))"
    by (simp add: add.commute)
  moreover have "(ucast (ucast v :: u64) :: u8) = v" by (intro bit_word_eqI) (simp add: bit_simps)
  ultimately show ?case
    using digits parsed put by (simp add: bind_err_def cells.stores_def ac_simps)
qed (simp add: cells.stores_def)

lemma read_memory_cells:
  assumes "cells_from m a (k + n)"
  shows "read_memory n (0x800000 + ucast a + of_nat k) m =
    (map (\<lambda>j. data (bus m) ! unat (a + of_nat j)) [k..<k + n], m)"
  using assms
proof (induction n arbitrary: k)
  case (Suc n)
  have "data_cell m (a + of_nat k)" "unat a + k < 65536" using Suc.prems by (auto simp: cells_from_def)
  then have "read_address (0x800000 + ucast a + of_nat k) m = (data (bus m) ! unat (a + of_nat k), m)"
    using data_address[of a k] by (simp add: read_address_def read_cell)
  moreover have "read_memory n (0x800000 + ucast a + of_nat (Suc k)) m =
      (map (\<lambda>j. data (bus m) ! unat (a + of_nat j)) [Suc k..<Suc k + n], m)"
    using Suc.prems by (intro Suc.IH) simp
  ultimately show ?case by (simp add: upt_conv_Cons ac_simps del: upt_Suc)
qed simp

lemma handle_write_text:
  assumes addr: "hex_text sa (0x800000 + unat a)" and len: "hex_text sl (length bs)" and cells: "cells_from (gdb_cpu g) a (length bs)"
  shows "handle_memory_write (CHR ''M'' # sa @ CHR '','' # sl @ CHR '':'' # hex_encode bs) g =
    Inr (send_packet ''OK'' (g\<lparr>gdb_cpu := cells.stores (byte_stores a 0 bs) (gdb_cpu g)\<rparr>))"
proof -
  let ?cmd = "CHR ''M'' # sa @ CHR '','' # sl @ CHR '':'' # hex_encode bs"
  have small: "length sa < 2 ^ 16" "length sl < 2 ^ 16" "length bs \<le> 65536" "unat a < 65536"
    using addr len cells unsigned_less[of a] by (auto simp: hex_text_def cells_from_def)
  define comma where "comma = find_char (CHR '','') ?cmd 0"
  define colon where "colon = find_char (CHR '':'') ?cmd 0"
  have comma: "comma = of_nat (Suc (length sa))"
    using find_char_at[of "CHR '',''" "CHR ''M'' # sa"] hex_text_no[OF addr] small by (simp add: comma_def)
  have colon: "colon = of_nat (Suc (length sa + Suc (length sl)))"
    using find_char_at[of "CHR '':''" "CHR ''M'' # sa @ CHR '','' # sl"] hex_text_no[OF addr] hex_text_no[OF len] small
    by (simp add: colon_def)
  have f1: "substr ?cmd 1 (comma - 1) = Inr sa"
    using substr_at[of "[CHR ''M'']" sa "CHR '','' # sl @ CHR '':'' # hex_encode bs"] small by (simp add: comma)
  have f2: "substr ?cmd (comma + 1) (colon - comma - 1) = Inr sl"
    using substr_at[of "CHR ''M'' # sa @ [CHR '','']" sl "CHR '':'' # hex_encode bs"] small
    by (simp add: comma colon ac_simps)
  have f3: "substr ?cmd (colon + 1) npos = Inr (hex_encode bs)"
    using substr_rest[of "CHR ''M'' # sa @ CHR '','' # sl @ [CHR '':'']" "hex_encode bs"] small
    by (simp add: colon ac_simps)
  have n1: "stoul sa = Inr (of_nat (0x800000 + unat a))" "stoul sl = Inr (of_nat (length bs))"
    using stoul_hex[OF addr] stoul_hex[OF len] small by simp_all
  have n2: "ucast (of_nat (0x800000 + unat a) :: u64) = (0x800000 + ucast a :: u32)"
    "unat (ucast (of_nat (length bs) :: u64) :: u32) = length bs"
    "unat (ucast (of_nat (length bs) :: u64) * 2 :: u32) = 2 * length bs"
    using small by (simp_all add: word_unat_eq_iff unsigned_ucast_eq take_bit_eq_mod unat_word_ariths unat_of_nat)
  have some: "comma \<noteq> npos" "colon \<noteq> npos"
    unfolding comma colon using small by (intro position_not_npos; simp)+
  show ?thesis
    using write_memory_cells[of "gdb_cpu g" a 0 bs bs] cells
    unfolding handle_memory_write_def comma_def[symmetric] colon_def[symmetric] Let_def
    by (simp add: some f1 f2 f3 n1 n2 bind_err_def del: of_nat_Suc of_nat_add)
qed

lemma handle_read_text:
  assumes addr: "hex_text sa (0x800000 + unat a)" and len: "hex_text sl n" and cells: "cells_from (gdb_cpu g) a n"
  shows "handle_memory_read (CHR ''m'' # sa @ CHR '','' # sl) g =
    Inr (send_packet (hex_encode (map (\<lambda>j. data (bus (gdb_cpu g)) ! unat (a + of_nat j)) [0..<n])) g)"
proof -
  let ?cmd = "CHR ''m'' # sa @ CHR '','' # sl"
  have small: "length sa < 2 ^ 16" "length sl < 2 ^ 16" "n \<le> 65536" "unat a < 65536"
    using addr len cells unsigned_less[of a] by (auto simp: hex_text_def cells_from_def)
  define comma where "comma = find_char (CHR '','') ?cmd 0"
  have comma: "comma = of_nat (Suc (length sa))"
    using find_char_at[of "CHR '',''" "CHR ''m'' # sa"] hex_text_no[OF addr] small by (simp add: comma_def)
  have f1: "substr ?cmd 1 (comma - 1) = Inr sa"
    using substr_at[of "[CHR ''m'']" sa "CHR '','' # sl"] small by (simp add: comma)
  have f2: "substr ?cmd (comma + 1) npos = Inr sl"
    using substr_rest[of "CHR ''m'' # sa @ [CHR '','']" sl] small by (simp add: comma ac_simps)
  have n1: "stoul sa = Inr (of_nat (0x800000 + unat a))" "stoul sl = Inr (of_nat n)"
    using stoul_hex[OF addr] stoul_hex[OF len] small by simp_all
  have n2: "ucast (of_nat (0x800000 + unat a) :: u64) = (0x800000 + ucast a :: u32)"
    "unat (ucast (of_nat n :: u64) :: u32) = n"
    using small by (simp_all add: word_unat_eq_iff unsigned_ucast_eq take_bit_eq_mod unat_word_ariths unat_of_nat)
  have some: "comma \<noteq> npos" unfolding comma using small by (intro position_not_npos) simp
  show ?thesis
    using read_memory_cells[of "gdb_cpu g" a 0 n] cells
    unfolding handle_memory_read_def comma_def[symmetric] Let_def
    by (simp add: some f1 f2 n1 n2 bind_err_def del: of_nat_Suc of_nat_add)
qed

lemma hex_pairs_encode: "hex_pairs (hex_encode bs) = Inr bs"
proof (induction bs)
  case (Cons b bs)
  have "stoul (hex_encode [b]) = Inr (of_nat (unat b))"
    using stoul_hex[OF byte_digits[of b]] u8_less[of b] by simp
  moreover have "(ucast (ucast b :: u64) :: u8) = b" by (intro bit_word_eqI) (simp add: bit_simps)
  ultimately show ?case using Cons by (simp add: bind_err_def)
qed simp

lemma handle_put_text:
  assumes reg: "hex_text sr r" and r: "r < 2 ^ 31" and bs: "bs \<noteq> []" "length bs < 2 ^ 16"
  shows "handle_register_write_single (CHR ''P'' # sr @ CHR ''='' # hex_encode bs) g =
    bind_err (put_register (of_nat r) bs (gdb_cpu g)) (\<lambda>m. Inr (send_packet ''OK'' (g\<lparr>gdb_cpu := m\<rparr>)))"
proof -
  let ?cmd = "CHR ''P'' # sr @ CHR ''='' # hex_encode bs"
  have small: "length sr < 2 ^ 16" using reg by (simp add: hex_text_def)
  define eq where "eq = find_char (CHR ''='') ?cmd 0"
  have eq: "eq = of_nat (Suc (length sr))"
    using find_char_at[of "CHR ''=''" "CHR ''P'' # sr"] hex_text_no[OF reg] small by (simp add: eq_def)
  have f1: "substr ?cmd 1 (eq - 1) = Inr sr"
    using substr_at[of "[CHR ''P'']" sr "CHR ''='' # hex_encode bs"] small by (simp add: eq)
  have f2: "substr ?cmd (eq + 1) npos = Inr (hex_encode bs)"
    using substr_rest[of "CHR ''P'' # sr @ [CHR ''='']" "hex_encode bs"] small bs(2) by (simp add: eq ac_simps)
  have n: "stoul sr = Inr (of_nat r)" "(ucast (of_nat r :: u64) :: u32) = of_nat r"
    using stoul_hex[OF reg] r
    by (simp_all add: word_unat_eq_iff unsigned_ucast_eq take_bit_eq_mod unat_of_nat)
  have some: "eq \<noteq> npos" unfolding eq using small by (intro position_not_npos) simp
  show ?thesis
    unfolding handle_register_write_single_def eq_def[symmetric] Let_def
    by (simp add: some f1 f2 n bs hex_pairs_encode bind_err_def del: of_nat_Suc of_nat_add)
qed

lemma handle_get_text:
  assumes reg: "hex_text sr r" and r: "r < 2 ^ 31"
  shows "handle_register_read_single (CHR ''p'' # sr) g =
    bind_err (register_text (int r) (gdb_cpu g)) (\<lambda>t. Inr (send_packet t g))"
  using substr_rest[of "[CHR ''p'']" sr] reg r
  by (simp add: handle_register_read_single_def stoi_hex[OF reg] bind_err_def hex_text_def)

lemma pc_bytes: "written_pc (bytes32 pc) = pc"
proof (rule bit_word_eqI)
  fix n assume "n < LENGTH(32)"
  then show "bit (written_pc (bytes32 pc)) n = bit pc n"
    by (cases "n < 8"; cases "n < 16"; cases "n < 24") (auto simp: written_pc_def bytes32_def bit_simps nth_Cons' dest: bit_imp_le_length)
qed

section \<open>Properties\<close>

text \<open>
  C34.  Memory written through the protocol is read back through it: when the client sends an
  \<open>M\<close> packet for bytes of plain data memory and then an \<open>m\<close> packet for the same range, the
  stub acknowledges both, answers OK to the first and the same bytes in hexadecimal to the
  second, and the session goes on to the end of the input.
\<close>

theorem gdb_memory_roundtrip:
  assumes "gdb_connected g" and "hex_text sa (0x800000 + unat a)" and "hex_text sl (length bs)"
    and "cells_from (gdb_cpu g) a (length bs)"
  shows "\<exists>m. client_loop (packet_text (CHR ''M'' # sa @ CHR '','' # sl @ CHR '':'' # hex_encode bs) @
             packet_text (CHR ''m'' # sa @ CHR '','' # sl)) g =
    Inr (g\<lparr>gdb_cpu := m, gdb_output := gdb_output g @ ''+'' @ packet_text ''OK'' @ ''+'' @ packet_text (hex_encode bs)\<rparr>)"
proof -
  let ?w = "CHR ''M'' # sa @ CHR '','' # sl @ CHR '':'' # hex_encode bs" and ?r = "CHR ''m'' # sa @ CHR '','' # sl"
  let ?m = "cells.stores (byte_stores a 0 bs) (gdb_cpu g)"
  let ?g1 = "gdb_write ''+'' g" and ?g2 = "gdb_write ''+'' (send_packet ''OK'' (gdb_write ''+'' g\<lparr>gdb_cpu := ?m\<rparr>))"
  have plain: "CHR ''#'' \<notin> set ?w" "CHR ''#'' \<notin> set ?r"
    using hex_text_no[OF assms(2)] hex_text_no[OF assms(3)] hex_encode_hex[of bs] by auto
  have stored: "cells_from ?m a (length bs)"
    "map (\<lambda>j. data (bus ?m) ! unat (a + of_nat j)) [0..<length bs] = bs"
    using stored_bytes[OF assms(4)] by auto
  have "handle_packet ?w ?g1 = Inr (send_packet ''OK'' (?g1\<lparr>gdb_cpu := ?m\<rparr>))"
    using handle_write_text[OF assms(2,3), of ?g1] assms(4) by (simp add: handle_packet_def gdb_write_def)
  moreover have "gdb_cpu ?g2 = ?m" "gdb_connected ?g2"
    using assms(1) by (simp_all add: gdb_write_def send_packet_def)
  moreover have "handle_packet ?r ?g2 = Inr (send_packet (hex_encode bs) ?g2)"
    using handle_read_text[OF assms(2,3), of ?g2] stored calculation(2) by (simp add: handle_packet_def)
  ultimately have "client_loop (packet_text ?w @ packet_text ?r) g = Inr (send_packet (hex_encode bs) ?g2)"
    using serve_packet[OF plain(1) _ assms(1)] serve_last[OF plain(2), of "send_packet ''OK'' (?g1\<lparr>gdb_cpu := ?m\<rparr>)"]
    by (simp add: bind_err_def gdb_write_def send_packet_def)
  then show ?thesis using assms(1) by (auto simp: send_packet_def gdb_write_def)
qed


section \<open>Witnesses\<close>

definition gdb_session :: gdb_stub where
  "gdb_session = \<lparr>gdb_cpu = ready_machine [], gdb_breakpoints = {}, gdb_connected = True, gdb_output = []\<rparr>"

theorem gdb_memory_roundtrip_witness:
  "\<exists>m. client_loop (packet_text ''M800110,2:2a7f'' @ packet_text ''m800110,2'') gdb_session =
    Inr (gdb_session\<lparr>gdb_cpu := m, gdb_output := ''+$OK#9a+$2a7f#30''\<rparr>)"
proof -
  have "hex_text ''800110'' (0x800000 + unat (0x110 :: u16))" "hex_text ''2'' (length [0x2A :: u8, 0x7F])"
    by (simp_all add: hex_text_def hex_value_def is_hex_def hex_digit_def Let_def)
  moreover have "cells_from (gdb_cpu gdb_session) 0x110 (length [0x2A :: u8, 0x7F])"
    using sample_cell[of "0x110" "[]"] sample_cell[of "0x111" "[]"]
    by (auto simp: cells_from_def gdb_session_def less_Suc_eq)
  moreover have "hex_encode [0x2A, 0x7F] = ''2a7f''" "packet_text ''OK'' = ''$OK#9a''" "packet_text ''2a7f'' = ''$2a7f#30''"
    by (simp_all add: packet_text_def gdb_checksum_def hex_encode_def lower_hex_def char_of_def bit_0)
  ultimately show ?thesis
    using gdb_memory_roundtrip[of gdb_session "''800110''" "0x110" "''2''" "[0x2A, 0x7F]"] by (simp add: gdb_session_def)
qed


end
