(* ===== verification/Dma.thy ===== *)
theory Dma
  imports DataCells Evsys Regmap
begin

text \<open>
  \<open>Dma\<close> (\<open>src/core/dma.cpp\<close>): four channels that copy bytes over the bus, a beat at a time,
  each beat paid for in cycles, with descriptor chaining, and the triggers it takes from the
  event system.  The bus it works on is the machine; its own registers are not in that
  machine's dispatch table.
\<close>

section \<open>State\<close>

record dma_channel_descriptor =
  dc_ctrla_address :: u16
  dc_ctrlb_address :: u16
  srcaddr_address :: u16
  dstaddr_address :: u16
  cnt_address :: u16
  trigsrc_address :: u16
  dc_intctrl_address :: u16
  dc_intflags_address :: u16
  user_event_address :: u16
  descaddr_address :: u16
  addrctrl_address :: u16

record dma_descriptor =
  dd_ctrla_address :: u16
  dd_status_address :: u16
  dd_intctrl_address :: u16
  dd_intflags_address :: u16
  dbgctrl_address :: u16
  channel_count :: nat
  dd_channels :: "dma_channel_descriptor list"
  dd_vector_index :: u8

record transfer_state =
  beats_remaining :: u16
  beats_in_burst :: u16
  block_size :: u8
  trigact :: u8
  xfer_started :: bool
  xfer_cycles :: u64

record dma_channel =
  ch_ctrla :: u8
  ch_ctrlb :: u8
  ch_addrctrl :: u8
  ch_srcaddr :: u16
  ch_dstaddr :: u16
  ch_cnt :: u16
  remaining_count :: u16
  ch_descaddr :: u16
  ch_trigsrc :: u8
  ch_intctrl :: u8
  ch_intflags :: u8
  ch_busy :: bool
  pending_trigger :: bool
  ch_xfer :: transfer_state

record dma =
  dma_desc :: dma_descriptor
  dma_channels :: "dma_channel list"
  dma_ctrla :: u8
  dma_status :: u8
  dma_intctrl :: u8
  dma_intflags :: u8
  dma_dbgctrl :: u8
  dma_int_pending :: bool

definition transfer_init :: transfer_state where
  "transfer_init = \<lparr>beats_remaining = 0, beats_in_burst = 0, block_size = 1, trigact = 0,
     xfer_started = False, xfer_cycles = 0\<rparr>"

definition channel_init :: dma_channel where
  "channel_init = \<lparr>ch_ctrla = 0, ch_ctrlb = 0, ch_addrctrl = 0, ch_srcaddr = 0, ch_dstaddr = 0, ch_cnt = 0,
     remaining_count = 0, ch_descaddr = 0, ch_trigsrc = 0, ch_intctrl = 0, ch_intflags = 0, ch_busy = False,
     pending_trigger = False, ch_xfer = transfer_init\<rparr>"

definition dma_init :: "dma_descriptor \<Rightarrow> dma" where
  "dma_init d = \<lparr>dma_desc = d, dma_channels = replicate 4 channel_init, dma_ctrla = 0, dma_status = 0,
     dma_intctrl = 0, dma_intflags = 0, dma_dbgctrl = 0, dma_int_pending = False\<rparr>"

text \<open>The addresses the constructor maps, absent registers left out.\<close>

definition channel_addresses :: "dma_channel_descriptor \<Rightarrow> u16 list" where
  "channel_addresses c =
     [dc_ctrla_address c, dc_ctrlb_address c, addrctrl_address c, srcaddr_address c, srcaddr_address c + 1,
      dstaddr_address c, dstaddr_address c + 1, cnt_address c, cnt_address c + 1,
      descaddr_address c, descaddr_address c + 1, trigsrc_address c, dc_intctrl_address c, dc_intflags_address c]"

definition dma_ranges :: "dma_descriptor \<Rightarrow> address_range list" where
  "dma_ranges d =
     take 12 (register_ranges (remdups
       ([dd_ctrla_address d, dd_status_address d, dd_intctrl_address d, dd_intflags_address d, dbgctrl_address d]
        @ concat (map channel_addresses (take (channel_count d) (dd_channels d))))))"

definition chan :: "dma \<Rightarrow> nat \<Rightarrow> dma_channel" where
  "chan d i = dma_channels d ! i"

definition chan_desc :: "dma \<Rightarrow> nat \<Rightarrow> dma_channel_descriptor" where
  "chan_desc d i = dd_channels (dma_desc d) ! i"

definition upd_chan :: "nat \<Rightarrow> (dma_channel \<Rightarrow> dma_channel) \<Rightarrow> dma \<Rightarrow> dma" where
  "upd_chan i f d = d\<lparr>dma_channels := (dma_channels d)[i := f (chan d i)]\<rparr>"

definition upd_xfer :: "(transfer_state \<Rightarrow> transfer_state) \<Rightarrow> dma_channel \<Rightarrow> dma_channel" where
  "upd_xfer f c = c\<lparr>ch_xfer := f (ch_xfer c)\<rparr>"

definition dma_enabled :: "dma \<Rightarrow> bool" where
  "dma_enabled d \<longleftrightarrow> dma_ctrla d AND 0x01 \<noteq> 0"

section \<open>Transfers\<close>

definition started_channel :: "dma_channel \<Rightarrow> dma_channel" where
  "started_channel c =
     (let act = ch_ctrlb c AND 0x03; size = push_bit (unat (drop_bit 2 (ch_ctrla c) AND 0x03)) 1
      in c\<lparr>ch_busy := True, pending_trigger := False,
           ch_xfer := (ch_xfer c)\<lparr>trigact := act, block_size := size, xfer_started := True, beats_in_burst := 0,
             beats_remaining := (if act = 0 \<or> act = 1 then remaining_count c
                                 else if act = 2 \<or> act = 3 then ucast size else 1)\<rparr>\<rparr>)"

definition start_transfer :: "nat \<Rightarrow> dma \<Rightarrow> dma" where
  "start_transfer i d = upd_chan i started_channel d"

definition read_word :: "u16 \<Rightarrow> machine \<Rightarrow> u16 \<times> machine" where
  "read_word a m =
     (let (l, m) = read_data a m; (h, m) = read_data (a + 1) m in (ucast l OR push_bit 8 (ucast h), m))"

text \<open>
  The reload bits of CTRLDATA choose between values that are equal by then; only the count
  is assigned once more, to the same value.
\<close>

definition try_reload_descriptor :: "nat \<Rightarrow> dma \<times> machine \<Rightarrow> dma \<times> machine" where
  "try_reload_descriptor i s =
     (let (d, m) = s; c = chan d i
      in if ch_ctrlb c AND 0x80 = 0 \<or> descaddr_address (chan_desc d i) = 0 then (d, m)
         else if ch_descaddr c = 0 then (d, m)
         else let base = ch_descaddr c;
                  (new_src, m) = read_word base m;
                  (new_dst, m) = read_word (base + 2) m;
                  (new_cnt, m) = read_word (base + 4) m;
                  (_, m) = read_data (base + 6) m;
                  (next_desc, m) = read_word (base + 8) m
              in (upd_chan i (\<lambda>c. c\<lparr>ch_srcaddr := new_src, ch_dstaddr := new_dst, ch_cnt := new_cnt,
                                    remaining_count := new_cnt, ch_descaddr := next_desc\<rparr>) d, m))"

definition increment :: "u8 \<Rightarrow> u16 \<Rightarrow> u16" where
  "increment mode a =
     (if mode = 1 then a + 1 else if mode = 2 then a - 1 else if mode \<ge> 3 then a + 2 else a)"

definition increment_register :: "nat \<Rightarrow> dma \<Rightarrow> u8" where
  "increment_register i d =
     (if addrctrl_address (chan_desc d i) \<noteq> 0 then ch_addrctrl (chan d i) else ch_ctrla (chan d i))"

definition beat_cost :: "nat \<Rightarrow> dma \<times> machine \<Rightarrow> u16" where
  "beat_cost i s =
     (let (d, m) = s
      in 1 + ucast (get_wait_states m (ch_srcaddr (chan d i))) + 1 + ucast (get_wait_states m (ch_dstaddr (chan d i))))"

text \<open>One beat: the byte is copied, the addresses move, the counters go down and the cost is paid.\<close>

definition transfer_beat :: "nat \<Rightarrow> dma \<times> machine \<Rightarrow> dma \<times> machine" where
  "transfer_beat i s =
     (let (d, m) = s; cost = beat_cost i s; c = chan d i;
          (v, m) = read_data (ch_srcaddr c) m;
          m = write_data (ch_dstaddr c) v m;
          r = increment_register i d;
          srcinc = drop_bit 6 r AND 0x03; dstinc = drop_bit 4 r AND 0x03
      in (upd_chan i (\<lambda>c. upd_xfer (\<lambda>x. x\<lparr>beats_remaining := beats_remaining x - 1,
                                      beats_in_burst := beats_in_burst x + 1,
                                      xfer_cycles := xfer_cycles x - ucast cost\<rparr>)
                 (c\<lparr>ch_srcaddr := increment srcinc (ch_srcaddr c), ch_dstaddr := increment dstinc (ch_dstaddr c),
                    remaining_count := remaining_count c - 1\<rparr>)) d, m))"

definition stop_channel :: "dma_channel \<Rightarrow> dma_channel" where
  "stop_channel c =
     upd_xfer (\<lambda>x. x\<lparr>xfer_started := False, xfer_cycles := 0\<rparr>) (c\<lparr>ch_busy := False\<rparr>)"

definition reload_and_restart :: "nat \<Rightarrow> dma \<times> machine \<Rightarrow> dma \<times> machine" where
  "reload_and_restart i s =
     (let (d, m) = try_reload_descriptor i s
      in if remaining_count (chan d i) > 0 then (start_transfer i d, m) else (d, m))"

definition block_done :: "nat \<Rightarrow> dma \<times> machine \<Rightarrow> dma \<times> machine" where
  "block_done i s =
     (let (d, m) = s;
          d = d\<lparr>dma_int_pending := dma_int_pending d \<or> ch_intctrl (chan d i) AND 0x01 \<noteq> 0\<rparr>
      in reload_and_restart i (upd_chan i (\<lambda>c. stop_channel (c\<lparr>ch_intflags := ch_intflags c OR 0x01\<rparr>)) d, m))"

definition burst_done :: "nat \<Rightarrow> dma \<times> machine \<Rightarrow> dma \<times> machine" where
  "burst_done i s =
     (let (d, m) = s; c = chan d i; act = trigact (ch_xfer c)
      in if \<not> (beats_remaining (ch_xfer c) = 0 \<and> remaining_count c > 0) then s
         else if act = 0 then reload_and_restart i (upd_chan i stop_channel d, m)
         else if act = 1
         then (upd_chan i (\<lambda>c. upd_xfer (\<lambda>x. x\<lparr>beats_remaining := remaining_count c\<rparr>) c) d, m)
         else if act = 2 then (upd_chan i stop_channel d, m)
         else if act = 3
         then (upd_chan i (upd_xfer (\<lambda>x. x\<lparr>beats_remaining := ucast (block_size x)\<rparr>)) d, m)
         else s)"

definition beat_due :: "nat \<Rightarrow> dma \<times> machine \<Rightarrow> bool" where
  "beat_due i s \<longleftrightarrow>
     beats_remaining (ch_xfer (chan (fst s) i)) > 0 \<and> remaining_count (chan (fst s) i) > 0 \<and>
     xfer_cycles (ch_xfer (chan (fst s) i)) \<ge> ucast (beat_cost i s)"

lemma chan_upd [simp]:
  "i < length (dma_channels d) \<Longrightarrow> chan (upd_chan i f d) i = f (chan d i)"
  "j \<noteq> i \<Longrightarrow> chan (upd_chan i f d) j = chan d j"
  "length (dma_channels (upd_chan i f d)) = length (dma_channels d)" "dma_desc (upd_chan i f d) = dma_desc d"
  "chan_desc (upd_chan i f d) = chan_desc d" "dma_ctrla (upd_chan i f d) = dma_ctrla d"
  by (simp_all add: upd_chan_def chan_def chan_desc_def fun_eq_iff)

lemma beat_remaining:
  assumes "i < length (dma_channels d)"
  shows "remaining_count (chan (fst (transfer_beat i (d, m))) i) = remaining_count (chan d i) - 1"
    and "length (dma_channels (fst (transfer_beat i (d, m)))) = length (dma_channels d)"
  using assms by (simp_all add: transfer_beat_def upd_xfer_def Let_def split_beta)

function process_transfer_beats :: "nat \<Rightarrow> dma \<times> machine \<Rightarrow> dma \<times> machine" where
  "process_transfer_beats i s =
     (if i < length (dma_channels (fst s)) \<and> beat_due i s
      then let s = transfer_beat i s
           in if remaining_count (chan (fst s) i) = 0 then block_done i s else process_transfer_beats i s
      else burst_done i s)"
  by pat_completeness auto
termination
proof (relation "measure (\<lambda>(i, s). unat (remaining_count (chan (fst s) i)))", simp)
  fix i s s'
  assume due: "i < length (dma_channels (fst s)) \<and> beat_due i s" and s': "s' = transfer_beat i s"
  obtain d m where s: "s = (d, m)" by (cases s)
  have "remaining_count (chan d i) \<noteq> 0" using due by (simp add: beat_due_def s word_gt_0)
  then show "((i, s'), i, s) \<in> measure (\<lambda>(i, s). unat (remaining_count (chan (fst s) i)))"
    using beat_remaining(1)[of i d m] due
    by (simp add: s' s unat_minus_one word_gt_0 unat_gt_0)
qed

declare process_transfer_beats.simps [simp del]

definition tick_channel :: "u64 \<Rightarrow> nat \<Rightarrow> dma \<times> machine \<Rightarrow> dma \<times> machine" where
  "tick_channel elapsed i s =
     (let (d, m) = s; c = chan d i;
          d = (if pending_trigger c \<and> \<not> ch_busy c \<and> remaining_count c > 0 then start_transfer i d else d)
      in if ch_busy (chan d i)
         then process_transfer_beats i
                (upd_chan i (upd_xfer (\<lambda>x. x\<lparr>xfer_cycles := xfer_cycles x + elapsed\<rparr>)) d, m)
         else (d, m))"

definition dma_tick :: "u64 \<Rightarrow> dma \<times> machine \<Rightarrow> dma \<times> machine" where
  "dma_tick elapsed s =
     (if \<not> dma_enabled (fst s) then s
      else fold (tick_channel elapsed) [0..<channel_count (dma_desc (fst s))] s)"

section \<open>Registers\<close>

definition at_next :: "u16 \<Rightarrow> u16 \<Rightarrow> bool" where
  "at_next address base \<longleftrightarrow> unat address = unat base + 1"

definition low_byte_of :: "u16 \<Rightarrow> u8" where "low_byte_of w = ucast w"
definition high_byte_of :: "u16 \<Rightarrow> u8" where "high_byte_of w = ucast (drop_bit 8 w)"

definition put_low :: "u8 \<Rightarrow> u16 \<Rightarrow> u16" where "put_low v w = (w AND 0xFF00) OR ucast v"
definition put_high :: "u8 \<Rightarrow> u16 \<Rightarrow> u16" where "put_high v w = (w AND 0x00FF) OR push_bit 8 (ucast v)"

definition channel_read :: "dma_channel_descriptor \<Rightarrow> dma_channel \<Rightarrow> u16 \<Rightarrow> u8 option" where
  "channel_read cd c a =
     (if a = dc_ctrla_address cd then Some (ch_ctrla c)
      else if a = dc_ctrlb_address cd then Some (ch_ctrlb c)
      else if a = addrctrl_address cd then Some (ch_addrctrl c)
      else if a = srcaddr_address cd then Some (low_byte_of (ch_srcaddr c))
      else if at_next a (srcaddr_address cd) then Some (high_byte_of (ch_srcaddr c))
      else if a = dstaddr_address cd then Some (low_byte_of (ch_dstaddr c))
      else if at_next a (dstaddr_address cd) then Some (high_byte_of (ch_dstaddr c))
      else if a = cnt_address cd then Some (low_byte_of (remaining_count c))
      else if at_next a (cnt_address cd) then Some (high_byte_of (remaining_count c))
      else if a = descaddr_address cd then Some (low_byte_of (ch_descaddr c))
      else if at_next a (descaddr_address cd) then Some (high_byte_of (ch_descaddr c))
      else if a = trigsrc_address cd then Some (ch_trigsrc c)
      else if a = dc_intctrl_address cd then Some (ch_intctrl c)
      else if a = dc_intflags_address cd then Some (ch_intflags c)
      else None)"

definition dma_read :: "dma \<Rightarrow> u16 \<Rightarrow> u8" where
  "dma_read d a =
     (let ds = dma_desc d
      in if a = dd_ctrla_address ds then dma_ctrla d
         else if a = dd_status_address ds then dma_status d
         else if a = dd_intctrl_address ds then dma_intctrl d
         else if a = dd_intflags_address ds then dma_intflags d
         else if a = dbgctrl_address ds then dma_dbgctrl d
         else case List.map_filter (\<lambda>i. channel_read (chan_desc d i) (chan d i) a) [0..<channel_count ds] of
                v # _ \<Rightarrow> v | [] \<Rightarrow> 0)"

definition set_count :: "u16 \<Rightarrow> dma_channel \<Rightarrow> dma_channel" where
  "set_count n c = c\<lparr>ch_cnt := n, remaining_count := (if ch_ctrla c AND 0x01 = 0 then n else remaining_count c)\<rparr>"

definition channel_write :: "dma_channel_descriptor \<Rightarrow> u16 \<Rightarrow> u8 \<Rightarrow> dma_channel \<Rightarrow> dma_channel" where
  "channel_write cd a v c =
     (if a = dc_ctrla_address cd
      then c\<lparr>ch_ctrla := v, remaining_count := (if v AND 0x01 \<noteq> 0 then ch_cnt c else remaining_count c)\<rparr>
      else if a = dc_ctrlb_address cd then c\<lparr>ch_ctrlb := v\<rparr>
      else if a = addrctrl_address cd then c\<lparr>ch_addrctrl := v\<rparr>
      else if a = srcaddr_address cd then c\<lparr>ch_srcaddr := put_low v (ch_srcaddr c)\<rparr>
      else if at_next a (srcaddr_address cd) then c\<lparr>ch_srcaddr := put_high v (ch_srcaddr c)\<rparr>
      else if a = dstaddr_address cd then c\<lparr>ch_dstaddr := put_low v (ch_dstaddr c)\<rparr>
      else if at_next a (dstaddr_address cd) then c\<lparr>ch_dstaddr := put_high v (ch_dstaddr c)\<rparr>
      else if a = cnt_address cd then set_count (put_low v (ch_cnt c)) c
      else if at_next a (cnt_address cd) then set_count (put_high v (ch_cnt c)) c
      else if a = descaddr_address cd then c\<lparr>ch_descaddr := put_low v (ch_descaddr c)\<rparr>
      else if at_next a (descaddr_address cd) then c\<lparr>ch_descaddr := put_high v (ch_descaddr c)\<rparr>
      else if a = trigsrc_address cd then c\<lparr>ch_trigsrc := v\<rparr>
      else if a = dc_intctrl_address cd then c\<lparr>ch_intctrl := v\<rparr>
      else if a = dc_intflags_address cd then c\<lparr>ch_intflags := ch_intflags c AND NOT v\<rparr>
      else c)"

definition dma_write :: "u16 \<Rightarrow> u8 \<Rightarrow> dma \<Rightarrow> dma" where
  "dma_write a v d =
     (let ds = dma_desc d
      in if a = dd_ctrla_address ds then d\<lparr>dma_ctrla := v\<rparr>
         else if a = dd_status_address ds then d
         else if a = dd_intctrl_address ds then d\<lparr>dma_intctrl := v\<rparr>
         else if a = dd_intflags_address ds
         then let fl = dma_intflags d AND NOT v
              in d\<lparr>dma_intflags := fl, dma_int_pending := dma_int_pending d \<and> fl AND 0x01 \<noteq> 0\<rparr>
         else if a = dbgctrl_address ds then d\<lparr>dma_dbgctrl := v\<rparr>
         else fold (\<lambda>i. upd_chan i (channel_write (chan_desc d i) a v)) [0..<channel_count ds] d)"

definition dma_reset :: "dma \<Rightarrow> dma" where
  "dma_reset d = d\<lparr>dma_ctrla := 0, dma_status := 0, dma_intctrl := 0, dma_intflags := 0, dma_dbgctrl := 0,
     dma_int_pending := False, dma_channels := replicate 4 channel_init\<rparr>"

section \<open>Interrupts and triggers\<close>

definition channel_asks :: "dma_channel \<Rightarrow> bool" where
  "channel_asks c \<longleftrightarrow> ch_intflags c AND 0x01 \<noteq> 0 \<and> ch_intctrl c AND 0x01 \<noteq> 0"

definition asking_channels :: "dma \<Rightarrow> nat list" where
  "asking_channels d = filter (\<lambda>i. channel_asks (chan d i)) [0..<channel_count (dma_desc d)]"

definition dma_pending_interrupt_request :: "dma \<Rightarrow> interrupt_request option" where
  "dma_pending_interrupt_request d =
     (let r = Irq (dd_vector_index (dma_desc d)) 0
      in if dma_int_pending d \<and> dd_vector_index (dma_desc d) \<noteq> 0xFF then Some r
         else if asking_channels d \<noteq> [] then Some r
         else None)"

definition dma_consume_interrupt_request :: "dma \<Rightarrow> dma \<times> interrupt_request option" where
  "dma_consume_interrupt_request d =
     (let r = Irq (dd_vector_index (dma_desc d)) 0
      in if dma_int_pending d \<and> dd_vector_index (dma_desc d) \<noteq> 0xFF
         then (d\<lparr>dma_int_pending := False, dma_intflags := dma_intflags d AND 0xFE\<rparr>, Some r)
         else case asking_channels d of
                i # _ \<Rightarrow> (upd_chan i (\<lambda>c. c\<lparr>ch_intflags := ch_intflags c AND 0xFE\<rparr>) d, Some r)
              | [] \<Rightarrow> (d, None))"

definition trigger_channel :: "dma_channel \<Rightarrow> dma_channel" where
  "trigger_channel c = c\<lparr>pending_trigger := True\<rparr>"

definition dma_on_trigger :: "u8 \<Rightarrow> dma \<Rightarrow> dma" where
  "dma_on_trigger trigger_id d =
     (if \<not> dma_enabled d then d
      else fold (\<lambda>i. upd_chan i (\<lambda>c. if ch_trigsrc c = trigger_id \<and> ch_ctrla c AND 0x01 \<noteq> 0
                                       then trigger_channel c else c))
             [0..<channel_count (dma_desc d)] d)"

text \<open>
  The callbacks \<open>set_event_system\<close> registers: one for each generator below 128, and one for
  each channel's event user, the last channel with that user.
\<close>

definition user_channels :: "u16 \<Rightarrow> dma \<Rightarrow> nat \<Rightarrow> nat list" where
  "user_channels users_base d u =
     filter (\<lambda>i. users_base \<noteq> 0 \<and> user_event_address (chan_desc d i) \<ge> users_base \<and>
                 unat (ucast (user_event_address (chan_desc d i) - users_base) :: u8) = u)
       [0..<channel_count (dma_desc d)]"

definition dma_event :: "u16 \<Rightarrow> event_call \<Rightarrow> dma \<Rightarrow> dma" where
  "dma_event users_base call d =
     (case call of
        To_listener g _ level \<Rightarrow> if level \<and> g < 128 then dma_on_trigger g d else d
      | To_user u level \<Rightarrow>
          (case rev (user_channels users_base d u) of
             [] \<Rightarrow> d
           | i # _ \<Rightarrow> if level \<and> dma_enabled d \<and> ch_ctrla (chan d i) AND 0x01 \<noteq> 0
                      then upd_chan i trigger_channel d else d))"

end
