(* ===== verification/DmaSpec.thy ===== *)
theory DmaSpec
  imports Dma
begin

text \<open>
  What a DMA block transfer promises: the bytes are copied, nothing else in memory changes,
  the channel stops and raises its flag, at a cost of two cycles a byte in internal memory.
\<close>

section \<open>Other channels\<close>

lemma other_channel [simp]:
  assumes "j \<noteq> i"
  shows "chan (start_transfer i d) j = chan d j"
    "chan (fst (try_reload_descriptor i s)) j = chan (fst s) j"
    "chan (fst (reload_and_restart i s)) j = chan (fst s) j"
    "chan (fst (transfer_beat i s)) j = chan (fst s) j"
    "chan (fst (block_done i s)) j = chan (fst s) j" "chan (fst (burst_done i s)) j = chan (fst s) j"
proof -
  show start: "chan (start_transfer i d) j = chan d j" for d using assms by (simp add: start_transfer_def)
  show reload: "chan (fst (try_reload_descriptor i s)) j = chan (fst s) j" for s
    using assms by (simp add: try_reload_descriptor_def Let_def split_beta)
  show restart: "chan (fst (reload_and_restart i s)) j = chan (fst s) j" for s
    using reload[of s] by (simp add: reload_and_restart_def start split_beta)
  show "chan (fst (transfer_beat i s)) j = chan (fst s) j"
    using assms by (simp add: transfer_beat_def Let_def split_beta)
  have "chan (d\<lparr>dma_int_pending := p\<rparr>) j = chan d j" for d p by (simp add: chan_def)
  then show "chan (fst (block_done i s)) j = chan (fst s) j"
    using assms by (simp add: block_done_def restart split_beta Let_def)
  show "chan (fst (burst_done i s)) j = chan (fst s) j"
    using assms by (simp add: burst_done_def restart split_beta Let_def)
qed

lemma other_channel_process [simp]:
  "j \<noteq> i \<Longrightarrow> chan (fst (process_transfer_beats i s)) j = chan (fst s) j"
proof (induction i s rule: process_transfer_beats.induct)
  case (1 i s)
  then show ?case by (subst process_transfer_beats.simps) (auto simp: Let_def)
qed

lemma other_channel_tick: "j \<noteq> i \<Longrightarrow> chan (fst (tick_channel e i s)) j = chan (fst s) j"
  by (simp add: tick_channel_def Let_def split_beta)

definition idle :: "dma \<Rightarrow> nat \<Rightarrow> bool" where
  "idle d j \<longleftrightarrow> \<not> ch_busy (chan d j) \<and> \<not> pending_trigger (chan d j)"

lemma idle_tick: "idle (fst s) j \<Longrightarrow> tick_channel e j s = s"
  by (simp add: idle_def tick_channel_def Let_def split_beta)

lemma idle_ticks: "\<forall>j\<in>set js. idle (fst s) j \<Longrightarrow> fold (tick_channel e) js s = s"
  by (induction js) (simp_all add: idle_tick)

lemma only_channel_ticks:
  assumes "i < n" and "\<forall>j<n. j \<noteq> i \<longrightarrow> idle (fst s) j"
  shows "fold (tick_channel e) [0..<n] s = tick_channel e i s"
proof -
  have "[0..<n] = [0..<i] @ i # [Suc i..<n]"
    using upt_add_eq_append[of 0 i "n - i"] upt_conv_Cons[of i n] assms(1) by simp
  moreover have "fold (tick_channel e) [0..<i] s = s" using assms by (intro idle_ticks) auto
  moreover have "fold (tick_channel e) [Suc i..<n] (tick_channel e i s) = tick_channel e i s"
    using assms by (intro idle_ticks) (auto simp: idle_def other_channel_tick)
  ultimately show ?thesis by simp
qed

section \<open>Beats\<close>

text \<open>A channel in the middle of a block of ascending bytes, with the cycles for the rest of it.\<close>

definition copying :: "nat \<Rightarrow> dma \<Rightarrow> nat \<Rightarrow> bool" where
  "copying i d n \<longleftrightarrow> i < length (dma_channels d) \<and> n < 65536 \<and> remaining_count (chan d i) = of_nat n \<and>
     beats_remaining (ch_xfer (chan d i)) = of_nat n \<and> 2 * n \<le> unat (xfer_cycles (ch_xfer (chan d i))) \<and>
     ch_ctrlb (chan d i) AND 0x80 = 0 \<and>
     drop_bit 6 (increment_register i d) AND 0x03 = 1 \<and> drop_bit 4 (increment_register i d) AND 0x03 = 1"

lemma cell_no_wait: "data_cell m a \<Longrightarrow> get_wait_states m a = 0"
  by (simp add: get_wait_states_def data_cell_def)

lemma copying_beat:
  assumes "copying i d (Suc n)" and "data_cell m (ch_srcaddr (chan d i))" and "data_cell m (ch_dstaddr (chan d i))"
  defines "s' \<equiv> transfer_beat i (d, m)"
  shows "beat_due i (d, m)" and "copying i (fst s') n"
    and "ch_srcaddr (chan (fst s') i) = ch_srcaddr (chan d i) + 1"
    and "ch_dstaddr (chan (fst s') i) = ch_dstaddr (chan d i) + 1"
    and "snd s' = write_data (ch_dstaddr (chan d i)) (data (bus m) ! unat (ch_srcaddr (chan d i))) m"
proof -
  have c: "i < length (dma_channels d)" "Suc n < 65536" "remaining_count (chan d i) = of_nat (Suc n)"
    "beats_remaining (ch_xfer (chan d i)) = of_nat (Suc n)" "2 * Suc n \<le> unat (xfer_cycles (ch_xfer (chan d i)))"
    "ch_ctrlb (chan d i) AND 0x80 = 0" "drop_bit 6 (increment_register i d) AND 0x03 = 1"
    "drop_bit 4 (increment_register i d) AND 0x03 = 1"
    using assms(1) by (simp_all add: copying_def)
  have cost: "beat_cost i (d, m) = 2" using assms(2,3) by (simp add: beat_cost_def cell_no_wait)
  have "(of_nat (Suc n) :: u16) \<noteq> 0"
    using c(2) by (simp add: word_unat_eq_iff unat_of_nat take_bit_nat_eq_self del: of_nat_Suc)
  then show "beat_due i (d, m)"
    using c by (simp add: beat_due_def cost word_gt_0 word_le_nat_alt del: of_nat_Suc)
  have s': "s' = (upd_chan i (\<lambda>c. upd_xfer (\<lambda>x. x\<lparr>beats_remaining := beats_remaining x - 1,
                       beats_in_burst := beats_in_burst x + 1, xfer_cycles := xfer_cycles x - 2\<rparr>)
                 (c\<lparr>ch_srcaddr := ch_srcaddr c + 1, ch_dstaddr := ch_dstaddr c + 1,
                    remaining_count := remaining_count c - 1\<rparr>)) d,
      write_data (ch_dstaddr (chan d i)) (data (bus m) ! unat (ch_srcaddr (chan d i))) m)"
    using c(7,8) by (simp add: s'_def transfer_beat_def cost read_cell[OF assms(2)] increment_def Let_def)
  then show "ch_srcaddr (chan (fst s') i) = ch_srcaddr (chan d i) + 1"
    "ch_dstaddr (chan (fst s') i) = ch_dstaddr (chan d i) + 1"
    "snd s' = write_data (ch_dstaddr (chan d i)) (data (bus m) ! unat (ch_srcaddr (chan d i))) m"
    using c(1) by (simp_all add: upd_xfer_def)
  have "unat (xfer_cycles (ch_xfer (chan d i)) - 2) = unat (xfer_cycles (ch_xfer (chan d i))) - 2"
    using c(5) unat_sub[of 2 "xfer_cycles (ch_xfer (chan d i))"] by (simp add: word_le_nat_alt)
  then show "copying i (fst s') n"
    using c unfolding s' by (auto simp: copying_def upd_xfer_def increment_register_def split: if_splits)
qed

lemma byte_stores_next: "byte_stores a (Suc k) vs = byte_stores (a + 1) k vs"
  by (simp add: byte_stores_def ac_simps)

lemma cells_from_next: "cells_from m a (Suc n) \<Longrightarrow> n \<noteq> 0 \<Longrightarrow> cells_from m (a + 1) n"
proof -
  assume c: "cells_from m a (Suc n)" "n \<noteq> 0"
  have "data_cell m (a + of_nat (Suc j))" if "j < n" for j
    using c(1) that unfolding cells_from_def by (metis Suc_less_eq)
  moreover have "unat (a + 1) = unat a + 1" using c by (simp add: cells_from_def unat_word_ariths)
  ultimately show ?thesis using c(1) by (simp add: cells_from_def ac_simps)
qed

definition source_bytes :: "machine \<Rightarrow> u16 \<Rightarrow> nat \<Rightarrow> u8 list" where
  "source_bytes m a n = map (\<lambda>j. data (bus m) ! unat (a + of_nat j)) [0..<n]"

definition apart :: "u16 \<Rightarrow> u16 \<Rightarrow> nat \<Rightarrow> bool" where
  "apart a b n \<longleftrightarrow> unat a + n \<le> unat b \<or> unat b + n \<le> unat a"

lemma copy_beats:
  assumes "copying i d (Suc n)" and "cells_from m (ch_srcaddr (chan d i)) (Suc n)"
    and "cells_from m (ch_dstaddr (chan d i)) (Suc n)"
    and "apart (ch_srcaddr (chan d i)) (ch_dstaddr (chan d i)) (Suc n)"
  shows "\<exists>d'. copying i d' 0 \<and> process_transfer_beats i (d, m) =
    block_done i (d', cells.stores (byte_stores (ch_dstaddr (chan d i)) 0 (source_bytes m (ch_srcaddr (chan d i)) (Suc n))) m)"
  using assms
proof (induction n arbitrary: d m)
  case 0
  let ?s = "transfer_beat i (d, m)"
  have cells: "data_cell m (ch_srcaddr (chan d i))" "data_cell m (ch_dstaddr (chan d i))"
    using 0 by (auto simp: cells_from_def)
  note beat = copying_beat[OF 0(1) cells]
  have "i < length (dma_channels d)" "remaining_count (chan (fst ?s) i) = 0"
    using 0(1) beat(2) by (simp_all add: copying_def)
  then have "process_transfer_beats i (d, m) = block_done i ?s"
    using beat(1) by (subst process_transfer_beats.simps) simp
  moreover have "snd ?s = cells.stores (byte_stores (ch_dstaddr (chan d i)) 0 (source_bytes m (ch_srcaddr (chan d i)) 1)) m"
    using beat(5) by (simp add: source_bytes_def cells.stores_def)
  ultimately show ?case using beat(2) by (metis One_nat_def prod.collapse)
next
  case (Suc n)
  let ?s = "transfer_beat i (d, m)" and ?src = "ch_srcaddr (chan d i)" and ?dst = "ch_dstaddr (chan d i)"
  have cells: "data_cell m ?src" "data_cell m ?dst"
    using Suc.prems by (auto simp: cells_from_def dest!: spec[of _ 0])
  note beat = copying_beat[OF Suc.prems(1) cells]
  have "n < 65535" using Suc.prems(1) by (simp add: copying_def)
  then have "(of_nat (Suc n) :: u16) \<noteq> 0"
    by (simp add: word_unat_eq_iff unat_of_nat take_bit_nat_eq_self del: of_nat_Suc)
  then have go: "i < length (dma_channels d)" "remaining_count (chan (fst ?s) i) \<noteq> 0"
    using Suc.prems(1) beat(2) by (simp_all add: copying_def del: of_nat_Suc)
  have same_cells: "cells_from (snd ?s) a k = cells_from m a k" for a k
    by (simp add: beat(5) cells_from_def cells.cell_store[OF cells(2)])
  have room: "unat (?src + 1) = unat ?src + 1" "unat (?dst + 1) = unat ?dst + 1"
    using Suc.prems(2,3) by (simp_all add: cells_from_def unat_word_ariths)
  have tail: "source_bytes (snd ?s) (?src + 1) (Suc n) = source_bytes m (?src + 1) (Suc n)"
    unfolding source_bytes_def
  proof (rule map_cong[OF refl])
    fix j assume "j \<in> set [0..<Suc n]"
    then have j: "j < Suc n" by auto
    have pos: "unat (?src + 1 + of_nat j) = unat ?src + 1 + j"
      using j Suc.prems(2) room by (simp add: cells_from_def unat_word_ariths unat_of_nat take_bit_nat_eq_self)
    have "data_cell m (?src + of_nat (Suc j))"
      using j Suc.prems(2) unfolding cells_from_def by (metis Suc_less_eq)
    then have "data_cell m (?src + 1 + of_nat j)" by (simp add: ac_simps)
    moreover have "?src + 1 + of_nat j \<noteq> ?dst"
      using Suc.prems(4) j pos by (auto simp: apart_def word_unat_eq_iff)
    ultimately show "data (bus (snd ?s)) ! unat (?src + 1 + of_nat j) = data (bus m) ! unat (?src + 1 + of_nat j)"
      by (simp add: beat(5) cells.load_store[OF _ cells(2)])
  qed
  have first: "source_bytes m ?src (Suc (Suc n)) = data (bus m) ! unat ?src # source_bytes m (?src + 1) (Suc n)"
    unfolding source_bytes_def by (subst upt_conv_Cons) (simp_all add: ac_simps flip: map_Suc_upt del: upt_Suc)
  have ih: "\<exists>d'. copying i d' 0 \<and> process_transfer_beats i ?s =
      block_done i (d', cells.stores (byte_stores (?dst + 1) 0 (source_bytes (snd ?s) (?src + 1) (Suc n))) (snd ?s))"
  proof -
    have "cells_from (snd ?s) (?src + 1) (Suc n)" "cells_from (snd ?s) (?dst + 1) (Suc n)"
      unfolding same_cells using Suc.prems(2,3) cells_from_next by auto
    moreover have "apart (?src + 1) (?dst + 1) (Suc n)" using Suc.prems(4) room by (auto simp: apart_def)
    ultimately show ?thesis using Suc.IH[OF beat(2), of "snd ?s"] by (simp only: prod.collapse beat(3,4))
  qed
  then show ?case
    using beat(1) go ih[unfolded tail]
    by (subst process_transfer_beats.simps) (simp add: first beat(5) cells.stores_def byte_stores_next)
qed

lemma no_reload:
  "ch_ctrlb (chan d i) AND 0x80 = 0 \<Longrightarrow> remaining_count (chan d i) = 0 \<Longrightarrow> reload_and_restart i (d, m) = (d, m)"
  by (simp add: reload_and_restart_def try_reload_descriptor_def Let_def)

lemma chan_int_pending [simp]:
  "chan (d\<lparr>dma_int_pending := p\<rparr>) i = chan d i"
  "length (dma_channels (d\<lparr>dma_int_pending := p\<rparr>)) = length (dma_channels d)"
  by (simp_all add: chan_def)

lemma block_done_stops:
  assumes "copying i d 0"
  shows "snd (block_done i (d, m)) = m" "\<not> ch_busy (chan (fst (block_done i (d, m))) i)"
    "remaining_count (chan (fst (block_done i (d, m))) i) = 0"
    "ch_intflags (chan (fst (block_done i (d, m))) i) AND 0x01 \<noteq> 0"
proof -
  let ?d = "upd_chan i (\<lambda>c. stop_channel (c\<lparr>ch_intflags := ch_intflags c OR 0x01\<rparr>))
      (d\<lparr>dma_int_pending := dma_int_pending d \<or> ch_intctrl (chan d i) AND 0x01 \<noteq> 0\<rparr>)"
  have i: "i < length (dma_channels d)" "remaining_count (chan d i) = 0" "ch_ctrlb (chan d i) AND 0x80 = 0"
    using assms by (simp_all add: copying_def)
  have c: "chan ?d i = stop_channel ((chan d i)\<lparr>ch_intflags := ch_intflags (chan d i) OR 0x01\<rparr>)" using i(1) by simp
  have "ch_ctrlb (chan ?d i) AND 0x80 = 0" "remaining_count (chan ?d i) = 0"
    unfolding c using i by (simp_all add: stop_channel_def upd_xfer_def)
  then have "block_done i (d, m) = (?d, m)" by (simp add: block_done_def no_reload)
  moreover have "(w OR 1) AND 1 = (1 :: u8)" for w by (intro bit_word_eqI) (auto simp: bit_simps)
  ultimately show "snd (block_done i (d, m)) = m" "\<not> ch_busy (chan (fst (block_done i (d, m))) i)"
    "remaining_count (chan (fst (block_done i (d, m))) i) = 0"
    "ch_intflags (chan (fst (block_done i (d, m))) i) AND 0x01 \<noteq> 0"
    using i by (simp_all add: c stop_channel_def upd_xfer_def)
qed

section \<open>Property\<close>

text \<open>
  C36.  A triggered block transfer copies its block: with enough cycles for two a byte, one
  tick of the controller leaves at the destination the bytes that were at the source, every
  other byte of data memory as it was, the channel stopped with nothing left to count, and
  its transfer flag set; provided the blocks are plain data memory and do not overlap, both
  addresses count up, no descriptor is chained and the other channels rest.
\<close>

definition block_channel :: "nat \<Rightarrow> dma \<Rightarrow> bool" where
  "block_channel i d \<longleftrightarrow> i < channel_count (dma_desc d) \<and> i < length (dma_channels d) \<and>
     pending_trigger (chan d i) \<and> \<not> ch_busy (chan d i) \<and> remaining_count (chan d i) > 0 \<and>
     ch_ctrlb (chan d i) AND 0x83 = 0 \<and> xfer_cycles (ch_xfer (chan d i)) = 0 \<and>
     drop_bit 6 (increment_register i d) AND 0x03 = 1 \<and> drop_bit 4 (increment_register i d) AND 0x03 = 1 \<and>
     (\<forall>j<channel_count (dma_desc d). j \<noteq> i \<longrightarrow> idle d j)"

theorem dma_copies_block:
  fixes d :: dma and m :: machine
  assumes "dma_enabled d" and "block_channel i d"
  defines "n \<equiv> unat (remaining_count (chan d i))"
    and "src \<equiv> ch_srcaddr (chan d i)" and "dst \<equiv> ch_dstaddr (chan d i)"
  assumes "cells_from m src n" and "cells_from m dst n" and "apart src dst n" and "2 * n \<le> unat elapsed"
  shows "\<exists>d' m'. dma_tick elapsed (d, m) = (d', m') \<and>
    source_bytes m' dst n = source_bytes m src n \<and>
    (\<forall>a. data_cell m a \<and> (\<forall>j<n. a \<noteq> dst + of_nat j) \<longrightarrow> data (bus m') ! unat a = data (bus m) ! unat a) \<and>
    \<not> ch_busy (chan d' i) \<and> remaining_count (chan d' i) = 0 \<and> ch_intflags (chan d' i) AND 0x01 \<noteq> 0"
proof -
  let ?bytes = "source_bytes m src n" and ?c = "chan d i"
  let ?m = "cells.stores (byte_stores dst 0 ?bytes) m"
  let ?d0 = "upd_chan i (upd_xfer (\<lambda>x. x\<lparr>xfer_cycles := xfer_cycles x + elapsed\<rparr>)) (start_transfer i d)"
  have len: "length ?bytes = n" by (simp add: source_bytes_def)
  have b: "i < channel_count (dma_desc d)" "i < length (dma_channels d)" "pending_trigger ?c" "\<not> ch_busy ?c"
    "remaining_count ?c > 0" "ch_ctrlb ?c AND 0x83 = 0" "xfer_cycles (ch_xfer ?c) = 0"
    "drop_bit 6 (increment_register i d) AND 0x03 = 1" "drop_bit 4 (increment_register i d) AND 0x03 = 1"
    and idle: "\<forall>j<channel_count (dma_desc d). j \<noteq> i \<longrightarrow> idle d j"
    using assms(2) by (simp_all add: block_channel_def)
  have act: "ch_ctrlb ?c AND 0x03 = 0" "ch_ctrlb ?c AND 0x80 = 0"
  proof -
    have "ch_ctrlb ?c AND 0x03 = (ch_ctrlb ?c AND 0x83) AND 0x03" "ch_ctrlb ?c AND 0x80 = (ch_ctrlb ?c AND 0x83) AND 0x80"
      by (simp_all add: and.assoc)
    then show "ch_ctrlb ?c AND 0x03 = 0" "ch_ctrlb ?c AND 0x80 = 0" using b(6) by simp_all
  qed
  obtain k where k: "n = Suc k" using b(5) by (cases n) (simp_all add: n_def word_gt_0 unat_eq_0)
  have n: "n < 65536" "remaining_count ?c = of_nat n" unfolding n_def by (simp_all add: u16_less)
  have start: "copying i ?d0 n" "ch_srcaddr (chan ?d0 i) = src" "ch_dstaddr (chan ?d0 i) = dst"
    "ch_intflags (chan ?d0 i) = ch_intflags ?c"
    using b n act assms(9)
    by (auto simp: copying_def start_transfer_def upd_xfer_def started_channel_def Let_def increment_register_def
        src_def dst_def split: if_splits)
  obtain d1 where d1: "copying i d1 0" "process_transfer_beats i (?d0, m) = block_done i (d1, ?m)"
    using copy_beats[of i ?d0 k m] start assms(6-8) by (auto simp: k)
  define d' where "d' = fst (block_done i (d1, ?m))"
  have stop: "block_done i (d1, ?m) = (d', ?m)" "\<not> ch_busy (chan d' i)" "remaining_count (chan d' i) = 0"
    "ch_intflags (chan d' i) AND 0x01 \<noteq> 0"
    using block_done_stops[OF d1(1), of ?m] by (simp_all add: d'_def prod_eq_iff)
  have "dma_tick elapsed (d, m) = tick_channel elapsed i (d, m)"
    using assms(1) only_channel_ticks[OF b(1), of "(d, m)" elapsed] idle by (simp add: dma_tick_def)
  also have "\<dots> = (d', ?m)"
    using b d1(2) stop(1) by (simp add: tick_channel_def Let_def start_transfer_def started_channel_def)
  finally have run: "dma_tick elapsed (d, m) = (d', ?m)" .
  have "source_bytes ?m dst n = ?bytes"
    using stored_bytes(2)[of m dst ?bytes] assms(7) by (simp add: source_bytes_def[of ?m] len)
  moreover have "data (bus ?m) ! unat a = data (bus m) ! unat a"
    if "data_cell m a" "\<forall>j<n. a \<noteq> dst + of_nat j" for a
    using assms(7) that by (intro cells.load_other) (auto simp: byte_stores_def len cells_from_def)
  ultimately show ?thesis using run stop by blast
qed

definition sample_dma :: dma where
  "sample_dma = (dma_init \<lparr>dd_ctrla_address = 0x100, dd_status_address = 0x103, dd_intctrl_address = 0x106,
       dd_intflags_address = 0x107, dbgctrl_address = 0, channel_count = 1,
       dd_channels = [\<lparr>dc_ctrla_address = 0x110, dc_ctrlb_address = 0x111, srcaddr_address = 0x118,
         dstaddr_address = 0x11C, cnt_address = 0x114, trigsrc_address = 0x113, dc_intctrl_address = 0,
         dc_intflags_address = 0, user_event_address = 0, descaddr_address = 0, addrctrl_address = 0x112\<rparr>],
       dd_vector_index = 6\<rparr>)
     \<lparr>dma_ctrla := 0x01,
      dma_channels := [channel_init\<lparr>ch_ctrla := 0x01, ch_addrctrl := 0x50, ch_srcaddr := 0x110, ch_dstaddr := 0x118,
        ch_cnt := 2, remaining_count := 2, pending_trigger := True\<rparr>]\<rparr>"

theorem dma_copies_block_witness:
  "\<exists>d' m'. dma_tick 4 (sample_dma, ready_machine []) = (d', m') \<and>
    source_bytes m' 0x118 2 = source_bytes (ready_machine []) 0x110 2 \<and>
    \<not> ch_busy (chan d' 0) \<and> remaining_count (chan d' 0) = 0 \<and> ch_intflags (chan d' 0) AND 0x01 \<noteq> 0"
proof -
  have c: "chan sample_dma 0 = channel_init\<lparr>ch_ctrla := 0x01, ch_addrctrl := 0x50, ch_srcaddr := 0x110,
      ch_dstaddr := 0x118, ch_cnt := 2, remaining_count := 2, pending_trigger := True\<rparr>"
    by (simp add: sample_dma_def chan_def)
  have "addrctrl_address (chan_desc sample_dma 0) \<noteq> 0"
    by (simp add: sample_dma_def chan_desc_def dma_init_def)
  then have r: "increment_register 0 sample_dma = 0x50" by (simp add: increment_register_def c)
  have "dma_enabled sample_dma" by (simp add: sample_dma_def dma_enabled_def)
  moreover have "block_channel 0 sample_dma"
    by (simp add: block_channel_def r c channel_init_def transfer_init_def)
       (simp add: sample_dma_def dma_init_def)
  moreover have "cells_from (ready_machine []) 0x110 2" "cells_from (ready_machine []) 0x118 2"
    using sample_cell[of "0x110" "[]"] sample_cell[of "0x111" "[]"] sample_cell[of "0x118" "[]"] sample_cell[of "0x119" "[]"]
    by (auto simp: cells_from_def less_2_cases_iff)
  moreover have "apart 0x110 0x118 2" by (simp add: apart_def)
  ultimately show ?thesis
    using dma_copies_block[of sample_dma 0 "ready_machine []" 4] by (auto simp: c)
qed

end
