(* ===== verification/Wires.thy ===== *)
theory Wires
  imports Pins
begin

text \<open>
  A pin as a wire.  A serial peripheral that holds a pin of the multiplexer needs only this
  of it: what it drives is what is seen, driving one pin does not disturb another, and a
  released pin is free again.  The locale states that contract; \<open>PinMux\<close> meets it for any owner
  that outranks GPIO, on a pin nobody else claims.
\<close>

section \<open>The contract\<close>

locale wire_bus =
  fixes claim release :: "'p \<Rightarrow> 'm \<Rightarrow> 'm" and drive :: "'p \<Rightarrow> bool \<Rightarrow> 'm \<Rightarrow> 'm"
    and seen :: "'m \<Rightarrow> 'p \<Rightarrow> bool option" and free held :: "'m \<Rightarrow> 'p \<Rightarrow> bool" and valid :: "'m \<Rightarrow> bool"
  assumes valid_ops: "valid m \<Longrightarrow> valid (claim p m)" "valid m \<Longrightarrow> valid (release p m)" "valid m \<Longrightarrow> valid (drive p v m)"
    and claim_held: "valid m \<Longrightarrow> free m p \<Longrightarrow> held (claim p m) p"
    and drive_seen: "valid m \<Longrightarrow> held m p \<Longrightarrow> held (drive p v m) p \<and> seen (drive p v m) p = Some v"
    and release_free: "valid m \<Longrightarrow> held m p \<Longrightarrow> free (release p m) p"
    and claim_other: "valid m \<Longrightarrow> q \<noteq> p \<Longrightarrow>
      seen (claim p m) q = seen m q \<and> free (claim p m) q = free m q \<and> held (claim p m) q = held m q"
    and release_other: "valid m \<Longrightarrow> q \<noteq> p \<Longrightarrow>
      seen (release p m) q = seen m q \<and> free (release p m) q = free m q \<and> held (release p m) q = held m q"
    and drive_other: "valid m \<Longrightarrow> q \<noteq> p \<Longrightarrow>
      seen (drive p v m) q = seen m q \<and> free (drive p v m) q = free m q \<and> held (drive p v m) q = held m q"
begin

lemmas wire_laws = valid_ops claim_held drive_seen release_free claim_other release_other drive_other

text \<open>Two wires driven in turn show their two levels, in either order.\<close>

lemma drive_two:
  assumes "valid m" "held m p" "held m q" "p \<noteq> q"
  shows "seen (drive p v (drive q w m)) p = Some v" "seen (drive p v (drive q w m)) q = Some w"
    "held (drive p v (drive q w m)) p" "held (drive p v (drive q w m)) q"
  using assms drive_seen[of m q w] drive_other[of m p q w] drive_other[of "drive q w m" q p v]
    drive_seen[of "drive q w m" p v] valid_ops(3)[of m q w] by auto

text \<open>Operations on pins other than those of a set leave the set as it is.\<close>

definition untouched :: "'p set \<Rightarrow> 'm \<Rightarrow> 'm \<Rightarrow> bool" where
  "untouched P m m' \<longleftrightarrow> (valid m \<longrightarrow> valid m' \<and>
     (\<forall>q\<in>P. seen m' q = seen m q \<and> free m' q = free m q \<and> held m' q = held m q))"

lemma untouched_refl: "untouched P m m"
  by (simp add: untouched_def)

lemma untouched_trans: "untouched P m m' \<Longrightarrow> untouched P m' m'' \<Longrightarrow> untouched P m m''"
  by (simp add: untouched_def)

lemma untouched_ops:
  assumes "p \<notin> P"
  shows "untouched P m (claim p m)" "untouched P m (release p m)" "untouched P m (drive p v m)"
  unfolding untouched_def
  using assms valid_ops[of m p] claim_other[of m _ p] release_other[of m _ p] drive_other[of m _ p v]
  by (metis (no_types))+

end

section \<open>One pin after an operation\<close>

lemma pin_after_update:
  assumes m: "settled m" and f: "\<forall>e. cache_ok e \<longrightarrow> cache_ok (f e)" and pb: "in_mux m p b"
  defines "m' \<equiv> reevaluate_ownership p b (upd_entry p b f m)"
  shows "settled m'" "in_mux m' = in_mux m"
    and "in_mux m q c \<Longrightarrow> (q, c) \<noteq> (p, b) \<Longrightarrow> get_state m' q c = get_state m q c"
    and "in_mux m q c \<Longrightarrow> (q, c) \<noteq> (p, b) \<Longrightarrow> active_claims (mux_entry m' q c) = active_claims (mux_entry m q c)"
    and "get_state m' p b = pe_state (resolve_entry (pullup_suppressed m) (f (mux_entry m p b)))"
    and "active_claims (mux_entry m' p b) = active_claims (f (mux_entry m p b))"
proof -
  have shape: "mux_shape m" using m by (simp add: settled_def)
  show "settled m'" unfolding m'_def by (rule settled_update[OF m pb f])
  show same: "in_mux m' = in_mux m" using shape by (simp add: m'_def)
  have e: "observed (mux_entry m' q c) = observed (if (q, c) = (p, b)
      then resolve_entry (pullup_suppressed m) (f (mux_entry m p b)) else mux_entry m q c)"
    if "in_mux m q c" for q c
    unfolding m'_def using shape pb that by (subst reevaluate_entry) (auto simp: mux_entry_upd)
  have state: "get_state m' q c = pe_state (observed (mux_entry m' q c))"
    "get_state m q c = pe_state (observed (mux_entry m q c))" if "in_mux m q c" for q c
    using that by (simp_all add: get_state_def same)
  show "in_mux m q c \<Longrightarrow> (q, c) \<noteq> (p, b) \<Longrightarrow> get_state m' q c = get_state m q c"
    by (auto simp: state e simp del: observed_sel)
  show "in_mux m q c \<Longrightarrow> (q, c) \<noteq> (p, b) \<Longrightarrow> active_claims (mux_entry m' q c) = active_claims (mux_entry m q c)"
    using arg_cong[OF e[of q c], of active_claims] by (auto split: if_splits)
  show "get_state m' p b = pe_state (resolve_entry (pullup_suppressed m) (f (mux_entry m p b)))"
    by (simp only: state[OF pb] e[OF pb]) simp
  show "active_claims (mux_entry m' p b) = active_claims (f (mux_entry m p b))"
    using arg_cong[OF e[OF pb], of active_claims] by (simp add: resolve_entry_def pick_owner_def Let_def)
qed

section \<open>The multiplexer as a wire bus\<close>

definition pin_claim :: "pin_owner \<Rightarrow> u8 \<times> u8 \<Rightarrow> pin_mux \<Rightarrow> pin_mux" where
  "pin_claim owner p m = fst (claim_pin (fst p) (snd p) owner m)"

definition pin_release :: "pin_owner \<Rightarrow> u8 \<times> u8 \<Rightarrow> pin_mux \<Rightarrow> pin_mux" where
  "pin_release owner p m = release_pin (fst p) (snd p) owner m"

definition pin_drive :: "pin_owner \<Rightarrow> u8 \<times> u8 \<Rightarrow> bool \<Rightarrow> pin_mux \<Rightarrow> pin_mux" where
  "pin_drive owner p v m = update_pin (fst p) (snd p) owner True v False False m"

definition pin_seen :: "pin_owner \<Rightarrow> pin_mux \<Rightarrow> u8 \<times> u8 \<Rightarrow> bool option" where
  "pin_seen owner m p =
     (let st = get_state m (fst p) (snd p)
      in if ps_is_output st \<and> ps_owner st = owner then Some (ps_drive_level st) else None)"

definition pin_free :: "pin_mux \<Rightarrow> u8 \<times> u8 \<Rightarrow> bool" where
  "pin_free m p \<longleftrightarrow> in_mux m (fst p) (snd p) \<and> active_claims (mux_entry m (fst p) (snd p)) = owner_bit Own_gpio"

definition pin_held :: "pin_owner \<Rightarrow> pin_mux \<Rightarrow> u8 \<times> u8 \<Rightarrow> bool" where
  "pin_held owner m p \<longleftrightarrow> in_mux m (fst p) (snd p) \<and>
     active_claims (mux_entry m (fst p) (snd p)) = owner_bit Own_gpio OR owner_bit owner"

definition outranks_gpio :: "pin_owner \<Rightarrow> bool" where
  "outranks_gpio owner \<longleftrightarrow> owner \<noteq> Own_gpio \<and> highest_claim (owner_bit Own_gpio OR owner_bit owner) = owner \<and>
     owner_index owner \<noteq> 0 \<and> owner_index owner < 32"

lemma resolved_state:
  fixes e :: pin_entry
  assumes "cache_ok e"
  defines "k \<equiv> owner_index (highest_claim (active_claims e))"
  shows "ps_owner (pe_state (resolve_entry s e)) = highest_claim (active_claims e)"
    "ps_is_output (pe_state (resolve_entry s e)) = bit (output_mask e) k"
    "\<not> bit (wired_and_mask e) k \<Longrightarrow> ps_drive_level (pe_state (resolve_entry s e)) = bit (drive_levels e) k"
  by (simp_all add: resolve_entry_def pick_owner_highest[OF assms(1)] Let_def owner_bit_test k_def)

lemma outranking_bits:
  assumes "outranks_gpio owner"
  shows "bit (owner_bit owner) k \<longleftrightarrow> k = owner_index owner" "bit (owner_bit Own_gpio) k \<longleftrightarrow> k = 0"
    "owner_index owner \<noteq> 0" "highest_claim (owner_bit Own_gpio OR owner_bit owner) = owner"
  using assms by (auto simp: outranks_gpio_def owner_bit_def bit_exp_iff bit_1_iff)

lemma pin_elsewhere:
  assumes "settled m" and "q \<noteq> p" and f: "\<forall>e. cache_ok e \<longrightarrow> cache_ok (f e)" and "in_mux m (fst p) (snd p)"
  defines "m' \<equiv> reevaluate_ownership (fst p) (snd p) (upd_entry (fst p) (snd p) f m)"
  shows "pin_seen owner m' q = pin_seen owner m q \<and> pin_free m' q = pin_free m q \<and> pin_held owner m' q = pin_held owner m q"
proof (cases "in_mux m (fst q) (snd q)")
  case True
  then show ?thesis
    using pin_after_update(2)[OF assms(1) f assms(4)] pin_after_update(3,4)[OF assms(1) f assms(4), of "fst q" "snd q"] assms(2)
    by (auto simp: m'_def pin_seen_def pin_free_def pin_held_def prod_eq_iff)
next
  case False
  then show ?thesis
    using pin_after_update(2)[OF assms(1) f assms(4)]
    by (simp add: m'_def pin_seen_def pin_free_def pin_held_def get_state_def)
qed

lemma held_state:
  assumes "settled m" "outranks_gpio owner" "pin_held owner m p"
  shows "ps_owner (get_state m (fst p) (snd p)) = owner"
proof -
  have "strongest (active_claims (mux_entry m (fst p) (snd p))) (ps_owner (get_state m (fst p) (snd p)))"
  proof -
    have here: "in_mux m (fst p) (snd p)" using assms(3) by (simp add: pin_held_def)
    then have "presents (pullup_suppressed m) (mux_entry m (fst p) (snd p))" using assms(1) by (simp add: settled_def)
    then show ?thesis using here by (simp add: presents_def Let_def get_state_def)
  qed
  moreover have "strongest (active_claims (mux_entry m (fst p) (snd p))) owner"
    using assms(2,3) highest_claim_strongest[of "owner_bit Own_gpio OR owner_bit owner"]
    by (simp add: pin_held_def outranks_gpio_def)
  ultimately show ?thesis unfolding strongest_def by (metis le_antisym)
qed

lemma pin_claim_held:
  assumes "settled m" "outranks_gpio owner"
  shows "settled (pin_claim owner p m)" and "pin_free m p \<Longrightarrow> pin_held owner (pin_claim owner p m) p"
    and "q \<noteq> p \<Longrightarrow> pin_seen owner (pin_claim owner p m) q = pin_seen owner m q \<and>
      pin_free (pin_claim owner p m) q = pin_free m q \<and> pin_held owner (pin_claim owner p m) q = pin_held owner m q"
proof -
  let ?f = "\<lambda>e. e\<lparr>active_claims := active_claims e OR owner_bit owner\<rparr>"
  have f: "\<forall>e. cache_ok e \<longrightarrow> cache_ok (?f e)" by simp
  show "settled (pin_claim owner p m)" using assms settled_update[OF assms(1) _ f]
    by (simp add: pin_claim_def claim_pin_def)
  show "pin_held owner (pin_claim owner p m) p" if "pin_free m p"
  proof -
    have "in_mux m (fst p) (snd p)" "owner_bit Own_gpio AND owner_bit owner = 0"
      using that outranking_bits[OF assms(2)] by (simp_all add: pin_free_def owner_bit_test)
    then show ?thesis using that pin_after_update[OF assms(1) f]
      by (simp add: pin_held_def pin_free_def pin_claim_def claim_pin_def)
  qed
  show "q \<noteq> p \<Longrightarrow> pin_seen owner (pin_claim owner p m) q = pin_seen owner m q \<and>
      pin_free (pin_claim owner p m) q = pin_free m q \<and> pin_held owner (pin_claim owner p m) q = pin_held owner m q"
    using pin_elsewhere[OF assms(1) _ f] by (simp add: pin_claim_def claim_pin_def)
qed

lemma pin_release_free:
  assumes "settled m" "outranks_gpio owner"
  shows "settled (pin_release owner p m)" and "pin_held owner m p \<Longrightarrow> pin_free (pin_release owner p m) p"
    and "q \<noteq> p \<Longrightarrow> pin_seen owner (pin_release owner p m) q = pin_seen owner m q \<and>
      pin_free (pin_release owner p m) q = pin_free m q \<and> pin_held owner (pin_release owner p m) q = pin_held owner m q"
proof -
  have f: "\<forall>e. cache_ok e \<longrightarrow> cache_ok (unclaim owner e)" by simp
  show "settled (pin_release owner p m)" using assms settled_update[OF assms(1) _ f]
    by (simp add: pin_release_def release_pin_def)
  show "pin_free (pin_release owner p m) p" if "pin_held owner m p"
  proof -
    have "in_mux m (fst p) (snd p)" using that by (simp add: pin_held_def)
    moreover have "(owner_bit Own_gpio OR owner_bit owner) AND owner_bit owner \<noteq> 0"
      "(owner_bit Own_gpio OR owner_bit owner) AND NOT (owner_bit owner) = owner_bit Own_gpio"
      using outranking_bits[OF assms(2)] unfolding owner_bit_test
      by (auto simp: bit_or_iff bit_and_iff bit_not_iff intro!: bit_word_eqI)
    moreover have "owner \<noteq> Own_gpio" using assms(2) by (simp add: outranks_gpio_def)
    ultimately have "pin_release owner p m =
        reevaluate_ownership (fst p) (snd p) (upd_entry (fst p) (snd p) (unclaim owner) m)"
      and free: "active_claims (unclaim owner (mux_entry m (fst p) (snd p))) = owner_bit Own_gpio"
      using that by (simp_all add: pin_held_def pin_release_def release_pin_def unclaim_def Let_def)
    then show ?thesis
      using pin_after_update(2,6)[OF assms(1) f] that by (simp add: pin_free_def pin_held_def)
  qed
  show "q \<noteq> p \<Longrightarrow> pin_seen owner (pin_release owner p m) q = pin_seen owner m q \<and>
      pin_free (pin_release owner p m) q = pin_free m q \<and> pin_held owner (pin_release owner p m) q = pin_held owner m q"
    using pin_elsewhere[OF assms(1) _ f] by (simp add: pin_release_def release_pin_def)
qed

lemma pin_drive_seen:
  assumes "settled m" "outranks_gpio owner"
  shows "settled (pin_drive owner p v m)"
    and "pin_held owner m p \<Longrightarrow> pin_held owner (pin_drive owner p v m) p \<and> pin_seen owner (pin_drive owner p v m) p = Some v"
    and "q \<noteq> p \<Longrightarrow> pin_seen owner (pin_drive owner p v m) q = pin_seen owner m q \<and>
      pin_free (pin_drive owner p v m) q = pin_free m q \<and> pin_held owner (pin_drive owner p v m) q = pin_held owner m q"
proof -
  let ?f = "post owner True v False False"
  have f: "\<forall>e. cache_ok e \<longrightarrow> cache_ok (?f e)" by simp
  show s: "settled (pin_drive owner p v m)" using assms settled_update[OF assms(1) _ f]
    by (simp add: pin_drive_def update_pin_def)
  show "pin_held owner (pin_drive owner p v m) p \<and> pin_seen owner (pin_drive owner p v m) p = Some v"
    if "pin_held owner m p"
  proof -
    let ?e = "?f (mux_entry m (fst p) (snd p))"
    have here: "in_mux m (fst p) (snd p)" using that by (simp add: pin_held_def)
    note after = pin_after_update[OF assms(1) f here]
    have m': "pin_drive owner p v m = reevaluate_ownership (fst p) (snd p) (upd_entry (fst p) (snd p) ?f m)"
      using here by (simp add: pin_drive_def update_pin_def)
    have held: "pin_held owner (pin_drive owner p v m) p"
      unfolding pin_held_def m' after(2,6) using that by (simp add: pin_held_def post_def Let_def)
    have ok: "cache_ok ?e" using assms(1) here by (simp add: settled_def)
    have "bit (owner_bit owner) (owner_index owner)" using outranking_bits[OF assms(2)] by simp
    moreover have "highest_claim (active_claims ?e) = owner"
      using that assms(2) by (simp add: pin_held_def outranks_gpio_def post_def Let_def)
    moreover have "get_state (pin_drive owner p v m) (fst p) (snd p) = pe_state (resolve_entry (pullup_suppressed m) ?e)"
      unfolding m' by (rule after(5))
    ultimately have "pin_seen owner (pin_drive owner p v m) p = Some v"
      using resolved_state[OF ok, of "pullup_suppressed m"]
      by (simp add: pin_seen_def Let_def post_def put_bit_def bit_or_iff bit_and_iff bit_not_iff)
    with held show ?thesis by simp
  qed
  show "q \<noteq> p \<Longrightarrow> pin_seen owner (pin_drive owner p v m) q = pin_seen owner m q \<and>
      pin_free (pin_drive owner p v m) q = pin_free m q \<and> pin_held owner (pin_drive owner p v m) q = pin_held owner m q"
    using pin_elsewhere[OF assms(1) _ f] by (simp add: pin_drive_def update_pin_def)
qed

lemma spi_outranks: "outranks_gpio Own_spi"
  unfolding outranks_gpio_def by code_simp

interpretation spi_wires: wire_bus "pin_claim Own_spi" "pin_release Own_spi" "pin_drive Own_spi" "pin_seen Own_spi"
    pin_free "pin_held Own_spi" settled
  by unfold_locales
     (simp_all add: pin_claim_held pin_release_free pin_drive_seen spi_outranks)

section \<open>Pins by address\<close>

definition locate :: "pin_mux \<Rightarrow> u16 \<times> u8 \<Rightarrow> (u8 \<times> u8) option" where
  "locate m w = (if fst w = 0 then None else map_option (\<lambda>p. (p, snd w)) (addr_to_port m (fst w)))"

lemma addr_to_port_ops [simp]:
  "addr_to_port (pin_claim owner p m) = addr_to_port m" "addr_to_port (pin_release owner p m) = addr_to_port m"
  "addr_to_port (pin_drive owner p v m) = addr_to_port m"
  by (simp_all add: pin_claim_def claim_pin_def pin_release_def release_pin_def pin_drive_def update_pin_def)

lemma locate_cong: "addr_to_port m' = addr_to_port m \<Longrightarrow> locate m' = locate m"
  by (simp add: locate_def fun_eq_iff)

lemma locate_ops [simp]:
  "locate (pin_claim owner p m) = locate m" "locate (pin_release owner p m) = locate m"
  "locate (pin_drive owner p v m) = locate m"
  by (rule locate_cong; simp)+

lemma by_address:
  assumes "fst w \<noteq> 0"
  shows "fst (claim_pin_by_address (fst w) (snd w) owner m) =
      (case locate m w of None \<Rightarrow> m | Some p \<Rightarrow> pin_claim owner p m)"
    "release_pin_by_address (fst w) (snd w) owner m = (case locate m w of None \<Rightarrow> m | Some p \<Rightarrow> pin_release owner p m)"
    "update_pin_by_address (fst w) (snd w) owner True v False False m =
      (case locate m w of None \<Rightarrow> m | Some p \<Rightarrow> pin_drive owner p v m)"
    "get_state_by_address m (fst w) (snd w) =
      (case locate m w of None \<Rightarrow> default_pin_state | Some p \<Rightarrow> get_state m (fst p) (snd p))"
  using assms
  by (simp_all add: locate_def claim_pin_by_address_def release_pin_by_address_def update_pin_by_address_def
      get_state_by_address_def pin_claim_def pin_release_def pin_drive_def split: option.split)

end
