(* ===== verification/Spi.thy ===== *)
theory Spi
  imports Wires Periph Regmap
begin

text \<open>
  \<open>Spi\<close> (\<open>src/core/spi.cpp\<close>): the serial peripheral interface of the classic devices.  A
  master whose pins are mapped steps through sixteen clock edges, each a scheduled event; one without
  pins completes in a single event; a slave follows the clock it sees on the pin.  Scheduled
  events are the list \<open>spi_timers\<close> of delays and callbacks, in order; \<open>spi_fire\<close> is
  the scheduler calling the first.  A peripheral without a multiplexer behaves as one whose pin
  addresses are 0, so the multiplexer is always there.
\<close>

section \<open>State\<close>

record spi_descriptor =
  spcr_address :: u16
  spsr_address :: u16
  spdr_address :: u16
  spi_vector_index :: u8
  spe_mask :: u8
  spie_mask :: u8
  mstr_mask :: u8
  spif_mask :: u8
  wcol_mask :: u8
  sp2x_mask :: u8
  mosi_pin :: "u16 \<times> u8"
  miso_pin :: "u16 \<times> u8"
  sck_pin :: "u16 \<times> u8"
  ss_pin :: "u16 \<times> u8"

datatype spi_callback = Spi_callback | Spi_edge_callback

record spi =
  spi_desc :: spi_descriptor
  spi_mux :: pin_mux
  spcr :: u8
  spsr :: u8
  spdr :: u8
  shift_register :: u8
  miso_buffer :: u8
  transfer_cycles_left :: u32
  transfer_in_progress :: bool
  edges_done :: u8
  rx_byte :: u8
  half_bit_cycles :: u32
  slave_active :: bool
  slave_transfer_started :: bool
  slave_sck_last :: bool
  slave_bits :: u8
  slave_rx :: u8
  slave_miso :: bool
  slave_miso_claimed :: bool
  spi_interrupt_pending :: bool
  spsr_read_since_spif :: bool
  spsr_read_since_wcol :: bool
  spi_interrupt_line :: bool
  spi_ticking :: bool
  spi_timers :: "(u32 \<times> spi_callback) list"

definition kSpiCpha :: u8 where "kSpiCpha = 0x04"
definition kSpiCpol :: u8 where "kSpiCpol = 0x08"
definition kSpiDord :: u8 where "kSpiDord = 0x20"

definition spi_init :: "spi_descriptor \<Rightarrow> pin_mux \<Rightarrow> spi" where
  "spi_init d m = \<lparr>spi_desc = d, spi_mux = m, spcr = 0, spsr = 0, spdr = 0, shift_register = 0,
     miso_buffer = 0, transfer_cycles_left = 0, transfer_in_progress = False, edges_done = 0, rx_byte = 0,
     half_bit_cycles = 0, slave_active = False, slave_transfer_started = False, slave_sck_last = False,
     slave_bits = 0, slave_rx = 0, slave_miso = True, slave_miso_claimed = False,
     spi_interrupt_pending = False, spsr_read_since_spif = False, spsr_read_since_wcol = False,
     spi_interrupt_line = False, spi_ticking = False, spi_timers = []\<rparr>"

definition spi_ranges :: "spi_descriptor \<Rightarrow> address_range list" where
  "spi_ranges d =
     (let a = [spcr_address d, spsr_address d, spdr_address d]
      in [\<lparr>range_begin = Min (set a), range_end = Max (set a)\<rparr>])"

definition spe :: "spi \<Rightarrow> bool" where "spe s \<longleftrightarrow> spcr s AND spe_mask (spi_desc s) \<noteq> 0"
definition mstr :: "spi \<Rightarrow> bool" where "mstr s \<longleftrightarrow> spcr s AND mstr_mask (spi_desc s) \<noteq> 0"
definition cpol :: "spi \<Rightarrow> bool" where "cpol s \<longleftrightarrow> spcr s AND kSpiCpol \<noteq> 0"
definition cpha :: "spi \<Rightarrow> bool" where "cpha s \<longleftrightarrow> spcr s AND kSpiCpha \<noteq> 0"
definition dord :: "spi \<Rightarrow> bool" where "dord s \<longleftrightarrow> spcr s AND kSpiDord \<noteq> 0"

section \<open>Interrupt\<close>

definition spi_pending_interrupt_request :: "spi \<Rightarrow> interrupt_request option" where
  "spi_pending_interrupt_request s =
     (if spi_interrupt_pending s \<and> spcr s AND spie_mask (spi_desc s) \<noteq> 0
      then Some (Irq (spi_vector_index (spi_desc s)) 0) else None)"

definition spi_update_interrupt_pending :: "spi \<Rightarrow> spi" where
  "spi_update_interrupt_pending s = s\<lparr>spi_interrupt_line := spi_pending_interrupt_request s \<noteq> None\<rparr>"

definition spi_consume_interrupt_request :: "spi \<Rightarrow> interrupt_request option \<times> spi" where
  "spi_consume_interrupt_request s =
     (case spi_pending_interrupt_request s of
        Some r \<Rightarrow> (Some r, spi_update_interrupt_pending (s\<lparr>spi_interrupt_pending := False\<rparr>))
      | None \<Rightarrow> (None, s))"

section \<open>Pins\<close>

definition claim_wire :: "u16 \<times> u8 \<Rightarrow> spi \<Rightarrow> spi" where
  "claim_wire w s =
     (if fst w \<noteq> 0 then s\<lparr>spi_mux := fst (claim_pin_by_address (fst w) (snd w) Own_spi (spi_mux s))\<rparr> else s)"

definition release_wire :: "u16 \<times> u8 \<Rightarrow> spi \<Rightarrow> spi" where
  "release_wire w s =
     (if fst w \<noteq> 0 then s\<lparr>spi_mux := release_pin_by_address (fst w) (snd w) Own_spi (spi_mux s)\<rparr> else s)"

definition drive_wire :: "u16 \<times> u8 \<Rightarrow> bool \<Rightarrow> spi \<Rightarrow> spi" where
  "drive_wire w level s =
     (if fst w \<noteq> 0
      then s\<lparr>spi_mux := update_pin_by_address (fst w) (snd w) Own_spi True level False False (spi_mux s)\<rparr>
      else s)"

definition wire_state :: "u16 \<times> u8 \<Rightarrow> spi \<Rightarrow> pin_state" where
  "wire_state w s = get_state_by_address (spi_mux s) (fst w) (snd w)"

definition claim_transfer_pins :: "spi \<Rightarrow> spi" where
  "claim_transfer_pins s =
     (let d = spi_desc s in claim_wire (ss_pin d) (claim_wire (mosi_pin d) (claim_wire (sck_pin d) s)))"

definition release_transfer_pins :: "spi \<Rightarrow> spi" where
  "release_transfer_pins s =
     (let d = spi_desc s in release_wire (ss_pin d) (release_wire (mosi_pin d) (release_wire (sck_pin d) s)))"

definition drive_sck :: "bool \<Rightarrow> spi \<Rightarrow> spi" where "drive_sck level s = drive_wire (sck_pin (spi_desc s)) level s"
definition drive_mosi :: "bool \<Rightarrow> spi \<Rightarrow> spi" where "drive_mosi level s = drive_wire (mosi_pin (spi_desc s)) level s"
definition drive_ss :: "bool \<Rightarrow> spi \<Rightarrow> spi" where "drive_ss level s = drive_wire (ss_pin (spi_desc s)) level s"

definition pins_mapped :: "spi \<Rightarrow> bool" where
  "pins_mapped s \<longleftrightarrow> fst (sck_pin (spi_desc s)) \<noteq> 0 \<and> fst (mosi_pin (spi_desc s)) \<noteq> 0"

definition sample_miso_wire :: "u8 \<Rightarrow> spi \<Rightarrow> bool" where
  "sample_miso_wire wire_pos s =
     (let w = miso_pin (spi_desc s); st = wire_state w s
      in if fst w \<noteq> 0 \<and> ps_is_output st \<and> ps_owner st \<noteq> Own_spi then ps_drive_level st
         else bit (miso_buffer s) (unat wire_pos))"

section \<open>Master\<close>

definition sck_divisor :: "spi \<Rightarrow> u32" where
  "sck_divisor s =
     (let spr = spcr s AND 0x03; spi2x = spsr s AND sp2x_mask (spi_desc s) \<noteq> 0
      in if spr = 0 then (if spi2x then 2 else 4)
         else if spr = 1 then (if spi2x then 8 else 16)
         else if spr = 2 then (if spi2x then 32 else 64)
         else (if spi2x then 64 else 128))"

definition spi_schedule :: "u32 \<Rightarrow> spi_callback \<Rightarrow> spi \<Rightarrow> spi" where
  "spi_schedule delay cb s = s\<lparr>spi_timers := spi_timers s @ [(delay, cb)]\<rparr>"

definition start_stepped_transfer :: "spi \<Rightarrow> spi" where
  "start_stepped_transfer s =
     (let divisor = sck_divisor s;
          s = s\<lparr>half_bit_cycles := (if divisor div 2 = 0 then 1 else divisor div 2),
                transfer_cycles_left := 8 * divisor, transfer_in_progress := True, edges_done := 0, rx_byte := 0\<rparr>;
          s = drive_sck (cpol s) (drive_ss False (claim_transfer_pins s));
          s = (if \<not> cpha s then drive_mosi (shift_register s AND 0x80 \<noteq> 0) s else s)
      in spi_schedule (half_bit_cycles s) Spi_edge_callback s)"

definition sample_miso :: "u8 \<Rightarrow> spi \<Rightarrow> spi" where
  "sample_miso wire_pos s =
     (if sample_miso_wire wire_pos s then s\<lparr>rx_byte := rx_byte s OR push_bit (unat wire_pos) 1\<rparr> else s)"

definition setup_mosi :: "u8 \<Rightarrow> spi \<Rightarrow> spi" where
  "setup_mosi wire_pos s = drive_mosi (drop_bit (unat wire_pos) (shift_register s) AND 0x01 \<noteq> 0) s"

definition wire_position :: "spi \<Rightarrow> u8 \<Rightarrow> u8" where
  "wire_position s i = (if dord s then i else 7 - i)"

definition finish_stepped_transfer :: "spi \<Rightarrow> spi" where
  "finish_stepped_transfer s =
     (let d = spi_desc s;
          s = drive_ss True (drive_sck (cpol s) (s\<lparr>transfer_in_progress := False, transfer_cycles_left := 0\<rparr>));
          s = s\<lparr>spdr := rx_byte s, spsr := (spsr s AND NOT (wcol_mask d)) OR spif_mask d,
                spi_interrupt_pending := True\<rparr>
      in release_transfer_pins (spi_update_interrupt_pending s))"

definition on_edge :: "spi \<Rightarrow> spi" where
  "on_edge s =
     (if \<not> transfer_in_progress s then s
      else
        let s = s\<lparr>edges_done := edges_done s + 1\<rparr>;
            k = edges_done s; i = (k - 1) div 2; leading = (k mod 2 = 1);
            s = drive_sck (if leading then \<not> cpol s else cpol s) s;
            s = (if leading
                 then (if \<not> cpha s then sample_miso (wire_position s i) s else setup_mosi (wire_position s i) s)
                 else (if \<not> cpha s
                       then (if i + 1 < 8 then setup_mosi (wire_position s (i + 1)) s else s)
                       else sample_miso (wire_position s i) s))
        in if k \<ge> 16 then finish_stepped_transfer s
           else spi_schedule (half_bit_cycles s) Spi_edge_callback s)"

definition abort_transfer :: "spi \<Rightarrow> spi" where
  "abort_transfer s =
     release_transfer_pins
       (s\<lparr>spi_timers := [], transfer_cycles_left := 0, transfer_in_progress := False, edges_done := 0\<rparr>)"

definition reverse_bits :: "u8 \<Rightarrow> u8" where
  "reverse_bits data =
     push_bit 7 (data AND 0x01) OR push_bit 5 (data AND 0x02) OR push_bit 3 (data AND 0x04) OR push_bit 1 (data AND 0x08)
     OR drop_bit 1 (data AND 0x10) OR drop_bit 3 (data AND 0x20) OR drop_bit 5 (data AND 0x40) OR drop_bit 7 (data AND 0x80)"

definition complete_transfer :: "spi \<Rightarrow> spi" where
  "complete_transfer s =
     (let d = spi_desc s; received = (if spcr s AND 0x20 \<noteq> 0 then reverse_bits (miso_buffer s) else miso_buffer s)
      in spi_update_interrupt_pending
           (s\<lparr>spdr := received, spsr := (spsr s AND NOT (wcol_mask d)) OR spif_mask d,
              spi_interrupt_pending := True\<rparr>))"

definition spi_on_event :: "spi \<Rightarrow> spi" where
  "spi_on_event s = (if transfer_in_progress s then s else complete_transfer (s\<lparr>transfer_cycles_left := 0\<rparr>))"

text \<open>The scheduler calling the event scheduled first.\<close>

definition spi_fire :: "spi \<Rightarrow> spi" where
  "spi_fire s =
     (case spi_timers s of
        [] \<Rightarrow> s
      | (_, Spi_callback) # ts \<Rightarrow> spi_on_event (s\<lparr>spi_timers := ts\<rparr>)
      | (_, Spi_edge_callback) # ts \<Rightarrow> on_edge (s\<lparr>spi_timers := ts\<rparr>))"

section \<open>Slave\<close>

definition slave_drive_miso :: "spi \<Rightarrow> spi" where
  "slave_drive_miso s =
     (let w = miso_pin (spi_desc s)
      in if fst w = 0 then s
         else let s = (if \<not> slave_miso_claimed s then (claim_wire w s)\<lparr>slave_miso_claimed := True\<rparr> else s)
              in drive_wire w (slave_miso s) s)"

definition slave_release_miso :: "spi \<Rightarrow> spi" where
  "slave_release_miso s =
     (let w = miso_pin (spi_desc s)
      in if \<not> slave_miso_claimed s \<or> fst w = 0 then s
         else (release_wire w (drive_wire w True s))\<lparr>slave_miso_claimed := False\<rparr>)"

definition spi_update_active_state :: "spi \<Rightarrow> spi" where
  "spi_update_active_state s = s\<lparr>spi_ticking := spe s \<and> \<not> mstr s\<rparr>"

definition slave_wake :: "pin_state \<Rightarrow> spi \<Rightarrow> spi" where
  "slave_wake sck s =
     (let s = s\<lparr>slave_sck_last := ps_drive_level sck\<rparr>
      in if ps_is_output sck \<and> ps_drive_level sck = cpol s
         then slave_drive_miso
                (s\<lparr>slave_miso := (if dord s then shift_register s AND 0x01 else drop_bit 7 (shift_register s AND 0x80)) \<noteq> 0,
                   slave_active := True, slave_bits := 0, slave_rx := 0\<rparr>)
         else slave_release_miso s)"

definition slave_shift_in :: "bool \<Rightarrow> spi \<Rightarrow> spi" where
  "slave_shift_in mosi s =
     s\<lparr>slave_rx := (if dord s then drop_bit 1 (slave_rx s) OR (if mosi then 0x80 else 0)
                    else push_bit 1 (slave_rx s) OR (if mosi then 1 else 0)),
       slave_bits := slave_bits s + 1\<rparr>"

definition slave_present :: "spi \<Rightarrow> spi" where
  "slave_present s =
     (let bit_index = slave_bits s mod 8
      in slave_drive_miso (s\<lparr>slave_miso := drop_bit (unat (if dord s then bit_index else 7 - bit_index)) (shift_register s)
                                             AND 0x01 \<noteq> 0\<rparr>))"

definition slave_complete :: "spi \<Rightarrow> spi" where
  "slave_complete s =
     spi_update_interrupt_pending
       (s\<lparr>rx_byte := slave_rx s, spdr := slave_rx s, spsr := spsr s OR spif_mask (spi_desc s),
          spi_interrupt_pending := True\<rparr>)
       \<lparr>slave_active := False, slave_transfer_started := False, slave_bits := 0, slave_rx := 0\<rparr>"

definition slave_edge :: "bool \<Rightarrow> bool \<Rightarrow> spi \<Rightarrow> spi" where
  "slave_edge mosi level s =
     (let sample_edge = (if cpha s then level = cpol s else level \<noteq> cpol s);
          s = s\<lparr>slave_transfer_started := True, slave_sck_last := level\<rparr>;
          s = (if sample_edge then slave_shift_in mosi s else s);
          output_edge = (if cpha s then sample_edge else \<not> sample_edge);
          s = (if output_edge then slave_present s else s)
      in if slave_bits s \<ge> 8 then slave_complete s else s)"

definition slave_service_pins :: "spi \<Rightarrow> spi" where
  "slave_service_pins s =
     (if \<not> (spe s \<and> \<not> mstr s)
      then (slave_release_miso s)\<lparr>slave_active := False, slave_transfer_started := False\<rparr>
      else if \<not> pins_mapped s then s
      else
        let sck = wire_state (sck_pin (spi_desc s)) s;
            s = (if \<not> slave_active s then slave_wake sck s else s)
        in if \<not> slave_active s \<or> \<not> ps_is_output sck then s
           else let mosi = ps_drive_level (wire_state (mosi_pin (spi_desc s)) s); level = ps_drive_level sck
                in if level = slave_sck_last s then s else slave_edge mosi level s)"

definition spi_tick :: "spi \<Rightarrow> spi" where "spi_tick s = slave_service_pins s"

section \<open>Registers\<close>

definition spi_reset :: "spi \<Rightarrow> spi" where
  "spi_reset s =
     (release_transfer_pins s)
       \<lparr>spcr := 0, spsr := 0, spdr := 0, shift_register := 0, miso_buffer := 0, transfer_cycles_left := 0,
        transfer_in_progress := False, edges_done := 0, rx_byte := 0, half_bit_cycles := 0,
        spi_interrupt_pending := False, spsr_read_since_spif := False\<rparr>"

definition spi_read :: "u16 \<Rightarrow> spi \<Rightarrow> u8 \<times> spi" where
  "spi_read address s =
     (let d = spi_desc s
      in if address = spcr_address d then (spcr s, s)
         else if address = spsr_address d
         then (spsr s, s\<lparr>spsr_read_since_spif := spsr_read_since_spif s \<or> spsr s AND spif_mask d \<noteq> 0,
                         spsr_read_since_wcol := spsr_read_since_wcol s \<or> spsr s AND wcol_mask d \<noteq> 0\<rparr>)
         else if address = spdr_address d
         then let s = (if spsr s AND spif_mask d \<noteq> 0 \<and> spsr_read_since_spif s
                       then spi_update_interrupt_pending
                              (s\<lparr>spsr := spsr s AND NOT (spif_mask d), spi_interrupt_pending := False\<rparr>)
                       else s);
                  s = (if spsr s AND wcol_mask d \<noteq> 0 \<and> spsr_read_since_wcol s
                       then s\<lparr>spsr := spsr s AND NOT (wcol_mask d)\<rparr> else s)
              in (spdr s, s\<lparr>spsr_read_since_spif := False, spsr_read_since_wcol := False\<rparr>)
         else (0, s))"

definition write_spcr :: "u8 \<Rightarrow> spi \<Rightarrow> spi" where
  "write_spcr value s =
     (let d = spi_desc s; was_enabled = spe s; was_master = mstr s; s = s\<lparr>spcr := value\<rparr>;
          s = (if was_enabled \<and> (value AND spe_mask d = 0 \<or> was_master \<and> value AND mstr_mask d = 0)
               then abort_transfer s else s)
      in spi_update_active_state s)"

definition start_master_transfer :: "u8 \<Rightarrow> spi \<Rightarrow> spi" where
  "start_master_transfer value s =
     (let s = s\<lparr>spsr := spsr s AND NOT (spif_mask (spi_desc s)), spi_interrupt_pending := False,
                shift_register := (if dord s then reverse_bits value else value)\<rparr>
      in if pins_mapped s then start_stepped_transfer s
         else spi_schedule (8 * sck_divisor s) Spi_callback (s\<lparr>transfer_cycles_left := 8 * sck_divisor s\<rparr>))"

definition spi_write :: "u16 \<Rightarrow> u8 \<Rightarrow> spi \<Rightarrow> spi" where
  "spi_write address value s =
     (let d = spi_desc s
      in if address = spcr_address d then write_spcr value s
         else if address = spsr_address d
         then s\<lparr>spsr := (spsr s AND NOT (sp2x_mask d)) OR (value AND sp2x_mask d)\<rparr>
         else if address = spdr_address d
         then if \<not> spe s then s\<lparr>spdr := value\<rparr>
              else if transfer_cycles_left s > 0 then s\<lparr>spsr := spsr s OR wcol_mask d\<rparr>
              else if mstr s then spi_update_interrupt_pending (start_master_transfer value s)
              else if slave_transfer_started s
              then spi_update_interrupt_pending (s\<lparr>spsr := spsr s OR wcol_mask d\<rparr>)
              else spi_update_interrupt_pending (s\<lparr>shift_register := value\<rparr>)
         else spi_update_interrupt_pending s)"

definition inject_miso_byte :: "u8 \<Rightarrow> spi \<Rightarrow> spi" where
  "inject_miso_byte value s = s\<lparr>miso_buffer := value\<rparr>"

definition on_ss_asserted :: "spi \<Rightarrow> spi" where
  "on_ss_asserted s =
     (if spe s \<and> mstr s
      then let s = abort_transfer (s\<lparr>spcr := spcr s AND NOT (mstr_mask (spi_desc s))\<rparr>)
           in spi_update_interrupt_pending
                (s\<lparr>spsr := spsr s OR spif_mask (spi_desc s), spi_interrupt_pending := True\<rparr>)
      else s)"

definition spi_busy :: "spi \<Rightarrow> bool" where
  "spi_busy s \<longleftrightarrow> transfer_in_progress s \<or> transfer_cycles_left s > 0"

end
