(* ===== verification/SpiSpec.thy ===== *)
theory SpiSpec
  imports Spi
begin

text \<open>
  What a transfer of the serial peripheral interface does on the pins: the levels a master puts
  on MOSI edge by edge, and the byte a slave on the same pins receives, in the modes that
  sample on the leading edge (CPHA clear).
\<close>

section \<open>Pins under the operations\<close>

lemma wire_fields:
  assumes "f = claim_wire w \<or> f = release_wire w \<or> f = drive_wire w v"
  shows "spi_desc (f s) = spi_desc s" "spcr (f s) = spcr s" "spsr (f s) = spsr s" "spdr (f s) = spdr s"
    "shift_register (f s) = shift_register s" "miso_buffer (f s) = miso_buffer s"
    "transfer_cycles_left (f s) = transfer_cycles_left s" "transfer_in_progress (f s) = transfer_in_progress s"
    "edges_done (f s) = edges_done s" "rx_byte (f s) = rx_byte s" "half_bit_cycles (f s) = half_bit_cycles s"
    "slave_active (f s) = slave_active s" "slave_transfer_started (f s) = slave_transfer_started s"
    "slave_sck_last (f s) = slave_sck_last s" "slave_bits (f s) = slave_bits s" "slave_rx (f s) = slave_rx s"
    "slave_miso (f s) = slave_miso s" "slave_miso_claimed (f s) = slave_miso_claimed s"
    "spi_interrupt_pending (f s) = spi_interrupt_pending s" "spi_timers (f s) = spi_timers s"
  using assms by (elim disjE; simp add: claim_wire_def release_wire_def drive_wire_def)+

lemmas wire_frame [simp] =
  wire_fields[OF disjI1[OF refl]] wire_fields[OF disjI2[OF disjI1[OF refl]]] wire_fields[OF disjI2[OF disjI2[OF refl]]]

lemma mode_fields:
  "spcr s' = spcr s \<Longrightarrow> cpol s' = cpol s" "spcr s' = spcr s \<Longrightarrow> cpha s' = cpha s" "spcr s' = spcr s \<Longrightarrow> dord s' = dord s"
  by (simp_all add: cpol_def cpha_def dord_def)

definition on_pin :: "(u8 \<times> u8 \<Rightarrow> pin_mux \<Rightarrow> pin_mux) \<Rightarrow> u16 \<times> u8 \<Rightarrow> pin_mux \<Rightarrow> pin_mux" where
  "on_pin f w m = (case locate m w of None \<Rightarrow> m | Some p \<Rightarrow> f p m)"

lemma wire_mux [simp]:
  "spi_mux (claim_wire w s) = on_pin (pin_claim Own_spi) w (spi_mux s)"
  "spi_mux (release_wire w s) = on_pin (pin_release Own_spi) w (spi_mux s)"
  "spi_mux (drive_wire w v s) = on_pin (\<lambda>p. pin_drive Own_spi p v) w (spi_mux s)"
  by (simp_all add: claim_wire_def release_wire_def drive_wire_def by_address on_pin_def locate_def)

lemma locate_on_pin [simp]:
  "locate (on_pin (pin_claim o') w m) = locate m" "locate (on_pin (pin_release o') w m) = locate m"
  "locate (on_pin (\<lambda>p. pin_drive o' p v) w m) = locate m"
  by (rule locate_cong; simp add: on_pin_def split: option.split)+

lemma untouched_on_pin:
  assumes "\<And>p. locate m w = Some p \<Longrightarrow> p \<notin> P"
  shows "spi_wires.untouched P m (on_pin (pin_claim Own_spi) w m)"
    "spi_wires.untouched P m (on_pin (pin_release Own_spi) w m)"
    "spi_wires.untouched P m (on_pin (\<lambda>p. pin_drive Own_spi p v) w m)"
  using assms spi_wires.untouched_ops[of _ P m]
  by (auto simp: on_pin_def spi_wires.untouched_refl split: option.split)

text \<open>The wires of a peripheral lie on three different pins, and SS on none of them.\<close>

definition located :: "u8 \<times> u8 \<Rightarrow> u8 \<times> u8 \<Rightarrow> u8 \<times> u8 \<Rightarrow> spi \<Rightarrow> bool" where
  "located sck mosi miso s \<longleftrightarrow>
     locate (spi_mux s) (sck_pin (spi_desc s)) = Some sck \<and> locate (spi_mux s) (mosi_pin (spi_desc s)) = Some mosi \<and>
     locate (spi_mux s) (miso_pin (spi_desc s)) = Some miso \<and> distinct [sck, mosi, miso] \<and>
     (\<forall>p. locate (spi_mux s) (ss_pin (spi_desc s)) = Some p \<longrightarrow> p \<notin> {sck, mosi, miso})"

lemma located_cong:
  "spi_desc s' = spi_desc s \<Longrightarrow> locate (spi_mux s') = locate (spi_mux s) \<Longrightarrow>
     located sck mosi miso s' = located sck mosi miso s"
  by (simp add: located_def)

lemma located_mapped: "located sck mosi miso s \<Longrightarrow> pins_mapped s"
  by (auto simp: located_def pins_mapped_def locate_def split: if_splits)

section \<open>The master, edge by edge\<close>

text \<open>The bit of the shift register that MOSI shows while bit \<open>i\<close> is on the wire.\<close>

definition mosi_position :: "spi \<Rightarrow> nat \<Rightarrow> nat" where
  "mosi_position s i = (if i = 0 then 7 else if dord s then i else 7 - i)"

definition sampled_position :: "spi \<Rightarrow> nat \<Rightarrow> nat" where
  "sampled_position s i = (if dord s then i else 7 - i)"

text \<open>A master \<open>s\<close> after \<open>k\<close> edges of a transfer begun in \<open>s0\<close>, and the wires it drives.\<close>

definition stepping :: "nat \<Rightarrow> spi \<Rightarrow> spi \<Rightarrow> bool" where
  "stepping k s0 s \<longleftrightarrow> spi_desc s = spi_desc s0 \<and> spcr s = spcr s0 \<and> shift_register s = shift_register s0 \<and>
     miso_buffer s = miso_buffer s0 \<and> transfer_in_progress s \<and> edges_done s = of_nat k \<and>
     (\<exists>h. spi_timers s = [(h, Spi_edge_callback)])"

definition clocked :: "u8 \<times> u8 \<Rightarrow> u8 \<times> u8 \<Rightarrow> nat \<Rightarrow> spi \<Rightarrow> pin_mux \<Rightarrow> bool" where
  "clocked sck mosi k s0 m \<longleftrightarrow> settled m \<and> pin_held Own_spi m sck \<and> pin_held Own_spi m mosi \<and>
     pin_seen Own_spi m sck = Some (cpol s0 \<noteq> odd k) \<and>
     pin_seen Own_spi m mosi = Some (bit (shift_register s0) (mosi_position s0 (k div 2)))"

lemma bit_on_wire: "drop_bit n w AND 0x01 \<noteq> 0 \<longleftrightarrow> bit (w :: u8) n"
  by (simp add: and_one_eq mod_2_eq_odd bit_iff_odd_drop_bit)

lemma sample_spi_fields [simp]:
  "spi_desc (sample_miso i s) = spi_desc s" "spcr (sample_miso i s) = spcr s" "spi_mux (sample_miso i s) = spi_mux s"
  "shift_register (sample_miso i s) = shift_register s" "miso_buffer (sample_miso i s) = miso_buffer s"
  "transfer_in_progress (sample_miso i s) = transfer_in_progress s" "edges_done (sample_miso i s) = edges_done s"
  "spi_timers (sample_miso i s) = spi_timers s" "half_bit_cycles (sample_miso i s) = half_bit_cycles s"
  "spsr (sample_miso i s) = spsr s"
  by (simp_all add: sample_miso_def)

text \<open>One scheduled edge before the last.\<close>

lemma stepping_fire:
  assumes "stepping k s0 s" "k < 15" "\<not> cpha s0"
  defines "s1 \<equiv> drive_sck (cpol s0 \<noteq> even k) (s\<lparr>spi_timers := [], edges_done := of_nat (Suc k)\<rparr>)"
  shows "spi_fire s = spi_schedule (half_bit_cycles s) Spi_edge_callback
    (if even k then sample_miso (wire_position s0 (of_nat (k div 2))) s1
     else drive_mosi (bit (shift_register s0) (mosi_position s0 (Suc k div 2))) s1)"
proof -
  obtain h where s: "transfer_in_progress s" "edges_done s = of_nat k" "spcr s = spcr s0"
    "shift_register s = shift_register s0" "spi_timers s = [(h, Spi_edge_callback)]"
    using assms(1) by (auto simp: stepping_def)
  have "k = 0 \<or> k = 1 \<or> k = 2 \<or> k = 3 \<or> k = 4 \<or> k = 5 \<or> k = 6 \<or> k = 7 \<or> k = 8 \<or> k = 9 \<or> k = 10 \<or> k = 11 \<or>
    k = 12 \<or> k = 13 \<or> k = 14" using assms(2) by arith
  then show ?thesis
    using s assms(3)
    by (elim disjE; simp add: spi_fire_def on_edge_def Let_def s1_def setup_mosi_def drive_sck_def drive_mosi_def
        bit_on_wire wire_position_def mosi_position_def cpol_def cpha_def dord_def
        word_le_nat_alt)
qed

lemma on_pin_located: "locate m w = Some p \<Longrightarrow> on_pin f w m = f p m"
  by (simp add: on_pin_def)

lemma schedule_fields [simp]:
  "spi_desc (spi_schedule d c s) = spi_desc s" "spcr (spi_schedule d c s) = spcr s"
  "spi_mux (spi_schedule d c s) = spi_mux s" "shift_register (spi_schedule d c s) = shift_register s"
  "miso_buffer (spi_schedule d c s) = miso_buffer s" "transfer_in_progress (spi_schedule d c s) = transfer_in_progress s"
  "edges_done (spi_schedule d c s) = edges_done s" "rx_byte (spi_schedule d c s) = rx_byte s"
  "spsr (spi_schedule d c s) = spsr s" "spi_timers (spi_schedule d c s) = spi_timers s @ [(d, c)]"
  by (simp_all add: spi_schedule_def)

lemma stepping_next:
  assumes "stepping k s0 s" "k < 15" "\<not> cpha s0" "located sck mosi miso s" "clocked sck mosi k s0 (spi_mux s)"
  shows "stepping (Suc k) s0 (spi_fire s)" "clocked sck mosi (Suc k) s0 (spi_mux (spi_fire s))"
    "located sck mosi miso (spi_fire s)" "spi_wires.untouched {miso} (spi_mux s) (spi_mux (spi_fire s))"
    "spsr (spi_fire s) = spsr s" "locate (spi_mux (spi_fire s)) = locate (spi_mux s)"
    "rx_byte (spi_fire s) = (if even k \<and> sample_miso_wire (wire_position s0 (of_nat (k div 2)))
        (drive_sck (cpol s0 \<noteq> even k) (s\<lparr>spi_timers := [], edges_done := of_nat (Suc k)\<rparr>))
      then rx_byte s OR push_bit (unat (wire_position s0 (of_nat (k div 2)))) 1 else rx_byte s)"
proof -
  note fire = stepping_fire[OF assms(1-3)]
  have loc: "locate (spi_mux s) (sck_pin (spi_desc s)) = Some sck" "locate (spi_mux s) (mosi_pin (spi_desc s)) = Some mosi"
    "sck \<noteq> mosi" "miso \<noteq> sck" "miso \<noteq> mosi"
    using assms(4) by (auto simp: located_def)
  have c: "settled (spi_mux s)" "pin_held Own_spi (spi_mux s) sck" "pin_held Own_spi (spi_mux s) mosi"
    "pin_seen Own_spi (spi_mux s) mosi = Some (bit (shift_register s0) (mosi_position s0 (k div 2)))"
    using assms(5) by (simp_all add: clocked_def)
  show "stepping (Suc k) s0 (spi_fire s)"
    using assms(1) by (auto simp: fire stepping_def drive_sck_def drive_mosi_def)
  let ?m1 = "pin_drive Own_spi sck (cpol s0 \<noteq> even k) (spi_mux s)"
  have mux: "spi_mux (spi_fire s) =
      (if even k then ?m1 else pin_drive Own_spi mosi (bit (shift_register s0) (mosi_position s0 (Suc k div 2))) ?m1)"
    using loc by (simp add: fire drive_sck_def drive_mosi_def on_pin_located )
  show "clocked sck mosi (Suc k) s0 (spi_mux (spi_fire s))"
  proof (cases "even k")
    case True
    then show ?thesis
      using c loc spi_wires.drive_seen[of "spi_mux s" sck "cpol s0 \<noteq> even k"] spi_wires.valid_ops(3)[of "spi_mux s" sck]
        spi_wires.drive_other[of "spi_mux s" mosi sck "cpol s0 \<noteq> even k"]
      by (auto simp: clocked_def mux)
  next
    case False
    then show ?thesis
      using c loc spi_wires.drive_two[of "spi_mux s" mosi sck] spi_wires.valid_ops(3) spi_wires.drive_seen
        spi_wires.drive_other[of ?m1 sck mosi]
      by (auto simp: clocked_def mux)
  qed
  show "located sck mosi miso (spi_fire s)"
    using assms(4) located_cong[of "spi_fire s" s] mux assms(1) \<open>stepping (Suc k) s0 (spi_fire s)\<close>
    by (simp add: stepping_def )
  show "spi_wires.untouched {miso} (spi_mux s) (spi_mux (spi_fire s))"
    using loc by (auto simp: mux intro: spi_wires.untouched_trans spi_wires.untouched_ops(3))
  show "spsr (spi_fire s) = spsr s" by (simp add: fire drive_sck_def drive_mosi_def)
  show "locate (spi_mux (spi_fire s)) = locate (spi_mux s)" by (simp add: mux)
  show "rx_byte (spi_fire s) = (if even k \<and> sample_miso_wire (wire_position s0 (of_nat (k div 2)))
        (drive_sck (cpol s0 \<noteq> even k) (s\<lparr>spi_timers := [], edges_done := of_nat (Suc k)\<rparr>))
      then rx_byte s OR push_bit (unat (wire_position s0 (of_nat (k div 2)))) 1 else rx_byte s)"
    by (simp add: fire drive_sck_def drive_mosi_def sample_miso_def)
qed

text \<open>The start of a transfer.\<close>

definition idle_master :: "u8 \<times> u8 \<Rightarrow> u8 \<times> u8 \<Rightarrow> u8 \<times> u8 \<Rightarrow> spi \<Rightarrow> bool" where
  "idle_master sck mosi miso s \<longleftrightarrow> located sck mosi miso s \<and> settled (spi_mux s) \<and>
     pin_free (spi_mux s) sck \<and> pin_free (spi_mux s) mosi \<and> spe s \<and> mstr s \<and> \<not> cpha s \<and>
     transfer_cycles_left s = 0 \<and> spi_timers s = [] \<and>
     spdr_address (spi_desc s) \<noteq> spcr_address (spi_desc s) \<and> spdr_address (spi_desc s) \<noteq> spsr_address (spi_desc s)"

definition loaded :: "u8 \<Rightarrow> spi \<Rightarrow> spi" where
  "loaded v s = s\<lparr>spsr := spsr s AND NOT (spif_mask (spi_desc s)), shift_register := (if dord s then reverse_bits v else v)\<rparr>"

lemma update_pending_fields [simp]:
  "spi_desc (spi_update_interrupt_pending s) = spi_desc s" "spcr (spi_update_interrupt_pending s) = spcr s"
  "spi_mux (spi_update_interrupt_pending s) = spi_mux s" "shift_register (spi_update_interrupt_pending s) = shift_register s"
  "miso_buffer (spi_update_interrupt_pending s) = miso_buffer s"
  "transfer_in_progress (spi_update_interrupt_pending s) = transfer_in_progress s"
  "transfer_cycles_left (spi_update_interrupt_pending s) = transfer_cycles_left s"
  "edges_done (spi_update_interrupt_pending s) = edges_done s" "rx_byte (spi_update_interrupt_pending s) = rx_byte s"
  "spsr (spi_update_interrupt_pending s) = spsr s" "spi_timers (spi_update_interrupt_pending s) = spi_timers s"
  "spdr (spi_update_interrupt_pending s) = spdr s" "spi_interrupt_pending (spi_update_interrupt_pending s) = spi_interrupt_pending s"
  "slave_active (spi_update_interrupt_pending s) = slave_active s"
  by (simp_all add: spi_update_interrupt_pending_def)

lemma start_transfer_steps:
  fixes v :: u8
  assumes "idle_master sck mosi miso s"
  defines "s' \<equiv> spi_write (spdr_address (spi_desc s)) v s"
  shows "stepping 0 (loaded v s) s'" "clocked sck mosi 0 (loaded v s) (spi_mux s')" "located sck mosi miso s'"
    "spi_wires.untouched {miso} (spi_mux s) (spi_mux s')" "rx_byte s' = 0" "spsr s' = spsr (loaded v s)"
    "locate (spi_mux s') = locate (spi_mux s)"
proof -
  have loc: "locate (spi_mux s) (sck_pin (spi_desc s)) = Some sck" "locate (spi_mux s) (mosi_pin (spi_desc s)) = Some mosi"
    "sck \<noteq> mosi" "miso \<noteq> sck" "miso \<noteq> mosi"
    and ss: "\<And>p. locate (spi_mux s) (ss_pin (spi_desc s)) = Some p \<Longrightarrow> p \<notin> {sck, mosi, miso}"
    and free: "settled (spi_mux s)" "pin_free (spi_mux s) sck" "pin_free (spi_mux s) mosi"
    and cfg: "spe s" "mstr s" "\<not> cpha s" "transfer_cycles_left s = 0" "spi_timers s = []" "pins_mapped s"
      "spdr_address (spi_desc s) \<noteq> spcr_address (spi_desc s)" "spdr_address (spi_desc s) \<noteq> spsr_address (spi_desc s)"
    using assms(1) located_mapped[of sck mosi miso s] by (auto simp: idle_master_def located_def)
  let ?b = "bit (shift_register (loaded v s)) 7" and ?c = "cpol s" and ?ss = "ss_pin (spi_desc s)"
  let ?m2 = "pin_claim Own_spi mosi (pin_claim Own_spi sck (spi_mux s))"
  let ?m4 = "on_pin (\<lambda>p. pin_drive Own_spi p False) ?ss (on_pin (pin_claim Own_spi) ?ss ?m2)"
  have mux: "spi_mux s' = pin_drive Own_spi mosi ?b (pin_drive Own_spi sck ?c ?m4)"
    using cfg loc
    by (simp add: s'_def spi_write_def start_master_transfer_def start_stepped_transfer_def Let_def claim_transfer_pins_def
        pins_mapped_def drive_sck_def drive_ss_def drive_mosi_def on_pin_located mode_fields loaded_def cpol_def cpha_def dord_def
        spe_def mstr_def mask_bit)
  show "stepping 0 (loaded v s) s'" "rx_byte s' = 0" "spsr s' = spsr (loaded v s)"
    using cfg
    by (simp_all add: s'_def spi_write_def start_master_transfer_def start_stepped_transfer_def Let_def claim_transfer_pins_def
        pins_mapped_def drive_sck_def drive_ss_def drive_mosi_def loaded_def cpol_def cpha_def dord_def stepping_def spe_def mstr_def)
  show "locate (spi_mux s') = locate (spi_mux s)" by (simp add: mux)
  show "located sck mosi miso s'"
    using assms(1) located_cong[of s' s] mux \<open>stepping 0 (loaded v s) s'\<close>
    by (simp add: stepping_def loaded_def idle_master_def)
  have two: "settled ?m2" "pin_held Own_spi ?m2 sck" "pin_held Own_spi ?m2 mosi"
    using free loc spi_wires.claim_held[of "spi_mux s" sck] spi_wires.claim_other[of "spi_mux s" mosi sck]
      spi_wires.claim_held[of "pin_claim Own_spi sck (spi_mux s)" mosi] spi_wires.valid_ops(1)
      spi_wires.claim_other[of "pin_claim Own_spi sck (spi_mux s)" sck mosi]
    by auto
  have "spi_wires.untouched {sck, mosi, miso} ?m2 ?m4"
    using ss by (intro spi_wires.untouched_trans[OF untouched_on_pin(1) untouched_on_pin(3)]) auto
  then have four: "settled ?m4" "pin_held Own_spi ?m4 sck" "pin_held Own_spi ?m4 mosi"
    and apart: "spi_wires.untouched {miso} ?m2 ?m4"
    using two by (auto simp: spi_wires.untouched_def)
  show "clocked sck mosi 0 (loaded v s) (spi_mux s')"
    using spi_wires.drive_two[of ?m4 mosi sck ?b ?c] spi_wires.valid_ops(3)[of "pin_drive Own_spi sck ?c ?m4" mosi ?b]
      spi_wires.valid_ops(3)[of ?m4 sck ?c] four loc
    by (simp add: clocked_def mux mosi_position_def loaded_def cpol_def)
  have "spi_wires.untouched {miso} (spi_mux s) ?m2"
    using loc by (auto intro: spi_wires.untouched_trans spi_wires.untouched_ops(1))
  moreover have "spi_wires.untouched {miso} ?m4 (spi_mux s')"
    unfolding mux using loc by (auto intro: spi_wires.untouched_trans spi_wires.untouched_ops(3))
  ultimately show "spi_wires.untouched {miso} (spi_mux s) (spi_mux s')"
    using apart spi_wires.untouched_trans by blast
qed

lemma stepping_last:
  assumes "stepping 15 s0 s" "\<not> cpha s0"
  shows "spdr (spi_fire s) = rx_byte s" "\<not> spi_busy (spi_fire s)"
    "spsr (spi_fire s) = (spsr s AND NOT (wcol_mask (spi_desc s))) OR spif_mask (spi_desc s)"
proof -
  obtain h where s: "transfer_in_progress s" "edges_done s = 15" "spcr s = spcr s0" "spi_timers s = [(h, Spi_edge_callback)]"
    using assms(1) by (auto simp: stepping_def)
  show "spdr (spi_fire s) = rx_byte s" "\<not> spi_busy (spi_fire s)"
    "spsr (spi_fire s) = (spsr s AND NOT (wcol_mask (spi_desc s))) OR spif_mask (spi_desc s)"
    using s assms(2)
    by (simp_all add: spi_fire_def on_edge_def Let_def cpha_def finish_stepped_transfer_def release_transfer_pins_def
        drive_sck_def drive_ss_def spi_busy_def)
qed

section \<open>The slave, edge by edge\<close>

lemma seen_wire:
  assumes "locate (spi_mux s) w = Some p" "pin_seen Own_spi (spi_mux s) p = Some l"
  shows "ps_is_output (wire_state w s)" "ps_drive_level (wire_state w s) = l"
proof -
  have "fst w \<noteq> 0" using assms(1) by (auto simp: locate_def split: if_splits)
  then have "wire_state w s = get_state (spi_mux s) (fst p) (snd p)"
    using assms(1) by (simp add: wire_state_def by_address)
  then show "ps_is_output (wire_state w s)" "ps_drive_level (wire_state w s) = l"
    using assms(2) by (auto simp: pin_seen_def Let_def split: if_splits)
qed

text \<open>A slave after \<open>k\<close> edges of a byte \<open>v\<close>, most significant bit first.\<close>

definition listening :: "nat \<Rightarrow> u8 \<Rightarrow> spi \<Rightarrow> spi \<Rightarrow> bool" where
  "listening k v b0 b \<longleftrightarrow> spi_desc b = spi_desc b0 \<and> spcr b = spcr b0 \<and>
     (if k < 15
      then slave_active b \<and> slave_sck_last b = (cpol b0 \<noteq> odd k) \<and> slave_bits b = of_nat (Suc k div 2) \<and>
        slave_rx b = drop_bit (8 - Suc k div 2) v \<and> slave_miso_claimed b \<and> spsr b = spsr b0
      else spdr b = v \<and> spsr b = spsr b0 OR spif_mask (spi_desc b0) \<and> \<not> slave_active b)"

lemma shift_in_bit:
  assumes "n < 8"
  shows "push_bit 1 (drop_bit (8 - n) v) OR (if bit v (7 - n) then 1 else 0) = (drop_bit (7 - n) v :: u8)"
proof (rule bit_word_eqI)
  fix j :: nat assume "j < LENGTH(8)"
  have "8 + i - n = Suc (7 + i - n)" for i using assms by arith
  show "bit (push_bit 1 (drop_bit (8 - n) v) OR (if bit v (7 - n) then 1 else 0)) j = bit (drop_bit (7 - n) v) j"
    unfolding bit_or_iff bit_push_bit_iff using assms \<open>j < LENGTH(8)\<close> \<open>\<And>i. 8 + i - n = Suc (7 + i - n)\<close>
    by (cases j) (auto simp: bit_drop_bit_eq bit_1_iff Suc_diff_le)
qed

lemma shift_in_spcr [simp]: "spcr (slave_shift_in x s) = spcr s"
  by (simp add: slave_shift_in_def)

lemma drive_fields [simp]:
  "spi_desc (slave_drive_miso s) = spi_desc s" "spcr (slave_drive_miso s) = spcr s" "spsr (slave_drive_miso s) = spsr s"
  "spdr (slave_drive_miso s) = spdr s" "slave_active (slave_drive_miso s) = slave_active s"
  "slave_sck_last (slave_drive_miso s) = slave_sck_last s" "slave_bits (slave_drive_miso s) = slave_bits s"
  "slave_rx (slave_drive_miso s) = slave_rx s" "shift_register (slave_drive_miso s) = shift_register s"
  "fst (miso_pin (spi_desc s)) \<noteq> 0 \<Longrightarrow> slave_miso_claimed (slave_drive_miso s)"
  by (simp_all add: slave_drive_miso_def Let_def)

lemma drive_miso_mux:
  assumes "locate (spi_mux s) (miso_pin (spi_desc s)) = Some miso"
  shows "spi_mux (slave_drive_miso s) = pin_drive Own_spi miso (slave_miso s)
    (if slave_miso_claimed s then spi_mux s else pin_claim Own_spi miso (spi_mux s))"
proof -
  have "fst (miso_pin (spi_desc s)) \<noteq> 0" using assms by (auto simp: locate_def split: if_splits)
  then show ?thesis using assms by (simp add: slave_drive_miso_def Let_def on_pin_located)
qed

lemma slave_next:
  assumes b: "listening k v b0 b" "k < 15" "located sck mosi miso b" and cfg: "spe b0" "\<not> mstr b0" "\<not> cpha b0" "\<not> dord b0"
    and wires: "settled (spi_mux b)" "pin_seen Own_spi (spi_mux b) sck = Some (cpol b0 \<noteq> odd (Suc k))"
      "even k \<longrightarrow> pin_seen Own_spi (spi_mux b) mosi = Some (bit v (7 - k div 2))"
      "pin_held Own_spi (spi_mux b) miso"
  shows "listening (Suc k) v b0 (spi_tick b)" "spi_wires.untouched {sck, mosi} (spi_mux b) (spi_mux (spi_tick b))"
    "pin_held Own_spi (spi_mux (spi_tick b)) miso" "locate (spi_mux (spi_tick b)) = locate (spi_mux b)"
proof -
  have st: "spi_desc b = spi_desc b0" "spcr b = spcr b0" "slave_active b" "slave_sck_last b = (cpol b0 \<noteq> odd k)"
    "slave_bits b = of_nat (Suc k div 2)" "slave_rx b = drop_bit (8 - Suc k div 2) v" "slave_miso_claimed b" "spsr b = spsr b0"
    using b(1,2) by (auto simp: listening_def)
  have loc: "locate (spi_mux b) (sck_pin (spi_desc b)) = Some sck" "locate (spi_mux b) (mosi_pin (spi_desc b)) = Some mosi"
    "locate (spi_mux b) (miso_pin (spi_desc b)) = Some miso" "miso \<notin> {sck, mosi}"
    using b(3) by (auto simp: located_def)
  note sck = seen_wire[OF loc(1) wires(2)]
  have mode: "spe b" "\<not> mstr b" "\<not> cpha b" "\<not> dord b" "cpol b = cpol b0"
    using cfg st(1,2) by (simp_all add: spe_def mstr_def cpha_def dord_def cpol_def)
  have tick: "spi_tick b = slave_edge (ps_drive_level (wire_state (mosi_pin (spi_desc b)) b)) (cpol b0 \<noteq> odd (Suc k)) b"
    using st mode sck located_mapped[OF b(3)]
    by (cases "cpol b0") (simp_all add: spi_tick_def slave_service_pins_def Let_def)
  let ?d = "b\<lparr>slave_transfer_started := True, slave_sck_last := (cpol b0 \<noteq> odd (Suc k))\<rparr>"
  have edge_mode: "cpha ?d = False" "cpol ?d = cpol b0" "dord ?d = False"
    using mode st(2) by (simp_all add: cpha_def cpol_def dord_def)
  have goal: "listening (Suc k) v b0 (spi_tick b) \<and> spi_wires.untouched {sck, mosi} (spi_mux b) (spi_mux (spi_tick b)) \<and>
    pin_held Own_spi (spi_mux (spi_tick b)) miso \<and> locate (spi_mux (spi_tick b)) = locate (spi_mux b)"
  proof (cases "even k")
    case True
    then obtain n where k: "k = 2 * n" "n < 8" using b(2) by (auto elim!: evenE)
    have mosi: "ps_drive_level (wire_state (mosi_pin (spi_desc b)) b) = bit v (7 - n)"
      using seen_wire(2)[OF loc(2)] wires(3) True k by simp
    let ?s = "slave_shift_in (bit v (7 - n)) ?d"
    define s where "s = ?s"
    have "spi_tick b = (if slave_bits s \<ge> 8 then slave_complete s else s)"
      using True mode mosi by (simp add: tick slave_edge_def Let_def cpha_def cpol_def s_def)
    moreover have "slave_bits s = of_nat (Suc n)" using st(5) k by (simp add: s_def slave_shift_in_def)
    moreover have "(8 :: u8) \<le> of_nat (Suc n) \<longleftrightarrow> n = 7"
      using k(2) by (auto simp: word_le_nat_alt unat_of_nat simp del: of_nat_Suc)
    ultimately have t: "spi_tick b = (if n = 7 then slave_complete s else s)" "slave_bits s = of_nat (Suc n)" by simp_all
    have s: "slave_rx s = drop_bit (7 - n) v" "spi_desc s = spi_desc b0" "spcr s = spcr b0" "slave_active s"
      "slave_sck_last s = (\<not> cpol b0)" "spsr s = spsr b0" "slave_miso_claimed s" "spi_mux s = spi_mux b"
      using st k edge_mode shift_in_bit[OF k(2), of v] by (simp_all add: s_def slave_shift_in_def)
    have "listening (Suc k) v b0 (spi_tick b)"
    proof (cases "n = 7")
      case True
      then show ?thesis using t s k by (simp add: listening_def slave_complete_def)
    next
      case False
      then show ?thesis using t s k by (simp add: listening_def)
    qed
    moreover have "spi_mux (spi_tick b) = spi_mux b" using t s(8) by (simp add: slave_complete_def)
    ultimately show ?thesis using wires(4) by (simp add: spi_wires.untouched_refl)
  next
    case False
    then obtain n where k: "k = 2 * n + 1" "n < 7" using b(2) by (auto elim!: oddE)
    let ?s = "slave_present ?d"
    have mux: "\<exists>v. spi_mux ?s = pin_drive Own_spi miso v (spi_mux b)"
      using loc(3) st(7) by (auto simp: slave_present_def Let_def drive_miso_mux)
    have "slave_bits ?s = of_nat (Suc n)" "slave_rx ?s = drop_bit (7 - n) v" "spi_desc ?s = spi_desc b0" "spcr ?s = spcr b0"
      "slave_active ?s" "slave_sck_last ?s = cpol b0" "spsr ?s = spsr b0" "slave_miso_claimed ?s"
      using st k False loc(3) by (auto simp: slave_present_def Let_def locate_def split: if_splits)
    moreover have "\<not> (8 :: u8) \<le> of_nat (Suc n)"
      using k(2) by (auto simp: word_le_nat_alt unat_of_nat simp del: of_nat_Suc)
    moreover have "spi_tick b = (if slave_bits ?s \<ge> 8 then slave_complete ?s else ?s)"
      using False mode by (simp add: tick slave_edge_def Let_def cpha_def cpol_def)
    ultimately have "listening (Suc k) v b0 (spi_tick b)" "spi_tick b = ?s"
      using k False by (auto simp: listening_def)
    then show ?thesis
      using mux loc(4) wires(1,4) spi_wires.drive_seen[of "spi_mux b" miso] spi_wires.untouched_ops(3)[of miso "{sck, mosi}"]
      by auto
  qed
  then show "listening (Suc k) v b0 (spi_tick b)" "spi_wires.untouched {sck, mosi} (spi_mux b) (spi_mux (spi_tick b))"
    "pin_held Own_spi (spi_mux (spi_tick b)) miso" "locate (spi_mux (spi_tick b)) = locate (spi_mux b)"
    by blast+
qed

text \<open>The first tick finds the clock idle and takes MISO; a tick of a resting slave leaves its byte.\<close>

definition idle_slave :: "spi \<Rightarrow> bool" where
  "idle_slave b \<longleftrightarrow> spe b \<and> \<not> mstr b \<and> \<not> cpha b \<and> \<not> dord b \<and> \<not> slave_active b \<and> \<not> slave_miso_claimed b"

lemma slave_wakes:
  assumes "idle_slave b" "located sck mosi miso b" "settled (spi_mux b)" "pin_free (spi_mux b) miso"
    "pin_seen Own_spi (spi_mux b) sck = Some (cpol b)"
  shows "listening 0 v b (spi_tick b)" "spi_wires.untouched {sck, mosi} (spi_mux b) (spi_mux (spi_tick b))"
    "pin_held Own_spi (spi_mux (spi_tick b)) miso" "locate (spi_mux (spi_tick b)) = locate (spi_mux b)"
proof -
  have loc: "locate (spi_mux b) (sck_pin (spi_desc b)) = Some sck" "locate (spi_mux b) (miso_pin (spi_desc b)) = Some miso"
    "miso \<notin> {sck, mosi}"
    using assms(2) by (auto simp: located_def)
  have miso: "fst (miso_pin (spi_desc b)) \<noteq> 0" using loc(2) by (auto simp: locate_def split: if_splits)
  note sck = seen_wire[OF loc(1) assms(5)]
  define w where "w = slave_wake (wire_state (sck_pin (spi_desc b)) b) b"
  have mux: "\<exists>x. spi_mux w = pin_drive Own_spi miso x (pin_claim Own_spi miso (spi_mux b))"
    using sck loc assms(1) by (auto simp: w_def slave_wake_def Let_def drive_miso_mux cpol_def idle_slave_def)
  have w: "slave_active w" "slave_sck_last w = cpol b" "spi_desc w = spi_desc b" "spcr w = spcr b" "spsr w = spsr b"
    "slave_bits w = 0" "slave_rx w = 0" "slave_miso_claimed w"
    using sck miso by (simp_all add: w_def slave_wake_def Let_def cpol_def)
  have tick: "spi_tick b = w"
    using assms(1) located_mapped[OF assms(2)] sck w
    by (simp add: spi_tick_def slave_service_pins_def Let_def idle_slave_def w_def[symmetric])
  have zero: "drop_bit 8 v = 0" by (rule bit_word_eqI) (simp add: bit_drop_bit_eq)
  show "listening 0 v b (spi_tick b)" using w zero by (simp add: tick listening_def)
  show "spi_wires.untouched {sck, mosi} (spi_mux b) (spi_mux (spi_tick b))"
    using mux spi_wires.untouched_trans[OF spi_wires.untouched_ops(1,3)[OF loc(3)]] by (auto simp: tick)
  show "pin_held Own_spi (spi_mux (spi_tick b)) miso" "locate (spi_mux (spi_tick b)) = locate (spi_mux b)"
    using mux assms(3,4) spi_wires.claim_held[of "spi_mux b" miso] spi_wires.valid_ops(1)[of "spi_mux b" miso]
      spi_wires.drive_seen[of "pin_claim Own_spi miso (spi_mux b)" miso] by (auto simp: tick)
qed

lemma release_fields [simp]:
  "spi_desc (slave_release_miso s) = spi_desc s" "spcr (slave_release_miso s) = spcr s"
  "spsr (slave_release_miso s) = spsr s" "spdr (slave_release_miso s) = spdr s"
  "slave_active (slave_release_miso s) = slave_active s" "slave_sck_last (slave_release_miso s) = slave_sck_last s"
  by (simp_all add: slave_release_miso_def Let_def)

lemma slave_rests:
  assumes "\<not> slave_active b"
  shows "spdr (spi_tick b) = spdr b" "spsr (spi_tick b) = spsr b"
  using assms by (simp_all add: spi_tick_def slave_service_pins_def slave_wake_def Let_def)

section \<open>Master and slave on the same pins\<close>

definition share :: "spi \<Rightarrow> spi \<Rightarrow> spi" where "share a b = b\<lparr>spi_mux := spi_mux a\<rparr>"

text \<open>One scheduled edge of the master, then a tick of the slave.\<close>

definition shared_edge :: "spi \<times> spi \<Rightarrow> spi \<times> spi" where
  "shared_edge ab = (let a = spi_fire (fst ab); b = spi_tick (share a (snd ab)) in (share b a, b))"

definition shared_start :: "u8 \<Rightarrow> spi \<times> spi \<Rightarrow> spi \<times> spi" where
  "shared_start v ab =
     (let a = spi_write (spdr_address (spi_desc (fst ab))) v (fst ab); b = spi_tick (share a (snd ab)) in (share b a, b))"

lemma share_fields [simp]:
  "spi_mux (share a b) = spi_mux a" "spi_desc (share a b) = spi_desc b" "stepping k s0 (share b a) = stepping k s0 a"
  "listening k v b0 (share a b) = listening k v b0 b" "rx_byte (share b a) = rx_byte a" "spsr (share b a) = spsr a"
  "spdr (share b a) = spdr a" "spi_busy (share b a) = spi_busy a" "slave_active (share a b) = slave_active b"
  "idle_slave (share a b) = idle_slave b" "cpol (share a b) = cpol b"
  by (simp_all add: share_def stepping_def listening_def spi_busy_def idle_slave_def spe_def mstr_def cpha_def dord_def cpol_def)

lemma clocked_untouched:
  "clocked sck mosi k s0 m \<Longrightarrow> spi_wires.untouched {sck, mosi} m m' \<Longrightarrow> clocked sck mosi k s0 m'"
  by (auto simp: clocked_def spi_wires.untouched_def)

text \<open>What is left of the byte on MISO after \<open>n\<close> samples.\<close>

lemma sampled_bits:
  assumes "n < 8"
  shows "(if bit w (7 - n) then (w AND NOT (mask (8 - n))) OR push_bit (7 - n) 1 else w AND NOT (mask (8 - n)))
    = (w AND NOT (mask (7 - n)) :: u8)"
proof -
  have "i = 7 - n" if "\<not> i + n < 7" "i + n < 8" for i :: nat using that by arith
  then show ?thesis
    using assms by (auto intro!: bit_word_eqI simp: bit_simps bit_mask_iff less_diff_conv split: if_splits)
qed

definition exchanging ::
  "u8 \<times> u8 \<Rightarrow> u8 \<times> u8 \<Rightarrow> u8 \<times> u8 \<Rightarrow> nat \<Rightarrow> spi \<Rightarrow> spi \<Rightarrow> spi \<times> spi \<Rightarrow> bool" where
  "exchanging sck mosi miso k a0 b0 ab \<longleftrightarrow>
     (let (a, b) = ab
      in stepping k a0 a \<and> clocked sck mosi k a0 (spi_mux a) \<and> located sck mosi miso a \<and>
         located sck mosi miso (share a b0) \<and>
         listening k (shift_register a0) b0 b \<and> pin_held Own_spi (spi_mux a) miso \<and>
         spsr a = spsr a0 \<and> rx_byte a = miso_buffer a0 AND NOT (mask (8 - Suc k div 2)))"

lemma located_share: "locate (spi_mux a') = locate (spi_mux a) \<Longrightarrow> located sck mosi miso (share a' b) = located sck mosi miso (share a b)"
  by (simp add: located_def)

lemma wire_number: "n < 8 \<Longrightarrow> \<not> dord s \<Longrightarrow> unat (wire_position s (of_nat n)) = 7 - n"
proof -
  assume "n < 8" and d: "\<not> dord s"
  then have "n = 0 \<or> n = 1 \<or> n = 2 \<or> n = 3 \<or> n = 4 \<or> n = 5 \<or> n = 6 \<or> n = 7" by arith
  then show ?thesis using d by (elim disjE; simp add: wire_position_def)
qed

lemma miso_ignored:
  assumes "located sck mosi miso s" "settled (spi_mux s)" "pin_held Own_spi (spi_mux s) miso"
  shows "sample_miso_wire i s = bit (miso_buffer s) (unat i)"
proof -
  have "locate (spi_mux s) (miso_pin (spi_desc s)) = Some miso" using assms(1) by (simp add: located_def)
  moreover from this have "fst (miso_pin (spi_desc s)) \<noteq> 0" by (auto simp: locate_def split: if_splits)
  ultimately have "wire_state (miso_pin (spi_desc s)) s = get_state (spi_mux s) (fst miso) (snd miso)"
    by (simp add: wire_state_def by_address)
  then show ?thesis
    using held_state[OF assms(2) spi_outranks assms(3)] by (simp add: sample_miso_wire_def Let_def)
qed

lemma exchange_next:
  assumes x: "exchanging sck mosi miso k a0 b0 ab" and k: "k < 15" and modes: "\<not> cpha a0" "\<not> dord a0" "cpol b0 = cpol a0"
    and slave: "spe b0" "\<not> mstr b0" "\<not> cpha b0" "\<not> dord b0"
  shows "exchanging sck mosi miso (Suc k) a0 b0 (shared_edge ab)"
proof -
  obtain a b where ab: "ab = (a, b)" by (cases ab)
  have x: "stepping k a0 a" "clocked sck mosi k a0 (spi_mux a)" "located sck mosi miso a" "located sck mosi miso (share a b0)"
    "listening k (shift_register a0) b0 b" "pin_held Own_spi (spi_mux a) miso" "spsr a = spsr a0"
    "rx_byte a = miso_buffer a0 AND NOT (mask (8 - Suc k div 2))"
    using x by (simp_all add: exchanging_def ab)
  define a1 where "a1 = spi_fire a"
  define b1 where "b1 = spi_tick (share a1 b)"
  note n = stepping_next[OF x(1) k modes(1) x(3,2), folded a1_def]
  have miso1: "pin_held Own_spi (spi_mux a1) miso"
    using n(4) x(2,6) by (simp add: spi_wires.untouched_def clocked_def)
  have desc: "spi_desc b = spi_desc b0" using x(5) by (simp add: listening_def)
  have c1: "clocked sck mosi (Suc k) a0 (spi_mux a1)" by (rule n(2))
  have loc_b: "located sck mosi miso (share a1 b)"
    using x(4) n(6) desc by (simp add: located_def)
  have wires: "settled (spi_mux (share a1 b))" "pin_seen Own_spi (spi_mux (share a1 b)) sck = Some (cpol b0 \<noteq> odd (Suc k))"
    "even k \<longrightarrow> pin_seen Own_spi (spi_mux (share a1 b)) mosi = Some (bit (shift_register a0) (7 - k div 2))"
    "pin_held Own_spi (spi_mux (share a1 b)) miso"
    using c1 miso1 modes k by (auto simp: clocked_def mosi_position_def)
  have hear: "listening k (shift_register a0) b0 (share a1 b)" using x(5) by simp
  note t = slave_next[OF hear k loc_b slave wires, folded b1_def]
  have rx: "rx_byte a1 = miso_buffer a0 AND NOT (mask (8 - Suc (Suc k) div 2))"
  proof (cases "even k")
    case True
    then obtain j where j: "k = 2 * j" "j < 8" using k by (auto elim!: evenE)
    let ?p = "wire_position a0 (of_nat j)" and ?s = "drive_sck (cpol a0 \<noteq> even k) (a\<lparr>spi_timers := [], edges_done := of_nat (Suc k)\<rparr>)"
    have "located sck mosi miso ?s" using x(3) located_cong[of ?s a] by (simp add: drive_sck_def)
    moreover have "spi_wires.untouched {miso} (spi_mux a) (spi_mux ?s)"
      using x(3) untouched_on_pin(3)[of "spi_mux a" "sck_pin (spi_desc a)" "{miso}" "cpol a0 \<noteq> even k"]
      by (auto simp: drive_sck_def located_def)
    ultimately have "sample_miso_wire ?p ?s = bit (miso_buffer ?s) (unat ?p)"
      using x(2,6) by (intro miso_ignored) (auto simp: spi_wires.untouched_def clocked_def)
    moreover have "miso_buffer ?s = miso_buffer a0" using x(1) by (simp add: stepping_def drive_sck_def)
    ultimately show ?thesis
      using n(7) x(8) sampled_bits[OF j(2), of "miso_buffer a0"] wire_number[OF j(2) modes(2)] j
      by (simp cong: if_cong)
  next
    case False
    then show ?thesis using n(7) x(8) by (auto elim!: oddE)
  qed
  have "exchanging sck mosi miso (Suc k) a0 b0 (share b1 a1, b1)"
    using n t rx x(4,7) c1 clocked_untouched[OF c1 t(2)[simplified]] located_cong[of "share b1 a1" a1]
    by (simp add: exchanging_def located_def)
  then show ?thesis by (simp add: ab shared_edge_def Let_def a1_def b1_def)
qed

lemma exchange_starts:
  assumes a: "idle_master sck mosi miso a" "\<not> dord a" "pin_free (spi_mux a) miso"
    and b: "idle_slave b" "located sck mosi miso (share a b)" "cpol b = cpol a"
  shows "exchanging sck mosi miso 0 (loaded v a) b (shared_start v (a, b))"
proof -
  define a1 where "a1 = spi_write (spdr_address (spi_desc a)) v a"
  define b1 where "b1 = spi_tick (share a1 b)"
  note n = start_transfer_steps[OF a(1), where v = v, folded a1_def]
  have l: "cpol (loaded v a) = cpol a" "shift_register (loaded v a) = v" "settled (spi_mux a)" "\<not> cpha a"
    using a by (simp_all add: loaded_def cpol_def idle_master_def)
  have free: "pin_free (spi_mux a1) miso" using n(4) a(3) l(3) by (simp add: spi_wires.untouched_def)
  have loc_b: "located sck mosi miso (share a1 b)" using b(2) n(7) by (simp add: located_def)
  have wires: "settled (spi_mux (share a1 b))" "pin_free (spi_mux (share a1 b)) miso"
    "pin_seen Own_spi (spi_mux (share a1 b)) sck = Some (cpol (share a1 b))"
    using n(2) free b(3) l(1) by (simp_all add: clocked_def)
  have slave: "idle_slave (share a1 b)" using b(1) by simp
  note t = slave_wakes(2-4)[OF slave loc_b wires, folded b1_def]
  have "listening 0 v b b1" using slave_wakes(1)[OF slave loc_b wires, of v, folded b1_def] by (simp add: listening_def share_def cpol_def)
  moreover have "drop_bit 8 (NOT (mask 8) :: u8) = 0" by simp
  moreover have "(w AND NOT (mask 8) :: u8) = 0" for w by (intro bit_word_eqI) (simp add: bit_simps bit_mask_iff)
  ultimately have "exchanging sck mosi miso 0 (loaded v a) b (share b1 a1, b1)"
    using n t l loc_b clocked_untouched[OF n(2) t(1)[simplified]] located_cong[of "share b1 a1" a1]
    by (simp add: exchanging_def located_def)
  then show ?thesis by (simp add: shared_start_def Let_def a1_def b1_def)
qed

section \<open>Properties\<close>

text \<open>
  C37.  With the clock phase clear, a master hands its byte to a slave on the same pins, in both
  clock polarities: after SPDR is written and sixteen scheduled edges have passed, the slave
  ticking after each, the slave's SPDR holds the byte and its transfer flag is set; the
  master has finished, with its flag set, and its SPDR holds the byte injected by the host, since
  a level that another SPI drives on MISO is not sampled.
\<close>

theorem spi_shared_transfer:
  assumes "idle_master sck mosi miso a" and "\<not> dord a" and "pin_free (spi_mux a) miso"
    and "idle_slave b" and "located sck mosi miso (share a b)" and "cpol b = cpol a"
  shows "\<exists>a' b'. (shared_edge ^^ 16) (shared_start v (a, b)) = (a', b') \<and>
    spdr b' = v \<and> spsr b' = spsr b OR spif_mask (spi_desc b) \<and>
    spdr a' = miso_buffer a \<and> \<not> spi_busy a' \<and> spsr a' AND spif_mask (spi_desc a) = spif_mask (spi_desc a)"
proof -
  let ?a0 = "loaded v a"
  have modes: "\<not> cpha ?a0" "\<not> dord ?a0" "cpol b = cpol ?a0" "shift_register ?a0 = v" "spi_desc ?a0 = spi_desc a"
    "miso_buffer ?a0 = miso_buffer a"
    using assms by (simp_all add: loaded_def cpol_def cpha_def dord_def idle_master_def)
  have slave: "spe b" "\<not> mstr b" "\<not> cpha b" "\<not> dord b" using assms(4) by (simp_all add: idle_slave_def)
  have "exchanging sck mosi miso k ?a0 b ((shared_edge ^^ k) (shared_start v (a, b)))" if "k \<le> 15" for k
    using that
  proof (induction k)
    case 0
    then show ?case using exchange_starts[OF assms] by simp
  next
    case (Suc k)
    then show ?case using exchange_next[OF _ _ modes(1-3) slave] by simp
  qed
  then obtain a1 b1 where e: "(shared_edge ^^ 15) (shared_start v (a, b)) = (a1, b1)"
    and x: "exchanging sck mosi miso 15 ?a0 b (a1, b1)" by (metis le_refl surj_pair)
  have f: "stepping 15 ?a0 a1" "listening 15 v b b1" "rx_byte a1 = miso_buffer a" "spi_desc a1 = spi_desc a"
    using x modes by (simp_all add: exchanging_def stepping_def)
  note last = stepping_last[OF f(1) modes(1)]
  define b2 where "b2 = spi_tick (share (spi_fire a1) b1)"
  have "(shared_edge ^^ 16) (shared_start v (a, b)) = shared_edge ((shared_edge ^^ 15) (shared_start v (a, b)))"
    by (simp only: numeral_eq_Suc funpow.simps o_apply pred_numeral_simps Num.inc.simps BitM.simps)
  also have "\<dots> = (share b2 (spi_fire a1), b2)"
    by (simp add: e shared_edge_def Let_def b2_def)
  finally have run: "(shared_edge ^^ 16) (shared_start v (a, b)) = (share b2 (spi_fire a1), b2)" .
  have "spdr b2 = v" "spsr b2 = spsr b OR spif_mask (spi_desc b)"
    using f(2) slave_rests[of "share (spi_fire a1) b1"] by (simp_all add: listening_def b2_def share_def)
  moreover have "((w AND m) OR n) AND n = n" for w m n :: u8 by (intro bit_word_eqI) (auto simp: bit_simps)
  ultimately show ?thesis
    using run last f by (intro exI[of _ "share b2 (spi_fire a1)"] exI[of _ b2] conjI) simp_all
qed

text \<open>Edges of a master on its own.\<close>

lemma stepping_run:
  fixes v :: u8
  assumes "idle_master sck mosi miso s" and "k \<le> 15"
  defines "s' \<equiv> (spi_fire ^^ k) (spi_write (spdr_address (spi_desc s)) v s)"
  shows "stepping k (loaded v s) s'" "clocked sck mosi k (loaded v s) (spi_mux s')" "located sck mosi miso s'"
proof -
  have phase: "\<not> cpha (loaded v s)" using assms(1) by (simp add: idle_master_def loaded_def cpha_def)
  have "stepping k (loaded v s) ((spi_fire ^^ k) (spi_write (spdr_address (spi_desc s)) v s)) \<and>
    clocked sck mosi k (loaded v s) (spi_mux ((spi_fire ^^ k) (spi_write (spdr_address (spi_desc s)) v s))) \<and>
    located sck mosi miso ((spi_fire ^^ k) (spi_write (spdr_address (spi_desc s)) v s))"
    using assms(2)
  proof (induction k)
    case 0
    then show ?case using start_transfer_steps[OF assms(1), of v] by simp
  next
    case (Suc k)
    then show ?case using stepping_next(1-3)[OF _ _ phase, of k _ sck mosi miso] by simp
  qed
  then show "stepping k (loaded v s) s'" "clocked sck mosi k (loaded v s) (spi_mux s')" "located sck mosi miso s'"
    by (simp_all add: s'_def)
qed

lemma reversed_bit: "j < 8 \<Longrightarrow> bit (reverse_bits v) j = bit v (7 - j)"
proof -
  assume "j < 8"
  then have "j = 0 \<or> j = 1 \<or> j = 2 \<or> j = 3 \<or> j = 4 \<or> j = 5 \<or> j = 6 \<or> j = 7" by arith
  then show ?thesis
    unfolding reverse_bits_def bit_or_iff bit_push_bit_iff bit_drop_bit_eq bit_and_iff o_apply by (elim disjE; simp)
qed

text \<open>
  C38.  The data order bit does not reverse a master's byte on the pins.  SPDR is
  reversed once when it is written and read from the other end once more at each edge, so with
  DORD set and the clock phase clear the receiver samples bit 0 and then bits 6 down to 0 of
  the byte written, where least significant bit first would be 0 to 7.
\<close>

theorem spi_data_order:
  assumes "idle_master sck mosi miso s" and "dord s"
  shows "map (\<lambda>i. pin_seen Own_spi (spi_mux ((spi_fire ^^ (2 * i + 1)) (spi_write (spdr_address (spi_desc s)) v s))) mosi)
      [0..<8] = map (\<lambda>j. Some (bit v j)) [0, 6, 5, 4, 3, 2, 1, 0]"
proof -
  have d: "dord (loaded v s)" "shift_register (loaded v s) = reverse_bits v"
    using assms(2) by (simp_all add: loaded_def dord_def)
  have level: "pin_seen Own_spi (spi_mux ((spi_fire ^^ (2 * i + 1)) (spi_write (spdr_address (spi_desc s)) v s))) mosi =
      Some (bit v (if i = 0 then 0 else 7 - i))" if "i < 8" for i
    using stepping_run(2)[OF assms(1), of "2 * i + 1" v] that d reversed_bit
    by (auto simp: clocked_def mosi_position_def)
  then have "map (\<lambda>i. pin_seen Own_spi (spi_mux ((spi_fire ^^ (2 * i + 1)) (spi_write (spdr_address (spi_desc s)) v s))) mosi)
      [0..<8] = map (\<lambda>i. Some (bit v (if i = 0 then 0 else 7 - i))) [0..<8]" by (intro map_cong) auto
  also have "\<dots> = map (\<lambda>j. Some (bit v j)) [0, 6, 5, 4, 3, 2, 1, 0]" by (simp add: upt_rec)
  finally show ?thesis .
qed

section \<open>An example\<close>

definition spi0 :: spi_descriptor where
  "spi0 = \<lparr>spcr_address = 0x4C, spsr_address = 0x4D, spdr_address = 0x4E, spi_vector_index = 17, spe_mask = 0x40,
     spie_mask = 0x80, mstr_mask = 0x10, spif_mask = 0x80, wcol_mask = 0x40, sp2x_mask = 0x01,
     mosi_pin = (0x25, 3), miso_pin = (0x25, 4), sck_pin = (0x25, 5), ss_pin = (0x25, 2)\<rparr>"

definition spi_wired :: "u8 \<Rightarrow> spi" where
  "spi_wired control = (spi_init spi0 (register_port 0x25 0 pin_mux_init))\<lparr>spcr := control, miso_buffer := 0xA7\<rparr>"

lemma spi_wired_ready:
  assumes "c \<in> {0x50, 0x70}"
  shows "idle_master (0, 5) (0, 3) (0, 4) (spi_wired c)" "pin_free (spi_mux (spi_wired c)) (0, 4)"
    "located (0, 5) (0, 3) (0, 4) (share (spi_wired c) (spi_wired 0x40))" "idle_slave (spi_wired 0x40)"
    "cpol (spi_wired 0x40) = cpol (spi_wired c)" "dord (spi_wired c) = (c = 0x70)"
proof -
  let ?m = "register_port 0x25 0 pin_mux_init"
  have free: "pin_free ?m (0, n)" if "n \<in> {3, 4, 5}" for n
    using that by (auto simp: pin_free_def in_mux_def register_port_def pin_mux_init_def mux_entry_def pin_entry_init_def)
  have "settled ?m" by (intro reachable_settled mux_reachable.intros)
  moreover have wires: "locate ?m (0x25, n) = Some (0, n)" for n by (simp add: locate_def register_port_def)
  ultimately show "idle_master (0, 5) (0, 3) (0, 4) (spi_wired c)"
    using assms free
    by (auto simp: idle_master_def located_def spi_wired_def spi_init_def spi0_def spe_def mstr_def cpha_def kSpiCpha_def)
  show "pin_free (spi_mux (spi_wired c)) (0, 4)" using free by (simp add: spi_wired_def spi_init_def)
  show "located (0, 5) (0, 3) (0, 4) (share (spi_wired c) (spi_wired 0x40))"
    using wires by (simp add: located_def share_def spi_wired_def spi_init_def spi0_def)
  show "idle_slave (spi_wired 0x40)" "cpol (spi_wired 0x40) = cpol (spi_wired c)" "dord (spi_wired c) = (c = 0x70)"
    using assms
    by (auto simp: idle_slave_def spi_wired_def spi_init_def spi0_def spe_def mstr_def cpha_def dord_def cpol_def
        kSpiCpha_def kSpiCpol_def kSpiDord_def)
qed

theorem spi_shared_transfer_witness:
  "\<exists>a' b'. (shared_edge ^^ 16) (shared_start 0x53 (spi_wired 0x50, spi_wired 0x40)) = (a', b') \<and>
    spdr b' = 0x53 \<and> spdr a' = 0xA7 \<and> \<not> spi_busy a'"
proof -
  have "miso_buffer (spi_wired 0x50) = 0xA7" by (simp add: spi_wired_def)
  then show ?thesis
    using spi_shared_transfer[OF spi_wired_ready(1)[of "0x50"] _ spi_wired_ready(2)[of "0x50"] spi_wired_ready(4,3)[of "0x50"]
        spi_wired_ready(5)[of "0x50"], of "0x53"] spi_wired_ready(6)[of "0x50"] by auto
qed

theorem spi_data_order_witness:
  "map (\<lambda>i. pin_seen Own_spi (spi_mux ((spi_fire ^^ (2 * i + 1)) (spi_write 0x4E 0x01 (spi_wired 0x70)))) (0, 3)) [0..<8] =
    map Some [True, False, False, False, False, False, False, True]"
proof -
  have "spdr_address (spi_desc (spi_wired 0x70)) = 0x4E" by (simp add: spi_wired_def spi_init_def spi0_def)
  then show ?thesis
    using spi_data_order[OF spi_wired_ready(1)[of "0x70"], of "0x01"] spi_wired_ready(6)[of "0x70"] by simp
qed

end
