(* ===== verification/Twi.thy ===== *)
theory Twi
  imports Wires Periph
begin

text \<open>
  \<open>Twi\<close> (\<open>src/core/twi.cpp\<close>) and the TWI calls of \<open>MemoryBus\<close>: the two-wire units of a machine
  on their common bus.  A unit acts on the others through \<open>twi_broadcast\<close>,
  \<open>twi_data_send\<close> and \<open>twi_stop_broadcast\<close>, which visit the peripherals in the order of
  attachment; the state is therefore the list of all units with the multiplexer that
  carries SCL, and a unit is its index.  Peripherals that are not units of this class take no part.
  The power reduction register read from the bus is an argument.
\<close>

section \<open>State\<close>

record twi_descriptor =
  twbr_address :: u16
  twsr_address :: u16
  twar_address :: u16
  twdr_address :: u16
  twcr_address :: u16
  twamr_address :: u16
  twi_vector_index :: u8
  twint_mask :: u8
  twen_mask :: u8
  twie_mask :: u8
  twsto_mask :: u8
  twsta_mask :: u8
  twea_mask :: u8
  tw_pr_address :: u16
  tw_pr_bit :: u8
  scl_pin :: "u16 \<times> u8"

datatype twi_mode = Twi_idle | Master_tx | Master_rx | Slave_tx | Slave_rx

record twi =
  tw_desc :: twi_descriptor
  twbr :: u8
  twsr :: u8
  twar :: u8
  twdr :: u8
  twcr :: u8
  twamr :: u8
  tw_mode :: twi_mode
  step_cycles_left :: u32
  tw_pending :: bool
  sla_matched :: bool
  general_call_matched :: bool
  sla_acked :: bool
  master_target_self :: bool
  tw_rx_buffer :: "u8 list"
  rx_idx :: nat
  tw_tx_buffer :: "u8 list"
  tw_interrupt_line :: bool

record twi_bus =
  twis :: "twi list"
  twi_mux :: pin_mux

definition twi_init :: "twi_descriptor \<Rightarrow> twi" where
  "twi_init d = \<lparr>tw_desc = d, twbr = 0, twsr = 0, twar = 0, twdr = 0, twcr = 0, twamr = 0, tw_mode = Twi_idle,
     step_cycles_left = 0, tw_pending = False, sla_matched = False, general_call_matched = False, sla_acked = True,
     master_target_self = False, tw_rx_buffer = [], rx_idx = 0, tw_tx_buffer = [], tw_interrupt_line = False\<rparr>"

definition twi_ranges :: "twi_descriptor \<Rightarrow> address_range list" where
  "twi_ranges d =
     (let a = [twbr_address d, twsr_address d, twar_address d, twdr_address d, twcr_address d, twamr_address d]
      in [\<lparr>range_begin = Min (set a), range_end = Max (set a)\<rparr>])"

definition kStatusStart :: u8 where "kStatusStart = 0x08"
definition kStatusRepStart :: u8 where "kStatusRepStart = 0x10"

definition twi_at :: "twi_bus \<Rightarrow> nat \<Rightarrow> twi" where
  "twi_at b i = twis b ! i"

definition upd_twi :: "nat \<Rightarrow> (twi \<Rightarrow> twi) \<Rightarrow> twi_bus \<Rightarrow> twi_bus" where
  "upd_twi i f b = b\<lparr>twis := (twis b)[i := f (twi_at b i)]\<rparr>"

definition twea :: "twi \<Rightarrow> bool" where "twea u \<longleftrightarrow> twcr u AND twea_mask (tw_desc u) \<noteq> 0"
definition is_master :: "twi \<Rightarrow> bool" where "is_master u \<longleftrightarrow> tw_mode u = Master_tx \<or> tw_mode u = Master_rx"

definition twi_update_interrupt_state :: "twi \<Rightarrow> twi" where
  "twi_update_interrupt_state u =
     u\<lparr>tw_interrupt_line := (tw_pending u \<and> twcr u AND twie_mask (tw_desc u) \<noteq> 0)\<rparr>"

definition raise_twint :: "twi \<Rightarrow> twi" where
  "raise_twint u = twi_update_interrupt_state (u\<lparr>tw_pending := True\<rparr>)"

section \<open>The clock line\<close>

definition hold_scl :: "nat \<Rightarrow> twi_bus \<Rightarrow> twi_bus" where
  "hold_scl i b =
     (let (a, k) = scl_pin (tw_desc (twi_at b i))
      in if a = 0 then b
         else b\<lparr>twi_mux := update_pin_by_address a k Own_twi True False False True
                            (fst (claim_pin_by_address a k Own_twi (twi_mux b)))\<rparr>)"

definition release_scl :: "nat \<Rightarrow> twi_bus \<Rightarrow> twi_bus" where
  "release_scl i b =
     (let (a, k) = scl_pin (tw_desc (twi_at b i))
      in if a = 0 then b else b\<lparr>twi_mux := release_pin_by_address a k Own_twi (twi_mux b)\<rparr>)"

definition scl_held_by_other :: "nat \<Rightarrow> twi_bus \<Rightarrow> bool" where
  "scl_held_by_other i b =
     (let (a, k) = scl_pin (tw_desc (twi_at b i)); st = get_state_by_address (twi_mux b) a k
      in a \<noteq> 0 \<and> ps_owner st = Own_twi \<and> \<not> ps_drive_level st)"

section \<open>Being addressed\<close>

definition check_twi_address :: "twi \<Rightarrow> u8 \<Rightarrow> bool" where
  "check_twi_address u address =
     (let my_addr = drop_bit 1 (twar u); mk = drop_bit 1 (twamr u); target = drop_bit 1 address
      in target AND NOT mk = my_addr AND NOT mk \<or> address = 0 \<and> twar u AND 0x01 \<noteq> 0)"

definition matched_unit :: "u8 \<Rightarrow> twi \<Rightarrow> twi" where
  "matched_unit address u =
     raise_twint
       ((if address AND 0x01 \<noteq> 0
         then u\<lparr>tw_mode := Slave_tx, twsr := (if sla_acked u then 0xA8 else 0xC0)\<rparr>
         else u\<lparr>tw_mode := Slave_rx,
                twsr := (if address = 0 then (if sla_acked u then 0x70 else 0x98)
                         else (if sla_acked u then 0x60 else 0x88))\<rparr>)
        \<lparr>sla_matched := True, general_call_matched := (address = 0)\<rparr>)"

definition on_twi_match :: "u8 \<Rightarrow> nat \<Rightarrow> twi_bus \<Rightarrow> twi_bus" where
  "on_twi_match address i b =
     (let b = upd_twi i (\<lambda>u. u\<lparr>sla_acked := twea u\<rparr>) b
      in if is_master (twi_at b i) then b else hold_scl i (upd_twi i (matched_unit address) b))"

definition on_twi_data :: "u8 \<Rightarrow> nat \<Rightarrow> twi_bus \<Rightarrow> bool \<times> twi_bus" where
  "on_twi_data d i b =
     (if \<not> sla_matched (twi_at b i) \<and> \<not> general_call_matched (twi_at b i) then (False, b)
      else (twea (twi_at b i),
            hold_scl i (upd_twi i (\<lambda>u. raise_twint
              (u\<lparr>twdr := d, tw_tx_buffer := (if twea u then tw_tx_buffer u @ [d] else tw_tx_buffer u)\<rparr>)) b)))"

definition on_twi_stop :: "nat \<Rightarrow> twi_bus \<Rightarrow> twi_bus" where
  "on_twi_stop i b =
     (if tw_mode (twi_at b i) = Slave_rx \<or> tw_mode (twi_at b i) = Slave_tx
      then upd_twi i (\<lambda>u. raise_twint
             (u\<lparr>tw_mode := Twi_idle, twsr := 0xA0, sla_matched := False, general_call_matched := False,
                master_target_self := False\<rparr>)) (release_scl i b)
      else b)"

text \<open>The calls of \<open>MemoryBus\<close> that reach every unit.\<close>

definition broadcast_step :: "u8 \<Rightarrow> nat \<Rightarrow> bool \<times> bool \<times> twi_bus \<Rightarrow> bool \<times> bool \<times> twi_bus" where
  "broadcast_step address i s =
     (let (matched, acked, b) = s
      in if check_twi_address (twi_at b i) address
         then let b = on_twi_match address i b in (True, acked \<or> sla_acked (twi_at b i), b)
         else s)"

definition twi_broadcast :: "u8 \<Rightarrow> twi_bus \<Rightarrow> bool \<times> twi_bus" where
  "twi_broadcast address b =
     (let (matched, acked, b) = fold (broadcast_step address) [0..<length (twis b)] (False, False, b)
      in (matched \<and> acked, b))"

definition send_step :: "u8 \<Rightarrow> nat \<Rightarrow> bool \<times> twi_bus \<Rightarrow> bool \<times> twi_bus" where
  "send_step d i s = (let (taken, b) = on_twi_data d i (snd s) in (fst s \<or> taken, b))"

definition twi_data_send :: "u8 \<Rightarrow> twi_bus \<Rightarrow> bool \<times> twi_bus" where
  "twi_data_send d b = fold (send_step d) [0..<length (twis b)] (False, b)"

definition twi_stop_broadcast :: "twi_bus \<Rightarrow> twi_bus" where
  "twi_stop_broadcast b = fold on_twi_stop [0..<length (twis b)] b"

section \<open>Steps\<close>

definition send_address :: "nat \<Rightarrow> twi_bus \<Rightarrow> twi_bus" where
  "send_address i b =
     (let b = upd_twi i (\<lambda>u. u\<lparr>master_target_self := check_twi_address u (twdr u)\<rparr>) b;
          is_read = (twdr (twi_at b i) AND 0x01 \<noteq> 0);
          (acked, b) = twi_broadcast (twdr (twi_at b i)) b
      in upd_twi i (\<lambda>u. if is_read then u\<lparr>tw_mode := Master_rx, twsr := (if acked then 0x40 else 0x48)\<rparr>
                        else u\<lparr>tw_mode := Master_tx, twsr := (if acked then 0x18 else 0x20)\<rparr>) b)"

definition send_byte :: "nat \<Rightarrow> twi_bus \<Rightarrow> twi_bus" where
  "send_byte i b =
     (let (taken, b) = twi_data_send (twdr (twi_at b i)) b; u = twi_at b i;
          acked = (taken \<or> master_target_self u \<and> twea u)
      in upd_twi i (\<lambda>u. u\<lparr>twsr := (if acked then 0x28 else 0x30),
                         tw_tx_buffer := (if acked then tw_tx_buffer u @ [twdr u] else tw_tx_buffer u)\<rparr>) b)"

definition receive_byte :: "twi \<Rightarrow> twi" where
  "receive_byte u =
     (if rx_idx u < length (tw_rx_buffer u)
      then u\<lparr>twdr := tw_rx_buffer u ! rx_idx u, rx_idx := rx_idx u + 1, twsr := (if twea u then 0x50 else 0x58)\<rparr>
      else u\<lparr>twsr := 0x58\<rparr>)"

definition handle_master_step :: "nat \<Rightarrow> twi_bus \<Rightarrow> twi_bus" where
  "handle_master_step i b =
     (let u = twi_at b i
      in if twsr u = kStatusStart \<or> twsr u = kStatusRepStart then send_address i b
         else if tw_mode u = Master_tx then send_byte i b
         else if tw_mode u = Master_rx then upd_twi i receive_byte b
         else b)"

definition handle_slave_step :: "twi \<Rightarrow> twi" where
  "handle_slave_step u =
     (if tw_mode u = Slave_rx
      then u\<lparr>tw_tx_buffer := (if twea u then tw_tx_buffer u @ [twdr u] else tw_tx_buffer u),
             twsr := (if twea u then 0x80 else 0x88)\<rparr>
      else if tw_mode u = Slave_tx
      then (if rx_idx u < length (tw_rx_buffer u)
            then u\<lparr>twdr := tw_rx_buffer u ! rx_idx u, rx_idx := rx_idx u + 1\<rparr> else u)
           \<lparr>twsr := (if twea u then 0xB8 else 0xC0)\<rparr>
      else u)"

definition send_start :: "nat \<Rightarrow> twi_bus \<Rightarrow> twi_bus" where
  "send_start i b =
     upd_twi i (\<lambda>u. u\<lparr>sla_matched := False, general_call_matched := False,
       twsr := (if tw_mode u = Twi_idle then kStatusStart else kStatusRepStart), tw_mode := Master_tx,
       twcr := twcr u AND NOT (twsta_mask (tw_desc u))\<rparr>) (release_scl i b)"

definition send_stop :: "nat \<Rightarrow> twi_bus \<Rightarrow> twi_bus" where
  "send_stop i b =
     twi_stop_broadcast
       (upd_twi i (\<lambda>u. u\<lparr>tw_mode := Twi_idle, master_target_self := False, sla_matched := False,
          general_call_matched := False, twsr := 0xF8, twcr := twcr u AND NOT (twsto_mask (tw_desc u))\<rparr>)
        (release_scl i b))"

definition complete_step :: "nat \<Rightarrow> twi_bus \<Rightarrow> twi_bus" where
  "complete_step i b =
     (let u = twi_at b i; d = tw_desc u
      in upd_twi i raise_twint
           (if twcr u AND twsta_mask d \<noteq> 0 then send_start i b
            else if twcr u AND twsto_mask d \<noteq> 0 then send_stop i b
            else case tw_mode u of
                   Master_tx \<Rightarrow> handle_master_step i b
                 | Master_rx \<Rightarrow> handle_master_step i b
                 | Slave_rx \<Rightarrow> upd_twi i handle_slave_step b
                 | Slave_tx \<Rightarrow> upd_twi i handle_slave_step b
                 | Twi_idle \<Rightarrow> b))"

definition twi_power_reduction :: "twi_descriptor \<Rightarrow> u8 \<Rightarrow> bool" where
  "twi_power_reduction d pr \<longleftrightarrow> tw_pr_address d \<noteq> 0 \<and> tw_pr_bit d \<noteq> 0xFF \<and> bit pr (unat (tw_pr_bit d))"

definition twi_tick :: "u8 \<Rightarrow> u64 \<Rightarrow> nat \<Rightarrow> twi_bus \<Rightarrow> twi_bus" where
  "twi_tick pr elapsed i b =
     (let u = twi_at b i
      in if twi_power_reduction (tw_desc u) pr then b
         else if step_cycles_left u > 0
         then if is_master u \<and> scl_held_by_other i b then b
              else if elapsed \<ge> ucast (step_cycles_left u)
              then complete_step i (upd_twi i (\<lambda>u. u\<lparr>step_cycles_left := 0\<rparr>) b)
              else upd_twi i (\<lambda>u. u\<lparr>step_cycles_left := step_cycles_left u - ucast elapsed\<rparr>) b
         else b)"

section \<open>Registers\<close>

definition twi_reset :: "nat \<Rightarrow> twi_bus \<Rightarrow> twi_bus" where
  "twi_reset i b =
     upd_twi i (\<lambda>u. twi_update_interrupt_state
       ((twi_init (tw_desc u))\<lparr>twsr := 0xF8, twdr := 0xFF, tw_interrupt_line := tw_interrupt_line u\<rparr>)) (release_scl i b)"

definition twi_read :: "u16 \<Rightarrow> twi \<Rightarrow> u8" where
  "twi_read address u =
     (let d = tw_desc u
      in if address = twbr_address d then twbr u
         else if address = twsr_address d then twsr u
         else if address = twar_address d then twar u
         else if address = twdr_address d then twdr u
         else if address = twcr_address d then (if tw_pending u then twcr u OR twint_mask d else twcr u)
         else if address = twamr_address d then twamr u
         else 0)"

definition byte_time :: "twi \<Rightarrow> u32" where
  "byte_time u =
     (let prescaler = push_bit (2 * unat (twsr u AND 0x03)) 1 in (16 + 2 * ucast (twbr u) * prescaler) * 9)"

text \<open>Writing TWINT as one clears it, lets go of the clock and starts the next byte time.\<close>

definition clear_twint :: "u8 \<Rightarrow> nat \<Rightarrow> twi_bus \<Rightarrow> twi_bus" where
  "clear_twint v i b =
     (let d = tw_desc (twi_at b i); may_release = (\<not> is_master (twi_at b i));
          b = upd_twi i (\<lambda>u. u\<lparr>tw_pending := False\<rparr>) b;
          b = (if may_release then release_scl i b else b)
      in if v AND twen_mask d \<noteq> 0 then upd_twi i (\<lambda>u. u\<lparr>step_cycles_left := byte_time u\<rparr>) b else b)"

definition write_twcr :: "u8 \<Rightarrow> nat \<Rightarrow> twi_bus \<Rightarrow> twi_bus" where
  "write_twcr v i b =
     (let u = twi_at b i; d = tw_desc u; may_release = (\<not> is_master u);
          b = (if v AND twint_mask d \<noteq> 0 then clear_twint v i b else b);
          b = (if may_release \<and> twcr u AND twen_mask d \<noteq> 0 \<and> v AND twen_mask d = 0 then release_scl i b else b)
      in upd_twi i (\<lambda>u. u\<lparr>twcr := v AND NOT (twint_mask d)\<rparr>) b)"

definition twi_write :: "u16 \<Rightarrow> u8 \<Rightarrow> nat \<Rightarrow> twi_bus \<Rightarrow> twi_bus" where
  "twi_write address v i b =
     (let d = tw_desc (twi_at b i)
      in upd_twi i twi_update_interrupt_state
           (if address = twbr_address d then upd_twi i (\<lambda>u. u\<lparr>twbr := v\<rparr>) b
            else if address = twsr_address d
            then upd_twi i (\<lambda>u. u\<lparr>twsr := (twsr u AND 0xF8) OR (v AND 0x03)\<rparr>) b
            else if address = twar_address d then upd_twi i (\<lambda>u. u\<lparr>twar := v\<rparr>) b
            else if address = twdr_address d then upd_twi i (\<lambda>u. u\<lparr>twdr := v\<rparr>) b
            else if address = twcr_address d then write_twcr v i b
            else if address = twamr_address d then upd_twi i (\<lambda>u. u\<lparr>twamr := v\<rparr>) b
            else b))"

definition twi_pending_interrupt_request :: "twi \<Rightarrow> interrupt_request option" where
  "twi_pending_interrupt_request u =
     (if tw_pending u \<and> twcr u AND twie_mask (tw_desc u) \<noteq> 0
      then Some (Irq (twi_vector_index (tw_desc u)) 0) else None)"

text \<open>Consuming the request leaves TWINT set: only firmware clears it.\<close>

definition twi_consume_interrupt_request :: "twi \<Rightarrow> interrupt_request option \<times> twi" where
  "twi_consume_interrupt_request u = (twi_pending_interrupt_request u, u)"

definition set_rx_buffer :: "u8 list \<Rightarrow> nat \<Rightarrow> twi_bus \<Rightarrow> twi_bus" where
  "set_rx_buffer bytes i b = upd_twi i (\<lambda>u. u\<lparr>tw_rx_buffer := bytes, rx_idx := 0\<rparr>) b"

definition force_arbitration_lost :: "nat \<Rightarrow> twi_bus \<Rightarrow> twi_bus" where
  "force_arbitration_lost i b =
     hold_scl i (upd_twi i (\<lambda>u. raise_twint (u\<lparr>tw_mode := Twi_idle, twsr := 0x38\<rparr>)) b)"

definition force_bus_error :: "nat \<Rightarrow> twi_bus \<Rightarrow> twi_bus" where
  "force_bus_error i b = upd_twi i (\<lambda>u. raise_twint (u\<lparr>tw_mode := Twi_idle, twsr := 0x00\<rparr>)) b"

end
