(* ===== verification/TwiSpec.thy ===== *)
theory TwiSpec
  imports Twi
begin

text \<open>
  Clock stretching on the two-wire bus cannot lock it up: whenever the units hold SCL low, one
  of them is in a slave role with its TWINT flag set, and its firmware frees the line by clearing the
  flag.  The proof is an invariant of every sequence of ticks, register accesses, resets and calls.
\<close>

section \<open>The line\<close>

definition line_claimed :: "u16 \<times> u8 \<Rightarrow> pin_mux \<Rightarrow> bool" where
  "line_claimed w m \<longleftrightarrow> (\<exists>p. locate m w = Some p \<and> in_mux m (fst p) (snd p) \<and>
     active_claims (mux_entry m (fst p) (snd p)) AND owner_bit Own_twi \<noteq> 0)"

definition someone_stretches :: "twi list \<Rightarrow> bool" where
  "someone_stretches us \<longleftrightarrow> (\<exists>u\<in>set us. tw_pending u \<and> \<not> is_master u)"

text \<open>The invariant; \<open>w\<close> is the SCL pin of the units.\<close>

definition bus_ok :: "u16 \<times> u8 \<Rightarrow> twi_bus \<Rightarrow> bool" where
  "bus_ok w b \<longleftrightarrow> settled (twi_mux b) \<and>
     (\<forall>u\<in>set (twis b). scl_pin (tw_desc u) = w \<and>
        (is_master u \<longrightarrow> \<not> sla_matched u \<and> \<not> general_call_matched u)) \<and>
     (line_claimed w (twi_mux b) \<longrightarrow> someone_stretches (twis b))"

lemma in_bus: "i < length (twis b) \<Longrightarrow> twi_at b i \<in> set (twis b)"
  by (simp add: twi_at_def)

lemma upd_twi_simps [simp]:
  "twi_mux (upd_twi i f b) = twi_mux b" "length (twis (upd_twi i f b)) = length (twis b)"
  "i < length (twis b) \<Longrightarrow> twi_at (upd_twi i f b) i = f (twi_at b i)"
  "j \<noteq> i \<Longrightarrow> twi_at (upd_twi i f b) j = twi_at b j"
  by (simp_all add: upd_twi_def twi_at_def)

lemma scl_simps [simp]:
  "twis (hold_scl i b) = twis b" "twis (release_scl i b) = twis b"
  "twi_at (hold_scl i b) = twi_at b" "twi_at (release_scl i b) = twi_at b"
  by (simp_all add: hold_scl_def release_scl_def twi_at_def fun_eq_iff split: prod.split)

lemma release_line:
  assumes m: "settled (twi_mux b)" and w: "scl_pin (tw_desc (twi_at b i)) = w"
  shows "settled (twi_mux (release_scl i b))" "\<not> line_claimed w (twi_mux (release_scl i b))"
proof -
  have f: "\<forall>e. cache_ok e \<longrightarrow> cache_ok (unclaim Own_twi e)" by simp
  show "settled (twi_mux (release_scl i b))"
    using m settled_update[OF m _ f] w
    by (auto simp: release_scl_def release_pin_by_address_def release_pin_def split: option.split prod.split)
  show "\<not> line_claimed w (twi_mux (release_scl i b))"
  proof (cases "\<exists>p. locate (twi_mux b) w = Some p \<and> in_mux (twi_mux b) (fst p) (snd p)")
    case True
    then obtain p where p: "locate (twi_mux b) w = Some p" "in_mux (twi_mux b) (fst p) (snd p)" by blast
    then have a: "fst w \<noteq> 0" by (auto simp: locate_def split: if_splits)
    have mux: "twi_mux (release_scl i b) = pin_release Own_twi p (twi_mux b)"
      using w a p(1) by_address(2)[OF a, of Own_twi] by (cases w) (simp add: release_scl_def)
    have "active_claims (mux_entry (pin_release Own_twi p (twi_mux b)) (fst p) (snd p)) AND owner_bit Own_twi = 0"
    proof (cases "active_claims (mux_entry (twi_mux b) (fst p) (snd p)) AND owner_bit Own_twi = 0")
      case True
      then show ?thesis using p(2) by (simp add: pin_release_def release_pin_def)
    next
      case False
      then have "pin_release Own_twi p (twi_mux b) =
          reevaluate_ownership (fst p) (snd p) (upd_entry (fst p) (snd p) (unclaim Own_twi) (twi_mux b))"
        using p(2) by (simp add: pin_release_def release_pin_def)
      moreover have "active_claims (unclaim Own_twi e) AND owner_bit Own_twi = 0" for e
        by (simp add: unclaim_def Let_def and.assoc)
      ultimately show ?thesis using pin_after_update(6)[OF m f p(2)] by simp
    qed
    then show ?thesis using p(1) by (simp add: line_claimed_def mux)
  next
    case False
    moreover have "locate (twi_mux (release_scl i b)) = locate (twi_mux b)"
      by (rule locate_cong)
         (simp add: release_scl_def release_pin_by_address_def release_pin_def split: option.split prod.split)
    moreover have "in_mux (twi_mux (release_scl i b)) = in_mux (twi_mux b)"
      using m by (auto simp: release_scl_def release_pin_by_address_def release_pin_def settled_def split: option.split prod.split)
    ultimately show ?thesis by (auto simp: line_claimed_def)
  qed
qed

lemma release_frees:
  assumes "bus_ok w b" "i < length (twis b)"
  shows "settled (twi_mux (release_scl i b))" "\<not> line_claimed w (twi_mux (release_scl i b))"
  using release_line[of b i w] assms in_bus[OF assms(2)] by (auto simp: bus_ok_def)

lemma hold_settled: "settled (twi_mux b) \<Longrightarrow> settled (twi_mux (hold_scl i b))"
proof -
  assume m: "settled (twi_mux b)"
  have claim: "settled (fst (claim_pin p k Own_twi m))" if "settled m" for m p k
    using settled_update[OF that, of p k "\<lambda>e. e\<lparr>active_claims := active_claims e OR owner_bit Own_twi\<rparr>"] that
    by (simp add: claim_pin_def)
  have "settled (update_pin p k Own_twi True False False True m)" if "settled m" for m p k
    using settled_update[OF that, of p k "post Own_twi True False False True"] that by (simp add: update_pin_def)
  then show "settled (twi_mux (hold_scl i b))"
    using m claim by (simp add: hold_scl_def claim_pin_by_address_def update_pin_by_address_def split: option.split prod.split)
qed

section \<open>Local changes\<close>

text \<open>
  A change of one unit keeps the invariant when it keeps the pin, does not leave a match on a
  master and either frees no stretching unit or the line is free.
\<close>

definition mild :: "twi \<Rightarrow> twi \<Rightarrow> bool" where
  "mild u u' \<longleftrightarrow> scl_pin (tw_desc u') = scl_pin (tw_desc u) \<and>
     (is_master u' \<longrightarrow> is_master u \<and> sla_matched u' = sla_matched u \<and> general_call_matched u' = general_call_matched u
        \<or> \<not> sla_matched u' \<and> \<not> general_call_matched u')"

definition keeps_stretching :: "twi \<Rightarrow> twi \<Rightarrow> bool" where
  "keeps_stretching u u' \<longleftrightarrow> (tw_pending u \<and> \<not> is_master u \<longrightarrow> tw_pending u' \<and> \<not> is_master u')"

lemma upd_bus_ok:
  assumes "bus_ok w b" "i < length (twis b)" "mild (twi_at b i) (f (twi_at b i))"
    and "keeps_stretching (twi_at b i) (f (twi_at b i)) \<or> \<not> line_claimed w (twi_mux b)"
  shows "bus_ok w (upd_twi i f b)"
proof -
  let ?us = "twis b" and ?u' = "f (twi_at b i)"
  have us: "twis (upd_twi i f b) = ?us[i := ?u']" by (simp add: upd_twi_def)
  have "\<forall>u\<in>set (?us[i := ?u']). scl_pin (tw_desc u) = w \<and> (is_master u \<longrightarrow> \<not> sla_matched u \<and> \<not> general_call_matched u)"
    using assms(1-3) in_bus[OF assms(2)] set_update_subset_insert[of ?us i ?u']
    by (auto simp: bus_ok_def mild_def)
  moreover have "someone_stretches (?us[i := ?u'])" if l: "line_claimed w (twi_mux b)"
  proof -
    obtain j where j: "j < length ?us" "tw_pending (?us ! j)" "\<not> is_master (?us ! j)"
      using assms(1) l by (auto simp: bus_ok_def someone_stretches_def in_set_conv_nth)
    then have "tw_pending (?us[i := ?u'] ! j) \<and> \<not> is_master (?us[i := ?u'] ! j)"
      using assms(2,4) l by (cases "i = j") (auto simp: keeps_stretching_def twi_at_def)
    then show ?thesis using j(1) unfolding someone_stretches_def by (metis length_list_update nth_mem)
  qed
  ultimately show ?thesis using assms(1) by (simp add: bus_ok_def us)
qed

lemma hold_bus_ok:
  assumes "bus_ok w b" "i < length (twis b)" "tw_pending (twi_at b i)" "\<not> is_master (twi_at b i)"
  shows "bus_ok w (hold_scl i b)"
proof -
  have "someone_stretches (twis b)" using assms(2-4) in_bus by (auto simp: someone_stretches_def)
  then show ?thesis using assms(1) hold_settled by (simp add: bus_ok_def)
qed

lemma release_bus_ok: "bus_ok w b \<Longrightarrow> i < length (twis b) \<Longrightarrow> bus_ok w (release_scl i b)"
  using release_frees[of w b i] by (simp add: bus_ok_def)

lemma raise_twint_fields [simp]:
  "tw_pending (raise_twint u)" "is_master (raise_twint u) = is_master u" "tw_desc (raise_twint u) = tw_desc u"
  "sla_matched (raise_twint u) = sla_matched u" "general_call_matched (raise_twint u) = general_call_matched u"
  "tw_mode (raise_twint u) = tw_mode u"
  by (simp_all add: raise_twint_def twi_update_interrupt_state_def is_master_def)

lemma raise_bus_ok: "bus_ok w b \<Longrightarrow> i < length (twis b) \<Longrightarrow> bus_ok w (upd_twi i raise_twint b)"
  by (rule upd_bus_ok) (auto simp: mild_def keeps_stretching_def)

lemma master_unmatched:
  "bus_ok w b \<Longrightarrow> i < length (twis b) \<Longrightarrow> is_master (twi_at b i) \<Longrightarrow>
     \<not> sla_matched (twi_at b i) \<and> \<not> general_call_matched (twi_at b i)"
  using in_bus by (auto simp: bus_ok_def)

section \<open>The operations\<close>

lemma on_twi_match_ok:
  assumes "bus_ok w b" "i < length (twis b)"
  shows "bus_ok w (on_twi_match a i b)" "length (twis (on_twi_match a i b)) = length (twis b)"
proof -
  let ?b = "upd_twi i (\<lambda>u. u\<lparr>sla_acked := twea u\<rparr>) b"
  have ok: "bus_ok w ?b" by (rule upd_bus_ok[OF assms]) (auto simp: mild_def keeps_stretching_def is_master_def)
  have m: "tw_pending (matched_unit a u)" "\<not> is_master (matched_unit a u)" "tw_desc (matched_unit a u) = tw_desc u" for u
    by (auto simp: matched_unit_def is_master_def raise_twint_def twi_update_interrupt_state_def)
  have "bus_ok w (upd_twi i (matched_unit a) ?b)"
    by (rule upd_bus_ok[OF ok]) (use assms m in \<open>auto simp: mild_def keeps_stretching_def\<close>)
  then show "bus_ok w (on_twi_match a i b)"
    using ok assms(2) m by (auto simp: on_twi_match_def Let_def intro!: hold_bus_ok)
  show "length (twis (on_twi_match a i b)) = length (twis b)"
    by (simp add: on_twi_match_def Let_def)
qed

lemma on_twi_data_ok:
  assumes "bus_ok w b" "i < length (twis b)"
  shows "bus_ok w (snd (on_twi_data d i b))" "length (twis (snd (on_twi_data d i b))) = length (twis b)"
proof -
  let ?f = "\<lambda>u. raise_twint (u\<lparr>twdr := d, tw_tx_buffer := (if twea u then tw_tx_buffer u @ [d] else tw_tx_buffer u)\<rparr>)"
  have ok: "bus_ok w (upd_twi i ?f b)"
    by (rule upd_bus_ok[OF assms]) (auto simp: mild_def keeps_stretching_def is_master_def)
  have "bus_ok w (hold_scl i (upd_twi i ?f b))" if "sla_matched (twi_at b i) \<or> general_call_matched (twi_at b i)"
  proof (rule hold_bus_ok[OF ok])
    show "\<not> is_master (twi_at (upd_twi i ?f b) i)" using master_unmatched[OF assms] that assms(2) by (auto simp: is_master_def)
  qed (use assms(2) in simp_all)
  then show "bus_ok w (snd (on_twi_data d i b))" using assms(1) by (auto simp: on_twi_data_def)
  show "length (twis (snd (on_twi_data d i b))) = length (twis b)" by (simp add: on_twi_data_def)
qed

lemma on_twi_stop_ok:
  assumes "bus_ok w b" "i < length (twis b)"
  shows "bus_ok w (on_twi_stop i b)" "length (twis (on_twi_stop i b)) = length (twis b)"
proof -
  have "mild u (raise_twint (u\<lparr>tw_mode := Twi_idle, twsr := 0xA0, sla_matched := False, general_call_matched := False,
      master_target_self := False\<rparr>))" for u by (simp add: mild_def)
  then show "bus_ok w (on_twi_stop i b)"
    using assms release_bus_ok[OF assms] release_frees[OF assms]
    by (auto simp: on_twi_stop_def intro!: upd_bus_ok)
  show "length (twis (on_twi_stop i b)) = length (twis b)" by (simp add: on_twi_stop_def)
qed

text \<open>A pass over the units keeps the invariant when each visit does.\<close>

lemma pass_ok:
  assumes visit: "\<And>s i. bus_ok w (bus_of s) \<Longrightarrow> i < length (twis (bus_of s)) \<Longrightarrow>
      bus_ok w (bus_of (f i s)) \<and> length (twis (bus_of (f i s))) = length (twis (bus_of s))"
    and "bus_ok w (bus_of s)" "\<forall>i\<in>set xs. i < length (twis (bus_of s))"
  shows "bus_ok w (bus_of (fold f xs s)) \<and> length (twis (bus_of (fold f xs s))) = length (twis (bus_of s))"
  using assms(2,3)
proof (induction xs arbitrary: s)
  case (Cons i xs)
  then show ?case using visit[of s i] by simp
qed simp

lemma broadcast_ok:
  assumes "bus_ok w b"
  shows "bus_ok w (snd (twi_broadcast a b))" "length (twis (snd (twi_broadcast a b))) = length (twis b)"
  using pass_ok[of w "\<lambda>s. snd (snd s)" "broadcast_step a" "(False, False, b)" "[0..<length (twis b)]"] assms
    on_twi_match_ok[of w]
  by (auto simp: twi_broadcast_def broadcast_step_def Let_def split_beta split: if_splits)

lemma data_send_ok:
  assumes "bus_ok w b"
  shows "bus_ok w (snd (twi_data_send d b))" "length (twis (snd (twi_data_send d b))) = length (twis b)"
  using pass_ok[of w snd "send_step d" "(False, b)" "[0..<length (twis b)]"] assms on_twi_data_ok[of w]
  by (auto simp: twi_data_send_def send_step_def split_beta)

lemma stop_broadcast_ok:
  assumes "bus_ok w b"
  shows "bus_ok w (twi_stop_broadcast b)" "length (twis (twi_stop_broadcast b)) = length (twis b)"
  using pass_ok[of w "\<lambda>s. s" on_twi_stop b "[0..<length (twis b)]"] assms on_twi_stop_ok[of w]
  by (auto simp: twi_stop_broadcast_def)

lemma is_master_cases: "is_master u \<longleftrightarrow> tw_mode u \<in> {Master_tx, Master_rx}"
  by (simp add: is_master_def)

lemma master_change_ok:
  assumes "bus_ok w b" "i < length (twis b)" "is_master (twi_at b i)"
    and "tw_desc (f (twi_at b i)) = tw_desc (twi_at b i)" "sla_matched (f (twi_at b i)) = sla_matched (twi_at b i)"
    "general_call_matched (f (twi_at b i)) = general_call_matched (twi_at b i)"
  shows "bus_ok w (upd_twi i f b)"
  using assms by (intro upd_bus_ok) (auto simp: mild_def keeps_stretching_def)

text \<open>Calls that reach every unit leave a master's role and description.\<close>

definition same_master :: "nat \<Rightarrow> twi_bus \<Rightarrow> twi_bus \<Rightarrow> bool" where
  "same_master i b b' \<longleftrightarrow> (is_master (twi_at b i) \<longrightarrow> tw_mode (twi_at b' i) = tw_mode (twi_at b i))"

lemma match_master: "i < length (twis b) \<Longrightarrow> j < length (twis b) \<Longrightarrow> is_master (twi_at b i) \<Longrightarrow>
    is_master (twi_at (on_twi_match a j b) i)"
  by (cases "j = i") (auto simp: on_twi_match_def Let_def is_master_def)

lemma data_master: "i < length (twis b) \<Longrightarrow> j < length (twis b) \<Longrightarrow> is_master (twi_at b i) \<Longrightarrow>
    is_master (twi_at (snd (on_twi_data d j b)) i)"
  by (cases "j = i") (auto simp: on_twi_data_def is_master_def)

lemma pass_master:
  assumes visit: "\<And>s j. i < length (twis (bus_of s)) \<Longrightarrow> j < length (twis (bus_of s)) \<Longrightarrow> is_master (twi_at (bus_of s) i) \<Longrightarrow>
      is_master (twi_at (bus_of (f j s)) i) \<and> length (twis (bus_of (f j s))) = length (twis (bus_of s))"
    and "i < length (twis (bus_of s))" "is_master (twi_at (bus_of s) i)" "\<forall>j\<in>set xs. j < length (twis (bus_of s))"
  shows "is_master (twi_at (bus_of (fold f xs s)) i)"
  using assms(2-4)
proof (induction xs arbitrary: s)
  case (Cons j xs)
  then show ?case using visit[of s j] by simp
qed simp

lemma length_match [simp]: "length (twis (on_twi_match a j b)) = length (twis b)"
  by (simp add: on_twi_match_def Let_def)

lemma length_data [simp]: "length (twis (snd (on_twi_data d j b))) = length (twis b)"
  by (simp add: on_twi_data_def)

lemma broadcast_master:
  assumes "i < length (twis b)" "is_master (twi_at b i)"
  shows "is_master (twi_at (snd (twi_broadcast a b)) i)"
  using pass_master[of i "\<lambda>s. snd (snd s)" "broadcast_step a" "(False, False, b)" "[0..<length (twis b)]"] assms match_master[of i]
  by (auto simp: twi_broadcast_def broadcast_step_def Let_def split_beta split: if_splits)

lemma data_send_master:
  assumes "i < length (twis b)" "is_master (twi_at b i)"
  shows "is_master (twi_at (snd (twi_data_send d b)) i)"
  using pass_master[of i snd "send_step d" "(False, b)" "[0..<length (twis b)]"] assms data_master[of i]
  by (auto simp: twi_data_send_def send_step_def split_beta)

lemma master_step_ok:
  assumes "bus_ok w b" "i < length (twis b)" "is_master (twi_at b i)"
  shows "bus_ok w (handle_master_step i b)" "length (twis (handle_master_step i b)) = length (twis b)"
proof -
  let ?b = "upd_twi i (\<lambda>u. u\<lparr>master_target_self := check_twi_address u (twdr u)\<rparr>) b"
  have b: "bus_ok w ?b" by (rule master_change_ok[OF assms]) simp_all
  have m: "is_master (twi_at ?b i)" using assms(2,3) by (simp add: is_master_def)
  have s: "bus_ok w (snd (twi_broadcast a ?b))" "i < length (twis (snd (twi_broadcast a ?b)))"
    "is_master (twi_at (snd (twi_broadcast a ?b)) i)" for a
    using broadcast_ok[OF b] broadcast_master[of i ?b] assms(2) m by simp_all
  have "bus_ok w (send_address i b)"
    unfolding send_address_def Let_def split_beta
    by (rule master_change_ok[OF s(1)]) (use s(2,3) assms(2) in auto)
  moreover have "bus_ok w (send_byte i b)"
    unfolding send_byte_def Let_def split_beta
    by (rule master_change_ok)
       (use assms data_send_ok[OF assms(1)] data_send_master[OF assms(2,3)] in auto)
  moreover have "bus_ok w (upd_twi i receive_byte b)"
    by (rule master_change_ok[OF assms]) (auto simp: receive_byte_def)
  ultimately show "bus_ok w (handle_master_step i b)"
    using assms(1) by (simp add: handle_master_step_def Let_def)
  show "length (twis (handle_master_step i b)) = length (twis b)"
    using broadcast_ok(2)[OF b] data_send_ok(2)[OF assms(1)]
    by (simp add: handle_master_step_def send_address_def send_byte_def Let_def split_beta)
qed

lemma complete_step_ok:
  assumes "bus_ok w b" "i < length (twis b)"
  shows "bus_ok w (complete_step i b)" "length (twis (complete_step i b)) = length (twis b)"
proof -
  note free = release_bus_ok[OF assms] release_frees[OF assms]
  have start: "bus_ok w (send_start i b)"
    unfolding send_start_def by (rule upd_bus_ok[OF free(1)]) (use assms(2) free(3) in \<open>auto simp: mild_def\<close>)
  have "bus_ok w (upd_twi i (\<lambda>u. u\<lparr>tw_mode := Twi_idle, master_target_self := False, sla_matched := False,
      general_call_matched := False, twsr := 0xF8, twcr := twcr u AND NOT (twsto_mask (tw_desc u))\<rparr>) (release_scl i b))"
    by (rule upd_bus_ok[OF free(1)]) (use assms(2) free(3) in \<open>auto simp: mild_def\<close>)
  then have stop: "bus_ok w (send_stop i b)" "length (twis (send_stop i b)) = length (twis b)"
    using stop_broadcast_ok by (simp_all add: send_stop_def)
  have slave: "bus_ok w (upd_twi i handle_slave_step b)"
    by (rule upd_bus_ok[OF assms]) (auto simp: mild_def keeps_stretching_def handle_slave_step_def is_master_def)
  have len: "length (twis (send_start i b)) = length (twis b)" by (simp add: send_start_def)
  note steps = start stop slave len master_step_ok[OF assms] assms
  show "bus_ok w (complete_step i b)"
    unfolding complete_step_def Let_def
    by (rule raise_bus_ok) (use steps in \<open>auto simp: is_master_def split: twi_mode.split\<close>)
  show "length (twis (complete_step i b)) = length (twis b)"
    using steps by (auto simp: complete_step_def Let_def is_master_def split: twi_mode.split)
qed

lemma quiet_change_ok:
  assumes "bus_ok w b" "i < length (twis b)"
    and "\<And>u. tw_desc (f u) = tw_desc u \<and> tw_mode (f u) = tw_mode u \<and> tw_pending (f u) = tw_pending u \<and>
      sla_matched (f u) = sla_matched u \<and> general_call_matched (f u) = general_call_matched u"
  shows "bus_ok w (upd_twi i f b)"
  using assms by (intro upd_bus_ok) (auto simp: mild_def keeps_stretching_def is_master_def)

lemma tick_ok: "bus_ok w b \<Longrightarrow> i < length (twis b) \<Longrightarrow> bus_ok w (twi_tick pr n i b)"
  by (auto simp: twi_tick_def Let_def intro!: complete_step_ok quiet_change_ok)

lemma clearing_ok:
  assumes "bus_ok w b" "i < length (twis b)"
  shows "bus_ok w (upd_twi i (\<lambda>u. u\<lparr>tw_pending := False\<rparr>)
    (if \<not> is_master (twi_at b i) then release_scl i b else b))"
proof (cases "is_master (twi_at b i)")
  case True
  then show ?thesis using master_change_ok[OF assms True] by simp
next
  case False
  then show ?thesis
    using release_bus_ok[OF assms] release_frees[OF assms] assms(2)
    by (auto intro!: upd_bus_ok simp: mild_def is_master_def)
qed

lemma release_upd:
  assumes "i < length (twis b)" "tw_desc (f (twi_at b i)) = tw_desc (twi_at b i)"
  shows "release_scl i (upd_twi i f b) = upd_twi i f (release_scl i b)"
  using assms by (simp add: release_scl_def upd_twi_def twi_at_def split: prod.split)

lemma clear_twint_ok:
  assumes "bus_ok w b" "i < length (twis b)"
  shows "bus_ok w (clear_twint v i b)" "length (twis (clear_twint v i b)) = length (twis b)"
proof -
  have c: "bus_ok w (if \<not> is_master (twi_at b i) then release_scl i (upd_twi i (\<lambda>u. u\<lparr>tw_pending := False\<rparr>) b)
      else upd_twi i (\<lambda>u. u\<lparr>tw_pending := False\<rparr>) b)"
    using clearing_ok[OF assms] assms(2) by (auto simp: release_upd)
  then show "bus_ok w (clear_twint v i b)"
    using assms(2) quiet_change_ok[OF c, of i "\<lambda>u. u\<lparr>step_cycles_left := byte_time u\<rparr>"]
    by (simp add: clear_twint_def Let_def split: if_splits)
  show "length (twis (clear_twint v i b)) = length (twis b)" by (simp add: clear_twint_def Let_def)
qed

lemma write_twcr_ok:
  assumes "bus_ok w b" "i < length (twis b)"
  shows "bus_ok w (write_twcr v i b)" "length (twis (write_twcr v i b)) = length (twis b)"
proof -
  define b1 where "b1 = (if v AND twint_mask (tw_desc (twi_at b i)) \<noteq> 0 then clear_twint v i b else b)"
  have b1: "bus_ok w b1" "i < length (twis b1)" using assms clear_twint_ok[OF assms] by (simp_all add: b1_def)
  have "bus_ok w (if r then release_scl i b1 else b1)" "i < length (twis (if r then release_scl i b1 else b1))" for r
    using b1 release_bus_ok by auto
  then show "bus_ok w (write_twcr v i b)"
    unfolding write_twcr_def Let_def b1_def[symmetric] by (intro quiet_change_ok) simp_all
  show "length (twis (write_twcr v i b)) = length (twis b)"
    using clear_twint_ok[OF assms] by (simp add: write_twcr_def Let_def)
qed

lemma write_ok:
  assumes "bus_ok w b" "i < length (twis b)"
  shows "bus_ok w (twi_write a v i b)"
proof -
  note change = quiet_change_ok[OF assms] and twcr = write_twcr_ok[OF assms]
  show ?thesis
    unfolding twi_write_def Let_def
    by (rule quiet_change_ok) (use assms twcr in \<open>auto intro!: change simp: twi_update_interrupt_state_def\<close>)
qed

lemma length_write: "bus_ok w b \<Longrightarrow> i < length (twis b) \<Longrightarrow> length (twis (twi_write a v i b)) = length (twis b)"
  by (simp add: twi_write_def Let_def write_twcr_ok)

lemma write_twcr_frees:
  assumes "bus_ok w b" "i < length (twis b)" "\<not> is_master (twi_at b i)" "v AND twint_mask (tw_desc (twi_at b i)) \<noteq> 0"
  shows "\<not> line_claimed w (twi_mux (write_twcr v i b))"
proof -
  have free: "\<not> line_claimed w (twi_mux (clear_twint v i b))"
    using assms(2,3) release_frees[OF assms(1,2)] by (simp add: clear_twint_def Let_def release_upd)
  moreover have "\<not> line_claimed w (twi_mux (release_scl i (clear_twint v i b)))"
    using release_frees[OF clear_twint_ok(1)[OF assms(1,2)]] clear_twint_ok(2)[OF assms(1,2)] assms(2) by simp
  ultimately show ?thesis using assms(4) by (simp add: write_twcr_def Let_def)
qed

lemma reset_ok:
  assumes "bus_ok w b" "i < length (twis b)"
  shows "bus_ok w (twi_reset i b)"
  unfolding twi_reset_def
  by (rule upd_bus_ok[OF release_bus_ok[OF assms]])
     (use assms(2) release_frees[OF assms] in
       \<open>auto simp: mild_def twi_update_interrupt_state_def twi_init_def is_master_def\<close>)

lemma force_ok:
  assumes "bus_ok w b" "i < length (twis b)"
  shows "bus_ok w (force_arbitration_lost i b)" "bus_ok w (force_bus_error i b)"
proof -
  have f: "bus_ok w (upd_twi i (\<lambda>u. raise_twint (u\<lparr>tw_mode := Twi_idle, twsr := c\<rparr>)) b)" for c
    by (rule upd_bus_ok[OF assms]) (auto simp: mild_def keeps_stretching_def is_master_def)
  then show "bus_ok w (force_bus_error i b)" by (simp add: force_bus_error_def)
  show "bus_ok w (force_arbitration_lost i b)"
    unfolding force_arbitration_lost_def by (rule hold_bus_ok[OF f]) (use assms(2) in \<open>auto simp: is_master_def\<close>)
qed

section \<open>Reachable buses\<close>

text \<open>
  Every unit of the bus has its clock on the same pin.  Between the operations of the units,
  other masters may call the bus, and other peripherals may do to the pins what they like, short of
  claiming or releasing SCL in the name of the two-wire interface.
\<close>

inductive twi_reachable :: "u16 \<times> u8 \<Rightarrow> twi_bus \<Rightarrow> bool" for w where
  start: "settled m \<Longrightarrow> \<not> line_claimed w m \<Longrightarrow> \<forall>d\<in>set ds. scl_pin d = w \<Longrightarrow>
    twi_reachable w \<lparr>twis = map twi_init ds, twi_mux = m\<rparr>"
| tick: "twi_reachable w b \<Longrightarrow> i < length (twis b) \<Longrightarrow> twi_reachable w (twi_tick pr n i b)"
| writes: "twi_reachable w b \<Longrightarrow> i < length (twis b) \<Longrightarrow> twi_reachable w (twi_write a v i b)"
| reset: "twi_reachable w b \<Longrightarrow> i < length (twis b) \<Longrightarrow> twi_reachable w (twi_reset i b)"
| buffer: "twi_reachable w b \<Longrightarrow> i < length (twis b) \<Longrightarrow> twi_reachable w (set_rx_buffer bytes i b)"
| lost: "twi_reachable w b \<Longrightarrow> i < length (twis b) \<Longrightarrow> twi_reachable w (force_arbitration_lost i b)"
| error: "twi_reachable w b \<Longrightarrow> i < length (twis b) \<Longrightarrow> twi_reachable w (force_bus_error i b)"
| address: "twi_reachable w b \<Longrightarrow> twi_reachable w (snd (twi_broadcast a b))"
| send: "twi_reachable w b \<Longrightarrow> twi_reachable w (snd (twi_data_send d b))"
| stop: "twi_reachable w b \<Longrightarrow> twi_reachable w (twi_stop_broadcast b)"
| pins: "twi_reachable w b \<Longrightarrow> settled m \<Longrightarrow> line_claimed w m = line_claimed w (twi_mux b) \<Longrightarrow>
    twi_reachable w (b\<lparr>twi_mux := m\<rparr>)"

lemma reachable_ok: "twi_reachable w b \<Longrightarrow> bus_ok w b"
proof (induction rule: twi_reachable.induct)
  case (start m ds)
  then show ?case by (auto simp: bus_ok_def twi_init_def is_master_def)
next
  case (pins b m)
  then show ?case by (simp add: bus_ok_def)
next
  case (buffer b i bytes)
  then show ?case by (auto simp: set_rx_buffer_def intro!: quiet_change_ok)
qed (simp_all add: tick_ok write_ok reset_ok force_ok broadcast_ok data_send_ok stop_broadcast_ok)

lemma owner_is_twi: "owner_at k = Own_twi \<Longrightarrow> k = owner_index Own_twi"
  by (auto simp: owner_at_def named_owners_def nth_Cons' split: if_splits)

lemma held_line:
  assumes "settled (twi_mux b)" "scl_pin (tw_desc (twi_at b i)) = w" "scl_held_by_other i b"
  shows "line_claimed w (twi_mux b)"
proof -
  let ?st = "get_state_by_address (twi_mux b) (fst w) (snd w)"
  have st: "fst w \<noteq> 0" "ps_owner ?st = Own_twi"
    using assms(2,3) by (auto simp: scl_held_by_other_def Let_def split: prod.splits)
  then obtain p where p: "locate (twi_mux b) w = Some p"
    by (cases "locate (twi_mux b) w") (simp_all add: by_address(4) default_pin_state_def)
  have owner: "ps_owner (get_state (twi_mux b) (fst p) (snd p)) = Own_twi"
    using st p by (simp add: by_address(4))
  then have here: "in_mux (twi_mux b) (fst p) (snd p)"
    by (auto simp: get_state_def default_pin_state_def split: if_splits)
  then have "presents (pullup_suppressed (twi_mux b)) (mux_entry (twi_mux b) (fst p) (snd p))"
    using assms(1) by (simp add: settled_def)
  then have "strongest (active_claims (mux_entry (twi_mux b) (fst p) (snd p))) Own_twi"
    using owner here by (simp add: presents_def Let_def get_state_def)
  then have "bit (active_claims (mux_entry (twi_mux b) (fst p) (snd p))) (owner_index Own_twi)"
    by (auto simp: strongest_def split: if_splits dest!: owner_is_twi[OF sym])
  then show ?thesis using p here by (auto simp: line_claimed_def owner_bit_test)
qed

section \<open>Property\<close>

text \<open>
  C39.  Clock stretching cannot deadlock the bus.  In every reachable state, with any number
  of units, if SCL is held low by the two-wire interface, so that masters wait, then some unit that is not a
  master has TWINT set; and when its firmware writes a one to TWINT the line is free.
\<close>

theorem stretching_ends:
  assumes "twi_reachable w b" and "i < length (twis b)" and "scl_held_by_other i b"
    and "\<forall>u\<in>set (twis b). twcr_address (tw_desc u) \<notin>
      {twbr_address (tw_desc u), twsr_address (tw_desc u), twar_address (tw_desc u), twdr_address (tw_desc u)}"
  shows "\<exists>j<length (twis b). let u = twi_at b j; d = tw_desc u in
    tw_pending u \<and> \<not> is_master u \<and>
    (\<forall>v. v AND twint_mask d \<noteq> 0 \<longrightarrow> \<not> scl_held_by_other i (twi_write (twcr_address d) v j b))"
proof -
  have ok: "bus_ok w b" by (rule reachable_ok[OF assms(1)])
  then have line: "line_claimed w (twi_mux b)"
    using held_line[OF _ _ assms(3)] in_bus[OF assms(2)] by (simp add: bus_ok_def)
  then obtain j where j: "j < length (twis b)" "tw_pending (twi_at b j)" "\<not> is_master (twi_at b j)"
    using ok by (auto simp: bus_ok_def someone_stretches_def in_set_conv_nth twi_at_def)
  let ?d = "tw_desc (twi_at b j)"
  have "\<not> scl_held_by_other i (twi_write (twcr_address ?d) v j b)" if v: "v AND twint_mask ?d \<noteq> 0" for v
  proof -
    let ?b = "twi_write (twcr_address ?d) v j b"
    have after: "bus_ok w ?b" "i < length (twis ?b)" using write_ok[OF ok j(1)] assms(2) length_write[OF ok j(1)] by simp_all
    have "twi_mux ?b = twi_mux (write_twcr v j b)"
      using assms(4) in_bus[OF j(1)] by (simp add: twi_write_def Let_def)
    then have "\<not> line_claimed w (twi_mux ?b)" using write_twcr_frees[OF ok j(1,3) v] by simp
    then show ?thesis using held_line[of ?b i w] after in_bus[OF after(2)] by (auto simp: bus_ok_def)
  qed
  then show ?thesis using j by (auto simp: Let_def)
qed

section \<open>An example\<close>

definition twi0 :: twi_descriptor where
  "twi0 = \<lparr>twbr_address = 0xB8, twsr_address = 0xB9, twar_address = 0xBA, twdr_address = 0xBB, twcr_address = 0xBC,
     twamr_address = 0xBD, twi_vector_index = 24, twint_mask = 0x80, twen_mask = 0x04, twie_mask = 0x01, twsto_mask = 0x10,
     twsta_mask = 0x20, twea_mask = 0x40, tw_pr_address = 0x64, tw_pr_bit = 7, scl_pin = (0x28, 5)\<rparr>"

text \<open>Two units; the second acknowledges its address and stretches the clock.\<close>

definition twi_start :: twi_bus where
  "twi_start = \<lparr>twis = map twi_init [twi0, twi0], twi_mux = register_port 0x28 2 pin_mux_init\<rparr>"

definition twi_addressed :: twi_bus where
  "twi_addressed = snd (twi_broadcast 0x42 (twi_write 0xBC 0x44 1 (twi_write 0xBA 0x42 1 twi_start)))"

lemma twi_addressed_holds: "scl_held_by_other 0 twi_addressed"
  by code_simp

lemma twi_addressed_units: "map tw_pending (twis twi_addressed) = [False, True]"
  by code_simp

lemma twi_addressed_reachable: "twi_reachable (0x28, 5) twi_addressed"
proof -
  let ?m = "register_port 0x28 2 pin_mux_init"
  have "settled ?m" by (intro reachable_settled mux_reachable.intros)
  moreover have "\<not> line_claimed (0x28, 5) ?m"
    by (simp add: line_claimed_def locate_def register_port_def in_mux_def mux_entry_def pin_mux_init_def pin_entry_init_def
        owner_bit_def)
  ultimately have "twi_reachable (0x28, 5) twi_start"
    unfolding twi_start_def by (intro twi_reachable.start) (simp_all add: twi0_def)
  moreover have "length (twis (twi_write a v 1 twi_start)) = 2" for a v
    by (simp add: twi_start_def twi_write_def write_twcr_def clear_twint_def Let_def)
  ultimately show ?thesis
    unfolding twi_addressed_def by (intro twi_reachable.address twi_reachable.writes) (simp_all add: twi_start_def)
qed

theorem stretching_ends_witness:
  "\<exists>j<2. tw_pending (twi_at twi_addressed j) \<and> \<not> is_master (twi_at twi_addressed j) \<and>
    \<not> scl_held_by_other 0 (twi_write 0xBC 0xC4 j twi_addressed)"
proof -
  have len: "length (twis twi_addressed) = 2" using arg_cong[OF twi_addressed_units, of length] by simp
  have d: "map tw_desc (twis twi_addressed) = [twi0, twi0]" by code_simp
  then have all: "\<forall>u\<in>set (twis twi_addressed). tw_desc u = twi0"
    using arg_cong[OF d, of set] by auto
  have addr: "\<forall>u\<in>set (twis twi_addressed). twcr_address (tw_desc u) \<notin>
      {twbr_address (tw_desc u), twsr_address (tw_desc u), twar_address (tw_desc u), twdr_address (tw_desc u)}"
    using all by (simp add: twi0_def)
  obtain j where j: "j < 2" "tw_pending (twi_at twi_addressed j)" "\<not> is_master (twi_at twi_addressed j)"
    "\<forall>v. v AND twint_mask (tw_desc (twi_at twi_addressed j)) \<noteq> 0 \<longrightarrow>
      \<not> scl_held_by_other 0 (twi_write (twcr_address (tw_desc (twi_at twi_addressed j))) v j twi_addressed)"
    using stretching_ends[OF twi_addressed_reachable _ twi_addressed_holds addr] len by (auto simp: Let_def)
  have "tw_desc (twi_at twi_addressed j) = twi0" using all j(1) in_bus[of j twi_addressed] len by simp
  then show ?thesis using j by (intro exI[of _ j]) (simp add: twi0_def)
qed

end
