(* ===== verification/Ccl.thy ===== *)
theory Ccl
  imports Pins Periph
begin

text \<open>
  \<open>Ccl\<close> (\<open>src/core/ccl.cpp\<close>): the configurable custom logic, look-up tables that feed each
  other and sequential units behind pairs of them.  The levels a table reads from other
  peripherals (event users, the comparator, the waveform outputs of TCA0 and the TCBs) are an
  argument of the operations, fixed for the duration of a call; events the outputs trigger are recorded in order, so a
  callback that re-enters the logic during a trigger is not modelled.
\<close>

section \<open>State\<close>

record lut_descriptor =
  lut_ctrla_address :: u16
  lut_ctrlb_address :: u16
  lut_ctrlc_address :: u16
  truth_address :: u16
  generator_id :: u8
  output_pin_address :: u16
  output_bit_index :: u8

record ccl_descriptor =
  ccl_ctrla_address :: u16
  seqctrl_addresses :: "u16 list"
  ccl_intctrl_addresses :: "u16 list"
  ccl_intflags_addresses :: "u16 list"
  luts_desc :: "lut_descriptor list"
  ccl_vector_index :: u8

record lut_state =
  lut_ctrla :: u8
  lut_ctrlb :: u8
  lut_ctrlc :: u8
  truth :: u8
  lut_inputs :: "bool list"

record ccl =
  ccl_desc :: ccl_descriptor
  ccl_mux :: pin_mux
  ccl_ctrla :: u8
  seqctrl :: "u8 list"
  ccl_intctrl :: "u8 list"
  ccl_intflags :: "u8 list"
  luts :: "lut_state list"
  ccl_outputs :: "bool list"
  raw_outputs :: "bool list"
  prev_outputs :: "bool list"
  prev_raw_outputs :: "bool list"
  prev_luts_in2 :: "bool list"
  seq_state :: "bool list"
  ccl_interrupt_line :: bool
  ccl_events :: "(u8 \<times> bool) list"

text \<open>What a table reads from other peripherals: by the number of the table, the input and its selector.\<close>

type_synonym ccl_env = "nat \<Rightarrow> nat \<Rightarrow> u8 \<Rightarrow> bool"

definition lut_count :: "ccl \<Rightarrow> nat" where
  "lut_count c = length (luts_desc (ccl_desc c))"

definition lut_init :: lut_state where
  "lut_init = \<lparr>lut_ctrla = 0, lut_ctrlb = 0, lut_ctrlc = 0, truth = 0, lut_inputs = [False, False, False]\<rparr>"

definition ccl_init :: "ccl_descriptor \<Rightarrow> pin_mux \<Rightarrow> ccl" where
  "ccl_init d m =
     (let n = length (luts_desc d)
      in \<lparr>ccl_desc = d, ccl_mux = m, ccl_ctrla = 0, seqctrl = replicate 4 0, ccl_intctrl = [0, 0], ccl_intflags = [0, 0],
          luts = replicate n lut_init, ccl_outputs = replicate n False, raw_outputs = replicate n False,
          prev_outputs = replicate n False, prev_raw_outputs = replicate n False, prev_luts_in2 = [False, False],
          seq_state = [False, False], ccl_interrupt_line = False, ccl_events = []\<rparr>)"

section \<open>Interrupt\<close>

definition ccl_pending_interrupt_request :: "ccl \<Rightarrow> u8 option" where
  "ccl_pending_interrupt_request c =
     (if ccl_vector_index (ccl_desc c) = 0 then None
      else if \<exists>i<2. ccl_intflags c ! i AND ccl_intctrl c ! i \<noteq> 0 then Some (ccl_vector_index (ccl_desc c)) else None)"

definition ccl_update_interrupt_state :: "ccl \<Rightarrow> ccl" where
  "ccl_update_interrupt_state c = c\<lparr>ccl_interrupt_line := ccl_pending_interrupt_request c \<noteq> None\<rparr>"

section \<open>Look-up tables\<close>

definition input_selector :: "lut_state \<Rightarrow> nat \<Rightarrow> u8" where
  "input_selector l j =
     (if j = 0 then lut_ctrlb l AND 0x0F else if j = 1 then drop_bit 4 (lut_ctrlb l) AND 0x0F else lut_ctrlc l AND 0x0F)"

text \<open>The outputs are an argument, since the loop that settles them updates them in place.\<close>

definition lut_input :: "ccl_env \<Rightarrow> ccl \<Rightarrow> bool list \<Rightarrow> nat \<Rightarrow> nat \<Rightarrow> bool" where
  "lut_input v c outs i j =
     (let insel = input_selector (luts c ! i) j; n = lut_count c
      in if insel = 0x00 then False
         else if insel = 0x01 then raw_outputs c ! i
         else if insel = 0x02 then outs ! ((i + n - 1) mod n)
         else if insel = 0x05 then lut_inputs (luts c ! i) ! j
         else if insel \<in> {0x03, 0x04, 0x06, 0x0A, 0x0C, 0x0D, 0x0E} then v i j insel
         else False)"

definition lut_pattern :: "ccl_env \<Rightarrow> ccl \<Rightarrow> bool list \<Rightarrow> nat \<Rightarrow> nat" where
  "lut_pattern v c outs i =
     4 * of_bool (lut_input v c outs i 2) + 2 * of_bool (lut_input v c outs i 1) + of_bool (lut_input v c outs i 0)"

definition compute_lut :: "ccl_env \<Rightarrow> ccl \<Rightarrow> bool list \<Rightarrow> nat \<Rightarrow> bool" where
  "compute_lut v c outs i \<longleftrightarrow> lut_ctrla (luts c ! i) AND 0x01 \<noteq> 0 \<and> bit (truth (luts c ! i)) (lut_pattern v c outs i)"

text \<open>One pass over the tables, in place, and the loop of at most a hundred passes.\<close>

definition lut_pass :: "ccl_env \<Rightarrow> ccl \<Rightarrow> bool list \<Rightarrow> bool list" where
  "lut_pass v c outs = fold (\<lambda>i outs. outs[i := compute_lut v c outs i]) [0..<lut_count c] outs"

fun settle_luts :: "ccl_env \<Rightarrow> ccl \<Rightarrow> bool list \<Rightarrow> nat \<Rightarrow> nat \<Rightarrow> bool list \<Rightarrow> bool list" where
  "settle_luts v c initial iter 0 outs = outs"
| "settle_luts v c initial iter (Suc n) outs =
     (let outs' = lut_pass v c outs
      in if outs' = outs then outs'
         else if iter \<ge> 1 \<and> outs' = initial then outs'
         else settle_luts v c initial (Suc iter) n outs')"

section \<open>Sequential units\<close>

definition seq_next :: "u8 \<Rightarrow> bool \<Rightarrow> bool \<Rightarrow> bool \<Rightarrow> bool \<Rightarrow> bool \<Rightarrow> bool" where
  "seq_next mode in0 in1 rising1 rising2 q =
     (if mode = 1 then (if rising1 then in0 else q)
      else if mode = 2
      then (if rising2 then (if in0 \<and> \<not> in1 then True else if \<not> in0 \<and> in1 then False else if in0 \<and> in1 then \<not> q else q)
            else q)
      else if mode = 3 then (if in1 then in0 else q)
      else if mode = 4 then (if in0 \<and> \<not> in1 then True else if \<not> in0 \<and> in1 then False else q)
      else q)"

definition seq_unit :: "ccl_env \<Rightarrow> nat \<Rightarrow> ccl \<Rightarrow> ccl" where
  "seq_unit v s c =
     (let mode = seqctrl c ! s AND 0x07
      in if mode = 0 then c
         else let in0 = compute_lut v c (ccl_outputs c) (s * 2 + 1); in1 = compute_lut v c (ccl_outputs c) (s * 2);
                  in2 = lut_inputs (luts c ! (s * 2)) ! 2;
                  rising1 = (in1 \<and> \<not> prev_raw_outputs c ! (s * 2)); rising2 = (in2 \<and> \<not> prev_luts_in2 c ! s);
                  q = seq_next mode in0 in1 rising1 rising2 (seq_state c ! s)
              in c\<lparr>seq_state := (seq_state c)[s := q],
                   prev_raw_outputs := (prev_raw_outputs c)[s * 2 := in1, s * 2 + 1 := in0],
                   prev_luts_in2 := (prev_luts_in2 c)[s := in2],
                   ccl_outputs := (ccl_outputs c)[s * 2 := q]\<rparr>)"

section \<open>Outputs\<close>

definition output_trigger :: "u8 \<Rightarrow> bool \<Rightarrow> bool" where
  "output_trigger intmode level \<longleftrightarrow> intmode = 1 \<and> level \<or> intmode = 2 \<and> \<not> level \<or> intmode = 3"

definition publish_output :: "nat \<Rightarrow> ccl \<Rightarrow> ccl" where
  "publish_output i c =
     (let d = luts_desc (ccl_desc c) ! i; level = ccl_outputs c ! i;
          c = (if level \<noteq> prev_outputs c ! i
               then let intmode = drop_bit ((i mod 2) * 4) (ccl_intctrl c ! (i div 2)) AND 0x03;
                        c = (if output_trigger intmode level
                             then ccl_update_interrupt_state
                                    (c\<lparr>ccl_intflags := (ccl_intflags c)[i div 2 := ccl_intflags c ! (i div 2) OR push_bit (i mod 2) 1]\<rparr>)
                             else c)
                    in if generator_id d \<noteq> 0 then c\<lparr>ccl_events := ccl_events c @ [(generator_id d, level)]\<rparr> else c
               else c)
      in if lut_ctrla (luts c ! i) AND 0x40 \<noteq> 0 \<and> output_pin_address d \<noteq> 0
         then c\<lparr>ccl_mux := update_pin_by_address (output_pin_address d) (output_bit_index d) Own_ccl True level False False (ccl_mux c)\<rparr>
         else c)"

definition update_logic :: "ccl_env \<Rightarrow> ccl \<Rightarrow> ccl" where
  "update_logic v c =
     (if ccl_ctrla c AND 0x01 = 0 then c
      else let outs = settle_luts v c (ccl_outputs c) 0 100 (ccl_outputs c);
               c = c\<lparr>ccl_outputs := outs, raw_outputs := outs\<rparr>;
               c = seq_unit v 1 (seq_unit v 0 c);
               c = fold publish_output [0..<lut_count c] c
           in c\<lparr>prev_outputs := ccl_outputs c\<rparr>)"

definition route_output :: "nat \<Rightarrow> ccl \<Rightarrow> ccl" where
  "route_output i c =
     (let d = luts_desc (ccl_desc c) ! i; a = output_pin_address d; b = output_bit_index d
      in if a = 0 then c
         else if ccl_ctrla c AND 0x01 \<noteq> 0 \<and> lut_ctrla (luts c ! i) AND 0x40 \<noteq> 0
         then c\<lparr>ccl_mux := fst (claim_pin_by_address a b Own_ccl (ccl_mux c))\<rparr>
         else c\<lparr>ccl_mux := release_pin_by_address a b Own_ccl (ccl_mux c)\<rparr>)"

definition update_routing :: "ccl \<Rightarrow> ccl" where
  "update_routing c = fold route_output [0..<lut_count c] c"

section \<open>Operations\<close>

definition ccl_reset :: "ccl_env \<Rightarrow> ccl \<Rightarrow> ccl" where
  "ccl_reset v c =
     (let n = lut_count c; off = replicate n False
      in update_logic v (update_routing
           (c\<lparr>ccl_ctrla := 0, seqctrl := replicate 4 0, ccl_intctrl := [0, 0], ccl_intflags := [0, 0],
              luts := replicate n lut_init, ccl_outputs := off, raw_outputs := off, prev_outputs := off,
              prev_raw_outputs := off, prev_luts_in2 := [False, False], seq_state := [False, False]\<rparr>)))"

definition ccl_tick :: "ccl_env \<Rightarrow> ccl \<Rightarrow> ccl" where
  "ccl_tick v c = update_logic v c"

fun index_of :: "u16 \<Rightarrow> u16 list \<Rightarrow> nat option" where
  "index_of a [] = None"
| "index_of a (x # xs) = (if a = x then Some 0 else map_option Suc (index_of a xs))"

definition lut_read :: "u16 \<Rightarrow> lut_descriptor \<Rightarrow> lut_state \<Rightarrow> u8 option" where
  "lut_read a d l =
     (if a = lut_ctrla_address d then Some (lut_ctrla l)
      else if a = lut_ctrlb_address d then Some (lut_ctrlb l)
      else if a = lut_ctrlc_address d then Some (lut_ctrlc l)
      else if a = truth_address d then Some (truth l) else None)"

definition lut_write :: "u16 \<Rightarrow> u8 \<Rightarrow> lut_descriptor \<Rightarrow> lut_state \<Rightarrow> lut_state option" where
  "lut_write a v d l =
     (if a = lut_ctrla_address d then Some (l\<lparr>lut_ctrla := v\<rparr>)
      else if a = lut_ctrlb_address d then Some (l\<lparr>lut_ctrlb := v\<rparr>)
      else if a = lut_ctrlc_address d then Some (l\<lparr>lut_ctrlc := v\<rparr>)
      else if a = truth_address d then Some (l\<lparr>truth := v\<rparr>) else None)"

definition ccl_read :: "u16 \<Rightarrow> ccl \<Rightarrow> u8" where
  "ccl_read a c =
     (let d = ccl_desc c
      in if a = ccl_ctrla_address d then ccl_ctrla c
         else case index_of a (seqctrl_addresses d) of Some i \<Rightarrow> seqctrl c ! i
         | None \<Rightarrow> (case index_of a (ccl_intctrl_addresses d) of Some i \<Rightarrow> ccl_intctrl c ! i
         | None \<Rightarrow> (case index_of a (ccl_intflags_addresses d) of Some i \<Rightarrow> ccl_intflags c ! i
         | None \<Rightarrow> (case List.map_filter (\<lambda>i. lut_read a (luts_desc d ! i) (luts c ! i)) [0..<lut_count c] of
                      r # _ \<Rightarrow> r | [] \<Rightarrow> 0))))"

text \<open>The register a write changes; \<open>None\<close> is an address that is not a register.\<close>

definition ccl_store :: "u16 \<Rightarrow> u8 \<Rightarrow> ccl \<Rightarrow> ccl option" where
  "ccl_store a v c =
     (let d = ccl_desc c
      in if a = ccl_ctrla_address d then Some (c\<lparr>ccl_ctrla := v\<rparr>)
         else case index_of a (seqctrl_addresses d) of Some i \<Rightarrow> Some (c\<lparr>seqctrl := (seqctrl c)[i := v]\<rparr>)
         | None \<Rightarrow> (case index_of a (ccl_intctrl_addresses d) of Some i \<Rightarrow> Some (c\<lparr>ccl_intctrl := (ccl_intctrl c)[i := v]\<rparr>)
         | None \<Rightarrow> (case index_of a (ccl_intflags_addresses d) of
             Some i \<Rightarrow> Some (ccl_update_interrupt_state
               (c\<lparr>ccl_intflags := (ccl_intflags c)[i := ccl_intflags c ! i AND NOT v]\<rparr>))
         | None \<Rightarrow> (case List.map_filter (\<lambda>i. map_option (\<lambda>l. (i, l)) (lut_write a v (luts_desc d ! i) (luts c ! i)))
                           [0..<lut_count c] of
                      (i, l) # _ \<Rightarrow> Some (c\<lparr>luts := (luts c)[i := l]\<rparr>) | [] \<Rightarrow> None))))"

definition ccl_write :: "ccl_env \<Rightarrow> u16 \<Rightarrow> u8 \<Rightarrow> ccl \<Rightarrow> ccl" where
  "ccl_write v a x c =
     (case ccl_store a x c of None \<Rightarrow> c | Some c \<Rightarrow> update_logic v (update_routing c))"

definition set_pin_input :: "ccl_env \<Rightarrow> nat \<Rightarrow> nat \<Rightarrow> bool \<Rightarrow> ccl \<Rightarrow> ccl" where
  "set_pin_input v lut_index input_index level c =
     (if lut_index < lut_count c \<and> input_index < 3 \<and> lut_inputs (luts c ! lut_index) ! input_index \<noteq> level
      then update_logic v
             (c\<lparr>luts := (luts c)[lut_index := (luts c ! lut_index)
                  \<lparr>lut_inputs := (lut_inputs (luts c ! lut_index))[input_index := level]\<rparr>]\<rparr>)
      else c)"

end
