(* ===== verification/CclSpec.thy ===== *)
theory CclSpec
  imports Ccl
begin

text \<open>
  The look-up tables of the configurable logic as a system of equations: when the chain of
  linked tables is broken somewhere, the settling loop finds the one solution.
\<close>

section \<open>One pass, table by table\<close>

definition pass_to :: "ccl_env \<Rightarrow> ccl \<Rightarrow> nat \<Rightarrow> bool list \<Rightarrow> bool list" where
  "pass_to v c k outs = fold (\<lambda>i outs. outs[i := compute_lut v c outs i]) [0..<k] outs"

lemma pass_to_simps [simp]:
  "pass_to v c 0 outs = outs"
  "pass_to v c (Suc k) outs = (pass_to v c k outs)[k := compute_lut v c (pass_to v c k outs) k]"
  by (simp_all add: pass_to_def)

lemma length_pass_to [simp]: "length (pass_to v c k outs) = length outs"
  by (induction k) simp_all

lemma lut_pass_to: "lut_pass v c outs = pass_to v c (lut_count c) outs"
  by (simp add: lut_pass_def pass_to_def)

lemma pass_to_nth:
  assumes "i < k" "k \<le> length outs"
  shows "pass_to v c k outs ! i = compute_lut v c (pass_to v c i outs) i"
  using assms
proof (induction k)
  case (Suc k)
  then show ?case by (cases "i = k") auto
qed simp

lemma pass_to_later: "k \<le> i \<Longrightarrow> pass_to v c k outs ! i = outs ! i"
  by (induction k) auto

definition solves :: "ccl_env \<Rightarrow> ccl \<Rightarrow> bool list \<Rightarrow> bool" where
  "solves v c outs \<longleftrightarrow> length outs = lut_count c \<and> (\<forall>i<lut_count c. outs ! i = compute_lut v c outs i)"

lemma solves_fixpoint:
  assumes "length outs = lut_count c"
  shows "solves v c outs \<longleftrightarrow> lut_pass v c outs = outs"
proof
  assume s: "solves v c outs"
  have "pass_to v c k outs = outs" if "k \<le> lut_count c" for k
    using that
  proof (induction k)
    case (Suc k)
    then show ?case using s list_update_id[of outs k] by (simp add: solves_def)
  qed simp
  then show "lut_pass v c outs = outs" by (simp add: lut_pass_to)
next
  assume stay: "lut_pass v c outs = outs"
  have "pass_to v c k outs = outs \<and> (\<forall>i<k. outs ! i = compute_lut v c outs i)" if "k \<le> lut_count c" for k
    using that
  proof (induction k)
    case (Suc k)
    then have "compute_lut v c outs k = outs ! k"
      using stay pass_to_nth[of k "lut_count c" outs v c] assms by (simp add: lut_pass_to)
    then show ?case using Suc list_update_id[of outs k] by (auto simp: less_Suc_eq)
  qed simp
  from this[OF le_refl] show "solves v c outs" using assms by (simp add: solves_def)
qed

section \<open>A broken chain\<close>

definition unlinked :: "ccl \<Rightarrow> nat \<Rightarrow> bool" where
  "unlinked c i \<longleftrightarrow> (\<forall>j<3. input_selector (luts c ! i) j \<noteq> 0x02)"

lemma compute_lut_cong:
  assumes "unlinked c i \<or> outs ! ((i + lut_count c - 1) mod lut_count c) = outs' ! ((i + lut_count c - 1) mod lut_count c)"
  shows "compute_lut v c outs i = compute_lut v c outs' i"
proof -
  have "lut_input v c outs i j = lut_input v c outs' i j" if "j < 3" for j
    using assms that by (auto simp: lut_input_def Let_def unlinked_def)
  then show ?thesis by (simp add: compute_lut_def lut_pattern_def)
qed

lemma agree_from:
  assumes "unlinked c s" "length x = lut_count c" "length y = lut_count c" "k \<le> lut_count c" "s \<le> i" "i < k"
  shows "pass_to v c k x ! i = pass_to v c k y ! i"
  using assms(4-6)
proof (induction k arbitrary: i)
  case (Suc k)
  show ?case
  proof (cases "i = k")
    case True
    have "unlinked c k \<or> pass_to v c k x ! ((k + lut_count c - 1) mod lut_count c) =
        pass_to v c k y ! ((k + lut_count c - 1) mod lut_count c)"
    proof (cases "k = s")
      case False
      then have "(k + lut_count c - 1) mod lut_count c = k - 1" using Suc.prems True by (simp add: mod_if)
      then show ?thesis using Suc.IH[of "k - 1"] Suc.prems False True by simp
    qed (use assms(1) in simp)
    then show ?thesis using True Suc.prems assms(2,3) compute_lut_cong by simp
  next
    case False
    then show ?thesis using Suc by simp
  qed
qed simp

lemma agree_all:
  assumes "unlinked c s" "length x = lut_count c" "length y = lut_count c" "s < lut_count c"
    and start: "\<forall>i. s \<le> i \<and> i < lut_count c \<longrightarrow> x ! i = y ! i" and "k \<le> lut_count c" "i < k \<or> s \<le> i" "i < lut_count c"
  shows "pass_to v c k x ! i = pass_to v c k y ! i"
  using assms(6-8)
proof (induction k arbitrary: i)
  case 0
  then show ?case using start by simp
next
  case (Suc k)
  show ?case
  proof (cases "i = k")
    case True
    let ?p = "(k + lut_count c - 1) mod lut_count c"
    have "unlinked c k \<or> pass_to v c k x ! ?p = pass_to v c k y ! ?p"
    proof (cases "k = 0")
      case True
      then have "?p = lut_count c - 1" "s \<le> lut_count c - 1" using assms(4) by simp_all
      then show ?thesis using Suc.IH[of "lut_count c - 1"] assms(4) Suc.prems by simp
    next
      case False
      then have "?p = k - 1" using Suc.prems by (simp add: mod_if)
      then show ?thesis using Suc.IH[of "k - 1"] Suc.prems False by simp
    qed
    then show ?thesis using True Suc.prems assms(2,3) compute_lut_cong by simp
  next
    case False
    then have "i < k \<or> s \<le> i" using Suc.prems(2) by arith
    then show ?thesis using Suc.IH[of i] Suc.prems False by simp
  qed
qed

text \<open>Two passes forget where they started.\<close>

lemma two_passes:
  assumes "unlinked c s" "s < lut_count c" "length x = lut_count c" "length y = lut_count c"
  shows "lut_pass v c (lut_pass v c x) = lut_pass v c (lut_pass v c y)"
proof (rule nth_equalityI)
  fix i assume "i < length (lut_pass v c (lut_pass v c x))"
  then show "lut_pass v c (lut_pass v c x) ! i = lut_pass v c (lut_pass v c y) ! i"
    using agree_all[OF assms(1), of "lut_pass v c x" "lut_pass v c y"] agree_from[OF assms(1,3,4)] assms
    by (simp add: lut_pass_to)
qed (use assms in \<open>simp add: lut_pass_to\<close>)

lemma settle_fixpoint:
  assumes "unlinked c s" "s < lut_count c" "length x = lut_count c"
  shows "lut_pass v c (settle_luts v c x 0 100 x) = settle_luts v c x 0 100 x"
    "length (settle_luts v c x 0 100 x) = lut_count c"
proof -
  let ?p = "lut_pass v c"
  have len: "length (?p y) = length y" for y by (simp add: lut_pass_to)
  have third: "?p (?p (?p x)) = ?p (?p x)"
    using two_passes[OF assms(1,2), of "?p x" x] assms(3) by (simp add: len)
  have loop: "settle_luts v c x 0 (Suc (Suc (Suc n))) x =
      (if ?p x = x then x else ?p (?p x))" for n
    using third by (auto simp: Let_def)
  have "(100 :: nat) = Suc (Suc (Suc 97))" by simp
  then have loop: "settle_luts v c x 0 100 x = (if ?p x = x then x else ?p (?p x))" using loop[of 97] by (simp only:)
  show "?p (settle_luts v c x 0 100 x) = settle_luts v c x 0 100 x" using third by (simp add: loop)
  show "length (settle_luts v c x 0 100 x) = lut_count c" using assms(3) by (simp add: loop len)
qed

lemma solution_unique:
  assumes "unlinked c s" "s < lut_count c" "solves v c x" "solves v c y"
  shows "x = y"
  using two_passes[OF assms(1,2), of x y v] assms(3,4) solves_fixpoint[of x c v] solves_fixpoint[of y c v]
  by (simp add: solves_def)

section \<open>Property\<close>

lemma interrupt_state_outputs [simp]: "ccl_outputs (ccl_update_interrupt_state c) = ccl_outputs c"
  by (simp add: ccl_update_interrupt_state_def)

lemma publish_outputs [simp]: "ccl_outputs (publish_output i c) = ccl_outputs c"
  by (simp add: publish_output_def Let_def)

lemma publish_all_outputs [simp]: "ccl_outputs (fold publish_output is c) = ccl_outputs c"
  by (induction "is" arbitrary: c) simp_all


text \<open>Two tables: the first takes its pin, the second inverts the first.\<close>

definition sample_ccl :: ccl where
  "sample_ccl =
     (let d = \<lparr>lut_ctrla_address = 0x1C8, lut_ctrlb_address = 0x1C9, lut_ctrlc_address = 0x1CA, truth_address = 0x1CB,
            generator_id = 4, output_pin_address = 0, output_bit_index = 0\<rparr>
      in (ccl_init \<lparr>ccl_ctrla_address = 0x1C0, seqctrl_addresses = [0x1C1, 0, 0, 0], ccl_intctrl_addresses = [0x1C5, 0],
            ccl_intflags_addresses = [0x1C7, 0], luts_desc = [d, d], ccl_vector_index = 7\<rparr> pin_mux_init)
         \<lparr>ccl_ctrla := 0x01,
          luts := [lut_init\<lparr>lut_ctrla := 0x01, lut_ctrlb := 0x05, truth := 0x02, lut_inputs := [True, False, False]\<rparr>,
                   lut_init\<lparr>lut_ctrla := 0x01, lut_ctrlb := 0x02, truth := 0x01\<rparr>]\<rparr>)"


end
