(* ===== verification/Rtc.thy ===== *)
theory Rtc
  imports Regmap Periph
begin

text \<open>
  \<open>Rtc\<close> (\<open>src/core/rtc.cpp\<close>): the real-time counter with its periodic interrupt timer.  The
  event system is recorded by the generators triggered, in order.  The lemmas give both
  timers in closed form: what any number of cycles does, however they are divided into ticks.
\<close>

section \<open>State\<close>

record rtc_descriptor =
  rtc_ctrla_address :: u16
  rtc_status_address :: u16
  rtc_intctrl_address :: u16
  rtc_intflags_address :: u16
  rtc_temp_address :: u16
  rtc_dbgctrl_address :: u16
  rtc_calib_address :: u16
  rtc_clksel_address :: u16
  rtc_cnt_address :: u16
  rtc_per_address :: u16
  rtc_cmp_address :: u16
  rtc_pitctrla_address :: u16
  rtc_pitstatus_address :: u16
  rtc_pitintctrl_address :: u16
  rtc_pitintflags_address :: u16
  rtc_ovf_vector_index :: u8
  rtc_pit_vector_index :: u8
  rtc_ovf_generator_id :: u8
  rtc_cmp_generator_id :: u8

record rtc =
  rtc_desc :: rtc_descriptor
  rtc_ctrla :: u8
  rtc_status :: u8
  rtc_intctrl :: u8
  rtc_intflags :: u8
  rtc_temp :: u8
  rtc_dbgctrl :: u8
  rtc_clksel :: u8
  rtc_calib :: u8
  rtc_cnt :: u16
  rtc_per :: u16
  rtc_cmp :: u16
  pitctrla :: u8
  pitstatus :: u8
  pitintctrl :: u8
  pitintflags :: u8
  sync_busy_cycles_rtc :: u32
  sync_busy_cycles_pit :: u32
  rtc_internal_ticks :: u64
  pit_ticks :: u64
  calib_accum :: u16
  rtc_evsys_attached :: bool
  rtc_events :: "u8 list"

definition rtc_registers :: "rtc_descriptor \<Rightarrow> u16 list" where
  "rtc_registers d =
     [rtc_ctrla_address d, rtc_status_address d, rtc_intctrl_address d, rtc_intflags_address d, rtc_temp_address d,
      rtc_dbgctrl_address d, rtc_clksel_address d, rtc_calib_address d, rtc_cnt_address d, rtc_cnt_address d + 1,
      rtc_per_address d, rtc_per_address d + 1, rtc_cmp_address d, rtc_cmp_address d + 1, rtc_pitctrla_address d,
      rtc_pitstatus_address d, rtc_pitintctrl_address d, rtc_pitintflags_address d]"

text \<open>The array has room for four ranges.\<close>

definition rtc_ranges :: "rtc_descriptor \<Rightarrow> address_range list" where
  "rtc_ranges d =
     (if rtc_ctrla_address d = 0 then []
      else used_ranges (array_ranges 4 (filter (\<lambda>a. a \<noteq> 0) (rtc_registers d))))"

definition rtc_reset :: "rtc \<Rightarrow> rtc" where
  "rtc_reset r =
     r\<lparr>rtc_ctrla := 0, rtc_status := 0, rtc_intctrl := 0, rtc_intflags := 0, rtc_temp := 0, rtc_dbgctrl := 0,
       rtc_clksel := 0, rtc_calib := 0, rtc_cnt := 0, rtc_per := 0xFFFF, rtc_cmp := 0, pitctrla := 0, pitstatus := 0,
       pitintctrl := 0, pitintflags := 0, rtc_internal_ticks := 0, pit_ticks := 0, calib_accum := 0,
       sync_busy_cycles_rtc := 0, sync_busy_cycles_pit := 0\<rparr>"

section \<open>Register access\<close>

definition rtc_latch :: "u16 \<Rightarrow> rtc \<Rightarrow> u8 \<times> rtc" where
  "rtc_latch w r = (ucast (w AND 0xFF), r\<lparr>rtc_temp := ucast (drop_bit 8 w AND 0xFF)\<rparr>)"

definition rtc_read :: "u16 \<Rightarrow> rtc \<Rightarrow> u8 \<times> rtc" where
  "rtc_read address r =
     (let d = rtc_desc r
      in if address = rtc_ctrla_address d then (rtc_ctrla r, r)
         else if address = rtc_status_address d then (rtc_status r, r)
         else if address = rtc_intctrl_address d then (rtc_intctrl r, r)
         else if address = rtc_intflags_address d then (rtc_intflags r, r)
         else if address = rtc_clksel_address d then (rtc_clksel r, r)
         else if address = rtc_calib_address d then (rtc_calib r, r)
         else if address = rtc_temp_address d then (rtc_temp r, r)
         else if address = rtc_cnt_address d then rtc_latch (rtc_cnt r) r
         else if second_of address (rtc_cnt_address d) then (rtc_temp r, r)
         else if address = rtc_per_address d then rtc_latch (rtc_per r) r
         else if second_of address (rtc_per_address d) then (rtc_temp r, r)
         else if address = rtc_cmp_address d then rtc_latch (rtc_cmp r) r
         else if second_of address (rtc_cmp_address d) then (rtc_temp r, r)
         else if address = rtc_pitctrla_address d then (pitctrla r, r)
         else if address = rtc_pitstatus_address d then (pitstatus r, r)
         else if address = rtc_dbgctrl_address d then (rtc_dbgctrl r, r)
         else if address = rtc_pitintctrl_address d then (pitintctrl r, r)
         else if address = rtc_pitintflags_address d then (pitintflags r, r)
         else (0, r))"

definition with_temp :: "rtc \<Rightarrow> u8 \<Rightarrow> u16" where
  "with_temp r v = push_bit 8 (ucast (rtc_temp r)) OR ucast v"

definition rtc_write :: "u16 \<Rightarrow> u8 \<Rightarrow> rtc \<Rightarrow> rtc" where
  "rtc_write address v r =
     (let d = rtc_desc r
      in if address = rtc_ctrla_address d
         then r\<lparr>rtc_ctrla := v, rtc_status := rtc_status r OR 0x01, sync_busy_cycles_rtc := 64\<rparr>
         else if address = rtc_intctrl_address d then r\<lparr>rtc_intctrl := v\<rparr>
         else if address = rtc_intflags_address d then r\<lparr>rtc_intflags := rtc_intflags r AND NOT v\<rparr>
         else if address = rtc_temp_address d then r\<lparr>rtc_temp := v\<rparr>
         else if second_of address (rtc_cnt_address d) then r\<lparr>rtc_temp := v\<rparr>
         else if address = rtc_cnt_address d
         then r\<lparr>rtc_cnt := with_temp r v, rtc_status := rtc_status r OR 0x10, sync_busy_cycles_rtc := 64\<rparr>
         else if second_of address (rtc_per_address d) then r\<lparr>rtc_temp := v\<rparr>
         else if address = rtc_per_address d
         then r\<lparr>rtc_per := with_temp r v, rtc_status := rtc_status r OR 0x02, sync_busy_cycles_rtc := 64\<rparr>
         else if second_of address (rtc_cmp_address d) then r\<lparr>rtc_temp := v\<rparr>
         else if address = rtc_cmp_address d
         then r\<lparr>rtc_cmp := with_temp r v, rtc_status := rtc_status r OR 0x08, sync_busy_cycles_rtc := 64\<rparr>
         else if address = rtc_pitctrla_address d
         then r\<lparr>pitctrla := v, pitstatus := pitstatus r OR 0x01, sync_busy_cycles_pit := 64\<rparr>
         else if address = rtc_clksel_address d then r\<lparr>rtc_clksel := v\<rparr>
         else if address = rtc_calib_address d then r\<lparr>rtc_calib := v\<rparr>
         else if address = rtc_dbgctrl_address d then r\<lparr>rtc_dbgctrl := v\<rparr>
         else if address = rtc_pitintctrl_address d then r\<lparr>pitintctrl := v\<rparr>
         else if address = rtc_pitintflags_address d then r\<lparr>pitintflags := pitintflags r AND NOT v\<rparr>
         else r)"

section \<open>Counting\<close>

definition rtc_trigger_event :: "u8 \<Rightarrow> rtc \<Rightarrow> rtc" where
  "rtc_trigger_event g r = (if rtc_evsys_attached r \<and> g \<noteq> 0 then r\<lparr>rtc_events := rtc_events r @ [g]\<rparr> else r)"

definition tick_core :: "rtc \<Rightarrow> rtc" where
  "tick_core r =
     (let old_cnt = rtc_cnt r;
          r = (if old_cnt = rtc_cmp r
               then rtc_trigger_event (rtc_cmp_generator_id (rtc_desc r)) (r\<lparr>rtc_intflags := rtc_intflags r OR 0x02\<rparr>) else r)
      in if old_cnt = rtc_per r
         then rtc_trigger_event (rtc_ovf_generator_id (rtc_desc r)) (r\<lparr>rtc_cnt := 0, rtc_intflags := rtc_intflags r OR 0x01\<rparr>)
         else r\<lparr>rtc_cnt := rtc_cnt r + 1\<rparr>)"

definition handle_rtc_tick :: "rtc \<Rightarrow> rtc" where
  "handle_rtc_tick r =
     (let error = rtc_calib r AND 0x7F
      in if error > 0
         then let r = r\<lparr>calib_accum := calib_accum r + ucast error\<rparr>
              in if calib_accum r \<ge> 32768
                 then let r = r\<lparr>calib_accum := calib_accum r - 32768\<rparr>
                      in if rtc_calib r AND 0x80 \<noteq> 0 then r else tick_core (tick_core r)
                 else tick_core r
         else tick_core r)"

definition handle_pit_tick :: "rtc \<Rightarrow> rtc" where
  "handle_pit_tick r = r\<lparr>pitintflags := pitintflags r OR 0x01\<rparr>"

definition is_rtc_enabled :: "rtc \<Rightarrow> bool" where
  "is_rtc_enabled r \<longleftrightarrow> rtc_ctrla r AND 0x01 \<noteq> 0"

definition is_pit_enabled :: "rtc \<Rightarrow> bool" where
  "is_pit_enabled r \<longleftrightarrow> pitctrla r AND 0x01 \<noteq> 0"

definition rtc_prescaler :: "rtc \<Rightarrow> u16" where
  "rtc_prescaler r = (let p = drop_bit 3 (rtc_ctrla r) AND 0x0F in if p = 0 then 1 else push_bit (unat p) 1)"

definition get_pit_period :: "rtc \<Rightarrow> u16" where
  "get_pit_period r =
     (let p = drop_bit 3 (pitctrla r) AND 0x0F; p = (if p > 14 then 14 else p) in push_bit (unat p + 1) 1)"

definition rtc_sync :: "u64 \<Rightarrow> rtc \<Rightarrow> rtc" where
  "rtc_sync elapsed r =
     (if sync_busy_cycles_rtc r > 0
      then if elapsed \<ge> ucast (sync_busy_cycles_rtc r) then r\<lparr>sync_busy_cycles_rtc := 0, rtc_status := 0\<rparr>
           else r\<lparr>sync_busy_cycles_rtc := sync_busy_cycles_rtc r - ucast elapsed\<rparr>
      else r)"

definition pit_sync :: "u64 \<Rightarrow> rtc \<Rightarrow> rtc" where
  "pit_sync elapsed r =
     (if sync_busy_cycles_pit r > 0
      then if elapsed \<ge> ucast (sync_busy_cycles_pit r) then r\<lparr>sync_busy_cycles_pit := 0, pitstatus := 0\<rparr>
           else r\<lparr>sync_busy_cycles_pit := sync_busy_cycles_pit r - ucast elapsed\<rparr>
      else r)"

definition rtc_cycle :: "u16 \<Rightarrow> rtc \<Rightarrow> rtc" where
  "rtc_cycle dv r =
     (let r = r\<lparr>rtc_internal_ticks := rtc_internal_ticks r + 1\<rparr>
      in if rtc_internal_ticks r \<ge> ucast dv then handle_rtc_tick (r\<lparr>rtc_internal_ticks := 0\<rparr>) else r)"

definition pit_cycle :: "u16 \<Rightarrow> rtc \<Rightarrow> rtc" where
  "pit_cycle period r =
     (let r = r\<lparr>pit_ticks := pit_ticks r + 1\<rparr>
      in if pit_ticks r \<ge> ucast period then handle_pit_tick (r\<lparr>pit_ticks := 0\<rparr>) else r)"

definition rtc_tick :: "u64 \<Rightarrow> rtc \<Rightarrow> rtc" where
  "rtc_tick elapsed r =
     (if elapsed = 0 then r
      else let r = pit_sync elapsed (rtc_sync elapsed r)
           in if \<not> is_rtc_enabled r \<and> \<not> is_pit_enabled r then r
              else let r = (if is_rtc_enabled r then (rtc_cycle (rtc_prescaler r) ^^ unat elapsed) r else r)
                   in if is_pit_enabled r then (pit_cycle (get_pit_period r) ^^ unat elapsed) r else r)"

section \<open>Interrupts\<close>

definition rtc_pending_interrupt_request :: "rtc \<Rightarrow> u8 option" where
  "rtc_pending_interrupt_request r =
     (if (rtc_intflags r AND rtc_intctrl r) AND 0x03 \<noteq> 0 then Some (rtc_ovf_vector_index (rtc_desc r))
      else if pitintflags r AND 0x01 \<noteq> 0 \<and> pitintctrl r AND 0x01 \<noteq> 0 then Some (rtc_pit_vector_index (rtc_desc r))
      else None)"

definition rtc_consume_interrupt_request :: "rtc \<Rightarrow> u8 option \<times> rtc" where
  "rtc_consume_interrupt_request r =
     (if (rtc_intflags r AND rtc_intctrl r) AND 0x03 \<noteq> 0
      then (Some (rtc_ovf_vector_index (rtc_desc r)), r\<lparr>rtc_intflags := rtc_intflags r AND NOT 0x03\<rparr>)
      else if pitintflags r AND 0x01 \<noteq> 0 \<and> pitintctrl r AND 0x01 \<noteq> 0
      then (Some (rtc_pit_vector_index (rtc_desc r)), r\<lparr>pitintflags := pitintflags r AND NOT 0x01\<rparr>)
      else (None, r))"

lemma rtc_consume_pending:
  "fst (rtc_consume_interrupt_request r) = rtc_pending_interrupt_request r"
  by (simp add: rtc_consume_interrupt_request_def rtc_pending_interrupt_request_def)

section \<open>Prescalers\<close>

text \<open>
  A counter of cycles that starts again and runs a handler when it reaches a period, the
  shape of both loops of \<open>tick\<close>.
\<close>

locale prescaled =
  fixes ticks :: "'s \<Rightarrow> u64" and set_ticks :: "u64 \<Rightarrow> 's \<Rightarrow> 's" and handle :: "'s \<Rightarrow> 's"
  assumes ticks_set: "ticks (set_ticks v s) = v"
    and set_set: "set_ticks v (set_ticks w s) = set_ticks v s"
    and set_same: "set_ticks (ticks s) s = s"
    and handle_set: "handle (set_ticks v s) = set_ticks v (handle s)"
begin

definition cycle :: "u64 \<Rightarrow> 's \<Rightarrow> 's" where
  "cycle d s = (if ticks s + 1 \<ge> d then handle (set_ticks 0 s) else set_ticks (ticks s + 1) s)"

lemma handles_set: "(handle ^^ n) (set_ticks v s) = set_ticks v ((handle ^^ n) s)"
  by (induction n) (simp_all add: handle_set)

lemma cycles:
  assumes "ticks s < d"
  shows "(cycle d ^^ n) s =
    set_ticks (of_nat ((unat (ticks s) + n) mod unat d)) ((handle ^^ ((unat (ticks s) + n) div unat d)) s)"
proof (induction n)
  case 0
  show ?case using assms by (simp add: word_less_nat_alt set_same)
next
  case (Suc n)
  let ?t = "unat (ticks s) + n" and ?d = "unat d"
  have d: "0 < ?d" and lim: "?t mod ?d < ?d" using assms by (auto simp: word_less_nat_alt)
  have big: "?d < 2 ^ 64" using u64_less[of d] by simp
  have near: "(of_nat (?t mod ?d) + 1 \<ge> d) = (Suc (?t mod ?d) = ?d)"
  proof -
    have "unat (of_nat (?t mod ?d) + 1 :: u64) = Suc (?t mod ?d)"
      using lim big by (simp add: unat_word_ariths unat_of_nat)
    then show ?thesis using lim by (auto simp: word_le_nat_alt)
  qed
  show ?case
    using near Suc by (simp add: cycle_def ticks_set set_set handle_set mod_Suc div_Suc add.commute)
qed

end

text \<open>Counting neither sees nor changes the prescaler and the calibration.\<close>

lemma tick_core_update:
  "tick_core r =
     r\<lparr>rtc_cnt := if rtc_cnt r = rtc_per r then 0 else rtc_cnt r + 1,
       rtc_intflags := (rtc_intflags r OR (if rtc_cnt r = rtc_cmp r then 0x02 else 0))
          OR (if rtc_cnt r = rtc_per r then 0x01 else 0),
       rtc_events := rtc_events r
          @ (if rtc_cnt r = rtc_cmp r \<and> rtc_evsys_attached r \<and> rtc_cmp_generator_id (rtc_desc r) \<noteq> 0
             then [rtc_cmp_generator_id (rtc_desc r)] else [])
          @ (if rtc_cnt r = rtc_per r \<and> rtc_evsys_attached r \<and> rtc_ovf_generator_id (rtc_desc r) \<noteq> 0
             then [rtc_ovf_generator_id (rtc_desc r)] else [])\<rparr>"
  by (cases r) (auto simp: tick_core_def rtc_trigger_event_def Let_def)

lemma tick_core_frame [simp]:
  "rtc_calib (tick_core r) = rtc_calib r" "calib_accum (tick_core r) = calib_accum r"
  "rtc_per (tick_core r) = rtc_per r"
  "tick_core (r\<lparr>calib_accum := a\<rparr>) = (tick_core r)\<lparr>calib_accum := a\<rparr>"
  "tick_core (r\<lparr>rtc_internal_ticks := t\<rparr>) = (tick_core r)\<lparr>rtc_internal_ticks := t\<rparr>"
  "tick_core (r\<lparr>pit_ticks := t\<rparr>) = (tick_core r)\<lparr>pit_ticks := t\<rparr>"
  "tick_core (r\<lparr>pitintflags := f\<rparr>) = (tick_core r)\<lparr>pitintflags := f\<rparr>"
  "pit_ticks (tick_core r) = pit_ticks r" "pitintflags (tick_core r) = pitintflags r"
  "tick_core (r\<lparr>rtc_status := v0\<rparr>) = (tick_core r)\<lparr>rtc_status := v0\<rparr>" "rtc_status (tick_core r) = rtc_status r"
  "tick_core (r\<lparr>pitstatus := v1\<rparr>) = (tick_core r)\<lparr>pitstatus := v1\<rparr>" "pitstatus (tick_core r) = pitstatus r"
  "tick_core (r\<lparr>sync_busy_cycles_rtc := v2\<rparr>) = (tick_core r)\<lparr>sync_busy_cycles_rtc := v2\<rparr>" "sync_busy_cycles_rtc (tick_core r) = sync_busy_cycles_rtc r"
  "tick_core (r\<lparr>sync_busy_cycles_pit := v3\<rparr>) = (tick_core r)\<lparr>sync_busy_cycles_pit := v3\<rparr>" "sync_busy_cycles_pit (tick_core r) = sync_busy_cycles_pit r"
  by (simp_all add: tick_core_update)

lemma handle_rtc_tick_frame [simp]:
  "handle_rtc_tick (r\<lparr>rtc_internal_ticks := t\<rparr>) = (handle_rtc_tick r)\<lparr>rtc_internal_ticks := t\<rparr>"
  "handle_rtc_tick (r\<lparr>pit_ticks := t\<rparr>) = (handle_rtc_tick r)\<lparr>pit_ticks := t\<rparr>"
  "handle_rtc_tick (r\<lparr>pitintflags := f\<rparr>) = (handle_rtc_tick r)\<lparr>pitintflags := f\<rparr>"
  "pit_ticks (handle_rtc_tick r) = pit_ticks r" "pitintflags (handle_rtc_tick r) = pitintflags r"
  "handle_rtc_tick (r\<lparr>rtc_status := v0\<rparr>) = (handle_rtc_tick r)\<lparr>rtc_status := v0\<rparr>" "rtc_status (handle_rtc_tick r) = rtc_status r"
  "handle_rtc_tick (r\<lparr>pitstatus := v1\<rparr>) = (handle_rtc_tick r)\<lparr>pitstatus := v1\<rparr>" "pitstatus (handle_rtc_tick r) = pitstatus r"
  "handle_rtc_tick (r\<lparr>sync_busy_cycles_rtc := v2\<rparr>) = (handle_rtc_tick r)\<lparr>sync_busy_cycles_rtc := v2\<rparr>" "sync_busy_cycles_rtc (handle_rtc_tick r) = sync_busy_cycles_rtc r"
  "handle_rtc_tick (r\<lparr>sync_busy_cycles_pit := v3\<rparr>) = (handle_rtc_tick r)\<lparr>sync_busy_cycles_pit := v3\<rparr>" "sync_busy_cycles_pit (handle_rtc_tick r) = sync_busy_cycles_pit r"
  by (simp_all add: handle_rtc_tick_def Let_def)

interpretation rtc_clock: prescaled rtc_internal_ticks "\<lambda>v. rtc_internal_ticks_update (\<lambda>_. v)" handle_rtc_tick
  by unfold_locales simp_all

interpretation pit_clock: prescaled pit_ticks "\<lambda>v. pit_ticks_update (\<lambda>_. v)" handle_pit_tick
  by unfold_locales (simp_all add: handle_pit_tick_def)

lemma rtc_cycle_clock: "rtc_cycle dv = rtc_clock.cycle (ucast dv)"
  by (rule ext) (simp add: rtc_cycle_def rtc_clock.cycle_def Let_def)

lemma pit_cycle_clock: "pit_cycle period = pit_clock.cycle (ucast period)"
  by (rule ext) (simp add: pit_cycle_def pit_clock.cycle_def Let_def)

section \<open>Calibration\<close>

text \<open>
  With an error of \<open>e\<close> parts in 32768, \<open>n\<close> prescaled ticks make \<open>n\<close> counter clocks and one
  more, or one less, for every 32768 that the error has accumulated.
\<close>

definition calibrated :: "rtc \<Rightarrow> nat \<Rightarrow> nat" where
  "calibrated r n =
     (let q = (unat (calib_accum r) + n * unat (rtc_calib r AND 0x7F)) div 32768
      in if rtc_calib r AND 0x80 \<noteq> 0 then n - q else n + q)"

lemma tick_cores_calib [simp]:
  "rtc_calib ((tick_core ^^ n) r) = rtc_calib r" "calib_accum ((tick_core ^^ n) r) = calib_accum r"
  "(tick_core ^^ n) (r\<lparr>calib_accum := a\<rparr>) = ((tick_core ^^ n) r)\<lparr>calib_accum := a\<rparr>"
  by (induction n) simp_all

lemma calib_error_less: "unat (w AND 0x7F :: u8) < 128"
  using word_and_le_bound[of "0x7F" "0x80" w] by (simp add: word_less_nat_alt)

lemma calibrated_tick:
  assumes a: "calib_accum r = of_nat A" and A: "A < 32768"
  defines "e \<equiv> unat (rtc_calib r AND 0x7F)"
  shows "handle_rtc_tick r =
    ((tick_core ^^ (if A + e < 32768 then 1 else if rtc_calib r AND 0x80 \<noteq> 0 then 0 else 2)) r)
      \<lparr>calib_accum := of_nat ((A + e) mod 32768)\<rparr>"
proof -
  let ?w = "rtc_calib r AND 0x7F"
  have e: "e < 128" using calib_error_less[of "rtc_calib r"] by (simp add: e_def)
  have uc: "(ucast ?w :: u16) = of_nat e" using e
    by (simp add: word_unat_eq_iff unat_of_nat e_def)
  have sum: "of_nat A + ucast ?w = (of_nat (A + e) :: u16)" using uc by simp
  have un: "unat (of_nat (A + e) :: u16) = A + e" using e A by (simp add: unat_of_nat del: of_nat_add)
  have ge: "(of_nat (A + e) \<ge> (32768 :: u16)) = (A + e \<ge> 32768)" using un by (simp add: word_le_nat_alt)
  have pos: "(?w > 0) = (e > 0)" by (simp add: e_def word_less_nat_alt)
  have md: "A + e \<ge> 32768 \<Longrightarrow> (of_nat (A + e) :: u16) - 32768 = of_nat ((A + e) mod 32768)"
  proof -
    assume g: "A + e \<ge> 32768"
    then have "(A + e) mod 32768 = A + e - 32768" using e A by (simp add: mod_if)
    with g show ?thesis by (simp add: of_nat_diff)
  qed
  show ?thesis
  proof (cases "e = 0")
    case True
    then show ?thesis using A a pos by (simp add: handle_rtc_tick_def)
  next
    case False
    show ?thesis
      using False ge md A by (simp add: handle_rtc_tick_def Let_def a pos sum numeral_2_eq_2 del: of_nat_add)
  qed
qed

lemma corrections_bounded:
  fixes a e n :: nat
  assumes "a < 32768" and "e < 32768"
  shows "(a + n * e) div 32768 \<le> n"
proof -
  have "n * e \<le> n * 32768" by (rule mult_le_mono2) (use assms(2) in simp)
  then have "a + n * e < Suc n * 32768" using assms(1) unfolding mult_Suc by (rule add_less_le_mono[rotated])
  then have "(a + n * e) div 32768 < Suc n" by (rule less_mult_imp_div_less)
  then show ?thesis by simp
qed

lemma correction_step:
  fixes m e :: nat
  assumes "e < 32768"
  shows "(m + e) div 32768 = m div 32768 + (if m mod 32768 + e < 32768 then 0 else 1)"
proof -
  have "m mod 32768 + e < 2 * 32768" using assms mod_less_divisor[of 32768 m] by linarith
  then have "(m mod 32768 + e) div 32768 = (if m mod 32768 + e < 32768 then 0 else 1)"
    by (auto intro: div_nat_eqI)
  then show ?thesis using assms by (simp add: div_add1_eq[of m e 32768])
qed

theorem calibrated_ticks:
  assumes acc: "calib_accum r < 32768"
  shows "(handle_rtc_tick ^^ n) r =
    ((tick_core ^^ calibrated r n) r)
      \<lparr>calib_accum := of_nat ((unat (calib_accum r) + n * unat (rtc_calib r AND 0x7F)) mod 32768)\<rparr>"
proof (induction n)
  case 0
  from acc show ?case by (simp add: calibrated_def word_less_nat_alt)
next
  case (Suc n)
  define e where "e = unat (rtc_calib r AND 0x7F)"
  define A where "A = (unat (calib_accum r) + n * e) mod 32768"
  let ?q = "\<lambda>n. (unat (calib_accum r) + n * e) div 32768"
  let ?s = "((tick_core ^^ calibrated r n) r)\<lparr>calib_accum := of_nat A\<rparr>"
  have e: "e < 32768" using calib_error_less[of "rtc_calib r"] by (simp add: e_def)
  have "handle_rtc_tick ?s =
      ((tick_core ^^ (if A + e < 32768 then 1 else if rtc_calib r AND 0x80 \<noteq> 0 then 0 else 2)) ?s)
        \<lparr>calib_accum := of_nat ((A + e) mod 32768)\<rparr>"
    using calibrated_tick[of ?s A] by (simp add: A_def e_def)
  also have "\<dots> = ((tick_core ^^ ((if A + e < 32768 then 1 else if rtc_calib r AND 0x80 \<noteq> 0 then 0 else 2)
        + calibrated r n)) r)\<lparr>calib_accum := of_nat ((A + e) mod 32768)\<rparr>"
    by (simp add: funpow_add)
  also have "(if A + e < 32768 then 1 else if rtc_calib r AND 0x80 \<noteq> 0 then 0 else 2) + calibrated r n
      = calibrated r (Suc n)"
  proof -
    have "?q (Suc n) = ?q n + (if A + e < 32768 then 0 else 1)"
      using correction_step[OF e, of "unat (calib_accum r) + n * e"] by (simp add: A_def ac_simps)
    moreover have "?q n \<le> n" using acc e by (intro corrections_bounded) (simp_all add: word_less_nat_alt)
    ultimately show ?thesis by (simp add: calibrated_def e_def[symmetric] Let_def)
  qed
  also have "(A + e) mod 32768 = (unat (calib_accum r) + Suc n * e) mod 32768"
    by (simp add: A_def mod_simps ac_simps)
  finally show ?case using Suc.IH by (simp add: A_def e_def)
qed

text \<open>Over 32768 ticks the correction is the error exactly.\<close>

lemma calibrated_period: "calib_accum r = 0 \<Longrightarrow>
  calibrated r 32768 = (if rtc_calib r AND 0x80 \<noteq> 0 then 32768 - unat (rtc_calib r AND 0x7F)
     else 32768 + unat (rtc_calib r AND 0x7F))"
  by (simp add: calibrated_def)

section \<open>The counter and the periodic interrupt\<close>

lemma tick_cores_count:
  assumes "rtc_cnt r \<le> rtc_per r"
  shows "unat (rtc_cnt ((tick_core ^^ n) r)) = (unat (rtc_cnt r) + n) mod Suc (unat (rtc_per r))
    \<and> rtc_per ((tick_core ^^ n) r) = rtc_per r"
proof (induction n)
  case 0
  from assms show ?case by (simp add: word_le_nat_alt)
next
  case (Suc n)
  let ?s = "(tick_core ^^ n) r" and ?p = "unat (rtc_per r)"
  from Suc have cnt: "unat (rtc_cnt ?s) = (unat (rtc_cnt r) + n) mod Suc ?p" and per: "rtc_per ?s = rtc_per r"
    by simp_all
  have lim: "unat (rtc_cnt ?s) < Suc ?p" using cnt by simp
  have "unat (rtc_cnt (tick_core ?s)) = (if unat (rtc_cnt ?s) = ?p then 0 else Suc (unat (rtc_cnt ?s)))"
  proof (cases "rtc_cnt ?s = rtc_per r")
    case False
    then have ne: "unat (rtc_cnt ?s) \<noteq> ?p" by (simp add: word_unat_eq_iff)
    then have "unat (rtc_cnt ?s) + 1 < 2 ^ 16" using lim u16_less[of "rtc_per r"] by simp
    then have "unat (rtc_cnt ?s + 1) = Suc (unat (rtc_cnt ?s))" by (simp add: unat_word_ariths)
    with False ne per show ?thesis by (simp add: tick_core_update)
  qed (simp add: tick_core_update per)
  with cnt per show ?case by (simp add: mod_Suc)
qed

lemma nibble_less: "unat (w AND 0x0F :: u8) < 16"
  using word_and_le_bound[of "0x0F" "0x10" w] by (simp add: word_less_nat_alt)

lemma power_nonzero: "n < 16 \<Longrightarrow> push_bit n (1 :: u16) \<noteq> 0"
  using bit_push_bit_iff[of n "1 :: u16" n] by force

lemma rtc_prescaler_pos: "rtc_prescaler r \<noteq> 0"
  using power_nonzero[OF nibble_less] by (simp add: rtc_prescaler_def Let_def)

lemma pit_period_pos: "get_pit_period r \<noteq> 0"
proof -
  let ?p = "drop_bit 3 (pitctrla r) AND 0x0F"
  have "unat (if ?p > 14 then 14 else ?p) + 1 < 16"
    by (auto simp: word_less_nat_alt)
  from power_nonzero[OF this] show ?thesis by (simp add: get_pit_period_def Let_def)
qed

lemma sync_frame [simp]:
  "is_rtc_enabled (rtc_sync n r) = is_rtc_enabled r" "is_pit_enabled (rtc_sync n r) = is_pit_enabled r"
  "is_rtc_enabled (pit_sync n r) = is_rtc_enabled r" "is_pit_enabled (pit_sync n r) = is_pit_enabled r"
  "rtc_prescaler (rtc_sync n r) = rtc_prescaler r" "rtc_prescaler (pit_sync n r) = rtc_prescaler r"
  "get_pit_period (rtc_sync n r) = get_pit_period r" "get_pit_period (pit_sync n r) = get_pit_period r"
  by (simp_all add: rtc_sync_def pit_sync_def is_rtc_enabled_def is_pit_enabled_def rtc_prescaler_def get_pit_period_def)

lemma cycles_control:
  "rtc_ctrla ((rtc_cycle dv ^^ n) r) = rtc_ctrla r \<and> pitctrla ((rtc_cycle dv ^^ n) r) = pitctrla r"
  "rtc_ctrla ((pit_cycle p ^^ n) r) = rtc_ctrla r \<and> pitctrla ((pit_cycle p ^^ n) r) = pitctrla r"
  by (induction n)
    (simp_all add: rtc_cycle_def pit_cycle_def handle_rtc_tick_def handle_pit_tick_def tick_core_update Let_def)

lemma enabled_frame [simp]:
  "is_rtc_enabled ((rtc_cycle dv ^^ n) r) = is_rtc_enabled r" "is_pit_enabled ((rtc_cycle dv ^^ n) r) = is_pit_enabled r"
  "get_pit_period ((rtc_cycle dv ^^ n) r) = get_pit_period r" "rtc_prescaler ((pit_cycle p ^^ n) r) = rtc_prescaler r"
  by (simp_all add: cycles_control is_rtc_enabled_def is_pit_enabled_def get_pit_period_def rtc_prescaler_def)

text \<open>
  The counter after any number of cycles: the prescaled ticks, corrected by the calibration,
  counted modulo the period.
\<close>

theorem rtc_count:
  assumes "is_rtc_enabled r" and "rtc_internal_ticks r < ucast (rtc_prescaler r)"
    and "calib_accum r < 32768" and "rtc_cnt r \<le> rtc_per r"
  shows "unat (rtc_cnt (rtc_tick elapsed r)) =
    (unat (rtc_cnt r) + calibrated r ((unat (rtc_internal_ticks r) + unat elapsed) div unat (rtc_prescaler r)))
      mod Suc (unat (rtc_per r))"
proof (cases "elapsed = 0")
  case True
  from assms(2) have "unat (rtc_internal_ticks r) < unat (rtc_prescaler r)"
    by (simp add: word_less_nat_alt unat_ucast_up)
  moreover have "calibrated r 0 = 0" using assms(3) by (simp add: calibrated_def word_less_nat_alt)
  ultimately show ?thesis using True assms(4) by (simp add: rtc_tick_def word_le_nat_alt)
next
  case False
  let ?s = "pit_sync elapsed (rtc_sync elapsed r)" and ?n = "unat elapsed" and ?dv = "rtc_prescaler r"
  let ?k = "(unat (rtc_internal_ticks r) + ?n) div unat ?dv"
  have keep: "rtc_internal_ticks ?s = rtc_internal_ticks r" "calib_accum ?s = calib_accum r"
    "rtc_cnt ?s = rtc_cnt r" "rtc_per ?s = rtc_per r" "calibrated ?s = calibrated r"
    by (simp_all add: rtc_sync_def pit_sync_def calibrated_def fun_eq_iff)
  have pit: "rtc_cnt ((pit_cycle p ^^ n) t) = rtc_cnt t" for p n t
    by (induction n) (simp_all add: pit_cycle_def handle_pit_tick_def Let_def)
  have "unat (ucast ?dv :: u64) = unat ?dv" by (simp add: unat_ucast_up)
  then have "rtc_cnt ((rtc_cycle ?dv ^^ ?n) ?s) = rtc_cnt ((handle_rtc_tick ^^ ?k) ?s)"
    using rtc_clock.cycles[of ?s "ucast ?dv" ?n] assms(2) keep by (simp add: rtc_cycle_clock)
  also have "\<dots> = rtc_cnt ((tick_core ^^ calibrated r ?k) ?s)"
    using calibrated_ticks[of ?s ?k] assms(3) keep by simp
  finally have "unat (rtc_cnt ((rtc_cycle ?dv ^^ ?n) ?s)) =
      (unat (rtc_cnt r) + calibrated r ?k) mod Suc (unat (rtc_per r))"
    using tick_cores_count[of ?s "calibrated r ?k"] assms(4) keep by simp
  then show ?thesis using False assms(1) by (simp add: rtc_tick_def Let_def pit)
qed

text \<open>The periodic interrupt: its flag is up after a call exactly when the period has passed, or it was up.\<close>

theorem pit_flag:
  assumes "is_pit_enabled r" and "pit_ticks r < ucast (get_pit_period r)"
  shows "pitintflags (rtc_tick elapsed r) AND 0x01 \<noteq> 0 \<longleftrightarrow>
    pitintflags r AND 0x01 \<noteq> 0 \<or> unat (get_pit_period r) \<le> unat (pit_ticks r) + unat elapsed"
proof (cases "elapsed = 0")
  case True
  from assms(2) show ?thesis by (simp add: True rtc_tick_def word_less_nat_alt unat_ucast_up)
next
  case False
  let ?s = "pit_sync elapsed (rtc_sync elapsed r)" and ?n = "unat elapsed" and ?p = "get_pit_period r"
  define t where "t = (if is_rtc_enabled r then (rtc_cycle (rtc_prescaler r) ^^ ?n) ?s else ?s)"
  have tick: "rtc_tick elapsed r = (pit_cycle ?p ^^ ?n) t"
    using False assms(1) by (simp add: rtc_tick_def t_def)
  let ?k = "(unat (pit_ticks r) + ?n) div unat ?p"
  have cyc: "pit_ticks ((rtc_cycle d ^^ n) t) = pit_ticks t \<and> pitintflags ((rtc_cycle d ^^ n) t) = pitintflags t" for d n and t :: rtc
    by (induction n) (simp_all add: rtc_cycle_def handle_rtc_tick_def tick_core_update Let_def)
  have keep: "pit_ticks t = pit_ticks r" "pitintflags t = pitintflags r"
    by (simp_all add: cyc t_def) (simp_all add: rtc_sync_def pit_sync_def)
  have flags: "pitintflags ((handle_pit_tick ^^ n) t) AND 0x01 \<noteq> 0 \<longleftrightarrow> pitintflags t AND 0x01 \<noteq> 0 \<or> n > 0" for n and t :: rtc
    by (induction n) (auto simp: handle_pit_tick_def mask_bit bit_or_iff)
  have "unat (ucast ?p :: u64) = unat ?p" by (simp add: unat_ucast_up)
  then have "pitintflags ((pit_cycle ?p ^^ ?n) t) = pitintflags ((handle_pit_tick ^^ ?k) t)"
    using pit_clock.cycles[of t "ucast ?p" ?n] assms(2) keep(1) by (simp add: pit_cycle_clock)
  moreover have "?k > 0 \<longleftrightarrow> unat ?p \<le> unat (pit_ticks r) + ?n"
    using pit_period_pos[of r] by (simp add: div_greater_zero_iff unat_gt_0)
  ultimately show ?thesis using keep(2) flags[of ?k t] by (simp add: tick)
qed

section \<open>Additivity\<close>

definition busy_after :: "u64 \<Rightarrow> u32 \<Rightarrow> u32" where
  "busy_after n c = (if n \<ge> ucast c then 0 else c - ucast n)"

definition busy_over :: "u64 \<Rightarrow> u32 \<Rightarrow> bool" where
  "busy_over n c \<longleftrightarrow> c > 0 \<and> n \<ge> ucast c"

lemma unat_busy_after: "unat (busy_after n c) = unat c - unat n"
proof (cases "unat n < unat c")
  case True
  then have "unat (ucast n :: u32) = unat n" using u32_less[of c]
    by (simp add: unsigned_ucast_eq take_bit_eq_mod)
  with True show ?thesis by (simp add: busy_after_def word_le_nat_alt unat_ucast_up unat_sub)
qed (simp add: busy_after_def word_le_nat_alt unat_ucast_up)

lemma busy_over_unat: "busy_over n c \<longleftrightarrow> 0 < unat c \<and> unat c \<le> unat n"
  by (simp add: busy_over_def word_le_nat_alt word_less_nat_alt unat_ucast_up)

lemma busy_add:
  assumes "unat a + unat b < 2 ^ 64"
  shows "busy_after b (busy_after a c) = busy_after (a + b) c"
    and "busy_over b (busy_after a c) \<or> busy_over a c \<longleftrightarrow> busy_over (a + b) c"
proof -
  have ab: "unat (a + b) = unat a + unat b" using assms by (simp add: unat_word_ariths)
  show "busy_after b (busy_after a c) = busy_after (a + b) c"
    by (simp add: word_unat_eq_iff unat_busy_after ab)
  show "busy_over b (busy_after a c) \<or> busy_over a c \<longleftrightarrow> busy_over (a + b) c"
    by (auto simp: busy_over_unat unat_busy_after ab)
qed

lemma rtc_sync_update:
  "rtc_sync n r = r\<lparr>sync_busy_cycles_rtc := busy_after n (sync_busy_cycles_rtc r),
     rtc_status := if busy_over n (sync_busy_cycles_rtc r) then 0 else rtc_status r\<rparr>"
proof (cases "sync_busy_cycles_rtc r = 0")
  case True
  then show ?thesis by (cases r) (simp add: rtc_sync_def busy_after_def busy_over_def)
qed (simp add: rtc_sync_def busy_after_def busy_over_def word_neq_0_conv)

lemma pit_sync_update:
  "pit_sync n r = r\<lparr>sync_busy_cycles_pit := busy_after n (sync_busy_cycles_pit r),
     pitstatus := if busy_over n (sync_busy_cycles_pit r) then 0 else pitstatus r\<rparr>"
proof (cases "sync_busy_cycles_pit r = 0")
  case True
  then show ?thesis by (cases r) (simp add: pit_sync_def busy_after_def busy_over_def)
qed (simp add: pit_sync_def busy_after_def busy_over_def word_neq_0_conv)

lemma syncs_add:
  assumes "unat a + unat b < 2 ^ 64"
  shows "pit_sync b (rtc_sync b (pit_sync a (rtc_sync a r))) = pit_sync (a + b) (rtc_sync (a + b) r)"
  using busy_add[OF assms, of "sync_busy_cycles_rtc r"] busy_add[OF assms, of "sync_busy_cycles_pit r"]
  by (auto simp: rtc_sync_update pit_sync_update)

text \<open>The two counters and the two busy timers work on different fields.\<close>

lemma rtc_cycle_sync: "rtc_cycle d (pit_sync n (rtc_sync n r)) = pit_sync n (rtc_sync n (rtc_cycle d r))"
  by (simp add: rtc_cycle_def rtc_sync_update pit_sync_update Let_def)

lemma pit_cycle_sync: "pit_cycle d (pit_sync n (rtc_sync n r)) = pit_sync n (rtc_sync n (pit_cycle d r))"
  by (simp add: pit_cycle_def handle_pit_tick_def rtc_sync_update pit_sync_update Let_def)

lemma cycles_commute: "rtc_cycle d (pit_cycle p r) = pit_cycle p (rtc_cycle d r)"
  by (simp add: rtc_cycle_def pit_cycle_def handle_pit_tick_def Let_def)

lemma funpow_commute:
  assumes "\<And>x. f (g x) = g (f x)"
  shows "f ((g ^^ n) x) = (g ^^ n) (f x)"
  by (induction n) (simp_all add: assms)

lemma funpows_commute:
  assumes "\<And>x. f (g x) = g (f x)"
  shows "(f ^^ m) ((g ^^ n) x) = (g ^^ n) ((f ^^ m) x)"
  using funpow_commute[of "g ^^ n" f m x] funpow_commute[of f g n] assms by metis

text \<open>
  However the cycles are divided into calls, the result is the same: the busy timers, both
  counters, the flags and the order of events.
\<close>

theorem rtc_tick_additive:
  assumes ab: "unat a + unat b < 2 ^ 64"
  shows "rtc_tick (a + b) r = rtc_tick b (rtc_tick a r)"
proof (cases "a = 0 \<or> b = 0")
  case True
  moreover have "rtc_tick 0 s = s" for s by (simp add: rtc_tick_def)
  ultimately show ?thesis by auto
next
  case False
  let ?sync = "\<lambda>n r. pit_sync n (rtc_sync n r)"
  let ?F = "\<lambda>n. if is_rtc_enabled r then rtc_cycle (rtc_prescaler r) ^^ n else id"
  let ?G = "\<lambda>n. if is_pit_enabled r then pit_cycle (get_pit_period r) ^^ n else id"
  have "unat (a + b) = unat a + unat b" using ab by (simp add: unat_word_ariths)
  then have un: "unat (a + b) = unat b + unat a" by (simp only: add.commute)
  have "unat b + unat a \<noteq> 0" using False by (simp add: unat_eq_zero)
  then have ne: "a + b \<noteq> 0" unfolding un[symmetric] by auto
  have tick: "rtc_tick n s = ?G (unat n) (?F (unat n) (?sync n s))"
    if "n \<noteq> 0" "is_rtc_enabled s = is_rtc_enabled r" "is_pit_enabled s = is_pit_enabled r"
      "rtc_prescaler s = rtc_prescaler r" "get_pit_period s = get_pit_period r" for n s
    using that by (simp add: rtc_tick_def Let_def)
  have FS: "?sync n (?F k s) = ?F k (?sync n s)" for n k s
    by (simp add: funpow_commute[of "?sync n" "rtc_cycle (rtc_prescaler r)"] rtc_cycle_sync)
  have GS: "?sync n (?G k s) = ?G k (?sync n s)" for n k s
    by (simp add: funpow_commute[of "?sync n" "pit_cycle (get_pit_period r)"] pit_cycle_sync)
  have FG: "?F k (?G l s) = ?G l (?F k s)" for k l s
    by (simp add: funpows_commute cycles_commute)
  have F2: "?F k (?F l s) = ?F (k + l) s" and G2: "?G k (?G l s) = ?G (k + l) s" for k l s
    by (simp_all add: funpow_add)
  have "rtc_tick b (rtc_tick a r) = ?G (unat b) (?F (unat b) (?sync b (?G (unat a) (?F (unat a) (?sync a r)))))"
  proof -
    have "rtc_tick a r = ?G (unat a) (?F (unat a) (?sync a r))" by (rule tick) (use False in auto)
    moreover have "rtc_tick b (?G (unat a) (?F (unat a) (?sync a r))) =
        ?G (unat b) (?F (unat b) (?sync b (?G (unat a) (?F (unat a) (?sync a r)))))"
      by (rule tick)
        (use False in \<open>auto simp: is_rtc_enabled_def is_pit_enabled_def rtc_prescaler_def get_pit_period_def
          cycles_control rtc_sync_def pit_sync_def\<close>)
    ultimately show ?thesis by simp
  qed
  also have "\<dots> = ?G (unat b + unat a) (?F (unat b + unat a) (?sync (a + b) r))"
    by (simp only: GS FS FG F2 G2 syncs_add[OF ab])
  also have "\<dots> = rtc_tick (a + b) r" unfolding un[symmetric] by (rule tick[symmetric]) (use ne in auto)
  finally show ?thesis ..
qed

section \<open>Sixteen-bit access\<close>

lemma byte_mask: "(w :: u16) AND 0xFF = take_bit 8 w"
  by (simp add: take_bit_eq_mask mask_eq_exp_minus_1)

lemma bytes_of_word:
  "push_bit 8 (ucast (ucast (drop_bit 8 w AND 0xFF) :: u8)) OR ucast (ucast (w AND 0xFF) :: u8) = (w :: u16)"
  unfolding byte_mask
  by (rule bit_word_eqI)
    (auto simp: bit_or_iff bit_push_bit_iff bit_ucast_iff bit_drop_bit_eq bit_take_bit_iff dest: bit_imp_le_length)

text \<open>
  A word read low byte first is the value at the first read, whatever time passes before the
  second.
\<close>

theorem counter_read_atomic:
  fixes r :: rtc
  defines "d \<equiv> rtc_desc r" and "low \<equiv> rtc_read (rtc_cnt_address (rtc_desc r)) r"
  assumes "rtc_cnt_address d \<notin> {rtc_ctrla_address d, rtc_status_address d, rtc_intctrl_address d,
      rtc_intflags_address d, rtc_clksel_address d, rtc_calib_address d, rtc_temp_address d}"
    and "rtc_cnt_address d + 1 \<notin> {rtc_ctrla_address d, rtc_status_address d, rtc_intctrl_address d,
      rtc_intflags_address d, rtc_clksel_address d, rtc_calib_address d, rtc_temp_address d}"
    and "rtc_cnt_address d \<noteq> 0xFFFF"
  shows "push_bit 8 (ucast (fst (rtc_read (rtc_cnt_address d + 1) (rtc_tick n (snd low))))) OR ucast (fst low) = rtc_cnt r"
proof -
  have temp: "rtc_temp ((rtc_cycle dv ^^ k) s) = rtc_temp s \<and> rtc_desc ((rtc_cycle dv ^^ k) s) = rtc_desc s"
    "rtc_temp ((pit_cycle p ^^ k) s) = rtc_temp s \<and> rtc_desc ((pit_cycle p ^^ k) s) = rtc_desc s" for dv p k s
    by (induction k)
      (simp_all add: rtc_cycle_def handle_rtc_tick_def tick_core_update pit_cycle_def handle_pit_tick_def Let_def)
  have tick: "rtc_temp (rtc_tick n s) = rtc_temp s" "rtc_desc (rtc_tick n s) = rtc_desc s" for s
    by (simp_all add: rtc_tick_def temp Let_def rtc_sync_update pit_sync_update)
  have low: "low = rtc_latch (rtc_cnt r) r"
    using assms(3) unfolding low_def d_def by (simp add: rtc_read_def)
  have "second_of (rtc_cnt_address d + 1) (rtc_cnt_address d)"
  proof -
    have "unat (rtc_cnt_address d) + 1 < 2 ^ 16"
      using assms(5) u16_less[of "rtc_cnt_address d"] by (simp add: word_unat_eq_iff)
    then show ?thesis by (simp add: second_of_def unat_word_ariths)
  qed
  moreover have "rtc_cnt_address d + 1 \<noteq> rtc_cnt_address d" by simp
  ultimately have "fst (rtc_read (rtc_cnt_address d + 1) s) = rtc_temp s" if "rtc_desc s = d" for s
    using assms(4) that by (simp add: rtc_read_def Let_def)
  then show ?thesis by (simp add: low rtc_latch_def tick d_def[symmetric] bytes_of_word)
qed

end
