(* ===== verification/Timer16.thy ===== *)
theory Timer16
  imports Timer8
begin

text \<open>
  \<open>Timer16\<close> (\<open>src/core/timer16.cpp\<close>): the 16-bit timer/counter with its sixteen waveform
  modes, double-buffered compare registers, input capture with its noise canceler, the T1
  clock, and byte access through \<open>temp_\<close> or \<open>TC1H\<close>.  What the timer reads from the bus is
  an argument: the cycles of its clock domain, the power reduction register and the level
  of the ICP pin.  The triggers given to the ADCs are recorded in order, and the event it
  keeps in the scheduler is the delay it was scheduled with.
\<close>

section \<open>State\<close>

record timer16_descriptor =
  t16_tcnt_address :: u16
  t16_ocra_address :: u16
  t16_ocrb_address :: u16
  t16_ocrc_address :: u16
  t16_icr_address :: u16
  t16_tifr_address :: u16
  t16_timsk_address :: u16
  t16_tccra_address :: u16
  t16_tccrb_address :: u16
  t16_tccrc_address :: u16
  t16_tccrd_address :: u16
  t16_tccre_address :: u16
  t16_tc1h_address :: u16
  t16_ocrd_address :: u16
  t16_dt1_address :: u16
  t16_capture_vector_index :: u8
  t16_compare_a_vector_index :: u8
  t16_compare_b_vector_index :: u8
  t16_compare_c_vector_index :: u8
  t16_compare_d_vector_index :: u8
  t16_overflow_vector_index :: u8
  t16_wgm12_mask :: u8
  t16_cs_mask :: u8
  t16_ices_mask :: u8
  t16_icnc_mask :: u8
  t16_foca_mask :: u8
  t16_focb_mask :: u8
  t16_focc_mask :: u8
  t16_pr_address :: u16
  t16_pr_bit :: u8
  t16_compare_a_trigger_source :: u8
  t16_compare_b_trigger_source :: u8
  t16_compare_c_trigger_source :: u8
  t16_compare_d_trigger_source :: u8
  t16_overflow_trigger_source :: u8
  t16_capture_trigger_source :: u8

record timer16 =
  t16_desc :: timer16_descriptor
  t16_mux :: pin_mux
  t16_tcnt :: u16
  t16_ocra :: u16
  t16_ocrb :: u16
  t16_ocrc :: u16
  t16_ocrd :: u16
  t16_ocra_buffer :: u16
  t16_ocrb_buffer :: u16
  t16_ocrc_buffer :: u16
  t16_ocrd_buffer :: u16
  t16_icr :: u16
  t16_tccra :: u8
  t16_tccrb :: u8
  t16_tccrc :: u8
  t16_tccrd :: u8
  t16_tccre :: u8
  t16_dt1 :: u8
  t16_tc1h :: u8
  t16_timsk :: u8
  t16_tifr :: u8
  t16_temp :: u8
  t16_counting_up :: bool
  pin_icp :: "(u16 \<times> u8) option"
  pin_t1 :: "(u16 \<times> u8) option"
  t16_pin_a :: "(u16 \<times> u8) option"
  t16_pin_b :: "(u16 \<times> u8) option"
  t16_pin_c :: "(u16 \<times> u8) option"
  t16_pin_d :: "(u16 \<times> u8) option"
  icp_initialized :: bool
  last_icp_state :: bool
  last_t1_state :: bool
  noise_canceler_register :: bool
  noise_canceler_counter :: u8
  t16_accumulator :: u64
  t16_last_sync_cycle :: u64
  t16_adcs :: nat
  t16_interrupt_pending :: bool
  t16_event :: "u64 option"
  t16_triggers :: "u8 list"

record timer16_env =
  env16_now :: u64
  env16_prr :: u8
  env16_icp :: "pin_mux \<Rightarrow> bool"

definition t16_both_bytes :: "timer16_descriptor \<Rightarrow> u16 \<Rightarrow> u16 list" where
  "t16_both_bytes d addr =
     (if addr = 0 then [] else if t16_tc1h_address d \<noteq> 0 then [addr] else [addr, addr + 1])"

definition t16_registers :: "timer16_descriptor \<Rightarrow> u16 list" where
  "t16_registers d =
     concat (map (t16_both_bytes d)
       [t16_tcnt_address d, t16_ocra_address d, t16_ocrb_address d, t16_ocrc_address d, t16_ocrd_address d,
        t16_icr_address d]) @
     filter (\<lambda>a. a \<noteq> 0)
       [t16_tccra_address d, t16_tccrb_address d, t16_tccrc_address d, t16_tccrd_address d, t16_tccre_address d,
        t16_tc1h_address d, t16_dt1_address d, t16_timsk_address d, t16_tifr_address d]"

definition t16_ranges :: "timer16_descriptor \<Rightarrow> address_range list" where
  "t16_ranges d = used_ranges (array_ranges 16 (t16_registers d))"

section \<open>Conditions\<close>

definition t16_power_reduction :: "timer16_env \<Rightarrow> timer16 \<Rightarrow> bool" where
  "t16_power_reduction v t \<longleftrightarrow>
     \<not> (t16_pr_address (t16_desc t) = 0 \<or> t16_pr_bit (t16_desc t) = 0xFF) \<and>
     bit (env16_prr v) (unat (t16_pr_bit (t16_desc t)))"

definition t16_wgm :: "timer16 \<Rightarrow> u8" where
  "t16_wgm t = (t16_tccra t AND 0x03) OR drop_bit 1 (t16_tccrb t AND t16_wgm12_mask (t16_desc t))"

definition t16_cs :: "timer16 \<Rightarrow> u8" where
  "t16_cs t = t16_tccrb t AND t16_cs_mask (t16_desc t)"

definition t16_non_pwm :: "timer16 \<Rightarrow> bool" where
  "t16_non_pwm t \<longleftrightarrow> t16_wgm t = 0 \<or> t16_wgm t = 4 \<or> t16_wgm t = 12"

definition t16_asks :: "timer16 \<Rightarrow> u8 \<Rightarrow> bool" where
  "t16_asks t mk \<longleftrightarrow> t16_tifr t AND mk \<noteq> 0 \<and> t16_timsk t AND mk \<noteq> 0"

definition t16_pending_interrupt_request :: "timer16 \<Rightarrow> u8 option" where
  "t16_pending_interrupt_request t =
     (let d = t16_desc t
      in if t16_asks t 0x20 then Some (t16_capture_vector_index d)
         else if t16_asks t 0x02 then Some (t16_compare_a_vector_index d)
         else if t16_asks t 0x04 then Some (t16_compare_b_vector_index d)
         else if t16_asks t 0x08 then Some (t16_compare_c_vector_index d)
         else if t16_asks t 0x10 \<and> t16_compare_d_vector_index d \<noteq> 0 then Some (t16_compare_d_vector_index d)
         else if t16_asks t 0x01 then Some (t16_overflow_vector_index d)
         else None)"

definition t16_update_interrupt_state :: "timer16 \<Rightarrow> timer16" where
  "t16_update_interrupt_state t =
     t\<lparr>t16_interrupt_pending :=
         t16_asks t 0x20 \<or> t16_asks t 0x02 \<or> t16_asks t 0x04 \<or> t16_asks t 0x08 \<or>
         t16_asks t 0x10 \<and> t16_compare_d_vector_index (t16_desc t) \<noteq> 0 \<or> t16_asks t 0x01\<rparr>"

definition t16_consume_interrupt_request :: "u8 \<Rightarrow> timer16 \<Rightarrow> timer16" where
  "t16_consume_interrupt_request vec t =
     (let d = t16_desc t;
          mk = (if vec = t16_capture_vector_index d then 0x20
                else if vec = t16_compare_a_vector_index d then 0x02
                else if vec = t16_compare_b_vector_index d then 0x04
                else if vec = t16_compare_c_vector_index d then 0x08
                else if vec = t16_compare_d_vector_index d \<and> t16_compare_d_vector_index d \<noteq> 0 then 0x10
                else if vec = t16_overflow_vector_index d then 0x01
                else 0)
      in t16_update_interrupt_state (t\<lparr>t16_tifr := t16_tifr t AND NOT mk\<rparr>))"

section \<open>Pins\<close>

definition t16_drive :: "timer16 \<Rightarrow> bool \<Rightarrow> (u16 \<times> u8) option \<Rightarrow> u8 \<Rightarrow> u16 \<Rightarrow> pin_mux \<Rightarrow> pin_mux" where
  "t16_drive t is_match pin com ocr m =
     (case pin of
        None \<Rightarrow> m
      | Some (a, b) \<Rightarrow>
          if com = 0 then m
          else if t16_non_pwm t
          then if \<not> is_match then m
               else if com = 1 then drive_pin a b (\<not> ps_drive_level (get_state_by_address m a b)) m
               else if com = 2 then drive_pin a b False m
               else if com = 3 then drive_pin a b True m
               else m
          else if com = 1
          then if is_match then drive_pin a b (\<not> ps_drive_level (get_state_by_address m a b)) m else m
          else if t16_wgm t \<ge> 1 \<and> t16_wgm t \<le> 3 \<or> t16_wgm t \<ge> 8 \<and> t16_wgm t \<le> 11
          then drive_pin a b
                 (if com = 2 then t16_tcnt t < ocr \<or> \<not> t16_counting_up t \<and> t16_tcnt t = ocr
                  else t16_tcnt t > ocr \<or> t16_counting_up t \<and> t16_tcnt t = ocr) m
          else drive_pin a b (if com = 2 then t16_tcnt t < ocr else t16_tcnt t \<ge> ocr) m)"

definition com_a :: "timer16 \<Rightarrow> u8" where
  "com_a t = drop_bit 6 (t16_tccra t) AND 0x03"

definition com_b :: "timer16 \<Rightarrow> u8" where
  "com_b t = drop_bit 4 (t16_tccra t) AND 0x03"

definition com_c :: "timer16 \<Rightarrow> u8" where
  "com_c t = drop_bit 2 (t16_tccra t) AND 0x03"

definition pwm_channel ::
  "bool \<Rightarrow> timer16 \<Rightarrow> bool \<Rightarrow> (u16 \<times> u8) option \<Rightarrow> u8 \<Rightarrow> u16 \<Rightarrow> pin_mux \<Rightarrow> pin_mux" where
  "pwm_channel selected t is_match pin com ocr m = (if selected then t16_drive t is_match pin com ocr m else m)"

definition pwm_mux :: "bool \<Rightarrow> u8 \<Rightarrow> timer16 \<Rightarrow> pin_mux" where
  "pwm_mux is_match channel_mask t =
     pwm_channel (channel_mask AND 0x08 \<noteq> 0) t is_match (t16_pin_d t) (drop_bit 4 (t16_tccrc t) AND 0x03) (t16_ocrd t)
    (pwm_channel (channel_mask AND 0x04 \<noteq> 0) t is_match (t16_pin_c t) (com_c t) (t16_ocrc t)
    (pwm_channel (channel_mask AND 0x02 \<noteq> 0) t is_match (t16_pin_b t) (com_b t) (t16_ocrb t)
    (pwm_channel (channel_mask AND 0x01 \<noteq> 0) t is_match (t16_pin_a t) (com_a t) (t16_ocra t) (t16_mux t))))"

definition update_pwm_pins :: "bool \<Rightarrow> u8 \<Rightarrow> timer16 \<Rightarrow> timer16" where
  "update_pwm_pins is_match channel_mask t = t\<lparr>t16_mux := pwm_mux is_match channel_mask t\<rparr>"

definition t16_own :: "(u16 \<times> u8) option \<Rightarrow> u8 \<Rightarrow> pin_mux \<Rightarrow> pin_mux" where
  "t16_own pin com m =
     (case pin of
        None \<Rightarrow> m
      | Some (a, b) \<Rightarrow>
          if com \<noteq> 0 then fst (claim_pin_by_address a b Own_timer m) else release_pin_by_address a b Own_timer m)"

definition t16_update_pin_ownership :: "timer16 \<Rightarrow> timer16" where
  "t16_update_pin_ownership t =
     (let comd = (if t16_tccrd_address (t16_desc t) \<noteq> 0 \<and> t16_non_pwm t
                  then drop_bit 4 (t16_tccrc t AND 0x10) else 0)
      in t\<lparr>t16_mux := t16_own (t16_pin_d t) comd
             (t16_own (t16_pin_c t) (com_c t)
               (t16_own (t16_pin_b t) (com_b t) (t16_own (t16_pin_a t) (com_a t) (t16_mux t))))\<rparr>)"

section \<open>Counting\<close>

definition t16_top :: "timer16 \<Rightarrow> u16" where
  "t16_top t =
     (let w = t16_wgm t
      in if w \<in> {1, 5} then 0x00FF
         else if w \<in> {2, 6} then 0x01FF
         else if w \<in> {3, 7} then 0x03FF
         else if w \<in> {4, 9, 11, 13, 15} then t16_ocra t
         else if w \<in> {8, 10, 12, 14} then t16_icr t
         else 0xFFFF)"

definition update_ocr_at_top :: "u8 \<Rightarrow> bool" where
  "update_ocr_at_top w \<longleftrightarrow> w \<in> {1, 2, 3, 5, 6, 7, 10, 11, 13, 14, 15}"

definition update_ocr_at_bottom :: "u8 \<Rightarrow> bool" where
  "update_ocr_at_bottom w \<longleftrightarrow> w \<in> {8, 9}"

definition t16_phase_correct :: "u8 \<Rightarrow> bool" where
  "t16_phase_correct w \<longleftrightarrow> w \<in> {1, 2, 3, 8, 9, 10, 11}"

definition t16_notify :: "u8 \<Rightarrow> timer16 \<Rightarrow> timer16" where
  "t16_notify src t = t\<lparr>t16_triggers := t16_triggers t @ replicate (t16_adcs t) src\<rparr>"

definition load_ocr :: "timer16 \<Rightarrow> timer16" where
  "load_ocr t =
     t\<lparr>t16_ocra := t16_ocra_buffer t, t16_ocrb := t16_ocrb_buffer t, t16_ocrc := t16_ocrc_buffer t,
       t16_ocrd := t16_ocrd_buffer t\<rparr>"

definition load_ocr_if :: "bool \<Rightarrow> timer16 \<Rightarrow> timer16" where
  "load_ocr_if b t = (if b then load_ocr t else t)"

definition fast_overflow :: "timer16 \<Rightarrow> timer16" where
  "fast_overflow t =
     update_pwm_pins False 0x07 (t16_notify (t16_overflow_trigger_source (t16_desc t))
       (load_ocr_if (update_ocr_at_top (t16_wgm t)) (t\<lparr>t16_tcnt := 0, t16_tifr := t16_tifr t OR 0x01\<rparr>)))"

text \<open>The counter update, with \<open>ocr_loaded_this_tick\<close>.\<close>

definition t16_count :: "timer16 \<Rightarrow> timer16 \<times> bool" where
  "t16_count t =
     (let w = t16_wgm t; tp = t16_top t; ov = t16_overflow_trigger_source (t16_desc t)
      in if t16_phase_correct w
         then if t16_counting_up t
              then if t16_tcnt t \<ge> tp
                   then let t = t\<lparr>t16_counting_up := False\<rparr>;
                            t = (if t16_tcnt t > 0 then t\<lparr>t16_tcnt := t16_tcnt t - 1\<rparr> else t)
                        in (load_ocr_if (update_ocr_at_top w) t, update_ocr_at_top w)
                   else (t\<lparr>t16_tcnt := t16_tcnt t + 1\<rparr>, False)
              else if t16_tcnt t = 0
                   then let t = t\<lparr>t16_counting_up := True, t16_tcnt := t16_tcnt t + 1, t16_tifr := t16_tifr t OR 0x01\<rparr>
                        in (t16_notify ov (load_ocr_if (update_ocr_at_bottom w) t), update_ocr_at_bottom w)
                   else (t\<lparr>t16_tcnt := t16_tcnt t - 1\<rparr>, False)
         else if t16_tcnt t \<ge> tp then (fast_overflow t, update_ocr_at_top w)
              else (t\<lparr>t16_tcnt := t16_tcnt t + 1\<rparr>, False))"

definition t16_match :: "bool \<Rightarrow> u8 \<Rightarrow> u8 \<Rightarrow> timer16 \<Rightarrow> timer16" where
  "t16_match hit flag src t =
     (if hit then t16_notify src (update_pwm_pins True 0x07 (t\<lparr>t16_tifr := t16_tifr t OR flag\<rparr>)) else t)"

definition t16_matches :: "timer16 \<Rightarrow> timer16" where
  "t16_matches t =
     (let d = t16_desc t;
          t = t16_match (t16_tcnt t = t16_ocra t) 0x02 (t16_compare_a_trigger_source d) t;
          t = t16_match (t16_tcnt t = t16_ocrb t) 0x04 (t16_compare_b_trigger_source d) t;
          t = t16_match (t16_tcnt t = t16_ocrc t \<and> t16_ocrc_address d \<noteq> 0) 0x08 (t16_compare_c_trigger_source d) t
      in t16_match (t16_tcnt t = t16_ocrd t \<and> t16_ocrd_address d \<noteq> 0) 0x10 (t16_compare_d_trigger_source d) t)"

definition handle_input_capture :: "timer16 \<Rightarrow> timer16" where
  "handle_input_capture t =
     t16_notify (t16_capture_trigger_source (t16_desc t))
       (t16_update_interrupt_state (t\<lparr>t16_icr := t16_tcnt t, t16_tifr := t16_tifr t OR 0x20\<rparr>))"

definition rising_edge_selected :: "timer16 \<Rightarrow> bool" where
  "rising_edge_selected t \<longleftrightarrow> t16_tccrb t AND t16_ices_mask (t16_desc t) \<noteq> 0"

definition icp_initialize :: "bool \<Rightarrow> timer16 \<Rightarrow> timer16" where
  "icp_initialize level t =
     (if icp_initialized t then t
      else t\<lparr>last_icp_state := level, noise_canceler_register := level, noise_canceler_counter := 0,
             icp_initialized := True\<rparr>)"

definition noise_canceled_sample :: "bool \<Rightarrow> timer16 \<Rightarrow> timer16" where
  "noise_canceled_sample level t =
     (if level = noise_canceler_register t
      then let t = t\<lparr>noise_canceler_counter := noise_canceler_counter t + 1\<rparr>
           in if noise_canceler_counter t \<ge> 4 \<and> level \<noteq> last_icp_state t
              then let t = (if level = rising_edge_selected t
                            then (handle_input_capture t)\<lparr>noise_canceler_counter := 0\<rparr> else t)
                   in t\<lparr>last_icp_state := level\<rparr>
              else t
      else t\<lparr>noise_canceler_register := level, noise_canceler_counter := 1\<rparr>)"

definition plain_sample :: "bool \<Rightarrow> timer16 \<Rightarrow> timer16" where
  "plain_sample level t =
     (if level \<noteq> last_icp_state t
      then let t = (if level = rising_edge_selected t then handle_input_capture t else t)
           in t\<lparr>last_icp_state := level\<rparr>
      else t)"

definition sample_icp :: "timer16_env \<Rightarrow> timer16 \<Rightarrow> timer16" where
  "sample_icp v t =
     (if pin_icp t = None then t
      else let level = env16_icp v (t16_mux t); t = icp_initialize level t
           in if t16_tccrb t AND t16_icnc_mask (t16_desc t) \<noteq> 0 then noise_canceled_sample level t
              else plain_sample level t)"

definition t16_perform_tick :: "timer16_env \<Rightarrow> timer16 \<Rightarrow> timer16" where
  "t16_perform_tick v t =
     (let (t, ocr_loaded) = t16_count t in sample_icp v (if ocr_loaded then t else t16_matches t))"

section \<open>Clocks\<close>

definition t16_advance :: "timer16_env \<Rightarrow> u64 \<Rightarrow> timer16 \<Rightarrow> timer16" where
  "t16_advance v elapsed t =
     (if t16_power_reduction v t \<or> t16_cs t = 0 \<or> t16_cs t > 5 then t
      else let divisor = ucast (sync_prescalers ! unat (t16_cs t)); acc = t16_accumulator t + elapsed;
               ticks = acc div divisor; t = t\<lparr>t16_accumulator := acc mod divisor\<rparr>
           in if ticks > 0 then t16_update_interrupt_state ((t16_perform_tick v ^^ unat ticks) t) else t)"

definition t16_tick :: "timer16_env \<Rightarrow> u64 \<Rightarrow> timer16 \<Rightarrow> timer16" where
  "t16_tick v elapsed t = t16_advance v elapsed t"

definition t16_sync :: "timer16_env \<Rightarrow> timer16 \<Rightarrow> timer16" where
  "t16_sync v t =
     (if env16_now v \<le> t16_last_sync_cycle t then t
      else t16_advance v (env16_now v - t16_last_sync_cycle t) (t\<lparr>t16_last_sync_cycle := env16_now v\<rparr>))"

definition t16_recalculate_event :: "timer16_env \<Rightarrow> timer16 \<Rightarrow> timer16" where
  "t16_recalculate_event v t =
     t\<lparr>t16_event :=
         if t16_power_reduction v t \<or> t16_cs t = 0 \<or> t16_cs t > 5 then None
         else Some (ucast (sync_prescalers ! unat (t16_cs t)) - t16_accumulator t)\<rparr>"

definition t16_on_event :: "timer16_env \<Rightarrow> timer16 \<Rightarrow> timer16" where
  "t16_on_event v t = t16_recalculate_event v (t16_sync v t)"

definition t16_on_power_state_change :: "timer16_env \<Rightarrow> timer16 \<Rightarrow> timer16" where
  "t16_on_power_state_change v t = t16_recalculate_event v t"

definition notify_input_capture :: "timer16_env \<Rightarrow> bool \<Rightarrow> timer16 \<Rightarrow> timer16" where
  "notify_input_capture v high t0 =
     (let t = t16_sync v t0 in if high = rising_edge_selected t then handle_input_capture t else t)"

definition t16_on_external_pin_change :: "timer16_env \<Rightarrow> u16 \<Rightarrow> u8 \<Rightarrow> bool \<Rightarrow> timer16 \<Rightarrow> bool \<times> timer16" where
  "t16_on_external_pin_change v address b high t =
     (if pin_icp t = Some (address, b) then (True, notify_input_capture v high t)
      else if pin_t1 t = Some (address, b)
      then let cs = t16_cs t;
               counts = (cs = 6 \<and> last_t1_state t \<and> \<not> high \<or> cs = 7 \<and> \<not> last_t1_state t \<and> high);
               t = (if counts then t16_perform_tick v (t16_sync v t) else t)
           in (True, t\<lparr>last_t1_state := high\<rparr>)
      else (False, t))"

definition t16_reset :: "timer16_env \<Rightarrow> timer16 \<Rightarrow> timer16" where
  "t16_reset v t =
     t16_update_interrupt_state (t16_update_pin_ownership
       (t\<lparr>t16_tcnt := 0, t16_ocra := 0, t16_ocrb := 0, t16_ocrc := 0, t16_ocrd := 0, t16_ocra_buffer := 0,
          t16_ocrb_buffer := 0, t16_ocrc_buffer := 0, t16_ocrd_buffer := 0, t16_icr := 0, t16_tccra := 0,
          t16_tccrb := 0, t16_tccrc := 0, t16_tccrd := 0, t16_tccre := 0, t16_dt1 := 0, t16_tc1h := 0,
          t16_timsk := 0, t16_tifr := 0, t16_temp := 0, t16_counting_up := True, icp_initialized := False,
          last_icp_state := False, noise_canceler_register := False, noise_canceler_counter := 0,
          t16_accumulator := 0, t16_last_sync_cycle := env16_now v\<rparr>))"

section \<open>Register access\<close>

definition t16_use_tc1h :: "timer16 \<Rightarrow> bool" where
  "t16_use_tc1h t \<longleftrightarrow> t16_tc1h_address (t16_desc t) \<noteq> 0"

text \<open>A low byte is returned, the high byte latched.\<close>

definition t16_latch :: "u16 \<Rightarrow> timer16 \<Rightarrow> u8 \<times> timer16" where
  "t16_latch w t =
     (ucast (w AND 0xFF),
      if t16_use_tc1h t then t\<lparr>t16_tc1h := ucast (drop_bit 8 w)\<rparr> else t\<lparr>t16_temp := ucast (drop_bit 8 w)\<rparr>)"

definition t16_high :: "timer16 \<Rightarrow> u16 \<Rightarrow> u16 \<Rightarrow> bool" where
  "t16_high t address base \<longleftrightarrow> \<not> t16_use_tc1h t \<and> second_of address base"

definition t16_read_register :: "u16 \<Rightarrow> timer16 \<Rightarrow> u8 \<times> timer16" where
  "t16_read_register address t =
     (let d = t16_desc t
      in if address = t16_tcnt_address d then t16_latch (t16_tcnt t) t
         else if t16_high t address (t16_tcnt_address d) then (t16_temp t, t)
         else if address = t16_ocra_address d then t16_latch (t16_ocra_buffer t) t
         else if t16_high t address (t16_ocra_address d) then (t16_temp t, t)
         else if address = t16_ocrb_address d then t16_latch (t16_ocrb_buffer t) t
         else if t16_high t address (t16_ocrb_address d) then (t16_temp t, t)
         else if address = t16_ocrc_address d \<and> t16_ocrc_address d \<noteq> 0 then t16_latch (t16_ocrc_buffer t) t
         else if t16_high t address (t16_ocrc_address d) \<and> t16_ocrc_address d \<noteq> 0 then (t16_temp t, t)
         else if address = t16_ocrd_address d \<and> t16_ocrd_address d \<noteq> 0
         then (ucast (t16_ocrd_buffer t AND 0xFF), t\<lparr>t16_tc1h := ucast (drop_bit 8 (t16_ocrd_buffer t))\<rparr>)
         else if address = t16_icr_address d then t16_latch (t16_icr t) t
         else if t16_high t address (t16_icr_address d) then (t16_temp t, t)
         else if address = t16_tccra_address d then (t16_tccra t, t)
         else if address = t16_tccrb_address d then (t16_tccrb t, t)
         else if address = t16_tccrc_address d
         then (t16_tccrc t AND NOT (t16_foca_mask d OR t16_focb_mask d OR t16_focc_mask d), t)
         else if address = t16_tccrd_address d then (t16_tccrd t, t)
         else if address = t16_tccre_address d then (t16_tccre t, t)
         else if address = t16_tc1h_address d then (t16_tc1h t, t)
         else if address = t16_dt1_address d then (t16_dt1 t, t)
         else if address = t16_timsk_address d then (t16_timsk t, t)
         else if address = t16_tifr_address d then (t16_tifr t, t)
         else (0, t))"

definition t16_read :: "timer16_env \<Rightarrow> u16 \<Rightarrow> timer16 \<Rightarrow> u8 \<times> timer16" where
  "t16_read v address t = t16_read_register address (t16_sync v t)"

definition t16_word :: "timer16 \<Rightarrow> u8 \<Rightarrow> u16" where
  "t16_word t v = push_bit 8 (ucast (if t16_use_tc1h t then t16_tc1h t else t16_temp t)) OR ucast v"

definition t16_force :: "u8 \<Rightarrow> timer16 \<Rightarrow> timer16" where
  "t16_force v t =
     (if t16_non_pwm t
      then let d = t16_desc t;
               t = (if v AND t16_foca_mask d \<noteq> 0 then update_pwm_pins True 0x01 t else t);
               t = (if v AND t16_focb_mask d \<noteq> 0 then update_pwm_pins True 0x02 t else t)
           in if v AND t16_focc_mask d \<noteq> 0 then update_pwm_pins True 0x04 t else t
      else t)"

definition t16_store :: "u16 \<Rightarrow> u8 \<Rightarrow> timer16 \<Rightarrow> timer16" where
  "t16_store address v t =
     (let d = t16_desc t
      in if address = t16_tccra_address d then t16_update_pin_ownership (t\<lparr>t16_tccra := v\<rparr>)
         else if address = t16_tccrb_address d then t16_update_pin_ownership (t\<lparr>t16_tccrb := v\<rparr>)
         else if address = t16_tccrc_address d then t16_force v (t\<lparr>t16_tccrc := v\<rparr>)
         else if address = t16_tccrd_address d then t\<lparr>t16_tccrd := v\<rparr>
         else if address = t16_tccre_address d then t\<lparr>t16_tccre := v\<rparr>
         else if address = t16_tc1h_address d then t\<lparr>t16_tc1h := v\<rparr>
         else if address = t16_dt1_address d then t\<lparr>t16_dt1 := v\<rparr>
         else if t16_high t address (t16_tcnt_address d) then t\<lparr>t16_temp := v\<rparr>
         else if address = t16_tcnt_address d then t\<lparr>t16_tcnt := t16_word t v, t16_accumulator := 0\<rparr>
         else if t16_high t address (t16_ocra_address d) then t\<lparr>t16_temp := v\<rparr>
         else if address = t16_ocra_address d then t\<lparr>t16_ocra_buffer := t16_word t v\<rparr>
         else if t16_high t address (t16_ocrb_address d) then t\<lparr>t16_temp := v\<rparr>
         else if address = t16_ocrb_address d then t\<lparr>t16_ocrb_buffer := t16_word t v\<rparr>
         else if t16_high t address (t16_ocrc_address d) \<and> t16_ocrc_address d \<noteq> 0 then t\<lparr>t16_temp := v\<rparr>
         else if address = t16_ocrc_address d \<and> t16_ocrc_address d \<noteq> 0 then t\<lparr>t16_ocrc_buffer := t16_word t v\<rparr>
         else if address = t16_ocrd_address d \<and> t16_ocrd_address d \<noteq> 0
         then t\<lparr>t16_ocrd_buffer := push_bit 8 (ucast (t16_tc1h t)) OR ucast v\<rparr>
         else if t16_high t address (t16_icr_address d) then t\<lparr>t16_temp := v\<rparr>
         else if address = t16_icr_address d then t\<lparr>t16_icr := t16_word t v\<rparr>
         else if address = t16_timsk_address d then t16_update_interrupt_state (t\<lparr>t16_timsk := v\<rparr>)
         else if address = t16_tifr_address d
         then t16_update_interrupt_state (t\<lparr>t16_tifr := t16_tifr t AND NOT v\<rparr>)
         else t)"

definition t16_write :: "timer16_env \<Rightarrow> u16 \<Rightarrow> u8 \<Rightarrow> timer16 \<Rightarrow> timer16" where
  "t16_write v address b t =
     (let t = t16_store address b (t16_sync v t); t = (if t16_non_pwm t then load_ocr t else t)
      in t16_recalculate_event v t)"

section \<open>What counting leaves alone\<close>

text \<open>
  Counting does not see when the timer was last brought up to date, nor the latched byte; it
  sets the interrupt line only on a capture, and then by the flags alone.
\<close>

definition t16_outside :: "u64 \<Rightarrow> u64 \<Rightarrow> u8 \<Rightarrow> bool \<Rightarrow> timer16 \<Rightarrow> timer16" where
  "t16_outside a l m p t =
     t\<lparr>t16_accumulator := a, t16_last_sync_cycle := l, t16_temp := m, t16_interrupt_pending := p\<rparr>"

lemma t16_outside_self: "t16_outside (t16_accumulator t) (t16_last_sync_cycle t) (t16_temp t) (t16_interrupt_pending t) t = t"
  by (simp add: t16_outside_def)

lemma t16_outside_twice [simp]: "t16_outside a l m p (t16_outside a' l' m' p' t) = t16_outside a l m p t"
  by (simp add: t16_outside_def)

lemma t16_drive_cong:
  assumes "t16_wgm t = t16_wgm u" and "t16_tcnt t = t16_tcnt u" and "t16_counting_up t = t16_counting_up u"
  shows "t16_drive t = t16_drive u"
  using assms by (simp add: t16_drive_def t16_non_pwm_def fun_eq_iff split: option.split)

lemma pwm_mux_cong:
  assumes "t16_wgm t = t16_wgm u" and "t16_tcnt t = t16_tcnt u" and "t16_counting_up t = t16_counting_up u"
    and "t16_tccra t = t16_tccra u" and "t16_tccrc t = t16_tccrc u" and "t16_mux t = t16_mux u"
    and "t16_ocra t = t16_ocra u" and "t16_ocrb t = t16_ocrb u" and "t16_ocrc t = t16_ocrc u" and "t16_ocrd t = t16_ocrd u"
    and "t16_pin_a t = t16_pin_a u" and "t16_pin_b t = t16_pin_b u" and "t16_pin_c t = t16_pin_c u" and "t16_pin_d t = t16_pin_d u"
  shows "pwm_mux mt mk t = pwm_mux mt mk u"
  using assms t16_drive_cong[OF assms(1-3)] by (simp add: pwm_mux_def pwm_channel_def com_a_def com_b_def com_c_def)

lemma outside_values [simp]:
  "t16_tcnt (t16_outside a l m p t) = t16_tcnt t" "t16_ocra (t16_outside a l m p t) = t16_ocra t"
  "t16_ocrb (t16_outside a l m p t) = t16_ocrb t" "t16_ocrc (t16_outside a l m p t) = t16_ocrc t"
  "t16_ocrd (t16_outside a l m p t) = t16_ocrd t" "t16_desc (t16_outside a l m p t) = t16_desc t"
  "t16_tccrb (t16_outside a l m p t) = t16_tccrb t" "t16_counting_up (t16_outside a l m p t) = t16_counting_up t"
  "t16_mux (t16_outside a l m p t) = t16_mux t" "pin_icp (t16_outside a l m p t) = pin_icp t"
  "t16_wgm (t16_outside a l m p t) = t16_wgm t" "t16_cs (t16_outside a l m p t) = t16_cs t"
  "rising_edge_selected (t16_outside a l m p t) = rising_edge_selected t"
  "t16_icr (t16_outside a l m p t) = t16_icr t" "t16_tccra (t16_outside a l m p t) = t16_tccra t"
  by (simp_all add: t16_outside_def t16_wgm_def t16_cs_def rising_edge_selected_def)

lemma t16_top_outside [simp]: "t16_top (t16_outside a l m p t) = t16_top t"
  by (simp add: t16_top_def Let_def)

lemma pwm_mux_frame [simp]:
  "pwm_mux mt mk (t\<lparr>t16_accumulator := v0\<rparr>) = pwm_mux mt mk t"
  "pwm_mux mt mk (t\<lparr>t16_last_sync_cycle := v1\<rparr>) = pwm_mux mt mk t"
  "pwm_mux mt mk (t\<lparr>t16_interrupt_pending := v2\<rparr>) = pwm_mux mt mk t"
  "pwm_mux mt mk (t\<lparr>t16_temp := v3\<rparr>) = pwm_mux mt mk t"
  "pwm_mux mt mk (t\<lparr>t16_tifr := v4\<rparr>) = pwm_mux mt mk t"
  "pwm_mux mt mk (t\<lparr>t16_triggers := v5\<rparr>) = pwm_mux mt mk t"
  by (rule pwm_mux_cong; simp add: t16_wgm_def)+

lemma pwm_mux_count_frame [simp]:
  "pwm_mux mt mk (t\<lparr>t16_accumulator := v0, t16_tcnt := c\<rparr>) = pwm_mux mt mk (t\<lparr>t16_tcnt := c\<rparr>)"
  "pwm_mux mt mk (t\<lparr>t16_last_sync_cycle := v1, t16_tcnt := c\<rparr>) = pwm_mux mt mk (t\<lparr>t16_tcnt := c\<rparr>)"
  "pwm_mux mt mk (t\<lparr>t16_interrupt_pending := v2, t16_tcnt := c\<rparr>) = pwm_mux mt mk (t\<lparr>t16_tcnt := c\<rparr>)"
  "pwm_mux mt mk (t\<lparr>t16_temp := v3, t16_tcnt := c\<rparr>) = pwm_mux mt mk (t\<lparr>t16_tcnt := c\<rparr>)"
  by (rule pwm_mux_cong; simp add: t16_wgm_def)+

lemma load_ocr_outside: "load_ocr_if b (t16_outside a l m p t) = t16_outside a l m p (load_ocr_if b t)"
  by (simp add: load_ocr_if_def load_ocr_def t16_outside_def)

lemma t16_match_outside: "t16_match hit fl src (t16_outside a l m p t) = t16_outside a l m p (t16_match hit fl src t)"
  by (simp add: t16_match_def t16_notify_def update_pwm_pins_def t16_outside_def)

lemma t16_match_values [simp]:
  "t16_tcnt (t16_match hit fl src t) = t16_tcnt t" "t16_ocra (t16_match hit fl src t) = t16_ocra t"
  "t16_ocrb (t16_match hit fl src t) = t16_ocrb t" "t16_ocrc (t16_match hit fl src t) = t16_ocrc t"
  "t16_ocrd (t16_match hit fl src t) = t16_ocrd t" "t16_desc (t16_match hit fl src t) = t16_desc t"
  by (simp_all add: t16_match_def t16_notify_def update_pwm_pins_def)

lemma t16_matches_outside: "t16_matches (t16_outside a l m p t) = t16_outside a l m p (t16_matches t)"
  by (simp add: t16_matches_def Let_def t16_match_outside)

lemma fast_overflow_update:
  "fast_overflow t =
     (load_ocr_if (update_ocr_at_top (t16_wgm t)) t)
       \<lparr>t16_tcnt := 0, t16_tifr := t16_tifr t OR 0x01,
        t16_triggers := t16_triggers t @ replicate (t16_adcs t) (t16_overflow_trigger_source (t16_desc t)),
        t16_mux := pwm_mux False 0x07 ((load_ocr_if (update_ocr_at_top (t16_wgm t)) t)\<lparr>t16_tcnt := 0\<rparr>)\<rparr>"
proof -
  have "pwm_mux False 0x07 (t16_notify src (load_ocr_if b (t\<lparr>t16_tcnt := 0, t16_tifr := f\<rparr>))) =
      pwm_mux False 0x07 ((load_ocr_if b t)\<lparr>t16_tcnt := 0\<rparr>)" for src b f
    by (rule pwm_mux_cong) (simp_all add: t16_notify_def load_ocr_if_def load_ocr_def t16_wgm_def)
  then show ?thesis
    by (simp add: fast_overflow_def update_pwm_pins_def) (simp add: t16_notify_def load_ocr_if_def load_ocr_def)
qed

lemma fast_overflow_outside: "fast_overflow (t16_outside a l m p t) = t16_outside a l m p (fast_overflow t)"
  by (simp add: fast_overflow_update load_ocr_outside) (simp add: t16_outside_def load_ocr_if_def load_ocr_def)

lemma t16_count_outside:
  "t16_count (t16_outside a l m p t) = (t16_outside a l m p (fst (t16_count t)), snd (t16_count t))"
  by (simp add: t16_count_def fast_overflow_outside Let_def)
    (simp add: t16_outside_def load_ocr_if_def load_ocr_def t16_notify_def)

definition carries :: "(timer16 \<Rightarrow> timer16) \<Rightarrow> bool" where
  "carries f \<longleftrightarrow> (\<forall>a l m p t. \<exists>q. f (t16_outside a l m p t) = t16_outside a l m q (f t))"

lemma carriesI: "(\<And>a l m p t. f (t16_outside a l m p t) = t16_outside a l m (q t p) (f t)) \<Longrightarrow> carries f"
  by (auto simp: carries_def)

lemma carries_comp: "carries f \<Longrightarrow> carries g \<Longrightarrow> carries (\<lambda>t. f (g t))"
  unfolding carries_def by metis

lemma carries_if:
  assumes "carries f" and "carries g" and "\<And>a l m p t. P (t16_outside a l m p t) = P t"
  shows "carries (\<lambda>t. if P t then f t else g t)"
  using assms by (auto simp: carries_def)

lemma carries_funpow: "carries f \<Longrightarrow> carries (f ^^ n)"
proof (induction n)
  case (Suc n)
  then show ?case using carries_comp[of f "f ^^ n"] by (simp add: o_def)
qed (simp add: carries_def, blast)

lemma carries_temp:
  assumes "carries f"
  shows "t16_temp (f t) = t16_temp t" and "t16_accumulator (f t) = t16_accumulator t"
    and "t16_last_sync_cycle (f t) = t16_last_sync_cycle t"
proof -
  obtain q where "f t = t16_outside (t16_accumulator t) (t16_last_sync_cycle t) (t16_temp t) q (f t)"
    using assms t16_outside_self[of t] unfolding carries_def by metis
  then have "\<And>g. g (f t) = g (t16_outside (t16_accumulator t) (t16_last_sync_cycle t) (t16_temp t) q (f t))" by simp
  from this[of t16_temp] this[of t16_accumulator] this[of t16_last_sync_cycle]
  show "t16_temp (f t) = t16_temp t" "t16_accumulator (f t) = t16_accumulator t"
    "t16_last_sync_cycle (f t) = t16_last_sync_cycle t"
    by (simp_all add: t16_outside_def)
qed

lemma carries_capture: "carries handle_input_capture"
  by (rule carriesI[of _ "\<lambda>t p. t16_interrupt_pending (handle_input_capture t)"])
    (simp add: handle_input_capture_def t16_update_interrupt_state_def t16_asks_def t16_notify_def t16_outside_def)

lemma carries_sets:
  "carries (\<lambda>t. t\<lparr>noise_canceler_counter := c t\<rparr>)" if "\<And>a l m p t. c (t16_outside a l m p t) = c t" for c
  using that by (intro carriesI[of _ "\<lambda>t p. p"]) (simp add: t16_outside_def)

lemma carries_sets_level: "carries (\<lambda>t. t\<lparr>last_icp_state := x\<rparr>)" "carries (\<lambda>t. t)"
  "carries (\<lambda>t. t\<lparr>noise_canceler_register := x, noise_canceler_counter := y\<rparr>)"
  by (rule carriesI[of _ "\<lambda>t p. p"], simp add: t16_outside_def)+

lemma outside_capture_values [simp]:
  "last_icp_state (t16_outside a l m p t) = last_icp_state t"
  "noise_canceler_register (t16_outside a l m p t) = noise_canceler_register t"
  "noise_canceler_counter (t16_outside a l m p t) = noise_canceler_counter t"
  "icp_initialized (t16_outside a l m p t) = icp_initialized t"
  by (simp_all add: t16_outside_def)

lemma carries_edge:
  "carries (\<lambda>t. (if level = rising_edge_selected t then (handle_input_capture t)\<lparr>noise_canceler_counter := 0\<rparr> else t)
     \<lparr>last_icp_state := level\<rparr>)"
  "carries (\<lambda>t. (if level = rising_edge_selected t then handle_input_capture t else t)\<lparr>last_icp_state := level\<rparr>)"
  by (intro carries_comp[OF carries_sets_level(1)] carries_if carries_comp[OF carries_sets carries_capture]
      carries_capture carries_sets_level; simp)+

lemma carries_plain: "carries (plain_sample level)"
proof -
  have "plain_sample level = (\<lambda>t. if level \<noteq> last_icp_state t
      then (if level = rising_edge_selected t then handle_input_capture t else t)\<lparr>last_icp_state := level\<rparr> else t)"
    by (simp add: fun_eq_iff plain_sample_def)
  then show ?thesis by (simp add: carries_if carries_edge carries_sets_level)
qed

lemma carries_noise: "carries (noise_canceled_sample level)"
proof -
  define edge where "edge = (\<lambda>t. (if level = rising_edge_selected t
     then (handle_input_capture t)\<lparr>noise_canceler_counter := 0\<rparr> else t)\<lparr>last_icp_state := level\<rparr>)"
  define more where "more = (\<lambda>t. t\<lparr>noise_canceler_counter := noise_canceler_counter t + 1\<rparr> :: timer16)"
  define again where "again = (\<lambda>t. if noise_canceler_counter t \<ge> 4 \<and> level \<noteq> last_icp_state t then edge t else t)"
  have "noise_canceled_sample level = (\<lambda>t. if level = noise_canceler_register t then again (more t)
      else t\<lparr>noise_canceler_register := level, noise_canceler_counter := 1\<rparr>)"
    by (simp add: fun_eq_iff noise_canceled_sample_def again_def more_def edge_def Let_def)
  moreover have "carries again"
    unfolding again_def edge_def by (intro carries_if carries_edge carries_sets_level) simp
  moreover have "carries more" unfolding more_def by (rule carries_sets) simp
  ultimately show ?thesis by (simp add: carries_if carries_comp[of again more] carries_sets_level)
qed

lemma carries_icp: "carries (sample_icp v)"
proof -
  have "icp_initialize x (t16_outside a l m p t) = t16_outside a l m p (icp_initialize x t)" for x a l m p t
    by (simp add: icp_initialize_def) (simp add: t16_outside_def)
  moreover have "\<exists>q. plain_sample x (t16_outside a l m p t) = t16_outside a l m q (plain_sample x t)"
    "\<exists>q. noise_canceled_sample x (t16_outside a l m p t) = t16_outside a l m q (noise_canceled_sample x t)" for x a l m p t
    using carries_plain[of x] carries_noise[of x] unfolding carries_def by blast+
  ultimately show ?thesis unfolding carries_def sample_icp_def Let_def by auto
qed

lemma carries_tick: "carries (t16_perform_tick v)"
proof -
  have "\<exists>q. sample_icp v (t16_outside a l m p t) = t16_outside a l m q (sample_icp v t)" for a l m p t
    using carries_icp unfolding carries_def by blast
  then show ?thesis
    unfolding carries_def t16_perform_tick_def by (simp add: t16_count_outside split_beta t16_matches_outside)
qed

section \<open>Catching up\<close>

text \<open>Some number of ticks with the interrupt line brought up to date.\<close>

definition t16_run :: "timer16_env \<Rightarrow> nat \<Rightarrow> timer16 \<Rightarrow> timer16" where
  "t16_run v k t = (if k = 0 then t else t16_update_interrupt_state ((t16_perform_tick v ^^ k) t))"

lemma interrupt_state_outside: "\<exists>q. t16_update_interrupt_state t = t16_outside (t16_accumulator t) (t16_last_sync_cycle t) (t16_temp t) q t"
  by (auto simp: t16_update_interrupt_state_def t16_outside_def)

lemma interrupt_state_forgets:
  "t16_update_interrupt_state (t16_outside a l (t16_temp t) p t) =
     (t16_update_interrupt_state t)\<lparr>t16_accumulator := a, t16_last_sync_cycle := l\<rparr>"
  by (simp add: t16_update_interrupt_state_def t16_outside_def t16_asks_def)

lemma run_outside:
  "t16_run v k (t\<lparr>t16_accumulator := a, t16_last_sync_cycle := l\<rparr>) =
     (t16_run v k t)\<lparr>t16_accumulator := a, t16_last_sync_cycle := l\<rparr>"
proof (cases k)
  case (Suc n)
  let ?f = "t16_perform_tick v ^^ k"
  have c: "carries ?f" by (rule carries_funpow[OF carries_tick])
  have "t\<lparr>t16_accumulator := a, t16_last_sync_cycle := l\<rparr> = t16_outside a l (t16_temp t) (t16_interrupt_pending t) t"
    by (simp add: t16_outside_def)
  moreover obtain q where "?f (t16_outside a l (t16_temp t) (t16_interrupt_pending t) t) = t16_outside a l (t16_temp t) q (?f t)"
    using c unfolding carries_def by blast
  moreover have "t16_temp t = t16_temp (?f t)" by (rule carries_temp(1)[OF c, symmetric])
  ultimately have "t16_update_interrupt_state (?f (t\<lparr>t16_accumulator := a, t16_last_sync_cycle := l\<rparr>)) =
      (t16_update_interrupt_state (?f t))\<lparr>t16_accumulator := a, t16_last_sync_cycle := l\<rparr>"
    by (simp only: interrupt_state_forgets)
  then show ?thesis using Suc by (simp only: t16_run_def nat.distinct if_False)
qed (simp add: t16_run_def)

lemma run_add: "t16_run v k2 (t16_run v k1 t) = t16_run v (k1 + k2) t"
proof (cases "k1 = 0 \<or> k2 = 0")
  case False
  let ?f = "\<lambda>k. t16_perform_tick v ^^ k"
  let ?u = "?f k1 t"
  obtain q where "t16_update_interrupt_state ?u =
      t16_outside (t16_accumulator ?u) (t16_last_sync_cycle ?u) (t16_temp ?u) q ?u"
    using interrupt_state_outside by blast
  moreover obtain r where "?f k2 (t16_outside (t16_accumulator ?u) (t16_last_sync_cycle ?u) (t16_temp ?u) q ?u) =
      t16_outside (t16_accumulator ?u) (t16_last_sync_cycle ?u) (t16_temp ?u) r (?f k2 ?u)"
    using carries_funpow[OF carries_tick, of k2] unfolding carries_def by blast
  moreover note carries_temp[OF carries_funpow[OF carries_tick], of k2 v ?u, symmetric]
  ultimately have "t16_update_interrupt_state (?f k2 (t16_update_interrupt_state ?u)) =
      (t16_update_interrupt_state (?f k2 ?u))
        \<lparr>t16_accumulator := t16_accumulator (?f k2 ?u), t16_last_sync_cycle := t16_last_sync_cycle (?f k2 ?u)\<rparr>"
    by (simp only: interrupt_state_forgets)
  then have "t16_update_interrupt_state (?f k2 (t16_update_interrupt_state ?u)) = t16_update_interrupt_state (?f k2 ?u)"
    by (simp add: t16_update_interrupt_state_def)
  moreover have "?f k2 ?u = ?f (k1 + k2) t" unfolding add.commute[of k1 k2] by (simp add: funpow_add)
  ultimately show ?thesis using False by (simp add: t16_run_def)
qed (auto simp: t16_run_def)

definition t16_divisor :: "timer16 \<Rightarrow> u64" where
  "t16_divisor t = ucast (sync_prescalers ! unat (t16_cs t))"

lemma t16_advance_run:
  "t16_advance v n t =
     (if t16_power_reduction v t \<or> t16_cs t = 0 \<or> t16_cs t > 5 then t
      else (t16_run v ((unat (t16_accumulator t + n)) div unat (t16_divisor t)) t)
        \<lparr>t16_accumulator := (t16_accumulator t + n) mod t16_divisor t\<rparr>)"
proof -
  let ?d = "t16_divisor t" and ?s = "t16_accumulator t + n"
  have run: "t16_run v k (t\<lparr>t16_accumulator := a\<rparr>) = (t16_run v k t)\<lparr>t16_accumulator := a\<rparr>" for k a
    using run_outside[where v = v and k = k and t = t and a = a and l = "t16_last_sync_cycle t"]
      carries_temp(3)[OF carries_funpow[OF carries_tick], of k v t]
    by (simp add: t16_run_def t16_update_interrupt_state_def split: if_splits)
  show ?thesis
    unfolding t16_advance_def t16_divisor_def[symmetric] Let_def run[symmetric]
    by (simp add: t16_run_def word_less_nat_alt unat_div)
qed

lemma t16_divisor_pos: "t16_cs t \<noteq> 0 \<Longrightarrow> \<not> t16_cs t > 5 \<Longrightarrow> 0 < unat (t16_divisor t)"
proof -
  assume c: "t16_cs t \<noteq> 0" "\<not> t16_cs t > 5"
  then have "unat (t16_cs t) \<noteq> 0" and "unat (t16_cs t) \<le> 5"
    by (auto simp: unat_eq_zero word_le_nat_alt word_less_nat_alt)
  then have "unat (t16_cs t) \<in> {1, 2, 3, 4, 5}" by auto
  then show ?thesis by (auto simp: t16_divisor_def sync_prescalers_def)
qed

lemma run_control:
  "t16_cs (t16_run v k t) = t16_cs t" "t16_desc (t16_run v k t) = t16_desc t"
proof -
  have load: "t16_tccrb (load_ocr_if b u) = t16_tccrb u" "t16_desc (load_ocr_if b u) = t16_desc u" for b u
    by (simp_all add: load_ocr_if_def load_ocr_def)
  have count: "t16_tccrb (fst (t16_count u)) = t16_tccrb u \<and> t16_desc (fst (t16_count u)) = t16_desc u" for u
    by (simp add: t16_count_def Let_def load t16_notify_def fast_overflow_def update_pwm_pins_def)
  have match: "t16_tccrb (t16_match h f s u) = t16_tccrb u" for h f s u
    by (simp add: t16_match_def t16_notify_def update_pwm_pins_def)
  have sample: "t16_tccrb (sample_icp v u) = t16_tccrb u \<and> t16_desc (sample_icp v u) = t16_desc u" for u
    by (simp add: sample_icp_def Let_def noise_canceled_sample_def plain_sample_def icp_initialize_def
        handle_input_capture_def t16_notify_def t16_update_interrupt_state_def)
  have "t16_tccrb (t16_perform_tick v u) = t16_tccrb u \<and> t16_desc (t16_perform_tick v u) = t16_desc u" for u
    by (simp add: t16_perform_tick_def split_beta sample count match t16_matches_def Let_def)
  then have "t16_tccrb ((t16_perform_tick v ^^ k) t) = t16_tccrb t \<and> t16_desc ((t16_perform_tick v ^^ k) t) = t16_desc t"
    by (induction k) simp_all
  then show "t16_cs (t16_run v k t) = t16_cs t" "t16_desc (t16_run v k t) = t16_desc t"
    by (simp_all add: t16_run_def t16_cs_def t16_update_interrupt_state_def)
qed

lemma t16_env_now:
  "t16_power_reduction (v\<lparr>env16_now := n\<rparr>) t = t16_power_reduction v t"
  "t16_run (v\<lparr>env16_now := n\<rparr>) k t = t16_run v k t"
proof -
  have "sample_icp (v\<lparr>env16_now := n\<rparr>) = sample_icp v" by (simp add: fun_eq_iff sample_icp_def Let_def)
  then have "t16_perform_tick (v\<lparr>env16_now := n\<rparr>) = t16_perform_tick v" by (simp add: fun_eq_iff t16_perform_tick_def)
  then show "t16_run (v\<lparr>env16_now := n\<rparr>) k t = t16_run v k t" by (simp add: t16_run_def)
qed (simp add: t16_power_reduction_def)

text \<open>
  The timer may be brought up to date at any time in between: an access at one cycle and then
  another at a later one leave it as the later access alone, so its lazy synchronisation cannot
  be told from ticking it cycle by cycle.
\<close>

theorem t16_sync_additive:
  assumes order: "t16_last_sync_cycle t \<le> n1" "n1 \<le> n2"
    and room: "unat (t16_accumulator t) + unat n2 < 2 ^ 64"
  shows "t16_sync (v\<lparr>env16_now := n2\<rparr>) (t16_sync (v\<lparr>env16_now := n1\<rparr>) t) = t16_sync (v\<lparr>env16_now := n2\<rparr>) t"
proof (cases "t16_last_sync_cycle t = n1 \<or> n1 = n2")
  case True
  have "t16_last_sync_cycle (t16_sync (v\<lparr>env16_now := n1\<rparr>) t) = n1"
    using order(1) carries_temp(3)[OF carries_funpow[OF carries_tick]]
    by (auto simp: t16_sync_def t16_advance_def t16_update_interrupt_state_def Let_def)
  then show ?thesis using True by (auto simp: t16_sync_def)
next
  case False
  define l a where "l = t16_last_sync_cycle t" and "a = t16_accumulator t"
  have lt: "l < n1" "n1 < n2" using False order by (auto simp: l_def)
  let ?stop = "t16_power_reduction v t \<or> t16_cs t = 0 \<or> t16_cs t > 5"
  let ?D = "t16_divisor t"
  have last: "t16_last_sync_cycle (t16_run v k u) = t16_last_sync_cycle u" for k u
    using carries_temp(3)[OF carries_funpow[OF carries_tick]] by (simp add: t16_run_def t16_update_interrupt_state_def)
  have acc: "t16_run v k (u\<lparr>t16_last_sync_cycle := m\<rparr>) = (t16_run v k u)\<lparr>t16_last_sync_cycle := m\<rparr>" for k u m
    using run_outside[where v = v and k = k and t = u and a = "t16_accumulator u" and l = m]
      carries_temp(2)[OF carries_funpow[OF carries_tick], of k v u]
    by (simp add: t16_run_def t16_update_interrupt_state_def split: if_splits)
  have adv: "t16_advance (v\<lparr>env16_now := m\<rparr>) e u =
      (if t16_power_reduction v u \<or> t16_cs u = 0 \<or> t16_cs u > 5 then u
       else (t16_run v (unat (t16_accumulator u + e) div unat (t16_divisor u)) u)
         \<lparr>t16_accumulator := (t16_accumulator u + e) mod t16_divisor u\<rparr>)" for m e u
    by (simp only: t16_advance_run t16_env_now)
  have pr: "t16_power_reduction v (u\<lparr>t16_last_sync_cycle := m\<rparr>) = t16_power_reduction v u"
    "t16_cs (u\<lparr>t16_last_sync_cycle := m\<rparr>) = t16_cs u" "t16_divisor (u\<lparr>t16_last_sync_cycle := m\<rparr>) = t16_divisor u"
    "t16_power_reduction v (u\<lparr>t16_accumulator := m\<rparr>) = t16_power_reduction v u"
    "t16_cs (u\<lparr>t16_accumulator := m\<rparr>) = t16_cs u" "t16_divisor (u\<lparr>t16_accumulator := m\<rparr>) = t16_divisor u"
    for u m
    by (simp_all add: t16_power_reduction_def t16_cs_def t16_divisor_def)
  show ?thesis
  proof (cases ?stop)
    case True
    then show ?thesis using lt by (auto simp: t16_sync_def l_def[symmetric] adv pr)
  next
    case go: False
    define k1 r1 where "k1 = unat (a + (n1 - l)) div unat ?D" and "r1 = (a + (n1 - l)) mod ?D"
    let ?k2 = "unat (r1 + (n2 - n1)) div unat ?D"
    have D: "0 < unat ?D" using go by (auto intro: t16_divisor_pos)
    have ds: "unat (a + (n1 - l)) = unat a + (unat n1 - unat l)" "unat (n2 - n1) = unat n2 - unat n1"
      "unat (a + (n2 - l)) = unat a + (unat n2 - unat l)"
      using lt room by (simp_all add: a_def unat_word_ariths unat_sub word_less_nat_alt word_le_nat_alt)
    have r1: "unat r1 = (unat a + (unat n1 - unat l)) mod unat ?D" by (simp add: r1_def unat_mod ds)
    have "unat r1 \<le> unat a + (unat n1 - unat l)" by (simp add: r1)
    then have "unat (r1 + (n2 - n1)) = unat r1 + (unat n2 - unat n1)"
      using room lt ds(2) by (simp add: a_def unat_word_ariths word_less_nat_alt)
    moreover have "unat a + (unat n2 - unat l) = unat a + (unat n1 - unat l) + (unat n2 - unat n1)"
      using lt by (simp add: word_less_nat_alt)
    ultimately have whole: "unat (a + (n2 - l)) = k1 * unat ?D + unat (r1 + (n2 - n1))"
      by (simp add: ds k1_def r1)
    then have ticks: "unat (a + (n2 - l)) div unat ?D = k1 + ?k2"
      and rest: "(a + (n2 - l)) mod ?D = (r1 + (n2 - n1)) mod ?D"
      using D by (simp_all add: word_unat_eq_iff unat_mod)
    have one: "t16_sync (v\<lparr>env16_now := n1\<rparr>) t = (t16_run v k1 t)\<lparr>t16_last_sync_cycle := n1, t16_accumulator := r1\<rparr>"
      using go lt by (simp add: t16_sync_def adv pr acc l_def[symmetric] a_def[symmetric] k1_def r1_def)
    have two: "t16_sync (v\<lparr>env16_now := n2\<rparr>) t =
        (t16_run v (k1 + ?k2) t)\<lparr>t16_last_sync_cycle := n2, t16_accumulator := (r1 + (n2 - n1)) mod ?D\<rparr>"
      using go lt by (simp add: t16_sync_def adv pr acc l_def[symmetric] a_def[symmetric] ticks rest)
    let ?u = "(t16_run v k1 t)\<lparr>t16_last_sync_cycle := n1, t16_accumulator := r1\<rparr>"
    have u: "t16_divisor (t16_run v k1 t) = ?D" "t16_cs (t16_run v k1 t) = t16_cs t"
      "t16_power_reduction v (t16_run v k1 t) = t16_power_reduction v t"
      using run_control[of v k1 t] by (simp_all add: t16_divisor_def t16_power_reduction_def)
    have "t16_run v ?k2 (?u\<lparr>t16_last_sync_cycle := n2\<rparr>) =
        (t16_run v (k1 + ?k2) t)\<lparr>t16_accumulator := r1, t16_last_sync_cycle := n2\<rparr>"
      using run_outside[where v = v and k = ?k2 and t = "t16_run v k1 t" and a = r1 and l = n2] by (simp add: run_add)
    then show ?thesis
      unfolding one two using go lt u by (simp add: t16_sync_def adv pr)
  qed
qed

section \<open>Counting\<close>

lemma t16_wgm_load [simp]: "t16_tcnt (load_ocr_if b u) = t16_tcnt u" "t16_ocra (load_ocr_if False u) = t16_ocra u"
  "t16_tccra (load_ocr_if b u) = t16_tccra u" "t16_tccrb (load_ocr_if b u) = t16_tccrb u"
  "t16_desc (load_ocr_if b u) = t16_desc u"
  by (simp_all add: load_ocr_if_def load_ocr_def)

definition t16_mode_of :: "timer16 \<Rightarrow> u16 \<times> u16 \<times> u8 \<times> u8 \<times> timer16_descriptor" where
  "t16_mode_of t = (t16_tcnt t, t16_ocra t, t16_tccra t, t16_tccrb t, t16_desc t)"

lemma sample_mode [simp]:
  "t16_mode_of (handle_input_capture u) = t16_mode_of u" "t16_mode_of (icp_initialize l u) = t16_mode_of u"
  "t16_mode_of (u\<lparr>last_icp_state := l\<rparr>) = t16_mode_of u" "t16_mode_of (u\<lparr>noise_canceler_counter := c\<rparr>) = t16_mode_of u"
  "t16_mode_of (u\<lparr>noise_canceler_register := l\<rparr>) = t16_mode_of u"
  by (simp_all add: t16_mode_of_def handle_input_capture_def t16_notify_def t16_update_interrupt_state_def
      icp_initialize_def)

lemma level_mode [simp]: "t16_mode_of (noise_canceled_sample l u) = t16_mode_of u" "t16_mode_of (plain_sample l u) = t16_mode_of u"
  by (simp_all add: noise_canceled_sample_def plain_sample_def Let_def)

lemma sample_icp_mode: "t16_mode_of (sample_icp v u) = t16_mode_of u"
  by (simp add: sample_icp_def Let_def)

lemma t16_matches_mode: "t16_mode_of (t16_matches u) = t16_mode_of u"
proof -
  have "t16_mode_of (t16_match h f s u) = t16_mode_of u" for h f s u
    by (simp add: t16_mode_of_def t16_match_def t16_notify_def update_pwm_pins_def)
  then show ?thesis by (simp add: t16_matches_def Let_def)
qed

lemma perform_tick_mode: "t16_mode_of (t16_perform_tick v t) = t16_mode_of (fst (t16_count t))"
  by (simp add: t16_perform_tick_def split_beta sample_icp_mode t16_matches_mode)

lemma plain_tick:
  assumes "t16_wgm t = 0 \<or> t16_wgm t = 4"
  shows "t16_tcnt (t16_perform_tick v t) = (if t16_tcnt t \<ge> t16_top t then 0 else t16_tcnt t + 1)"
    and "t16_wgm (t16_perform_tick v t) = t16_wgm t" and "t16_top (t16_perform_tick v t) = t16_top t"
proof -
  let ?u = "t16_perform_tick v t"
  have np: "\<not> t16_phase_correct (t16_wgm t)" "\<not> update_ocr_at_top (t16_wgm t)"
    using assms by (auto simp: t16_phase_correct_def update_ocr_at_top_def)
  then have c: "fst (t16_count t) = (if t16_tcnt t \<ge> t16_top t then fast_overflow t else t\<lparr>t16_tcnt := t16_tcnt t + 1\<rparr>)"
    by (simp add: t16_count_def Let_def)
  have count: "t16_tcnt (fst (t16_count t)) = (if t16_tcnt t \<ge> t16_top t then 0 else t16_tcnt t + 1)"
    "t16_ocra (fst (t16_count t)) = t16_ocra t" "t16_tccra (fst (t16_count t)) = t16_tccra t"
    "t16_tccrb (fst (t16_count t)) = t16_tccrb t" "t16_desc (fst (t16_count t)) = t16_desc t"
    unfolding c by (simp_all add: fast_overflow_update np)
  have keep: "t16_tcnt ?u = (if t16_tcnt t \<ge> t16_top t then 0 else t16_tcnt t + 1)" "t16_ocra ?u = t16_ocra t"
    "t16_tccra ?u = t16_tccra t" "t16_tccrb ?u = t16_tccrb t" "t16_desc ?u = t16_desc t"
    using perform_tick_mode[of v t] count by (simp_all add: t16_mode_of_def)
  show w: "t16_wgm ?u = t16_wgm t" by (simp add: t16_wgm_def keep)
  show "t16_tcnt ?u = (if t16_tcnt t \<ge> t16_top t then 0 else t16_tcnt t + 1)" by (rule keep(1))
  show "t16_top ?u = t16_top t" using assms w keep(2) by (auto simp: t16_top_def)
qed

text \<open>In the normal mode and in CTC with OCRA the counter counts modulo its top plus one.\<close>

theorem t16_counts:
  assumes mode: "t16_wgm t = 0 \<or> t16_wgm t = 4" and low: "t16_tcnt t \<le> t16_top t"
  shows "unat (t16_tcnt ((t16_perform_tick v ^^ n) t)) = (unat (t16_tcnt t) + n) mod Suc (unat (t16_top t))"
proof -
  let ?p = "unat (t16_top t)"
  have "unat (t16_tcnt ((t16_perform_tick v ^^ n) t)) = (unat (t16_tcnt t) + n) mod Suc ?p
      \<and> t16_wgm ((t16_perform_tick v ^^ n) t) = t16_wgm t \<and> t16_top ((t16_perform_tick v ^^ n) t) = t16_top t"
  proof (induction n)
    case 0
    from low show ?case by (simp add: word_le_nat_alt)
  next
    case (Suc n)
    let ?s = "(t16_perform_tick v ^^ n) t"
    note s = Suc[THEN conjunct1] Suc[THEN conjunct2, THEN conjunct1] Suc[THEN conjunct2, THEN conjunct2]
    have m: "t16_wgm ?s = 0 \<or> t16_wgm ?s = 4" using mode s(2) by simp
    have "unat (t16_tcnt ?s) < Suc ?p" using s(1) by simp
    moreover have "unat (t16_tcnt ?s + 1) = Suc (unat (t16_tcnt ?s))" if "unat (t16_tcnt ?s) < ?p"
      using that u16_less[of "t16_top t"] by (simp add: unat_word_ariths)
    ultimately have "unat (t16_tcnt (t16_perform_tick v ?s)) =
        (if unat (t16_tcnt ?s) = ?p then 0 else Suc (unat (t16_tcnt ?s)))"
      by (auto simp: plain_tick(1)[OF m] s(3) word_le_nat_alt)
    then show ?case using plain_tick(2,3)[OF m] s by (simp add: mod_Suc)
  qed
  then show ?thesis ..
qed

text \<open>The high byte latched by a read of TCNTL is the one a later read of TCNTH returns.\<close>

theorem t16_read_atomic:
  fixes t :: timer16
  defines "d \<equiv> t16_desc t"
  assumes temp: "\<not> t16_use_tc1h t" and wrap: "t16_tcnt_address d \<noteq> 0xFFFF"
    and now: "t16_last_sync_cycle t = env16_now v"
  shows "t16_read_register (t16_tcnt_address d + 1)
      (t16_run w k (snd (t16_read v (t16_tcnt_address d) t))) =
    (ucast (drop_bit 8 (t16_tcnt t)), t16_run w k (snd (t16_read v (t16_tcnt_address d) t)))"
    and "fst (t16_read v (t16_tcnt_address d) t) = ucast (t16_tcnt t AND 0xFF)"
proof -
  let ?t = "t\<lparr>t16_temp := ucast (drop_bit 8 (t16_tcnt t))\<rparr>"
  have sync: "t16_sync v t = t" using now by (simp add: t16_sync_def)
  have low: "t16_read v (t16_tcnt_address d) t = (ucast (t16_tcnt t AND 0xFF), ?t)"
    using temp by (simp add: t16_read_def sync d_def t16_read_register_def t16_latch_def)
  have "t16_temp (t16_run w k ?t) = t16_temp ?t"
    using carries_temp(1)[OF carries_funpow[OF carries_tick], of k w ?t]
    by (simp add: t16_run_def t16_update_interrupt_state_def)
  moreover have "t16_desc (t16_run w k ?t) = d" using run_control(2)[of w k ?t] by (simp add: d_def)
  moreover have "second_of (t16_tcnt_address d + 1) (t16_tcnt_address d)"
  proof -
    have "unat (t16_tcnt_address d) + 1 < 2 ^ 16"
      using wrap u16_less[of "t16_tcnt_address d"] by (simp add: word_unat_eq_iff)
    then show ?thesis by (simp add: second_of_def unat_word_ariths)
  qed
  moreover have "t16_tcnt_address d + 1 \<noteq> t16_tcnt_address d" by simp
  moreover have "t16_read_register (t16_tcnt_address d + 1) s = (t16_temp s, s)"
    if "t16_desc s = d" "second_of (t16_tcnt_address d + 1) (t16_tcnt_address d)" for s
    using that temp by (simp add: t16_read_register_def t16_high_def t16_use_tc1h_def d_def[symmetric])
  ultimately show "t16_read_register (t16_tcnt_address d + 1) (t16_run w k (snd (t16_read v (t16_tcnt_address d) t))) =
      (ucast (drop_bit 8 (t16_tcnt t)), t16_run w k (snd (t16_read v (t16_tcnt_address d) t)))"
    by (simp add: low)
  show "fst (t16_read v (t16_tcnt_address d) t) = ucast (t16_tcnt t AND 0xFF)" by (simp add: low)
qed

section \<open>What the compare outputs do\<close>

text \<open>
  A match of one channel updates the pins of all: with OC1A set to toggle, a match of OCR1B
  toggles OC1A.
\<close>

lemma match_b_toggles_a:
  assumes "t16_non_pwm t" and "com_a t = 1" and "t16_pin_a t = Some (a, b)"
    and "t16_pin_b t = None" and "t16_pin_c t = None"
    and "t16_tcnt t = t16_ocrb t" and "t16_tcnt t \<noteq> t16_ocra t"
    and "t16_ocrc_address (t16_desc t) = 0" and "t16_ocrd_address (t16_desc t) = 0"
  shows "t16_mux (t16_matches t) =
    drive_pin a b (\<not> ps_drive_level (get_state_by_address (t16_mux t) a b)) (t16_mux t)"
proof -
  have "t16_matches t = t16_match True 0x04 (t16_compare_b_trigger_source (t16_desc t)) t"
    using assms(6-9) by (simp add: t16_matches_def t16_match_def Let_def t16_notify_def update_pwm_pins_def)
  then have "t16_mux (t16_matches t) = pwm_mux True 0x07 t"
    by (simp add: t16_match_def t16_notify_def update_pwm_pins_def)
  also have "\<dots> = t16_drive t True (Some (a, b)) 1 (t16_ocra t) (t16_mux t)"
    using assms(2-5) by (simp add: pwm_mux_def pwm_channel_def) (simp add: t16_drive_def)
  finally show ?thesis using assms(1) by (simp add: t16_drive_def)
qed

text \<open>The default channel mask leaves channel D out, so no tick ever drives its pin.\<close>

lemma channel_d_never_driven: "pwm_mux is_match 0x07 (t\<lparr>t16_pin_d := p\<rparr>) = pwm_mux is_match 0x07 t"
proof -
  have "t16_drive (t\<lparr>t16_pin_d := p\<rparr>) = t16_drive t" by (rule t16_drive_cong) (simp_all add: t16_wgm_def)
  then show ?thesis by (simp add: pwm_mux_def pwm_channel_def com_a_def com_b_def com_c_def)
qed

text \<open>A tick of the T1 clock sets flags but leaves the interrupt line as it was.\<close>

lemma external_clock_line:
  assumes "t16_cs t > 5" and "pin_icp t = None"
  shows "t16_interrupt_pending (snd (t16_on_external_pin_change v address b high t)) = t16_interrupt_pending t"
proof -
  have "t16_interrupt_pending (t16_perform_tick v u) = t16_interrupt_pending u" if "pin_icp u = None" for u
  proof -
    have "pin_icp (fst (t16_count u)) = None" "t16_interrupt_pending (fst (t16_count u)) = t16_interrupt_pending u"
      using that by (simp_all add: t16_count_def Let_def load_ocr_if_def load_ocr_def t16_notify_def fast_overflow_def
          update_pwm_pins_def)
    moreover have "pin_icp (t16_matches w) = pin_icp w \<and> t16_interrupt_pending (t16_matches w) = t16_interrupt_pending w" for w
      by (simp add: t16_matches_def Let_def) (simp add: t16_match_def t16_notify_def update_pwm_pins_def)
    ultimately show ?thesis by (simp add: t16_perform_tick_def split_beta sample_icp_def)
  qed
  moreover have "t16_sync v t = t \<or> t16_sync v t = t\<lparr>t16_last_sync_cycle := env16_now v\<rparr>"
    using assms(1) by (simp add: t16_sync_def t16_advance_def t16_cs_def)
  ultimately show ?thesis using assms(2) by (auto simp: t16_on_external_pin_change_def Let_def)
qed

end
