(* ===== verification/Tcb.thy ===== *)
theory Tcb
  imports Regmap Periph
begin

text \<open>
  \<open>Tcb\<close> (\<open>src/core/tcb.cpp\<close>): the 16-bit timer type B with its measurement modes, clocked by the
  CPU clock, by a sibling TCA or TCE, or by events.  The family of the device and what the
  siblings supply are an argument; the port multiplexer and the bus are represented by what
  they were last told.
\<close>

section \<open>State\<close>

record tcb_descriptor =
  tcb_ctrla_address :: u16
  tcb_ctrlb_address :: u16
  tcb_evctrl_address :: u16
  tcb_intctrl_address :: u16
  tcb_intflags_address :: u16
  tcb_status_address :: u16
  tcb_dbgctrl_address :: u16
  tcb_temp_address :: u16
  tcb_cnt_address :: u16
  tcb_ccmp_address :: u16
  tcb_vector_index :: u8

record tcb =
  tcb_desc :: tcb_descriptor
  tcb_ctrla :: u8
  tcb_ctrlb :: u8
  tcb_evctrl :: u8
  tcb_intctrl :: u8
  tcb_intflags :: u8
  tcb_status :: u8
  tcb_dbgctrl :: u8
  tcb_temp :: u8
  tcb_cnt :: u16
  ccmp :: u16
  tcb_prescaler :: u32
  tcb_has_port_mux :: bool
  tcb_waveform :: "(bool \<times> bool) option"
  tcb_interrupt_pending :: bool
  tcb_active :: bool

text \<open>What \<open>get_peripheral_by_name\<close> finds: nothing, a TCA, which may be clocked by events, or a TCE.\<close>

datatype tcb_sibling = No_sibling | Event_clocked_tca | Prescaled_tca u32 | Sibling_tce u64

record tcb_env =
  env_family :: nvm_family
  env_sibling :: "string \<Rightarrow> tcb_sibling"

definition tcb_registers :: "tcb_descriptor \<Rightarrow> u16 list" where
  "tcb_registers d =
     [tcb_ctrla_address d, tcb_ctrlb_address d, tcb_evctrl_address d, tcb_intctrl_address d, tcb_intflags_address d,
      tcb_status_address d, tcb_dbgctrl_address d, tcb_temp_address d, tcb_cnt_address d, tcb_cnt_address d + 1,
      tcb_ccmp_address d, tcb_ccmp_address d + 1]"

definition tcb_ranges :: "tcb_descriptor \<Rightarrow> address_range list" where
  "tcb_ranges d =
     (if tcb_ctrla_address d = 0 then []
      else used_ranges (array_ranges 8 (filter (\<lambda>a. a \<noteq> 0) (tcb_registers d))))"

section \<open>Conditions\<close>

definition tcb_enabled :: "tcb \<Rightarrow> bool" where
  "tcb_enabled t \<longleftrightarrow> tcb_ctrla t AND 0x01 \<noteq> 0"

definition tcb_mode :: "tcb \<Rightarrow> u8" where
  "tcb_mode t = tcb_ctrlb t AND 0x07"

definition clksel_width :: "tcb_env \<Rightarrow> u8" where
  "clksel_width v = (if env_family v = Dx \<or> env_family v = Ex then 3 else 2)"

definition effective_clksel :: "tcb_env \<Rightarrow> tcb \<Rightarrow> u8" where
  "effective_clksel v t = drop_bit 1 (tcb_ctrla t) AND (if clksel_width v = 3 then 0x07 else 0x03)"

definition sibling_tca_divisor :: "tcb_env \<Rightarrow> string \<Rightarrow> u32" where
  "sibling_tca_divisor v nm =
     (case env_sibling v nm of
        No_sibling \<Rightarrow> 0
      | Event_clocked_tca \<Rightarrow> 0
      | Prescaled_tca d \<Rightarrow> d
      | Sibling_tce d \<Rightarrow> if d > 0xFFFFFFFF then 0 else ucast d)"

definition is_event_cascaded :: "tcb_env \<Rightarrow> string \<Rightarrow> tcb \<Rightarrow> bool" where
  "is_event_cascaded v nm t \<longleftrightarrow>
     (effective_clksel v t = 2 \<or> clksel_width v = 3 \<and> effective_clksel v t = 3) \<and>
     env_sibling v nm = Event_clocked_tca"

definition first_sibling :: "tcb_env \<Rightarrow> string" where
  "first_sibling v = (if env_family v = Ex then ''TCE0'' else ''TCA0'')"

definition tcb_update_interrupt_state :: "tcb \<Rightarrow> tcb" where
  "tcb_update_interrupt_state t =
     t\<lparr>tcb_interrupt_pending := tcb_intflags t AND 0x01 \<noteq> 0 \<and> tcb_intctrl t AND 0x01 \<noteq> 0\<rparr>"

definition tcb_update_active_state :: "tcb \<Rightarrow> tcb" where
  "tcb_update_active_state t = t\<lparr>tcb_active := tcb_enabled t\<rparr>"

definition get_wo_level :: "tcb \<Rightarrow> bool" where
  "get_wo_level t \<longleftrightarrow>
     tcb_enabled t \<and>
     (if tcb_mode t = 0 then tcb_cnt t < ccmp t
      else if tcb_mode t = 7 then tcb_cnt t AND 0xFF < drop_bit 8 (ccmp t)
      else if tcb_mode t = 2 then tcb_cnt t < ccmp t
      else False)"

definition tcb_update_outputs :: "tcb \<Rightarrow> tcb" where
  "tcb_update_outputs t =
     (if tcb_has_port_mux t then t\<lparr>tcb_waveform := Some (get_wo_level t, tcb_ctrlb t AND 0x10 \<noteq> 0)\<rparr> else t)"

definition tcb_on_routing_changed :: "tcb \<Rightarrow> tcb" where
  "tcb_on_routing_changed t = tcb_update_outputs t"

definition tcb_on_power_state_change :: "tcb \<Rightarrow> tcb" where
  "tcb_on_power_state_change t = tcb_update_active_state t"

definition tcb_reset :: "tcb \<Rightarrow> tcb" where
  "tcb_reset t =
     tcb_update_active_state (tcb_update_interrupt_state
       (t\<lparr>tcb_ctrla := 0, tcb_ctrlb := 0, tcb_evctrl := 0, tcb_intctrl := 0, tcb_intflags := 0, tcb_status := 0,
          tcb_dbgctrl := 0, tcb_temp := 0, tcb_cnt := 0, ccmp := 0, tcb_prescaler := 0\<rparr>))"

section \<open>Registers\<close>

definition tcb_latch :: "u16 \<Rightarrow> tcb \<Rightarrow> u8 \<times> tcb" where
  "tcb_latch w t = (ucast (w AND 0xFF), t\<lparr>tcb_temp := ucast (drop_bit 8 w AND 0xFF)\<rparr>)"

definition tcb_read :: "u16 \<Rightarrow> tcb \<Rightarrow> u8 \<times> tcb" where
  "tcb_read address t =
     (let d = tcb_desc t
      in if address = tcb_ctrla_address d then (tcb_ctrla t, t)
         else if address = tcb_ctrlb_address d then (tcb_ctrlb t, t)
         else if address = tcb_evctrl_address d then (tcb_evctrl t, t)
         else if address = tcb_intctrl_address d then (tcb_intctrl t, t)
         else if address = tcb_intflags_address d then (tcb_intflags t, t)
         else if address = tcb_status_address d then (tcb_status t, t)
         else if address = tcb_dbgctrl_address d then (tcb_dbgctrl t, t)
         else if address = tcb_temp_address d then (tcb_temp t, t)
         else if address = tcb_cnt_address d then tcb_latch (tcb_cnt t) t
         else if second_of address (tcb_cnt_address d) then (tcb_temp t, t)
         else if address = tcb_ccmp_address d then tcb_latch (ccmp t) t
         else if second_of address (tcb_ccmp_address d) then (tcb_temp t, t)
         else (0, t))"

definition set_high :: "u16 \<Rightarrow> u8 \<Rightarrow> u16" where
  "set_high w v = (w AND 0x00FF) OR push_bit 8 (ucast v)"

definition set_low :: "u16 \<Rightarrow> u8 \<Rightarrow> u16" where
  "set_low w v = (w AND 0xFF00) OR ucast v"

definition tcb_write :: "u16 \<Rightarrow> u8 \<Rightarrow> tcb \<Rightarrow> tcb" where
  "tcb_write address v t =
     (let d = tcb_desc t
      in tcb_update_outputs
        (if address = tcb_ctrla_address d then tcb_update_active_state (t\<lparr>tcb_ctrla := v\<rparr>)
         else if address = tcb_ctrlb_address d then t\<lparr>tcb_ctrlb := v\<rparr>
         else if address = tcb_evctrl_address d then t\<lparr>tcb_evctrl := v\<rparr>
         else if address = tcb_intctrl_address d then tcb_update_interrupt_state (t\<lparr>tcb_intctrl := v\<rparr>)
         else if address = tcb_intflags_address d
         then tcb_update_interrupt_state (t\<lparr>tcb_intflags := tcb_intflags t AND NOT v\<rparr>)
         else if address = tcb_temp_address d then t\<lparr>tcb_temp := v\<rparr>
         else if second_of address (tcb_cnt_address d) then t\<lparr>tcb_cnt := set_high (tcb_cnt t) v\<rparr>
         else if address = tcb_cnt_address d then t\<lparr>tcb_cnt := set_low (tcb_cnt t) v\<rparr>
         else if second_of address (tcb_ccmp_address d) then t\<lparr>ccmp := set_high (ccmp t) v\<rparr>
         else if address = tcb_ccmp_address d then t\<lparr>ccmp := set_low (ccmp t) v\<rparr>
         else t))"

section \<open>Counting\<close>

definition tcb_capture_flag :: "tcb \<Rightarrow> tcb" where
  "tcb_capture_flag t = t\<lparr>tcb_intflags := tcb_intflags t OR 0x01\<rparr>"

definition tcb_perform_tick :: "tcb \<Rightarrow> tcb" where
  "tcb_perform_tick t =
     (let mode = tcb_mode t
      in if mode = 0
         then if tcb_cnt t \<ge> ccmp t then tcb_capture_flag (t\<lparr>tcb_cnt := 0\<rparr>) else t\<lparr>tcb_cnt := tcb_cnt t + 1\<rparr>
         else if mode = 1
         then if tcb_status t AND 0x01 \<noteq> 0
              then let t = t\<lparr>tcb_cnt := tcb_cnt t + 1\<rparr>
                   in if tcb_cnt t \<ge> ccmp t then (tcb_capture_flag t)\<lparr>tcb_status := tcb_status t AND NOT 0x01\<rparr> else t
              else t
         else if mode = 7
         then let per = ccmp t AND 0xFF; low = tcb_cnt t AND 0xFF
              in if low \<ge> per then tcb_capture_flag (t\<lparr>tcb_cnt := tcb_cnt t AND 0xFF00\<rparr>)
                 else t\<lparr>tcb_cnt := (tcb_cnt t AND 0xFF00) OR (low + 1)\<rparr>
         else if mode = 6
         then if tcb_cnt t \<ge> ccmp t
              then tcb_capture_flag (t\<lparr>tcb_cnt := 0, tcb_ctrla := tcb_ctrla t AND NOT 0x01\<rparr>)
              else t\<lparr>tcb_cnt := tcb_cnt t + 1\<rparr>
         else let t = t\<lparr>tcb_cnt := tcb_cnt t + 1\<rparr> in if tcb_cnt t = 0 then tcb_capture_flag t else t)"

text \<open>One clock of the loop of \<open>tick\<close>, with \<open>ticked\<close>.\<close>

definition tcb_cycle :: "u32 \<Rightarrow> tcb \<times> bool \<Rightarrow> tcb \<times> bool" where
  "tcb_cycle divisor s =
     (let t = (fst s)\<lparr>tcb_prescaler := tcb_prescaler (fst s) + 1\<rparr>
      in if tcb_prescaler t \<ge> divisor then (tcb_perform_tick (t\<lparr>tcb_prescaler := 0\<rparr>), True) else (t, snd s))"

definition tcb_divisor :: "tcb_env \<Rightarrow> tcb \<Rightarrow> u32" where
  "tcb_divisor v t =
     (let clksel = effective_clksel v t
      in if clksel = 0 then 1
         else if clksel = 1 then 2
         else if clksel = 2 then sibling_tca_divisor v (first_sibling v)
         else if clksel = 3 \<and> clksel_width v = 3 \<and> env_family v = Dx then sibling_tca_divisor v ''TCA1''
         else 0)"

definition tcb_tick :: "tcb_env \<Rightarrow> u64 \<Rightarrow> tcb \<Rightarrow> tcb" where
  "tcb_tick v elapsed t =
     (if \<not> tcb_enabled t then t
      else let divisor = tcb_divisor v t;
               (t, ticked) = (if divisor \<noteq> 0 then (tcb_cycle divisor ^^ unat elapsed) (t, False) else (t, False));
               t = (if ticked then tcb_update_interrupt_state t else t)
           in tcb_update_outputs t)"

definition on_cascade_clock :: "tcb_env \<Rightarrow> tcb \<Rightarrow> tcb" where
  "on_cascade_clock v t =
     (if \<not> tcb_enabled t then t
      else if is_event_cascaded v (if effective_clksel v t = 3 then ''TCA1'' else first_sibling v) t
      then tcb_update_outputs (tcb_update_interrupt_state (tcb_perform_tick t))
      else t)"

section \<open>Events\<close>

definition tcb_match_edge :: "bool \<Rightarrow> tcb \<Rightarrow> bool" where
  "tcb_match_edge level t \<longleftrightarrow> level \<noteq> (tcb_evctrl t AND 0x10 \<noteq> 0)"

definition tcb_capture :: "bool \<Rightarrow> tcb \<Rightarrow> tcb" where
  "tcb_capture match_edge t =
     (let mode = tcb_mode t
      in if mode = 1
         then if match_edge
              then if tcb_status t AND 0x01 \<noteq> 0 then t\<lparr>tcb_status := tcb_status t AND NOT 0x01\<rparr>
                   else t\<lparr>tcb_cnt := 0, tcb_status := tcb_status t OR 0x01\<rparr>
              else t
         else if mode = 2 \<or> mode = 0
         then if match_edge then tcb_update_interrupt_state (tcb_capture_flag (t\<lparr>ccmp := tcb_cnt t\<rparr>)) else t
         else if mode = 3
         then if match_edge then tcb_update_interrupt_state (tcb_capture_flag (t\<lparr>ccmp := tcb_cnt t, tcb_cnt := 0\<rparr>))
              else t
         else if mode = 4 \<or> mode = 5
         then if match_edge then t\<lparr>tcb_cnt := 0, tcb_status := tcb_status t OR 0x01\<rparr>
              else if tcb_status t AND 0x01 \<noteq> 0
              then tcb_update_interrupt_state
                     (tcb_capture_flag (t\<lparr>ccmp := tcb_cnt t, tcb_status := tcb_status t AND NOT 0x01\<rparr>))
              else t
         else t)"

definition tcb_on_event :: "tcb_env \<Rightarrow> bool \<Rightarrow> tcb \<Rightarrow> tcb" where
  "tcb_on_event v level t =
     (if \<not> tcb_enabled t then t
      else let match_edge = tcb_match_edge level t; mode = tcb_mode t;
               t = (if clksel_width v = 3 \<and> effective_clksel v t = 7 \<and> match_edge
                    then tcb_update_interrupt_state (tcb_perform_tick t) else t)
           in if tcb_evctrl t AND 0x01 = 0 then t else tcb_capture match_edge t)"

section \<open>Interrupt\<close>

definition tcb_pending_interrupt_request :: "tcb \<Rightarrow> u8 option" where
  "tcb_pending_interrupt_request t =
     (if tcb_intflags t AND 0x01 \<noteq> 0 \<and> tcb_intctrl t AND 0x01 \<noteq> 0 then Some (tcb_vector_index (tcb_desc t)) else None)"

definition tcb_consume_interrupt_request :: "tcb \<Rightarrow> u8 option \<times> tcb" where
  "tcb_consume_interrupt_request t =
     (case tcb_pending_interrupt_request t of
        None \<Rightarrow> (None, t)
      | Some vec \<Rightarrow> (Some vec, tcb_update_interrupt_state (t\<lparr>tcb_intflags := tcb_intflags t AND NOT 0x01\<rparr>)))"

section \<open>Measuring a pulse\<close>

lemma tick_prescaler [simp]: "tcb_prescaler (tcb_perform_tick t) = tcb_prescaler t"
  by (simp add: tcb_perform_tick_def tcb_capture_flag_def Let_def)

lemma cycle_undivided: "tcb_prescaler t = 0 \<Longrightarrow> tcb_cycle 1 (t, x) = (tcb_perform_tick t, True)"
proof -
  assume z: "tcb_prescaler t = 0"
  then have "t\<lparr>tcb_prescaler := 0\<rparr> = t" by (cases t) simp
  moreover have "tcb_cycle 1 (t, x) = (tcb_perform_tick (t\<lparr>tcb_prescaler := 0\<rparr>), True)"
    by (simp add: tcb_cycle_def z)
  ultimately show ?thesis by (simp only:)
qed

lemma cycles_undivided:
  assumes "tcb_prescaler t = 0"
  shows "fst ((tcb_cycle 1 ^^ n) (t, x)) = (tcb_perform_tick ^^ n) t"
proof -
  have "(tcb_cycle 1 ^^ n) (t, x) = ((tcb_perform_tick ^^ n) t, x \<or> n > 0) \<and> tcb_prescaler ((tcb_perform_tick ^^ n) t) = 0"
    using assms by (induction n) (simp_all add: cycle_undivided)
  then show ?thesis by simp
qed

text \<open>What a measuring mode keeps while it counts.\<close>

definition tcb_setup :: "tcb \<Rightarrow> u8 \<times> u8 \<times> u8 \<times> u8 \<times> u8 \<times> u16" where
  "tcb_setup t = (tcb_ctrla t, tcb_ctrlb t, tcb_evctrl t, tcb_status t, tcb_intctrl t, ccmp t)"

lemma measuring_ticks:
  assumes "tcb_mode t \<in> {2, 3, 4, 5}"
  shows "tcb_setup ((tcb_perform_tick ^^ n) t) = tcb_setup t \<and> tcb_cnt ((tcb_perform_tick ^^ n) t) = tcb_cnt t + of_nat n"
proof (induction n)
  case (Suc n)
  let ?s = "(tcb_perform_tick ^^ n) t"
  have "tcb_mode ?s \<in> {2, 3, 4, 5}" using Suc assms by (simp add: tcb_setup_def tcb_mode_def)
  then have "tcb_setup (tcb_perform_tick ?s) = tcb_setup ?s \<and> tcb_cnt (tcb_perform_tick ?s) = tcb_cnt ?s + 1"
    by (auto simp: tcb_perform_tick_def tcb_capture_flag_def tcb_setup_def Let_def)
  then show ?case using Suc by (simp add: ac_simps)
qed simp

lemma outer_setup [simp]:
  "tcb_setup (tcb_update_outputs t) = tcb_setup t" "tcb_cnt (tcb_update_outputs t) = tcb_cnt t"
  "tcb_setup (tcb_update_interrupt_state t) = tcb_setup t" "tcb_cnt (tcb_update_interrupt_state t) = tcb_cnt t"
  by (simp_all add: tcb_setup_def tcb_update_outputs_def tcb_update_interrupt_state_def)

text \<open>
  In the pulse-width mode a pulse of \<open>n\<close> clocks between the edges of an event is measured as
  \<open>n\<close>, modulo the width of the counter, and raises the capture interrupt.
\<close>

theorem pulse_width_measured:
  fixes n :: u64
  assumes mode: "tcb_mode t = 4" and on: "tcb_enabled t" "tcb_evctrl t AND 0x01 \<noteq> 0" "tcb_evctrl t AND 0x10 = 0"
    and clock: "effective_clksel v t = 0" "tcb_prescaler t = 0"
  defines "u \<equiv> tcb_on_event v False (tcb_tick v n (tcb_on_event v True t))"
  shows "ccmp u = of_nat (unat n)" and "tcb_intflags u AND 0x01 \<noteq> 0"
    and "tcb_interrupt_pending u \<longleftrightarrow> tcb_intctrl t AND 0x01 \<noteq> 0"
proof -
  define a where "a = t\<lparr>tcb_cnt := 0, tcb_status := tcb_status t OR 0x01\<rparr>"
  have start: "tcb_on_event v True t = a"
    using mode on clock by (simp add: tcb_on_event_def tcb_match_edge_def tcb_capture_def a_def)
  define r where "r = (tcb_perform_tick ^^ unat n) a"
  have ma: "tcb_mode a \<in> {2, 3, 4, 5}" using mode by (simp add: a_def tcb_mode_def)
  have div: "tcb_divisor v a = 1" using clock by (simp add: tcb_divisor_def a_def effective_clksel_def Let_def)
  have "tcb_prescaler a = 0" using clock by (simp add: a_def)
  then have cyc: "fst ((tcb_cycle 1 ^^ unat n) (a, False)) = r" by (simp add: r_def cycles_undivided)
  define b where "b = tcb_tick v n a"
  have "tcb_enabled a" using on by (simp add: a_def tcb_enabled_def)
  then have b: "tcb_setup b = tcb_setup a \<and> tcb_cnt b = of_nat (unat n)"
    using measuring_ticks[OF ma, of "unat n"] cyc
    by (simp add: b_def tcb_tick_def div Let_def split_beta r_def) (simp add: a_def)
  then have "tcb_enabled b" "tcb_evctrl b AND 0x01 \<noteq> 0" "tcb_evctrl b AND 0x10 = 0" "effective_clksel v b = 0"
    "tcb_mode b = 4" "tcb_status b AND 0x01 \<noteq> 0" and ic: "tcb_intctrl b = tcb_intctrl t"
    using on mode clock
    by (simp_all add: tcb_setup_def a_def tcb_enabled_def effective_clksel_def tcb_mode_def mask_bit bit_or_iff)
  then have "u = tcb_update_interrupt_state
      (tcb_capture_flag (b\<lparr>ccmp := tcb_cnt b, tcb_status := tcb_status b AND NOT 0x01\<rparr>))"
    unfolding u_def start b_def[symmetric] by (simp add: tcb_on_event_def tcb_match_edge_def tcb_capture_def)
  then show "ccmp u = of_nat (unat n)" "tcb_intflags u AND 0x01 \<noteq> 0"
    "tcb_interrupt_pending u \<longleftrightarrow> tcb_intctrl t AND 0x01 \<noteq> 0"
    using b ic by (simp_all add: tcb_update_interrupt_state_def tcb_capture_flag_def mask_bit bit_or_iff)
qed

section \<open>Periods and single shots\<close>

text \<open>In the periodic mode the counter counts modulo its period plus one.\<close>

theorem periodic_count:
  assumes "tcb_mode t = 0" and "tcb_cnt t \<le> ccmp t"
  shows "unat (tcb_cnt ((tcb_perform_tick ^^ n) t)) = (unat (tcb_cnt t) + n) mod Suc (unat (ccmp t))"
proof -
  have "unat (tcb_cnt ((tcb_perform_tick ^^ n) t)) = (unat (tcb_cnt t) + n) mod Suc (unat (ccmp t))
      \<and> tcb_setup ((tcb_perform_tick ^^ n) t) = tcb_setup t"
  proof (induction n)
    case 0
    from assms(2) show ?case by (simp add: word_le_nat_alt)
  next
    case (Suc n)
    let ?s = "(tcb_perform_tick ^^ n) t" and ?p = "unat (ccmp t)"
    from Suc have s: "tcb_mode ?s = 0" "ccmp ?s = ccmp t" and lim: "unat (tcb_cnt ?s) < Suc ?p"
      using assms(1) by (simp_all add: tcb_setup_def tcb_mode_def)
    have "unat (tcb_cnt ?s + 1) = Suc (unat (tcb_cnt ?s))" if "unat (tcb_cnt ?s) < ?p"
      using that u16_less[of "ccmp t"] by (simp add: unat_word_ariths)
    then have "unat (tcb_cnt (tcb_perform_tick ?s)) = (if unat (tcb_cnt ?s) = ?p then 0 else Suc (unat (tcb_cnt ?s)))"
      "tcb_setup (tcb_perform_tick ?s) = tcb_setup ?s"
      using s lim by (auto simp: tcb_perform_tick_def tcb_capture_flag_def tcb_setup_def word_le_nat_alt)
    then show ?case using Suc by (simp add: mod_Suc)
  qed
  then show ?thesis ..
qed

text \<open>
  A single shot ends with its clock when the cycles come one call at a time, but the loop of
  one call counts on: two cycles in one call leave the counter at 1, in two calls at 0.
\<close>

lemma single_shot_batch:
  assumes "tcb_mode t = 6" and "tcb_enabled t" and "tcb_cnt t = ccmp t" and "ccmp t \<noteq> 0"
    and "effective_clksel v t = 0" and "tcb_prescaler t = 0"
  shows "tcb_cnt (tcb_tick v 2 t) = 1" and "tcb_cnt (tcb_tick v 1 (tcb_tick v 1 t)) = 0"
proof -
  define a where "a = tcb_perform_tick t"
  have a: "tcb_mode a = 6" "tcb_cnt a = 0" "ccmp a = ccmp t" "\<not> tcb_enabled a" "tcb_prescaler a = 0"
    using assms by (simp_all add: a_def tcb_perform_tick_def tcb_capture_flag_def tcb_mode_def tcb_enabled_def
        mask_bit bit_and_iff bit_not_iff)
  have div: "tcb_divisor v t = 1" using assms(5) by (simp add: tcb_divisor_def Let_def)
  have one: "(tcb_cycle 1 ^^ 1) (t, False) = (a, True)" using assms(6) by (simp add: cycle_undivided a_def)
  have "(tcb_cycle 1 ^^ 2) (t, False) = (tcb_perform_tick a, True)"
    using assms(6) a(5) by (simp add: numeral_2_eq_2 cycle_undivided a_def[symmetric])
  moreover have "tcb_cnt (tcb_perform_tick a) = 1"
    using a assms(4) by (simp add: tcb_perform_tick_def unat_eq_zero word_le_nat_alt)
  ultimately show "tcb_cnt (tcb_tick v 2 t) = 1"
    using assms(2) by (simp add: tcb_tick_def div Let_def)
  have "tcb_tick v 1 t = tcb_update_outputs (tcb_update_interrupt_state a)"
    using assms(2) one by (simp add: tcb_tick_def div)
  moreover have "\<not> tcb_enabled (tcb_update_outputs (tcb_update_interrupt_state a))"
    using a(4) by (simp add: tcb_update_outputs_def tcb_update_interrupt_state_def tcb_enabled_def)
  ultimately show "tcb_cnt (tcb_tick v 1 (tcb_tick v 1 t)) = 0"
    using a(2) by (simp add: tcb_tick_def)
qed

end
