(* ===== verification/Can.thy ===== *)
theory Can
  imports Periph Contest
begin

text \<open>
  \<open>CanBus\<close> (\<open>src/core/can.cpp\<close>): the CAN controller with its message objects, the arbitration
  between those waiting to transmit, acceptance filtering, the frame time, the error state
  and the interrupt.  The power reduction register is an argument.
\<close>

section \<open>State\<close>

record can_descriptor =
  cangcon_address :: u16
  cangsta_address :: u16
  cangit_address :: u16
  cangie_address :: u16
  canen1_address :: u16
  canen2_address :: u16
  canie1_address :: u16
  canie2_address :: u16
  cansit1_address :: u16
  cansit2_address :: u16
  canbt1_address :: u16
  canbt2_address :: u16
  canbt3_address :: u16
  cantcon_address :: u16
  cantim_address :: u16
  canttc_address :: u16
  cantec_address :: u16
  canrec_address :: u16
  canhpmob_address :: u16
  canpage_address :: u16
  canstmob_address :: u16
  cancdmob_address :: u16
  canidt_address :: u16
  canidm_address :: u16
  canstm_address :: u16
  canmsg_address :: u16
  canit_vector_index :: u8
  mob_count :: u8
  can_pr_address :: u16
  can_pr_bit :: u8

record message_object =
  canstmob :: u8
  cancdmob :: u8
  canidtags :: "u8 list"
  canidmasks :: "u8 list"
  canstm :: u16
  mob_data :: "u8 list"

record can_message =
  msg_id :: u32
  msg_ide :: bool
  msg_rtr :: bool
  msg_data :: "u8 list"

record can =
  can_desc :: can_descriptor
  cangcon :: u8
  cangsta :: u8
  cangit :: u8
  cangie :: u8
  canen1 :: u8
  canen2 :: u8
  canie1 :: u8
  canie2 :: u8
  cansit1 :: u8
  cansit2 :: u8
  canbt1 :: u8
  canbt2 :: u8
  canbt3 :: u8
  cantcon :: u8
  cantim :: u16
  canttc :: u16
  cantec :: u16
  canrec :: u16
  canhpmob :: u8
  canpage :: u8
  mobs :: "message_object list"
  canit_pending :: bool
  can_prescaler :: u32
  can_timer_temp :: u8
  tx_wait_cycles :: u64
  current_tx_mob :: "nat option"

definition mob_init :: message_object where
  "mob_init = \<lparr>canstmob = 0, cancdmob = 0, canidtags = replicate 4 0, canidmasks = replicate 4 0, canstm = 0,
     mob_data = replicate 8 0\<rparr>"

definition can_init :: "can_descriptor \<Rightarrow> can" where
  "can_init d =
     \<lparr>can_desc = d, cangcon = 0, cangsta = 0, cangit = 0, cangie = 0, canen1 = 0, canen2 = 0, canie1 = 0, canie2 = 0,
      cansit1 = 0, cansit2 = 0, canbt1 = 0, canbt2 = 0, canbt3 = 0, cantcon = 0, cantim = 0, canttc = 0, cantec = 0,
      canrec = 0, canhpmob = 0, canpage = 0, mobs = replicate (unat (mob_count d)) mob_init, canit_pending = False,
      can_prescaler = 0, can_timer_temp = 0, tx_wait_cycles = 0, current_tx_mob = None\<rparr>"

definition can_registers :: "can_descriptor \<Rightarrow> u16 list" where
  "can_registers d =
     [cangcon_address d, cangsta_address d, cangit_address d, cangie_address d, canen1_address d, canen2_address d,
      canie1_address d, canie2_address d, cansit1_address d, cansit2_address d, canbt1_address d, canbt2_address d,
      canbt3_address d, cantcon_address d, cantim_address d, canttc_address d, cantec_address d, canrec_address d,
      canhpmob_address d, canpage_address d, canstmob_address d, cancdmob_address d, canidt_address d,
      canidm_address d, canstm_address d, canmsg_address d]"

definition can_range :: "can_descriptor \<Rightarrow> address_range" where
  "can_range d =
     (let used = filter (\<lambda>a. a \<noteq> 0) (can_registers d)
      in \<lparr>range_begin = fold min used 0xFFFF,
          range_end = max (max (fold max used 0) (canidt_address d + 3)) (canidm_address d + 3)\<rparr>)"

section \<open>Interrupts and error state\<close>

definition mob_signals :: "message_object \<Rightarrow> bool" where
  "mob_signals mb \<longleftrightarrow> canstmob mb AND 0xFE \<noteq> 0"

definition mob_flag :: "nat \<Rightarrow> u8" where
  "mob_flag i = push_bit i 1"

definition collect_mob :: "can \<Rightarrow> nat \<Rightarrow> u8 \<times> u8 \<times> bool \<Rightarrow> u8 \<times> u8 \<times> bool" where
  "collect_mob c i = (\<lambda>(s1, s2, pending).
     if mob_signals (mobs c ! i)
     then if i < 8 then (s1, s2 OR mob_flag i, pending \<or> canie2 c AND mob_flag i \<noteq> 0)
          else (s1 OR mob_flag (i - 8), s2, pending \<or> canie1 c AND mob_flag (i - 8) \<noteq> 0)
     else (s1, s2, pending))"

definition evaluate_interrupts :: "can \<Rightarrow> can" where
  "evaluate_interrupts c =
     (let (s1, s2, pending) = fold (collect_mob c) [0..<length (mobs c)] (0, 0, False);
          pending = (pending \<or> cangit c AND cangie c \<noteq> 0)
      in c\<lparr>cansit1 := s1, cansit2 := s2, canit_pending := pending \<and> cangie c AND 0x01 \<noteq> 0\<rparr>)"

definition can_pending_interrupt_request :: "can \<Rightarrow> u8 option" where
  "can_pending_interrupt_request c = (if canit_pending c then Some (canit_vector_index (can_desc c)) else None)"

definition can_consume_interrupt_request :: "can \<Rightarrow> u8 option" where
  "can_consume_interrupt_request c = can_pending_interrupt_request c"

definition evaluate_error_state :: "can \<Rightarrow> can" where
  "evaluate_error_state c =
     (let c = c\<lparr>cangsta := cangsta c AND NOT 0x0E\<rparr>
      in if cantec c > 255 then c\<lparr>cangsta := cangsta c OR 0x08, cangcon := cangcon c AND NOT 0x02\<rparr>
         else if cantec c \<ge> 128 \<or> canrec c \<ge> 128 then c\<lparr>cangsta := cangsta c OR 0x04\<rparr>
         else c\<lparr>cangsta := cangsta c OR 0x02\<rparr>)"

definition simulate_bus_error :: "can \<Rightarrow> can" where
  "simulate_bus_error c = evaluate_interrupts (evaluate_error_state (c\<lparr>cantec := cantec c + 8\<rparr>))"

section \<open>Transmission\<close>

definition can_identifier :: "bool \<Rightarrow> u8 list \<Rightarrow> u32" where
  "can_identifier ide tags =
     (if ide
      then push_bit 21 (ucast (tags ! 3)) OR push_bit 13 (ucast (tags ! 2)) OR push_bit 5 (ucast (tags ! 1))
             OR ucast (drop_bit 3 (tags ! 0))
      else push_bit 3 (ucast (tags ! 3 AND 0xE0)) OR ucast (tags ! 0))"

definition mob_ide :: "message_object \<Rightarrow> bool" where
  "mob_ide mb \<longleftrightarrow> cancdmob mb AND 0x10 \<noteq> 0"

definition conmob :: "message_object \<Rightarrow> u8" where
  "conmob mb = drop_bit 6 (cancdmob mb)"

definition compute_cycles_per_bit :: "can \<Rightarrow> u32" where
  "compute_cycles_per_bit c =
     (let brp = ucast (canbt1 c AND 0x3F); prop_seg = ucast (canbt3 c AND 0x0F) + 1;
          phase_seg1 = ucast (drop_bit 4 (canbt3 c) AND 0x07) + 1; phase_seg2 = ucast (canbt2 c AND 0x0F) + 1
      in (brp + 1) * (1 + prop_seg + phase_seg1 + phase_seg2))"

definition compute_frame_bits :: "u8 \<Rightarrow> bool \<Rightarrow> u32" where
  "compute_frame_bits dlc ext_id =
     (let overhead = 1 + 11 + 1 + 1 + 1 + 4 + (if ext_id then 18 else 0);
          stuffable = overhead + 8 * ucast dlc + 15
      in stuffable + stuffable div 5 + 1 + 1 + 1 + 7 + 3)"

text \<open>The best candidate so far, with \<open>-1\<close> and \<open>0xFFFFFFFF\<close> before the first.\<close>

definition contend :: "can \<Rightarrow> nat \<Rightarrow> nat option \<times> u32 \<Rightarrow> nat option \<times> u32" where
  "contend c i best =
     (let mb = mobs c ! i
      in if conmob mb = 0x01
         then let identifier = can_identifier (mob_ide mb) (canidtags mb)
              in if identifier < snd best then (Some i, identifier) else best
         else best)"

definition best_mob :: "can \<Rightarrow> nat option" where
  "best_mob c = fst (fold (contend c) [0..<length (mobs c)] (None, 0xFFFFFFFF))"

definition mob_cycles :: "can \<Rightarrow> message_object \<Rightarrow> u64" where
  "mob_cycles c mb = ucast (compute_cycles_per_bit c * compute_frame_bits (cancdmob mb AND 0x0F) (mob_ide mb))"

definition find_high_priority_mob :: "can \<Rightarrow> can" where
  "find_high_priority_mob c =
     (case best_mob c of
        None \<Rightarrow> c\<lparr>canhpmob := 0\<rparr>
      | Some i \<Rightarrow>
          let c = c\<lparr>canhpmob := push_bit 4 (of_nat i)\<rparr>
          in if current_tx_mob c = None then c\<lparr>current_tx_mob := Some i, tx_wait_cycles := mob_cycles c (mobs c ! i)\<rparr>
             else c)"

definition update_mob :: "nat \<Rightarrow> (message_object \<Rightarrow> message_object) \<Rightarrow> can \<Rightarrow> can" where
  "update_mob i f c = c\<lparr>mobs := (mobs c)[i := f (mobs c ! i)]\<rparr>"

definition complete_transmission :: "nat \<Rightarrow> can \<Rightarrow> can" where
  "complete_transmission i c =
     (let c = update_mob i (\<lambda>mb. mb\<lparr>canstmob := canstmob mb OR 0x40\<rparr>) c;
          c = c\<lparr>cangit := cangit c OR 0x10\<rparr>;
          c = (if cantec c > 0 then c\<lparr>cantec := cantec c - 1\<rparr> else c);
          c = update_mob i (\<lambda>mb. mb\<lparr>cancdmob := cancdmob mb AND 0x3F\<rparr>) c;
          c = c\<lparr>current_tx_mob := None, tx_wait_cycles := 0\<rparr>
      in find_high_priority_mob (evaluate_interrupts (evaluate_error_state c)))"

section \<open>Time\<close>

definition can_power_reduction :: "u8 \<Rightarrow> can \<Rightarrow> bool" where
  "can_power_reduction prr c \<longleftrightarrow>
     \<not> (can_pr_address (can_desc c) = 0 \<or> can_pr_bit (can_desc c) = 0xFF) \<and> bit prr (unat (can_pr_bit (can_desc c)))"

definition cycles_per_tq :: "can \<Rightarrow> u32" where
  "cycles_per_tq c = ucast (canbt1 c AND 0x3F) + 1"

definition can_time_quantum :: "can \<Rightarrow> can" where
  "can_time_quantum c =
     (let c = c\<lparr>can_prescaler := can_prescaler c - cycles_per_tq c, cantim := cantim c + 1\<rparr>
      in if cantim c = 0 then evaluate_interrupts (c\<lparr>cangit := cangit c OR 0x10\<rparr>) else c)"

lemma unat_cycles_per_tq: "unat (cycles_per_tq c) = Suc (unat (canbt1 c AND 0x3F))"
proof -
  have "unat (canbt1 c AND 0x3F) < 64" using word_and_le_bound[of "0x3F" "0x40" "canbt1 c"] by (simp add: word_less_nat_alt)
  then show ?thesis by (simp add: cycles_per_tq_def unat_word_ariths)
qed

lemma quantum_prescaler: "can_prescaler (can_time_quantum c) = can_prescaler c - cycles_per_tq c"
  by (simp add: can_time_quantum_def evaluate_interrupts_def Let_def split_beta)

function can_timer :: "can \<Rightarrow> can" where
  "can_timer c = (if can_prescaler c \<ge> cycles_per_tq c then can_timer (can_time_quantum c) else c)"
  by pat_completeness auto

termination can_timer
proof (relation "measure (\<lambda>c. unat (can_prescaler c))")
  fix c
  assume "can_prescaler c \<ge> cycles_per_tq c"
  then show "(can_time_quantum c, c) \<in> measure (\<lambda>c. unat (can_prescaler c))"
    using unat_cycles_per_tq[of c] by (simp add: quantum_prescaler unat_sub word_le_nat_alt)
qed simp

declare can_timer.simps [simp del]

definition can_transmit_tick :: "u64 \<Rightarrow> can \<Rightarrow> can" where
  "can_transmit_tick elapsed c =
     (case current_tx_mob c of
        None \<Rightarrow> c
      | Some i \<Rightarrow> if tx_wait_cycles c > elapsed then c\<lparr>tx_wait_cycles := tx_wait_cycles c - elapsed\<rparr>
                  else complete_transmission i c)"

definition can_tick :: "u8 \<Rightarrow> u64 \<Rightarrow> can \<Rightarrow> can" where
  "can_tick prr elapsed c =
     (if can_power_reduction prr c then c
      else if cangcon c AND 0x02 \<noteq> 0
      then let c = can_timer (c\<lparr>can_prescaler := can_prescaler c + ucast elapsed\<rparr>);
               c = (if current_tx_mob c = None then find_high_priority_mob c else c)
           in can_transmit_tick elapsed c
      else c)"

section \<open>Reception\<close>

definition accepts :: "can_message \<Rightarrow> message_object \<Rightarrow> bool" where
  "accepts msg mb \<longleftrightarrow>
     (conmob mb = 0x02 \<or> conmob mb = 0x03) \<and> mob_ide mb = msg_ide msg \<and>
     (let mk = can_identifier (msg_ide msg) (canidmasks mb)
      in msg_id msg AND mk = can_identifier (msg_ide msg) (canidtags mb) AND mk)"

definition store_message :: "can_message \<Rightarrow> message_object \<Rightarrow> message_object" where
  "store_message msg mb =
     (let n = min (length (msg_data msg)) 8;
          mb = mb\<lparr>mob_data := take n (msg_data msg) @ drop n (mob_data mb), canstmob := canstmob mb OR 0x20\<rparr>
      in if length (msg_data msg) \<noteq> unat (cancdmob mb AND 0x0F) then mb\<lparr>canstmob := canstmob mb OR 0x80\<rparr> else mb)"

definition deliver :: "can_message \<Rightarrow> nat \<Rightarrow> can \<Rightarrow> can" where
  "deliver msg i c =
     (let c = update_mob i (store_message msg) c;
          c = c\<lparr>cangit := cangit c OR 0x20\<rparr>;
          c = (if canrec c > 0 then c\<lparr>canrec := canrec c - 1\<rparr> else c);
          c = update_mob i (\<lambda>mb. mb\<lparr>cancdmob := cancdmob mb AND 0x3F\<rparr>) c
      in find_high_priority_mob (evaluate_interrupts (evaluate_error_state c)))"

fun offer :: "can_message \<Rightarrow> nat list \<Rightarrow> can \<Rightarrow> can" where
  "offer msg [] c = c"
| "offer msg (i # is) c =
     (if accepts msg (mobs c ! i)
      then if canstmob (mobs c ! i) AND 0x20 \<noteq> 0 then offer msg is (c\<lparr>cangit := cangit c OR 0x40\<rparr>)
           else deliver msg i c
      else offer msg is c)"

definition receive_message :: "can_message \<Rightarrow> can \<Rightarrow> can" where
  "receive_message msg c = (if cangcon c AND 0x02 = 0 then c else offer msg [0..<length (mobs c)] c)"

definition inject_message :: "can_message \<Rightarrow> can \<Rightarrow> can" where
  "inject_message msg c = receive_message msg c"

section \<open>Registers\<close>

definition mob_reset :: "message_object \<Rightarrow> message_object" where
  "mob_reset mb = mb\<lparr>canstmob := 0, cancdmob := 0, canstm := 0, mob_data := replicate (length (mob_data mb)) 0\<rparr>"

definition can_reset :: "can \<Rightarrow> can" where
  "can_reset c =
     c\<lparr>cangcon := 0, cangsta := 0x02, cangit := 0, cangie := 0, canen1 := 0, canen2 := 0, canie1 := 0, canie2 := 0,
       cansit1 := 0, cansit2 := 0, canbt1 := 0, canbt2 := 0, canbt3 := 0, cantcon := 0, cantim := 0, canttc := 0,
       cantec := 0, canrec := 0, canhpmob := 0, canpage := 0, tx_wait_cycles := 0, current_tx_mob := None,
       mobs := map mob_reset (mobs c)\<rparr>"

definition current_mob_index :: "can \<Rightarrow> nat" where
  "current_mob_index c = unat (drop_bit 4 (canpage c))"

definition data_index :: "can \<Rightarrow> nat" where
  "data_index c = unat (canpage c AND 0x07)"

text \<open>The data index is incremented when AINC is 0.\<close>

definition next_index :: "can \<Rightarrow> can" where
  "next_index c =
     (if canpage c AND 0x08 = 0
      then c\<lparr>canpage := (canpage c AND 0xF8) OR ((canpage c AND 0x07) + 1 AND 0x07)\<rparr> else c)"

definition within_four :: "u16 \<Rightarrow> u16 \<Rightarrow> bool" where
  "within_four address base \<longleftrightarrow> address \<ge> base \<and> unat address < unat base + 4"

definition follows :: "u16 \<Rightarrow> u16 \<Rightarrow> bool" where
  "follows address base \<longleftrightarrow> unat address = unat base + 1"

definition can_latch :: "u16 \<Rightarrow> can \<Rightarrow> u8 \<times> can" where
  "can_latch w c = (ucast (w AND 0xFF), c\<lparr>can_timer_temp := ucast (drop_bit 8 w)\<rparr>)"

definition mob_read :: "u16 \<Rightarrow> can \<Rightarrow> u8 \<times> can" where
  "mob_read address c =
     (let d = can_desc c; mb = mobs c ! current_mob_index c
      in if address = canstmob_address d then (canstmob mb, c)
         else if address = cancdmob_address d then (cancdmob mb, c)
         else if within_four address (canidt_address d)
         then (canidtags mb ! (unat address - unat (canidt_address d)), c)
         else if within_four address (canidm_address d)
         then (canidmasks mb ! (unat address - unat (canidm_address d)), c)
         else if address = canstm_address d then can_latch (canstm mb) c
         else if follows address (canstm_address d) then (can_timer_temp c, c)
         else if address = canmsg_address d then (mob_data mb ! data_index c, next_index c)
         else (0, c))"

definition can_read :: "u16 \<Rightarrow> can \<Rightarrow> u8 \<times> can" where
  "can_read address c =
     (let d = can_desc c
      in if address = cangcon_address d then (cangcon c, c)
         else if address = cangsta_address d then (cangsta c, c)
         else if address = cangit_address d then (cangit c, c)
         else if address = cangie_address d then (cangie c, c)
         else if address = canen1_address d then (canen1 c, c)
         else if address = canen2_address d then (canen2 c, c)
         else if address = canie1_address d then (canie1 c, c)
         else if address = canie2_address d then (canie2 c, c)
         else if address = cansit1_address d then (cansit1 c, c)
         else if address = cansit2_address d then (cansit2 c, c)
         else if address = canbt1_address d then (canbt1 c, c)
         else if address = canbt2_address d then (canbt2 c, c)
         else if address = canbt3_address d then (canbt3 c, c)
         else if address = cantcon_address d then (cantcon c, c)
         else if address = cantim_address d then can_latch (cantim c) c
         else if follows address (cantim_address d) then (can_timer_temp c, c)
         else if address = canttc_address d then can_latch (canttc c) c
         else if follows address (canttc_address d) then (can_timer_temp c, c)
         else if address = cantec_address d then (ucast (cantec c), c)
         else if address = canrec_address d then (ucast (canrec c), c)
         else if address = canhpmob_address d then (canhpmob c, c)
         else if address = canpage_address d then (canpage c, c)
         else if current_mob_index c < length (mobs c) then mob_read address c
         else (0, c))"

definition general_write :: "u16 \<Rightarrow> u8 \<Rightarrow> can \<Rightarrow> can" where
  "general_write address v c =
     (let d = can_desc c
      in if address = cangcon_address d
         then (if v AND 0x01 \<noteq> 0 then evaluate_interrupts (can_reset c) else c)\<lparr>cangcon := v\<rparr>
         else if address = cangie_address d then evaluate_interrupts (c\<lparr>cangie := v\<rparr>)
         else if address = canie1_address d then evaluate_interrupts (c\<lparr>canie1 := v\<rparr>)
         else if address = canie2_address d then evaluate_interrupts (c\<lparr>canie2 := v\<rparr>)
         else if address = canbt1_address d then c\<lparr>canbt1 := v\<rparr>
         else if address = canbt2_address d then c\<lparr>canbt2 := v\<rparr>
         else if address = canbt3_address d then c\<lparr>canbt3 := v\<rparr>
         else if address = canpage_address d then c\<lparr>canpage := v\<rparr>
         else if address = cangit_address d then evaluate_interrupts (c\<lparr>cangit := cangit c AND NOT v\<rparr>)
         else if address = cantcon_address d then c\<lparr>cantcon := v\<rparr>
         else c)"

definition set_mob_enable :: "nat \<Rightarrow> bool \<Rightarrow> can \<Rightarrow> can" where
  "set_mob_enable i on c =
     (if i < 8 then c\<lparr>canen2 := if on then canen2 c OR mob_flag i else canen2 c AND NOT (mob_flag i)\<rparr>
      else c\<lparr>canen1 := if on then canen1 c OR mob_flag (i - 8) else canen1 c AND NOT (mob_flag (i - 8))\<rparr>)"

definition mob_write :: "u16 \<Rightarrow> u8 \<Rightarrow> can \<Rightarrow> can" where
  "mob_write address v c =
     (let d = can_desc c; i = current_mob_index c
      in if address = canstmob_address d
         then evaluate_interrupts (update_mob i (\<lambda>mb. mb\<lparr>canstmob := canstmob mb AND v\<rparr>) c)
         else if address = cancdmob_address d
         then let c = set_mob_enable i (drop_bit 6 v \<noteq> 0) (update_mob i (\<lambda>mb. mb\<lparr>cancdmob := v\<rparr>) c)
              in if drop_bit 6 v = 0x01 then find_high_priority_mob c else c
         else if within_four address (canidt_address d)
         then update_mob i (\<lambda>mb. mb\<lparr>canidtags := (canidtags mb)[unat address - unat (canidt_address d) := v]\<rparr>) c
         else if within_four address (canidm_address d)
         then update_mob i (\<lambda>mb. mb\<lparr>canidmasks := (canidmasks mb)[unat address - unat (canidm_address d) := v]\<rparr>) c
         else if address = canmsg_address d
         then next_index (update_mob i (\<lambda>mb. mb\<lparr>mob_data := (mob_data mb)[data_index c := v]\<rparr>) c)
         else c)"

definition can_write :: "u16 \<Rightarrow> u8 \<Rightarrow> can \<Rightarrow> can" where
  "can_write address v c =
     (let c = general_write address v c
      in if current_mob_index c < length (mobs c) then mob_write address v c else c)"

section \<open>Arbitration\<close>

lemma can_identifier_less: "can_identifier ide tags < 0xFFFFFFFF"
proof -
  have "\<not> bit (can_identifier ide tags) 31"
    by (simp add: can_identifier_def bit_or_iff bit_push_bit_iff bit_ucast_iff bit_drop_bit_eq)
      (auto dest: bit_imp_le_length)
  then have "can_identifier ide tags \<noteq> 0xFFFFFFFF" by auto
  then show ?thesis using u32_less[of "can_identifier ide tags"] by (simp add: word_less_nat_alt word_unat_eq_iff)
qed

text \<open>The loop over the message objects is a contest of identifiers.\<close>

definition mob_entry :: "can \<Rightarrow> nat \<Rightarrow> u32 option" where
  "mob_entry c i =
     (let mb = mobs c ! i in if conmob mb = 0x01 then Some (can_identifier (mob_ide mb) (canidtags mb)) else None)"

interpretation can_bus: contest "mob_entry c" unat "(<)" for c
  by unfold_locales (simp add: word_less_nat_alt)

lemma contend_entry:
  "contend c i best = (case mob_entry c i of None \<Rightarrow> best | Some n \<Rightarrow> if n < snd best then (Some i, n) else best)"
  by (simp add: contend_def mob_entry_def Let_def)

lemma mob_entry_less: "mob_entry c i = Some n \<Longrightarrow> n < 0xFFFFFFFF"
  by (auto simp: mob_entry_def can_identifier_less Let_def split: if_splits)

lemma contend_round:
  "fold (contend c) is (None, 0xFFFFFFFF) =
     (case fold (can_bus.round c) is None of None \<Rightarrow> (None, 0xFFFFFFFF) | Some (i, r) \<Rightarrow> (Some i, r))"
proof (induction "is" rule: rev_induct)
  case (snoc i "is")
  show ?case
    by (cases "mob_entry c i"; cases "fold (can_bus.round c) is None")
      (auto simp: snoc contend_entry[of c i] dest: mob_entry_less)
qed simp

text \<open>
  The object that transmits is one of those waiting with the lowest identifier, the first of
  equals, as on the wire; none transmits exactly when none is waiting.
\<close>

theorem best_mob_wins:
  "case best_mob c of
     None \<Rightarrow> \<forall>i<length (mobs c). conmob (mobs c ! i) \<noteq> 0x01
   | Some i \<Rightarrow> i < length (mobs c) \<and> conmob (mobs c ! i) = 0x01 \<and>
       (\<forall>j<length (mobs c). \<forall>id. mob_entry c j = Some id \<longrightarrow>
          the (mob_entry c i) \<le> id \<and> (j < i \<longrightarrow> the (mob_entry c i) < id))"
proof (cases "fold (can_bus.round c) [0..<length (mobs c)] None")
  case None
  then have "\<forall>i\<in>set [0..<length (mobs c)]. mob_entry c i = None" using can_bus.no_winner by blast
  then show ?thesis using None by (auto simp: best_mob_def contend_round mob_entry_def Let_def split: if_splits)
next
  case (Some p)
  then obtain i r where p: "fold (can_bus.round c) [0..<length (mobs c)] None = Some (i, r)" by (cases p) auto
  have "can_bus.wins c [0..<length (mobs c)] i r" by (rule can_bus.winner_append[OF p])
  then obtain before after where w: "[0..<length (mobs c)] = before @ i # after" "mob_entry c i = Some r"
    "\<forall>j\<in>set before. \<forall>d. mob_entry c j = Some d \<longrightarrow> unat r < unat d"
    "\<forall>j\<in>set after. \<forall>d. mob_entry c j = Some d \<longrightarrow> unat r \<le> unat d"
    unfolding can_bus.wins_def by blast
  have sets: "before = [0..<i]" "after = [Suc i..<length (mobs c)]" and i: "i < length (mobs c)"
  proof -
    have len: "length before < length (mobs c)" using arg_cong[OF w(1), of length] by simp
    then have "[0..<length (mobs c)] ! length before = length before" by simp
    then have "i = length before" by (simp add: w(1))
    moreover have "before = take (length before) [0..<length (mobs c)]" by (simp add: w(1))
    moreover have "after = drop (Suc (length before)) [0..<length (mobs c)]" by (simp add: w(1))
    ultimately show "before = [0..<i]" "after = [Suc i..<length (mobs c)]" "i < length (mobs c)"
      using len by (simp_all add: take_upt drop_upt)
  qed
  have "r \<le> d \<and> (j < i \<longrightarrow> r < d)" if "j < length (mobs c)" "mob_entry c j = Some d" for j d
  proof -
    have "j < i \<longrightarrow> unat r < unat d" "i < j \<longrightarrow> unat r \<le> unat d" "i = j \<longrightarrow> r = d"
      using that w(2-4) sets by auto
    then show ?thesis by (cases j i rule: linorder_cases) (auto simp: word_less_nat_alt word_le_nat_alt)
  qed
  moreover have "best_mob c = Some i" by (simp add: best_mob_def contend_round p)
  moreover have "conmob (mobs c ! i) = 0x01" using w(2) by (simp add: mob_entry_def Let_def split: if_splits)
  ultimately show ?thesis using i w(2) by simp
qed

section \<open>Frames\<close>

text \<open>A message object set to transmit on an idle controller is on the wire for its frame time.\<close>

lemma frame_bits:
  "unat (compute_frame_bits dlc ext) =
     (let n = 34 + (if ext then 18 else 0) + 8 * unat dlc in n + n div 5 + 13)"
proof -
  let ?n = "34 + (if ext then 18 else 0) + 8 * unat dlc"
  have dlc: "unat dlc < 256" by (rule u8_less)
  define n :: u32 where "n = 1 + 11 + 1 + 1 + 1 + 4 + (if ext then 18 else 0) + 8 * ucast dlc + 15"
  have n: "unat n = ?n" using dlc by (simp add: n_def unat_word_ariths)
  then have "unat (n div 5) = ?n div 5" by (simp add: unat_div)
  moreover have "compute_frame_bits dlc ext = n + n div 5 + 1 + 1 + 1 + 7 + 3"
    by (simp add: compute_frame_bits_def n_def Let_def)
  ultimately show ?thesis using dlc n by (simp add: unat_word_ariths Let_def)
qed

lemma interrupt_frame [simp]:
  "mobs (evaluate_interrupts c) = mobs c" "current_tx_mob (evaluate_interrupts c) = current_tx_mob c"
  "tx_wait_cycles (evaluate_interrupts c) = tx_wait_cycles c" "cangcon (evaluate_interrupts c) = cangcon c"
  "cangit (evaluate_interrupts c) = cangit c" "cantim (evaluate_interrupts c) = cantim c"
  "canbt1 (evaluate_interrupts c) = canbt1 c" "can_prescaler (evaluate_interrupts c) = can_prescaler c"
  "can_desc (evaluate_interrupts c) = can_desc c" "cangie (evaluate_interrupts c) = cangie c"
  "canie1 (evaluate_interrupts c) = canie1 c" "canie2 (evaluate_interrupts c) = canie2 c"
  by (simp_all add: evaluate_interrupts_def Let_def split_beta)

text \<open>The timer counts time quanta: its loop in closed form.\<close>

theorem can_timer_counts:
  "unat (can_prescaler (can_timer c)) = unat (can_prescaler c) mod unat (cycles_per_tq c)"
  "cantim (can_timer c) = cantim c + of_nat (unat (can_prescaler c) div unat (cycles_per_tq c))"
proof (induction c rule: can_timer.induct)
  case (1 c)
  let ?q = "unat (cycles_per_tq c)" and ?c = "can_time_quantum c"
  have q: "0 < ?q" by (simp add: unat_cycles_per_tq)
  have keep: "cycles_per_tq ?c = cycles_per_tq c" "cantim ?c = cantim c + 1"
    by (simp_all add: can_time_quantum_def cycles_per_tq_def Let_def)
  have sub: "cycles_per_tq c \<le> can_prescaler c \<Longrightarrow> unat (can_prescaler ?c) = unat (can_prescaler c) - ?q"
    by (simp add: quantum_prescaler unat_sub)
  show "unat (can_prescaler (can_timer c)) = unat (can_prescaler c) mod ?q"
    using 1(1) sub keep by (subst can_timer.simps) (auto simp: word_le_nat_alt le_mod_geq)
  show "cantim (can_timer c) = cantim c + of_nat (unat (can_prescaler c) div ?q)"
    using 1(2) sub keep q by (subst can_timer.simps) (auto simp: word_le_nat_alt le_div_geq)
qed

section \<open>The interrupt\<close>

text \<open>
  The status registers name the signalling objects bit by bit, and the interrupt is up
  exactly when CANIE enables one of them, or a general flag is enabled, under the master bit.
\<close>

theorem evaluated_interrupts:
  assumes "length (mobs c) \<le> 16"
  shows "bit (cansit2 (evaluate_interrupts c)) k \<longleftrightarrow> k < 8 \<and> k < length (mobs c) \<and> mob_signals (mobs c ! k)"
    and "bit (cansit1 (evaluate_interrupts c)) k \<longleftrightarrow> k < 8 \<and> k + 8 < length (mobs c) \<and> mob_signals (mobs c ! (k + 8))"
    and "canit_pending (evaluate_interrupts c) \<longleftrightarrow> cangie c AND 0x01 \<noteq> 0 \<and>
      (cangit c AND cangie c \<noteq> 0 \<or>
       (\<exists>i<length (mobs c). mob_signals (mobs c ! i) \<and> (if i < 8 then bit (canie2 c) i else bit (canie1 c) (i - 8))))"
proof -
  have flag: "bit (mob_flag j) n \<longleftrightarrow> n = j \<and> j < 8" for j n
    by (auto simp: mob_flag_def bit_exp_iff)
  have enabled: "x AND mob_flag j \<noteq> 0 \<longleftrightarrow> bit x j" if "j < 8" for x j
    using and_mask_bit[of x j] by (simp add: mob_flag_def push_bit_eq_mult)
  let ?f = "\<lambda>n. fold (collect_mob c) [0..<n] (0, 0, False)"
  have inv: "(\<forall>k. bit (fst (?f n)) k \<longleftrightarrow> k < 8 \<and> k + 8 < n \<and> mob_signals (mobs c ! (k + 8))) \<and>
    (\<forall>k. bit (fst (snd (?f n))) k \<longleftrightarrow> k < 8 \<and> k < n \<and> mob_signals (mobs c ! k)) \<and>
    (snd (snd (?f n)) \<longleftrightarrow> (\<exists>i<n. mob_signals (mobs c ! i) \<and> (if i < 8 then bit (canie2 c) i else bit (canie1 c) (i - 8))))"
    if "n \<le> 16" for n
    using that
  proof (induction n)
    case (Suc n)
    have "?f (Suc n) = collect_mob c n (?f n)" by simp
    moreover have "x = n - 8 \<longleftrightarrow> x + 8 = n" if "\<not> n < 8" for x using that by auto
    ultimately show ?case
      using Suc by (cases "n < 8")
        (auto simp: collect_mob_def split_beta bit_or_iff flag enabled less_Suc_eq)
  qed simp
  have ev: "cansit1 (evaluate_interrupts c) = fst (?f (length (mobs c)))"
    "cansit2 (evaluate_interrupts c) = fst (snd (?f (length (mobs c))))"
    "canit_pending (evaluate_interrupts c) \<longleftrightarrow> (snd (snd (?f (length (mobs c)))) \<or> cangit c AND cangie c \<noteq> 0) \<and> cangie c AND 0x01 \<noteq> 0"
    by (simp_all add: evaluate_interrupts_def Let_def split_beta)
  show "bit (cansit2 (evaluate_interrupts c)) k \<longleftrightarrow> k < 8 \<and> k < length (mobs c) \<and> mob_signals (mobs c ! k)"
    "bit (cansit1 (evaluate_interrupts c)) k \<longleftrightarrow> k < 8 \<and> k + 8 < length (mobs c) \<and> mob_signals (mobs c ! (k + 8))"
    "canit_pending (evaluate_interrupts c) \<longleftrightarrow> cangie c AND 0x01 \<noteq> 0 \<and>
      (cangit c AND cangie c \<noteq> 0 \<or>
       (\<exists>i<length (mobs c). mob_signals (mobs c ! i) \<and> (if i < 8 then bit (canie2 c) i else bit (canie1 c) (i - 8))))"
    unfolding ev using inv[OF assms] by blast+
qed

section \<open>Reception\<close>

lemma mobs_frame [simp]:
  "mobs (evaluate_error_state c) = mobs c" "mobs (find_high_priority_mob c) = mobs c"
  "cangit (evaluate_error_state c) = cangit c" "cangit (find_high_priority_mob c) = cangit c"
  by (simp_all add: evaluate_error_state_def find_high_priority_mob_def Let_def split: option.split)

definition received :: "can_message \<Rightarrow> message_object \<Rightarrow> message_object" where
  "received msg mb = (store_message msg mb)\<lparr>cancdmob := cancdmob mb AND 0x3F\<rparr>"

lemma deliver_mobs: "i < length (mobs c) \<Longrightarrow> mobs (deliver msg i c) = (mobs c)[i := received msg (mobs c ! i)]"
  by (simp add: deliver_def update_mob_def received_def store_message_def Let_def)

definition takes :: "can_message \<Rightarrow> message_object \<Rightarrow> bool" where
  "takes msg mb \<longleftrightarrow> accepts msg mb \<and> canstmob mb AND 0x20 = 0"

lemma offer_mobs:
  assumes "\<forall>i\<in>set is. i < length (mobs c)"
  shows "mobs (offer msg is c) =
    (case find (\<lambda>i. takes msg (mobs c ! i)) is of None \<Rightarrow> mobs c
     | Some i \<Rightarrow> (mobs c)[i := received msg (mobs c ! i)])"
  using assms
proof (induction msg "is" c rule: offer.induct)
  case (2 msg i "is" c)
  then show ?case by (auto simp: takes_def deliver_mobs split: option.split)
qed simp

text \<open>
  A frame is stored in the first message object that accepts it and holds no unread one, and
  in no other; a frame nobody takes changes none.
\<close>

theorem reception:
  assumes "cangcon c AND 0x02 \<noteq> 0"
  shows "(\<forall>j<length (mobs c). \<not> takes msg (mobs c ! j)) \<Longrightarrow> mobs (receive_message msg c) = mobs c"
    and "i < length (mobs c) \<Longrightarrow> takes msg (mobs c ! i) \<Longrightarrow> (\<forall>j<i. \<not> takes msg (mobs c ! j)) \<Longrightarrow>
      mobs (receive_message msg c) = (mobs c)[i := received msg (mobs c ! i)]"
proof -
  have off: "mobs (receive_message msg c) =
      (case find (\<lambda>i. takes msg (mobs c ! i)) [0..<length (mobs c)] of None \<Rightarrow> mobs c
       | Some i \<Rightarrow> (mobs c)[i := received msg (mobs c ! i)])"
    using assms by (simp add: receive_message_def offer_mobs)
  show "mobs (receive_message msg c) = mobs c" if "\<forall>j<length (mobs c). \<not> takes msg (mobs c ! j)"
  proof -
    have "find (\<lambda>i. takes msg (mobs c ! i)) [0..<length (mobs c)] = None" using that by (auto simp: find_None_iff)
    then show ?thesis by (simp add: off)
  qed
  show "mobs (receive_message msg c) = (mobs c)[i := received msg (mobs c ! i)]"
    if "i < length (mobs c)" "takes msg (mobs c ! i)" "\<forall>j<i. \<not> takes msg (mobs c ! j)"
  proof -
    have "find (\<lambda>i. takes msg (mobs c ! i)) [0..<length (mobs c)] = Some i"
      using that by (auto simp: find_Some_iff intro!: exI[of _ i])
    then show ?thesis by (simp add: off)
  qed
qed

text \<open>An object whose mask is zero takes every identifier of its format; one with a full mask its own.\<close>

lemma zero_mask_accepts:
  assumes "conmob mb = 0x02" and "mob_ide mb = msg_ide msg" and "canidmasks mb = [0, 0, 0, 0]"
  shows "accepts msg mb"
  using assms by (simp add: accepts_def can_identifier_def numeral_3_eq_3)

section \<open>Completion, errors and reset\<close>

text \<open>The object on the wire has TXOK exactly when its frame time has passed, or it had it before.\<close>

theorem transmission_done:
  assumes "current_tx_mob c = Some i" and "i < length (mobs c)"
  shows "canstmob (mobs (can_transmit_tick n c) ! i) AND 0x40 \<noteq> 0 \<longleftrightarrow>
    canstmob (mobs c ! i) AND 0x40 \<noteq> 0 \<or> tx_wait_cycles c \<le> n"
proof -
  have "mobs (complete_transmission i c) ! i =
      (mobs c ! i)\<lparr>canstmob := canstmob (mobs c ! i) OR 0x40, cancdmob := cancdmob (mobs c ! i) AND 0x3F\<rparr>"
    using assms(2) by (simp add: complete_transmission_def update_mob_def Let_def)
  then show ?thesis using assms(1) by (auto simp: can_transmit_tick_def mask_bit bit_or_iff not_less)
qed

lemma error_state_exclusive:
  "cangsta (evaluate_error_state c) AND 0x0E =
     (if cantec c > 255 then 0x08 else if cantec c \<ge> 128 \<or> canrec c \<ge> 128 then 0x04 else 0x02)"
proof -
  have "(s AND NOT k OR m) AND k = m AND k" for s m k :: u8
    by (rule bit_word_eqI) (auto simp: bit_and_iff bit_or_iff bit_not_iff)
  from this[of "cangsta c" "0x0E" 8] this[of "cangsta c" "0x0E" 4] this[of "cangsta c" "0x0E" 2]
  show ?thesis by (simp add: evaluate_error_state_def Let_def)
qed

text \<open>Bus errors alone drive the controller off the bus, and the enable bit with it.\<close>

lemma bus_off: "cantec c \<le> 0xFFF7 \<Longrightarrow> cantec c > 247 \<Longrightarrow> cangcon (simulate_bus_error c) AND 0x02 = 0"
proof -
  assume "cantec c \<le> 0xFFF7" and "cantec c > 247"
  then have "cantec c + 8 > 255" by (simp add: word_less_nat_alt word_le_nat_alt unat_word_ariths)
  then show ?thesis by (simp add: simulate_bus_error_def evaluate_error_state_def Let_def mask_bit bit_and_iff bit_not_iff)
qed

text \<open>A reset of the controller leaves its interrupt as it was: only a later register write evaluates it.\<close>

lemma reset_keeps_interrupt: "canit_pending (can_reset c) = canit_pending c"
  by (simp add: can_reset_def)

text \<open>The overrun of the timer and the end of a transmission raise the same flag.\<close>

lemma shared_flag:
  "cantim c = 0xFFFF \<Longrightarrow> cangit (can_time_quantum c) = cangit c OR 0x10"
  "cangit (complete_transmission i c) = cangit c OR 0x10"
  by (simp_all add: can_time_quantum_def complete_transmission_def update_mob_def Let_def)

end
