(* ===== verification/Lin.thy ===== *)
theory Lin
  imports Pins Periph
begin

text \<open>
  \<open>LinUART\<close> (\<open>src/core/lin.cpp\<close>): the LIN controller, its frame state machine, the checksum and
  the bit-wise transmitter.  A division by zero is the value \<open>None\<close>.  The registers of the
  receiver that nothing reads are left out.
\<close>

section \<open>State\<close>

record lin_descriptor =
  lin_ctrla_address :: u16
  lin_vector_index :: u8
  lincr_lswres_mask :: u8
  lincr_lconf_mask :: u8
  lincr_lcmd_mask :: u8
  linsir_lidst_mask :: u8
  linsir_lbusy_mask :: u8
  linsir_lerr_mask :: u8
  linsir_lidok_mask :: u8
  linsir_ltxok_mask :: u8
  linsir_lrxok_mask :: u8
  lin_pr_address :: u16
  lin_pr_bit :: u8

datatype lin_state = Lin_idle | Lin_sync_break | Lin_sync_field | Lin_identifier | Lin_data | Lin_checksum

record lin =
  lin_desc :: lin_descriptor
  lin_mux :: pin_mux
  lin_tx_pin_address :: u16
  lin_tx_pin_bit :: u8
  lin_state :: lin_state
  lin_int_pending :: bool
  lincr :: u8
  linsir :: u8
  linenir :: u8
  linerr :: u8
  linbtr :: u8
  linidr :: u8
  lindat :: u8
  lin_fifo :: "u8 list"
  lin_fifo_idx :: u8
  expected_data_len :: u8
  lin_sum :: u8
  lin_bit_timer :: u64
  lin_tx_bit_pos :: u8
  lin_tx_shift_reg :: u16
  lin_tx_active :: bool

definition lin_ranges :: "lin_descriptor \<Rightarrow> address_range list" where
  "lin_ranges d =
     (if lin_ctrla_address d \<noteq> 0
      then [\<lparr>range_begin = lin_ctrla_address d, range_end = lin_ctrla_address d + 7\<rparr>] else [])"

definition lin_reset :: "lin \<Rightarrow> lin" where
  "lin_reset s =
     s\<lparr>lincr := 0, linsir := 0, linenir := 0, linerr := 0, linbtr := 0, linidr := 0, lindat := 0,
       lin_state := Lin_idle, lin_fifo := [], lin_fifo_idx := 0, lin_sum := 0, lin_bit_timer := 0, lin_tx_bit_pos := 0,
       lin_tx_shift_reg := 0, lin_tx_active := False, lin_int_pending := False,
       lin_mux := if lin_tx_pin_address s \<noteq> 0
                  then release_pin_by_address (lin_tx_pin_address s) (lin_tx_pin_bit s) Own_uart (lin_mux s)
                  else lin_mux s\<rparr>"

definition lin_update_interrupt :: "lin \<Rightarrow> lin" where
  "lin_update_interrupt s = s\<lparr>lin_int_pending := (linsir s AND 0x0F) AND (linenir s AND 0x0F) \<noteq> 0\<rparr>"

definition lin_pending_interrupt_request :: "lin \<Rightarrow> u8 option" where
  "lin_pending_interrupt_request s =
     (if lin_int_pending s \<and> lin_vector_index (lin_desc s) \<noteq> 0xFF then Some (lin_vector_index (lin_desc s)) else None)"

definition lin_consume_interrupt_request :: "lin \<Rightarrow> u8 option \<times> lin" where
  "lin_consume_interrupt_request s =
     (case lin_pending_interrupt_request s of
        None \<Rightarrow> (None, s) | Some vec \<Rightarrow> (Some vec, s\<lparr>lin_int_pending := False\<rparr>))"

section \<open>Frames\<close>

definition get_frame_length :: "lin \<Rightarrow> u8" where
  "get_frame_length s =
     (let conf = drop_bit 4 (lincr s AND lincr_lconf_mask (lin_desc s))
      in if conf = 0 then 2 else if conf = 1 then 4 else if conf = 2 then 8
         else if conf = 3
         then let i = linidr s AND 0x3F in if i \<le> 31 then 2 else if i \<le> 47 then 4 else 8
         else 0)"

definition add_checksum :: "u8 \<Rightarrow> u8 \<Rightarrow> u8" where
  "add_checksum checksum data =
     (let sum = ucast checksum + ucast data :: u16 in ucast (if sum > 255 then (sum AND 0xFF) + 1 else sum))"

definition calculate_checksum :: "u8 \<Rightarrow> lin \<Rightarrow> lin" where
  "calculate_checksum data s = s\<lparr>lin_sum := add_checksum (lin_sum s) data\<rparr>"

definition simulate_rx_break :: "lin \<Rightarrow> lin" where
  "simulate_rx_break s =
     (if lin_state s = Lin_sync_break \<or> lin_state s = Lin_idle then s\<lparr>lin_state := Lin_sync_field\<rparr> else s)"

definition rx_step :: "u8 \<Rightarrow> lin \<Rightarrow> lin" where
  "rx_step data s =
     (let d = lin_desc s
      in case lin_state s of
           Lin_sync_field \<Rightarrow>
             if data = 0x55 then s\<lparr>lin_state := Lin_identifier\<rparr>
             else s\<lparr>linerr := linerr s OR 0x01, linsir := linsir s OR linsir_lerr_mask d, lin_state := Lin_idle\<rparr>
         | Lin_identifier \<Rightarrow>
             let s = s\<lparr>linidr := data, linsir := linsir s OR linsir_lidok_mask d\<rparr>
             in s\<lparr>expected_data_len := get_frame_length s, lin_state := Lin_data, lin_fifo := [], lin_sum := 0\<rparr>
         | Lin_data \<Rightarrow>
             let s = (calculate_checksum data (s\<lparr>lin_fifo := lin_fifo s @ [data]\<rparr>))\<lparr>lindat := data\<rparr>
             in if length (lin_fifo s) \<ge> unat (expected_data_len s) then s\<lparr>lin_state := Lin_checksum\<rparr> else s
         | Lin_checksum \<Rightarrow>
             let s = (if data = 0xFF - lin_sum s then s\<lparr>linsir := linsir s OR linsir_lrxok_mask d\<rparr>
                      else s\<lparr>linerr := linerr s OR 0x08, linsir := linsir s OR linsir_lerr_mask d\<rparr>)
             in s\<lparr>lin_state := Lin_idle, linsir := linsir s AND NOT (linsir_lbusy_mask d)\<rparr>
         | _ \<Rightarrow> s)"

definition simulate_rx_byte :: "u8 \<Rightarrow> lin \<Rightarrow> lin" where
  "simulate_rx_byte data s = lin_update_interrupt (rx_step data s)"

definition get_tx_data :: "lin \<Rightarrow> u8 list" where
  "get_tx_data s = lin_fifo s"

section \<open>Registers\<close>

definition lin_read :: "u16 \<Rightarrow> lin \<Rightarrow> u8" where
  "lin_read address s =
     (let offset = address - lin_ctrla_address (lin_desc s)
      in if offset = 0 then lincr s else if offset = 1 then linsir s else if offset = 2 then linenir s
         else if offset = 3 then linerr s else if offset = 4 then linbtr s else if offset = 6 then linidr s
         else if offset = 7 then lindat s else 0)"

definition lin_command :: "lin \<Rightarrow> lin" where
  "lin_command s =
     (let lcmd = lincr s AND lincr_lcmd_mask (lin_desc s)
      in if lcmd = 0x01 \<or> lcmd = 0x02
         then s\<lparr>lin_state := Lin_sync_break, linsir := linsir s OR linsir_lbusy_mask (lin_desc s), lin_fifo := [],
                expected_data_len := get_frame_length s\<rparr>
         else s)"

definition write_lincr :: "u8 \<Rightarrow> lin \<Rightarrow> lin" where
  "write_lincr v s0 =
     (let s = s0\<lparr>lincr := v\<rparr>; rst = lincr_lswres_mask (lin_desc s);
          s = (if lincr s AND rst \<noteq> 0 then let s = lin_reset s in s\<lparr>lincr := lincr s AND NOT rst\<rparr> else s)
      in lin_command s)"

definition write_lindat :: "u8 \<Rightarrow> lin \<Rightarrow> lin" where
  "write_lindat v s0 =
     (let s = s0\<lparr>lindat := v\<rparr>; d = lin_desc s
      in if lin_state s = Lin_data
         then let s = calculate_checksum v (s\<lparr>lin_fifo := lin_fifo s @ [v]\<rparr>)
              in if length (lin_fifo s) \<ge> unat (expected_data_len s)
                 then s\<lparr>linsir := (linsir s AND NOT (linsir_lbusy_mask d)) OR linsir_ltxok_mask d, lin_state := Lin_idle\<rparr>
                 else s
         else if lin_state s = Lin_idle then s\<lparr>lin_fifo := lin_fifo s @ [v]\<rparr>
         else s)"

definition lin_write :: "u16 \<Rightarrow> u8 \<Rightarrow> lin \<Rightarrow> lin" where
  "lin_write address v s =
     (let offset = address - lin_ctrla_address (lin_desc s); d = lin_desc s
      in if offset = 0 then write_lincr v s
         else if offset = 1
         then s\<lparr>linsir := linsir s AND NOT (v AND
                  (linsir_lerr_mask d OR linsir_lidok_mask d OR linsir_ltxok_mask d OR linsir_lrxok_mask d))\<rparr>
         else if offset = 2 then s\<lparr>linenir := v\<rparr>
         else if offset = 3 then s\<lparr>linerr := v\<rparr>
         else if offset = 4 then s\<lparr>linbtr := v\<rparr>
         else if offset = 6
         then s\<lparr>linidr := v, linsir := (linsir s AND NOT (linsir_lidst_mask d)) OR push_bit 4 (v AND 0x3F)\<rparr>
         else if offset = 7 then write_lindat v s
         else s)"

section \<open>Transmission\<close>

definition lin_power_reduction :: "u8 \<Rightarrow> lin \<Rightarrow> bool" where
  "lin_power_reduction prr s \<longleftrightarrow>
     \<not> (lin_pr_address (lin_desc s) = 0 \<or> lin_pr_bit (lin_desc s) = 0xFF) \<and> bit prr (unat (lin_pr_bit (lin_desc s)))"

text \<open>The quotients of \<open>tick\<close>; the bit rate register may hold 0 in its low seven bits.\<close>

definition lin_bit_duration :: "lin \<Rightarrow> u64 option" where
  "lin_bit_duration s =
     (if linbtr s > 0 \<and> linbtr s AND 0x7F = 0 then None
      else let baud = (if linbtr s > 0 then 16000000 div ucast (linbtr s AND 0x7F) else 9600 :: u64);
               n = 16000000 div baud
           in Some (if n < 8 then 8 else n))"

definition shift_out :: "lin \<Rightarrow> lin" where
  "shift_out s =
     (let p = lin_tx_bit_pos s;
          bit_val = (if p = 0 then False else if p = 9 then True else bit (lin_tx_shift_reg s) (unat p));
          s = s\<lparr>lin_mux := if lin_tx_pin_address s \<noteq> 0
                 then update_pin_by_address (lin_tx_pin_address s) (lin_tx_pin_bit s) Own_uart True (\<not> bit_val) False False
                        (lin_mux s)
                 else lin_mux s,
               lin_tx_bit_pos := p + 1\<rparr>
      in if lin_tx_bit_pos s \<ge> 10
         then let s = s\<lparr>lin_tx_active := False\<rparr>
              in if lin_state s = Lin_idle \<and> lin_fifo s \<noteq> []
                 then s\<lparr>linsir := (linsir s AND NOT (linsir_lbusy_mask (lin_desc s))) OR linsir_ltxok_mask (lin_desc s)\<rparr>
                 else s
         else s)"

definition lin_start_byte :: "lin \<Rightarrow> lin" where
  "lin_start_byte s =
     (if lincr s AND 0x08 \<noteq> 0 \<and> lincr s AND lincr_lcmd_mask (lin_desc s) = 0x01 \<and> \<not> lin_tx_active s \<and> lin_fifo s \<noteq> []
      then s\<lparr>lin_tx_shift_reg := 0x0200 OR push_bit 1 (ucast (lin_fifo s ! unat (lin_fifo_idx s))),
             lin_tx_bit_pos := 0, lin_tx_active := True, lin_bit_timer := 0,
             linsir := linsir s OR linsir_lbusy_mask (lin_desc s)\<rparr>
      else s)"

definition lin_tick :: "u8 \<Rightarrow> u64 \<Rightarrow> lin \<Rightarrow> lin option" where
  "lin_tick prr elapsed s =
     (if lin_power_reduction prr s then Some s
      else case lin_bit_duration s of
             None \<Rightarrow> None
           | Some duration \<Rightarrow>
               let s = (if lin_tx_active s
                        then let s = s\<lparr>lin_bit_timer := lin_bit_timer s + elapsed\<rparr>
                             in if lin_bit_timer s \<ge> duration
                                then shift_out (s\<lparr>lin_bit_timer := lin_bit_timer s - duration\<rparr>) else s
                        else s)
               in Some (lin_start_byte s))"

section \<open>The checksum\<close>

text \<open>A sum with the carry added back, so it counts modulo 255.\<close>

lemma add_checksum_unat:
  "unat (add_checksum a b) = (if unat a + unat b > 255 then unat a + unat b - 255 else unat a + unat b)"
proof -
  have ab: "unat a < 256" "unat b < 256" by (rule u8_less)+
  have sum: "unat (ucast a + ucast b :: u16) = unat a + unat b" using ab by (simp add: unat_word_ariths)
  show ?thesis
  proof (cases "unat a + unat b > 255")
    case True
    have m: "(w :: u16) AND 0xFF = take_bit 8 w" for w by (simp add: take_bit_eq_mask mask_eq_exp_minus_1)
    have "unat ((ucast a + ucast b :: u16) AND 0xFF) = (unat a + unat b) mod 256"
      unfolding m unsigned_take_bit_eq sum by (simp add: take_bit_eq_mod)
    also have "\<dots> = unat a + unat b - 256" using True ab by (simp add: mod_if)
    finally have "unat (((ucast a + ucast b :: u16) AND 0xFF) + 1) = unat a + unat b - 255"
      using True ab by (simp add: unat_word_ariths)
    with True sum ab show ?thesis
      by (simp add: add_checksum_def word_less_nat_alt unsigned_ucast_eq take_bit_eq_mod)
  next
    case False
    with sum show ?thesis
      by (simp add: add_checksum_def word_less_nat_alt unsigned_ucast_eq take_bit_eq_mod Let_def)
  qed
qed

lemma add_checksum_mod: "unat (add_checksum a b) mod 255 = (unat a + unat b) mod 255"
  by (simp add: add_checksum_unat le_mod_geq[of 255])

definition frame_checksum :: "u8 list \<Rightarrow> u8" where
  "frame_checksum ds = fold (\<lambda>d c. add_checksum c d) ds 0"

lemma frame_checksum_mod: "unat (frame_checksum ds) mod 255 = sum_list (map unat ds) mod 255"
proof -
  have "unat (fold (\<lambda>d c. add_checksum c d) ds c) mod 255 = (unat c + sum_list (map unat ds)) mod 255" for c
  proof (induction ds arbitrary: c)
    case (Cons d ds)
    have "unat (fold (\<lambda>d c. add_checksum c d) (d # ds) c) mod 255 =
        (unat (add_checksum c d) + sum_list (map unat ds)) mod 255" using Cons by simp
    also have "\<dots> = (unat (add_checksum c d) mod 255 + sum_list (map unat ds)) mod 255" by (simp add: mod_simps)
    also have "\<dots> = (unat c + unat d + sum_list (map unat ds)) mod 255"
      unfolding add_checksum_mod by (simp add: mod_simps)
    finally show ?case by (simp add: add.assoc)
  qed simp
  from this[of 0] show ?thesis by (simp add: frame_checksum_def)
qed

text \<open>
  A single changed byte changes the checksum, unless 0x00 and 0xFF were exchanged, which are
  the same modulo 255.
\<close>

theorem checksum_detects_byte:
  assumes "frame_checksum (xs @ a # ys) = frame_checksum (xs @ b # ys)"
  shows "a = b \<or> {a, b} = {0x00, 0xFF}"
proof -
  let ?r = "sum_list (map unat xs) + sum_list (map unat ys)"
  have eq: "(unat a + ?r) mod 255 = (unat b + ?r) mod 255"
    using arg_cong[OF assms, of "\<lambda>c. unat c mod 255"] by (simp add: frame_checksum_mod ac_simps)
  have ab: "unat a < 256" "unat b < 256" by (rule u8_less)+
  have res: "x = y \<or> x = y + 255" if "x < 256" "y \<le> x" "(x + k) mod 255 = (y + k) mod 255" for x y k :: nat
  proof -
    have "255 dvd (x + k) - (y + k)" using that(2,3) mod_eq_dvd_iff_nat[of "y + k" "x + k" 255] by simp
    then obtain q where "x - y = 255 * q" by (auto elim: dvdE)
    then show ?thesis using that(1,2) by (cases q) auto
  qed
  have "unat a = unat b \<or> unat a = 255 \<and> unat b = 0 \<or> unat b = 255 \<and> unat a = 0"
    using res[OF ab(1) _ eq] res[OF ab(2) _ eq[symmetric]] ab by (cases "unat b \<le> unat a") auto
  then show ?thesis by (auto simp: word_unat_eq_iff)
qed

section \<open>A frame received\<close>

definition default_masks :: "lin_descriptor \<Rightarrow> bool" where
  "default_masks d \<longleftrightarrow>
     lincr_lswres_mask d = 0x80 \<and> lincr_lconf_mask d = 0x30 \<and> lincr_lcmd_mask d = 0x07 \<and> linsir_lidst_mask d = 0xE0 \<and>
     linsir_lbusy_mask d = 0x10 \<and> linsir_lerr_mask d = 0x08 \<and> linsir_lidok_mask d = 0x04 \<and>
     linsir_ltxok_mask d = 0x02 \<and> linsir_lrxok_mask d = 0x01"

lemma lin_interrupt_frame [simp]:
  "lin_state (lin_update_interrupt s) = lin_state s" "lin_fifo (lin_update_interrupt s) = lin_fifo s"
  "lin_sum (lin_update_interrupt s) = lin_sum s" "expected_data_len (lin_update_interrupt s) = expected_data_len s"
  "linsir (lin_update_interrupt s) = linsir s" "lin_desc (lin_update_interrupt s) = lin_desc s"
  "linerr (lin_update_interrupt s) = linerr s" "lincr (lin_update_interrupt s) = lincr s"
  "linidr (lin_update_interrupt s) = linidr s" "linenir (lin_update_interrupt s) = linenir s"
  by (simp_all add: lin_update_interrupt_def)

lemma data_bytes:
  assumes "lin_state s = Lin_data" and "length (lin_fifo s) < unat (expected_data_len s)"
    and "length (lin_fifo s) + length ds \<le> unat (expected_data_len s)"
  defines "r \<equiv> fold simulate_rx_byte ds s"
  shows "lin_state r = (if length (lin_fifo s) + length ds = unat (expected_data_len s) then Lin_checksum else Lin_data)"
    and "lin_fifo r = lin_fifo s @ ds" and "lin_sum r = fold (\<lambda>d c. add_checksum c d) ds (lin_sum s)"
    and "linsir r = linsir s" and "lin_desc r = lin_desc s" and "linenir r = linenir s"
    and "expected_data_len r = expected_data_len s"
proof -
  have "lin_state r = (if length (lin_fifo s) + length ds = unat (expected_data_len s) then Lin_checksum else Lin_data) \<and>
    lin_fifo r = lin_fifo s @ ds \<and> lin_sum r = fold (\<lambda>d c. add_checksum c d) ds (lin_sum s) \<and>
    linsir r = linsir s \<and> lin_desc r = lin_desc s \<and> linenir r = linenir s \<and> expected_data_len r = expected_data_len s"
    unfolding r_def using assms(1-3)
  proof (induction ds arbitrary: s)
    case (Cons d ds)
    let ?s = "simulate_rx_byte d s"
    have s: "lin_state ?s = (if Suc (length (lin_fifo s)) \<ge> unat (expected_data_len s) then Lin_checksum else Lin_data)"
      "lin_fifo ?s = lin_fifo s @ [d]" "lin_sum ?s = add_checksum (lin_sum s) d" "linsir ?s = linsir s"
      "lin_desc ?s = lin_desc s" "linenir ?s = linenir s" "expected_data_len ?s = expected_data_len s"
      using Cons.prems by (simp_all add: simulate_rx_byte_def rx_step_def calculate_checksum_def Let_def)
    show ?case
    proof (cases ds)
      case Nil
      then show ?thesis using s Cons.prems by auto
    next
      case (Cons e es)
      then have "lin_state ?s = Lin_data" "length (lin_fifo ?s) < unat (expected_data_len ?s)"
        "length (lin_fifo ?s) + length ds \<le> unat (expected_data_len ?s)"
        using s Cons.prems by auto
      from Cons.IH[OF this] s show ?thesis by simp
    qed
  qed simp
  then show "lin_state r = (if length (lin_fifo s) + length ds = unat (expected_data_len s) then Lin_checksum else Lin_data)"
    "lin_fifo r = lin_fifo s @ ds" "lin_sum r = fold (\<lambda>d c. add_checksum c d) ds (lin_sum s)"
    "linsir r = linsir s" "lin_desc r = lin_desc s" "linenir r = linenir s" "expected_data_len r = expected_data_len s"
    by simp_all
qed

text \<open>
  A frame - break, synchronisation field, identifier, as many bytes as the identifier or the
  configuration announces, checksum - leaves its data in the buffer and sets LRXOK when the
  checksum is the complement of the sum, LERR with the checksum error otherwise.
\<close>

lemma frame_length_cong:
  "lincr u = lincr w \<Longrightarrow> lin_desc u = lin_desc w \<Longrightarrow> linidr u = linidr w \<Longrightarrow> get_frame_length u = get_frame_length w"
  by (simp add: get_frame_length_def Let_def)

theorem frame_received:
  fixes c :: u8
  assumes d: "default_masks (lin_desc s)" and idle: "lin_state s = Lin_idle \<or> lin_state s = Lin_sync_break"
    and clear: "linsir s AND 0x09 = 0"
    and len: "length ds = unat (get_frame_length (s\<lparr>linidr := pid\<rparr>))" "ds \<noteq> []"
  defines "r \<equiv> fold simulate_rx_byte ([0x55, pid] @ ds @ [c]) (simulate_rx_break s)"
  shows "lin_state r = Lin_idle" and "lin_fifo r = ds"
    and "linsir r AND 0x01 \<noteq> 0 \<longleftrightarrow> c = 0xFF - frame_checksum ds"
    and "linsir r AND 0x08 \<noteq> 0 \<longleftrightarrow> c \<noteq> 0xFF - frame_checksum ds"
proof -
  define a where "a = simulate_rx_byte pid (simulate_rx_byte 0x55 (simulate_rx_break s))"
  have "lin_state (simulate_rx_break s) = Lin_sync_field" "simulate_rx_break s = s\<lparr>lin_state := Lin_sync_field\<rparr>"
    using idle by (auto simp: simulate_rx_break_def)
  then have a: "lin_state a = Lin_data" "lin_fifo a = []" "lin_sum a = 0" "lin_desc a = lin_desc s"
    "linsir a = linsir s OR linsir_lidok_mask (lin_desc s)"
    "expected_data_len a = get_frame_length (s\<lparr>linidr := pid\<rparr>)"
    by (simp_all add: a_def simulate_rx_byte_def rx_step_def lin_update_interrupt_def Let_def)
      (rule frame_length_cong; simp)
  define b where "b = fold simulate_rx_byte ds a"
  have b: "lin_state b = Lin_checksum" "lin_fifo b = ds" "lin_sum b = frame_checksum ds" "linsir b = linsir a"
    "lin_desc b = lin_desc s"
  proof -
    have "0 < unat (get_frame_length (s\<lparr>linidr := pid\<rparr>))" using len by (cases ds) auto
    then show "lin_state b = Lin_checksum" "lin_fifo b = ds" "lin_sum b = frame_checksum ds" "linsir b = linsir a"
      "lin_desc b = lin_desc s"
      using data_bytes[of a ds] a len(1) by (simp_all add: b_def frame_checksum_def)
  qed
  have r: "r = simulate_rx_byte c b" by (simp add: r_def b_def a_def)
  show "lin_state r = Lin_idle" "lin_fifo r = ds" using b by (simp_all add: r simulate_rx_byte_def rx_step_def Let_def)
  have bits: "\<not> bit (linsir s) 0" "\<not> bit (linsir s) 3"
    using arg_cong[OF clear, of "\<lambda>w. bit w 0"] arg_cong[OF clear, of "\<lambda>w. bit w 3"] by (simp_all add: bit_and_iff)
  show "linsir r AND 0x01 \<noteq> 0 \<longleftrightarrow> c = 0xFF - frame_checksum ds"
    "linsir r AND 0x08 \<noteq> 0 \<longleftrightarrow> c \<noteq> 0xFF - frame_checksum ds"
    using b a d bits
    by (simp_all add: r simulate_rx_byte_def rx_step_def default_masks_def Let_def mask_bit bit_or_iff bit_and_iff
        bit_not_iff)
qed

section \<open>What the registers do\<close>

text \<open>A bit rate register of 0x80 divides by zero in the next tick.\<close>

lemma division_by_zero: "\<not> lin_power_reduction prr s \<Longrightarrow> linbtr s = 0x80 \<Longrightarrow> lin_tick prr n s = None"
  by (simp add: lin_tick_def lin_bit_duration_def)

lemma tick_defined: "linbtr s AND 0x7F \<noteq> 0 \<or> linbtr s = 0 \<Longrightarrow> lin_tick prr n s \<noteq> None"
  by (auto simp: lin_tick_def lin_bit_duration_def Let_def)

text \<open>Writing an odd identifier reports the controller busy: the identifier is shifted into that bit.\<close>

lemma identifier_sets_busy:
  assumes "lin_ctrla_address (lin_desc s) = a" and "bit v 0"
  shows "linsir (lin_write (a + 6) v s) AND 0x10 \<noteq> 0"
  using assms by (simp add: lin_write_def mask_bit bit_or_iff bit_push_bit_iff bit_and_iff)

text \<open>The transmitter drives the start bit high and the stop bit low.\<close>

lemma inverted_line:
  assumes "lin_tx_pin_address s \<noteq> 0"
  shows "lin_tx_bit_pos s = 0 \<Longrightarrow> lin_mux (shift_out s) =
      update_pin_by_address (lin_tx_pin_address s) (lin_tx_pin_bit s) Own_uart True True False False (lin_mux s)"
    and "lin_tx_bit_pos s = 9 \<Longrightarrow> lin_mux (shift_out s) =
      update_pin_by_address (lin_tx_pin_address s) (lin_tx_pin_bit s) Own_uart True False False False (lin_mux s)"
  using assms by (simp_all add: shift_out_def Let_def)

text \<open>No write to a register evaluates the interrupt, so neither LTXOK nor LINENIR ever raises it.\<close>

lemma write_keeps_interrupt:
  assumes "a - lin_ctrla_address (lin_desc s) \<noteq> 0"
  shows "lin_int_pending (lin_write a v s) = lin_int_pending s"
  using assms by (simp add: lin_write_def write_lindat_def calculate_checksum_def Let_def)

end
