(* ===== verification/Usi.thy ===== *)
theory Usi
  imports Pins Periph
begin

text \<open>
  \<open>Usi\<close> (\<open>src/core/usi.cpp\<close>): the universal serial interface, a shift register and a 4-bit
  counter clocked by the SCL pin, by Timer0 or by software, with the start and stop detector
  of the two-wire mode.
\<close>

section \<open>State\<close>

record usi_descriptor =
  usicr_address :: u16
  usisr_address :: u16
  usidr_address :: u16
  usibr_address :: u16
  usi_start_vector_index :: u8
  usi_overflow_vector_index :: u8
  sda_pin_address :: u16
  sda_pin_bit :: u8
  scl_pin_address :: u16
  scl_pin_bit :: u8
  do_pin_address :: u16
  do_pin_bit :: u8

record usi =
  usi_desc :: usi_descriptor
  usi_mux :: "pin_mux option"
  usicr :: u8
  usisr :: u8
  usidr :: u8
  usibr :: u8
  usi_int_pending :: bool
  prev_sda :: bool
  prev_scl :: bool
  prev_do :: bool
  timer0_clock_pending :: u8

definition usi_ranges :: "usi_descriptor \<Rightarrow> address_range list" where
  "usi_ranges d =
     map (\<lambda>a. \<lparr>range_begin = a, range_end = a\<rparr>)
       (filter (\<lambda>a. a \<noteq> 0) [usicr_address d, usisr_address d, usidr_address d, usibr_address d])"

definition usi_reset :: "usi \<Rightarrow> usi" where
  "usi_reset s =
     s\<lparr>usicr := 0, usisr := 0, usidr := 0, usibr := 0, usi_int_pending := False, prev_sda := False, prev_scl := False,
       prev_do := False, timer0_clock_pending := 0\<rparr>"

definition usi_clock_source :: "u8 \<Rightarrow> u8" where
  "usi_clock_source v = v AND 0x0C"

definition is_twowire :: "usi \<Rightarrow> bool" where
  "is_twowire s \<longleftrightarrow> usicr s AND 0x30 \<noteq> 0"

definition usi_update_interrupt :: "usi \<Rightarrow> usi" where
  "usi_update_interrupt s =
     s\<lparr>usi_int_pending := usicr s AND 0x80 \<noteq> 0 \<and> usisr s AND 0x80 \<noteq> 0 \<or>
         usicr s AND 0x40 \<noteq> 0 \<and> usisr s AND 0x40 \<noteq> 0\<rparr>"

definition usi_pending_interrupt_request :: "usi \<Rightarrow> u8 option" where
  "usi_pending_interrupt_request s =
     (if \<not> usi_int_pending s then None
      else if usicr s AND 0x80 \<noteq> 0 \<and> usisr s AND 0x80 \<noteq> 0 then Some (usi_start_vector_index (usi_desc s))
      else if usicr s AND 0x40 \<noteq> 0 \<and> usisr s AND 0x40 \<noteq> 0 then Some (usi_overflow_vector_index (usi_desc s))
      else None)"

definition usi_consume_interrupt_request :: "usi \<Rightarrow> u8 option \<times> usi" where
  "usi_consume_interrupt_request s =
     (if \<not> usi_int_pending s then (None, s)
      else if usicr s AND 0x80 \<noteq> 0 \<and> usisr s AND 0x80 \<noteq> 0
      then (Some (usi_start_vector_index (usi_desc s)), usi_update_interrupt (s\<lparr>usisr := usisr s AND NOT 0x80\<rparr>))
      else if usicr s AND 0x40 \<noteq> 0 \<and> usisr s AND 0x40 \<noteq> 0
      then (Some (usi_overflow_vector_index (usi_desc s)), usi_update_interrupt (s\<lparr>usisr := usisr s AND NOT 0x40\<rparr>))
      else (None, s))"

section \<open>Clocks\<close>

definition on_timer0_clock :: "usi \<Rightarrow> usi" where
  "on_timer0_clock s =
     (if usi_clock_source (usicr s) = 0x08 then s\<lparr>timer0_clock_pending := timer0_clock_pending s + 1\<rparr> else s)"

definition shift_clock :: "bool \<Rightarrow> usi \<Rightarrow> usi" where
  "shift_clock sda_level s =
     (let s = (if is_twowire s \<and> usidr s AND 0x80 \<noteq> 0 \<and> \<not> sda_level then s\<lparr>usisr := usisr s OR 0x10\<rparr> else s);
          s = s\<lparr>usidr := push_bit 1 (usidr s) OR (if sda_level then 1 else 0)\<rparr>;
          cnt = usisr s AND 0x0F
      in if cnt < 15 then s\<lparr>usisr := (usisr s AND NOT 0x0F) OR (cnt + 1 AND 0x0F)\<rparr>
         else usi_update_interrupt (s\<lparr>usisr := (usisr s AND NOT 0x0F) OR 0x40\<rparr>))"

definition pin_level :: "u16 \<Rightarrow> u8 \<Rightarrow> usi \<Rightarrow> bool" where
  "pin_level a b s = (case usi_mux s of None \<Rightarrow> False | Some m \<Rightarrow> ps_drive_level (get_state_by_address m a b))"

definition sda_level :: "usi \<Rightarrow> bool" where
  "sda_level s = pin_level (sda_pin_address (usi_desc s)) (sda_pin_bit (usi_desc s)) s"

definition scl_level :: "usi \<Rightarrow> bool" where
  "scl_level s = pin_level (scl_pin_address (usi_desc s)) (scl_pin_bit (usi_desc s)) s"

definition usi_drive :: "u16 \<Rightarrow> u8 \<Rightarrow> pin_owner \<Rightarrow> bool \<Rightarrow> usi \<Rightarrow> usi" where
  "usi_drive a b own level s = s\<lparr>usi_mux := map_option (update_pin_by_address a b own True level False False) (usi_mux s)\<rparr>"

definition detect_conditions :: "bool \<Rightarrow> bool \<Rightarrow> usi \<Rightarrow> usi" where
  "detect_conditions cur_sda cur_scl s =
     (if is_twowire s \<and> prev_scl s \<and> cur_scl \<and> prev_sda s \<and> \<not> cur_sda
      then usi_update_interrupt (s\<lparr>usisr := (usisr s OR 0x80) AND NOT 0x30\<rparr>)
      else if is_twowire s \<and> prev_scl s \<and> cur_scl \<and> \<not> prev_sda s \<and> cur_sda
      then usi_update_interrupt (s\<lparr>usisr := usisr s OR 0x20\<rparr>)
      else s)"

definition update_do :: "usi \<Rightarrow> usi" where
  "update_do s =
     (let do_val = (usidr s AND 0x80 \<noteq> 0)
      in if usi_mux s \<noteq> None \<and> \<not> is_twowire s \<and> do_pin_address (usi_desc s) \<noteq> 0 \<and> do_val \<noteq> prev_do s
         then (usi_drive (do_pin_address (usi_desc s)) (do_pin_bit (usi_desc s)) Own_spi do_val s)\<lparr>prev_do := do_val\<rparr>
         else s)"

text \<open>One iteration of the loop of \<open>tick\<close>.\<close>

definition usi_cycle :: "usi \<Rightarrow> usi" where
  "usi_cycle s =
     (let clk_src = usi_clock_source (usicr s); ext_mode = (clk_src = 0x00 \<or> clk_src = 0x04);
          has_pins = (scl_pin_address (usi_desc s) \<noteq> 0 \<and> usi_mux s \<noteq> None);
          cur_sda = (has_pins \<and> sda_level s); cur_scl = (has_pins \<and> scl_level s);
          s = (if has_pins
               then let s = detect_conditions cur_sda cur_scl s
                    in if ext_mode \<and> \<not> prev_scl s \<and> cur_scl then shift_clock cur_sda s else s
               else s);
          s = (if clk_src = 0x08
               then ((shift_clock cur_sda ^^ unat (timer0_clock_pending s)) s)\<lparr>timer0_clock_pending := 0\<rparr> else s);
          s = update_do s
      in s\<lparr>prev_sda := cur_sda, prev_scl := cur_scl\<rparr>)"

definition usi_tick :: "u64 \<Rightarrow> usi \<Rightarrow> usi" where
  "usi_tick elapsed = usi_cycle ^^ unat elapsed"

section \<open>Registers\<close>

definition usi_read :: "u16 \<Rightarrow> usi \<Rightarrow> u8" where
  "usi_read address s =
     (let d = usi_desc s
      in if address = usicr_address d then usicr s AND NOT 0x03
         else if address = usisr_address d then usisr s
         else if address = usidr_address d then usidr s
         else if address = usibr_address d then usibr s
         else 0)"

definition toggle_scl :: "usi \<Rightarrow> usi" where
  "toggle_scl s =
     (if scl_pin_address (usi_desc s) \<noteq> 0
      then usi_drive (scl_pin_address (usi_desc s)) (scl_pin_bit (usi_desc s)) Own_timer (\<not> scl_level s) s else s)"

definition write_usicr :: "u8 \<Rightarrow> usi \<Rightarrow> usi" where
  "write_usicr v s =
     (let clk_src = usi_clock_source v;
          strobe = (v AND 0x02 \<noteq> 0 \<and> (clk_src = 0x04 \<or> clk_src = 0x0C));
          s = s\<lparr>usicr := v AND 0xFC\<rparr>;
          s = (if strobe then let s = s\<lparr>usicr := usicr s OR 0x02\<rparr> in shift_clock (sda_level s) s else s)
      in if v AND 0x01 \<noteq> 0
         then let s = toggle_scl s in if clk_src = 0x00 \<or> clk_src = 0x04 then shift_clock (sda_level s) s else s
         else s)"

definition write_usisr :: "u8 \<Rightarrow> usi \<Rightarrow> usi" where
  "write_usisr v s =
     (let cnt_set = v AND 0x0F;
          s = s\<lparr>usisr := (usisr s AND NOT (v AND 0xF0) AND NOT 0x0F) OR cnt_set\<rparr>;
          s = (if cnt_set > 0 then s\<lparr>usisr := usisr s AND NOT 0x80\<rparr> else s)
      in usi_update_interrupt s)"

definition usi_write :: "u16 \<Rightarrow> u8 \<Rightarrow> usi \<Rightarrow> usi" where
  "usi_write address v s =
     (let d = usi_desc s
      in if address = usicr_address d then write_usicr v s
         else if address = usisr_address d then write_usisr v s
         else if address = usidr_address d then s\<lparr>usidr := v\<rparr>
         else s)"

section \<open>Shifting\<close>

text \<open>After \<open>n\<close> clocks the register holds the last levels of the line above them, oldest first.\<close>

lemma shift_clock_data: "usidr (shift_clock b s) = push_bit 1 (usidr s) OR (if b then 1 else 0)"
  by (simp add: shift_clock_def usi_update_interrupt_def Let_def)

theorem shifted_in:
  assumes "k < 8"
  shows "bit (usidr (fold shift_clock bs s)) k \<longleftrightarrow>
    (if k < length bs then bs ! (length bs - 1 - k) else bit (usidr s) (k - length bs))"
  using assms
proof (induction bs arbitrary: k rule: rev_induct)
  case (snoc b bs)
  have "bit (usidr (fold shift_clock (bs @ [b]) s)) k \<longleftrightarrow> (if k = 0 then b else bit (usidr (fold shift_clock bs s)) (k - 1))"
    using snoc.prems unfolding fold_append fold_simps comp_def id_apply shift_clock_data bit_or_iff bit_push_bit_iff
    by (cases k) auto
  then show ?case using snoc.IH[of "k - 1"] snoc.prems by (cases k) (auto simp: nth_append)
qed simp

lemma byte_received: "length bs = 8 \<Longrightarrow> bit (usidr (fold shift_clock bs s)) k \<longleftrightarrow> k < 8 \<and> bs ! (7 - k)"
  using shifted_in[of k bs s] bit_imp_le_length[of "usidr (fold shift_clock bs s)" k] by auto

text \<open>The counter counts the clocks modulo 16 and raises the overflow flag when it comes round.\<close>

lemma shift_clock_counter:
  "unat (usisr (shift_clock b s) AND 0x0F) = Suc (unat (usisr s AND 0x0F)) mod 16"
  "usisr (shift_clock b s) AND 0x40 \<noteq> 0 \<longleftrightarrow> usisr s AND 0x40 \<noteq> 0 \<or> unat (usisr s AND 0x0F) = 15"
proof -
  define w where "w = (if is_twowire s \<and> usidr s AND 0x80 \<noteq> 0 \<and> \<not> b then usisr s OR 0x10 else usisr s)"
  let ?c = "usisr s AND 0x0F"
  have low: "unat (y AND 0x0F) = unat y mod 16" for y :: u8
  proof -
    have "y AND 0x0F = take_bit 4 y" by (simp add: take_bit_eq_mask mask_eq_exp_minus_1)
    then show ?thesis by (simp only: unsigned_take_bit_eq) (simp add: take_bit_eq_mod)
  qed
  have keep: "(x AND NOT k OR y) AND k = y AND k" "(x OR y) AND k = (x AND k) OR (y AND k)" for x y k :: u8
    by (rule bit_word_eqI, auto simp: bit_and_iff bit_or_iff bit_not_iff)+
  have c: "w AND 0x0F = ?c" and f: "bit w 6 = bit (usisr s) 6"
    using keep(2)[of "usisr s" "0x10" "0x0F"] by (auto simp: w_def bit_or_iff)
  define z where "z = (if ?c < 15 then ?c + 1 AND 0x0F else 0x40)"
  have sr: "usisr (shift_clock b s) = (w AND NOT 0x0F) OR z"
  proof -
    have "usisr (if is_twowire s \<and> usidr s AND 0x80 \<noteq> 0 \<and> \<not> b then s\<lparr>usisr := usisr s OR 0x10\<rparr> else s) = w"
      by (simp add: w_def)
    then show ?thesis using c by (simp add: shift_clock_def usi_update_interrupt_def Let_def z_def)
  qed
  have lim: "unat ?c < 16" by (simp add: low)
  have up: "unat (?c + 1) = Suc (unat ?c)" using lim by (simp add: unat_word_ariths)
  have "unat (z AND 0x0F) = Suc (unat ?c) mod 16"
  proof (cases "?c < 15")
    case True
    then show ?thesis using up by (simp only: z_def if_True low) simp
  next
    case False
    then have "unat ?c = 15" using lim by (simp add: word_less_nat_alt)
    with False show ?thesis by (simp add: z_def)
  qed
  then show "unat (usisr (shift_clock b s) AND 0x0F) = Suc (unat ?c) mod 16" unfolding sr keep(1) .
  have "bit z 6 \<longleftrightarrow> unat ?c = 15"
    using lim by (auto simp: z_def bit_and_iff word_less_nat_alt)
  then show "usisr (shift_clock b s) AND 0x40 \<noteq> 0 \<longleftrightarrow> usisr s AND 0x40 \<noteq> 0 \<or> unat ?c = 15"
    unfolding sr using f by (simp add: mask_bit bit_or_iff bit_and_iff bit_not_iff)
qed

theorem shift_count:
  "unat (usisr (fold shift_clock bs s) AND 0x0F) = (unat (usisr s AND 0x0F) + length bs) mod 16 \<and>
   (usisr (fold shift_clock bs s) AND 0x40 \<noteq> 0 \<longleftrightarrow>
     usisr s AND 0x40 \<noteq> 0 \<or> unat (usisr s AND 0x0F) + length bs \<ge> 16)"
proof (induction bs arbitrary: s)
  case Nil
  have "unat (usisr s AND 0x0F) < 16" using word_and_le_bound[of "0x0F" "0x10" "usisr s"] by (simp add: word_less_nat_alt)
  then show ?case by simp
next
  case (Cons b bs)
  let ?n = "unat (usisr s AND 0x0F)"
  have lim: "?n < 16" using word_and_le_bound[of "0x0F" "0x10" "usisr s"] by (simp add: word_less_nat_alt)
  have "unat (usisr (fold shift_clock (b # bs) s) AND 0x0F) = (Suc ?n mod 16 + length bs) mod 16"
    using Cons.IH[of "shift_clock b s"] by (simp add: shift_clock_counter(1))
  then have "unat (usisr (fold shift_clock (b # bs) s) AND 0x0F) = (?n + length (b # bs)) mod 16"
    by (simp add: mod_simps)
  moreover have "usisr (fold shift_clock (b # bs) s) AND 0x40 \<noteq> 0 \<longleftrightarrow>
      (usisr s AND 0x40 \<noteq> 0 \<or> ?n = 15) \<or> Suc ?n mod 16 + length bs \<ge> 16"
    using Cons.IH[of "shift_clock b s"] by (simp add: shift_clock_counter)
  moreover have "(usisr s AND 0x40 \<noteq> 0 \<or> ?n = 15) \<or> Suc ?n mod 16 + length bs \<ge> 16 \<longleftrightarrow>
      usisr s AND 0x40 \<noteq> 0 \<or> ?n + length (b # bs) \<ge> 16"
    using lim by (auto simp: mod_Suc)
  ultimately show ?case by blast
qed

text \<open>Enabling an interrupt whose flag is up does not raise it: only the flags evaluate the line.\<close>

lemma enable_keeps_line:
  assumes "v AND 0x03 = 0"
  shows "usi_int_pending (write_usicr v s) = usi_int_pending s"
proof -
  have "v AND 0x02 = 0" "v AND 0x01 = 0"
    using arg_cong[OF assms, of "\<lambda>w. bit w 0"] arg_cong[OF assms, of "\<lambda>w. bit w 1"]
    by (simp_all add: mask_bit bit_and_iff)
  then show ?thesis by (simp add: write_usicr_def)
qed

end
