(* ===== verification/Spec2Isabelle.thy ===== *)
theory Spec2Isabelle
  imports Arithmetic Interrupts HexSpec Pinint Timer8 Uart Crc Evsys Tracebuf GdbSpec DmaSpec SpiSpec TwiSpec CclSpec
    Rtc Timer16 Tcb Can Lin Usi
begin

text \<open>
  VioAVR is an instruction-set simulator for AVR microcontrollers, written in C++.  An
  \<open>AvrCpu\<close> executes the flash of a \<open>MemoryBus\<close>; the bus maps the data space onto SRAM,
  mapped memories and the registers of attached \<open>IoPeripheral\<close>s, ticks the peripherals as
  cycles pass, runs the \<open>EventScheduler\<close>, and arbitrates the interrupts the peripherals
  request; a \<open>SyncEngine\<close> can hold the CPU back for co-simulation.  Around this machine
  stand peripherals that meet at pins (\<open>PinMux\<close>), the loader, the event system and the
  debugger.  This development is a shallow embedding of these parts and the theorems that
  make them correct.  C++ integers are words of their width, objects are records, pointers
  to peripherals are indices, exceptions and undefined behaviour are error values, and a
  method is a function of the states it can touch.

  The simulator as one machine (\<open>src/core/avr_cpu.cpp\<close>, \<open>memory_bus.cpp\<close> and what they own):
  \<open>Prelude\<close> holds the integer types and shared lemmas; \<open>Alu\<close> the status register and its flag
  arithmetic; \<open>Device\<close> the device descriptor; \<open>Sync\<close> the synchronisation policies and engine;
  \<open>Scheduler\<close> the event queue; \<open>Periph\<close>, \<open>Watchdog\<close>, \<open>Nonvolatile\<close> and \<open>Xmem\<close> the registers of
  the peripherals that act on the CPU or the bus; \<open>State\<close> the record \<open>machine\<close> that joins
  them; \<open>Bus\<close> the interrupt logic and the flash commands; \<open>Machine\<close> the data space, the
  virtual calls to peripherals, ticking and events; \<open>Cpu\<close> clock, data bus, stack and interrupt
  entry; \<open>Exec\<close>, \<open>ExecMem\<close> and \<open>Des\<close> the instruction handlers; \<open>Decode\<close> the instruction
  table; \<open>Step\<close> and \<open>Run\<close> the two execution loops with their fast paths; \<open>Construct\<close>
  constructors and attachment; \<open>Hex\<close> the Intel HEX loader.

  Components of their own, each with the state it keeps: \<open>Pins\<close> (\<open>pin_mux.cpp\<close>), \<open>Gpio\<close>
  (\<open>gpio_port.cpp\<close>), \<open>Pinint\<close> (\<open>ext_interrupt.cpp\<close>, \<open>pin_change_interrupt.cpp\<close>), \<open>Timer8\<close>
  (\<open>timer8.cpp\<close>), \<open>Uart\<close> (\<open>uart.cpp\<close>), \<open>Crc\<close> (\<open>crc8x.cpp\<close>), \<open>Evsys\<close> (\<open>evsys.cpp\<close>), \<open>Tracebuf\<close>
  (\<open>trace_buffer.cpp\<close>), \<open>Dma\<close> (\<open>dma.cpp\<close>), \<open>Gdb\<close> (\<open>gdb_stub.cpp\<close>), \<open>Spi\<close> (\<open>spi.cpp\<close>), \<open>Twi\<close>
  (\<open>twi.cpp\<close> and the calls of the bus that connect two of them), \<open>Usi\<close> (\<open>usi.cpp\<close>), \<open>Lin\<close>
  (\<open>lin.cpp\<close>), \<open>Can\<close> (\<open>can.cpp\<close>), \<open>Timer16\<close> (\<open>timer16.cpp\<close>), \<open>Rtc\<close> (\<open>rtc.cpp\<close>), \<open>Tcb\<close>
  (\<open>tcb.cpp\<close>) and \<open>Ccl\<close> (\<open>ccl.cpp\<close>); \<open>Regmap\<close> is the address-range computation their
  constructors share and \<open>Wires\<close> the contract of the pins they drive.  A multiplexer several
  of them point to is a field of the one under study, a value they read over the bus is an
  argument, and calls to callbacks or to parts that are not modelled are recorded in order.
  \<open>Dma\<close> and \<open>Gdb\<close> work on the machine itself.

  What is proved.  \<open>Alu\<close> and \<open>Arithmetic\<close> relate flags and results to arithmetic (C5 to C9);
  \<open>Dispatch\<close> shows that the four copies of the instruction semantics agree (C2 to C4); \<open>Des\<close> that
  decryption undoes encryption (C1).  \<open>Passing\<close>, \<open>Execution\<close>, \<open>Frame\<close> and \<open>Quiet\<close> carry relations
  between machines through the passing of time and through any number of instructions;
  \<open>Topology\<close>, \<open>Invariant\<close> and \<open>Protection\<close> instantiate them to what construction fixes and what
  lock bits protect (C11 to C13).  \<open>Stack\<close> and \<open>Interrupts\<close> treat calls, interrupt entry and
  return, arbitration and the delay after SEI (C10, C14 to C17).  \<open>HexSpec\<close> specifies the loader by
  an encoder (C18 to C21).  Pins, ports and pin interrupts: ownership in every reachable state,
  readback, the exact sense conditions (C22 to C26).  Timer and USART: ticking is additive, the
  counter counts modulo its top, a frame is sent and received bit by bit (C27 to C30).  The CRC
  detects a changed word (C31), the event system routes by its registers (C32), the trace ring
  refines the history of snapshots (C33), the debugger's memory packets round trip and its register
  numbers clash (C34, C35), a DMA block is copied (C36).  An SPI transfer exchanges bytes between
  the pins (C37, C38), a TWI master and slave pass a byte (C39), the settling loop of the logic cells
  reaches a fixed point or gives up (C40).  The counters of \<open>Timer16\<close>, \<open>Rtc\<close> and \<open>Tcb\<close> count
  additively or in closed form, the message objects of \<open>Can\<close> transmit in the order of priority, the
  checksum of \<open>Lin\<close> detects a changed byte, \<open>Usi\<close> shifts a byte in eight clocks; each of these
  theories states also where the code departs from the data sheet.  \<open>Sample\<close> and \<open>DataCells\<close>
  provide the concrete machine of the examples and its plain memory.

  Interfaces.  \<open>event_queue\<close> is interpreted by the scheduler, \<open>time_stable\<close> and \<open>execution_stable\<close> by
  the frames and invariants above, \<open>cell_memory\<close> by the stack's SRAM and by the data space of
  the bus, \<open>contest\<close> (in \<open>Contest\<close>) by the arbitration of interrupts and by that of CAN messages,
  \<open>feistel\<close> by the cipher, \<open>wire_bus\<close> by the pin multiplexer, \<open>prescaled\<close> by the two counters of
  the real-time counter.

  Loops and bounds.  Loops over data are structural.  The quantum loop of the
  synchronisation engine diverges for a quantum of 0 and is \<open>partial_function (option)\<close>; the loop
  that drains due events and the loop of \<open>run\<close>, which peripherals or programs can keep going,
  are \<open>while_option\<close>.  In each case a call that does not return is the value \<open>None\<close>, and
  the machine it would have returned is marked \<open>hung\<close>; nothing is fuelled.  The beat loop of DMA and
  the packet loop of the debugger have termination proofs, by the bytes left to copy and the
  input left to read, and the timer loop of CAN by the prescaler it lowers; the settling loop of the logic
  cells makes at most 100 passes, as in the source; the division by zero of the LIN baud rate is
  \<open>None\<close>.  Cycle counts are 64-bit words and wrap as in the source.

  Not modelled, and why.  The JIT of \<open>run\<close> emits x86 code, whose meaning is that of the host;
  \<open>run_duration\<close>, the analog side of pins and the analog peripherals compute with floating-point
  voltages; file and socket I/O, threads and the user interface are the environment.  The
  timers A, D, E, 10 and TC and the newer USART, SPI, TWI and USB classes are register machines of the
  kind of the modelled ones and have no model of their own.  The tables of the device headers and
  the assembly of a machine from them are data: a descriptor is an argument here.  Callbacks of the
  logic cells that re-enter the cell under evaluation are recorded, not run.  Branches for a null
  bus pointer are dropped where construction always sets it.
\<close>

end
